(* ===== verification/Phlo_Prelude.thy ===== *)
theory Phlo_Prelude
  imports
    Main
    "HOL-Library.AList"
    "HOL-Library.Char_ord"
    "HOL-Library.List_Lexorder"
    "HOL-Library.Product_Lexorder"
    "HOL-Library.Multiset"
begin

text \<open>
  The Python vocabulary shared by every component of the development: exceptions as the left side
  of a sum, dictionaries as association lists in insertion order, \<open>str\<close> as character lists (one
  \<open>char\<close> per code point, code points 0 to 255), the JSON values that payloads carry, and the pieces
  of the standard library the code uses on them (\<open>str.strip\<close>, \<open>repr\<close>, \<open>str.join\<close>,
  \<open>json.dumps\<close>).
\<close>

section \<open>Proof collections\<close>

named_theorems dict_simps \<open>dictionary lookup and update\<close>
named_theorems err_simps \<open>case analysis on computations that may raise\<close>

section \<open>Exceptions\<close>

datatype py_error =
    ValueError string
  | KeyError string
  | TypeError
  | IndexError
  | AssertionError
  | StorageCorruptionError string
  | LegacyOverlayError string
  | SchemaMigrationPlanningError string
  | OperationJournalError string "string list"
  | MigrationInstructionError string
  | RuntimeError string
  | AuditPersistenceError string
  | DatabaseError string
  | IdentityConflictError string
  | PermissionError string
  | FileNotFoundError string
  | UnsupportedSurfaceError string string
  | RunEvidenceUnavailable string
  | RunEvidenceNotFound string
  | IdempotencyConflict string
  | InvalidRunEvidence string
  | EvidenceProfileCompositionError string "string list"
  | DatasetStoreResolutionError
  | NotImplementedError
  | OverflowError
  | UntypedPayload

type_synonym 'a res = "py_error + 'a"

text \<open>Sequencing: a raise stops the computation.\<close>

definition bind_res :: "'a res \<Rightarrow> ('a \<Rightarrow> 'b res) \<Rightarrow> 'b res" where
  "bind_res m f = (case m of Inl e \<Rightarrow> Inl e | Inr x \<Rightarrow> f x)"

lemma bind_res_simps [simp]:
  "bind_res (Inl e) f = Inl e"
  "bind_res (Inr x) f = f x"
  by (simp_all add: bind_res_def)

lemma bind_res_Inr_iff [err_simps]:
  "bind_res m f = Inr y \<longleftrightarrow> (\<exists>x. m = Inr x \<and> f x = Inr y)"
  by (cases m) simp_all

lemma bind_res_Inl_iff [err_simps]:
  "bind_res m f = Inl e \<longleftrightarrow> m = Inl e \<or> (\<exists>x. m = Inr x \<and> f x = Inl e)"
  by (cases m) auto

text \<open>A loop that builds a list and stops at the first raise.\<close>

fun map_res :: "('a \<Rightarrow> 'b res) \<Rightarrow> 'a list \<Rightarrow> 'b list res" where
  "map_res f [] = Inr []"
| "map_res f (x # xs) =
     (case f x of
        Inl e \<Rightarrow> Inl e
      | Inr y \<Rightarrow> (case map_res f xs of Inl e \<Rightarrow> Inl e | Inr ys \<Rightarrow> Inr (y # ys)))"

text \<open>A loop over a list with a state, stopped by the first raise.\<close>

fun fold_res :: "('a \<Rightarrow> 's \<Rightarrow> 's res) \<Rightarrow> 'a list \<Rightarrow> 's \<Rightarrow> 's res" where
  "fold_res f [] s = Inr s"
| "fold_res f (x # xs) s = bind_res (f x s) (fold_res f xs)"

lemma fold_res_inv:
  assumes "fold_res f xs s = Inr s'" and "P s"
    and "\<And>x s s'. x \<in> set xs \<Longrightarrow> P s \<Longrightarrow> f x s = Inr s' \<Longrightarrow> P s'"
  shows "P s'"
  using assms
proof (induction xs arbitrary: s)
  case (Cons x xs)
  from Cons.prems(1) obtain s1 where "f x s = Inr s1" "fold_res f xs s1 = Inr s'" by (auto simp: bind_res_Inr_iff)
  have "P s1" using Cons.prems(3) [OF _ Cons.prems(2) \<open>f x s = Inr s1\<close>] by simp
  then show ?case
    by (rule Cons.IH [OF \<open>fold_res f xs s1 = Inr s'\<close>]) (rule Cons.prems(3), auto)
qed simp

lemma map_res_Inr_iff:
  "map_res f xs = Inr ys \<longleftrightarrow> list_all2 (\<lambda>x y. f x = Inr y) xs ys"
proof (induction xs arbitrary: ys)
  case Nil
  then show ?case by auto
next
  case (Cons x xs)
  show ?case
  proof (cases ys)
    case Nil
    then show ?thesis by (auto split: sum.splits)
  next
    case (Cons z zs)
    then show ?thesis using Cons.IH [of zs] by (cases "f x"; cases "map_res f xs") auto
  qed
qed

lemma map_res_all_Inr: "(\<And>x. x \<in> set xs \<Longrightarrow> f x = Inr (g x)) \<Longrightarrow> map_res f xs = Inr (map g xs)"
  by (induction xs) auto

lemma map_res_cong [fundef_cong]:
  "xs = ys \<Longrightarrow> (\<And>x. x \<in> set ys \<Longrightarrow> f x = g x) \<Longrightarrow> map_res f xs = map_res g ys"
proof (induction xs arbitrary: ys)
  case Nil
  then show ?case by simp
next
  case (Cons x xs)
  then obtain zs where "ys = x # zs" and "xs = zs" by (cases ys) auto
  with Cons show ?case by (auto split: sum.splits)
qed

lemma map_filter_set: "set (List.map_filter f xs) = {y. \<exists>x \<in> set xs. f x = Some y}"
  by (induction xs) (auto simp: map_filter_simps split: option.splits)

section \<open>Dictionaries\<close>

text \<open>
  A \<open>dict\<close> is an association list in insertion order. \<open>dict_set\<close> overwrites in place or appends,
  as \<open>d[k] = v\<close> does, \<open>dict_pop\<close> removes the key, and \<open>map_of\<close> is \<open>d.get\<close>.
\<close>

type_synonym ('k, 'v) dict = "('k \<times> 'v) list"

abbreviation dict_get :: "('k, 'v) dict \<Rightarrow> 'k \<Rightarrow> 'v option" where
  "dict_get d k \<equiv> map_of d k"

abbreviation dict_set :: "('k, 'v) dict \<Rightarrow> 'k \<Rightarrow> 'v \<Rightarrow> ('k, 'v) dict" where
  "dict_set d k v \<equiv> AList.update k v d"

abbreviation dict_pop :: "('k, 'v) dict \<Rightarrow> 'k \<Rightarrow> ('k, 'v) dict" where
  "dict_pop d k \<equiv> AList.delete k d"

abbreviation dict_has :: "('k, 'v) dict \<Rightarrow> 'k \<Rightarrow> bool" where
  "dict_has d k \<equiv> k \<in> fst ` set d"

definition dict_ok :: "('k, 'v) dict \<Rightarrow> bool" where
  "dict_ok d \<longleftrightarrow> distinct (map fst d)"

lemma dict_get_set [dict_simps, simp]:
  "dict_get (dict_set d k v) k' = (if k' = k then Some v else dict_get d k')"
  by (simp add: update_conv')

lemma dict_get_pop [dict_simps, simp]:
  "dict_get (dict_pop d k) k' = (if k' = k then None else dict_get d k')"
  by (simp add: delete_conv')

lemma dict_has_get [dict_simps]: "dict_has d k \<longleftrightarrow> dict_get d k \<noteq> None"
  by (metis domIff dom_map_of_conv_image_fst)

lemma dict_keys_set [dict_simps]: "fst ` set (dict_set d k v) = insert k (fst ` set d)"
  by (simp add: dom_update)

lemma dict_set_new: "\<not> dict_has d k \<Longrightarrow> dict_set d k v = d @ [(k, v)]"
  by (induction d) auto

lemma mset_concat_map:
  "mset xs = mset ys \<Longrightarrow> mset (concat (map f xs)) = mset (concat (map f ys))"
  by (metis mset_concat mset_map sum_mset_sum_list map_map)

lemma dict_ok_set [intro]: "dict_ok d \<Longrightarrow> dict_ok (dict_set d k v)"
  by (simp add: dict_ok_def distinct_update)

lemma dict_set_subset: "set (dict_set d k v) \<subseteq> insert (k, v) (set d)"
  by (induction d) auto

lemma dict_ok_Nil [simp]: "dict_ok []"
  by (simp add: dict_ok_def)

lemma dict_ok_get: "dict_ok d \<Longrightarrow> (k, v) \<in> set d \<Longrightarrow> dict_get d k = Some v"
  by (simp add: dict_ok_def)

lemma dict_set_keep [dict_simps]: "dict_get d k = Some v \<Longrightarrow> dict_set d k v = d"
proof (induction d)
  case Nil
  then show ?case by simp
next
  case (Cons p d)
  then show ?case by (cases p) (auto split: if_splits)
qed

text \<open>\<open>d.setdefault(k, []).append(x)\<close> and \<open>d.setdefault(k, {})[j] = x\<close>.\<close>

definition dict_append :: "('k, 'v list) dict \<Rightarrow> 'k \<Rightarrow> 'v \<Rightarrow> ('k, 'v list) dict" where
  "dict_append d k x =
     dict_set d k ((case dict_get d k of None \<Rightarrow> [] | Some xs \<Rightarrow> xs) @ [x])"

definition dict_set2 :: "('k, ('j, 'v) dict) dict \<Rightarrow> 'k \<Rightarrow> 'j \<Rightarrow> 'v \<Rightarrow> ('k, ('j, 'v) dict) dict" where
  "dict_set2 d k j x =
     dict_set d k (dict_set (case dict_get d k of None \<Rightarrow> [] | Some e \<Rightarrow> e) j x)"

definition dict_get2 :: "('k, ('j, 'v) dict) dict \<Rightarrow> 'k \<Rightarrow> 'j \<Rightarrow> 'v option" where
  "dict_get2 d k j = (case dict_get d k of None \<Rightarrow> None | Some e \<Rightarrow> dict_get e j)"

lemma dict_get2_set2 [dict_simps, simp]:
  "dict_get2 (dict_set2 d k j x) k' j' = (if k' = k \<and> j' = j then Some x else dict_get2 d k' j')"
  by (auto simp: dict_get2_def dict_set2_def split: option.splits)

section \<open>Strings\<close>

definition py_isspace :: "char \<Rightarrow> bool" where
  "py_isspace c \<longleftrightarrow>
     (let n = (of_char c :: nat)
      in (9 \<le> n \<and> n \<le> 13) \<or> (28 \<le> n \<and> n \<le> 32) \<or> n = 133 \<or> n = 160)"

definition py_strip :: "string \<Rightarrow> string" where
  "py_strip s = rev (dropWhile py_isspace (rev (dropWhile py_isspace s)))"

definition starts_with :: "string \<Rightarrow> string \<Rightarrow> bool" where
  "starts_with s p \<longleftrightarrow> take (length p) s = p"

definition remove_prefix :: "string \<Rightarrow> string \<Rightarrow> string" where
  "remove_prefix s p = (if starts_with s p then drop (length p) s else s)"

lemma starts_with_append [simp]: "starts_with (p @ s) p"
  by (simp add: starts_with_def)

lemma remove_prefix_append [simp]: "remove_prefix (p @ s) p = s"
  by (simp add: remove_prefix_def)

lemma starts_with_remove_prefix: "starts_with s p \<Longrightarrow> p @ remove_prefix s p = s"
  unfolding starts_with_def remove_prefix_def by (metis append_take_drop_id)

text \<open>\<open>sub in s\<close>\<close>

fun str_contains :: "string \<Rightarrow> string \<Rightarrow> bool" where
  "str_contains s [] = (s = [])"
| "str_contains s (c # t) = (starts_with (c # t) s \<or> str_contains s t)"

fun str_join :: "string \<Rightarrow> string list \<Rightarrow> string" where
  "str_join sep [] = []"
| "str_join sep [x] = x"
| "str_join sep (x # y # ys) = x @ sep @ str_join sep (y # ys)"

text \<open>Truthiness of \<open>str | None\<close>, and \<open>a or b\<close> over it.\<close>

definition str_truthy :: "string option \<Rightarrow> bool" where
  "str_truthy s \<longleftrightarrow> (case s of None \<Rightarrow> False | Some t \<Rightarrow> t \<noteq> [])"

definition str_or :: "string option \<Rightarrow> string option \<Rightarrow> string option" where
  "str_or a b = (if str_truthy a then a else b)"

text \<open>The text of \<open>str | None\<close> in a formatted string.\<close>

definition opt_text :: "string option \<Rightarrow> string" where
  "opt_text s = (case s of None \<Rightarrow> ''None'' | Some t \<Rightarrow> t)"

text \<open>\<open>sorted(..., reverse=True)\<close> keeps the order of equal keys.\<close>

definition sorted_reverse :: "('a \<Rightarrow> 'k :: linorder) \<Rightarrow> 'a list \<Rightarrow> 'a list" where
  "sorted_reverse key xs = rev (sort_key key (rev xs))"

definition hex_digit :: "nat \<Rightarrow> char" where
  "hex_digit n = (if n < 10 then char_of (48 + n) else char_of (87 + n))"

definition hex2 :: "char \<Rightarrow> string" where
  "hex2 c = (let n = (of_char c :: nat) in [hex_digit (n div 16), hex_digit (n mod 16)])"

fun nat_str :: "nat \<Rightarrow> string" where
  "nat_str n = (if n < 10 then [char_of (48 + n)] else nat_str (n div 10) @ [char_of (48 + n mod 10)])"

declare nat_str.simps [simp del]

definition int_str :: "int \<Rightarrow> string" where
  "int_str i = (if i < 0 then CHR ''-'' # nat_str (nat (- i)) else nat_str (nat i))"

text \<open>\<open>repr\<close> of a string: the quote it picks, its escapes, and \<open>None\<close>.\<close>

definition py_printable :: "char \<Rightarrow> bool" where
  "py_printable c \<longleftrightarrow>
     (let n = (of_char c :: nat) in (32 \<le> n \<and> n \<le> 126) \<or> (161 \<le> n \<and> n \<noteq> 173))"

definition repr_char :: "char \<Rightarrow> char \<Rightarrow> string" where
  "repr_char q c =
     (if c = q \<or> c = CHR 0x5C then [CHR 0x5C, c]
      else if c = CHR 0x09 then [CHR 0x5C, CHR ''t'']
      else if c = CHR 0x0A then [CHR 0x5C, CHR ''n'']
      else if c = CHR 0x0D then [CHR 0x5C, CHR ''r'']
      else if py_printable c then [c]
      else [CHR 0x5C, CHR ''x''] @ hex2 c)"

definition py_repr :: "string \<Rightarrow> string" where
  "py_repr s =
     (let q = (if CHR 0x27 \<in> set s \<and> CHR 0x22 \<notin> set s then CHR 0x22 else CHR 0x27)
      in q # concat (map (repr_char q) s) @ [q])"

definition py_repr_opt :: "string option \<Rightarrow> string" where
  "py_repr_opt s = (case s of None \<Rightarrow> ''None'' | Some t \<Rightarrow> py_repr t)"

text \<open>\<open>str(e)\<close> of an exception whose text the code reports; the text of others is left empty.\<close>

fun exc_text :: "py_error \<Rightarrow> string" where
  "exc_text (ValueError s) = s"
| "exc_text (KeyError s) = py_repr s"
| "exc_text (RuntimeError s) = s"
| "exc_text (FileNotFoundError s) = s"
| "exc_text (AuditPersistenceError s) = s"
| "exc_text (DatabaseError s) = s"
| "exc_text (IdentityConflictError s) = s"
| "exc_text (PermissionError s) = s"
| "exc_text (StorageCorruptionError s) = s"
| "exc_text (LegacyOverlayError s) = s"
| "exc_text (SchemaMigrationPlanningError s) = s"
| "exc_text (MigrationInstructionError s) = s"
| "exc_text (OperationJournalError code identifiers) = code @ '': '' @ str_join '', '' identifiers"
| "exc_text (RunEvidenceUnavailable s) = s"
| "exc_text (RunEvidenceNotFound s) = s"
| "exc_text (IdempotencyConflict s) = s"
| "exc_text (InvalidRunEvidence s) = s"
| "exc_text (EvidenceProfileCompositionError code identifiers) = code @ '': '' @ str_join '', '' identifiers"
| "exc_text _ = []"

section \<open>JSON values\<close>

text \<open>
  The values of decoded JSON documents. Floating-point numbers are left out: no payload the code
  inspects by value needs them.
\<close>

datatype json =
    JNull
  | JBool bool
  | JInt int
  | JStr string
  | JList "json list"
  | JObj "(string \<times> json) list"

fun json_truthy :: "json \<Rightarrow> bool" where
  "json_truthy JNull = False"
| "json_truthy (JBool b) = b"
| "json_truthy (JInt i) = (i \<noteq> 0)"
| "json_truthy (JStr s) = (s \<noteq> [])"
| "json_truthy (JList xs) = (xs \<noteq> [])"
| "json_truthy (JObj d) = (d \<noteq> [])"

definition json_opt :: "string option \<Rightarrow> json" where
  "json_opt s = (case s of None \<Rightarrow> JNull | Some t \<Rightarrow> JStr t)"

text \<open>Python's \<open>==\<close>: \<open>True == 1\<close>, and dictionaries compare without regard to order.\<close>

fun json_num :: "json \<Rightarrow> int option" where
  "json_num (JBool b) = Some (if b then 1 else 0)"
| "json_num (JInt i) = Some i"
| "json_num _ = None"

function (sequential) json_eq :: "json \<Rightarrow> json \<Rightarrow> bool" where
  "json_eq JNull b = (b = JNull)"
| "json_eq (JStr s) b = (b = JStr s)"
| "json_eq (JBool v) b = (json_num b = Some (if v then 1 else 0))"
| "json_eq (JInt i) b = (json_num b = Some i)"
| "json_eq (JList xs) b =
     (case b of
        JList ys \<Rightarrow> length xs = length ys \<and> (\<forall>p \<in> set (zip xs ys). json_eq (fst p) (snd p))
      | _ \<Rightarrow> False)"
| "json_eq (JObj d) b =
     (case b of
        JObj e \<Rightarrow> length d = length e \<and>
          (\<forall>p \<in> set d. case map_of e (fst p) of None \<Rightarrow> False | Some w \<Rightarrow> json_eq (snd p) w)
      | _ \<Rightarrow> False)"
  by pat_completeness auto
termination
proof (relation "measure (\<lambda>(a, b). size a)", goal_cases)
  case 1
  show ?case by simp
next
  case (2 xs b ys p)
  then have "fst p \<in> set xs" by (cases p) (auto dest: set_zip_leftD)
  then show ?case
    using size_list_estimation' [of "fst p" xs "size (fst p)" size] by (simp add: case_prod_beta)
next
  case (3 d b e p w)
  then have "size (snd p) \<le> size_list (size_prod (\<lambda>_. 0) size) d"
    by (intro size_list_estimation') (auto simp: size_prod_simp)
  then show ?case by simp
qed

end
