(* ===== verification/Phlo_Json.thy ===== *)
theory Phlo_Json
  imports Phlo_Prelude
begin

text \<open>
  \<open>json.dumps\<close> with \<open>sort_keys=True\<close> and \<open>ensure_ascii\<close> on the values of \<open>Phlo_Prelude\<close>, with
  the separators as arguments, and the fact the replay and sealing proofs rest on: the text of a
  JSON string ends at a position its own characters determine, so encoded strings can be read back
  from any text that starts with them.
\<close>

section \<open>Serialisation\<close>

definition json_esc :: "char \<Rightarrow> string" where
  "json_esc c =
     (if c = CHR 0x22 then [CHR 0x5C, CHR 0x22]
      else if c = CHR 0x5C then [CHR 0x5C, CHR 0x5C]
      else if c = CHR 0x0A then [CHR 0x5C, CHR ''n'']
      else if c = CHR 0x0D then [CHR 0x5C, CHR ''r'']
      else if c = CHR 0x09 then [CHR 0x5C, CHR ''t'']
      else if c = CHR 0x0C then [CHR 0x5C, CHR ''f'']
      else if c = CHR 0x08 then [CHR 0x5C, CHR ''b'']
      else if (32::nat) \<le> of_char c \<and> of_char c \<le> (126::nat) then [c]
      else [CHR 0x5C, CHR ''u'', CHR ''0'', CHR ''0''] @ hex2 c)"

definition json_str :: "string \<Rightarrow> string" where
  "json_str s = CHR 0x22 # concat (map json_esc s) @ [CHR 0x22]"

fun json_dumps :: "string \<Rightarrow> string \<Rightarrow> json \<Rightarrow> string" where
  "json_dumps isep ksep JNull = ''null''"
| "json_dumps isep ksep (JBool b) = (if b then ''true'' else ''false'')"
| "json_dumps isep ksep (JInt i) = int_str i"
| "json_dumps isep ksep (JStr s) = json_str s"
| "json_dumps isep ksep (JList xs) =
     ''['' @ str_join isep (map (json_dumps isep ksep) xs) @ '']''"
| "json_dumps isep ksep (JObj d) =
     ''{'' @ str_join isep
        (map (\<lambda>p. json_str (fst p) @ ksep @ json_dumps isep ksep (snd p)) (sort_key fst d)) @ ''}''"

abbreviation json_compact :: "json \<Rightarrow> string" where
  "json_compact \<equiv> json_dumps '','' '':''"

section \<open>Text of JSON values\<close>

text \<open>\<open>repr\<close> and \<open>str\<close> of the Python values a JSON document decodes to.\<close>

function (sequential) json_repr :: "json \<Rightarrow> string" where
  "json_repr JNull = ''None''"
| "json_repr (JBool b) = (if b then ''True'' else ''False'')"
| "json_repr (JInt i) = int_str i"
| "json_repr (JStr s) = py_repr s"
| "json_repr (JList xs) = ''['' @ str_join '', '' (map json_repr xs) @ '']''"
| "json_repr (JObj d) = ''{'' @ str_join '', '' (map (\<lambda>p. py_repr (fst p) @ '': '' @ json_repr (snd p)) d) @ ''}''"
  by pat_completeness auto
termination
proof (relation "measure size", goal_cases)
  case (2 xs x)
  then show ?case using size_list_estimation' [of x xs "size x" size] by simp
next
  case (3 d p)
  then have "size (snd p) \<le> size_list (size_prod (\<lambda>_. 0) size) d"
    by (intro size_list_estimation') (auto simp: size_prod_simp)
  then show ?case by simp
qed simp

fun json_text :: "json \<Rightarrow> string" where
  "json_text (JStr s) = s"
| "json_text v = json_repr v"

section \<open>Reading an encoded string back\<close>

lemma of_char_less_256 [simp]: "of_char (c :: char) < (256 :: nat)"
  by simp

lemma hex_digit_inject:
  "m < 16 \<Longrightarrow> n < 16 \<Longrightarrow> hex_digit m = hex_digit n \<longleftrightarrow> m = n"
  by (auto simp: hex_digit_def split: if_splits)

lemma hex2_inject: "hex2 c = hex2 d \<longleftrightarrow> c = d"
proof
  assume "hex2 c = hex2 d"
  moreover have "of_char c div 16 < (16::nat)" "of_char d div 16 < (16::nat)"
    by (simp_all add: less_mult_imp_div_less)
  ultimately have "of_char c div 16 = (of_char d div 16 :: nat)"
    and "of_char c mod 16 = (of_char d mod 16 :: nat)"
    by (simp_all add: hex2_def Let_def hex_digit_inject)
  then have "of_char c = (of_char d :: nat)"
    by (metis div_mult_mod_eq)
  then show "c = d" by simp
qed simp

lemma length_hex2 [simp]: "length (hex2 c) = 2"
  by (simp add: hex2_def Let_def)

lemma hex2_append_inject: "hex2 c @ u = hex2 d @ v \<longleftrightarrow> c = d \<and> u = v"
  using hex2_inject by (auto simp: append_eq_append_conv)

lemma json_esc_neq_quote: "json_esc c @ u \<noteq> CHR 0x22 # v"
  by (auto simp: json_esc_def)

lemma json_esc_append_inject: "json_esc c @ u = json_esc d @ v \<longleftrightarrow> c = d \<and> u = v"
proof
  assume "json_esc c @ u = json_esc d @ v"
  then show "c = d \<and> u = v"
    unfolding json_esc_def by (auto simp: hex2_append_inject split: if_splits)
qed auto

lemma json_body_inject:
  "concat (map json_esc s) @ CHR 0x22 # u = concat (map json_esc t) @ CHR 0x22 # v
   \<longleftrightarrow> s = t \<and> u = v"
proof (induction s arbitrary: t)
  case Nil
  show ?case
    by (cases t) (auto simp: json_esc_neq_quote json_esc_neq_quote [symmetric])
next
  case (Cons c s)
  show ?case
  proof (cases t)
    case Nil
    then show ?thesis by (auto simp: json_esc_neq_quote)
  next
    case (Cons d t')
    then show ?thesis using Cons.IH [of t'] by (auto simp: json_esc_append_inject)
  qed
qed

lemma json_str_append_inject: "json_str s @ u = json_str t @ v \<longleftrightarrow> s = t \<and> u = v"
  using json_body_inject [of s u t v] by (simp add: json_str_def)

lemma json_str_inject [simp]: "json_str s = json_str t \<longleftrightarrow> s = t"
  using json_str_append_inject [of s "[]" t "[]"] by simp

lemma json_str_hd: "\<exists>r. json_str s = CHR 0x22 # r"
  by (simp add: json_str_def)

lemma json_null_str_neq [simp]: "''null'' @ u \<noteq> json_str s @ v" "json_str s @ v \<noteq> ''null'' @ u"
  by (auto simp: json_str_def)

text \<open>An optional string, as a member value, is delimited in the same way.\<close>

lemma json_opt_append_inject:
  "json_dumps i k (json_opt a) @ u = json_dumps i k (json_opt b) @ v \<longleftrightarrow> a = b \<and> u = v"
  using json_null_str_neq
  by (auto simp: json_opt_def json_str_append_inject split: option.splits)

end
