(* ===== verification/Dataset_Models.thy ===== *)
theory Dataset_Models
  imports Phlo_Json
begin

text \<open>
  \<open>phlo/dataset/models.py\<close>: Dataset identity (\<open>candidate:<table_id>\<close> and \<open><table_id>\<close>), the
  workflow and publication state machines, the immutable records with the checks of their
  \<open>__post_init__\<close>, their read models, and the transition request with its replay fingerprint.
  A dataclass is a record whose constructor (\<open>make_...\<close>) runs \<open>__post_init__\<close> and may raise.
\<close>

section \<open>States and transition tables\<close>

datatype workflow_state = WS_CLAIMED | WS_REVIEW | WS_PROMOTED | WS_REJECTED

fun workflow_value :: "workflow_state \<Rightarrow> string" where
  "workflow_value WS_CLAIMED = ''claimed''"
| "workflow_value WS_REVIEW = ''review''"
| "workflow_value WS_PROMOTED = ''promoted''"
| "workflow_value WS_REJECTED = ''rejected''"

definition workflow_coerce :: "string \<Rightarrow> workflow_state res" where
  "workflow_coerce value =
     (if value = ''claimed'' then Inr WS_CLAIMED
      else if value = ''review'' then Inr WS_REVIEW
      else if value = ''promoted'' then Inr WS_PROMOTED
      else if value = ''rejected'' then Inr WS_REJECTED
      else Inl (ValueError (''Unknown workflow state: '' @ value)))"

datatype publication_state = PS_DRAFT | PS_PUBLISHED | PS_RETIRED

fun publication_value :: "publication_state \<Rightarrow> string" where
  "publication_value PS_DRAFT = ''draft''"
| "publication_value PS_PUBLISHED = ''published''"
| "publication_value PS_RETIRED = ''retired''"

definition publication_coerce :: "string \<Rightarrow> publication_state res" where
  "publication_coerce value =
     (if value = ''draft'' then Inr PS_DRAFT
      else if value = ''published'' then Inr PS_PUBLISHED
      else if value = ''retired'' then Inr PS_RETIRED
      else Inl (ValueError (''Unknown publication state: '' @ value)))"

datatype transition_status = TS_COMMITTED | TS_REPLAYED | TS_IDEMPOTENT | TS_BLOCKED | TS_CONFLICT

fun status_value :: "transition_status \<Rightarrow> string" where
  "status_value TS_COMMITTED = ''committed''"
| "status_value TS_REPLAYED = ''replayed''"
| "status_value TS_IDEMPOTENT = ''idempotent''"
| "status_value TS_BLOCKED = ''blocked''"
| "status_value TS_CONFLICT = ''conflict''"

definition status_committed :: "transition_status \<Rightarrow> bool" where
  "status_committed s \<longleftrightarrow> s = TS_COMMITTED"

definition DATASET_STATE_SCHEMA_VERSION :: int where
  "DATASET_STATE_SCHEMA_VERSION = 2"

definition CANDIDATE_ID_PREFIX :: string where
  "CANDIDATE_ID_PREFIX = ''candidate:''"

definition WORKFLOW_STATE_OPEN :: string where
  "WORKFLOW_STATE_OPEN = ''open''"

definition TERMINAL_WORKFLOW_STATES :: "workflow_state list" where
  "TERMINAL_WORKFLOW_STATES = [WS_REJECTED]"

definition TERMINAL_PUBLICATION_STATES :: "publication_state list" where
  "TERMINAL_PUBLICATION_STATES = [PS_RETIRED]"

definition WORKFLOW_ACTIONS :: "string list" where
  "WORKFLOW_ACTIONS = [''claim'', ''review'', ''promote'', ''reject'']"

definition PUBLICATION_ACTIONS :: "string list" where
  "PUBLICATION_ACTIONS = [''publish'', ''retire'']"

definition WORKFLOW_TRANSITIONS :: "(string, string list \<times> string) dict" where
  "WORKFLOW_TRANSITIONS =
     [(''claim'', ([WORKFLOW_STATE_OPEN], workflow_value WS_CLAIMED)),
      (''review'', ([workflow_value WS_CLAIMED], workflow_value WS_REVIEW)),
      (''promote'', ([workflow_value WS_REVIEW], workflow_value WS_PROMOTED)),
      (''reject'', ([workflow_value WS_REVIEW], workflow_value WS_REJECTED))]"

definition PUBLICATION_TRANSITIONS :: "(string, string list \<times> string) dict" where
  "PUBLICATION_TRANSITIONS =
     [(''publish'', ([publication_value PS_DRAFT], publication_value PS_PUBLISHED)),
      (''retire'', ([publication_value PS_PUBLISHED], publication_value PS_RETIRED))]"

section \<open>Canonical identifiers\<close>

definition validated_component :: "string \<Rightarrow> string \<Rightarrow> string res" where
  "validated_component value name =
     (if value = [] \<or> value \<noteq> py_strip value \<or> CHR '':'' \<in> set value
      then Inl (ValueError (name @ '' must be a non-empty table key without ':' separators''))
      else Inr value)"

definition candidate_dataset_id :: "string \<Rightarrow> string res" where
  "candidate_dataset_id table_id =
     bind_res (validated_component table_id ''table_id'')
       (\<lambda>table_id. Inr (CANDIDATE_ID_PREFIX @ table_id))"

definition is_candidate_dataset_id :: "string \<Rightarrow> bool" where
  "is_candidate_dataset_id dataset_id \<longleftrightarrow>
     starts_with dataset_id CANDIDATE_ID_PREFIX \<and> length CANDIDATE_ID_PREFIX < length dataset_id"

definition dataset_table_id :: "string \<Rightarrow> string res" where
  "dataset_table_id dataset_id =
     (if is_candidate_dataset_id dataset_id
      then validated_component (remove_prefix dataset_id CANDIDATE_ID_PREFIX) ''dataset_id''
      else validated_component dataset_id ''dataset_id'')"

definition table_key :: "string \<Rightarrow> bool" where
  "table_key s \<longleftrightarrow> s \<noteq> [] \<and> s = py_strip s \<and> CHR '':'' \<notin> set s"

section \<open>Records\<close>

record candidate_record =
  cr_dataset_id :: string
  cr_table_id :: string
  cr_state :: string
  cr_owner :: "string option"
  cr_approval_state :: "string option"
  cr_promoted_dataset_id :: "string option"
  cr_publication_state :: "string option"
  cr_policy_version :: "string option"
  cr_schema_version :: int
  cr_last_action_id :: "string option"
  cr_migration_note :: "string option"
  cr_legacy_fields :: "(string \<times> json) list option"

record dataset_record =
  dr_dataset_id :: string
  dr_table_id :: string
  dr_publication_state :: string
  dr_owner :: "string option"
  dr_approval_state :: "string option"
  dr_policy_version :: "string option"
  dr_schema_version :: int
  dr_last_action_id :: "string option"
  dr_migration_note :: "string option"
  dr_legacy_fields :: "(string \<times> json) list option"

datatype state_record = Candidate candidate_record | Dataset dataset_record

text \<open>\<open>CandidateRecord.__post_init__\<close> and \<open>DatasetRecord.__post_init__\<close>.\<close>

definition make_candidate :: "candidate_record \<Rightarrow> candidate_record res" where
  "make_candidate r =
     bind_res (candidate_dataset_id (cr_table_id r)) (\<lambda>cid.
       if cr_dataset_id r \<noteq> cid
       then Inl (ValueError (''Candidate record dataset_id must be '' @ py_repr cid))
       else bind_res (workflow_coerce (cr_state r)) (\<lambda>_.
         if cr_promoted_dataset_id r \<noteq> None \<and> cr_state r \<noteq> workflow_value WS_PROMOTED
         then Inl (ValueError ''promoted_dataset_id may only be set on a promoted candidate'')
         else Inr r))"

definition make_dataset :: "dataset_record \<Rightarrow> dataset_record res" where
  "make_dataset r =
     (if is_candidate_dataset_id (dr_dataset_id r)
      then Inl (ValueError ''DatasetRecord dataset_id must be the promoted <table_id> form'')
      else if dr_dataset_id r \<noteq> dr_table_id r
      then Inl (ValueError ''DatasetRecord dataset_id must equal its table key'')
      else bind_res (publication_coerce (dr_publication_state r)) (\<lambda>_. Inr r))"

fun record_id :: "state_record \<Rightarrow> string" where
  "record_id (Candidate c) = cr_dataset_id c"
| "record_id (Dataset d) = dr_dataset_id d"

fun current_state :: "state_record \<Rightarrow> string" where
  "current_state (Candidate c) = cr_state c"
| "current_state (Dataset d) = dr_publication_state d"

fun record_owner :: "state_record \<Rightarrow> string option" where
  "record_owner (Candidate c) = cr_owner c"
| "record_owner (Dataset d) = dr_owner d"

fun record_schema_version :: "state_record \<Rightarrow> int" where
  "record_schema_version (Candidate c) = cr_schema_version c"
| "record_schema_version (Dataset d) = dr_schema_version d"

fun record_valid :: "state_record \<Rightarrow> bool" where
  "record_valid (Candidate c) = (make_candidate c = Inr c)"
| "record_valid (Dataset d) = (make_dataset d = Inr d)"

type_synonym payload = "(string, json) dict"

definition json_fields :: "(string \<times> json) list option \<Rightarrow> json" where
  "json_fields f = (case f of None \<Rightarrow> JNull | Some d \<Rightarrow> JObj d)"

fun candidate_read_model :: "candidate_record \<Rightarrow> payload" where
  "candidate_read_model r =
     [(''dataset_id'', JStr (cr_dataset_id r)),
      (''table_id'', JStr (cr_table_id r)),
      (''state'', JStr (cr_state r)),
      (''owner'', json_opt (cr_owner r)),
      (''approval_state'', json_opt (cr_approval_state r)),
      (''promoted_dataset_id'', json_opt (cr_promoted_dataset_id r)),
      (''publication_state'', json_opt (cr_publication_state r)),
      (''policy_version'', json_opt (cr_policy_version r)),
      (''schema_version'', JInt (cr_schema_version r)),
      (''last_action_id'', json_opt (cr_last_action_id r)),
      (''migration_note'', json_opt (cr_migration_note r)),
      (''legacy_fields'', json_fields (cr_legacy_fields r))]"

fun dataset_read_model :: "dataset_record \<Rightarrow> payload" where
  "dataset_read_model r =
     [(''dataset_id'', JStr (dr_dataset_id r)),
      (''table_id'', JStr (dr_table_id r)),
      (''publication_state'', JStr (dr_publication_state r)),
      (''owner'', json_opt (dr_owner r)),
      (''approval_state'', json_opt (dr_approval_state r)),
      (''policy_version'', json_opt (dr_policy_version r)),
      (''schema_version'', JInt (dr_schema_version r)),
      (''last_action_id'', json_opt (dr_last_action_id r)),
      (''migration_note'', json_opt (dr_migration_note r)),
      (''legacy_fields'', json_fields (dr_legacy_fields r))]"

fun to_read_model :: "state_record \<Rightarrow> payload" where
  "to_read_model (Candidate c) = candidate_read_model c"
| "to_read_model (Dataset d) = dataset_read_model d"

section \<open>Transition requests, audit events and outcomes\<close>

record transition_request =
  rq_resource_id :: string
  rq_action :: string
  rq_action_id :: string
  rq_actor :: "string option"
  rq_scope :: "string option"
  rq_expected_state :: "string option"
  rq_owner :: "string option"

definition make_request :: "transition_request \<Rightarrow> transition_request res" where
  "make_request r =
     (if rq_action_id r = []
      then Inl (ValueError ''action_id is required for idempotent transitions'') else Inr r)"

definition fingerprint :: "transition_request \<Rightarrow> string" where
  "fingerprint r =
     json_compact (JObj
       [(''action'', JStr (rq_action r)),
        (''action_id'', JStr (rq_action_id r)),
        (''expected_state'', json_opt (rq_expected_state r)),
        (''resource_id'', JStr (rq_resource_id r))])"

record audit_event =
  ae_actor :: "string option"
  ae_scope :: "string option"
  ae_action_id :: string
  ae_resource_id :: string
  ae_action :: string
  ae_before_state :: "string option"
  ae_after_state :: "string option"
  ae_outcome :: string
  ae_detail :: string

fun audit_read_model :: "audit_event \<Rightarrow> payload" where
  "audit_read_model e =
     [(''actor'', json_opt (ae_actor e)),
      (''scope'', json_opt (ae_scope e)),
      (''action_id'', JStr (ae_action_id e)),
      (''resource_id'', JStr (ae_resource_id e)),
      (''action'', JStr (ae_action e)),
      (''before_state'', json_opt (ae_before_state e)),
      (''after_state'', json_opt (ae_after_state e)),
      (''outcome'', JStr (ae_outcome e)),
      (''detail'', JStr (ae_detail e))]"

section \<open>States\<close>

lemma workflow_coerce_value [simp]: "workflow_coerce (workflow_value w) = Inr w"
  by (cases w) (simp_all add: workflow_coerce_def)

lemma workflow_coerce_Inr: "workflow_coerce s = Inr w \<longleftrightarrow> s = workflow_value w"
  by (cases w) (auto simp: workflow_coerce_def)

lemma publication_coerce_value [simp]: "publication_coerce (publication_value p) = Inr p"
  by (cases p) (simp_all add: publication_coerce_def)

lemma publication_coerce_Inr: "publication_coerce s = Inr p \<longleftrightarrow> s = publication_value p"
  by (cases p) (auto simp: publication_coerce_def)

lemma workflow_value_neq_open [simp]:
  "workflow_value w \<noteq> WORKFLOW_STATE_OPEN" "WORKFLOW_STATE_OPEN \<noteq> workflow_value w"
  by (cases w; simp add: WORKFLOW_STATE_OPEN_def)+

lemma publication_value_neq_open [simp]:
  "publication_value p \<noteq> WORKFLOW_STATE_OPEN" "WORKFLOW_STATE_OPEN \<noteq> publication_value p"
  by (cases p; simp add: WORKFLOW_STATE_OPEN_def)+

lemma workflow_value_inject [simp]: "workflow_value v = workflow_value w \<longleftrightarrow> v = w"
  by (metis workflow_coerce_value sum.inject(2))

lemma publication_value_inject [simp]: "publication_value p = publication_value q \<longleftrightarrow> p = q"
  by (metis publication_coerce_value sum.inject(2))

lemmas transition_tables =
  WORKFLOW_TRANSITIONS_def PUBLICATION_TRANSITIONS_def WORKFLOW_STATE_OPEN_def

lemmas action_tables = WORKFLOW_ACTIONS_def PUBLICATION_ACTIONS_def

lemma workflow_entry_iff:
  "dict_get WORKFLOW_TRANSITIONS a = Some e \<longleftrightarrow>
     a = ''claim'' \<and> e = ([WORKFLOW_STATE_OPEN], ''claimed'') \<or>
     a = ''review'' \<and> e = ([''claimed''], ''review'') \<or>
     a = ''promote'' \<and> e = ([''review''], ''promoted'') \<or>
     a = ''reject'' \<and> e = ([''review''], ''rejected'')"
  by (auto simp: WORKFLOW_TRANSITIONS_def)

lemma publication_entry_iff:
  "dict_get PUBLICATION_TRANSITIONS a = Some e \<longleftrightarrow>
     a = ''publish'' \<and> e = ([''draft''], ''published'') \<or>
     a = ''retire'' \<and> e = ([''published''], ''retired'')"
  by (auto simp: PUBLICATION_TRANSITIONS_def)

section \<open>Identifiers\<close>

lemma not_table_key_Nil [simp]: "\<not> table_key []"
  by (simp add: table_key_def)

lemma validated_component_Inr:
  "validated_component value name = Inr s \<longleftrightarrow> table_key value \<and> s = value"
  by (auto simp: validated_component_def table_key_def)

lemma validated_component_key [simp]:
  "table_key value \<Longrightarrow> validated_component value name = Inr value"
  by (simp add: validated_component_Inr)

lemma candidate_dataset_id_Inr:
  "candidate_dataset_id t = Inr c \<longleftrightarrow> table_key t \<and> c = CANDIDATE_ID_PREFIX @ t"
  by (auto simp: candidate_dataset_id_def err_simps validated_component_Inr)

lemma is_candidate_append [simp]:
  "is_candidate_dataset_id (CANDIDATE_ID_PREFIX @ t) \<longleftrightarrow> t \<noteq> []"
  by (auto simp: is_candidate_dataset_id_def)

lemma is_candidate_iff: "is_candidate_dataset_id d \<longleftrightarrow> (\<exists>t. t \<noteq> [] \<and> d = CANDIDATE_ID_PREFIX @ t)"
proof
  assume "is_candidate_dataset_id d"
  then have "starts_with d CANDIDATE_ID_PREFIX" and "length CANDIDATE_ID_PREFIX < length d"
    by (simp_all add: is_candidate_dataset_id_def)
  then have "d = CANDIDATE_ID_PREFIX @ remove_prefix d CANDIDATE_ID_PREFIX"
    by (simp add: starts_with_remove_prefix)
  with \<open>length CANDIDATE_ID_PREFIX < length d\<close> show "\<exists>t. t \<noteq> [] \<and> d = CANDIDATE_ID_PREFIX @ t"
    by (metis append.right_neutral less_irrefl_nat)
qed auto

lemma table_key_not_candidate: "table_key t \<Longrightarrow> \<not> is_candidate_dataset_id t"
  by (auto simp: is_candidate_iff table_key_def CANDIDATE_ID_PREFIX_def)

lemma dataset_table_id_key [simp]: "table_key t \<Longrightarrow> dataset_table_id t = Inr t"
  by (simp add: dataset_table_id_def table_key_not_candidate)

lemma dataset_table_id_candidate [simp]:
  "table_key t \<Longrightarrow> dataset_table_id (CANDIDATE_ID_PREFIX @ t) = Inr t"
  by (simp add: dataset_table_id_def table_key_def validated_component_Inr)

lemma dataset_table_id_Inr:
  "dataset_table_id d = Inr t \<longleftrightarrow>
     table_key t \<and> (d = t \<or> d = CANDIDATE_ID_PREFIX @ t)"
  using is_candidate_iff [of d] table_key_not_candidate [of t]
  by (auto simp: dataset_table_id_def validated_component_Inr)

lemma dataset_table_id_cases:
  assumes "dataset_table_id d = Inr t"
  obtains (candidate) "table_key t" "d = CANDIDATE_ID_PREFIX @ t" "is_candidate_dataset_id d"
    | (promoted) "table_key t" "d = t" "\<not> is_candidate_dataset_id d"
  using assms table_key_not_candidate
  by (auto simp: dataset_table_id_Inr table_key_def is_candidate_append)

section \<open>Constructors\<close>

lemma make_candidate_Inr:
  "make_candidate r = Inr q \<longleftrightarrow>
     q = r \<and> table_key (cr_table_id r) \<and> cr_dataset_id r = CANDIDATE_ID_PREFIX @ cr_table_id r \<and>
     (\<exists>w. cr_state r = workflow_value w) \<and>
     (cr_promoted_dataset_id r \<noteq> None \<longrightarrow> cr_state r = workflow_value WS_PROMOTED)"
  by (auto simp: make_candidate_def err_simps candidate_dataset_id_Inr workflow_coerce_Inr
      split: if_splits)

lemma make_dataset_Inr:
  "make_dataset r = Inr q \<longleftrightarrow>
     q = r \<and> \<not> is_candidate_dataset_id (dr_dataset_id r) \<and> dr_dataset_id r = dr_table_id r \<and>
     (\<exists>p. dr_publication_state r = publication_value p)"
  by (auto simp: make_dataset_def err_simps publication_coerce_Inr split: if_splits)

lemma record_valid_kind:
  "record_valid r \<Longrightarrow> is_candidate_dataset_id (record_id r) \<longleftrightarrow> (\<exists>c. r = Candidate c)"
  by (cases r) (auto simp: make_candidate_Inr make_dataset_Inr table_key_def)

lemma record_valid_not_open: "record_valid r \<Longrightarrow> current_state r \<noteq> WORKFLOW_STATE_OPEN"
  by (cases r) (auto simp: make_candidate_Inr make_dataset_Inr)

lemma make_request_Inr: "make_request r = Inr q \<longleftrightarrow> q = r \<and> rq_action_id r \<noteq> []"
  by (auto simp: make_request_def)

section \<open>Request fingerprints\<close>

lemma fingerprint_text:
  "fingerprint r =
     ''{'' @ json_str ''action'' @ '':'' @ json_str (rq_action r) @ '','' @
     json_str ''action_id'' @ '':'' @ json_str (rq_action_id r) @ '','' @
     json_str ''expected_state'' @ '':'' @ json_compact (json_opt (rq_expected_state r)) @ '','' @
     json_str ''resource_id'' @ '':'' @ json_str (rq_resource_id r) @ ''}''"
proof -
  have "sort_key fst
          [(''action'', JStr (rq_action r)), (''action_id'', JStr (rq_action_id r)),
           (''expected_state'', json_opt (rq_expected_state r)),
           (''resource_id'', JStr (rq_resource_id r))] =
          [(''action'', JStr (rq_action r)), (''action_id'', JStr (rq_action_id r)),
           (''expected_state'', json_opt (rq_expected_state r)),
           (''resource_id'', JStr (rq_resource_id r))]"
    by (rule sort_key_id_if_sorted) (simp add: less_char_def)
  then show ?thesis by (simp add: fingerprint_def)
qed

text \<open>
  A fingerprint identifies exactly the four fields the replay check compares. Two requests have
  the same fingerprint if and only if they agree on action, action_id, expected state (with a
  missing one distinct from every string) and resource id; actor, scope and owner are not part of it.
\<close>

theorem fingerprint_identity:
  "fingerprint r = fingerprint q \<longleftrightarrow>
     rq_action r = rq_action q \<and> rq_action_id r = rq_action_id q \<and>
     rq_expected_state r = rq_expected_state q \<and> rq_resource_id r = rq_resource_id q"
  unfolding fingerprint_text
  by (auto simp: json_str_append_inject json_opt_append_inject)

end
