(* ===== verification/Dataset_Policy.thy ===== *)
theory Dataset_Policy
  imports Dataset_Models
begin

text \<open>
  \<open>phlo/dataset/evidence.py\<close> and \<open>phlo/dataset/policy.py\<close>: evidence records, the declarative
  conditions over their payloads, the project's versioned policy, and the evaluator that turns
  policy and evidence into a readiness verdict. The lemmas show that the verdict is ready exactly
  when the declarative reading of the policy says so, that a finding always has present evidence
  behind it, and in which sense the order of the evidence does not matter.
\<close>

section \<open>Evidence\<close>

record evidence_record =
  ev_kind :: string
  ev_subject :: string
  ev_status :: string
  ev_payload :: payload
  ev_source :: "string option"

definition EVIDENCE_STATUS_PRESENT :: string where
  "EVIDENCE_STATUS_PRESENT = ''present''"

definition EVIDENCE_STATUS_MISSING :: string where
  "EVIDENCE_STATUS_MISSING = ''missing''"

definition make_evidence :: "evidence_record \<Rightarrow> evidence_record res" where
  "make_evidence e =
     (if ev_kind e = [] then Inl (ValueError ''evidence kind is required'')
      else if ev_subject e = [] then Inl (ValueError ''evidence subject is required'')
      else if ev_status e \<notin> {EVIDENCE_STATUS_PRESENT, EVIDENCE_STATUS_MISSING}
      then Inl (ValueError (''Unknown evidence status: '' @ ev_status e))
      else Inr e)"

definition is_missing :: "evidence_record \<Rightarrow> bool" where
  "is_missing e \<longleftrightarrow> ev_status e = EVIDENCE_STATUS_MISSING"

section \<open>Conditions\<close>

record evidence_condition =
  ec_field :: string
  ec_operator :: string
  ec_value :: json

definition CONDITION_OPERATORS :: "string list" where
  "CONDITION_OPERATORS = [''eq'', ''ne'', ''in'', ''not_in'', ''true'', ''false'']"

definition make_condition :: "evidence_condition \<Rightarrow> evidence_condition res" where
  "make_condition c =
     (if ec_operator c \<notin> set CONDITION_OPERATORS
      then Inl (ValueError (''Unknown condition operator: '' @ ec_operator c))
      else Inr c)"

text \<open>\<open>actual in value\<close>: membership, substring or key test, or a \<open>TypeError\<close>.\<close>

fun py_in :: "json \<Rightarrow> json \<Rightarrow> bool res" where
  "py_in a (JList ys) = Inr (\<exists>y \<in> set ys. json_eq a y)"
| "py_in (JStr s) (JStr t) = Inr (str_contains s t)"
| "py_in a (JStr t) = Inl TypeError"
| "py_in (JList xs) (JObj d) = Inl TypeError"
| "py_in (JObj e) (JObj d) = Inl TypeError"
| "py_in (JStr s) (JObj d) = Inr (s \<in> fst ` set d)"
| "py_in a (JObj d) = Inr False"
| "py_in a b = Inl TypeError"

definition matches :: "evidence_condition \<Rightarrow> payload \<Rightarrow> bool res" where
  "matches c payload =
     (if ec_operator c \<in> {''true'', ''false''} then
        (let actual = (case dict_get payload (ec_field c) of None \<Rightarrow> False | Some v \<Rightarrow> json_truthy v)
         in Inr (if ec_operator c = ''true'' then actual else \<not> actual))
      else case dict_get payload (ec_field c) of
        None \<Rightarrow> Inr False
      | Some actual \<Rightarrow>
          (if ec_operator c = ''eq'' then Inr (json_eq actual (ec_value c))
           else if ec_operator c = ''ne'' then Inr (\<not> json_eq actual (ec_value c))
           else if ec_operator c = ''in'' then py_in actual (ec_value c)
           else bind_res (py_in actual (ec_value c)) (\<lambda>b. Inr (\<not> b))))"

section \<open>Policies and verdicts\<close>

definition SEVERITY_BLOCKER :: string where
  "SEVERITY_BLOCKER = ''blocker''"

definition SEVERITY_WARNING :: string where
  "SEVERITY_WARNING = ''warning''"

record policy_rule =
  pr_control :: string
  pr_evidence_kind :: string
  pr_condition :: "evidence_condition option"
  pr_severity :: string
  pr_message :: string
  pr_applies_to :: "string list"

definition make_rule :: "policy_rule \<Rightarrow> policy_rule res" where
  "make_rule r =
     (if pr_control r = [] then Inl (ValueError ''policy rule control is required'')
      else if pr_evidence_kind r = [] then Inl (ValueError ''policy rule evidence_kind is required'')
      else if pr_severity r \<notin> {SEVERITY_BLOCKER, SEVERITY_WARNING}
      then Inl (ValueError (''Unknown policy rule severity: '' @ pr_severity r))
      else Inr r)"

definition applies_to_action :: "policy_rule \<Rightarrow> string \<Rightarrow> bool" where
  "applies_to_action r action \<longleftrightarrow> pr_applies_to r = [] \<or> action \<in> set (pr_applies_to r)"

record transition_policy =
  tp_action :: string
  tp_required_evidence :: "string list"

record dataset_policy =
  dp_policy_version :: string
  dp_rules :: "policy_rule list"
  dp_transitions :: "transition_policy list"

definition make_policy :: "dataset_policy \<Rightarrow> dataset_policy res" where
  "make_policy p =
     (if dp_policy_version p = []
      then Inl (ValueError ''DatasetPolicy requires a policy_version'') else Inr p)"

definition for_action :: "dataset_policy \<Rightarrow> string \<Rightarrow> transition_policy" where
  "for_action p action =
     (case List.find (\<lambda>t. tp_action t = action) (dp_transitions p) of
        Some t \<Rightarrow> t
      | None \<Rightarrow> \<lparr>tp_action = action, tp_required_evidence = []\<rparr>)"

record missing_evidence =
  me_kind :: string
  me_control :: "string option"
  me_message :: string
  me_blocks :: bool

record policy_finding =
  pf_control :: string
  pf_severity :: string
  pf_message :: string
  pf_evidence_kind :: string

record control_entry =
  co_control :: "string option"
  co_status :: string
  co_severity :: "string option"
  co_evidence_kind :: string

record policy_verdict =
  pv_dataset_id :: string
  pv_action :: string
  pv_policy_version :: string
  pv_ready :: bool
  pv_controls :: "control_entry list"
  pv_blockers :: "policy_finding list"
  pv_warnings :: "policy_finding list"
  pv_missing :: "missing_evidence list"

definition verdict_reasons :: "policy_verdict \<Rightarrow> string list" where
  "verdict_reasons v =
     map pf_message (pv_blockers v) @ map me_message (pv_missing v) @ map pf_message (pv_warnings v)"

section \<open>The evaluator\<close>

text \<open>The evidence that is not missing, grouped by kind in discovery order.\<close>

fun available_from :: "evidence_record list \<Rightarrow> (string, evidence_record list) dict
    \<Rightarrow> (string, evidence_record list) dict" where
  "available_from [] available = available"
| "available_from (e # es) available =
     (if is_missing e then available_from es available
      else available_from es (dict_append available (ev_kind e) e))"

record eval_state =
  es_missing :: "missing_evidence list"
  es_blockers :: "policy_finding list"
  es_warnings :: "policy_finding list"
  es_controls :: "control_entry list"

definition required_missing :: "(string, evidence_record list) dict \<Rightarrow> string \<Rightarrow> string list
    \<Rightarrow> missing_evidence list" where
  "required_missing available dataset_id kinds =
     map (\<lambda>kind. \<lparr>me_kind = kind, me_control = None,
            me_message = ''Required evidence of kind '' @ py_repr kind @ '' is missing for '' @
              dataset_id @ ''.'',
            me_blocks = True\<rparr>)
       (filter (\<lambda>kind. \<not> dict_has available kind) kinds)"

definition control_of :: "policy_rule \<Rightarrow> string \<Rightarrow> control_entry" where
  "control_of r status =
     \<lparr>co_control = Some (pr_control r), co_status = status, co_severity = Some (pr_severity r),
      co_evidence_kind = pr_evidence_kind r\<rparr>"

definition rule_missing :: "string \<Rightarrow> policy_rule \<Rightarrow> missing_evidence" where
  "rule_missing dataset_id r =
     \<lparr>me_kind = pr_evidence_kind r, me_control = Some (pr_control r),
      me_message = (if pr_message r \<noteq> [] then pr_message r
        else ''Control '' @ py_repr (pr_control r) @ '' lacks required evidence of kind '' @
          py_repr (pr_evidence_kind r) @ '' for '' @ dataset_id @ ''.''),
      me_blocks = (pr_severity r = SEVERITY_BLOCKER)\<rparr>"

definition rule_finding :: "string \<Rightarrow> policy_rule \<Rightarrow> policy_finding" where
  "rule_finding dataset_id r =
     \<lparr>pf_control = pr_control r, pf_severity = pr_severity r,
      pf_message = (if pr_message r \<noteq> [] then pr_message r
        else ''Control '' @ py_repr (pr_control r) @ '' failed for '' @ dataset_id @ ''.''),
      pf_evidence_kind = pr_evidence_kind r\<rparr>"

definition fails_rule :: "policy_rule \<Rightarrow> evidence_record \<Rightarrow> bool res" where
  "fails_rule r e =
     (case pr_condition r of
        None \<Rightarrow> Inr False
      | Some c \<Rightarrow> bind_res (matches c (ev_payload e)) (\<lambda>b. Inr (\<not> b)))"

fun failed_records :: "policy_rule \<Rightarrow> evidence_record list \<Rightarrow> evidence_record list res" where
  "failed_records r [] = Inr []"
| "failed_records r (e # es) =
     bind_res (fails_rule r e) (\<lambda>b.
     bind_res (failed_records r es) (\<lambda>fs. Inr (if b then e # fs else fs)))"

definition eval_rule :: "(string, evidence_record list) dict \<Rightarrow> string \<Rightarrow> policy_rule \<Rightarrow> eval_state
    \<Rightarrow> eval_state res" where
  "eval_rule available dataset_id r st =
     (let records = (case dict_get available (pr_evidence_kind r) of None \<Rightarrow> [] | Some es \<Rightarrow> es) in
      if records = [] then
        Inr (st\<lparr>es_missing := es_missing st @ [rule_missing dataset_id r],
                es_controls := es_controls st @ [control_of r ''missing'']\<rparr>)
      else bind_res (failed_records r records) (\<lambda>failed.
        if failed \<noteq> [] then
          (let finding = rule_finding dataset_id r;
               st = (if pr_severity r = SEVERITY_BLOCKER
                     then st\<lparr>es_blockers := es_blockers st @ [finding]\<rparr>
                     else st\<lparr>es_warnings := es_warnings st @ [finding]\<rparr>)
           in Inr (st\<lparr>es_controls := es_controls st @ [control_of r ''failed'']\<rparr>))
        else Inr (st\<lparr>es_controls := es_controls st @ [control_of r ''passed'']\<rparr>)))"

fun eval_rules :: "(string, evidence_record list) dict \<Rightarrow> string \<Rightarrow> policy_rule list \<Rightarrow> eval_state
    \<Rightarrow> eval_state res" where
  "eval_rules available dataset_id [] st = Inr st"
| "eval_rules available dataset_id (r # rs) st =
     bind_res (eval_rule available dataset_id r st) (eval_rules available dataset_id rs)"

definition rule_order :: "policy_rule \<Rightarrow> string \<times> string" where
  "rule_order r = (pr_evidence_kind r, pr_control r)"

definition finding_order :: "policy_finding \<Rightarrow> string \<times> string" where
  "finding_order f = (pf_evidence_kind f, pf_control f)"

definition or_empty :: "string option \<Rightarrow> string" where
  "or_empty s = (case s of None \<Rightarrow> [] | Some t \<Rightarrow> t)"

definition unused_evidence :: "string list \<Rightarrow> evidence_record list \<Rightarrow> control_entry list" where
  "unused_evidence seen_kinds evidence =
     map (\<lambda>e. \<lparr>co_control = None, co_status = ev_status e, co_severity = None,
                co_evidence_kind = ev_kind e\<rparr>)
       (filter (\<lambda>e. ev_kind e \<notin> set seen_kinds)
         (sort_key (\<lambda>e. (ev_kind e, ev_subject e)) evidence))"

definition evaluate_policy :: "dataset_policy \<Rightarrow> string \<Rightarrow> string \<Rightarrow> evidence_record list
    \<Rightarrow> policy_verdict res" where
  "evaluate_policy policy dataset_id action evidence =
     (let required_kinds = tp_required_evidence (for_action policy action);
          available = available_from evidence [];
          rules = sort_key rule_order (filter (\<lambda>r. applies_to_action r action) (dp_rules policy));
          st0 = \<lparr>es_missing = required_missing available dataset_id (sort required_kinds),
                 es_blockers = [], es_warnings = [], es_controls = []\<rparr>;
          seen_kinds = required_kinds @ map pr_evidence_kind rules
      in bind_res (eval_rules available dataset_id rules st0) (\<lambda>st.
        let controls = sort_key (\<lambda>c. (co_evidence_kind c, or_empty (co_control c)))
              (es_controls st @ unused_evidence seen_kinds evidence);
            blockers = sort_key finding_order (es_blockers st);
            warnings = sort_key finding_order (es_warnings st);
            missing = sort_key (\<lambda>m. (me_kind m, or_empty (me_control m))) (es_missing st)
        in Inr \<lparr>pv_dataset_id = dataset_id, pv_action = action,
                pv_policy_version = dp_policy_version policy,
                pv_ready = (blockers = [] \<and> \<not> (\<exists>m \<in> set missing. me_blocks m)),
                pv_controls = controls, pv_blockers = blockers, pv_warnings = warnings,
                pv_missing = missing\<rparr>))"

section \<open>Evidence lookup\<close>

definition present_of :: "string \<Rightarrow> evidence_record list \<Rightarrow> evidence_record list" where
  "present_of k es = filter (\<lambda>e. \<not> is_missing e \<and> ev_kind e = k) es"

lemma present_of_simps [simp]:
  "present_of k [] = []"
  "present_of k (e # es) =
     (if \<not> is_missing e \<and> ev_kind e = k then e # present_of k es else present_of k es)"
  by (simp_all add: present_of_def)

lemma available_from_get:
  "dict_get (available_from es av) k =
     (case dict_get av k of
        None \<Rightarrow> (if present_of k es = [] then None else Some (present_of k es))
      | Some xs \<Rightarrow> Some (xs @ present_of k es))"
  by (induction es av rule: available_from.induct)
    (auto simp: dict_append_def split: option.splits)

lemma available_get [simp]:
  "dict_get (available_from es []) k =
     (if present_of k es = [] then None else Some (present_of k es))"
  by (simp add: available_from_get)

lemma available_has [simp]: "dict_has (available_from es []) k \<longleftrightarrow> present_of k es \<noteq> []"
  by (simp add: dict_has_get)

lemma mset_present_of: "mset es = mset fs \<Longrightarrow> mset (present_of k es) = mset (present_of k fs)"
  by (simp add: present_of_def mset_filter)

section \<open>Conditions raise only a type error\<close>

lemma py_in_Inl: "py_in a b = Inl x \<Longrightarrow> x = TypeError"
  by (cases "(a, b)" rule: py_in.cases) auto

lemma fails_rule_Inl: "fails_rule r e = Inl x \<Longrightarrow> x = TypeError"
  by (auto simp: fails_rule_def matches_def err_simps Let_def dest: py_in_Inl
      split: option.splits if_splits)

lemma failed_records_eq:
  "failed_records r es =
     (if \<exists>e \<in> set es. fails_rule r e = Inl TypeError then Inl TypeError
      else Inr (filter (\<lambda>e. fails_rule r e = Inr True) es))"
proof (induction es)
  case Nil
  then show ?case by simp
next
  case (Cons e es)
  then show ?case by (cases "fails_rule r e") (auto dest: fails_rule_Inl)
qed

lemma failed_records_Inr:
  "failed_records r es = Inr fs \<longleftrightarrow>
     (\<forall>e \<in> set es. fails_rule r e \<noteq> Inl TypeError) \<and>
     fs = filter (\<lambda>e. fails_rule r e = Inr True) es"
  by (auto simp: failed_records_eq)

lemma fails_rule_total: "fails_rule r e \<noteq> Inl TypeError \<Longrightarrow> \<exists>b. fails_rule r e = Inr b"
  by (cases "fails_rule r e") (auto dest: fails_rule_Inl)

section \<open>What one rule contributes\<close>

definition rule_passes :: "evidence_record list \<Rightarrow> policy_rule \<Rightarrow> bool" where
  "rule_passes evidence r \<longleftrightarrow>
     present_of (pr_evidence_kind r) evidence \<noteq> [] \<and>
     (\<forall>e \<in> set (present_of (pr_evidence_kind r) evidence). fails_rule r e = Inr False)"

definition blocks_state :: "eval_state \<Rightarrow> bool" where
  "blocks_state st \<longleftrightarrow> es_blockers st \<noteq> [] \<or> (\<exists>m \<in> set (es_missing st). me_blocks m)"

lemma eval_rule_cases:
  assumes "eval_rule (available_from evidence []) d r st = Inr st'"
  obtains
    (missing) "present_of (pr_evidence_kind r) evidence = []"
      "st' = st\<lparr>es_missing := es_missing st @ [rule_missing d r],
                es_controls := es_controls st @ [control_of r ''missing'']\<rparr>"
  | (blocker) e where "e \<in> set (present_of (pr_evidence_kind r) evidence)" "fails_rule r e = Inr True"
      "pr_severity r = SEVERITY_BLOCKER"
      "st' = st\<lparr>es_blockers := es_blockers st @ [rule_finding d r],
                es_controls := es_controls st @ [control_of r ''failed'']\<rparr>"
  | (warning) e where "e \<in> set (present_of (pr_evidence_kind r) evidence)" "fails_rule r e = Inr True"
      "pr_severity r \<noteq> SEVERITY_BLOCKER"
      "st' = st\<lparr>es_warnings := es_warnings st @ [rule_finding d r],
                es_controls := es_controls st @ [control_of r ''failed'']\<rparr>"
  | (passed) "rule_passes evidence r"
      "st' = st\<lparr>es_controls := es_controls st @ [control_of r ''passed'']\<rparr>"
proof (cases "present_of (pr_evidence_kind r) evidence = []")
  case True
  with assms show ?thesis by (intro missing) (auto simp: eval_rule_def)
next
  case False
  then obtain failed where
    f: "failed_records r (present_of (pr_evidence_kind r) evidence) = Inr failed"
    using assms
    by (cases "failed_records r (present_of (pr_evidence_kind r) evidence)")
      (auto simp: eval_rule_def)
  show ?thesis
  proof (cases "failed = []")
    case True
    have "rule_passes evidence r"
      unfolding rule_passes_def
    proof (intro conjI ballI)
      fix e assume e: "e \<in> set (present_of (pr_evidence_kind r) evidence)"
      have "filter (\<lambda>e. fails_rule r e = Inr True) (present_of (pr_evidence_kind r) evidence) = []"
        using f True by (simp add: failed_records_Inr)
      with f e have "fails_rule r e \<noteq> Inl TypeError" "fails_rule r e \<noteq> Inr True"
        by (simp_all add: failed_records_Inr filter_empty_conv)
      then show "fails_rule r e = Inr False"
        using fails_rule_total by fastforce
    qed (fact False)
    moreover have "st' = st\<lparr>es_controls := es_controls st @ [control_of r ''passed'']\<rparr>"
      using assms f False True by (simp add: eval_rule_def)
    ultimately show ?thesis by (rule passed)
  next
    case nonempty: False
    with f obtain e where e: "e \<in> set (present_of (pr_evidence_kind r) evidence)"
      "fails_rule r e = Inr True"
      by (auto simp: failed_records_Inr filter_empty_conv)
    show ?thesis
    proof (cases "pr_severity r = SEVERITY_BLOCKER")
      case True
      moreover have "st' = st\<lparr>es_blockers := es_blockers st @ [rule_finding d r],
          es_controls := es_controls st @ [control_of r ''failed'']\<rparr>"
        using assms f False nonempty True by (simp add: eval_rule_def)
      ultimately show ?thesis using e by (intro blocker)
    next
      case sev: False
      moreover have "st' = st\<lparr>es_warnings := es_warnings st @ [rule_finding d r],
          es_controls := es_controls st @ [control_of r ''failed'']\<rparr>"
        using assms f False nonempty sev by (simp add: eval_rule_def)
      ultimately show ?thesis using e by (intro warning)
    qed
  qed
qed

lemma eval_rule_blocks:
  assumes "eval_rule (available_from evidence []) d r st = Inr st'"
  shows "blocks_state st' \<longleftrightarrow>
    blocks_state st \<or> pr_severity r = SEVERITY_BLOCKER \<and> \<not> rule_passes evidence r"
  using assms
  by (cases rule: eval_rule_cases)
    (auto simp: blocks_state_def rule_missing_def rule_passes_def)

lemma eval_rules_blocks:
  "eval_rules (available_from evidence []) d rs st = Inr st' \<Longrightarrow>
   blocks_state st' \<longleftrightarrow>
     blocks_state st \<or> (\<exists>r \<in> set rs. pr_severity r = SEVERITY_BLOCKER \<and> \<not> rule_passes evidence r)"
proof (induction rs arbitrary: st)
  case Nil
  then show ?case by simp
next
  case (Cons r rs)
  then obtain st1 where "eval_rule (available_from evidence []) d r st = Inr st1"
    and "eval_rules (available_from evidence []) d rs st1 = Inr st'"
    by (auto simp: err_simps)
  with Cons.IH eval_rule_blocks show ?case by fastforce
qed

lemma eval_rules_findings:
  assumes "eval_rules (available_from evidence []) d rs st = Inr st'"
    and "f \<in> set (es_blockers st') \<union> set (es_warnings st')"
    and "f \<notin> set (es_blockers st) \<union> set (es_warnings st)"
  shows "\<exists>r \<in> set rs. f = rule_finding d r \<and>
    (\<exists>e \<in> set (present_of (pr_evidence_kind r) evidence). fails_rule r e = Inr True)"
  using assms
proof (induction rs arbitrary: st)
  case Nil
  then show ?case by simp
next
  case (Cons r rs)
  then obtain st1 where st1: "eval_rule (available_from evidence []) d r st = Inr st1"
    and rest: "eval_rules (available_from evidence []) d rs st1 = Inr st'"
    by (auto simp: err_simps)
  show ?case
  proof (cases "f \<in> set (es_blockers st1) \<union> set (es_warnings st1)")
    case True
    from st1 True Cons.prems(3) show ?thesis
      by (cases rule: eval_rule_cases) auto
  next
    case False
    with Cons.IH [OF rest Cons.prems(2)] show ?thesis by auto
  qed
qed

lemma eval_rules_missing:
  assumes "eval_rules (available_from evidence []) d rs st = Inr st'"
    and "m \<in> set (es_missing st')" and "m \<notin> set (es_missing st)"
  shows "present_of (me_kind m) evidence = []"
  using assms
proof (induction rs arbitrary: st)
  case Nil
  then show ?case by simp
next
  case (Cons r rs)
  then obtain st1 where st1: "eval_rule (available_from evidence []) d r st = Inr st1"
    and rest: "eval_rules (available_from evidence []) d rs st1 = Inr st'"
    by (auto simp: err_simps)
  show ?case
  proof (cases "m \<in> set (es_missing st1)")
    case True
    from st1 True Cons.prems(3) show ?thesis
      by (cases rule: eval_rule_cases) (auto simp: rule_missing_def)
  next
    case False
    with Cons.IH [OF rest Cons.prems(2)] show ?thesis by auto
  qed
qed

lemma evaluate_policy_Inr:
  assumes "evaluate_policy p d a evidence = Inr v"
  obtains st where
    "eval_rules (available_from evidence []) d
       (sort_key rule_order (filter (\<lambda>r. applies_to_action r a) (dp_rules p)))
       \<lparr>es_missing = required_missing (available_from evidence []) d
          (sort (tp_required_evidence (for_action p a))),
        es_blockers = [], es_warnings = [], es_controls = []\<rparr> = Inr st"
    "pv_ready v \<longleftrightarrow> \<not> blocks_state st"
    "set (pv_blockers v) = set (es_blockers st)" "set (pv_warnings v) = set (es_warnings st)"
    "set (pv_missing v) = set (es_missing st)" "pv_policy_version v = dp_policy_version p"
    "pv_dataset_id v = d" "pv_action v = a"
  using assms
  by (auto simp: evaluate_policy_def Let_def err_simps blocks_state_def simp flip: set_empty)

lemma required_missing_iff:
  "m \<in> set (required_missing (available_from evidence []) d ks) \<Longrightarrow>
   me_kind m \<in> set ks \<and> present_of (me_kind m) evidence = [] \<and> me_blocks m"
  by (auto simp: required_missing_def)

lemma required_missing_blocks:
  "(\<exists>m \<in> set (required_missing (available_from evidence []) d ks). me_blocks m) \<longleftrightarrow>
   (\<exists>k \<in> set ks. present_of k evidence = [])"
  by (auto simp: required_missing_def)

section \<open>Properties of the verdict\<close>

text \<open>
  C8: the evaluator implements the declarative reading of a policy. When it returns a verdict for
  an action, the verdict is ready if and only if every evidence kind the action requires has
  present evidence and every blocker-severity rule that applies to the action has present evidence,
  all of which satisfies its condition. Warning rules never decide readiness.
\<close>

theorem policy_ready_iff:
  assumes "evaluate_policy p d a evidence = Inr v"
  shows "pv_ready v \<longleftrightarrow>
    (\<forall>k \<in> set (tp_required_evidence (for_action p a)). present_of k evidence \<noteq> []) \<and>
    (\<forall>r \<in> set (dp_rules p). applies_to_action r a \<and> pr_severity r = SEVERITY_BLOCKER \<longrightarrow>
       present_of (pr_evidence_kind r) evidence \<noteq> [] \<and>
       (\<forall>e \<in> set (present_of (pr_evidence_kind r) evidence). fails_rule r e = Inr False))"
  using assms
proof (cases rule: evaluate_policy_Inr)
  case (1 st)
  from eval_rules_blocks [OF 1(1)] 1(2) show ?thesis
    by (auto simp: blocks_state_def required_missing_blocks rule_passes_def)
qed

text \<open>
  Missing evidence is never counted as a failed control. Every blocker and warning of a verdict
  comes from a rule that applies to the action and that some present evidence of its kind
  contradicts, and every missing-evidence entry names a kind for which no present evidence exists.
\<close>

theorem policy_findings_sound:
  assumes "evaluate_policy p d a evidence = Inr v"
  shows "(\<forall>f \<in> set (pv_blockers v) \<union> set (pv_warnings v).
            \<exists>r \<in> set (dp_rules p). applies_to_action r a \<and> f = rule_finding d r \<and>
              (\<exists>e \<in> set (present_of (pr_evidence_kind r) evidence). fails_rule r e = Inr True)) \<and>
         (\<forall>m \<in> set (pv_missing v). present_of (me_kind m) evidence = [])"
  using assms
proof (cases rule: evaluate_policy_Inr)
  case (1 st)
  have "\<exists>r \<in> set (dp_rules p). applies_to_action r a \<and> f = rule_finding d r \<and>
          (\<exists>e \<in> set (present_of (pr_evidence_kind r) evidence). fails_rule r e = Inr True)"
    if "f \<in> set (pv_blockers v) \<union> set (pv_warnings v)" for f
    using eval_rules_findings [OF 1(1), of f] that 1(3,4) by auto
  moreover have "present_of (me_kind m) evidence = []" if "m \<in> set (pv_missing v)" for m
    using eval_rules_missing [OF 1(1), of m] that 1(5)
    by (cases "m \<in> set (required_missing (available_from evidence []) d
          (sort (tp_required_evidence (for_action p a))))")
      (auto dest: required_missing_iff)
  ultimately show ?thesis by blast
qed

section \<open>Independence of the evidence order\<close>

lemma eval_rule_perm:
  assumes "mset es = mset fs"
  shows "eval_rule (available_from es []) d r st = eval_rule (available_from fs []) d r st"
proof -
  let ?k = "pr_evidence_kind r"
  have eq: "mset (present_of ?k es) = mset (present_of ?k fs)"
    using assms by (rule mset_present_of)
  then have empty: "present_of ?k es = [] \<longleftrightarrow> present_of ?k fs = []"
    by (metis mset_zero_iff)
  have sets: "set (present_of ?k es) = set (present_of ?k fs)"
    using eq by (rule mset_eq_setD)
  have raise: "(\<exists>e \<in> set (present_of ?k es). fails_rule r e = Inl TypeError) \<longleftrightarrow>
      (\<exists>e \<in> set (present_of ?k fs). fails_rule r e = Inl TypeError)"
    by (simp only: sets)
  have fails: "filter (\<lambda>e. fails_rule r e = Inr True) (present_of ?k es) = [] \<longleftrightarrow>
      filter (\<lambda>e. fails_rule r e = Inr True) (present_of ?k fs) = []"
    by (simp only: filter_empty_conv sets)
  show ?thesis
    unfolding eval_rule_def Let_def available_get failed_records_eq raise
    using empty fails raise
    by (cases "present_of ?k fs = []"; cases "\<exists>e \<in> set (present_of ?k fs). fails_rule r e = Inl TypeError")
      simp_all
qed

lemma eval_rules_perm:
  "mset es = mset fs \<Longrightarrow>
   eval_rules (available_from es []) d rs st = eval_rules (available_from fs []) d rs st"
proof (induction rs arbitrary: st)
  case Nil
  then show ?case by simp
next
  case (Cons r rs)
  then show ?case
    by (cases "eval_rule (available_from fs []) d r st")
      (simp_all add: eval_rule_perm [OF Cons.prems])
qed

lemma map_sort_key_perm:
  fixes g :: "'a \<Rightarrow> 'k :: linorder"
  assumes "mset xs = mset ys"
    and "\<And>x y. x \<in> set xs \<Longrightarrow> y \<in> set xs \<Longrightarrow> g x = g y \<Longrightarrow> f x = f y"
  shows "map f (sort_key g xs) = map f (sort_key g ys)"
proof (rule nth_equalityI)
  have sorted_keys: "sort (map g zs) = map g (sort_key g zs)" for zs
    by (rule properties_for_sort) simp_all
  have "sort (map g xs) = sort (map g ys)"
    by (rule properties_for_sort) (simp_all add: assms(1))
  then have keys: "map g (sort_key g xs) = map g (sort_key g ys)"
    by (simp add: sorted_keys)
  have len: "length xs = length ys" using assms(1) by (rule mset_eq_length)
  then show "length (map f (sort_key g xs)) = length (map f (sort_key g ys))" by simp
  fix i assume "i < length (map f (sort_key g xs))"
  then have i: "i < length (sort_key g xs)" "i < length (sort_key g ys)" using len by simp_all
  have "g (sort_key g xs ! i) = g (sort_key g ys ! i)"
    using keys i by (metis nth_map)
  moreover have "sort_key g xs ! i \<in> set xs"
    using nth_mem [OF i(1)] by simp
  moreover have "sort_key g ys ! i \<in> set ys"
    using nth_mem [OF i(2)] by simp
  then have "sort_key g ys ! i \<in> set xs"
    by (simp only: mset_eq_setD [OF assms(1)])
  ultimately have "f (sort_key g xs ! i) = f (sort_key g ys ! i)"
    by (intro assms(2))
  then show "map f (sort_key g xs) ! i = map f (sort_key g ys) ! i"
    using i by simp
qed

lemma unused_evidence_perm:
  assumes "mset es = mset fs"
    and "\<And>e f. e \<in> set es \<Longrightarrow> f \<in> set es \<Longrightarrow> ev_kind e = ev_kind f \<Longrightarrow>
           ev_subject e = ev_subject f \<Longrightarrow> ev_status e = ev_status f"
  shows "unused_evidence seen es = unused_evidence seen fs"
  unfolding unused_evidence_def filter_sort
proof (rule map_sort_key_perm)
  show "mset (filter (\<lambda>e. ev_kind e \<notin> set seen) es) = mset (filter (\<lambda>e. ev_kind e \<notin> set seen) fs)"
    by (simp add: assms(1))
  fix e f
  assume "e \<in> set (filter (\<lambda>e. ev_kind e \<notin> set seen) es)"
    and "f \<in> set (filter (\<lambda>e. ev_kind e \<notin> set seen) es)"
    and "(ev_kind e, ev_subject e) = (ev_kind f, ev_subject f)"
  then have "ev_status e = ev_status f" "ev_kind e = ev_kind f"
    using assms(2) [of e f] by simp_all
  then show "\<lparr>co_control = None, co_status = ev_status e, co_severity = None,
               co_evidence_kind = ev_kind e\<rparr> =
             \<lparr>co_control = None, co_status = ev_status f, co_severity = None,
               co_evidence_kind = ev_kind f\<rparr>"
    by simp
qed

text \<open>
  The order in which evidence is discovered does not change the result of an evaluation, be it
  a verdict or an error, when records with the same kind and subject agree on their status.
\<close>

theorem policy_evidence_order:
  assumes "mset es = mset fs"
    and "\<forall>e \<in> set es. \<forall>f \<in> set es. ev_kind e = ev_kind f \<and> ev_subject e = ev_subject f \<longrightarrow>
           ev_status e = ev_status f"
  shows "evaluate_policy p d a es = evaluate_policy p d a fs"
proof -
  have eval: "eval_rules (available_from es []) d rs st = eval_rules (available_from fs []) d rs st"
    for rs st
    using assms(1) by (rule eval_rules_perm)
  have unused: "unused_evidence seen es = unused_evidence seen fs" for seen
    using assms by (intro unused_evidence_perm) blast+
  have "present_of k es = [] \<longleftrightarrow> present_of k fs = []" for k
    using mset_present_of [OF assms(1), of k] by (metis mset_zero_iff)
  then have required: "required_missing (available_from es []) d ks =
      required_missing (available_from fs []) d ks" for ks
    by (simp add: required_missing_def)
  show ?thesis
    unfolding evaluate_policy_def Let_def eval unused required ..
qed

section \<open>Concrete evaluations\<close>

definition example_policy :: dataset_policy where
  "example_policy =
     \<lparr>dp_policy_version = ''v1'',
      dp_rules =
        [\<lparr>pr_control = ''owner'', pr_evidence_kind = ''governance'',
          pr_condition = Some \<lparr>ec_field = ''owner'', ec_operator = ''true'', ec_value = JNull\<rparr>,
          pr_severity = ''blocker'', pr_message = [], pr_applies_to = []\<rparr>,
         \<lparr>pr_control = ''fresh'', pr_evidence_kind = ''run'', pr_condition = None,
          pr_severity = ''warning'', pr_message = ''stale'', pr_applies_to = [''publish'']\<rparr>],
      dp_transitions = [\<lparr>tp_action = ''promote'', tp_required_evidence = [''quality'']\<rparr>]\<rparr>"

definition example_evidence :: "string \<Rightarrow> string \<Rightarrow> (string \<times> json) list \<Rightarrow> evidence_record" where
  "example_evidence kind status payload =
     \<lparr>ev_kind = kind, ev_subject = ''t'', ev_status = status, ev_payload = payload,
      ev_source = None\<rparr>"

lemmas example_defs = example_policy_def example_evidence_def

lemma example_verdict:
  "\<exists>v. evaluate_policy example_policy ''t'' ''promote''
         [example_evidence ''quality'' ''present'' [],
          example_evidence ''governance'' ''present'' [(''owner'', JStr ''ann'')]] = Inr v \<and>
       pv_ready v"
proof -
  have "case evaluate_policy example_policy ''t'' ''promote''
         [example_evidence ''quality'' ''present'' [],
          example_evidence ''governance'' ''present'' [(''owner'', JStr ''ann'')]] of
         Inl _ \<Rightarrow> False | Inr v \<Rightarrow> pv_ready v"
    by code_simp
  then show ?thesis by (auto split: sum.splits)
qed

theorem policy_ready_iff_witness:
  "present_of ''quality'' [example_evidence ''quality'' ''present'' [],
     example_evidence ''governance'' ''present'' [(''owner'', JStr ''ann'')]] \<noteq> []"
proof -
  from example_verdict obtain v where
    "evaluate_policy example_policy ''t'' ''promote''
       [example_evidence ''quality'' ''present'' [],
        example_evidence ''governance'' ''present'' [(''owner'', JStr ''ann'')]] = Inr v"
    and "pv_ready v" by blast
  moreover have "''quality'' \<in> set (tp_required_evidence (for_action example_policy ''promote''))"
    by code_simp
  ultimately show ?thesis using policy_ready_iff by blast
qed

lemma example_blocked:
  "\<exists>v. evaluate_policy example_policy ''t'' ''promote''
         [example_evidence ''governance'' ''present'' [(''owner'', JStr [])]] = Inr v \<and>
       pv_blockers v \<noteq> [] \<and> pv_missing v \<noteq> []"
proof -
  have "case evaluate_policy example_policy ''t'' ''promote''
         [example_evidence ''governance'' ''present'' [(''owner'', JStr [])]] of
         Inl _ \<Rightarrow> False | Inr v \<Rightarrow> pv_blockers v \<noteq> [] \<and> pv_missing v \<noteq> []"
    by code_simp
  then show ?thesis by (auto split: sum.splits)
qed

theorem policy_findings_sound_witness:
  "\<exists>v f r. evaluate_policy example_policy ''t'' ''promote''
         [example_evidence ''governance'' ''present'' [(''owner'', JStr [])]] = Inr v \<and>
       f \<in> set (pv_blockers v) \<and> r \<in> set (dp_rules example_policy) \<and> f = rule_finding ''t'' r"
proof -
  from example_blocked obtain v where
    v: "evaluate_policy example_policy ''t'' ''promote''
         [example_evidence ''governance'' ''present'' [(''owner'', JStr [])]] = Inr v"
    and "pv_blockers v \<noteq> []" by blast
  then obtain f where "f \<in> set (pv_blockers v)" by (meson list.set_sel(1))
  with policy_findings_sound [OF v] v show ?thesis by blast
qed

theorem policy_evidence_order_witness:
  "evaluate_policy example_policy ''t'' ''promote''
     [example_evidence ''a'' ''present'' [], example_evidence ''b'' ''missing'' []] =
   evaluate_policy example_policy ''t'' ''promote''
     [example_evidence ''b'' ''missing'' [], example_evidence ''a'' ''present'' []]"
  by (rule policy_evidence_order) (simp_all add: example_evidence_def add_mset_commute)

text \<open>
  Without that agreement the verdict does depend on the discovery order. For two records of one
  kind and subject, one present and one missing, the list of controls comes out in the order the
  source listed them, although the evaluator's contract says that discovery order cannot change
  the verdict.
\<close>

theorem policy_order_divergence:
  "evaluate_policy example_policy ''t'' ''promote''
     [example_evidence ''x'' ''present'' [], example_evidence ''x'' ''missing'' []] \<noteq>
   evaluate_policy example_policy ''t'' ''promote''
     [example_evidence ''x'' ''missing'' [], example_evidence ''x'' ''present'' []]"
proof -
  have "map_sum id (map co_status \<circ> pv_controls) (evaluate_policy example_policy ''t'' ''promote''
      [example_evidence ''x'' ''present'' [], example_evidence ''x'' ''missing'' []]) =
      Inr [''missing'', ''present'', ''missing'']"
    by code_simp
  moreover have "map_sum id (map co_status \<circ> pv_controls)
      (evaluate_policy example_policy ''t'' ''promote''
      [example_evidence ''x'' ''missing'' [], example_evidence ''x'' ''present'' []]) =
      Inr [''missing'', ''missing'', ''present'']"
    by code_simp
  ultimately show ?thesis by auto
qed

end
