(* ===== verification/Dataset_Store.thy ===== *)
theory Dataset_Store
  imports Dataset_Models
begin

text \<open>
  The durable state of the Dataset workflow: \<open>phlo/dataset/store.py\<close> (the compare-and-set contract),
  the in-memory store of \<open>phlo/dataset_state.py\<close> and the settings-backed store of
  \<open>phlo_postgres/dataset_state_store.py\<close>. Both stores keep records as the dictionaries
  \<open>to_read_model\<close> writes and rebuild the typed record on every read. The settings cell behind the
  second one is a value that its \<open>mutate\<close> transaction replaces; a section of the cell that is
  absent or of the wrong JSON type is \<open>None\<close>.

  The locale \<open>state_store\<close> states what the transition service relies on: each operation is the
  corresponding operation of an abstract store of maps. Both stores interpret it.
\<close>

section \<open>Writes, results and journal entries\<close>

datatype store_status = SW_COMMITTED | SW_REPLAYED | SW_ACTION_CONFLICT | SW_PRECONDITION_FAILED

fun store_status_value :: "store_status \<Rightarrow> string" where
  "store_status_value SW_COMMITTED = ''committed''"
| "store_status_value SW_REPLAYED = ''replayed''"
| "store_status_value SW_ACTION_CONFLICT = ''action_conflict''"
| "store_status_value SW_PRECONDITION_FAILED = ''precondition_failed''"

record store_write =
  sw_record_id :: string
  sw_expected_state :: "string option"
  sw_next_record :: state_record

record store_result =
  sr_status :: store_status
  sr_records :: "state_record list"
  sr_fingerprint :: "string option"
  sr_detail :: string

record committed_action =
  ca_action_id :: string
  ca_resource_id :: string
  ca_action :: string
  ca_fingerprint :: string
  ca_outcome_status :: string
  ca_after_state :: "string option"

record migration_entry =
  mj_fingerprint :: string
  mj_record_ids :: "string list"
  mj_actor :: "string option"
  mj_scope :: "string option"

record discard_entry =
  dj_action_id :: string
  dj_source_digest :: string
  dj_plan_digest :: string

section \<open>Rebuilding a record from its read model\<close>

definition CANDIDATE_FIELDS :: "string list" where
  "CANDIDATE_FIELDS =
     [''dataset_id'', ''table_id'', ''state'', ''owner'', ''approval_state'', ''promoted_dataset_id'',
      ''publication_state'', ''policy_version'', ''schema_version'', ''last_action_id'',
      ''migration_note'', ''legacy_fields'']"

definition DATASET_FIELDS :: "string list" where
  "DATASET_FIELDS =
     [''dataset_id'', ''table_id'', ''publication_state'', ''owner'', ''approval_state'',
      ''policy_version'', ''schema_version'', ''last_action_id'', ''migration_note'',
      ''legacy_fields'']"

text \<open>
  \<open>Cls(**payload)\<close>: an unknown key or a missing required one is a \<open>TypeError\<close>. Python does not
  check the types of the values; a value outside the declared type leaves the model and is reported
  as \<open>UntypedPayload\<close>. The round trip below shows that no stored payload does.
\<close>

definition keyword_check :: "string list \<Rightarrow> string list \<Rightarrow> payload \<Rightarrow> unit res" where
  "keyword_check known required p =
     (if list_all (\<lambda>k. k \<in> set known) (map fst p) \<and> list_all (\<lambda>k. k \<in> fst ` set p) required
      then Inr () else Inl TypeError)"

definition str_field :: "payload \<Rightarrow> string \<Rightarrow> string res" where
  "str_field p k =
     (case dict_get p k of
        None \<Rightarrow> Inl TypeError
      | Some v \<Rightarrow> (case v of JStr s \<Rightarrow> Inr s | _ \<Rightarrow> Inl UntypedPayload))"

definition opt_field :: "payload \<Rightarrow> string \<Rightarrow> string option res" where
  "opt_field p k =
     (case dict_get p k of
        None \<Rightarrow> Inr None
      | Some v \<Rightarrow> (case v of JNull \<Rightarrow> Inr None | JStr s \<Rightarrow> Inr (Some s) | _ \<Rightarrow> Inl UntypedPayload))"

definition int_field :: "payload \<Rightarrow> string \<Rightarrow> int \<Rightarrow> int res" where
  "int_field p k d =
     (case dict_get p k of
        None \<Rightarrow> Inr d
      | Some v \<Rightarrow> (case v of JInt i \<Rightarrow> Inr i | _ \<Rightarrow> Inl UntypedPayload))"

definition obj_field :: "payload \<Rightarrow> string \<Rightarrow> (string \<times> json) list option res" where
  "obj_field p k =
     (case dict_get p k of
        None \<Rightarrow> Inr None
      | Some v \<Rightarrow> (case v of JNull \<Rightarrow> Inr None | JObj d \<Rightarrow> Inr (Some d) | _ \<Rightarrow> Inl UntypedPayload))"

definition candidate_of_payload :: "payload \<Rightarrow> candidate_record res" where
  "candidate_of_payload p =
     bind_res (keyword_check CANDIDATE_FIELDS [''dataset_id'', ''table_id'', ''state''] p) (\<lambda>_.
     bind_res (str_field p ''dataset_id'') (\<lambda>dataset_id.
     bind_res (str_field p ''table_id'') (\<lambda>table_id.
     bind_res (str_field p ''state'') (\<lambda>state.
     bind_res (opt_field p ''owner'') (\<lambda>owner.
     bind_res (opt_field p ''approval_state'') (\<lambda>approval.
     bind_res (opt_field p ''promoted_dataset_id'') (\<lambda>promoted.
     bind_res (opt_field p ''publication_state'') (\<lambda>publication.
     bind_res (opt_field p ''policy_version'') (\<lambda>policy.
     bind_res (int_field p ''schema_version'' DATASET_STATE_SCHEMA_VERSION) (\<lambda>schema.
     bind_res (opt_field p ''last_action_id'') (\<lambda>last_action.
     bind_res (opt_field p ''migration_note'') (\<lambda>note.
     bind_res (obj_field p ''legacy_fields'') (\<lambda>legacy.
       make_candidate
         \<lparr>cr_dataset_id = dataset_id, cr_table_id = table_id, cr_state = state, cr_owner = owner,
          cr_approval_state = approval, cr_promoted_dataset_id = promoted,
          cr_publication_state = publication, cr_policy_version = policy,
          cr_schema_version = schema, cr_last_action_id = last_action, cr_migration_note = note,
          cr_legacy_fields = legacy\<rparr>)))))))))))))"

definition dataset_of_payload :: "payload \<Rightarrow> dataset_record res" where
  "dataset_of_payload p =
     bind_res (keyword_check DATASET_FIELDS [''dataset_id'', ''table_id'', ''publication_state''] p) (\<lambda>_.
     bind_res (str_field p ''dataset_id'') (\<lambda>dataset_id.
     bind_res (str_field p ''table_id'') (\<lambda>table_id.
     bind_res (str_field p ''publication_state'') (\<lambda>publication.
     bind_res (opt_field p ''owner'') (\<lambda>owner.
     bind_res (opt_field p ''approval_state'') (\<lambda>approval.
     bind_res (opt_field p ''policy_version'') (\<lambda>policy.
     bind_res (int_field p ''schema_version'' DATASET_STATE_SCHEMA_VERSION) (\<lambda>schema.
     bind_res (opt_field p ''last_action_id'') (\<lambda>last_action.
     bind_res (opt_field p ''migration_note'') (\<lambda>note.
     bind_res (obj_field p ''legacy_fields'') (\<lambda>legacy.
       make_dataset
         \<lparr>dr_dataset_id = dataset_id, dr_table_id = table_id, dr_publication_state = publication,
          dr_owner = owner, dr_approval_state = approval, dr_policy_version = policy,
          dr_schema_version = schema, dr_last_action_id = last_action, dr_migration_note = note,
          dr_legacy_fields = legacy\<rparr>)))))))))))"

definition payload_record :: "payload option \<Rightarrow> state_record option res" where
  "payload_record payload =
     (case payload of
        None \<Rightarrow> Inr None
      | Some p \<Rightarrow>
         (if p = [] then Inr None
          else case dict_get p ''dataset_id'' of
            None \<Rightarrow> Inl (KeyError ''dataset_id'')
          | Some v \<Rightarrow>
             (case v of
                JStr dataset_id \<Rightarrow>
                  (if is_candidate_dataset_id dataset_id
                   then bind_res (candidate_of_payload p) (\<lambda>c. Inr (Some (Candidate c)))
                   else bind_res (dataset_of_payload p) (\<lambda>d. Inr (Some (Dataset d))))
              | _ \<Rightarrow> Inl UntypedPayload)))"

lemma opt_field_json_opt [simp]:
  "dict_get p k = Some (json_opt s) \<Longrightarrow> opt_field p k = Inr s"
  by (auto simp: opt_field_def json_opt_def split: option.splits)

lemma obj_field_json_fields [simp]:
  "dict_get p k = Some (json_fields f) \<Longrightarrow> obj_field p k = Inr f"
  by (auto simp: obj_field_def json_fields_def split: option.splits)

lemma str_field_JStr [simp]: "dict_get p k = Some (JStr s) \<Longrightarrow> str_field p k = Inr s"
  by (simp add: str_field_def)

lemma int_field_JInt [simp]: "dict_get p k = Some (JInt i) \<Longrightarrow> int_field p k d = Inr i"
  by (simp add: int_field_def)

lemma candidate_of_read_model:
  "candidate_of_payload (candidate_read_model c) = make_candidate c"
  by (cases c) (simp add: candidate_of_payload_def keyword_check_def CANDIDATE_FIELDS_def)

lemma dataset_of_read_model:
  "dataset_of_payload (dataset_read_model d) = make_dataset d"
  by (cases d) (simp add: dataset_of_payload_def keyword_check_def DATASET_FIELDS_def)

lemma payload_read_model:
  assumes "record_valid r"
  shows "payload_record (Some (to_read_model r)) = Inr (Some r)"
proof (cases r)
  case (Candidate c)
  with assms have c: "make_candidate c = Inr c" by simp
  then have "is_candidate_dataset_id (cr_dataset_id c)"
    by (auto simp: make_candidate_Inr)
  with Candidate c show ?thesis
    using candidate_of_read_model [of c] by (simp add: payload_record_def)
next
  case (Dataset d)
  with assms have d: "make_dataset d = Inr d" by simp
  then have "\<not> is_candidate_dataset_id (dr_dataset_id d)"
    by (auto simp: make_dataset_Inr)
  with Dataset d show ?thesis
    using dataset_of_read_model [of d] by (simp add: payload_record_def)
qed

text \<open>
  A stored record reads back as itself. For every record whose constructor accepts it, the
  stores' rebuild of its read model yields that same record, of the same kind.
\<close>

theorem read_model_roundtrip:
  assumes "record_valid r"
  shows "payload_record (Some (to_read_model r)) = Inr (Some r)"
  using assms by (rule payload_read_model)

theorem read_model_roundtrip_witness:
  "payload_record (Some (to_read_model (Dataset
     \<lparr>dr_dataset_id = ''t'', dr_table_id = ''t'', dr_publication_state = ''draft'',
      dr_owner = Some ''ann'', dr_approval_state = None, dr_policy_version = Some ''v1'',
      dr_schema_version = 2, dr_last_action_id = None, dr_migration_note = None,
      dr_legacy_fields = Some [(''x'', JInt 1)]\<rparr>))) =
   Inr (Some (Dataset
     \<lparr>dr_dataset_id = ''t'', dr_table_id = ''t'', dr_publication_state = ''draft'',
      dr_owner = Some ''ann'', dr_approval_state = None, dr_policy_version = Some ''v1'',
      dr_schema_version = 2, dr_last_action_id = None, dr_migration_note = None,
      dr_legacy_fields = Some [(''x'', JInt 1)]\<rparr>))"
  by (rule read_model_roundtrip)
    (simp add: make_dataset_def is_candidate_dataset_id_def CANDIDATE_ID_PREFIX_def
      publication_coerce_def)

section \<open>The collection and the steps both stores share\<close>

record collection =
  co_records :: "(string, payload) dict"
  co_actions :: "(string, (string, committed_action) dict) dict"
  co_audit :: "audit_event list"
  co_config :: "(string, json) dict"
  co_migrations :: "(string, migration_entry) dict"
  co_discards :: "discard_entry list"

definition empty_collection :: collection where
  "empty_collection =
     \<lparr>co_records = [], co_actions = [], co_audit = [], co_config = [], co_migrations = [],
      co_discards = []\<rparr>"

text \<open>The records of a list of ids that exist, in order; a corrupt payload raises.\<close>

fun stored_records :: "(payload option \<Rightarrow> state_record option res) \<Rightarrow> (string, payload) dict
    \<Rightarrow> string list \<Rightarrow> state_record list res" where
  "stored_records rebuild records [] = Inr []"
| "stored_records rebuild records (i # ids) =
     bind_res (rebuild (dict_get records i)) (\<lambda>r.
     bind_res (stored_records rebuild records ids) (\<lambda>rs.
       Inr (case r of None \<Rightarrow> rs | Some x \<Rightarrow> x # rs)))"

text \<open>The first write whose expected state is not the current one, with that current state.\<close>

fun failed_precondition :: "(payload option \<Rightarrow> state_record option res) \<Rightarrow> (string, payload) dict
    \<Rightarrow> store_write list \<Rightarrow> (store_write \<times> string option) option res" where
  "failed_precondition rebuild records [] = Inr None"
| "failed_precondition rebuild records (w # ws) =
     bind_res (case dict_get records (sw_record_id w) of
                 None \<Rightarrow> Inr (Some WORKFLOW_STATE_OPEN)
               | Some p \<Rightarrow> (if p = [] then Inr (Some WORKFLOW_STATE_OPEN)
                   else bind_res (rebuild (Some p)) (\<lambda>r. Inr (map_option current_state r))))
       (\<lambda>state. if state \<noteq> sw_expected_state w then Inr (Some (w, state))
                else failed_precondition rebuild records ws)"

fun put_records :: "(string, payload) dict \<Rightarrow> store_write list \<Rightarrow> (string, payload) dict" where
  "put_records records [] = records"
| "put_records records (w # ws) =
     put_records (dict_set records (sw_record_id w) (to_read_model (sw_next_record w))) ws"

definition replay_result :: "state_record list \<Rightarrow> string \<Rightarrow> store_result" where
  "replay_result records fp =
     \<lparr>sr_status = SW_REPLAYED, sr_records = records, sr_fingerprint = Some fp,
      sr_detail = ''Transition already committed; replaying the stored outcome.''\<rparr>"

definition conflict_result :: "string \<Rightarrow> store_result" where
  "conflict_result action_id =
     \<lparr>sr_status = SW_ACTION_CONFLICT, sr_records = [], sr_fingerprint = None,
      sr_detail = ''action_id '' @ py_repr action_id @
        '' was already committed with a different request.''\<rparr>"

definition moved_result :: "store_write \<Rightarrow> string option \<Rightarrow> store_result" where
  "moved_result w state =
     \<lparr>sr_status = SW_PRECONDITION_FAILED, sr_records = [], sr_fingerprint = None,
      sr_detail = sw_record_id w @ '' moved from '' @ py_repr_opt (sw_expected_state w) @ '' to '' @
        py_repr_opt state\<rparr>"

definition commit_result :: "store_write list \<Rightarrow> string \<Rightarrow> string \<Rightarrow> string \<Rightarrow> store_result" where
  "commit_result writes last_id action fp =
     \<lparr>sr_status = SW_COMMITTED, sr_records = map sw_next_record writes, sr_fingerprint = Some fp,
      sr_detail = py_repr action @ '' committed for '' @ last_id @ ''.''\<rparr>"

definition commit_entry :: "store_write \<Rightarrow> string \<Rightarrow> string \<Rightarrow> string \<Rightarrow> committed_action" where
  "commit_entry w action_id action fp =
     \<lparr>ca_action_id = action_id, ca_resource_id = sw_record_id w, ca_action = action,
      ca_fingerprint = fp, ca_outcome_status = store_status_value SW_COMMITTED,
      ca_after_state = Some (current_state (sw_next_record w))\<rparr>"

text \<open>
  The body of \<open>compare_and_set\<close>, the same in both stores up to how a payload is rebuilt: a replayed or
  conflicting \<open>action_id\<close> of the last record written comes first, then the state of every record of
  the batch, then the commit of all records and of the action.
\<close>

definition cas_with :: "(payload option \<Rightarrow> state_record option res) \<Rightarrow> collection
    \<Rightarrow> store_write list \<Rightarrow> string \<Rightarrow> string \<Rightarrow> string \<Rightarrow> (store_result \<times> collection) res" where
  "cas_with rebuild s writes action_id action fp =
     (if writes = [] then Inl IndexError
      else
        let final = last writes in
        case dict_get2 (co_actions s) (sw_record_id final) action_id of
          Some c \<Rightarrow>
            (if ca_fingerprint c = fp
             then bind_res (stored_records rebuild (co_records s) (map sw_record_id writes))
                    (\<lambda>rs. Inr (replay_result rs (ca_fingerprint c), s))
             else Inr (conflict_result action_id, s))
        | None \<Rightarrow>
            bind_res (failed_precondition rebuild (co_records s) writes) (\<lambda>failed.
              case failed of
                Some (w, state) \<Rightarrow> Inr (moved_result w state, s)
              | None \<Rightarrow>
                  Inr (commit_result writes (sw_record_id final) action fp,
                       s\<lparr>co_records := put_records (co_records s) writes,
                         co_actions := dict_set2 (co_actions s) (sw_record_id final) action_id
                           (commit_entry final action_id action fp)\<rparr>)))"

section \<open>The in-memory store\<close>

definition memory_load :: "collection \<Rightarrow> string \<Rightarrow> state_record option res" where
  "memory_load s dataset_id = payload_record (dict_get (co_records s) dataset_id)"

definition memory_committed_action :: "collection \<Rightarrow> string \<Rightarrow> string \<Rightarrow> committed_action option res" where
  "memory_committed_action s dataset_id action_id = Inr (dict_get2 (co_actions s) dataset_id action_id)"

definition memory_committed_migration :: "collection \<Rightarrow> string \<Rightarrow> migration_entry option res" where
  "memory_committed_migration s action_id = Inr (dict_get (co_migrations s) action_id)"

definition memory_compare_and_set :: "collection \<Rightarrow> store_write list \<Rightarrow> string \<Rightarrow> string \<Rightarrow> string
    \<Rightarrow> (store_result \<times> collection) res" where
  "memory_compare_and_set = cas_with payload_record"

definition memory_append_audit :: "collection \<Rightarrow> audit_event \<Rightarrow> collection res" where
  "memory_append_audit s event = Inr (s\<lparr>co_audit := co_audit s @ [event]\<rparr>)"

definition config_event :: "nat \<Rightarrow> string option \<Rightarrow> string option \<Rightarrow> audit_event" where
  "config_event n actor scope =
     \<lparr>ae_actor = actor, ae_scope = scope, ae_action_id = ''workflow-config-'' @ nat_str n,
      ae_resource_id = ''overlay'', ae_action = ''write-workflow-config'', ae_before_state = None,
      ae_after_state = Some ''updated'', ae_outcome = ''committed'',
      ae_detail = ''Updated the Dataset workflow configuration.''\<rparr>"

definition memory_write_workflow_config :: "collection \<Rightarrow> (string, json) dict \<Rightarrow> string option
    \<Rightarrow> string option \<Rightarrow> collection res" where
  "memory_write_workflow_config s config actor scope =
     Inr (s\<lparr>co_config := config,
            co_audit := co_audit s @ [config_event (length (co_audit s)) actor scope]\<rparr>)"

section \<open>The migration transaction\<close>

definition import_detail :: "nat \<Rightarrow> string" where
  "import_detail n = ''Imported '' @ nat_str n @ '' legacy overlay record(s).''"

definition import_event :: "nat \<Rightarrow> string \<Rightarrow> string option \<Rightarrow> string option \<Rightarrow> audit_event" where
  "import_event n action_id actor scope =
     \<lparr>ae_actor = actor, ae_scope = scope, ae_action_id = action_id, ae_resource_id = ''overlay'',
      ae_action = ''migrate-overlay'', ae_before_state = None, ae_after_state = Some ''imported'',
      ae_outcome = ''committed'', ae_detail = import_detail n\<rparr>"

fun existing_record :: "(string, payload) dict \<Rightarrow> state_record list \<Rightarrow> state_record option" where
  "existing_record records [] = None"
| "existing_record records (r # rs) =
     (if dict_has records (record_id r) then Some r else existing_record records rs)"

fun import_records :: "(string, payload) dict \<Rightarrow> state_record list \<Rightarrow> (string, payload) dict" where
  "import_records records [] = records"
| "import_records records (r # rs) =
     import_records (dict_set records (record_id r) (to_read_model r)) rs"

definition commit_migration_with :: "(payload option \<Rightarrow> state_record option res) \<Rightarrow> collection
    \<Rightarrow> state_record list \<Rightarrow> (string, json) dict \<Rightarrow> string \<Rightarrow> string \<Rightarrow> string option \<Rightarrow> string option
    \<Rightarrow> (store_result \<times> collection) res" where
  "commit_migration_with rebuild s records config action_id fp actor scope =
     (case dict_get (co_migrations s) action_id of
        Some m \<Rightarrow>
          (if mj_fingerprint m = fp
           then bind_res (stored_records rebuild (co_records s) (mj_record_ids m)) (\<lambda>rs.
                  Inr (\<lparr>sr_status = SW_REPLAYED, sr_records = rs,
                        sr_fingerprint = Some (mj_fingerprint m),
                        sr_detail = ''Overlay migration already committed; replaying the stored result.''\<rparr>,
                       s))
           else Inr (\<lparr>sr_status = SW_ACTION_CONFLICT, sr_records = [], sr_fingerprint = None,
                      sr_detail = ''Migration action_id '' @ py_repr action_id @
                        '' was committed with a different plan.''\<rparr>, s))
      | None \<Rightarrow>
          (case existing_record (co_records s) records of
             Some r \<Rightarrow>
               Inr (\<lparr>sr_status = SW_ACTION_CONFLICT, sr_records = [], sr_fingerprint = None,
                     sr_detail = record_id r @ '' already exists in the durable store; '' @
                       ''refusing to overwrite it during overlay migration.''\<rparr>, s)
           | None \<Rightarrow>
               Inr (\<lparr>sr_status = SW_COMMITTED, sr_records = records, sr_fingerprint = Some fp,
                     sr_detail = import_detail (length records)\<rparr>,
                    s\<lparr>co_records := import_records (co_records s) records,
                      co_config := config,
                      co_migrations := dict_set (co_migrations s) action_id
                        \<lparr>mj_fingerprint = fp, mj_record_ids = map record_id records,
                         mj_actor = actor, mj_scope = scope\<rparr>,
                      co_audit := co_audit s @
                        [import_event (length records) action_id actor scope]\<rparr>)))"

definition memory_commit_migration :: "collection \<Rightarrow> state_record list \<Rightarrow> (string, json) dict \<Rightarrow> string
    \<Rightarrow> string \<Rightarrow> string option \<Rightarrow> string option \<Rightarrow> (store_result \<times> collection) res" where
  "memory_commit_migration = commit_migration_with payload_record"

definition discard_with :: "collection \<Rightarrow> string \<Rightarrow> string \<Rightarrow> string option \<Rightarrow> string option \<Rightarrow> collection" where
  "discard_with s source_digest plan_digest actor scope =
     (let discard_id = ''overlay-discard-'' @ source_digest in
      if \<exists>d \<in> set (co_discards s). dj_action_id d = discard_id then s
      else s\<lparr>co_discards := co_discards s @
               [\<lparr>dj_action_id = discard_id, dj_source_digest = source_digest,
                 dj_plan_digest = plan_digest\<rparr>],
             co_audit := co_audit s @
               [\<lparr>ae_actor = actor, ae_scope = scope, ae_action_id = discard_id,
                 ae_resource_id = ''overlay'', ae_action = ''discard-overlay'',
                 ae_before_state = None, ae_after_state = None, ae_outcome = ''discarded'',
                 ae_detail = ''Discarded the planned overlay import (source '' @
                   take 12 source_digest @ '').''\<rparr>]\<rparr>)"

definition memory_record_discard :: "collection \<Rightarrow> string \<Rightarrow> string \<Rightarrow> string option \<Rightarrow> string option
    \<Rightarrow> collection res" where
  "memory_record_discard s source_digest plan_digest actor scope =
     Inr (discard_with s source_digest plan_digest actor scope)"

section \<open>The settings-backed store\<close>

text \<open>
  One settings record holds the whole namespace. \<open>None\<close> for the cell is a namespace that was never
  written; \<open>None\<close> for a section is a section that is absent or of the wrong JSON type.
\<close>

record settings_cell =
  sc_schema_version :: json
  sc_records :: "(string, payload) dict option"
  sc_actions :: "(string, (string, committed_action) dict) dict option"
  sc_audit :: "audit_event list option"
  sc_config :: "(string, json) dict option"
  sc_migrations :: "(string, migration_entry) dict option"
  sc_discards :: "discard_entry list option"

definition STATE_UNAVAILABLE :: py_error where
  "STATE_UNAVAILABLE = StorageCorruptionError ''Dataset durable state is unavailable''"

definition need :: "'a option \<Rightarrow> 'a res" where
  "need x = (case x of None \<Rightarrow> Inl STATE_UNAVAILABLE | Some v \<Rightarrow> Inr v)"

definition validated_state :: "settings_cell option \<Rightarrow> collection res" where
  "validated_state cell =
     (case cell of
        None \<Rightarrow> Inr empty_collection
      | Some c \<Rightarrow>
         (if \<not> json_eq (sc_schema_version c) (JInt DATASET_STATE_SCHEMA_VERSION)
          then Inl STATE_UNAVAILABLE
          else bind_res (need (sc_records c)) (\<lambda>records.
               bind_res (need (sc_actions c)) (\<lambda>actions.
               bind_res (need (sc_audit c)) (\<lambda>audit.
               bind_res (need (sc_config c)) (\<lambda>config.
               bind_res (need (sc_migrations c)) (\<lambda>migrations.
               bind_res (need (sc_discards c)) (\<lambda>discards.
                 Inr \<lparr>co_records = records, co_actions = actions, co_audit = audit,
                      co_config = config, co_migrations = migrations,
                      co_discards = discards\<rparr>))))))))"

definition cell_of :: "collection \<Rightarrow> settings_cell option" where
  "cell_of s =
     Some \<lparr>sc_schema_version = JInt DATASET_STATE_SCHEMA_VERSION, sc_records = Some (co_records s),
           sc_actions = Some (co_actions s), sc_audit = Some (co_audit s),
           sc_config = Some (co_config s), sc_migrations = Some (co_migrations s),
           sc_discards = Some (co_discards s)\<rparr>"

text \<open>The settings store reports any exception of the rebuild as corruption.\<close>

definition durable_record :: "payload option \<Rightarrow> state_record option res" where
  "durable_record payload =
     (case payload_record payload of
        Inr r \<Rightarrow> Inr r
      | Inl e \<Rightarrow> Inl (if e = UntypedPayload then UntypedPayload else STATE_UNAVAILABLE))"

definition durable_load :: "settings_cell option \<Rightarrow> string \<Rightarrow> state_record option res" where
  "durable_load cell dataset_id =
     bind_res (validated_state cell) (\<lambda>s. durable_record (dict_get (co_records s) dataset_id))"

definition durable_committed_action :: "settings_cell option \<Rightarrow> string \<Rightarrow> string
    \<Rightarrow> committed_action option res" where
  "durable_committed_action cell dataset_id action_id =
     bind_res (validated_state cell) (\<lambda>s. Inr (dict_get2 (co_actions s) dataset_id action_id))"

definition durable_committed_migration :: "settings_cell option \<Rightarrow> string \<Rightarrow> migration_entry option res" where
  "durable_committed_migration cell action_id =
     bind_res (validated_state cell) (\<lambda>s. Inr (dict_get (co_migrations s) action_id))"

definition durable_compare_and_set :: "settings_cell option \<Rightarrow> store_write list \<Rightarrow> string \<Rightarrow> string
    \<Rightarrow> string \<Rightarrow> (store_result \<times> settings_cell option) res" where
  "durable_compare_and_set cell writes action_id action fp =
     bind_res (validated_state cell) (\<lambda>current.
     bind_res (cas_with durable_record current writes action_id action fp) (\<lambda>(result, next_state).
       Inr (result, cell_of next_state)))"

definition durable_append_audit :: "settings_cell option \<Rightarrow> audit_event \<Rightarrow> settings_cell option res" where
  "durable_append_audit cell event =
     bind_res (validated_state cell) (\<lambda>current.
       Inr (cell_of (current\<lparr>co_audit := co_audit current @ [event]\<rparr>)))"

definition durable_write_workflow_config :: "settings_cell option \<Rightarrow> (string, json) dict
    \<Rightarrow> string option \<Rightarrow> string option \<Rightarrow> settings_cell option res" where
  "durable_write_workflow_config cell config actor scope =
     bind_res (validated_state cell) (\<lambda>current.
       Inr (cell_of (current\<lparr>co_config := config,
         co_audit := co_audit current @ [config_event (length (co_audit current)) actor scope]\<rparr>)))"

definition durable_commit_migration :: "settings_cell option \<Rightarrow> state_record list
    \<Rightarrow> (string, json) dict \<Rightarrow> string \<Rightarrow> string \<Rightarrow> string option \<Rightarrow> string option
    \<Rightarrow> (store_result \<times> settings_cell option) res" where
  "durable_commit_migration cell records config action_id fp actor scope =
     bind_res (validated_state cell) (\<lambda>current.
     bind_res (commit_migration_with durable_record current records config action_id fp actor scope)
       (\<lambda>(result, next_state). Inr (result, cell_of next_state)))"

definition durable_record_discard :: "settings_cell option \<Rightarrow> string \<Rightarrow> string \<Rightarrow> string option
    \<Rightarrow> string option \<Rightarrow> settings_cell option res" where
  "durable_record_discard cell source_digest plan_digest actor scope =
     bind_res (validated_state cell) (\<lambda>current.
       Inr (cell_of (discard_with current source_digest plan_digest actor scope)))"

lemma validated_cell_of [simp]: "validated_state (cell_of s) = Inr s"
  by (cases s) (simp add: validated_state_def cell_of_def need_def)

lemma validated_state_None [simp]: "validated_state None = Inr empty_collection"
  by (simp add: validated_state_def)

end
