(* ===== verification/Dataset_Store_Spec.thy ===== *)
theory Dataset_Store_Spec
  imports Dataset_Store
begin

text \<open>
  The abstract store (maps from ids to records and actions, and the audit trail), the contract
  \<open>state_store\<close> the transition service relies on, and its two interpretations: the in-memory store and
  the settings-backed store implement the abstract compare-and-set exactly.
\<close>

section \<open>The abstract store\<close>

record abs_store =
  ab_records :: "string \<Rightarrow> state_record option"
  ab_actions :: "string \<Rightarrow> string \<Rightarrow> committed_action option"
  ab_audit :: "audit_event list"

definition state_at :: "(string \<Rightarrow> state_record option) \<Rightarrow> string \<Rightarrow> string" where
  "state_at m i = (case m i of None \<Rightarrow> WORKFLOW_STATE_OPEN | Some r \<Rightarrow> current_state r)"

fun put_all :: "(string \<Rightarrow> state_record option) \<Rightarrow> store_write list
    \<Rightarrow> string \<Rightarrow> state_record option" where
  "put_all m [] = m"
| "put_all m (w # ws) = put_all (m(sw_record_id w \<mapsto> sw_next_record w)) ws"

definition write_blocked :: "(string \<Rightarrow> state_record option) \<Rightarrow> store_write \<Rightarrow> bool" where
  "write_blocked m w \<longleftrightarrow> Some (state_at m (sw_record_id w)) \<noteq> sw_expected_state w"

definition spec_cas :: "abs_store \<Rightarrow> store_write list \<Rightarrow> string \<Rightarrow> string \<Rightarrow> string
    \<Rightarrow> store_result \<times> abs_store" where
  "spec_cas A writes action_id action fp =
     (let final = last writes in
      case ab_actions A (sw_record_id final) action_id of
        Some c \<Rightarrow>
          (if ca_fingerprint c = fp
           then (replay_result (List.map_filter (ab_records A) (map sw_record_id writes)) fp, A)
           else (conflict_result action_id, A))
      | None \<Rightarrow>
          (case List.find (write_blocked (ab_records A)) writes of
             Some w \<Rightarrow> (moved_result w (Some (state_at (ab_records A) (sw_record_id w))), A)
           | None \<Rightarrow>
               (commit_result writes (sw_record_id final) action fp,
                A\<lparr>ab_records := put_all (ab_records A) writes,
                  ab_actions := (\<lambda>i a. if i = sw_record_id final \<and> a = action_id
                    then Some (commit_entry final action_id action fp) else ab_actions A i a)\<rparr>)))"

definition write_ok :: "store_write \<Rightarrow> bool" where
  "write_ok w \<longleftrightarrow> record_valid (sw_next_record w) \<and> record_id (sw_next_record w) = sw_record_id w"

section \<open>The contract\<close>

record 's store_ops =
  op_load :: "'s \<Rightarrow> string \<Rightarrow> state_record option res"
  op_committed_action :: "'s \<Rightarrow> string \<Rightarrow> string \<Rightarrow> committed_action option res"
  op_compare_and_set :: "'s \<Rightarrow> store_write list \<Rightarrow> string \<Rightarrow> string \<Rightarrow> string \<Rightarrow> (store_result \<times> 's) res"
  op_append_audit :: "'s \<Rightarrow> audit_event \<Rightarrow> 's res"

locale state_store =
  fixes ops :: "'s store_ops"
    and invar :: "'s \<Rightarrow> bool"
    and abs :: "'s \<Rightarrow> abs_store"
  assumes load: "invar s \<Longrightarrow> op_load ops s i = Inr (ab_records (abs s) i)"
    and committed: "invar s \<Longrightarrow> op_committed_action ops s i a = Inr (ab_actions (abs s) i a)"
    and cas: "invar s \<Longrightarrow> writes \<noteq> [] \<Longrightarrow> \<forall>w \<in> set writes. write_ok w \<Longrightarrow>
      \<exists>s'. op_compare_and_set ops s writes action_id action fp =
             Inr (fst (spec_cas (abs s) writes action_id action fp), s') \<and>
           abs s' = snd (spec_cas (abs s) writes action_id action fp) \<and> invar s'"
    and audit: "invar s \<Longrightarrow>
      \<exists>s'. op_append_audit ops s e = Inr s' \<and>
           abs s' = (abs s)\<lparr>ab_audit := ab_audit (abs s) @ [e]\<rparr> \<and> invar s'"
    and keyed: "invar s \<Longrightarrow> ab_records (abs s) i = Some r \<Longrightarrow> record_valid r \<and> record_id r = i"

section \<open>Collections implement the abstract store\<close>

definition collection_ok :: "collection \<Rightarrow> bool" where
  "collection_ok s \<longleftrightarrow>
     (\<forall>i p. dict_get (co_records s) i = Some p \<longrightarrow>
        (\<exists>r. record_valid r \<and> record_id r = i \<and> p = to_read_model r))"

definition record_at :: "collection \<Rightarrow> string \<Rightarrow> state_record option" where
  "record_at s i = (case payload_record (dict_get (co_records s) i) of Inr r \<Rightarrow> r | Inl _ \<Rightarrow> None)"

definition abs_of :: "collection \<Rightarrow> abs_store" where
  "abs_of s = \<lparr>ab_records = record_at s, ab_actions = dict_get2 (co_actions s), ab_audit = co_audit s\<rparr>"

lemma abs_of_simps [simp]:
  "ab_records (abs_of s) = record_at s"
  "ab_actions (abs_of s) = dict_get2 (co_actions s)"
  "ab_audit (abs_of s) = co_audit s"
  by (simp_all add: abs_of_def)

lemma to_read_model_not_Nil [simp]: "to_read_model r \<noteq> []"
  by (cases r) simp_all

lemma collection_ok_get:
  assumes "collection_ok s" "dict_get (co_records s) i = Some p"
  obtains r where "record_valid r" "record_id r = i" "p = to_read_model r"
    "record_at s i = Some r" "payload_record (Some p) = Inr (Some r)"
  using assms payload_read_model by (fastforce simp: collection_ok_def record_at_def)

lemma record_at_None: "dict_get (co_records s) i = None \<Longrightarrow> record_at s i = None"
  by (simp add: record_at_def payload_record_def)

lemma payload_record_ok:
  "collection_ok s \<Longrightarrow> payload_record (dict_get (co_records s) i) = Inr (record_at s i)"
  by (cases "dict_get (co_records s) i")
    (auto simp: payload_record_def record_at_None elim: collection_ok_get)

lemma durable_record_ok:
  "collection_ok s \<Longrightarrow> durable_record (dict_get (co_records s) i) = Inr (record_at s i)"
  by (simp add: durable_record_def payload_record_ok)

lemma collection_ok_audit [simp]: "collection_ok (s\<lparr>co_audit := a\<rparr>) = collection_ok s"
  by (simp add: collection_ok_def)

lemma abs_of_audit: "abs_of (s\<lparr>co_audit := a\<rparr>) = (abs_of s)\<lparr>ab_audit := a\<rparr>"
  by (simp add: abs_of_def record_at_def fun_eq_iff)

lemma record_at_keyed: "collection_ok s \<Longrightarrow> record_at s i = Some r \<Longrightarrow> record_valid r \<and> record_id r = i"
  by (cases "dict_get (co_records s) i") (auto simp: record_at_None elim: collection_ok_get)

lemma stored_records_ok:
  assumes "\<And>i. rebuild (dict_get (co_records s) i) = Inr (record_at s i)"
  shows "stored_records rebuild (co_records s) ids = Inr (List.map_filter (record_at s) ids)"
  by (induction ids) (auto simp: assms map_filter_simps split: option.splits)

lemma failed_precondition_ok:
  assumes "collection_ok s" and "\<And>i. rebuild (dict_get (co_records s) i) = Inr (record_at s i)"
  shows "failed_precondition rebuild (co_records s) ws =
    Inr (map_option (\<lambda>w. (w, Some (state_at (record_at s) (sw_record_id w))))
      (List.find (write_blocked (record_at s)) ws))"
proof (induction ws)
  case Nil
  then show ?case by simp
next
  case (Cons w ws)
  have "(case dict_get (co_records s) (sw_record_id w) of
           None \<Rightarrow> Inr (Some WORKFLOW_STATE_OPEN)
         | Some p \<Rightarrow> (if p = [] then Inr (Some WORKFLOW_STATE_OPEN)
             else bind_res (rebuild (Some p)) (\<lambda>r. Inr (map_option current_state r)))) =
        Inr (Some (state_at (record_at s) (sw_record_id w)))"
  proof (cases "dict_get (co_records s) (sw_record_id w)")
    case None
    then show ?thesis by (simp add: state_at_def record_at_None)
  next
    case (Some p)
    with assms(1) obtain r where "p = to_read_model r" "record_at s (sw_record_id w) = Some r"
      by (rule collection_ok_get)
    with Some assms(2) [of "sw_record_id w"] show ?thesis by (simp add: state_at_def)
  qed
  with Cons show ?case by (simp add: write_blocked_def)
qed

lemma record_at_put:
  assumes "\<forall>w \<in> set ws. write_ok w"
  shows "record_at (s\<lparr>co_records := put_records (co_records s) ws, co_actions := acts\<rparr>) =
    put_all (record_at s) ws"
  using assms
proof (induction ws arbitrary: s)
  case Nil
  then show ?case by (simp add: record_at_def fun_eq_iff)
next
  case (Cons w ws)
  let ?s = "s\<lparr>co_records := dict_set (co_records s) (sw_record_id w) (to_read_model (sw_next_record w))\<rparr>"
  have "record_at ?s = (record_at s)(sw_record_id w \<mapsto> sw_next_record w)"
    using Cons.prems payload_read_model by (auto simp: record_at_def fun_eq_iff write_ok_def)
  with Cons.IH [of ?s] Cons.prems show ?case by (simp add: fun_upd_def)
qed

lemma put_records_ok:
  assumes "collection_ok s" and "\<forall>w \<in> set ws. write_ok w"
  shows "collection_ok (s\<lparr>co_records := put_records (co_records s) ws, co_actions := acts\<rparr>)"
  using assms
proof (induction ws arbitrary: s)
  case Nil
  then show ?case by (simp add: collection_ok_def)
next
  case (Cons w ws)
  let ?s = "s\<lparr>co_records := dict_set (co_records s) (sw_record_id w) (to_read_model (sw_next_record w))\<rparr>"
  have "collection_ok ?s"
    using Cons.prems by (auto simp: collection_ok_def write_ok_def)
  with Cons.IH [of ?s] Cons.prems show ?case by simp
qed

lemma cas_with_ok:
  assumes ok: "collection_ok s" and ne: "writes \<noteq> []" and w: "\<forall>w \<in> set writes. write_ok w"
    and rb: "\<And>i. rebuild (dict_get (co_records s) i) = Inr (record_at s i)"
  obtains s' where
    "cas_with rebuild s writes action_id action fp =
       Inr (fst (spec_cas (abs_of s) writes action_id action fp), s')"
    "abs_of s' = snd (spec_cas (abs_of s) writes action_id action fp)" "collection_ok s'"
proof -
  let ?act = "dict_get2 (co_actions s) (sw_record_id (last writes)) action_id"
  show ?thesis
  proof (cases ?act)
    case (Some c)
    then show ?thesis
      using ne ok stored_records_ok [of rebuild, OF rb]
      by (intro that [of s]) (simp_all add: cas_with_def spec_cas_def Let_def)
  next
    case None
    show ?thesis
    proof (cases "List.find (write_blocked (record_at s)) writes")
      case (Some v)
      then show ?thesis
        using ne ok None failed_precondition_ok [OF ok rb]
        by (intro that [of s]) (simp_all add: cas_with_def spec_cas_def Let_def)
    next
      case unblocked: None
      let ?s = "s\<lparr>co_records := put_records (co_records s) writes,
        co_actions := dict_set2 (co_actions s) (sw_record_id (last writes)) action_id
          (commit_entry (last writes) action_id action fp)\<rparr>"
      have "abs_of ?s = snd (spec_cas (abs_of s) writes action_id action fp)"
        using None unblocked record_at_put [OF w]
        by (simp add: abs_of_def spec_cas_def Let_def fun_eq_iff)
      then show ?thesis
        using ne None unblocked failed_precondition_ok [OF ok rb] put_records_ok [OF ok w]
        by (intro that [of ?s]) (simp_all add: cas_with_def spec_cas_def Let_def)
    qed
  qed
qed

section \<open>Both stores keep the contract\<close>

definition memory_ops :: "collection store_ops" where
  "memory_ops =
     \<lparr>op_load = memory_load, op_committed_action = memory_committed_action,
      op_compare_and_set = memory_compare_and_set, op_append_audit = memory_append_audit\<rparr>"

definition durable_ops :: "settings_cell option store_ops" where
  "durable_ops =
     \<lparr>op_load = durable_load, op_committed_action = durable_committed_action,
      op_compare_and_set = durable_compare_and_set, op_append_audit = durable_append_audit\<rparr>"

definition cell_ok :: "settings_cell option \<Rightarrow> bool" where
  "cell_ok cell \<longleftrightarrow> (\<exists>s. validated_state cell = Inr s \<and> collection_ok s)"

definition cell_abs :: "settings_cell option \<Rightarrow> abs_store" where
  "cell_abs cell = (case validated_state cell of Inr s \<Rightarrow> abs_of s | Inl _ \<Rightarrow> abs_of empty_collection)"

interpretation memory: state_store memory_ops collection_ok abs_of
proof unfold_locales
  fix s writes action_id action fp
  assume ok: "collection_ok s" and "writes \<noteq> []" "\<forall>w \<in> set writes. write_ok w"
  then obtain s' where
    "cas_with payload_record s writes action_id action fp =
       Inr (fst (spec_cas (abs_of s) writes action_id action fp), s')"
    "abs_of s' = snd (spec_cas (abs_of s) writes action_id action fp)" "collection_ok s'"
    by (rule cas_with_ok [where rebuild = payload_record and action_id = action_id
          and action = action and fp = fp]) (simp_all add: payload_record_ok ok)
  then show "\<exists>s'. op_compare_and_set memory_ops s writes action_id action fp =
             Inr (fst (spec_cas (abs_of s) writes action_id action fp), s') \<and>
           abs_of s' = snd (spec_cas (abs_of s) writes action_id action fp) \<and> collection_ok s'"
    by (simp add: memory_ops_def memory_compare_and_set_def)
qed (simp_all add: memory_ops_def memory_load_def memory_committed_action_def
      memory_append_audit_def payload_record_ok abs_of_audit record_at_keyed)

interpretation durable: state_store durable_ops cell_ok cell_abs
proof unfold_locales
  fix cell writes action_id action fp
  assume "cell_ok cell" and writes: "writes \<noteq> []" "\<forall>w \<in> set writes. write_ok w"
  then obtain s where s: "validated_state cell = Inr s" "collection_ok s"
    by (auto simp: cell_ok_def)
  from s(2) writes obtain s' where
    "cas_with durable_record s writes action_id action fp =
       Inr (fst (spec_cas (abs_of s) writes action_id action fp), s')"
    "abs_of s' = snd (spec_cas (abs_of s) writes action_id action fp)" "collection_ok s'"
    by (rule cas_with_ok [where rebuild = durable_record and action_id = action_id
          and action = action and fp = fp]) (simp_all add: durable_record_ok s(2))
  with s show "\<exists>cell'. op_compare_and_set durable_ops cell writes action_id action fp =
             Inr (fst (spec_cas (cell_abs cell) writes action_id action fp), cell') \<and>
           cell_abs cell' = snd (spec_cas (cell_abs cell) writes action_id action fp) \<and> cell_ok cell'"
    by (intro exI [of _ "cell_of s'"])
      (simp add: durable_ops_def durable_compare_and_set_def cell_abs_def cell_ok_def)
next
  fix cell e
  assume "cell_ok cell"
  then obtain s where s: "validated_state cell = Inr s" "collection_ok s"
    by (auto simp: cell_ok_def)
  then show "\<exists>cell'. op_append_audit durable_ops cell e = Inr cell' \<and>
           cell_abs cell' = (cell_abs cell)\<lparr>ab_audit := ab_audit (cell_abs cell) @ [e]\<rparr> \<and> cell_ok cell'"
    by (intro exI [of _ "cell_of (s\<lparr>co_audit := co_audit s @ [e]\<rparr>)"])
      (simp add: durable_ops_def durable_append_audit_def cell_abs_def cell_ok_def abs_of_audit)
next
  fix cell i r
  assume "cell_ok cell" and "ab_records (cell_abs cell) i = Some r"
  then show "record_valid r \<and> record_id r = i"
    by (auto simp: cell_ok_def cell_abs_def dest: record_at_keyed)
qed (auto simp: durable_ops_def durable_load_def durable_committed_action_def cell_ok_def cell_abs_def
      durable_record_ok)

end
