(* ===== verification/Dataset_Service.thy ===== *)
theory Dataset_Service
  imports Dataset_Policy Dataset_Store_Spec
begin

text \<open>
  \<open>phlo/dataset/service.py\<close>: readiness, the allowed transitions, and the transition with its
  compare-and-set loop over an injected store, evidence source and policy source. Other workers may
  use the same store meanwhile: \<open>sv_others\<close> says what they do to it before each store call of each
  attempt, and evidence and policy may differ from one attempt to the next.
\<close>

datatype store_point = Before_load | Before_action | Before_cas | Before_recheck | Before_reload | Before_audit

record 's service =
  sv_ops :: "'s store_ops"
  sv_evidence :: "nat \<Rightarrow> string \<Rightarrow> string set \<Rightarrow> evidence_record list"
  sv_policy :: "nat \<Rightarrow> string \<Rightarrow> dataset_policy"
  sv_others :: "nat \<Rightarrow> store_point \<Rightarrow> 's \<Rightarrow> 's"

record transition_outcome =
  to_request :: transition_request
  to_status :: transition_status
  to_before_state :: "string option"
  to_after_state :: "string option"
  to_record :: "state_record option"
  to_verdict :: "policy_verdict option"
  to_message :: string
  to_audit :: audit_event

definition MAX_CAS_ATTEMPTS :: nat where
  "MAX_CAS_ATTEMPTS = 3"

section \<open>Reads\<close>

definition validated_resource_id :: "string \<Rightarrow> string res" where
  "validated_resource_id dataset_id =
     (if dataset_id = [] then Inl (ValueError ''dataset_id is required'')
      else bind_res (dataset_table_id dataset_id) (\<lambda>_. Inr dataset_id))"

definition policy_evidence_kinds :: "dataset_policy \<Rightarrow> string \<Rightarrow> string set" where
  "policy_evidence_kinds policy action =
     set (tp_required_evidence (for_action policy action)) \<union>
     set (map pr_evidence_kind (filter (\<lambda>r. applies_to_action r action) (dp_rules policy)))"

definition service_evidence :: "'s service \<Rightarrow> nat \<Rightarrow> string \<Rightarrow> string set
    \<Rightarrow> evidence_record list res" where
  "service_evidence sv k dataset_id kinds =
     bind_res (dataset_table_id dataset_id) (\<lambda>subject. Inr (sv_evidence sv k subject kinds))"

definition service_record :: "'s service \<Rightarrow> 's \<Rightarrow> string \<Rightarrow> state_record option res" where
  "service_record sv s dataset_id =
     bind_res (validated_resource_id dataset_id) (op_load (sv_ops sv) s)"

definition readiness :: "'s service \<Rightarrow> nat \<Rightarrow> string \<Rightarrow> string option \<Rightarrow> policy_verdict res" where
  "readiness sv k dataset_id action =
     bind_res (validated_resource_id dataset_id) (\<lambda>dataset_id.
       let action = (case action of
             Some a \<Rightarrow> a
           | None \<Rightarrow> if is_candidate_dataset_id dataset_id then ''promote'' else ''publish'');
           policy = sv_policy sv k dataset_id
       in bind_res (service_evidence sv k dataset_id (policy_evidence_kinds policy action))
            (evaluate_policy policy dataset_id action))"

definition actions_from :: "(string, string list \<times> string) dict \<Rightarrow> string \<Rightarrow> string list" where
  "actions_from table current = sort (map fst (filter (\<lambda>e. current \<in> set (fst (snd e))) table))"

definition allowed_transitions :: "'s service \<Rightarrow> 's \<Rightarrow> string \<Rightarrow> string list res" where
  "allowed_transitions sv s dataset_id =
     bind_res (validated_resource_id dataset_id) (\<lambda>dataset_id.
     bind_res (op_load (sv_ops sv) s dataset_id) (\<lambda>record.
       if is_candidate_dataset_id dataset_id
       then Inr (actions_from WORKFLOW_TRANSITIONS
              (case record of Some r \<Rightarrow> current_state r | None \<Rightarrow> WORKFLOW_STATE_OPEN))
       else case record of
         None \<Rightarrow> Inr []
       | Some r \<Rightarrow> Inr (actions_from PUBLICATION_TRANSITIONS (current_state r))))"

section \<open>Outcomes and their audit event\<close>

definition outcome :: "'s service \<Rightarrow> nat \<Rightarrow> 's \<Rightarrow> transition_request \<Rightarrow> transition_status
    \<Rightarrow> string option \<Rightarrow> string option \<Rightarrow> state_record option \<Rightarrow> string \<Rightarrow> string
    \<Rightarrow> policy_verdict option \<Rightarrow> (transition_outcome \<times> 's) res" where
  "outcome sv k s rq status before after rec message audit_outcome verdict =
     (let event = \<lparr>ae_actor = rq_actor rq, ae_scope = rq_scope rq, ae_action_id = rq_action_id rq,
            ae_resource_id = rq_resource_id rq, ae_action = rq_action rq, ae_before_state = before,
            ae_after_state = after,
            ae_outcome = (if audit_outcome \<noteq> [] then audit_outcome else status_value status),
            ae_detail = message\<rparr>
      in bind_res (op_append_audit (sv_ops sv) (sv_others sv k Before_audit s) event) (\<lambda>s'.
         Inr (\<lparr>to_request = rq, to_status = status, to_before_state = before,
               to_after_state = after, to_record = rec, to_verdict = verdict,
               to_message = message, to_audit = event\<rparr>, s')))"

definition failed_outcome :: "'s service \<Rightarrow> nat \<Rightarrow> 's \<Rightarrow> transition_request \<Rightarrow> transition_status
    \<Rightarrow> string \<Rightarrow> string option \<Rightarrow> string option \<Rightarrow> policy_verdict option
    \<Rightarrow> (transition_outcome \<times> 's) res" where
  "failed_outcome sv k s rq status message before after verdict =
     outcome sv k s rq status before after None message [] verdict"

definition replay_outcome :: "'s service \<Rightarrow> nat \<Rightarrow> 's \<Rightarrow> transition_request \<Rightarrow> committed_action
    \<Rightarrow> string option \<Rightarrow> (transition_outcome \<times> 's) res" where
  "replay_outcome sv k s rq committed before =
     (if ca_fingerprint committed = fingerprint rq then
        (let s = sv_others sv k Before_reload s in
         bind_res (op_load (sv_ops sv) s (rq_resource_id rq)) (\<lambda>rec.
           outcome sv k s rq TS_REPLAYED before (ca_after_state committed) rec
             (''Action '' @ py_repr (rq_action rq) @ '' already committed; replaying outcome.'')
             ''replayed'' None))
      else failed_outcome sv k s rq TS_CONFLICT
             (''action_id '' @ py_repr (rq_action_id rq) @
              '' was already committed with a different request.'') before None None)"

section \<open>The state machine and the planned writes\<close>

definition transition_table :: "string \<Rightarrow> (string, string list \<times> string) dict" where
  "transition_table resource_id =
     (if is_candidate_dataset_id resource_id then WORKFLOW_TRANSITIONS else PUBLICATION_TRANSITIONS)"

definition state_machine_check :: "string \<Rightarrow> string \<Rightarrow> string \<Rightarrow> bool \<times> string" where
  "state_machine_check resource_id action current =
     (case dict_get (transition_table resource_id) action of
        None \<Rightarrow> (False, ''Action '' @ py_repr action @ '' is not a recognized transition.'')
      | Some (from_states, to_state) \<Rightarrow>
          (if current \<notin> set from_states
           then (False, ''Action '' @ py_repr action @ '' is not allowed from state '' @
                   py_repr current @ '' for '' @ resource_id @ ''.'')
           else (True, [])))"

definition is_idempotent_publish :: "string \<Rightarrow> string \<Rightarrow> string \<Rightarrow> bool" where
  "is_idempotent_publish resource_id action current \<longleftrightarrow>
     \<not> is_candidate_dataset_id resource_id \<and> action = ''publish'' \<and>
     current = publication_value PS_PUBLISHED"

fun record_table_id :: "state_record \<Rightarrow> string" where
  "record_table_id (Candidate c) = cr_table_id c"
| "record_table_id (Dataset d) = dr_table_id d"

definition expected_of :: "state_record option \<Rightarrow> string option" where
  "expected_of record = Some (case record of Some r \<Rightarrow> current_state r | None \<Rightarrow> WORKFLOW_STATE_OPEN)"

definition plan_writes :: "string \<Rightarrow> transition_request \<Rightarrow> state_record option \<Rightarrow> string
    \<Rightarrow> store_write list res" where
  "plan_writes resource_id rq record policy_version =
     (if is_candidate_dataset_id resource_id then
        bind_res (dataset_table_id resource_id) (\<lambda>table_id.
        case dict_get WORKFLOW_TRANSITIONS (rq_action rq) of
          None \<Rightarrow> Inl (KeyError (rq_action rq))
        | Some (from_states, to_state) \<Rightarrow>
           (let owner = (case record of
                  Some r \<Rightarrow> record_owner r | None \<Rightarrow> str_or (rq_owner rq) (rq_actor rq));
                schema_version = (case record of
                  Some r \<Rightarrow> record_schema_version r | None \<Rightarrow> DATASET_STATE_SCHEMA_VERSION)
            in if to_state = workflow_value WS_PROMOTED then
                 bind_res (make_candidate
                   \<lparr>cr_dataset_id = resource_id, cr_table_id = table_id, cr_state = to_state,
                    cr_owner = owner, cr_approval_state = Some (workflow_value WS_REVIEW),
                    cr_promoted_dataset_id = Some table_id,
                    cr_publication_state = Some (publication_value PS_DRAFT),
                    cr_policy_version = Some policy_version, cr_schema_version = schema_version,
                    cr_last_action_id = Some (rq_action_id rq), cr_migration_note = None,
                    cr_legacy_fields = None\<rparr>) (\<lambda>candidate.
                 bind_res (make_dataset
                   \<lparr>dr_dataset_id = table_id, dr_table_id = table_id,
                    dr_publication_state = publication_value PS_DRAFT, dr_owner = owner,
                    dr_approval_state = Some (workflow_value WS_REVIEW),
                    dr_policy_version = Some policy_version,
                    dr_schema_version = DATASET_STATE_SCHEMA_VERSION,
                    dr_last_action_id = Some (rq_action_id rq), dr_migration_note = None,
                    dr_legacy_fields = None\<rparr>) (\<lambda>promoted.
                 Inr [\<lparr>sw_record_id = resource_id, sw_expected_state = expected_of record,
                       sw_next_record = Candidate candidate\<rparr>,
                      \<lparr>sw_record_id = table_id, sw_expected_state = Some WORKFLOW_STATE_OPEN,
                       sw_next_record = Dataset promoted\<rparr>]))
               else
                 bind_res (make_candidate
                   \<lparr>cr_dataset_id = resource_id, cr_table_id = table_id, cr_state = to_state,
                    cr_owner = owner, cr_approval_state = Some to_state,
                    cr_promoted_dataset_id = None, cr_publication_state = None,
                    cr_policy_version = Some policy_version, cr_schema_version = schema_version,
                    cr_last_action_id = Some (rq_action_id rq), cr_migration_note = None,
                    cr_legacy_fields = None\<rparr>) (\<lambda>next_record.
                 Inr [\<lparr>sw_record_id = resource_id, sw_expected_state = expected_of record,
                       sw_next_record = Candidate next_record\<rparr>])))
      else
        (case dict_get PUBLICATION_TRANSITIONS (rq_action rq) of
           None \<Rightarrow> Inl (KeyError (rq_action rq))
         | Some (from_states, to_state) \<Rightarrow>
            (case record of
               None \<Rightarrow> Inl AssertionError
             | Some r \<Rightarrow>
                 bind_res (make_dataset
                   \<lparr>dr_dataset_id = record_id r, dr_table_id = record_table_id r,
                    dr_publication_state = to_state, dr_owner = record_owner r,
                    dr_approval_state = Some to_state, dr_policy_version = Some policy_version,
                    dr_schema_version = record_schema_version r,
                    dr_last_action_id = Some (rq_action_id rq), dr_migration_note = None,
                    dr_legacy_fields = None\<rparr>) (\<lambda>next_record.
                 Inr [\<lparr>sw_record_id = resource_id, sw_expected_state = Some (current_state r),
                       sw_next_record = Dataset next_record\<rparr>]))))"

section \<open>The transition\<close>

definition last_record :: "store_result \<Rightarrow> state_record option" where
  "last_record r = (if sr_records r = [] then None else Some (last (sr_records r)))"

definition after_state :: "store_result \<Rightarrow> string \<Rightarrow> string" where
  "after_state r before = (case last_record r of Some x \<Rightarrow> current_state x | None \<Rightarrow> before)"

definition detail_or :: "store_result \<Rightarrow> string \<Rightarrow> string" where
  "detail_or r message = (if sr_detail r \<noteq> [] then sr_detail r else message)"

text \<open>
  One pass of the loop body: \<open>Inl\<close> of an outcome when the body returns, \<open>Inr\<close> of the store when it
  continues because another worker moved a record of the batch.
\<close>

definition attempt :: "'s service \<Rightarrow> transition_request \<Rightarrow> nat \<Rightarrow> 's
    \<Rightarrow> ((transition_outcome \<times> 's) + 's) res" where
  "attempt sv rq k s =
     (let resource_id = rq_resource_id rq; s = sv_others sv k Before_load s in
      bind_res (op_load (sv_ops sv) s resource_id) (\<lambda>record.
      let before = (case record of Some r \<Rightarrow> current_state r | None \<Rightarrow> WORKFLOW_STATE_OPEN) in
      if rq_expected_state rq \<noteq> None \<and> rq_expected_state rq \<noteq> Some before then
        bind_res (failed_outcome sv k s rq TS_CONFLICT
          (''Expected state '' @ py_repr_opt (rq_expected_state rq) @ '' for '' @ resource_id @
           '', found '' @ py_repr before @ ''.'') (Some before) None None) (\<lambda>out. Inr (Inl out))
      else
        (let s = sv_others sv k Before_action s in
         bind_res (op_committed_action (sv_ops sv) s resource_id (rq_action_id rq)) (\<lambda>committed.
         case committed of
           Some c \<Rightarrow> bind_res (replay_outcome sv k s rq c (Some before)) (\<lambda>out. Inr (Inl out))
         | None \<Rightarrow>
            (case state_machine_check resource_id (rq_action rq) before of
               (False, message) \<Rightarrow>
                 (if is_idempotent_publish resource_id (rq_action rq) before
                  then bind_res (failed_outcome sv k s rq TS_IDEMPOTENT
                         (resource_id @ '' is already published; reporting the existing state.'')
                         (Some before) (Some before) None) (\<lambda>out. Inr (Inl out))
                  else bind_res (failed_outcome sv k s rq TS_CONFLICT message (Some before) None None)
                         (\<lambda>out. Inr (Inl out)))
             | (True, _) \<Rightarrow>
                 bind_res (readiness sv k resource_id (Some (rq_action rq))) (\<lambda>verdict.
                 if \<not> pv_ready verdict then
                   bind_res (failed_outcome sv k s rq TS_BLOCKED
                     (''Policy blocked '' @ py_repr (rq_action rq) @ '' on '' @ resource_id @ ''.'')
                     (Some before) None (Some verdict)) (\<lambda>out. Inr (Inl out))
                 else
                   bind_res (plan_writes resource_id rq record (pv_policy_version verdict)) (\<lambda>writes.
                   bind_res (op_compare_and_set (sv_ops sv) (sv_others sv k Before_cas s) writes
                     (rq_action_id rq) (rq_action rq) (fingerprint rq)) (\<lambda>(result, s).
                   case sr_status result of
                     SW_PRECONDITION_FAILED \<Rightarrow> Inr (Inr s)
                   | SW_REPLAYED \<Rightarrow>
                       (let s = sv_others sv k Before_recheck s in
                       bind_res (op_committed_action (sv_ops sv) s resource_id (rq_action_id rq)) (\<lambda>_.
                       bind_res (outcome sv k s rq TS_REPLAYED (Some before)
                         (Some (after_state result before)) (last_record result)
                         (detail_or result ''Transition already committed; replaying outcome.'')
                         ''replayed'' None) (\<lambda>out. Inr (Inl out))))
                   | SW_ACTION_CONFLICT \<Rightarrow>
                       bind_res (failed_outcome sv k s rq TS_CONFLICT
                         (detail_or result ''action_id already committed for this record.'')
                         (Some before) None None) (\<lambda>out. Inr (Inl out))
                   | SW_COMMITTED \<Rightarrow>
                       bind_res (outcome sv k s rq TS_COMMITTED (Some before)
                         (Some (after_state result before)) (last_record result)
                         (detail_or result (py_repr (rq_action rq) @ '' committed for '' @
                           resource_id @ ''.''))
                         ''committed'' (Some verdict)) (\<lambda>out. Inr (Inl out))))))))))"

fun attempts :: "'s service \<Rightarrow> transition_request \<Rightarrow> nat \<Rightarrow> nat \<Rightarrow> 's
    \<Rightarrow> (transition_outcome \<times> 's) res" where
  "attempts sv rq k 0 s =
     failed_outcome sv k s rq TS_CONFLICT
       (''Concurrent modification of '' @ rq_resource_id rq @
        ''; retry after re-reading its current state.'') None None None"
| "attempts sv rq k (Suc n) s =
     bind_res (attempt sv rq k s) (\<lambda>r.
       case r of Inl out \<Rightarrow> Inr out | Inr s' \<Rightarrow> attempts sv rq (Suc k) n s')"

definition transition :: "'s service \<Rightarrow> transition_request \<Rightarrow> 's \<Rightarrow> (transition_outcome \<times> 's) res" where
  "transition sv rq s =
     bind_res (validated_resource_id (rq_resource_id rq)) (\<lambda>resource_id.
       let valid_actions = (if is_candidate_dataset_id resource_id then WORKFLOW_ACTIONS
             else PUBLICATION_ACTIONS)
       in if rq_action rq \<notin> set valid_actions then
            failed_outcome sv 0 s rq TS_CONFLICT
              (''Action '' @ py_repr (rq_action rq) @ '' is not valid for '' @ resource_id @ ''.'')
              None None None
          else attempts sv rq 0 MAX_CAS_ATTEMPTS s)"

end
