(* ===== verification/Dataset_Service_Spec.thy ===== *)
theory Dataset_Service_Spec
  imports Dataset_Service
begin

text \<open>
  What the transition service promises, over any store that keeps the contract. The service is
  simulated by the same code run on the abstract store; on the abstract store every call, however
  other workers interleave, is a sequence of the legal steps of \<open>store_step\<close>, and the invariants of
  the workflow follow by rule induction. The results are then read off for the in-memory and the
  settings-backed store through their interpretations.
\<close>

section \<open>The abstract store as a store\<close>

definition abs_ops :: "abs_store store_ops" where
  "abs_ops =
     \<lparr>op_load = (\<lambda>A i. Inr (ab_records A i)),
      op_committed_action = (\<lambda>A i a. Inr (ab_actions A i a)),
      op_compare_and_set = (\<lambda>A writes action_id action fp.
        if writes = [] then Inl IndexError else Inr (spec_cas A writes action_id action fp)),
      op_append_audit = (\<lambda>A e. Inr (A\<lparr>ab_audit := ab_audit A @ [e]\<rparr>))\<rparr>"

definition abs_ok :: "abs_store \<Rightarrow> bool" where
  "abs_ok A \<longleftrightarrow> (\<forall>i r. ab_records A i = Some r \<longrightarrow> record_valid r \<and> record_id r = i)"

lemma abs_ops_simps [simp]:
  "op_load abs_ops A i = Inr (ab_records A i)"
  "op_committed_action abs_ops A i a = Inr (ab_actions A i a)"
  "writes \<noteq> [] \<Longrightarrow> op_compare_and_set abs_ops A writes action_id action fp =
     Inr (spec_cas A writes action_id action fp)"
  "op_append_audit abs_ops A e = Inr (A\<lparr>ab_audit := ab_audit A @ [e]\<rparr>)"
  by (simp_all add: abs_ops_def)

lemma abs_ok_audit [simp]: "abs_ok (A\<lparr>ab_audit := es\<rparr>) = abs_ok A"
  by (simp add: abs_ok_def)

lemma put_all_get:
  "put_all m ws i = (case List.find (\<lambda>w. sw_record_id w = i) (rev ws) of
     None \<Rightarrow> m i | Some w \<Rightarrow> Some (sw_next_record w))"
proof (induction ws arbitrary: m)
  case (Cons w ws)
  have "List.find P (xs @ [x]) = (case List.find P xs of None \<Rightarrow> if P x then Some x else None | r \<Rightarrow> r)"
    for P xs and x :: store_write
    by (induction xs) auto
  with Cons show ?case by (simp split: option.splits)
qed simp

lemma put_all_ok:
  assumes m: "\<forall>i r. m i = Some r \<longrightarrow> record_valid r \<and> record_id r = i"
    and ws: "\<forall>w \<in> set ws. write_ok w"
    and get: "put_all m ws i = Some r"
  shows "record_valid r \<and> record_id r = i"
  using m ws get
proof (induction ws arbitrary: m)
  case Nil
  then show ?case by simp
next
  case (Cons w ws)
  let ?m = "m(sw_record_id w \<mapsto> sw_next_record w)"
  have "\<forall>i r. ?m i = Some r \<longrightarrow> record_valid r \<and> record_id r = i"
    using Cons.prems(1,2) by (simp add: write_ok_def)
  then show ?case by (rule Cons.IH) (use Cons.prems(2,3) in \<open>simp_all add: fun_upd_def\<close>)
qed

lemma spec_cas_cases:
  obtains (stay) "snd (spec_cas A ws aid act fp) = A"
      "sr_status (fst (spec_cas A ws aid act fp)) \<noteq> SW_COMMITTED"
    | (commit) "sr_status (fst (spec_cas A ws aid act fp)) = SW_COMMITTED"
      "fst (spec_cas A ws aid act fp) = commit_result ws (sw_record_id (last ws)) act fp"
      "ab_actions A (sw_record_id (last ws)) aid = None"
      "\<forall>w \<in> set ws. sw_expected_state w = Some (state_at (ab_records A) (sw_record_id w))"
      "snd (spec_cas A ws aid act fp) =
         A\<lparr>ab_records := put_all (ab_records A) ws,
           ab_actions := (\<lambda>i a. if i = sw_record_id (last ws) \<and> a = aid
             then Some (commit_entry (last ws) aid act fp) else ab_actions A i a)\<rparr>"
proof (cases "ab_actions A (sw_record_id (last ws)) aid")
  case (Some c)
  then show ?thesis
    by (intro that(1)) (simp_all add: spec_cas_def Let_def replay_result_def conflict_result_def)
next
  case None
  show ?thesis
  proof (cases "List.find (write_blocked (ab_records A)) ws")
    case (Some w)
    with None show ?thesis
      by (intro that(1)) (simp_all add: spec_cas_def Let_def moved_result_def)
  next
    case unblocked: None
    then have "\<forall>w \<in> set ws. sw_expected_state w = Some (state_at (ab_records A) (sw_record_id w))"
      by (auto simp: find_None_iff write_blocked_def)
    with unblocked None show ?thesis
      by (intro that(2)) (simp_all add: spec_cas_def Let_def commit_result_def)
  qed
qed

lemma spec_cas_abs_ok:
  assumes "abs_ok A" and "\<forall>w \<in> set ws. write_ok w"
  shows "abs_ok (snd (spec_cas A ws aid act fp))"
proof (cases rule: spec_cas_cases [of A ws aid act fp])
  case stay
  with assms show ?thesis by simp
next
  case commit
  have "abs_ok (A\<lparr>ab_records := put_all (ab_records A) ws, ab_actions := acts\<rparr>)" for acts
    unfolding abs_ok_def
    by (intro allI impI, rule put_all_ok [OF assms(1) [unfolded abs_ok_def] assms(2)]) simp
  with commit show ?thesis by simp
qed

interpretation abstract: state_store abs_ops abs_ok "\<lambda>A. A"
proof unfold_locales
  show "record_valid r \<and> record_id r = i" if "abs_ok s" "ab_records s i = Some r" for s i r
    using that by (simp add: abs_ok_def)
qed (simp_all add: spec_cas_abs_ok)

section \<open>Planned writes\<close>

text \<open>
  For an action the state machine allows on a record that matches its id, planning never raises, and
  each planned record is valid, sits under its own id and expects the state that was read.
\<close>

lemma state_machine_check_True:
  "state_machine_check rid a cur = (True, m) \<longleftrightarrow>
     m = [] \<and> (\<exists>froms to. dict_get (transition_table rid) a = Some (froms, to) \<and> cur \<in> set froms)"
  by (auto simp: state_machine_check_def split: option.splits if_splits prod.splits)

definition loaded_ok :: "string \<Rightarrow> state_record option \<Rightarrow> bool" where
  "loaded_ok rid rec \<longleftrightarrow>
     (case rec of None \<Rightarrow> True | Some r \<Rightarrow> record_valid r \<and> record_id r = rid)"

definition before_of :: "state_record option \<Rightarrow> string" where
  "before_of rec = (case rec of Some r \<Rightarrow> current_state r | None \<Rightarrow> WORKFLOW_STATE_OPEN)"

lemma before_of_simps [simp]:
  "before_of None = WORKFLOW_STATE_OPEN" "before_of (Some r) = current_state r"
  by (simp_all add: before_of_def)

lemma plan_promote:
  assumes "table_key t" and "rq_action rq = ''promote''"
  obtains c d where
    "plan_writes (CANDIDATE_ID_PREFIX @ t) rq rec v =
       Inr [\<lparr>sw_record_id = CANDIDATE_ID_PREFIX @ t, sw_expected_state = Some (before_of rec),
             sw_next_record = Candidate c\<rparr>,
            \<lparr>sw_record_id = t, sw_expected_state = Some WORKFLOW_STATE_OPEN,
             sw_next_record = Dataset d\<rparr>]"
    "make_candidate c = Inr c" "cr_dataset_id c = CANDIDATE_ID_PREFIX @ t" "cr_state c = ''promoted''"
    "cr_promoted_dataset_id c = Some t"
    "make_dataset d = Inr d" "dr_dataset_id d = t" "dr_publication_state d = ''draft''"
proof -
  have "\<exists>w. ''promoted'' = workflow_value w" "\<exists>p. ''draft'' = publication_value p"
    by (rule exI [of _ WS_PROMOTED], simp) (rule exI [of _ PS_DRAFT], simp)
  with assms table_key_not_candidate [OF assms(1)] show ?thesis
    by (intro that) (auto simp: plan_writes_def WORKFLOW_TRANSITIONS_def make_candidate_Inr
        make_dataset_Inr bind_res_Inr_iff expected_of_def before_of_def Let_def table_key_def)
qed

lemma plan_workflow:
  assumes "table_key t" and "dict_get WORKFLOW_TRANSITIONS (rq_action rq) = Some (froms, to)"
    and "to \<noteq> ''promoted''"
  obtains c where
    "plan_writes (CANDIDATE_ID_PREFIX @ t) rq rec v =
       Inr [\<lparr>sw_record_id = CANDIDATE_ID_PREFIX @ t, sw_expected_state = Some (before_of rec),
             sw_next_record = Candidate c\<rparr>]"
    "make_candidate c = Inr c" "cr_dataset_id c = CANDIDATE_ID_PREFIX @ t" "cr_state c = to"
    "cr_promoted_dataset_id c = None"
proof -
  have w: "\<exists>w. to = workflow_value w"
    using assms(2) unfolding workflow_entry_iff 
    by (auto intro: exI [of _ WS_CLAIMED] exI [of _ WS_REVIEW] exI [of _ WS_PROMOTED] exI [of _ WS_REJECTED])
  have "t \<noteq> []" using assms(1) by auto
  then have "\<exists>c. plan_writes (CANDIDATE_ID_PREFIX @ t) rq rec v =
       Inr [\<lparr>sw_record_id = CANDIDATE_ID_PREFIX @ t, sw_expected_state = Some (before_of rec),
             sw_next_record = Candidate c\<rparr>] \<and>
    make_candidate c = Inr c \<and> cr_dataset_id c = CANDIDATE_ID_PREFIX @ t \<and> cr_state c = to \<and>
    cr_promoted_dataset_id c = None"
    using assms(1,3) w
    by (simp add: plan_writes_def make_candidate_Inr bind_res_Inr_iff expected_of_def before_of_def
        Let_def assms(2))
  with that show ?thesis by blast
qed

lemma plan_publication:
  assumes "table_key t" and "dict_get PUBLICATION_TRANSITIONS (rq_action rq) = Some (froms, to)"
    and "record_valid r" "record_id r = t"
  obtains d where
    "plan_writes t rq (Some r) v =
       Inr [\<lparr>sw_record_id = t, sw_expected_state = Some (current_state r), sw_next_record = Dataset d\<rparr>]"
    "make_dataset d = Inr d" "dr_dataset_id d = t" "dr_publication_state d = to"
proof -
  have "\<exists>p. to = publication_value p"
    using assms(2) unfolding publication_entry_iff
    by (auto intro: exI [of _ PS_PUBLISHED] exI [of _ PS_RETIRED])
  moreover obtain d where "r = Dataset d" "dr_table_id d = t"
    using assms(3,4) table_key_not_candidate [OF assms(1)] record_valid_kind [of r]
    by (cases r) (auto simp: make_dataset_Inr)
  ultimately show ?thesis
    using assms table_key_not_candidate [OF assms(1)]
    by (intro that) (auto simp: plan_writes_def make_dataset_Inr bind_res_Inr_iff Let_def)
qed

lemma plan_writes_cases:
  assumes "dataset_table_id rid = Inr t" and "loaded_ok rid rec"
    and "dict_get (transition_table rid) (rq_action rq) = Some (froms, to)"
    and "before_of rec \<in> set froms"
  obtains (promote) c d where "rid = CANDIDATE_ID_PREFIX @ t" "rq_action rq = ''promote''"
      "table_key t" "to = ''promoted''" "before_of rec = ''review''"
      "plan_writes rid rq rec v =
         Inr [\<lparr>sw_record_id = rid, sw_expected_state = Some (before_of rec),
               sw_next_record = Candidate c\<rparr>,
              \<lparr>sw_record_id = t, sw_expected_state = Some WORKFLOW_STATE_OPEN,
               sw_next_record = Dataset d\<rparr>]"
      "make_candidate c = Inr c" "cr_dataset_id c = rid" "cr_state c = ''promoted''"
      "cr_promoted_dataset_id c = Some t"
      "make_dataset d = Inr d" "dr_dataset_id d = t" "dr_publication_state d = ''draft''"
    | (single) r where "to \<noteq> ''promoted''" "record_valid r" "record_id r = rid" "current_state r = to"
      "plan_writes rid rq rec v =
         Inr [\<lparr>sw_record_id = rid, sw_expected_state = Some (before_of rec), sw_next_record = r\<rparr>]"
  using assms(1)
proof (cases rule: dataset_table_id_cases)
  case candidate
  then have e: "dict_get WORKFLOW_TRANSITIONS (rq_action rq) = Some (froms, to)"
    using assms(3) by (simp add: transition_table_def)
  show ?thesis
  proof (cases "to = ''promoted''")
    case True
    then have "rq_action rq = ''promote''" "before_of rec = ''review''"
      using e assms(4) by (auto simp: workflow_entry_iff)
    show ?thesis
      by (rule plan_promote [OF candidate(1) \<open>rq_action rq = _\<close>, of rec v], rule that(1))
        (use candidate True \<open>rq_action rq = _\<close> \<open>before_of rec = _\<close> in simp_all)
  next
    case False
    show ?thesis
      by (rule plan_workflow [OF candidate(1) e False, of rec v],
          rule that(2) [where r = "Candidate c" for c])
        (use candidate False in auto)
  qed
next
  case promoted
  then have e: "dict_get PUBLICATION_TRANSITIONS (rq_action rq) = Some (froms, to)"
    using assms(3) by (simp add: transition_table_def)
  then have "to \<noteq> ''promoted''" "WORKFLOW_STATE_OPEN \<notin> set froms"
    by (auto simp: publication_entry_iff WORKFLOW_STATE_OPEN_def)
  with assms(2,4) obtain r where r: "rec = Some r" "record_valid r" "record_id r = t"
    using promoted by (cases rec) (auto simp: loaded_ok_def)
  show ?thesis
    by (rule plan_publication [OF promoted(1) e r(2,3), of v],
        rule that(2) [where r = "Dataset d" for d])
      (use promoted r(1) \<open>to \<noteq> _\<close> in auto)
qed

lemma plan_writes_ok:
  assumes "dataset_table_id rid = Inr t" and "loaded_ok rid rec"
    and "state_machine_check rid (rq_action rq) (before_of rec) = (True, m)"
  obtains ws where "plan_writes rid rq rec v = Inr ws" "ws \<noteq> []" "\<forall>w \<in> set ws. write_ok w"
proof -
  from assms(3) obtain froms to where
    e: "dict_get (transition_table rid) (rq_action rq) = Some (froms, to)"
      "before_of rec \<in> set froms"
    by (auto simp: state_machine_check_True)
  from assms(1,2) e show ?thesis
    by (cases rule: plan_writes_cases [of rid t rec rq froms to v])
      (auto intro!: that simp: write_ok_def)
qed

section \<open>The service on the abstract store simulates the service on any store\<close>

definition service_with :: "'t store_ops \<Rightarrow> (nat \<Rightarrow> store_point \<Rightarrow> 't \<Rightarrow> 't) \<Rightarrow> 's service \<Rightarrow> 't service" where
  "service_with ops others sv =
     \<lparr>sv_ops = ops, sv_evidence = sv_evidence sv, sv_policy = sv_policy sv, sv_others = others\<rparr>"

lemma service_with_simps [simp]:
  "sv_ops (service_with ops others sv) = ops"
  "sv_others (service_with ops others sv) = others"
  "readiness (service_with ops others sv) = readiness sv"
  by (simp_all add: service_with_def readiness_def service_evidence_def fun_eq_iff)

definition others_sim :: "('s \<Rightarrow> bool) \<Rightarrow> ('s \<Rightarrow> 't) \<Rightarrow> (nat \<Rightarrow> store_point \<Rightarrow> 's \<Rightarrow> 's)
    \<Rightarrow> (nat \<Rightarrow> store_point \<Rightarrow> 't \<Rightarrow> 't) \<Rightarrow> bool" where
  "others_sim invar h f g \<longleftrightarrow>
     (\<forall>k p s. invar s \<longrightarrow> invar (f k p s) \<and> h (f k p s) = g k p (h s))"

definition sim_res :: "('s \<Rightarrow> bool) \<Rightarrow> ('s \<Rightarrow> 't) \<Rightarrow> ('x \<times> 's) res \<Rightarrow> ('x \<times> 't) res \<Rightarrow> bool" where
  "sim_res invar h r R \<longleftrightarrow>
     (case r of Inl e \<Rightarrow> R = Inl e | Inr (x, s) \<Rightarrow> invar s \<and> R = Inr (x, h s))"

definition sim_loop :: "('s \<Rightarrow> bool) \<Rightarrow> ('s \<Rightarrow> 't) \<Rightarrow> (('x \<times> 's) + 's) res \<Rightarrow> (('x \<times> 't) + 't) res \<Rightarrow> bool" where
  "sim_loop invar h r R \<longleftrightarrow>
     (case r of Inl e \<Rightarrow> R = Inl e
      | Inr (Inl (x, s)) \<Rightarrow> invar s \<and> R = Inr (Inl (x, h s))
      | Inr (Inr s) \<Rightarrow> invar s \<and> R = Inr (Inr (h s)))"

lemma sim_loop_out:
  "sim_res invar h r R \<Longrightarrow>
     sim_loop invar h (bind_res r (\<lambda>x. Inr (Inl x))) (bind_res R (\<lambda>x. Inr (Inl x)))"
  by (auto simp: sim_res_def sim_loop_def split: sum.splits)

lemma sim_loop_simps [simp]:
  "sim_loop invar h (Inl e) R \<longleftrightarrow> R = Inl e"
  "sim_loop invar h (Inr (Inr s)) R \<longleftrightarrow> invar s \<and> R = Inr (Inr (h s))"
  by (simp_all add: sim_loop_def)

context state_store
begin

lemma outcome_sim:
  assumes "sv_ops sv = ops" and "others_sim invar abs (sv_others sv) g" and "invar s"
  shows "sim_res invar abs (outcome sv k s rq st b a rec msg ao v)
    (outcome (service_with abs_ops g sv) k (abs s) rq st b a rec msg ao v)"
proof -
  let ?s = "sv_others sv k Before_audit s"
  let ?e = "\<lparr>ae_actor = rq_actor rq, ae_scope = rq_scope rq, ae_action_id = rq_action_id rq,
    ae_resource_id = rq_resource_id rq, ae_action = rq_action rq, ae_before_state = b,
    ae_after_state = a, ae_outcome = (if ao \<noteq> [] then ao else status_value st), ae_detail = msg\<rparr>"
  have "invar ?s" "abs ?s = g k Before_audit (abs s)"
    using assms(2,3) by (simp_all add: others_sim_def)
  moreover from audit [OF this(1), of ?e] obtain s' where
    "op_append_audit ops ?s ?e = Inr s'" "abs s' = (abs ?s)\<lparr>ab_audit := ab_audit (abs ?s) @ [?e]\<rparr>"
    "invar s'" by blast
  ultimately show ?thesis
    using assms(1) by (simp add: outcome_def Let_def sim_res_def)
qed

lemma replay_sim:
  assumes "sv_ops sv = ops" and "others_sim invar abs (sv_others sv) g" and "invar s"
  shows "sim_res invar abs (replay_outcome sv k s rq c b)
    (replay_outcome (service_with abs_ops g sv) k (abs s) rq c b)"
proof (cases "ca_fingerprint c = fingerprint rq")
  case True
  have "invar (sv_others sv k Before_reload s)"
    "abs (sv_others sv k Before_reload s) = g k Before_reload (abs s)"
    using assms(2,3) by (simp_all add: others_sim_def)
  with True outcome_sim [OF assms(1,2)] assms(1) show ?thesis
    by (simp add: replay_outcome_def Let_def load) (metis (no_types))
next
  case False
  with outcome_sim [OF assms] show ?thesis
    by (simp add: replay_outcome_def failed_outcome_def)
qed

lemma attempt_sim:
  assumes sv: "sv_ops sv = ops" and oth: "others_sim invar abs (sv_others sv) g" and s: "invar s"
    and rid: "dataset_table_id (rq_resource_id rq) = Inr t"
  shows "sim_loop invar abs (attempt sv rq k s) (attempt (service_with abs_ops g sv) rq k (abs s))"
proof -
  let ?rid = "rq_resource_id rq" and ?sv = "service_with abs_ops g sv"
  let ?s1 = "sv_others sv k Before_load s"
  let ?s2 = "sv_others sv k Before_action ?s1"
  let ?s3 = "sv_others sv k Before_cas ?s2"
  let ?rec = "ab_records (abs ?s1) ?rid"
  have o: "invar (sv_others sv k p u)" "abs (sv_others sv k p u) = g k p (abs u)"
    if "invar u" for p u using oth that by (simp_all add: others_sim_def)
  have i: "invar ?s1" "invar ?s2" "invar ?s3" using s by (simp_all add: o)
  have out: "sim_loop invar abs (bind_res (outcome sv k u rq st b a r msg ao v) (\<lambda>x. Inr (Inl x)))
      (bind_res (outcome ?sv k (abs u) rq st b a r msg ao v) (\<lambda>x. Inr (Inl x)))"
    if "invar u" for u st b a r msg ao v
    by (rule sim_loop_out [OF outcome_sim [OF sv oth that]])
  have rep: "sim_loop invar abs (bind_res (replay_outcome sv k ?s2 rq c b) (\<lambda>x. Inr (Inl x)))
      (bind_res (replay_outcome ?sv k (abs ?s2) rq c b) (\<lambda>x. Inr (Inl x)))" for c b
    by (rule sim_loop_out [OF replay_sim [OF sv oth i(2)]])
  have loaded: "loaded_ok ?rid ?rec"
    using keyed [OF i(1)] by (auto simp: loaded_ok_def split: option.split)
  show ?thesis
  proof (cases "rq_expected_state rq \<noteq> None \<and> rq_expected_state rq \<noteq> Some (before_of ?rec)")
    case True
    with out [OF i(1)] i s sv show ?thesis
      by (simp add: attempt_def Let_def load failed_outcome_def before_of_def [symmetric] o)
  next
    case exp: False
    show ?thesis
    proof (cases "ab_actions (abs ?s2) ?rid (rq_action_id rq)")
      case (Some c)
      with exp rep i s sv show ?thesis
        by (auto simp: attempt_def Let_def load committed before_of_def [symmetric] o)
    next
      case none: None
      note simps = attempt_def Let_def load committed before_of_def [symmetric] o i s sv
      show ?thesis
      proof (cases "state_machine_check ?rid (rq_action rq) (before_of ?rec)")
        case chk: (Pair okay m)
        show ?thesis
        proof (cases okay)
          case False
          with none chk exp out [OF i(2)] show ?thesis by (auto simp: simps failed_outcome_def)
        next
          case True
          show ?thesis
          proof (cases "readiness sv k ?rid (Some (rq_action rq))")
            case (Inl e)
            with none chk True exp show ?thesis by (auto simp: simps)
          next
            case (Inr v)
            have "state_machine_check ?rid (rq_action rq) (before_of ?rec) = (True, m)"
              using chk True by simp
            then obtain ws where ws: "plan_writes ?rid rq ?rec (pv_policy_version v) = Inr ws" "ws \<noteq> []"
                "\<forall>w \<in> set ws. write_ok w"
              by (rule plan_writes_ok [OF rid loaded])
            from cas [OF i(3) ws(2) ws(3), of "rq_action_id rq" "rq_action rq"
                "fingerprint rq"]
            obtain s' where cs: "op_compare_and_set ops ?s3 ws (rq_action_id rq) (rq_action rq)
                (fingerprint rq) =
                Inr (fst (spec_cas (abs ?s3) ws (rq_action_id rq) (rq_action rq) (fingerprint rq)), s')"
              "abs s' = snd (spec_cas (abs ?s3) ws (rq_action_id rq) (rq_action rq) (fingerprint rq))"
              "invar s'"
              by blast
            show ?thesis
            proof (cases "pv_ready v")
              case False
              with none Inr chk True exp out [OF i(2)] show ?thesis by (auto simp: simps failed_outcome_def)
            next
              case ready: True
              obtain R A where R: "spec_cas (abs ?s3) ws (rq_action_id rq) (rq_action rq) (fingerprint rq)
                  = (R, A)" by fastforce
              with cs have cs: "op_compare_and_set ops ?s3 ws (rq_action_id rq) (rq_action rq)
                (fingerprint rq) = Inr (R, s')" "abs s' = A" by simp_all
              have i': "invar (sv_others sv k Before_recheck s')"
                "abs (sv_others sv k Before_recheck s') = g k Before_recheck A"
                using \<open>invar s'\<close> cs(2) by (simp_all add: o)
              show ?thesis
                using none Inr chk True exp ready R cs ws \<open>invar s'\<close> i' out [OF i'(1)] out [OF \<open>invar s'\<close>]
                by (cases "sr_status R") (auto simp: simps failed_outcome_def)
            qed
          qed
        qed
      qed
    qed
  qed
qed

lemma attempts_sim:
  assumes "sv_ops sv = ops" and "others_sim invar abs (sv_others sv) g" and "invar s"
    and "dataset_table_id (rq_resource_id rq) = Inr t"
  shows "sim_res invar abs (attempts sv rq k n s) (attempts (service_with abs_ops g sv) rq k n (abs s))"
  using assms(3)
proof (induction n arbitrary: k s)
  case 0
  then show ?case using outcome_sim [OF assms(1,2)] by (simp add: failed_outcome_def)
next
  case (Suc n)
  have sim: "sim_loop invar abs (attempt sv rq k s) (attempt (service_with abs_ops g sv) rq k (abs s))"
    by (rule attempt_sim [OF assms(1,2) Suc.prems assms(4)])
  show ?case
  proof (cases "attempt sv rq k s")
    case (Inl e)
    with sim show ?thesis by (simp add: sim_res_def)
  next
    case (Inr r)
    with sim Suc.IH [of _ "Suc k"] show ?thesis
      by (cases r) (auto simp: sim_loop_def sim_res_def)
  qed
qed

lemma transition_sim:
  assumes "sv_ops sv = ops" and "others_sim invar abs (sv_others sv) g" and "invar s"
  shows "sim_res invar abs (transition sv rq s) (transition (service_with abs_ops g sv) rq (abs s))"
proof (cases "validated_resource_id (rq_resource_id rq)")
  case (Inl e)
  then show ?thesis by (simp add: transition_def sim_res_def)
next
  case (Inr rid)
  then obtain t where "rid = rq_resource_id rq" "dataset_table_id (rq_resource_id rq) = Inr t"
    by (auto simp: validated_resource_id_def bind_res_Inr_iff split: if_splits)
  with Inr attempts_sim [OF assms] outcome_sim [OF assms] show ?thesis
    by (simp add: transition_def Let_def failed_outcome_def)
qed

end

end
