(* ===== verification/Dataset_Lifecycle.thy ===== *)
theory Dataset_Lifecycle
  imports Dataset_Service_Spec
begin

text \<open>
  The life of a Dataset under the transition service: the legal steps of the store, the proof that a
  call of \<open>transition\<close> is a sequence of them however other workers interleave, and the lifecycle
  properties that follow by induction over the steps.
\<close>

section \<open>Legal steps\<close>

text \<open>
  \<open>commit_step\<close> commits the writes planned from the records the batch finds; \<open>store_step\<close> is all that
  the service ever does to a store. \<open>drift\<close> is what other workers do during one call.
\<close>

definition commit_step :: "transition_request \<Rightarrow> string \<Rightarrow> abs_store \<Rightarrow> abs_store \<Rightarrow> bool" where
  "commit_step rq v A A' \<longleftrightarrow>
     (\<exists>t m ws R. dataset_table_id (rq_resource_id rq) = Inr t \<and>
        state_machine_check (rq_resource_id rq) (rq_action rq)
          (before_of (ab_records A (rq_resource_id rq))) = (True, m) \<and>
        plan_writes (rq_resource_id rq) rq (ab_records A (rq_resource_id rq)) v = Inr ws \<and>
        spec_cas A ws (rq_action_id rq) (rq_action rq) (fingerprint rq) = (R, A') \<and>
        sr_status R = SW_COMMITTED)"

inductive store_step :: "abs_store \<Rightarrow> abs_store \<Rightarrow> bool" where
  step_audit: "store_step A (A\<lparr>ab_audit := ab_audit A @ [e]\<rparr>)"
| step_commit: "commit_step rq v A A' \<Longrightarrow> store_step A A'"

inductive_cases store_stepE: "store_step A A'"

inductive drift :: "('s \<Rightarrow> bool) \<Rightarrow> ('s \<Rightarrow> abs_store) \<Rightarrow> 's service \<Rightarrow> 's \<Rightarrow> 's \<Rightarrow> bool" for P h sv where
  drift_refl: "drift P h sv s s"
| drift_step: "drift P h sv s s' \<Longrightarrow> drift P h sv s (sv_others sv k p s')"
| drift_same: "drift P h sv s s' \<Longrightarrow> h s'' = h s' \<Longrightarrow> P s'' \<Longrightarrow> drift P h sv s s''"

lemma drift_trans: "drift P h sv B C \<Longrightarrow> drift P h sv A B \<Longrightarrow> drift P h sv A C"
  by (induction rule: drift.induct) (auto intro: drift.intros)

lemma drift_quiet: "drift P h sv s s' \<Longrightarrow> (\<And>k p s. sv_others sv k p s = s) \<Longrightarrow> h s' = h s"
  by (induction rule: drift.induct) auto

definition audited :: "abs_store \<Rightarrow> audit_event \<Rightarrow> abs_store" where
  "audited A e = A\<lparr>ab_audit := ab_audit A @ [e]\<rparr>"

lemma audited_simps [simp]:
  "ab_records (audited A e) = ab_records A" "ab_actions (audited A e) = ab_actions A"
  "ab_audit (audited A e) = ab_audit A @ [e]"
  by (simp_all add: audited_def)

definition keeps :: "('s \<Rightarrow> bool) \<Rightarrow> (nat \<Rightarrow> store_point \<Rightarrow> 's \<Rightarrow> 's) \<Rightarrow> bool" where
  "keeps P others \<longleftrightarrow> (\<forall>k p s. P s \<longrightarrow> P (others k p s))"

lemma keepsD: "keeps P others \<Longrightarrow> P s \<Longrightarrow> P (others k p s)"
  by (simp add: keeps_def)

text \<open>
  \<open>cas_ran\<close>: one pass got as far as the compare-and-set. It found \<open>rec\<close> in state \<open>before\<close>, no committed
  action of this id, a transition the state machine allows and a ready verdict \<open>v\<close>, and ran the batch
  on the store \<open>c\<close>, which left \<open>c'\<close>.
\<close>

definition cas_ran :: "('s \<Rightarrow> abs_store) \<Rightarrow> 's service \<Rightarrow> transition_request \<Rightarrow> nat \<Rightarrow> 's \<Rightarrow> 's
    \<Rightarrow> policy_verdict \<Rightarrow> store_result \<Rightarrow> 's \<Rightarrow> state_record option \<Rightarrow> bool" where
  "cas_ran h sv rq k s c v R c' rec \<longleftrightarrow>
     (\<exists>m ws. c = sv_others sv k Before_cas (sv_others sv k Before_action (sv_others sv k Before_load s)) \<and>
        rec = ab_records (h (sv_others sv k Before_load s)) (rq_resource_id rq) \<and>
        (rq_expected_state rq = None \<or> rq_expected_state rq = Some (before_of rec)) \<and>
        ab_actions (h (sv_others sv k Before_action (sv_others sv k Before_load s)))
          (rq_resource_id rq) (rq_action_id rq) = None \<and>
        state_machine_check (rq_resource_id rq) (rq_action rq) (before_of rec) = (True, m) \<and>
        readiness sv k (rq_resource_id rq) (Some (rq_action rq)) = Inr v \<and> pv_ready v \<and>
        plan_writes (rq_resource_id rq) rq rec (pv_policy_version v) = Inr ws \<and> ws \<noteq> [] \<and>
        (\<forall>w \<in> set ws. write_ok w) \<and>
        (R, h c') = spec_cas (h c) ws (rq_action_id rq) (rq_action rq) (fingerprint rq))"

context state_store
begin

lemma drift_invar: "drift invar abs sv s s' \<Longrightarrow> keeps invar (sv_others sv) \<Longrightarrow> invar s \<Longrightarrow> invar s'"
  by (induction rule: drift.induct) (auto simp: keeps_def)

lemma outcome_abs:
  assumes "sv_ops sv = ops" and "keeps invar (sv_others sv)" and "invar s"
    and "outcome sv k s rq st b a rec msg ao v = Inr (out, s')"
  shows "abs s' = audited (abs (sv_others sv k Before_audit s)) (to_audit out) \<and> invar s' \<and>
    to_status out = st \<and> to_before_state out = b \<and> to_after_state out = a \<and> to_record out = rec \<and>
    to_verdict out = v \<and> to_request out = rq"
proof -
  let ?s = "sv_others sv k Before_audit s"
  have "invar ?s" using assms(2,3) by (simp add: keeps_def)
  from audit [OF this, of "to_audit out"] obtain s'' where
    "op_append_audit ops ?s (to_audit out) = Inr s''" "abs s'' = audited (abs ?s) (to_audit out)"
    "invar s''" by (auto simp: audited_def)
  with assms(1,4) show ?thesis by (auto simp: outcome_def Let_def bind_res_Inr_iff)
qed

lemma replay_outcome_abs:
  assumes "sv_ops sv = ops" and "keeps invar (sv_others sv)" and "invar s"
    and "replay_outcome sv k s rq c b = Inr (out, s')"
  obtains u where "drift invar abs sv s u" "abs s' = audited (abs u) (to_audit out)" "invar s'"
    "to_status out \<noteq> TS_COMMITTED" "to_request out = rq" "to_verdict out = None"
proof (cases "ca_fingerprint c = fingerprint rq")
  case True
  let ?s = "sv_others sv k Before_reload s"
  have i: "invar ?s" using assms(2,3) by (simp add: keeps_def)
  from True assms(4) obtain r where "outcome sv k ?s rq TS_REPLAYED b (ca_after_state c) r
      (''Action '' @ py_repr (rq_action rq) @ '' already committed; replaying outcome.'')
      ''replayed'' None = Inr (out, s')"
    by (auto simp: replay_outcome_def Let_def bind_res_Inr_iff)
  from outcome_abs [OF assms(1,2) i this] show ?thesis
    by (intro that [of "sv_others sv k Before_audit ?s"]) (auto intro: drift.intros)
next
  case False
  with assms(4) outcome_abs [OF assms(1-3)] show ?thesis
    by (intro that [of "sv_others sv k Before_audit s"])
      (auto simp: replay_outcome_def failed_outcome_def intro: drift.intros)
qed

text \<open>What one pass of the loop may have done.\<close>

lemma attempt_cases:
  assumes sv: "sv_ops sv = ops" and oth: "keeps invar (sv_others sv)"
    and s: "invar s" and rid: "dataset_table_id (rq_resource_id rq) = Inr t"
    and res: "attempt sv rq k s = Inr r"
  obtains (failed) out u s' where "r = Inl (out, s')" "drift invar abs sv s u" "invar s'"
      "abs s' = audited (abs u) (to_audit out)" "to_status out \<noteq> TS_COMMITTED" "to_request out = rq"
    | (again) c c' v R rec where "r = Inr c'" "cas_ran abs sv rq k s c v R c' rec" "abs c' = abs c"
      "sr_status R = SW_PRECONDITION_FAILED" "drift invar abs sv s c" "invar c'"
    | (done_commit) out c v R c' s' rec where "cas_ran abs sv rq k s c v R c' rec" "drift invar abs sv s c"
      "sr_status R = SW_COMMITTED" "r = Inl (out, s')"  "invar s'" "invar c'"
      "abs s' = audited (abs (sv_others sv k Before_audit c')) (to_audit out)"
      "to_status out = TS_COMMITTED" "to_before_state out = Some (before_of rec)"
      "to_after_state out = Some (after_state R (before_of rec))" "to_record out = last_record R"
      "to_verdict out = Some v" "to_request out = rq"
proof -
  let ?rid = "rq_resource_id rq"
  let ?s1 = "sv_others sv k Before_load s"
  let ?s2 = "sv_others sv k Before_action ?s1"
  let ?s3 = "sv_others sv k Before_cas ?s2"
  let ?rec = "ab_records (abs ?s1) ?rid"
  have dr: "drift invar abs sv s ?s1" "drift invar abs sv s ?s2" "drift invar abs sv s ?s3" by (intro drift.intros)+
  have i: "invar ?s1" "invar ?s2" "invar ?s3" using s oth by (simp_all add: keeps_def)
  have bad: thesis if "drift invar abs sv s u" "invar u" "st \<noteq> TS_COMMITTED"
      "bind_res (outcome sv k u rq st b a r' msg ao v) (\<lambda>x. Inr (Inl x)) = Inr r"
    for u st b a r' msg ao v
  proof -
    from that(4) obtain out s' where o: "outcome sv k u rq st b a r' msg ao v = Inr (out, s')"
      "r = Inl (out, s')" by (auto simp: bind_res_Inr_iff)
    from outcome_abs [OF sv oth \<open>invar u\<close> o(1)] o(2) that(3) show thesis
      by (intro failed [OF _ drift_step [OF that(1)], of out s' k Before_audit]) auto
  qed
  have loaded: "loaded_ok ?rid ?rec"
    using keyed [OF i(1)] by (auto simp: loaded_ok_def split: option.split)
  note simps = attempt_def Let_def before_of_def [symmetric] sv failed_outcome_def load i committed
  show ?thesis
  proof (cases "rq_expected_state rq \<noteq> None \<and> rq_expected_state rq \<noteq> Some (before_of ?rec)")
    case True
    with res show ?thesis by (auto simp: simps intro: bad [OF dr(1) i(1)])
  next
    case exp: False
    show ?thesis
    proof (cases "ab_actions (abs ?s2) ?rid (rq_action_id rq)")
      case (Some c)
      with exp res obtain out s' where o: "r = Inl (out, s')"
        "replay_outcome sv k ?s2 rq c (Some (before_of ?rec)) = Inr (out, s')"
        by (auto simp: simps bind_res_Inr_iff)
      from replay_outcome_abs [OF sv oth i(2) o(2)] o(1) dr(2) show ?thesis
        by (metis failed drift_trans)
    next
      case none: None
      show ?thesis
      proof (cases "state_machine_check ?rid (rq_action rq) (before_of ?rec)")
        case chk: (Pair okay m)
        show ?thesis
        proof (cases okay)
          case False
          with none exp chk res show ?thesis
            by (auto simp: simps split: if_splits intro: bad [OF dr(2) i(2)])
        next
          case True
          with none exp chk res obtain v where v: "readiness sv k ?rid (Some (rq_action rq)) = Inr v"
            by (cases "readiness sv k ?rid (Some (rq_action rq))") (auto simp: simps)
          show ?thesis
          proof (cases "pv_ready v")
            case False
            with v none exp chk res True show ?thesis
              by (auto simp: simps intro: bad [OF dr(2) i(2)])
          next
            case ready: True
            from chk True have "state_machine_check ?rid (rq_action rq) (before_of ?rec) = (True, m)"
              by simp
            then obtain ws where ws: "plan_writes ?rid rq ?rec (pv_policy_version v) = Inr ws"
                "ws \<noteq> []" "\<forall>w \<in> set ws. write_ok w"
              by (rule plan_writes_ok [OF rid loaded])
            let ?spec = "spec_cas (abs ?s3) ws (rq_action_id rq) (rq_action rq) (fingerprint rq)"
            from cas [OF i(3) ws(2,3)] obtain R c' where R:
              "op_compare_and_set ops ?s3 ws (rq_action_id rq) (rq_action rq) (fingerprint rq) =
                 Inr (R, c')" "R = fst ?spec" "abs c' = snd ?spec" "invar c'"
              by blast
            have ran: "cas_ran abs sv rq k s ?s3 v R c' ?rec"
              unfolding cas_ran_def using exp none chk True v ready ws R by auto
            have same: "abs c' = abs ?s3" if "sr_status R \<noteq> SW_COMMITTED"
              using that R by (cases rule: spec_cas_cases [of "abs ?s3" ws "rq_action_id rq"
                "rq_action rq" "fingerprint rq"]) auto
            note facts = none exp chk True v ready ws(1) R(1) res
            have i': "invar (sv_others sv k Before_recheck c')" using R(4) oth by (simp add: keeps_def)
            have dc: "drift invar abs sv s c'" if "sr_status R \<noteq> SW_COMMITTED"
              using drift_same [OF dr(3) same [OF that] R(4)] .
            show ?thesis
            proof (cases "sr_status R")
              case SW_COMMITTED
              with facts obtain out s' where "outcome sv k c' rq TS_COMMITTED (Some (before_of ?rec))
                  (Some (after_state R (before_of ?rec))) (last_record R)
                  (detail_or R (py_repr (rq_action rq) @ '' committed for '' @ ?rid @ ''.''))
                  ''committed'' (Some v) = Inr (out, s')" "r = Inl (out, s')"
                by (auto simp: simps bind_res_Inr_iff)
              with outcome_abs [OF sv oth R(4) this(1)] SW_COMMITTED R(4) show ?thesis
                by (intro done_commit [OF ran dr(3), of out s']) auto
            next
              case SW_REPLAYED
              with facts i' show ?thesis
                by (auto simp: simps intro: bad [OF drift_step [OF dc] i'])
            next
              case SW_PRECONDITION_FAILED
              with facts same ran dr(3) R(4) show ?thesis by (auto simp: simps intro: again)
            next
              case SW_ACTION_CONFLICT
              with facts dc show ?thesis by (auto simp: simps intro: bad [OF dc R(4)])
            qed
          qed
        qed
      qed
    qed
  qed
qed

end

lemma state_at_before_of: "state_at m i = before_of (m i)"
  by (simp add: state_at_def before_of_def)

lemma abs_ok_open:
  "abs_ok A \<Longrightarrow> before_of (ab_records A i) = WORKFLOW_STATE_OPEN \<longleftrightarrow> ab_records A i = None"
  using record_valid_not_open by (auto simp: abs_ok_def before_of_def split: option.split)

lemma abs_ok_loaded: "abs_ok A \<Longrightarrow> loaded_ok i (ab_records A i)"
  by (auto simp: loaded_ok_def abs_ok_def split: option.split)

definition journaled :: "abs_store \<Rightarrow> store_write \<Rightarrow> transition_request
    \<Rightarrow> string \<Rightarrow> string \<Rightarrow> committed_action option" where
  "journaled A w rq = (\<lambda>i a. if i = sw_record_id w \<and> a = rq_action_id rq
     then Some (commit_entry w (rq_action_id rq) (rq_action rq) (fingerprint rq)) else ab_actions A i a)"

lemma commit_step_cases:
  assumes ok: "abs_ok A" and step: "commit_step rq v A A'"
  obtains (promote) t c d where "rq_action rq = ''promote''" "table_key t"
      "rq_resource_id rq = CANDIDATE_ID_PREFIX @ t"
      "before_of (ab_records A (CANDIDATE_ID_PREFIX @ t)) = ''review''" "ab_records A t = None"
      "make_candidate c = Inr c" "cr_dataset_id c = CANDIDATE_ID_PREFIX @ t" "cr_state c = ''promoted''"
      "cr_promoted_dataset_id c = Some t"
      "make_dataset d = Inr d" "dr_dataset_id d = t" "dr_publication_state d = ''draft''"
      "ab_actions A t (rq_action_id rq) = None"
      "A' = A\<lparr>ab_records := (ab_records A)(CANDIDATE_ID_PREFIX @ t \<mapsto> Candidate c, t \<mapsto> Dataset d),
               ab_actions := journaled A \<lparr>sw_record_id = t, sw_expected_state = Some WORKFLOW_STATE_OPEN,
                 sw_next_record = Dataset d\<rparr> rq\<rparr>"
    | (single) froms to r where
      "dict_get (transition_table (rq_resource_id rq)) (rq_action rq) = Some (froms, to)"
      "before_of (ab_records A (rq_resource_id rq)) \<in> set froms" "to \<noteq> ''promoted''"
      "record_valid r" "record_id r = rq_resource_id rq" "current_state r = to"
      "ab_actions A (rq_resource_id rq) (rq_action_id rq) = None"
      "A' = A\<lparr>ab_records := (ab_records A)(rq_resource_id rq \<mapsto> r),
               ab_actions := journaled A \<lparr>sw_record_id = rq_resource_id rq,
                 sw_expected_state = Some (before_of (ab_records A (rq_resource_id rq))),
                 sw_next_record = r\<rparr> rq\<rparr>"
proof -
  let ?rid = "rq_resource_id rq"
  from step obtain t m ws R where s: "dataset_table_id ?rid = Inr t"
    "state_machine_check ?rid (rq_action rq) (before_of (ab_records A ?rid)) = (True, m)"
    "plan_writes ?rid rq (ab_records A ?rid) v = Inr ws"
    "spec_cas A ws (rq_action_id rq) (rq_action rq) (fingerprint rq) = (R, A')"
    "sr_status R = SW_COMMITTED"
    by (auto simp: commit_step_def)
  from s(4,5) have eff: "ab_actions A (sw_record_id (last ws)) (rq_action_id rq) = None"
    "\<forall>w \<in> set ws. sw_expected_state w = Some (state_at (ab_records A) (sw_record_id w))"
    "A' = A\<lparr>ab_records := put_all (ab_records A) ws, ab_actions := journaled A (last ws) rq\<rparr>"
    by (cases rule: spec_cas_cases [of A ws "rq_action_id rq" "rq_action rq" "fingerprint rq"];
        simp add: journaled_def fun_eq_iff)+
  from s(2) obtain froms to where e: "dict_get (transition_table ?rid) (rq_action rq) = Some (froms, to)"
    "before_of (ab_records A ?rid) \<in> set froms"
    by (auto simp: state_machine_check_True)
  from s(1) abs_ok_loaded [OF ok] e show ?thesis
  proof (cases rule: plan_writes_cases [of ?rid t "ab_records A ?rid" rq froms to v])
    case p: (promote c d)
    note ws = trans [OF s(3) [symmetric] p(6), unfolded sum.inject]
    have "before_of (ab_records A t) = WORKFLOW_STATE_OPEN"
      using eff(2) unfolding ws by (simp add: state_at_before_of)
    with abs_ok_open [OF ok] have "ab_records A t = None" by simp
    with p eff [unfolded ws] show ?thesis
      by (intro promote [of t c d]) (simp_all add: fun_upd_def)
  next
    case p: (single r)
    note ws = trans [OF s(3) [symmetric] p(5), unfolded sum.inject]
    from p eff [unfolded ws] e show ?thesis
      by (intro single [of froms to r]) (simp_all add: fun_upd_def)
  qed
qed

lemma store_step_ok:
  assumes "store_step A A'" and "abs_ok A"
  shows "abs_ok A'"
  using assms(1)
proof cases
  case (step_commit rq v)
  from assms(2) this show ?thesis
    by (cases rule: commit_step_cases) (use assms(2) in \<open>auto simp: abs_ok_def\<close>)
qed (use assms(2) in auto)

lemma store_steps_ok: "store_step\<^sup>*\<^sup>* A A' \<Longrightarrow> abs_ok A \<Longrightarrow> abs_ok A'"
  by (induction rule: rtranclp_induct) (auto intro: store_step_ok)

text \<open>Each state has a rank, and a step never moves a record back: an unchanged state means an unchanged
record, so the compare-and-set on states cannot be fooled.\<close>

definition state_rank :: "string \<Rightarrow> nat" where
  "state_rank st =
     (if st = ''open'' then 0
      else if st = ''claimed'' \<or> st = ''draft'' then 1
      else if st = ''review'' \<or> st = ''published'' then 2
      else 3)"

lemma state_ranks [simp]:
  "state_rank WORKFLOW_STATE_OPEN = 0" "state_rank ''claimed'' = 1" "state_rank ''draft'' = 1"
  "state_rank ''review'' = 2" "state_rank ''published'' = 2"
  "state_rank ''promoted'' = 3" "state_rank ''rejected'' = 3" "state_rank ''retired'' = 3"
  by (simp_all add: state_rank_def WORKFLOW_STATE_OPEN_def)

lemma table_ranks:
  assumes "dict_get (transition_table rid) a = Some (froms, to)" and "st \<in> set froms"
  shows "state_rank st < state_rank to"
  using assms
  by (cases "is_candidate_dataset_id rid")
    (auto simp: transition_table_def workflow_entry_iff publication_entry_iff)

definition moves_on :: "state_record option \<Rightarrow> state_record option \<Rightarrow> bool" where
  "moves_on x y \<longleftrightarrow> y = x \<or> state_rank (before_of x) < state_rank (before_of y)"

lemma moves_on_trans: "moves_on x y \<Longrightarrow> moves_on y z \<Longrightarrow> moves_on x z"
  by (auto simp: moves_on_def)

lemma store_step_moves:
  assumes "store_step A A'" and "abs_ok A"
  shows "moves_on (ab_records A i) (ab_records A' i)"
  using assms(1)
proof cases
  case (step_commit rq v)
  from assms(2) this show ?thesis
  proof (cases rule: commit_step_cases)
    case (promote t c d)
    then show ?thesis
      by (simp add: moves_on_def fun_upd_apply)
  next
    case (single froms to r)
    with table_ranks [OF single(1,2)] show ?thesis by (simp add: moves_on_def)
  qed
qed (simp add: moves_on_def)

lemma store_steps_move:
  assumes "store_step\<^sup>*\<^sup>* A A'" and "abs_ok A"
  shows "moves_on (ab_records A i) (ab_records A' i)"
  using assms(1)
proof (induction rule: rtranclp_induct)
  case base
  show ?case by (simp add: moves_on_def)
next
  case (step B C)
  then have "moves_on (ab_records B i) (ab_records C i)"
    using store_step_moves store_steps_ok assms(2) by blast
  with step.IH show ?case by (rule moves_on_trans)
qed

section \<open>Calls are sequences of legal steps\<close>

definition lawful :: "('s \<Rightarrow> bool) \<Rightarrow> ('s \<Rightarrow> abs_store) \<Rightarrow> (nat \<Rightarrow> store_point \<Rightarrow> 's \<Rightarrow> 's) \<Rightarrow> bool" where
  "lawful P h others \<longleftrightarrow>
     (\<forall>k p s. P s \<longrightarrow> P (others k p s) \<and> store_step\<^sup>*\<^sup>* (h s) (h (others k p s)))"

definition committed_by :: "'s service \<Rightarrow> transition_request \<Rightarrow> transition_outcome
    \<Rightarrow> abs_store \<Rightarrow> abs_store \<Rightarrow> bool" where
  "committed_by sv rq out A A' \<longleftrightarrow>
     (\<exists>B C k v r. store_step\<^sup>*\<^sup>* A B \<and> commit_step rq (pv_policy_version v) B C \<and>
        store_step\<^sup>*\<^sup>* C A' \<and>
        readiness sv k (rq_resource_id rq) (Some (rq_action rq)) = Inr v \<and> pv_ready v \<and>
        to_verdict out = Some v \<and>
        to_before_state out = Some (before_of (ab_records B (rq_resource_id rq))) \<and>
        to_record out = Some r \<and> to_after_state out = Some (current_state r) \<and>
        ab_records C (record_id r) = Some r)"

lemma spec_cas_commit:
  assumes "(R, A') = spec_cas A ws aid act fp" and "sr_status R = SW_COMMITTED" and "ws \<noteq> []"
  shows "\<forall>w \<in> set ws. sw_expected_state w = Some (before_of (ab_records A (sw_record_id w)))"
    "last_record R = Some (sw_next_record (last ws))"
    "ab_records A' (sw_record_id (last ws)) = Some (sw_next_record (last ws))"
proof -
  from assms(1) have eqs: "R = fst (spec_cas A ws aid act fp)" "A' = snd (spec_cas A ws aid act fp)"
    by (metis fst_conv, metis snd_conv)
  have "ab_records A' = put_all (ab_records A) ws \<and>
    (\<forall>w \<in> set ws. sw_expected_state w = Some (state_at (ab_records A) (sw_record_id w))) \<and>
    R = commit_result ws (sw_record_id (last ws)) act fp"
    by (rule spec_cas_cases [of A ws aid act fp]) (use eqs assms(2) in simp_all)
  then have c: "ab_records A' = put_all (ab_records A) ws"
    "\<forall>w \<in> set ws. sw_expected_state w = Some (state_at (ab_records A) (sw_record_id w))"
    "R = commit_result ws (sw_record_id (last ws)) act fp"
    by simp_all
  from c(2) show "\<forall>w \<in> set ws. sw_expected_state w = Some (before_of (ab_records A (sw_record_id w)))"
    by (simp add: state_at_before_of)
  from c(3) assms(3) show "last_record R = Some (sw_next_record (last ws))"
    by (simp add: last_record_def commit_result_def last_map)
  from assms(3) obtain us w where "ws = us @ [w]" by (cases ws rule: rev_cases) auto
  with c(1) show "ab_records A' (sw_record_id (last ws)) = Some (sw_next_record (last ws))"
    by (simp add: put_all_get)
qed

context state_store
begin

lemma invar_ok: "invar s \<Longrightarrow> abs_ok (abs s)"
  using keyed by (auto simp: abs_ok_def)

lemma drift_lawful:
  assumes "drift invar abs sv s s'" and "lawful invar abs (sv_others sv)" and "invar s"
  shows "invar s' \<and> store_step\<^sup>*\<^sup>* (abs s) (abs s')"
  using assms(1,3)
proof (induction rule: drift.induct)
  case (drift_step s s' k p)
  with assms(2) show ?case by (auto simp: lawful_def intro: rtranclp_trans)
qed auto

lemma cas_ran_commit:
  assumes law: "lawful invar abs (sv_others sv)" and s: "invar s"
    and rid: "dataset_table_id (rq_resource_id rq) = Inr t"
    and ran: "cas_ran abs sv rq k s c v R c' rec" and com: "sr_status R = SW_COMMITTED"
  shows "commit_step rq (pv_policy_version v) (abs c) (abs c')"
    "ab_records (abs c) (rq_resource_id rq) = rec"
    "\<exists>r. last_record R = Some r \<and> ab_records (abs c') (record_id r) = Some r"
proof -
  let ?rid = "rq_resource_id rq"
  let ?s1 = "sv_others sv k Before_load s"
  from ran obtain m ws where c: "c = sv_others sv k Before_cas (sv_others sv k Before_action ?s1)"
    and rec: "rec = ab_records (abs ?s1) ?rid"
    and chk: "state_machine_check ?rid (rq_action rq) (before_of rec) = (True, m)"
    and ws: "plan_writes ?rid rq rec (pv_policy_version v) = Inr ws" "ws \<noteq> []" "\<forall>w \<in> set ws. write_ok w"
    and run: "(R, abs c') = spec_cas (abs c) ws (rq_action_id rq) (rq_action rq) (fingerprint rq)"
    by (auto simp: cas_ran_def)
  have step: "invar (sv_others sv k p u)" "store_step\<^sup>*\<^sup>* (abs u) (abs (sv_others sv k p u))"
    if "invar u" for p u
    using law that by (simp_all add: lawful_def)
  have "invar ?s1" "store_step\<^sup>*\<^sup>* (abs ?s1) (abs c)"
    unfolding c using step(1) [OF s, of Before_load] step rtranclp_trans by metis+
  then have mv: "moves_on rec (ab_records (abs c) ?rid)" and ld: "loaded_ok ?rid rec"
    unfolding rec by (auto intro: store_steps_move invar_ok abs_ok_loaded)
  from chk obtain froms to where e: "dict_get (transition_table ?rid) (rq_action rq) = Some (froms, to)"
    "before_of rec \<in> set froms" by (auto simp: state_machine_check_True)
  have "\<exists>w \<in> set ws. sw_record_id w = ?rid \<and> sw_expected_state w = Some (before_of rec)"
    using ws(1) by (cases rule: plan_writes_cases [OF rid ld e, of "pv_policy_version v"]) auto
  with spec_cas_commit(1) [OF run com ws(2)] have "before_of (ab_records (abs c) ?rid) = before_of rec"
    by auto
  with mv show eq: "ab_records (abs c) ?rid = rec" by (simp add: moves_on_def)
  show "commit_step rq (pv_policy_version v) (abs c) (abs c')"
    unfolding commit_step_def unfolding eq
    using rid chk ws(1) run [symmetric] com by (intro exI conjI)
  from spec_cas_commit(2,3) [OF run com ws(2)] ws(2,3)
  show "\<exists>r. last_record R = Some r \<and> ab_records (abs c') (record_id r) = Some r"
    by (auto simp: write_ok_def)
qed

lemma attempts_steps:
  assumes sv: "sv_ops sv = ops" and law: "lawful invar abs (sv_others sv)"
    and rid: "dataset_table_id (rq_resource_id rq) = Inr t"
    and s: "invar s" and run: "attempts sv rq k n s = Inr (out, s')"
  shows "store_step\<^sup>*\<^sup>* (abs s) (abs s') \<and>
    (to_status out = TS_COMMITTED \<longrightarrow> committed_by sv rq out (abs s) (abs s'))"
  using s run
proof (induction n arbitrary: k s)
  case 0
  have oth: "keeps invar (sv_others sv)" using law by (simp add: lawful_def keeps_def)
  from 0 have "outcome sv k s rq TS_CONFLICT None None None
       (''Concurrent modification of '' @ rq_resource_id rq @
        ''; retry after re-reading its current state.'') [] None = Inr (out, s')"
    by (simp add: failed_outcome_def)
  from outcome_abs [OF sv oth 0(1) this] law 0(1) show ?case
    by (auto simp: lawful_def audited_def intro: rtranclp.rtrancl_into_rtrancl step_audit)
next
  case (Suc n)
  have oth: "keeps invar (sv_others sv)" using law by (simp add: lawful_def keeps_def)
  have aud: "store_step\<^sup>*\<^sup>* A (audited B e)" if "store_step\<^sup>*\<^sup>* A B" for A B e
    using that by (auto simp: audited_def intro: rtranclp.rtrancl_into_rtrancl step_audit)
  from Suc.prems(2) obtain r where r: "attempt sv rq k s = Inr r" by (auto simp: bind_res_Inr_iff)
  from sv oth Suc.prems(1) rid r show ?case
  proof (cases rule: attempt_cases)
    case (failed out u s')
    with Suc.prems(2) r drift_lawful [OF failed(2) law Suc.prems(1)] show ?thesis by (auto intro: aud)
  next
    case (again c c' v R rec)
    have "store_step\<^sup>*\<^sup>* (abs s) (abs c')"
      using drift_lawful [OF again(5) law Suc.prems(1)] again(3) by simp
    moreover have "attempts sv rq (Suc k) n c' = Inr (out, s')"
      using Suc.prems(2) r again(1) by simp
    ultimately show ?thesis
      using Suc.IH [OF again(6)] unfolding committed_by_def by (meson rtranclp_trans)
  next
    case (done_commit out' c v R c' s'' rec)
    then have out: "out' = out" "s'' = s'" using Suc.prems(2) r by simp_all
    note ran = cas_ran_commit [OF law Suc.prems(1) rid done_commit(1,3)]
    have st: "store_step\<^sup>*\<^sup>* (abs s) (abs c)" using drift_lawful [OF done_commit(2) law Suc.prems(1)] by simp
    have last: "store_step\<^sup>*\<^sup>* (abs c') (abs s')"
      using done_commit(6,7) law by (auto simp: lawful_def out intro: aud)
    from ran(1) have "store_step (abs c) (abs c')" by (rule step_commit)
    with st last have all: "store_step\<^sup>*\<^sup>* (abs s) (abs s')" by (meson rtranclp.rtrancl_into_rtrancl rtranclp_trans)
    from ran(3) obtain r' where "last_record R = Some r'" "ab_records (abs c') (record_id r') = Some r'"
      by blast
    moreover have "readiness sv k (rq_resource_id rq) (Some (rq_action rq)) = Inr v" "pv_ready v"
      using done_commit(1) by (auto simp: cas_ran_def)
    ultimately have "committed_by sv rq out (abs s) (abs s')"
      unfolding committed_by_def using st last ran(1,2) done_commit(9-12)
      by (intro exI [of _ "abs c"] exI [of _ "abs c'"] exI [of _ k] exI [of _ v] exI [of _ r'])
        (simp add: out after_state_def)
    with all show ?thesis by simp
  qed
qed

end

context state_store
begin

lemma transition_steps:
  assumes sv: "sv_ops sv = ops" and law: "lawful invar abs (sv_others sv)" and s: "invar s"
    and run: "transition sv rq s = Inr (out, s')"
  shows "store_step\<^sup>*\<^sup>* (abs s) (abs s')"
    "to_status out = TS_COMMITTED \<Longrightarrow> committed_by sv rq out (abs s) (abs s')"
proof -
  from run obtain t where rid: "dataset_table_id (rq_resource_id rq) = Inr t"
    by (auto simp: transition_def validated_resource_id_def bind_res_Inr_iff split: if_splits)
  have oth: "keeps invar (sv_others sv)" using law by (simp add: lawful_def keeps_def)
  show "store_step\<^sup>*\<^sup>* (abs s) (abs s')"
    "to_status out = TS_COMMITTED \<Longrightarrow> committed_by sv rq out (abs s) (abs s')"
  proof (atomize (full), cases "attempts sv rq 0 MAX_CAS_ATTEMPTS s = Inr (out, s')")
    case True
    from attempts_steps [OF sv law rid s True]
    show "store_step\<^sup>*\<^sup>* (abs s) (abs s') \<and>
      (to_status out = TS_COMMITTED \<longrightarrow> committed_by sv rq out (abs s) (abs s'))" .
  next
    case False
    with run obtain msg where "outcome sv 0 s rq TS_CONFLICT None None None msg [] None = Inr (out, s')"
      by (auto simp: transition_def failed_outcome_def Let_def bind_res_Inr_iff validated_resource_id_def
          split: if_splits)
    from outcome_abs [OF sv oth s this] law s
    show "store_step\<^sup>*\<^sup>* (abs s) (abs s') \<and>
      (to_status out = TS_COMMITTED \<longrightarrow> committed_by sv rq out (abs s) (abs s'))"
      by (auto simp: lawful_def audited_def intro: rtranclp.rtrancl_into_rtrancl step_audit)
  qed
qed

end

section \<open>Without interference\<close>

definition quiet :: "nat \<Rightarrow> store_point \<Rightarrow> 's \<Rightarrow> 's" where
  "quiet k p s = s"

lemma quiet_ok [simp]: "keeps P quiet" "lawful P h quiet" "others_sim P h quiet quiet"
  by (simp_all add: keeps_def lawful_def others_sim_def quiet_def)

lemma quiet_keeps: "sv_others sv = quiet \<Longrightarrow> keeps P (sv_others sv)"
  by simp

lemma planned_cas:
  assumes ok: "abs_ok A" and rid: "dataset_table_id rid = Inr t"
    and chk: "state_machine_check rid (rq_action rq) (before_of (ab_records A rid)) = (True, m)"
    and plan: "plan_writes rid rq (ab_records A rid) v = Inr ws"
    and fresh: "ab_actions A rid aid = None"
  shows "sr_status (fst (spec_cas A ws aid act fp)) =
    (if rq_action rq = ''promote'' then
       (case ab_actions A t aid of
          Some c \<Rightarrow> if ca_fingerprint c = fp then SW_REPLAYED else SW_ACTION_CONFLICT
        | None \<Rightarrow> if ab_records A t = None then SW_COMMITTED else SW_PRECONDITION_FAILED)
     else SW_COMMITTED)"
proof -
  from chk obtain froms to where e: "dict_get (transition_table rid) (rq_action rq) = Some (froms, to)"
    "before_of (ab_records A rid) \<in> set froms"
    by (auto simp: state_machine_check_True)
  from rid abs_ok_loaded [OF ok] e show ?thesis
  proof (cases rule: plan_writes_cases [of rid t "ab_records A rid" rq froms to v])
    case p: (promote c d)
    note ws = trans [OF plan [symmetric] p(6), unfolded sum.inject]
    show ?thesis
      using p(2) abs_ok_open [OF ok, of t]
      by (auto simp: ws spec_cas_def Let_def write_blocked_def state_at_before_of replay_result_def
          conflict_result_def moved_result_def commit_result_def split: option.split)
  next
    case p: (single r)
    note ws = trans [OF plan [symmetric] p(5), unfolded sum.inject]
    have "rq_action rq \<noteq> ''promote''"
      using e(1) p(1) by (auto simp: transition_table_def workflow_entry_iff publication_entry_iff
          split: if_splits)
    with fresh show ?thesis
      by (simp add: ws spec_cas_def Let_def write_blocked_def state_at_before_of commit_result_def)
  qed
qed

definition commit_enabled :: "'s service \<Rightarrow> transition_request \<Rightarrow> nat \<Rightarrow> abs_store \<Rightarrow> bool" where
  "commit_enabled sv rq k A \<longleftrightarrow>
     (rq_expected_state rq = None \<or>
        rq_expected_state rq = Some (before_of (ab_records A (rq_resource_id rq)))) \<and>
     ab_actions A (rq_resource_id rq) (rq_action_id rq) = None \<and>
     fst (state_machine_check (rq_resource_id rq) (rq_action rq)
       (before_of (ab_records A (rq_resource_id rq)))) \<and>
     (case readiness sv k (rq_resource_id rq) (Some (rq_action rq)) of
        Inl _ \<Rightarrow> False | Inr v \<Rightarrow> pv_ready v) \<and>
     (rq_action rq = ''promote'' \<longrightarrow>
        (case dataset_table_id (rq_resource_id rq) of
           Inl _ \<Rightarrow> False
         | Inr t \<Rightarrow> ab_records A t = None \<and> ab_actions A t (rq_action_id rq) = None))"

context state_store
begin

lemma cas_ran_quiet:
  assumes q: "sv_others sv = quiet" and s: "invar s"
    and rid: "dataset_table_id (rq_resource_id rq) = Inr t"
    and ran: "cas_ran abs sv rq k s c v R c' rec"
  shows "c = s" "rec = ab_records (abs s) (rq_resource_id rq)"
    "sr_status R = SW_COMMITTED \<Longrightarrow> commit_enabled sv rq k (abs s)"
    "sr_status R = SW_PRECONDITION_FAILED \<Longrightarrow> \<not> commit_enabled sv rq j (abs s)"
proof -
  let ?rid = "rq_resource_id rq" and ?A = "abs s"
  from ran q obtain m ws where c: "c = s" "rec = ab_records ?A ?rid"
    and exp: "rq_expected_state rq = None \<or> rq_expected_state rq = Some (before_of (ab_records ?A ?rid))"
    and none: "ab_actions ?A ?rid (rq_action_id rq) = None"
    and chk: "state_machine_check ?rid (rq_action rq) (before_of (ab_records ?A ?rid)) = (True, m)"
    and v: "readiness sv k ?rid (Some (rq_action rq)) = Inr v" "pv_ready v"
    and ws: "plan_writes ?rid rq (ab_records ?A ?rid) (pv_policy_version v) = Inr ws"
    and run: "(R, abs c') = spec_cas ?A ws (rq_action_id rq) (rq_action rq) (fingerprint rq)"
    by (auto simp: cas_ran_def quiet_def)
  show "c = s" "rec = ab_records ?A ?rid" by fact+
  from run have R: "R = fst (spec_cas ?A ws (rq_action_id rq) (rq_action rq) (fingerprint rq))"
    by (metis fst_conv)
  note st = planned_cas [OF invar_ok [OF s] rid chk ws none, of "rq_action rq" "fingerprint rq",
      folded R]
  show "commit_enabled sv rq k ?A" if "sr_status R = SW_COMMITTED"
    using that st exp none chk v rid by (auto simp: commit_enabled_def split: if_splits option.splits)
  show "\<not> commit_enabled sv rq j ?A" if "sr_status R = SW_PRECONDITION_FAILED"
    using that st rid by (auto simp: commit_enabled_def split: if_splits option.splits)
qed

lemma outcome_returns:
  assumes "sv_ops sv = ops" and "keeps invar (sv_others sv)" and "invar s"
  shows "\<exists>out s'. outcome sv k s rq st b a rec msg ao v = Inr (out, s')"
proof -
  let ?e = "\<lparr>ae_actor = rq_actor rq, ae_scope = rq_scope rq, ae_action_id = rq_action_id rq,
    ae_resource_id = rq_resource_id rq, ae_action = rq_action rq, ae_before_state = b,
    ae_after_state = a, ae_outcome = (if ao \<noteq> [] then ao else status_value st), ae_detail = msg\<rparr>"
  from audit [of "sv_others sv k Before_audit s" ?e] assms(2,3) obtain s' where
    "op_append_audit ops (sv_others sv k Before_audit s) ?e = Inr s'" by (auto simp: keeps_def)
  with assms(1) show ?thesis by (simp add: outcome_def Let_def)
qed

lemma attempt_enabled:
  assumes sv: "sv_ops sv = ops" and q: "sv_others sv = quiet" and s: "invar s"
    and rid: "dataset_table_id (rq_resource_id rq) = Inr t" and en: "commit_enabled sv rq k (abs s)"
  obtains out s' where "attempt sv rq k s = Inr (Inl (out, s'))" "to_status out = TS_COMMITTED"
proof -
  let ?rid = "rq_resource_id rq" and ?A = "abs s"
  from en obtain m v where exp: "rq_expected_state rq = None \<or>
      rq_expected_state rq = Some (before_of (ab_records ?A ?rid))"
    and none: "ab_actions ?A ?rid (rq_action_id rq) = None"
    and chk: "state_machine_check ?rid (rq_action rq) (before_of (ab_records ?A ?rid)) = (True, m)"
    and v: "readiness sv k ?rid (Some (rq_action rq)) = Inr v" "pv_ready v"
    and pr: "rq_action rq = ''promote'' \<Longrightarrow>
      ab_records ?A t = None \<and> ab_actions ?A t (rq_action_id rq) = None"
    using rid by (auto simp: commit_enabled_def split: sum.splits) (metis prod.collapse)+
  have "loaded_ok ?rid (ab_records ?A ?rid)" using abs_ok_loaded invar_ok s by blast
  from plan_writes_ok [OF rid this chk] obtain ws where
    ws: "plan_writes ?rid rq (ab_records ?A ?rid) (pv_policy_version v) = Inr ws" "ws \<noteq> []"
      "\<forall>w \<in> set ws. write_ok w" by blast
  note st = planned_cas [OF invar_ok [OF s] rid chk ws(1) none, of "rq_action rq" "fingerprint rq"]
  have com: "sr_status (fst (spec_cas ?A ws (rq_action_id rq) (rq_action rq) (fingerprint rq))) =
      SW_COMMITTED"
    unfolding st using pr by simp
  obtain R c' where R:
    "op_compare_and_set ops s ws (rq_action_id rq) (rq_action rq) (fingerprint rq) = Inr (R, c')"
    "sr_status R = SW_COMMITTED" "invar c'"
    using cas [OF s ws(2,3), of "rq_action_id rq" "rq_action rq" "fingerprint rq"] com by auto
  let ?o = "outcome sv k c' rq TS_COMMITTED (Some (before_of (ab_records ?A ?rid)))
    (Some (after_state R (before_of (ab_records ?A ?rid)))) (last_record R)
    (detail_or R (py_repr (rq_action rq) @ '' committed for '' @ ?rid @ ''.'')) ''committed'' (Some v)"
  have a: "attempt sv rq k s = bind_res ?o (\<lambda>out. Inr (Inl out))"
    using exp none chk v ws(1) R
    by (auto simp: attempt_def Let_def q quiet_def sv load [OF s] committed [OF s]
        before_of_def [symmetric])
  obtain out s' where o: "?o = Inr (out, s')"
    using outcome_returns [OF sv _ R(3)] q by (metis quiet_ok(1))
  with outcome_abs [OF sv _ R(3) o] a that show ?thesis by (simp add: q)
qed

lemma attempts_quiet:
  assumes sv: "sv_ops sv = ops" and q: "sv_others sv = quiet"
    and rid: "dataset_table_id (rq_resource_id rq) = Inr t"
    and s: "invar s" and run: "attempts sv rq k n s = Inr (out, s')"
  shows "to_status out = TS_COMMITTED \<longleftrightarrow> n \<noteq> 0 \<and> commit_enabled sv rq k (abs s)"
    "to_status out \<noteq> TS_COMMITTED \<Longrightarrow> abs s' = audited (abs s) (to_audit out)"
    "to_status out = TS_COMMITTED \<Longrightarrow>
       \<exists>C v. commit_step rq v (abs s) C \<and> abs s' = audited C (to_audit out)"
  using s run
proof (atomize (full), induction n arbitrary: k s)
  case 0
  from 0 have "outcome sv k s rq TS_CONFLICT None None None
       (''Concurrent modification of '' @ rq_resource_id rq @
        ''; retry after re-reading its current state.'') [] None = Inr (out, s')"
    by (simp add: failed_outcome_def)
  from outcome_abs [OF sv quiet_keeps [OF q] 0(1) this] q show ?case by (simp add: quiet_def)
next
  case (Suc n)
  have oth: "keeps invar (sv_others sv)" by (simp add: q)
  have dr: "abs u = abs s" if "drift invar abs sv s u" for u
    using drift_quiet [OF that] by (simp add: q quiet_def)
  from Suc.prems(2) obtain r where r: "attempt sv rq k s = Inr r" by (auto simp: bind_res_Inr_iff)
  from sv oth Suc.prems(1) rid r show ?case
  proof (cases rule: attempt_cases)
    case (failed out u s')
    moreover from this have "\<not> commit_enabled sv rq k (abs s)"
      using attempt_enabled [OF sv q Suc.prems(1) rid] r
      by (metis Inr_inject Inl_inject Pair_inject)
    ultimately show ?thesis using Suc.prems(2) r dr [OF failed(2)] by auto
  next
    case (again c c' v R rec)
    have "\<not> commit_enabled sv rq j (abs s)" for j
      by (rule cas_ran_quiet(4) [OF q Suc.prems(1) rid again(2,4)])
    moreover have "attempts sv rq (Suc k) n c' = Inr (out, s')" "abs c' = abs s"
      using Suc.prems(2) r again(1,3) dr [OF again(5)] by simp_all
    ultimately show ?thesis using Suc.IH [OF again(6)] by simp
  next
    case (done_commit out' c v R c' s'' rec)
    then have out: "out' = out" "s'' = s'" using Suc.prems(2) r by simp_all
    have "commit_enabled sv rq k (abs s)" "c = s"
      using cas_ran_quiet [OF q Suc.prems(1) rid done_commit(1)] done_commit(3) by simp_all
    moreover have "commit_step rq (pv_policy_version v) (abs c) (abs c')"
      by (rule cas_ran_commit(1) [OF _ Suc.prems(1) rid done_commit(1,3)]) (simp add: q)
    ultimately show ?thesis using done_commit(7,8) out by (auto simp: q quiet_def)
  qed
qed

lemma transition_quiet:
  assumes sv: "sv_ops sv = ops" and q: "sv_others sv = quiet" and s: "invar s"
    and run: "transition sv rq s = Inr (out, s')"
  shows "to_status out = TS_COMMITTED \<longleftrightarrow> commit_enabled sv rq 0 (abs s)"
    "to_status out \<noteq> TS_COMMITTED \<Longrightarrow> abs s' = audited (abs s) (to_audit out)"
    "to_status out = TS_COMMITTED \<Longrightarrow>
       \<exists>C v. commit_step rq v (abs s) C \<and> abs s' = audited C (to_audit out)"
proof -
  from run obtain t where rid: "dataset_table_id (rq_resource_id rq) = Inr t"
    by (auto simp: transition_def validated_resource_id_def bind_res_Inr_iff split: if_splits)
  let ?P = "(to_status out = TS_COMMITTED \<longleftrightarrow> commit_enabled sv rq 0 (abs s)) \<and>
    (to_status out \<noteq> TS_COMMITTED \<longrightarrow> abs s' = audited (abs s) (to_audit out)) \<and>
    (to_status out = TS_COMMITTED \<longrightarrow>
       (\<exists>C v. commit_step rq v (abs s) C \<and> abs s' = audited C (to_audit out)))"
  have ?P
  proof (cases "attempts sv rq 0 MAX_CAS_ATTEMPTS s = Inr (out, s')")
    case True
    from attempts_quiet [OF sv q rid s True] show ?thesis by (simp add: MAX_CAS_ATTEMPTS_def)
  next
    case False
    with run obtain msg where o: "outcome sv 0 s rq TS_CONFLICT None None None msg [] None = Inr (out, s')"
      and a: "rq_action rq \<notin> set (if is_candidate_dataset_id (rq_resource_id rq)
        then WORKFLOW_ACTIONS else PUBLICATION_ACTIONS)"
      by (auto simp: transition_def failed_outcome_def Let_def bind_res_Inr_iff validated_resource_id_def
          split: if_splits)
    from a have "\<not> commit_enabled sv rq 0 (abs s)"
      by (auto simp: commit_enabled_def state_machine_check_def transition_table_def action_tables
          WORKFLOW_TRANSITIONS_def PUBLICATION_TRANSITIONS_def split: if_splits)
    with outcome_abs [OF sv quiet_keeps [OF q] s o] q show ?thesis by (simp add: quiet_def)
  qed
  then show "to_status out = TS_COMMITTED \<longleftrightarrow> commit_enabled sv rq 0 (abs s)"
    "to_status out \<noteq> TS_COMMITTED \<Longrightarrow> abs s' = audited (abs s) (to_audit out)"
    "to_status out = TS_COMMITTED \<Longrightarrow>
       \<exists>C v. commit_step rq v (abs s) C \<and> abs s' = audited C (to_audit out)"
    by blast+
qed

end

section \<open>Every call returns\<close>

definition returns :: "'a res \<Rightarrow> bool" where
  "returns r \<longleftrightarrow> (\<exists>x. r = Inr x)"

lemma returns_simps [simp]: "returns (Inr x)" "\<not> returns (Inl e)"
  by (simp_all add: returns_def)

lemma returns_bind: "returns m \<Longrightarrow> (\<And>x. m = Inr x \<Longrightarrow> returns (f x)) \<Longrightarrow> returns (bind_res m f)"
  by (auto simp: returns_def)

context state_store
begin

lemma attempt_returns:
  assumes sv: "sv_ops sv = ops" and oth: "keeps invar (sv_others sv)" and s: "invar s"
    and rid: "dataset_table_id (rq_resource_id rq) = Inr t"
    and eval: "\<And>j. returns (readiness sv j (rq_resource_id rq) (Some (rq_action rq)))"
  shows "returns (attempt sv rq k s)"
proof -
  let ?rid = "rq_resource_id rq"
  let ?s1 = "sv_others sv k Before_load s"
  let ?s2 = "sv_others sv k Before_action ?s1"
  let ?s3 = "sv_others sv k Before_cas ?s2"
  let ?rec = "ab_records (abs ?s1) ?rid"
  have i: "invar ?s1" "invar ?s2" "invar ?s3" using s oth by (simp_all add: keeps_def)
  have out: "returns (bind_res (outcome sv k u rq st b a r msg ao v) (\<lambda>x. Inr (Inl x)))"
    if "invar u" for u st b a r msg ao v
    by (rule returns_bind) (use outcome_returns [OF sv oth that] in \<open>auto simp: returns_def\<close>)
  have rep: "returns (bind_res (replay_outcome sv k ?s2 rq c b) (\<lambda>x. Inr (Inl x)))" for c b
  proof -
    have i': "invar (sv_others sv k Before_reload ?s2)" using i oth by (simp add: keeps_def)
    then have "returns (replay_outcome sv k ?s2 rq c b)"
      using outcome_returns [OF sv oth i'] outcome_returns [OF sv oth i(2)]
      by (auto simp: returns_def replay_outcome_def failed_outcome_def Let_def sv load)
    then show ?thesis by (rule returns_bind) simp
  qed
  have "loaded_ok ?rid ?rec" using abs_ok_loaded invar_ok i(1) by blast
  then have plan: "\<exists>ws. plan_writes ?rid rq ?rec v = Inr ws \<and> ws \<noteq> [] \<and> (\<forall>w \<in> set ws. write_ok w)"
    if "state_machine_check ?rid (rq_action rq) (before_of ?rec) = (True, m)" for m v
    using plan_writes_ok [OF rid _ that] by metis
  obtain v where v: "readiness sv k ?rid (Some (rq_action rq)) = Inr v"
    using eval [of k] by (auto simp: returns_def)
  note simps = attempt_def Let_def before_of_def [symmetric] sv failed_outcome_def load i committed v
  show ?thesis
  proof (cases "(rq_expected_state rq = None \<or> rq_expected_state rq = Some (before_of ?rec)) \<and>
      ab_actions (abs ?s2) ?rid (rq_action_id rq) = None \<and>
      fst (state_machine_check ?rid (rq_action rq) (before_of ?rec)) \<and> pv_ready v")
    case False
    then show ?thesis
      by (auto simp: simps intro: out [OF i(1)] out [OF i(2)] rep split: option.split prod.split bool.split)
  next
    case True
    then obtain m where chk: "state_machine_check ?rid (rq_action rq) (before_of ?rec) = (True, m)"
      by (metis prod.collapse)
    from plan [OF chk] obtain ws where ws: "plan_writes ?rid rq ?rec (pv_policy_version v) = Inr ws"
      "ws \<noteq> []" "\<forall>w \<in> set ws. write_ok w" by blast
    from cas [OF i(3) ws(2,3), of "rq_action_id rq" "rq_action rq" "fingerprint rq"] obtain R c' where
      R: "op_compare_and_set ops ?s3 ws (rq_action_id rq) (rq_action rq) (fingerprint rq) = Inr (R, c')"
        "invar c'" by blast
    then have i': "invar (sv_others sv k Before_recheck c')" using oth by (simp add: keeps_def)
    show ?thesis
      using True chk ws(1) R i' out [OF R(2)] out [OF i']
      by (cases "sr_status R") (auto simp: simps)
  qed
qed

lemma attempts_return:
  assumes sv: "sv_ops sv = ops" and oth: "keeps invar (sv_others sv)"
    and rid: "dataset_table_id (rq_resource_id rq) = Inr t"
    and eval: "\<And>j. returns (readiness sv j (rq_resource_id rq) (Some (rq_action rq)))"
    and s: "invar s"
  shows "returns (attempts sv rq k n s)"
  using s
proof (induction n arbitrary: k s)
  case 0
  from outcome_returns [OF sv oth 0] show ?case by (auto simp: failed_outcome_def returns_def)
next
  case (Suc n)
  from attempt_returns [OF sv oth Suc.prems rid eval] obtain r where r: "attempt sv rq k s = Inr r"
    by (auto simp: returns_def)
  have "invar c'" if "r = Inr c'" for c'
    using sv oth Suc.prems rid r by (cases rule: attempt_cases) (use that in auto)
  with r Suc.IH show ?case by (cases r) auto
qed

lemma call_returns:
  assumes sv: "sv_ops sv = ops" and oth: "keeps invar (sv_others sv)" and s: "invar s"
    and rid: "dataset_table_id (rq_resource_id rq) = Inr t"
    and eval: "\<And>j. returns (readiness sv j (rq_resource_id rq) (Some (rq_action rq)))"
  shows "returns (transition sv rq s)"
proof -
  have "validated_resource_id (rq_resource_id rq) = Inr (rq_resource_id rq)"
    using rid by (cases "rq_resource_id rq = []") (simp_all add: validated_resource_id_def
        dataset_table_id_def is_candidate_iff validated_component_Inr)
  moreover have "returns (failed_outcome sv 0 s rq st msg b a v)" for st msg b a v
    using outcome_returns [OF sv oth s] by (auto simp: failed_outcome_def returns_def)
  ultimately show ?thesis
    using attempts_return [OF sv oth rid eval s] by (simp add: transition_def Let_def)
qed

end

section \<open>Promotion\<close>

text \<open>A Dataset exists exactly when its candidate is promoted.\<close>

definition promotion_ok :: "abs_store \<Rightarrow> bool" where
  "promotion_ok A \<longleftrightarrow>
     (\<forall>t. table_key t \<longrightarrow>
        (ab_records A t \<noteq> None \<longleftrightarrow>
         before_of (ab_records A (CANDIDATE_ID_PREFIX @ t)) = ''promoted''))"

lemma candidate_id_not_key [simp]: "table_key t \<Longrightarrow> CANDIDATE_ID_PREFIX @ u \<noteq> t"
    "table_key t \<Longrightarrow> t \<noteq> CANDIDATE_ID_PREFIX @ u"
  by (auto simp: table_key_def CANDIDATE_ID_PREFIX_def)

lemma store_step_promotion:
  assumes "store_step A A'" and ok: "abs_ok A" and "promotion_ok A"
  shows "promotion_ok A'"
  using assms(1)
proof cases
  case (step_commit rq v)
  from ok this show ?thesis
  proof (cases rule: commit_step_cases)
    case (promote t c d)
    with assms(3) show ?thesis by (auto simp: promotion_ok_def)
  next
    case (single froms to r)
    let ?rid = "rq_resource_id rq"
    show ?thesis
    proof (cases "is_candidate_dataset_id ?rid")
      case True
      with single(1,2) have "before_of (ab_records A ?rid) \<noteq> ''promoted''"
        by (auto simp: transition_table_def workflow_entry_iff WORKFLOW_STATE_OPEN_def)
      with assms(3) single(3,6,8) True show ?thesis
        by (auto simp: promotion_ok_def table_key_not_candidate)
    next
      case False
      with single(1,2) have "ab_records A ?rid \<noteq> None"
        by (cases "ab_records A ?rid")
          (auto simp: transition_table_def publication_entry_iff WORKFLOW_STATE_OPEN_def)
      moreover have "CANDIDATE_ID_PREFIX @ t \<noteq> ?rid" if "table_key t" for t
        using False that by (metis is_candidate_append not_table_key_Nil)
      ultimately show ?thesis
        using assms(3) single(8) by (auto simp: promotion_ok_def)
    qed
  qed
qed (use assms(3) in \<open>simp add: promotion_ok_def\<close>)

lemma store_steps_promotion:
  "store_step\<^sup>*\<^sup>* A A' \<Longrightarrow> abs_ok A \<Longrightarrow> promotion_ok A \<Longrightarrow> promotion_ok A'"
  by (induction rule: rtranclp_induct) (auto intro: store_step_promotion store_steps_ok)

section \<open>The journal of actions\<close>

lemma store_steps_journal:
  assumes "store_step\<^sup>*\<^sup>* A A'" and "abs_ok A" and "ab_actions A i a = Some c"
  shows "ab_actions A' i a = Some c"
  using assms(1)
proof (induction rule: rtranclp_induct)
  case base
  show ?case by fact
next
  case (step B C)
  have "abs_ok B" using store_steps_ok step.hyps(1) assms(2) by blast
  from step.hyps(2) show ?case
  proof cases
    case (step_commit rq v)
    from \<open>abs_ok B\<close> this show ?thesis
      by (cases rule: commit_step_cases) (use step.IH in \<open>auto simp: journaled_def\<close>)
  qed (use step.IH in simp)
qed

lemma store_steps_audit:
  assumes "store_step\<^sup>*\<^sup>* A A'" and "abs_ok A"
  shows "\<exists>es. ab_audit A' = ab_audit A @ es"
  using assms(1)
proof (induction rule: rtranclp_induct)
  case (step B C)
  have "abs_ok B" using store_steps_ok step.hyps(1) assms(2) by blast
  from step.hyps(2) have "\<exists>es. ab_audit C = ab_audit B @ es"
  proof cases
    case (step_commit rq v)
    from \<open>abs_ok B\<close> this show ?thesis by (cases rule: commit_step_cases) auto
  qed auto
  with step.IH show ?case by auto
qed auto

section \<open>Repeated requests\<close>

definition valid_actions :: "string \<Rightarrow> string list" where
  "valid_actions rid = (if is_candidate_dataset_id rid then WORKFLOW_ACTIONS else PUBLICATION_ACTIONS)"

lemma table_action_valid:
  "dict_get (transition_table rid) a = Some e \<Longrightarrow> a \<in> set (valid_actions rid)"
  by (cases e) (auto simp: transition_table_def valid_actions_def action_tables workflow_entry_iff
      publication_entry_iff split: if_splits)

lemma CANDIDATE_ID_PREFIX_neq [simp]: "CANDIDATE_ID_PREFIX \<noteq> []" "[] \<noteq> CANDIDATE_ID_PREFIX"
  by (simp_all add: CANDIDATE_ID_PREFIX_def)

lemma validated_resource_id_ok:
  "dataset_table_id rid = Inr t \<Longrightarrow> validated_resource_id rid = Inr rid"
  by (cases "rid = []") (simp_all add: validated_resource_id_def dataset_table_id_def is_candidate_iff
      validated_component_Inr)

context state_store
begin

lemma transition_once:
  assumes "dataset_table_id (rq_resource_id rq) = Inr t"
    and "rq_action rq \<in> set (valid_actions (rq_resource_id rq))"
    and "attempt sv rq 0 s = bind_res o1 (\<lambda>out. Inr (Inl out))"
  shows "transition sv rq s = o1"
  using assms
  by (simp add: transition_def validated_resource_id_ok valid_actions_def MAX_CAS_ATTEMPTS_def
      numeral_3_eq_3 bind_res_def split: sum.split)

lemma transition_conflicts:
  assumes sv: "sv_ops sv = ops" "sv_others sv = quiet" and s: "invar s"
    and rid: "dataset_table_id (rq_resource_id rq) = Inr t"
    and act: "rq_action rq \<in> set (valid_actions (rq_resource_id rq))"
    and conflict: "rq_expected_state rq \<noteq> None \<and>
        rq_expected_state rq \<noteq> Some (before_of (ab_records (abs s) (rq_resource_id rq))) \<or>
      ab_actions (abs s) (rq_resource_id rq) (rq_action_id rq) = None \<and>
        \<not> fst (state_machine_check (rq_resource_id rq) (rq_action rq)
            (before_of (ab_records (abs s) (rq_resource_id rq)))) \<and>
        \<not> is_idempotent_publish (rq_resource_id rq) (rq_action rq)
            (before_of (ab_records (abs s) (rq_resource_id rq)))"
  obtains out s' where "transition sv rq s = Inr (out, s')" "to_status out = TS_CONFLICT"
    "abs s' = audited (abs s) (to_audit out)"
proof -
  let ?b = "before_of (ab_records (abs s) (rq_resource_id rq))"
  have "\<exists>msg. attempt sv rq 0 s =
      bind_res (outcome sv 0 s rq TS_CONFLICT (Some ?b) None None msg [] None) (\<lambda>out. Inr (Inl out))"
  proof (cases "rq_expected_state rq \<noteq> None \<and> rq_expected_state rq \<noteq> Some ?b")
    case True
    with s sv show ?thesis
      by (auto simp: attempt_def Let_def quiet_def load before_of_def [symmetric] failed_outcome_def)
  next
    case False
    with conflict have none: "ab_actions (abs s) (rq_resource_id rq) (rq_action_id rq) = None"
      and bad: "\<not> fst (state_machine_check (rq_resource_id rq) (rq_action rq) ?b)"
      and idem: "\<not> is_idempotent_publish (rq_resource_id rq) (rq_action rq) ?b"
      by blast+
    from bad obtain m where "state_machine_check (rq_resource_id rq) (rq_action rq) ?b = (False, m)"
      by (cases "state_machine_check (rq_resource_id rq) (rq_action rq) ?b") simp
    with none idem False s sv show ?thesis
      by (cases "rq_expected_state rq") (simp_all add: attempt_def Let_def quiet_def load committed
          before_of_def [symmetric] failed_outcome_def, blast+)
  qed
  then obtain msg where a: "attempt sv rq 0 s =
      bind_res (outcome sv 0 s rq TS_CONFLICT (Some ?b) None None msg [] None) (\<lambda>out. Inr (Inl out))"
    by blast
  from transition_once [OF rid act a] outcome_returns [OF sv(1) quiet_keeps [OF sv(2)] s] obtain out s' where
    "transition sv rq s = Inr (out, s')"
    "outcome sv 0 s rq TS_CONFLICT (Some ?b) None None msg [] None = Inr (out, s')" by metis
  with outcome_abs [OF sv(1) quiet_keeps [OF sv(2)] s this(2)] that show ?thesis
    by (simp add: sv(2) quiet_def)
qed

lemma transition_replays:
  assumes sv: "sv_ops sv = ops" "sv_others sv = quiet" and s: "invar s"
    and rid: "dataset_table_id (rq_resource_id rq) = Inr t"
    and act: "rq_action rq \<in> set (valid_actions (rq_resource_id rq))"
    and exp: "rq_expected_state rq = None \<or>
      rq_expected_state rq = Some (before_of (ab_records (abs s) (rq_resource_id rq)))"
    and jrn: "ab_actions (abs s) (rq_resource_id rq) (rq_action_id rq) = Some c"
  obtains out s' where "transition sv rq s = Inr (out, s')"
    "to_status out = (if ca_fingerprint c = fingerprint rq then TS_REPLAYED else TS_CONFLICT)"
    "ca_fingerprint c = fingerprint rq \<Longrightarrow> to_after_state out = ca_after_state c \<and>
       to_record out = ab_records (abs s) (rq_resource_id rq)"
    "abs s' = audited (abs s) (to_audit out)"
proof -
  let ?b = "Some (before_of (ab_records (abs s) (rq_resource_id rq)))"
  note q = quiet_keeps [OF sv(2)]
  have a: "transition sv rq s = replay_outcome sv 0 s rq c ?b"
    using exp jrn s sv
    by (intro transition_once [OF rid act])
      (auto simp: attempt_def Let_def quiet_def load committed before_of_def [symmetric])
  show ?thesis
  proof (cases "ca_fingerprint c = fingerprint rq")
    case True
    with a s sv have "\<exists>msg. transition sv rq s = outcome sv 0 s rq TS_REPLAYED ?b (ca_after_state c)
        (ab_records (abs s) (rq_resource_id rq)) msg ''replayed'' None"
      by (auto simp: replay_outcome_def Let_def quiet_def load)
    then obtain msg out s' where "transition sv rq s = Inr (out, s')"
      "outcome sv 0 s rq TS_REPLAYED ?b (ca_after_state c)
        (ab_records (abs s) (rq_resource_id rq)) msg ''replayed'' None = Inr (out, s')"
      using outcome_returns [OF sv(1) q s] by metis
    with outcome_abs [OF sv(1) q s this(2)] True that show ?thesis by (simp add: sv(2) quiet_def)
  next
    case False
    with a have "\<exists>msg. transition sv rq s = outcome sv 0 s rq TS_CONFLICT ?b None None msg [] None"
      by (auto simp: replay_outcome_def failed_outcome_def)
    then obtain msg out s' where "transition sv rq s = Inr (out, s')"
      "outcome sv 0 s rq TS_CONFLICT ?b None None msg [] None = Inr (out, s')"
      using outcome_returns [OF sv(1) q s] by metis
    with outcome_abs [OF sv(1) q s this(2)] False that show ?thesis by (simp add: sv(2) quiet_def)
  qed
qed

lemma transition_keeps:
  assumes "sv_ops sv = ops" "sv_others sv = quiet" "invar s" "transition sv rq s = Inr (out, s')"
  shows "invar s'"
  using transition_sim [OF assms(1) _ assms(3), of quiet rq] assms(2,4)
  by (simp add: sim_res_def)

lemma repeat_outcome:
  assumes sv: "sv_ops sv = ops" "sv_others sv = quiet" and s: "invar s"
    and run: "transition sv rq s = Inr (out, s')" and com: "to_status out = TS_COMMITTED"
  obtains out2 s2 where "transition sv rq s' = Inr (out2, s2)"
    "to_status out2 =
       (if rq_expected_state rq = None \<and> rq_action rq \<noteq> ''promote'' then TS_REPLAYED else TS_CONFLICT)"
    "abs s2 = audited (abs s') (to_audit out2)"
proof -
  let ?rid = "rq_resource_id rq" and ?A = "abs s'"
  from transition_quiet [OF sv s run] com obtain C v where
    en: "commit_enabled sv rq 0 (abs s)" and
    step: "commit_step rq v (abs s) C" and s': "abs s' = audited C (to_audit out)" by blast
  from step obtain t where rid: "dataset_table_id ?rid = Inr t"
    by (auto simp: commit_step_def)
  have i: "invar s'" by (rule transition_keeps [OF sv s run])
  from en have exp: "rq_expected_state rq = None \<or> rq_expected_state rq = Some (before_of (ab_records (abs s) ?rid))"
    by (simp add: commit_enabled_def)
  from en have none: "ab_actions (abs s) ?rid (rq_action_id rq) = None" by (simp add: commit_enabled_def)
  from invar_ok [OF s] step show ?thesis
  proof (cases rule: commit_step_cases)
    case (promote t' c d)
    have act: "rq_action rq \<in> set (valid_actions ?rid)"
      using promote(1,2,3) by (auto simp: valid_actions_def action_tables)
    have b: "before_of (ab_records ?A ?rid) = ''promoted''" "ab_actions ?A ?rid (rq_action_id rq) = None"
      using promote none by (auto simp: s' journaled_def)
    have "\<not> fst (state_machine_check ?rid (rq_action rq) ''promoted'')"
      using promote(1,2,3) by (auto simp: state_machine_check_def transition_table_def WORKFLOW_TRANSITIONS_def)
    moreover have "\<not> is_idempotent_publish ?rid (rq_action rq) ''promoted''"
      by (simp add: is_idempotent_publish_def)
    ultimately obtain out2 s2 where "transition sv rq s' = Inr (out2, s2)"
      "to_status out2 = TS_CONFLICT" "abs s2 = audited ?A (to_audit out2)"
      using transition_conflicts [OF sv i rid act] b by metis
    with promote(1) show ?thesis by (intro that) simp_all
  next
    case (single froms to r)
    have act: "rq_action rq \<in> set (valid_actions ?rid)" by (rule table_action_valid [OF single(1)])
    have np: "rq_action rq \<noteq> ''promote''"
      using single(1,3) by (auto simp: transition_table_def workflow_entry_iff publication_entry_iff
          split: if_splits)
    have b: "before_of (ab_records ?A ?rid) = to"
      using single by (auto simp: s')
    have j: "ab_actions ?A ?rid (rq_action_id rq) = Some (commit_entry \<lparr>sw_record_id = ?rid,
        sw_expected_state = Some (before_of (ab_records (abs s) ?rid)), sw_next_record = r\<rparr>
        (rq_action_id rq) (rq_action rq) (fingerprint rq))"
      using single(8) by (simp add: s' journaled_def)
    from table_ranks [OF single(1,2)] have neq: "before_of (ab_records (abs s) ?rid) \<noteq> to" by auto
    show ?thesis
    proof (cases "rq_expected_state rq")
      case None
      then obtain out2 s2 where "transition sv rq s' = Inr (out2, s2)" "to_status out2 = TS_REPLAYED"
        "abs s2 = audited ?A (to_audit out2)"
        by (rule_tac transition_replays [OF sv i rid act _ j]) (auto simp: commit_entry_def)
      with None np show ?thesis by (intro that) simp_all
    next
      case (Some e)
      with exp neq b have "rq_expected_state rq \<noteq> None \<and>
          rq_expected_state rq \<noteq> Some (before_of (ab_records ?A ?rid))" by auto
      then obtain out2 s2 where "transition sv rq s' = Inr (out2, s2)"
        "to_status out2 = TS_CONFLICT" "abs s2 = audited ?A (to_audit out2)"
        using transition_conflicts [OF sv i rid act] by metis
      with Some show ?thesis by (intro that) simp_all
    qed
  qed
qed

end

end
