(* ===== verification/Dataset_Workflow.thy ===== *)
theory Dataset_Workflow
  imports Dataset_Lifecycle
begin

text \<open>
  What \<open>DatasetService.transition\<close> guarantees over the settings-backed store, with example runs. The
  proofs apply the lemmas of the contract \<open>state_store\<close> through its interpretations \<open>durable\<close> and
  \<open>memory\<close>. \<open>lawful\<close> is the assumption on concurrent workers: they too only make legal steps.
\<close>

section \<open>Example runs\<close>

definition open_policy :: dataset_policy where
  "open_policy = \<lparr>dp_policy_version = ''v1'', dp_rules = [], dp_transitions = []\<rparr>"

definition example_service :: "'s store_ops \<Rightarrow> 's service" where
  "example_service ops =
     \<lparr>sv_ops = ops, sv_evidence = (\<lambda>_ _ _. []), sv_policy = (\<lambda>_ _. open_policy), sv_others = quiet\<rparr>"

definition example_request :: "string \<Rightarrow> string \<Rightarrow> string \<Rightarrow> transition_request" where
  "example_request rid action action_id =
     \<lparr>rq_resource_id = rid, rq_action = action, rq_action_id = action_id, rq_actor = Some ''ann'',
      rq_scope = None, rq_expected_state = None, rq_owner = None\<rparr>"

definition example_candidate :: "workflow_state \<Rightarrow> candidate_record" where
  "example_candidate w =
     \<lparr>cr_dataset_id = ''candidate:t'', cr_table_id = ''t'', cr_state = workflow_value w,
      cr_owner = Some ''ann'', cr_approval_state = None, cr_promoted_dataset_id = None,
      cr_publication_state = None, cr_policy_version = None, cr_schema_version = 2,
      cr_last_action_id = None, cr_migration_note = None, cr_legacy_fields = None\<rparr>"

definition example_cell :: "workflow_state \<Rightarrow> settings_cell option" where
  "example_cell w =
     cell_of (empty_collection\<lparr>co_records :=
       [(''candidate:t'', to_read_model (Candidate (example_candidate w)))]\<rparr>)"

lemma example_service_simps [simp]:
  "sv_ops (example_service ops) = ops" "sv_others (example_service ops) = quiet"
  by (simp_all add: example_service_def)

lemma table_key_t: "table_key ''t''" "dataset_table_id ''candidate:t'' = Inr ''t''"
  by code_simp+

lemma example_candidate_valid: "record_valid (Candidate (example_candidate w))"
  using table_key_t by (auto simp: make_candidate_Inr example_candidate_def CANDIDATE_ID_PREFIX_def)

lemma example_cell_ok: "cell_ok (example_cell w)" "cell_ok None"
  using example_candidate_valid [of w]
  by (auto simp: cell_ok_def example_cell_def collection_ok_def empty_collection_def
      intro!: exI [of _ "Candidate (example_candidate w)"] simp: example_candidate_def)

lemma empty_abs: "ab_records (cell_abs None) = (\<lambda>_. None)" "ab_actions (cell_abs None) = (\<lambda>_ _. None)"
    "abs_of empty_collection = cell_abs None" "collection_ok empty_collection"
  by (auto simp: cell_abs_def record_at_def payload_record_def empty_collection_def dict_get2_def
      collection_ok_def fun_eq_iff)

lemma example_cell_record:
  "ab_records (cell_abs (example_cell w)) ''candidate:t'' = Some (Candidate (example_candidate w))"
  using payload_read_model [OF example_candidate_valid [of w]]
  by (simp add: cell_abs_def example_cell_def record_at_def)

lemma claim_commits:
  "\<exists>out s'. transition (example_service durable_ops)
       (example_request ''candidate:t'' ''claim'' ''a1'') None = Inr (out, s') \<and>
     to_status out = TS_COMMITTED"
proof -
  have "case transition (example_service durable_ops)
      (example_request ''candidate:t'' ''claim'' ''a1'') None of
      Inl _ \<Rightarrow> False | Inr (out, _) \<Rightarrow> to_status out = TS_COMMITTED"
    by code_simp
  then show ?thesis by (auto split: sum.splits)
qed

lemma claim_refused:
  "\<exists>out s'. transition (example_service durable_ops)
       (example_request ''candidate:t'' ''claim'' ''a1'') (example_cell WS_REJECTED) = Inr (out, s') \<and>
     to_status out \<noteq> TS_COMMITTED"
proof -
  have "case transition (example_service durable_ops)
      (example_request ''candidate:t'' ''claim'' ''a1'') (example_cell WS_REJECTED) of
      Inl _ \<Rightarrow> False | Inr (out, _) \<Rightarrow> to_status out \<noteq> TS_COMMITTED"
    by code_simp
  then show ?thesis by (auto split: sum.splits)
qed

section \<open>Concurrent workers\<close>

text \<open>
  C1: concurrency safety of \<open>transition\<close>. Whatever lawful steps other workers make between its store
  calls, a call only ever appends audit events and commits legal batches; and when it reports
  COMMITTED, its batch was applied to the very record it had read, from a state the machine allows,
  under a verdict that was ready, and the outcome reports the record the batch wrote and its state.
\<close>

theorem transition_lawful:
  assumes "sv_ops sv = durable_ops" and "lawful cell_ok cell_abs (sv_others sv)" and "cell_ok s"
    and "transition sv rq s = Inr (out, s')"
  shows "store_step\<^sup>*\<^sup>* (cell_abs s) (cell_abs s') \<and>
    (to_status out = TS_COMMITTED \<longrightarrow> committed_by sv rq out (cell_abs s) (cell_abs s'))"
  using durable.transition_steps [OF assms] by blast

theorem transition_lawful_witness:
  "\<exists>out s'. transition (example_service durable_ops)
       (example_request ''candidate:t'' ''claim'' ''a1'') None = Inr (out, s') \<and>
     committed_by (example_service durable_ops) (example_request ''candidate:t'' ''claim'' ''a1'') out
       (cell_abs None) (cell_abs s')"
proof -
  from claim_commits obtain out s' where run: "transition (example_service durable_ops)
       (example_request ''candidate:t'' ''claim'' ''a1'') None = Inr (out, s')"
    and "to_status out = TS_COMMITTED" by blast
  with transition_lawful [OF _ _ _ run] example_cell_ok(2) show ?thesis by auto
qed

text \<open>
  C5: terminal states are final. No call, under any lawful interference, changes a candidate that is
  promoted or rejected or a Dataset that is retired.
\<close>

theorem terminal_states_final:
  assumes "sv_ops sv = durable_ops" and "lawful cell_ok cell_abs (sv_others sv)" and "cell_ok s"
    and "transition sv rq s = Inr (out, s')"
    and "ab_records (cell_abs s) i = Some r"
    and "current_state r \<in> {''promoted'', ''rejected'', ''retired''}"
  shows "ab_records (cell_abs s') i = Some r"
proof -
  have "moves_on (ab_records (cell_abs s) i) (ab_records (cell_abs s') i)"
    using durable.transition_steps(1) [OF assms(1-4)] durable.invar_ok [OF assms(3)]
    by (rule store_steps_move)
  moreover have "state_rank st \<le> 3" for st by (simp add: state_rank_def)
  moreover have "state_rank (current_state r) = 3" using assms(6) by auto
  ultimately show ?thesis
    using assms(5) by (auto simp: moves_on_def) (metis leD)
qed

theorem terminal_states_final_witness:
  "\<exists>out s'. transition (example_service durable_ops)
       (example_request ''candidate:t'' ''claim'' ''a1'') (example_cell WS_REJECTED) = Inr (out, s') \<and>
     ab_records (cell_abs s') ''candidate:t'' = Some (Candidate (example_candidate WS_REJECTED))"
proof -
  from claim_refused obtain out s' where run: "transition (example_service durable_ops)
       (example_request ''candidate:t'' ''claim'' ''a1'') (example_cell WS_REJECTED) = Inr (out, s')"
    by blast
  from terminal_states_final [OF _ _ example_cell_ok(1) run example_cell_record] run show ?thesis
    by (simp add: example_candidate_def)
qed

text \<open>
  C2: promotion is atomic. If before a call every table has a Dataset record exactly when its
  candidate is promoted, the same holds after it, under any lawful interference; it holds of a
  namespace that was never written.
\<close>

theorem promotion_atomic:
  assumes "sv_ops sv = durable_ops" and "lawful cell_ok cell_abs (sv_others sv)" and "cell_ok s"
    and "transition sv rq s = Inr (out, s')" and "promotion_ok (cell_abs s)"
  shows "promotion_ok (cell_abs s')"
  using durable.transition_steps(1) [OF assms(1-4)] durable.invar_ok [OF assms(3)] assms(5)
  by (rule store_steps_promotion)

theorem promotion_atomic_witness:
  "\<exists>out s'. transition (example_service durable_ops)
       (example_request ''candidate:t'' ''claim'' ''a1'') None = Inr (out, s') \<and>
     to_status out = TS_COMMITTED \<and> promotion_ok (cell_abs s')"
proof -
  from claim_commits obtain out s' where run: "transition (example_service durable_ops)
       (example_request ''candidate:t'' ''claim'' ''a1'') None = Inr (out, s')"
    and "to_status out = TS_COMMITTED" by blast
  moreover have "promotion_ok (cell_abs None)"
    by (simp add: promotion_ok_def empty_abs WORKFLOW_STATE_OPEN_def)
  ultimately show ?thesis
    using promotion_atomic [OF _ _ example_cell_ok(2) run] by auto
qed

text \<open>
  History is append-only. A call never changes or forgets a committed action of the journal and
  only ever extends the audit trail, under any lawful interference.
\<close>

theorem history_append_only:
  assumes "sv_ops sv = durable_ops" and "lawful cell_ok cell_abs (sv_others sv)" and "cell_ok s"
    and "transition sv rq s = Inr (out, s')"
  shows "(ab_actions (cell_abs s) i a = Some c \<longrightarrow> ab_actions (cell_abs s') i a = Some c) \<and>
    (\<exists>es. ab_audit (cell_abs s') = ab_audit (cell_abs s) @ es)"
  using store_steps_journal store_steps_audit durable.transition_steps(1) [OF assms]
    durable.invar_ok [OF assms(3)] by blast

theorem history_append_only_witness:
  "\<exists>out s' es. transition (example_service durable_ops)
       (example_request ''candidate:t'' ''claim'' ''a1'') (example_cell WS_REJECTED) = Inr (out, s') \<and>
     ab_audit (cell_abs s') = ab_audit (cell_abs (example_cell WS_REJECTED)) @ es"
proof -
  from claim_refused obtain out s' where run: "transition (example_service durable_ops)
       (example_request ''candidate:t'' ''claim'' ''a1'') (example_cell WS_REJECTED) = Inr (out, s')"
    by blast
  from history_append_only [OF _ _ example_cell_ok(1) run] run show ?thesis by simp
qed

section \<open>One worker\<close>

text \<open>
  C3: when a transition commits. Without interference the outcome is COMMITTED exactly when the
  expected state (if any) is the current one, the action_id is new for the record, the state machine
  allows the action, the policy verdict is ready and, for a promotion, the table has no Dataset record
  and no action of that id yet.
\<close>

theorem transition_commits_iff:
  assumes "sv_ops sv = durable_ops" and "sv_others sv = quiet" and "cell_ok s"
    and "transition sv rq s = Inr (out, s')"
  shows "to_status out = TS_COMMITTED \<longleftrightarrow> commit_enabled sv rq 0 (cell_abs s)"
  by (rule durable.transition_quiet(1) [OF assms])

theorem transition_commits_iff_witness:
  "commit_enabled (example_service durable_ops) (example_request ''candidate:t'' ''claim'' ''a1'') 0
     (cell_abs None)"
proof -
  from claim_commits obtain out s' where run: "transition (example_service durable_ops)
       (example_request ''candidate:t'' ''claim'' ''a1'') None = Inr (out, s')"
    and "to_status out = TS_COMMITTED" by blast
  with transition_commits_iff [OF _ _ example_cell_ok(2) run] show ?thesis by simp
qed

text \<open>
  A transition that does not commit writes nothing but its one audit event, which is the event
  the outcome carries.
\<close>

theorem uncommitted_writes_nothing:
  assumes "sv_ops sv = durable_ops" and "sv_others sv = quiet" and "cell_ok s"
    and "transition sv rq s = Inr (out, s')" and "to_status out \<noteq> TS_COMMITTED"
  shows "cell_abs s' = (cell_abs s)\<lparr>ab_audit := ab_audit (cell_abs s) @ [to_audit out]\<rparr>"
  using durable.transition_quiet(2) [OF assms] by (simp add: audited_def)

theorem uncommitted_writes_nothing_witness:
  "\<exists>out s'. transition (example_service durable_ops)
       (example_request ''candidate:t'' ''claim'' ''a1'') (example_cell WS_REJECTED) = Inr (out, s') \<and>
     ab_records (cell_abs s') = ab_records (cell_abs (example_cell WS_REJECTED))"
proof -
  from claim_refused obtain out s' where run: "transition (example_service durable_ops)
       (example_request ''candidate:t'' ''claim'' ''a1'') (example_cell WS_REJECTED) = Inr (out, s')"
    and "to_status out \<noteq> TS_COMMITTED" by blast
  with uncommitted_writes_nothing [OF _ _ example_cell_ok(1) run] show ?thesis by simp
qed

text \<open>
  C4: repeating a committed request. The repeat writes nothing but its audit event. It reports
  REPLAYED only when the request names no expected state and is not a promotion; otherwise it reports
  CONFLICT, although the method's contract is that an identical request is replayed: the expected
  state is compared before the journal is consulted, and a promotion is journaled under the Dataset's
  id but looked up under the candidate's.
\<close>

theorem repeat_of_committed:
  assumes "sv_ops sv = durable_ops" and "sv_others sv = quiet" and "cell_ok s"
    and "transition sv rq s = Inr (out, s')" and "to_status out = TS_COMMITTED"
  shows "\<exists>out2 s2. transition sv rq s' = Inr (out2, s2) \<and>
    to_status out2 =
      (if rq_expected_state rq = None \<and> rq_action rq \<noteq> ''promote'' then TS_REPLAYED else TS_CONFLICT) \<and>
    cell_abs s2 = (cell_abs s')\<lparr>ab_audit := ab_audit (cell_abs s') @ [to_audit out2]\<rparr>"
  by (rule durable.repeat_outcome [OF assms]) (auto simp: audited_def)

theorem repeat_of_committed_witness:
  "\<exists>out s' out2 s2.
     transition (example_service durable_ops) (example_request ''candidate:t'' ''claim'' ''a1'') None =
       Inr (out, s') \<and>
     transition (example_service durable_ops) (example_request ''candidate:t'' ''claim'' ''a1'') s' =
       Inr (out2, s2) \<and> to_status out2 = TS_REPLAYED"
proof -
  from claim_commits obtain out s' where run: "transition (example_service durable_ops)
       (example_request ''candidate:t'' ''claim'' ''a1'') None = Inr (out, s')"
    and "to_status out = TS_COMMITTED" by blast
  from repeat_of_committed [OF _ _ example_cell_ok(2) this] run show ?thesis
    by (auto simp: example_request_def)
qed

text \<open>
  C7: every call returns. If the resource id is valid and the policy evaluation raises on no
  attempt, \<open>transition\<close> yields an outcome whatever the other workers do, as long as they keep the
  store readable: the loop makes at most three attempts and no branch raises.
\<close>

theorem transition_returns:
  assumes "sv_ops sv = durable_ops" and "keeps cell_ok (sv_others sv)" and "cell_ok s"
    and "dataset_table_id (rq_resource_id rq) = Inr t"
    and "\<And>k. \<exists>v. readiness sv k (rq_resource_id rq) (Some (rq_action rq)) = Inr v"
  shows "\<exists>out s'. transition sv rq s = Inr (out, s')"
  using durable.call_returns [OF assms(1-4)] assms(5) by (simp add: returns_def)

theorem transition_returns_witness:
  "\<exists>out s'. transition (example_service durable_ops)
     (example_request ''candidate:t'' ''promote'' ''a1'') (example_cell WS_REVIEW) = Inr (out, s')"
proof (rule transition_returns)
  fix k
  have "case readiness (example_service durable_ops) 0 ''candidate:t'' (Some ''promote'') of
      Inl _ \<Rightarrow> False | Inr _ \<Rightarrow> True"
    by code_simp
  then show "\<exists>v. readiness (example_service durable_ops) k
      (rq_resource_id (example_request ''candidate:t'' ''promote'' ''a1''))
      (Some (rq_action (example_request ''candidate:t'' ''promote'' ''a1''))) = Inr v"
    by (auto simp: readiness_def service_evidence_def example_service_def example_request_def
        split: sum.splits)
qed (use example_cell_ok table_key_t in \<open>simp_all add: example_request_def\<close>)

section \<open>The two stores\<close>

lemma service_with_twice: "service_with ops g (service_with ops' h sv) = service_with ops g sv"
  by (simp add: service_with_def)

text \<open>
  C6: the service cannot tell the settings-backed store from the in-memory one. Started on stores
  with the same records, journal and audit trail, with other workers that do the same to both, a
  transition raises on both or returns the same outcome on both and leaves them equal again.
\<close>

theorem stores_agree:
  assumes "cell_ok cell" and "collection_ok s" and "cell_abs cell = abs_of s"
    and "others_sim cell_ok cell_abs f g" and "others_sim collection_ok abs_of f' g"
  shows "case (transition (service_with durable_ops f sv) rq cell,
      transition (service_with memory_ops f' sv) rq s) of
        (Inr (out, cell'), Inr (out', s')) \<Rightarrow>
          out = out' \<and> cell_abs cell' = abs_of s' \<and> cell_ok cell' \<and> collection_ok s'
      | (Inl e, Inl e') \<Rightarrow> e = e'
      | _ \<Rightarrow> False"
  using durable.transition_sim [of "service_with durable_ops f sv" g cell rq]
    memory.transition_sim [of "service_with memory_ops f' sv" g s rq] assms
  by (auto simp: sim_res_def service_with_twice split: sum.splits)

theorem stores_agree_witness:
  "case (transition (service_with durable_ops quiet (example_service memory_ops))
        (example_request ''candidate:t'' ''claim'' ''a1'') None,
      transition (service_with memory_ops quiet (example_service memory_ops))
        (example_request ''candidate:t'' ''claim'' ''a1'') empty_collection) of
        (Inr (out, cell'), Inr (out', s')) \<Rightarrow>
          out = out' \<and> cell_abs cell' = abs_of s' \<and> cell_ok cell' \<and> collection_ok s'
      | (Inl e, Inl e') \<Rightarrow> e = e'
      | _ \<Rightarrow> False"
  by (rule stores_agree [where g = quiet]) (simp_all add: empty_abs example_cell_ok)

section \<open>Reads\<close>

text \<open>
  \<open>allowed_transitions\<close> lists exactly the actions the transition's own state check accepts from the
  stored state, without repetition and in order.
\<close>

theorem allowed_transitions_exact:
  assumes "sv_ops sv = durable_ops" and "cell_ok s"
    and "allowed_transitions sv s rid = Inr actions"
  shows "sorted actions \<and> distinct actions \<and>
    (\<forall>a. a \<in> set actions \<longleftrightarrow> fst (state_machine_check rid a (before_of (ab_records (cell_abs s) rid))))"
proof -
  have order: "sorted (actions_from d st) \<and> (distinct (map fst d) \<longrightarrow> distinct (actions_from d st))"
    for d st
    by (auto simp: actions_from_def intro: distinct_map_filter)
  have keys: "distinct (map fst (transition_table rid))"
    by (simp add: transition_table_def WORKFLOW_TRANSITIONS_def PUBLICATION_TRANSITIONS_def)
  have table: "a \<in> set (actions_from (transition_table rid) st) \<longleftrightarrow> fst (state_machine_check rid a st)"
    for a st
  proof -
    have "a \<in> set (actions_from d st) \<longleftrightarrow> (\<exists>fs to. dict_get d a = Some (fs, to) \<and> st \<in> set fs)"
      if "distinct (map fst d)" for d
      using that by (force simp: actions_from_def map_of_eq_Some_iff)
    from this [OF keys] show ?thesis
      by (auto simp: state_machine_check_def split: option.splits)
  qed
  from assms have a: "actions = (if is_candidate_dataset_id rid \<or> ab_records (cell_abs s) rid \<noteq> None
      then actions_from (transition_table rid) (before_of (ab_records (cell_abs s) rid)) else [])"
    by (auto simp: allowed_transitions_def bind_res_Inr_iff validated_resource_id_def durable.load
        transition_table_def before_of_def split: if_splits option.splits)
  have none: "\<not> fst (state_machine_check rid b WORKFLOW_STATE_OPEN)" if "\<not> is_candidate_dataset_id rid" for b
    using that by (auto simp: state_machine_check_def transition_table_def PUBLICATION_TRANSITIONS_def
        WORKFLOW_STATE_OPEN_def)
  show ?thesis
    unfolding a using table order keys none by auto
qed

theorem allowed_transitions_exact_witness:
  "\<exists>actions. allowed_transitions (example_service durable_ops) (example_cell WS_REVIEW) ''candidate:t'' =
      Inr actions \<and> sorted actions \<and> ''promote'' \<in> set actions"
proof -
  have e: "case allowed_transitions (example_service durable_ops) (example_cell WS_REVIEW) ''candidate:t'' of
      Inl _ \<Rightarrow> False | Inr actions \<Rightarrow> ''promote'' \<in> set actions"
    by code_simp
  then obtain actions where
    run: "allowed_transitions (example_service durable_ops) (example_cell WS_REVIEW) ''candidate:t'' =
      Inr actions" by (auto split: sum.splits)
  with allowed_transitions_exact [OF _ example_cell_ok(1) run] e show ?thesis by simp
qed

end
