(* ===== verification/Dataset_Migration.thy ===== *)
theory Dataset_Migration
  imports Dataset_Store_Spec
begin

text \<open>
  \<open>phlo/dataset/migration.py\<close>: the pure planner that maps a legacy workflow overlay to
  import-or-reject entries, and the digests that identify a plan. The overlay is a decoded JSON
  document; \<open>hashlib.sha256\<close> is the argument \<open>sha256\<close>.
\<close>

section \<open>Optional fields\<close>

fun json_string :: "json option \<Rightarrow> string option" where
  "json_string (Some (JStr s)) = (if s = [] then None else Some s)"
| "json_string _ = None"

definition truthy_fields :: "payload option \<Rightarrow> payload option" where
  "truthy_fields d = (case d of Some [] \<Rightarrow> None | _ \<Rightarrow> d)"

section \<open>Entries and plans\<close>

datatype entry_action = ENTRY_IMPORT | ENTRY_REJECT

fun entry_action_value :: "entry_action \<Rightarrow> string" where
  "entry_action_value ENTRY_IMPORT = ''import''"
| "entry_action_value ENTRY_REJECT = ''reject''"

record plan_entry =
  pe_record_id :: string
  pe_action :: entry_action
  pe_reason :: string
  pe_record :: "state_record option"

definition pe_imported :: "plan_entry \<Rightarrow> bool" where
  "pe_imported e \<longleftrightarrow> pe_action e = ENTRY_IMPORT"

definition entry_read_model :: "plan_entry \<Rightarrow> json" where
  "entry_read_model e = JObj
     [(''record_id'', JStr (pe_record_id e)),
      (''action'', JStr (entry_action_value (pe_action e))),
      (''reason'', JStr (pe_reason e)),
      (''record'', case pe_record e of None \<Rightarrow> JNull | Some r \<Rightarrow> JObj (to_read_model r))]"

record migration_plan =
  mp_source_digest :: string
  mp_entries :: "plan_entry list"
  mp_config :: payload
  mp_schema_version :: int

definition plan_imports :: "migration_plan \<Rightarrow> plan_entry list" where
  "plan_imports p = filter pe_imported (mp_entries p)"

definition plan_rejections :: "migration_plan \<Rightarrow> plan_entry list" where
  "plan_rejections p = filter (\<lambda>e. \<not> pe_imported e) (mp_entries p)"

definition plan_records :: "migration_plan \<Rightarrow> state_record list" where
  "plan_records p = List.map_filter pe_record (plan_imports p)"

definition plan_digest :: "(string \<Rightarrow> string) \<Rightarrow> migration_plan \<Rightarrow> string" where
  "plan_digest sha256 p =
     sha256 (json_compact (JObj
       [(''schema_version'', JInt (mp_schema_version p)),
        (''source_digest'', JStr (mp_source_digest p)),
        (''config'', JObj (mp_config p)),
        (''entries'', JList (map entry_read_model (mp_entries p)))]))"

definition plan_read_model :: "(string \<Rightarrow> string) \<Rightarrow> migration_plan \<Rightarrow> payload" where
  "plan_read_model sha256 p =
     [(''schema_version'', JInt (mp_schema_version p)),
      (''source_digest'', JStr (mp_source_digest p)),
      (''plan_digest'', JStr (plan_digest sha256 p)),
      (''config'', JObj (mp_config p)),
      (''entries'', JList (map entry_read_model (mp_entries p))),
      (''import_count'', JInt (int (length (plan_imports p)))),
      (''rejection_count'', JInt (int (length (plan_rejections p))))]"

definition import_action_id :: "string \<Rightarrow> string" where
  "import_action_id source_digest = ''overlay-import-'' @ source_digest"

definition reject_entry :: "string \<Rightarrow> string \<Rightarrow> plan_entry" where
  "reject_entry i reason =
     \<lparr>pe_record_id = i, pe_action = ENTRY_REJECT, pe_reason = reason, pe_record = None\<rparr>"

definition import_entry :: "string \<Rightarrow> state_record \<Rightarrow> plan_entry" where
  "import_entry i r =
     \<lparr>pe_record_id = i, pe_action = ENTRY_IMPORT, pe_reason = [], pe_record = Some r\<rparr>"

section \<open>Fields of a legacy record\<close>

definition LEGACY_KNOWN :: "string list" where
  "LEGACY_KNOWN = [''state'', ''owner'', ''approval_state'', ''dataset_id'', ''publication_state'']"

definition legacy_fields_of :: "payload \<Rightarrow> payload option" where
  "legacy_fields_of rec =
     truthy_fields (Some (filter (\<lambda>p. fst p \<notin> set LEGACY_KNOWN) rec))"

definition PUBLICATION_STATES :: "string list" where
  "PUBLICATION_STATES = map publication_value [PS_DRAFT, PS_PUBLISHED, PS_RETIRED]"

definition coerced_publication_state :: "payload \<Rightarrow> string \<times> string option" where
  "coerced_publication_state rec =
     (case (case dict_get rec ''publication_state'' of None \<Rightarrow> JNull | Some raw \<Rightarrow> raw) of
        JNull \<Rightarrow> (publication_value PS_DRAFT,
          Some ''publication_state missing in legacy overlay; imported as draft'')
      | raw \<Rightarrow>
         (let value = json_text raw in
          if value \<in> set PUBLICATION_STATES then (value, None)
          else (publication_value PS_DRAFT,
            Some (''unknown legacy publication_state '' @ py_repr value @ ''; imported as draft''))))"

section \<open>Candidates\<close>

definition plain_candidate :: "string \<Rightarrow> string \<Rightarrow> string \<Rightarrow> string option \<Rightarrow> string option
    \<Rightarrow> payload option \<Rightarrow> candidate_record" where
  "plain_candidate cid table_id state owner approval legacy =
     \<lparr>cr_dataset_id = cid, cr_table_id = table_id, cr_state = state, cr_owner = owner,
      cr_approval_state = approval, cr_promoted_dataset_id = None, cr_publication_state = None,
      cr_policy_version = None, cr_schema_version = DATASET_STATE_SCHEMA_VERSION,
      cr_last_action_id = None, cr_migration_note = None, cr_legacy_fields = legacy\<rparr>"

definition promoted_candidate_entry :: "string \<Rightarrow> payload \<Rightarrow> string option \<Rightarrow> string option
    \<Rightarrow> payload option \<Rightarrow> plan_entry res" where
  "promoted_candidate_entry table_id rec owner approval legacy =
     bind_res (candidate_dataset_id table_id) (\<lambda>entry_id.
       let legacy_dataset_id = (case dict_get rec ''dataset_id'' of None \<Rightarrow> JNull | Some v \<Rightarrow> v) in
       if legacy_dataset_id \<noteq> JNull \<and> \<not> json_eq legacy_dataset_id (JStr table_id)
       then Inr (reject_entry entry_id
              (''Promoted candidate '' @ py_repr table_id @ '' records dataset_id '' @
               json_repr legacy_dataset_id @ ''; promotion must preserve the table key.''))
       else
         (case coerced_publication_state rec of
            (publication_state, note) \<Rightarrow>
              bind_res (make_candidate
                ((plain_candidate entry_id table_id (workflow_value WS_PROMOTED) owner approval legacy)
                 \<lparr>cr_promoted_dataset_id := Some table_id,
                  cr_publication_state := Some publication_state,
                  cr_migration_note := note\<rparr>)) (\<lambda>imported.
              Inr (import_entry entry_id (Candidate imported)))))"

definition candidate_entry :: "string \<Rightarrow> payload \<Rightarrow> plan_entry res" where
  "candidate_entry table_id rec =
     bind_res (candidate_dataset_id table_id) (\<lambda>entry_id.
       let state = (case dict_get rec ''state'' of None \<Rightarrow> JNull | Some v \<Rightarrow> v);
           workflow_state =
             (if state = JNull then None
              else case workflow_coerce (json_text state) of Inl _ \<Rightarrow> None | Inr w \<Rightarrow> Some w);
           owner = json_string (dict_get rec ''owner'');
           approval = json_string (dict_get rec ''approval_state'');
           legacy = legacy_fields_of rec
       in case workflow_state of
            None \<Rightarrow> Inr (reject_entry entry_id
              (''Candidate '' @ py_repr table_id @ '' has no deterministic rule for state '' @
               json_repr state @ ''.''))
          | Some w \<Rightarrow>
              (if w = WS_PROMOTED then promoted_candidate_entry table_id rec owner approval legacy
               else bind_res (make_candidate
                      (plain_candidate entry_id table_id (workflow_value w) owner approval legacy))
                    (\<lambda>imported. Inr (import_entry entry_id (Candidate imported)))))"

definition candidate_item :: "string \<times> json \<Rightarrow> (string \<times> plan_entry) res" where
  "candidate_item item =
     (case item of (table_id, rec) \<Rightarrow>
        if \<not> table_key table_id
        then Inr (table_id, reject_entry table_id
               (''Candidate key '' @ py_repr table_id @ '' is not a valid table key.''))
        else bind_res (candidate_dataset_id table_id) (\<lambda>entry_id.
          case rec of
            JObj fs \<Rightarrow> bind_res (candidate_entry table_id fs) (\<lambda>e. Inr (table_id, e))
          | _ \<Rightarrow> Inr (table_id, reject_entry entry_id ''Candidate record must be a JSON object.'')))"

definition candidate_entries :: "payload \<Rightarrow> (string \<times> plan_entry) list res" where
  "candidate_entries candidates = map_res candidate_item candidates"

section \<open>Datasets\<close>

definition plain_dataset :: "string \<Rightarrow> string \<Rightarrow> string \<Rightarrow> string option \<Rightarrow> string option
    \<Rightarrow> string option \<Rightarrow> payload option \<Rightarrow> dataset_record" where
  "plain_dataset dataset_id table_id publication_state owner approval note legacy =
     \<lparr>dr_dataset_id = dataset_id, dr_table_id = table_id,
      dr_publication_state = publication_state, dr_owner = owner, dr_approval_state = approval,
      dr_policy_version = None, dr_schema_version = DATASET_STATE_SCHEMA_VERSION,
      dr_last_action_id = None, dr_migration_note = note, dr_legacy_fields = legacy\<rparr>"

definition dataset_entry :: "string \<Rightarrow> payload \<Rightarrow> plan_entry res" where
  "dataset_entry dataset_id rec =
     bind_res (dataset_table_id dataset_id) (\<lambda>table_id.
       case coerced_publication_state rec of
         (publication_state, note) \<Rightarrow>
           bind_res (make_dataset (plain_dataset dataset_id table_id publication_state
             (json_string (dict_get rec ''owner'')) (json_string (dict_get rec ''approval_state''))
             note (legacy_fields_of rec))) (\<lambda>imported.
           Inr (import_entry dataset_id (Dataset imported))))"

definition dataset_item :: "string \<times> json \<Rightarrow> (string \<times> plan_entry) res" where
  "dataset_item item =
     (case item of (dataset_id, rec) \<Rightarrow>
        if \<not> table_key dataset_id \<or> is_candidate_dataset_id dataset_id
        then Inr (dataset_id, reject_entry dataset_id
               (''Dataset key '' @ py_repr dataset_id @ '' is not a promoted <table_id> form.''))
        else (case rec of
            JObj fs \<Rightarrow> bind_res (dataset_entry dataset_id fs) (\<lambda>e. Inr (dataset_id, e))
          | _ \<Rightarrow> Inr (dataset_id, reject_entry dataset_id ''Dataset record must be a JSON object.'')))"

definition dataset_entries :: "payload \<Rightarrow> (string \<times> plan_entry) list res" where
  "dataset_entries datasets = map_res dataset_item datasets"

text \<open>\<open>{**a, **b}\<close>\<close>

definition dict_merge :: "('k, 'v) dict \<Rightarrow> ('k, 'v) dict \<Rightarrow> ('k, 'v) dict" where
  "dict_merge a b = foldl (\<lambda>d p. dict_set d (fst p) (snd p)) a b"

definition fields_or_empty :: "payload option \<Rightarrow> payload" where
  "fields_or_empty d = (case d of None \<Rightarrow> [] | Some fs \<Rightarrow> fs)"

definition merge_note :: "string option \<Rightarrow> string option \<Rightarrow> string" where
  "merge_note a b =
     str_join ''; '' (List.map_filter (\<lambda>s. if str_truthy s then s else None)
       [a, b, Some ''merged with the promoted candidate record''])"

definition merge_promoted_sources :: "string \<Rightarrow> candidate_record option \<Rightarrow> plan_entry \<Rightarrow> plan_entry res" where
  "merge_promoted_sources dataset_id candidate entry =
     (if \<not> pe_imported entry then Inr entry
      else case (pe_record entry, candidate) of
        (Some (Dataset d), Some c) \<Rightarrow>
          (let note = merge_note (dr_migration_note d) (cr_migration_note c) in
           bind_res (make_dataset (plain_dataset dataset_id (dr_table_id d) (dr_publication_state d)
             (str_or (dr_owner d) (cr_owner c)) (str_or (dr_approval_state d) (cr_approval_state c))
             (if note = [] then None else Some note)
             (truthy_fields (Some (dict_merge (fields_or_empty (cr_legacy_fields c))
               (fields_or_empty (dr_legacy_fields d))))))) (\<lambda>merged.
           Inr (import_entry dataset_id (Dataset merged))))
      | _ \<Rightarrow> Inr entry)"

section \<open>The plan\<close>

definition overlay_section :: "payload \<Rightarrow> string \<Rightarrow> payload res" where
  "overlay_section overlay name =
     (case (case dict_get overlay name of None \<Rightarrow> JNull | Some v \<Rightarrow> v) of
        JNull \<Rightarrow> Inr []
      | JObj fs \<Rightarrow> Inr fs
      | _ \<Rightarrow> Inl (LegacyOverlayError
          (''Legacy overlay '' @ py_repr name @ '' section must be a JSON object.'')))"

definition is_JStr :: "json \<Rightarrow> bool" where
  "is_JStr v = (case v of JStr _ \<Rightarrow> True | _ \<Rightarrow> False)"

definition plan_config :: "json option \<Rightarrow> payload res" where
  "plan_config config =
     (case (case config of None \<Rightarrow> JNull | Some c \<Rightarrow> c) of
        JNull \<Rightarrow> Inr []
      | JObj fs \<Rightarrow>
          (let owner = (case dict_get fs ''default_owner'' of None \<Rightarrow> JNull | Some v \<Rightarrow> v) in
           if owner \<noteq> JNull \<and> \<not> is_JStr owner
           then Inl (LegacyOverlayError ''Legacy overlay config 'default_owner' must be a string.'')
           else
             (case (case dict_get fs ''approval_states'' of None \<Rightarrow> JNull | Some v \<Rightarrow> v) of
                JNull \<Rightarrow> Inr [(''default_owner'', owner), (''approval_states'', JList [])]
              | JList xs \<Rightarrow>
                  (if \<forall>x \<in> set xs. is_JStr x
                   then Inr [(''default_owner'', owner),
                             (''approval_states'', JList (filter json_truthy xs))]
                   else Inl (LegacyOverlayError
                     ''Legacy overlay config 'approval_states' must be a list of strings.''))
              | _ \<Rightarrow> Inl (LegacyOverlayError
                     ''Legacy overlay config 'approval_states' must be a list of strings.'')))
      | _ \<Rightarrow> Inl (LegacyOverlayError ''Legacy overlay 'config' section must be a JSON object.''))"

definition check_schema_version :: "payload \<Rightarrow> unit res" where
  "check_schema_version overlay =
     (let v = (case dict_get overlay ''schema_version'' of
         None \<Rightarrow> JInt (DATASET_STATE_SCHEMA_VERSION - 1) | Some v \<Rightarrow> v) in
      case v of
        JInt n \<Rightarrow>
          (if n > DATASET_STATE_SCHEMA_VERSION
           then Inl (LegacyOverlayError (''Legacy overlay schema_version '' @ int_str n @
                  '' is ahead of the store's '' @ int_str DATASET_STATE_SCHEMA_VERSION @
                  ''; refusing to import.''))
           else Inr ())
      | _ \<Rightarrow> Inl (LegacyOverlayError
          (''Legacy overlay schema_version must be an integer: '' @ json_repr v)))"

text \<open>\<open>dict(pairs)\<close> and the loops over the results.\<close>

definition dict_of :: "('k \<times> 'v) list \<Rightarrow> ('k, 'v) dict" where
  "dict_of ps = dict_merge [] ps"

fun promoted_of :: "plan_entry list \<Rightarrow> (string, candidate_record) dict \<Rightarrow> (string, candidate_record) dict" where
  "promoted_of [] acc = acc"
| "promoted_of (e # es) acc =
     (case pe_record e of
        Some (Candidate c) \<Rightarrow>
          (if pe_imported e \<and> cr_state c = workflow_value WS_PROMOTED
           then promoted_of es (dict_set acc (cr_table_id c) c) else promoted_of es acc)
      | _ \<Rightarrow> promoted_of es acc)"

fun merge_datasets :: "(string \<times> plan_entry) list \<Rightarrow> (string, candidate_record) dict
    \<Rightarrow> (string, plan_entry) dict
    \<Rightarrow> ((string, candidate_record) dict \<times> (string, plan_entry) dict) res" where
  "merge_datasets [] promoted entries = Inr (promoted, entries)"
| "merge_datasets ((dataset_id, entry) # ds) promoted entries =
     bind_res (merge_promoted_sources dataset_id (dict_get promoted dataset_id) entry) (\<lambda>e.
       merge_datasets ds (dict_pop promoted dataset_id) (dict_set entries dataset_id e))"

definition promoted_entry :: "string \<Rightarrow> candidate_record \<Rightarrow> plan_entry res" where
  "promoted_entry dataset_id c =
     bind_res (make_dataset (plain_dataset dataset_id (cr_table_id c)
       (case cr_publication_state c of
          Some s \<Rightarrow> if s = [] then publication_value PS_DRAFT else s
        | None \<Rightarrow> publication_value PS_DRAFT)
       (cr_owner c) (cr_approval_state c) (cr_migration_note c) (cr_legacy_fields c))) (\<lambda>d.
     Inr (import_entry dataset_id (Dataset d)))"

fun add_promoted :: "(string \<times> candidate_record) list \<Rightarrow> (string, plan_entry) dict
    \<Rightarrow> (string, plan_entry) dict res" where
  "add_promoted [] entries = Inr entries"
| "add_promoted ((dataset_id, c) # cs) entries =
     bind_res (promoted_entry dataset_id c) (\<lambda>e. add_promoted cs (dict_set entries dataset_id e))"

fun add_candidates :: "plan_entry list \<Rightarrow> (string, plan_entry) dict \<Rightarrow> (string, plan_entry) dict" where
  "add_candidates [] entries = entries"
| "add_candidates (e # es) entries = add_candidates es (dict_set entries (pe_record_id e) e)"

definition ordered_entries :: "(string, plan_entry) dict \<Rightarrow> plan_entry list" where
  "ordered_entries entries = List.map_filter (dict_get entries) (sort (map fst entries))"

definition plan_migration :: "json \<Rightarrow> string \<Rightarrow> migration_plan res" where
  "plan_migration overlay source_digest =
     (case overlay of
        JObj fs \<Rightarrow>
          bind_res (check_schema_version fs) (\<lambda>_.
          bind_res (overlay_section fs ''datasets'') (\<lambda>datasets.
          bind_res (overlay_section fs ''candidates'') (\<lambda>candidates.
          bind_res (plan_config (dict_get fs ''config'')) (\<lambda>config.
          bind_res (candidate_entries candidates) (\<lambda>cs.
          bind_res (dataset_entries datasets) (\<lambda>ds.
            let candidate_results = dict_of cs;
                dataset_results = dict_of ds
            in bind_res (merge_datasets dataset_results
                 (promoted_of (map snd candidate_results) []) []) (\<lambda>(promoted, entries).
               bind_res (add_promoted promoted entries) (\<lambda>entries.
               let entries = add_candidates (map snd candidate_results) entries
               in Inr \<lparr>mp_source_digest = source_digest, mp_entries = ordered_entries entries,
                       mp_config = config, mp_schema_version = DATASET_STATE_SCHEMA_VERSION\<rparr>))))))))
      | _ \<Rightarrow> Inl (LegacyOverlayError ''Legacy overlay must be a JSON object.''))"

section \<open>Every source record is imported or rejected\<close>

definition entry_ok :: "plan_entry \<Rightarrow> bool" where
  "entry_ok e \<longleftrightarrow>
     (case pe_action e of
        ENTRY_REJECT \<Rightarrow> pe_record e = None
      | ENTRY_IMPORT \<Rightarrow> (\<exists>r. pe_record e = Some r \<and> record_valid r \<and> record_id r = pe_record_id e))"

definition publishable :: "candidate_record \<Rightarrow> bool" where
  "publishable c \<longleftrightarrow>
     make_candidate c = Inr c \<and>
     (cr_publication_state c = None \<or> (\<exists>q. cr_publication_state c = Some (publication_value q)))"

definition candidate_ok :: "plan_entry \<Rightarrow> bool" where
  "candidate_ok e \<longleftrightarrow> entry_ok e \<and> (\<forall>r. pe_record e = Some r \<longrightarrow> (\<exists>c. r = Candidate c \<and> publishable c))"

definition dataset_ok :: "string \<Rightarrow> plan_entry \<Rightarrow> bool" where
  "dataset_ok k e \<longleftrightarrow>
     entry_ok e \<and> pe_record_id e = k \<and>
     (\<forall>r. pe_record e = Some r \<longrightarrow> table_key k \<and> (\<exists>d. r = Dataset d \<and> make_dataset d = Inr d))"

lemma reject_entry_ok [simp]:
  "entry_ok (reject_entry i m)" "pe_record_id (reject_entry i m) = i"
  "pe_record (reject_entry i m) = None" "\<not> pe_imported (reject_entry i m)"
  by (simp_all add: entry_ok_def reject_entry_def pe_imported_def)

lemma import_entry_ok [simp]:
  "entry_ok (import_entry i r) \<longleftrightarrow> record_valid r \<and> record_id r = i"
  "pe_record_id (import_entry i r) = i" "pe_record (import_entry i r) = Some r"
  "pe_imported (import_entry i r)"
  by (simp_all add: entry_ok_def import_entry_def pe_imported_def)

lemma imported_iff: "entry_ok e \<Longrightarrow> pe_imported e \<longleftrightarrow> pe_record e \<noteq> None"
  by (auto simp: entry_ok_def pe_imported_def split: entry_action.splits)

lemma coerced_state_ok: "\<exists>q. fst (coerced_publication_state rec) = publication_value q"
proof -
  have "\<exists>q. s = publication_value q" if "s \<in> set PUBLICATION_STATES" for s
    using that by (auto simp: PUBLICATION_STATES_def intro: exI [of _ PS_DRAFT] exI [of _ PS_PUBLISHED]
        exI [of _ PS_RETIRED])
  then show ?thesis
    unfolding coerced_publication_state_def
    by (auto simp: Let_def simp del: publication_value.simps split: json.splits option.splits)
qed

lemma candidate_entry_ok:
  assumes "table_key t"
  obtains e where "candidate_entry t rec = Inr e" "candidate_ok e" "pe_record_id e = CANDIDATE_ID_PREFIX @ t"
proof -
  have cid: "candidate_dataset_id t = Inr (CANDIDATE_ID_PREFIX @ t)"
    using assms by (simp add: candidate_dataset_id_Inr)
  have promoted: "\<exists>e. promoted_candidate_entry t rec ow ap lg = Inr e \<and> candidate_ok e \<and>
      pe_record_id e = CANDIDATE_ID_PREFIX @ t" for ow ap lg
    using coerced_state_ok [of rec] assms
    by (auto simp: promoted_candidate_entry_def cid Let_def candidate_ok_def publishable_def
        make_candidate_Inr bind_res_Inr_iff plain_candidate_def split: prod.splits
        intro!: exI [of _ WS_PROMOTED])
  have plain: "make_candidate (plain_candidate (CANDIDATE_ID_PREFIX @ t) t (workflow_value w) ow ap lg) =
      Inr (plain_candidate (CANDIDATE_ID_PREFIX @ t) t (workflow_value w) ow ap lg)" for w ow ap lg
    using assms by (auto simp: make_candidate_Inr plain_candidate_def simp del: workflow_value.simps)
  have "\<exists>e. candidate_entry t rec = Inr e \<and> candidate_ok e \<and> pe_record_id e = CANDIDATE_ID_PREFIX @ t"
    using promoted plain
    by (auto simp: candidate_entry_def cid Let_def candidate_ok_def publishable_def plain_candidate_def
        simp del: workflow_value.simps split: option.split sum.split)
  with that show ?thesis by blast
qed

lemma candidate_item_ok:
  obtains e where "candidate_item (k, rec) = Inr (k, e)" "candidate_ok e"
    "pe_record_id e = (if table_key k then CANDIDATE_ID_PREFIX @ k else k)"
    "table_key k \<Longrightarrow> rec = JObj fs \<Longrightarrow> candidate_entry k fs = Inr e"
proof (cases "table_key k")
  case False
  then show ?thesis by (intro that) (auto simp: candidate_item_def candidate_ok_def)
next
  case True
  then have cid: "candidate_dataset_id k = Inr (CANDIDATE_ID_PREFIX @ k)"
    by (simp add: candidate_dataset_id_Inr)
  show ?thesis
  proof (cases "\<exists>gs. rec = JObj gs")
    case True
    then obtain gs where gs: "rec = JObj gs" ..
    from \<open>table_key k\<close> obtain e where "candidate_entry k gs = Inr e" "candidate_ok e"
      "pe_record_id e = CANDIDATE_ID_PREFIX @ k"
      by (rule candidate_entry_ok)
    with gs \<open>table_key k\<close> cid show ?thesis by (intro that [of e]) (auto simp: candidate_item_def)
  next
    case False
    with \<open>table_key k\<close> cid show ?thesis
      by (intro that [of "reject_entry (CANDIDATE_ID_PREFIX @ k) ''Candidate record must be a JSON object.''"])
        (auto simp: candidate_item_def candidate_ok_def split: json.splits)
  qed
qed

lemma plain_dataset_ok:
  assumes "table_key k"
  shows "make_dataset (plain_dataset k k (publication_value q) ow ap nt lg) =
    Inr (plain_dataset k k (publication_value q) ow ap nt lg)"
  using assms table_key_not_candidate [OF assms]
  by (auto simp: make_dataset_Inr plain_dataset_def simp del: publication_value.simps)

lemma dataset_item_ok:
  obtains e where "dataset_item (k, rec) = Inr (k, e)" "dataset_ok k e"
proof (cases "table_key k \<and> (\<exists>fs. rec = JObj fs)")
  case False
  then show ?thesis
    using table_key_not_candidate [of k]
    by (intro that [of "snd (case dataset_item (k, rec) of Inr p \<Rightarrow> p)"])
      (auto simp: dataset_item_def dataset_ok_def split: json.splits)
next
  case True
  then obtain fs where k: "table_key k" and fs: "rec = JObj fs" by blast
  obtain q n where q: "coerced_publication_state fs = (publication_value q, n)"
    using coerced_state_ok [of fs] by (metis prod.collapse)
  let ?d = "plain_dataset k k (publication_value q) (json_string (dict_get fs ''owner''))
    (json_string (dict_get fs ''approval_state'')) n (legacy_fields_of fs)"
  have "dr_dataset_id ?d = k" by (simp add: plain_dataset_def)
  with k fs q plain_dataset_ok [OF k] table_key_not_candidate [OF k] show ?thesis
    by (intro that [of "import_entry k (Dataset ?d)"])
      (simp_all add: dataset_item_def dataset_entry_def dataset_ok_def)
qed

lemma dict_merge_ok: "dict_ok a \<Longrightarrow> dict_ok (dict_merge a b)"
  unfolding dict_merge_def by (induction b arbitrary: a) (auto intro: dict_ok_set)

lemma dict_of_ok [simp]: "dict_ok (dict_of ps)"
  by (simp add: dict_of_def dict_merge_ok)

lemma dict_merge_set: "set (dict_merge a b) \<subseteq> set a \<union> set b"
proof (induction b arbitrary: a)
  case Nil
  then show ?case by (simp add: dict_merge_def)
next
  case (Cons p b)
  have "set (dict_set a (fst p) (snd p)) \<subseteq> insert p (set a)" for a
    by (induction a) auto
  moreover have "dict_merge a (p # b) = dict_merge (dict_set a (fst p) (snd p)) b"
    by (simp add: dict_merge_def)
  ultimately show ?case using Cons.IH [of "dict_set a (fst p) (snd p)"] by fastforce
qed

lemma dict_of_set: "set (dict_of ps) \<subseteq> set ps"
  using dict_merge_set [of "[]" ps] by (simp add: dict_of_def)

lemma dict_merge_distinct:
  "distinct (map fst (a @ b)) \<Longrightarrow> dict_merge a b = a @ b"
proof (induction b arbitrary: a)
  case Nil
  then show ?case by (simp add: dict_merge_def)
next
  case (Cons p b)
  have "k \<notin> fst ` set a \<Longrightarrow> dict_set a k v = a @ [(k, v)]" for a :: "('a \<times> 'b) list" and k v
    by (induction a) auto
  with Cons.prems have "dict_set a (fst p) (snd p) = a @ [p]" by auto
  with Cons.IH [of "a @ [p]"] Cons.prems show ?case by (simp add: dict_merge_def)
qed

lemma dict_of_distinct: "dict_ok ps \<Longrightarrow> dict_of ps = ps"
  using dict_merge_distinct [of "[]" ps] by (simp add: dict_of_def dict_ok_def)

lemma candidate_entries_ok:
  obtains es where "candidate_entries cs = Inr es" "map fst es = map fst cs"
    "\<forall>e \<in> set (map snd es). candidate_ok e"
    "\<forall>(k, rec) \<in> set cs. \<forall>fs. table_key k \<longrightarrow> rec = JObj fs \<longrightarrow>
       (\<exists>e. candidate_entry k fs = Inr e \<and> (k, e) \<in> set es)"
    "\<forall>(k, e) \<in> set es. pe_record_id e = (if table_key k then CANDIDATE_ID_PREFIX @ k else k)"
proof -
  have "\<exists>es. candidate_entries cs = Inr es \<and> map fst es = map fst cs \<and>
    (\<forall>e \<in> set (map snd es). candidate_ok e) \<and>
    (\<forall>(k, rec) \<in> set cs. \<forall>fs. table_key k \<longrightarrow> rec = JObj fs \<longrightarrow>
       (\<exists>e. candidate_entry k fs = Inr e \<and> (k, e) \<in> set es)) \<and>
    (\<forall>(k, e) \<in> set es. pe_record_id e = (if table_key k then CANDIDATE_ID_PREFIX @ k else k))"
  proof (induction cs)
    case Nil
    then show ?case by (simp add: candidate_entries_def)
  next
    case (Cons p cs)
    obtain k rec where p: "p = (k, rec)" by (cases p)
    obtain gs where gs: "\<And>fs. rec = JObj fs \<Longrightarrow> gs = fs" by (cases rec) auto
    obtain e where e: "candidate_item (k, rec) = Inr (k, e)" "candidate_ok e"
      "pe_record_id e = (if table_key k then CANDIDATE_ID_PREFIX @ k else k)"
      "table_key k \<Longrightarrow> rec = JObj gs \<Longrightarrow> candidate_entry k gs = Inr e"
      using candidate_item_ok [of k rec gs] by blast
    from Cons obtain es where es: "candidate_entries cs = Inr es" "map fst es = map fst cs"
      "\<forall>e \<in> set (map snd es). candidate_ok e"
      "\<forall>(k, rec) \<in> set cs. \<forall>fs. table_key k \<longrightarrow> rec = JObj fs \<longrightarrow>
         (\<exists>e. candidate_entry k fs = Inr e \<and> (k, e) \<in> set es)"
      "\<forall>(k, e) \<in> set es. pe_record_id e = (if table_key k then CANDIDATE_ID_PREFIX @ k else k)"
      by blast
    show ?case
    proof (intro exI [of _ "(k, e) # es"] conjI)
      show "candidate_entries (p # cs) = Inr ((k, e) # es)"
        using e(1) es(1) by (simp add: candidate_entries_def p)
      show "\<forall>(k', rec') \<in> set (p # cs). \<forall>fs. table_key k' \<longrightarrow> rec' = JObj fs \<longrightarrow>
          (\<exists>e'. candidate_entry k' fs = Inr e' \<and> (k', e') \<in> set ((k, e) # es))"
        using e(4) gs es(4) by (fastforce simp: p)
    qed (use e es p in auto)
  qed
  with that show ?thesis by blast
qed

lemma dataset_entries_ok:
  obtains es where "dataset_entries ds = Inr es" "map fst es = map fst ds"
    "\<forall>(k, e) \<in> set es. dataset_ok k e"
proof -
  have "\<exists>es. dataset_entries ds = Inr es \<and> map fst es = map fst ds \<and> (\<forall>(k, e) \<in> set es. dataset_ok k e)"
  proof (induction ds)
    case Nil
    then show ?case by (simp add: dataset_entries_def)
  next
    case (Cons p ds)
    obtain k rec where p: "p = (k, rec)" by (cases p)
    obtain e where "dataset_item (k, rec) = Inr (k, e)" "dataset_ok k e" by (rule dataset_item_ok)
    moreover from Cons obtain es where "dataset_entries ds = Inr es" "map fst es = map fst ds"
      "\<forall>(k, e) \<in> set es. dataset_ok k e" by blast
    ultimately show ?case
      by (intro exI [of _ "(k, e) # es"]) (simp add: dataset_entries_def p)
  qed
  with that show ?thesis by blast
qed

definition promoted_ok :: "(string, candidate_record) dict \<Rightarrow> bool" where
  "promoted_ok d \<longleftrightarrow> dict_ok d \<and>
     (\<forall>k c. dict_get d k = Some c \<longrightarrow> table_key k \<and> cr_table_id c = k \<and> publishable c)"

definition entries_ok :: "(string, plan_entry) dict \<Rightarrow> bool" where
  "entries_ok d \<longleftrightarrow> dict_ok d \<and>
     (\<forall>k e. dict_get d k = Some e \<longrightarrow> pe_record_id e = k \<and> entry_ok e)"

lemma entries_ok_set:
  "entries_ok d \<Longrightarrow> pe_record_id e = k \<Longrightarrow> entry_ok e \<Longrightarrow> entries_ok (dict_set d k e)"
  by (auto simp: entries_ok_def intro: dict_ok_set)

lemma promoted_of_ok:
  "\<forall>e \<in> set es. candidate_ok e \<Longrightarrow> promoted_ok acc \<Longrightarrow> promoted_ok (promoted_of es acc)"
proof (induction es arbitrary: acc)
  case (Cons e es)
  have "promoted_ok (dict_set acc (cr_table_id c) c)" if "pe_record e = Some (Candidate c)" for c
  proof -
    have "publishable c" using Cons.prems(1) that by (auto simp: candidate_ok_def)
    moreover from this have "table_key (cr_table_id c)" by (simp add: publishable_def make_candidate_Inr)
    ultimately show ?thesis
      using Cons.prems(2) by (auto simp: promoted_ok_def intro: dict_ok_set)
  qed
  with Cons show ?case by (auto split: option.split state_record.split)
qed simp

lemma merge_promoted_ok:
  assumes "dataset_ok k e"
  obtains e' where "merge_promoted_sources k c e = Inr e'" "dataset_ok k e'"
proof (cases "\<exists>d c'. pe_imported e \<and> pe_record e = Some (Dataset d) \<and> c = Some c'")
  case False
  then have "merge_promoted_sources k c e = Inr e"
    by (auto simp: merge_promoted_sources_def split: option.split state_record.split)
  with assms that show ?thesis by blast
next
  case True
  then obtain d c' where e: "pe_imported e" "pe_record e = Some (Dataset d)" "c = Some c'" by blast
  with assms have k: "table_key k" "dr_dataset_id d = k" "make_dataset d = Inr d"
    by (auto simp: dataset_ok_def entry_ok_def pe_imported_def)
  then obtain q where q: "dr_publication_state d = publication_value q" "dr_table_id d = k"
    by (auto simp: make_dataset_Inr)
  have m: "make_dataset (plain_dataset k k (publication_value q) ow ap nt lg) =
      Inr (plain_dataset k k (publication_value q) ow ap nt lg)" for ow ap nt lg
    by (rule plain_dataset_ok [OF k(1)])
  have "\<exists>e'. merge_promoted_sources k c e = Inr e' \<and> dataset_ok k e'"
    using e q m k(1)
    by (auto simp: merge_promoted_sources_def Let_def dataset_ok_def simp del: publication_value.simps)
      (simp_all add: plain_dataset_def)
  with that show ?thesis by blast
qed

lemma merge_datasets_ok:
  assumes "\<forall>(k, e) \<in> set ds. dataset_ok k e" and "promoted_ok promoted" and "entries_ok entries"
  obtains promoted' entries' where "merge_datasets ds promoted entries = Inr (promoted', entries')"
    "promoted_ok promoted'" "entries_ok entries'"
proof -
  have "\<exists>promoted' entries'. merge_datasets ds promoted entries = Inr (promoted', entries') \<and>
    promoted_ok promoted' \<and> entries_ok entries'"
    using assms
  proof (induction ds arbitrary: promoted entries)
    case Nil
    then show ?case by simp
  next
    case (Cons p ds)
    obtain k e where p: "p = (k, e)" by (cases p)
    with Cons.prems have "dataset_ok k e" by simp
    then obtain e' where e': "merge_promoted_sources k (dict_get promoted k) e = Inr e'" "dataset_ok k e'"
      by (rule merge_promoted_ok)
    have "promoted_ok (dict_pop promoted k)"
      using Cons.prems(2) by (auto simp: promoted_ok_def dict_ok_def distinct_delete split: if_splits)
    moreover have "entries_ok (dict_set entries k e')"
      using Cons.prems(3) e'(2) by (intro entries_ok_set) (auto simp: dataset_ok_def)
    ultimately show ?case using Cons.IH Cons.prems(1) e'(1) by (simp add: p)
  qed
  with that show ?thesis by blast
qed

lemma add_promoted_ok:
  assumes "\<forall>(k, c) \<in> set cs. table_key k \<and> cr_table_id c = k \<and> publishable c" and "entries_ok entries"
  obtains entries' where "add_promoted cs entries = Inr entries'" "entries_ok entries'"
proof -
  have "\<exists>entries'. add_promoted cs entries = Inr entries' \<and> entries_ok entries'"
    using assms
  proof (induction cs arbitrary: entries)
    case Nil
    then show ?case by simp
  next
    case (Cons p cs)
    obtain k c where p: "p = (k, c)" by (cases p)
    with Cons.prems have c: "table_key k" "cr_table_id c = k" "publishable c" by auto
    have "\<exists>q. (case cr_publication_state c of
          Some s \<Rightarrow> if s = [] then publication_value PS_DRAFT else s
        | None \<Rightarrow> publication_value PS_DRAFT) = publication_value q"
      using c(3) by (auto simp: publishable_def simp del: publication_value.simps)
    then obtain d where "promoted_entry k c = Inr (import_entry k (Dataset d))" "make_dataset d = Inr d"
      "dr_dataset_id d = k"
      using c(1,2) plain_dataset_ok [OF c(1)]
      by (auto simp: promoted_entry_def plain_dataset_def simp del: publication_value.simps)
    with Cons p entries_ok_set [OF Cons.prems(2), of "import_entry k (Dataset d)" k] show ?case
      by simp
  qed
  with that show ?thesis by blast
qed

lemma add_candidates_ok:
  "\<forall>e \<in> set es. entry_ok e \<Longrightarrow> entries_ok entries \<Longrightarrow> entries_ok (add_candidates es entries)"
  by (induction es arbitrary: entries) (auto intro: entries_ok_set)

section \<open>The plan as a whole\<close>

lemma ordered_entries_ids:
  assumes "entries_ok d"
  shows "map pe_record_id (ordered_entries d) = sort (map fst d)"
proof -
  have "map pe_record_id (List.map_filter (dict_get d) ks) = ks" if "set ks \<subseteq> fst ` set d" for ks
    using that assms
  proof (induction ks)
    case (Cons k ks)
    then obtain e where "dict_get d k = Some e" "pe_record_id e = k"
      by (auto simp: entries_ok_def dict_has_get)
    with Cons show ?case by (simp add: map_filter_simps)
  qed (simp add: map_filter_simps)
  then show ?thesis by (simp add: ordered_entries_def)
qed

lemma ordered_entries_set: "set (ordered_entries d) = {e. \<exists>k. dict_get d k = Some e}"
proof -
  have "\<exists>p \<in> set d. dict_get d (fst p) = Some e" if "dict_get d k = Some e" for k e
    using that map_of_SomeD [OF that] by force
  then show ?thesis by (auto simp: ordered_entries_def map_filter_set)
qed

definition overlay_wellformed :: "json \<Rightarrow> bool" where
  "overlay_wellformed overlay =
     (case overlay of
        JObj fs \<Rightarrow>
          (case dict_get fs ''schema_version'' of
             None \<Rightarrow> True | Some (JInt n) \<Rightarrow> n \<le> DATASET_STATE_SCHEMA_VERSION | _ \<Rightarrow> False) \<and>
          (case dict_get fs ''datasets'' of
             None \<Rightarrow> True | Some JNull \<Rightarrow> True | Some (JObj _) \<Rightarrow> True | _ \<Rightarrow> False) \<and>
          (case dict_get fs ''candidates'' of
             None \<Rightarrow> True | Some JNull \<Rightarrow> True | Some (JObj _) \<Rightarrow> True | _ \<Rightarrow> False) \<and>
          (case plan_config (dict_get fs ''config'') of Inl _ \<Rightarrow> False | Inr _ \<Rightarrow> True)
      | _ \<Rightarrow> False)"

definition section_of :: "json \<Rightarrow> string \<Rightarrow> payload" where
  "section_of overlay name =
     (case overlay of
        JObj fs \<Rightarrow> (case dict_get fs name of Some (JObj gs) \<Rightarrow> gs | _ \<Rightarrow> [])
      | _ \<Rightarrow> [])"

lemma overlay_section_cases:
  "overlay_section fs name =
     (case dict_get fs name of
        None \<Rightarrow> Inr [] | Some JNull \<Rightarrow> Inr [] | Some (JObj gs) \<Rightarrow> Inr gs
      | _ \<Rightarrow> Inl (LegacyOverlayError
          (''Legacy overlay '' @ py_repr name @ '' section must be a JSON object.'')))"
  by (simp add: overlay_section_def split: option.split json.split)

lemma check_schema_version_cases:
  "check_schema_version fs = Inr u \<longleftrightarrow>
     (case dict_get fs ''schema_version'' of
        None \<Rightarrow> True | Some (JInt n) \<Rightarrow> n \<le> DATASET_STATE_SCHEMA_VERSION | _ \<Rightarrow> False)"
  by (auto simp: check_schema_version_def Let_def DATASET_STATE_SCHEMA_VERSION_def
      split: option.splits json.splits if_splits)

lemma legacy_errors:
  "check_schema_version fs = Inl e \<Longrightarrow> \<exists>m. e = LegacyOverlayError m"
  "overlay_section fs name = Inl e \<Longrightarrow> \<exists>m. e = LegacyOverlayError m"
  "plan_config c = Inl e \<Longrightarrow> \<exists>m. e = LegacyOverlayError m"
  by (auto simp: check_schema_version_def overlay_section_cases plan_config_def Let_def
      split: option.splits json.splits if_splits)

lemma plan_shape:
  assumes "overlay_wellformed overlay"
  obtains es ds promoted entries base config where
    "candidate_entries (section_of overlay ''candidates'') = Inr es"
    "dataset_entries (section_of overlay ''datasets'') = Inr ds"
    "merge_datasets (dict_of ds) (promoted_of (map snd (dict_of es)) []) [] = Inr (promoted, entries)"
    "add_promoted promoted entries = Inr base" "entries_ok base"
    "\<forall>e \<in> set (map snd (dict_of es)). candidate_ok e"
    "plan_migration overlay dg = Inr \<lparr>mp_source_digest = dg,
       mp_entries = ordered_entries (add_candidates (map snd (dict_of es)) base),
       mp_config = config, mp_schema_version = DATASET_STATE_SCHEMA_VERSION\<rparr>"
proof -
  from assms obtain fs where fs: "overlay = JObj fs"
    by (auto simp: overlay_wellformed_def split: json.splits)
  with assms obtain config where config: "plan_config (dict_get fs ''config'') = Inr config"
    by (auto simp: overlay_wellformed_def split: sum.splits)
  have checks: "check_schema_version fs = Inr ()"
    "overlay_section fs ''datasets'' = Inr (section_of overlay ''datasets'')"
    "overlay_section fs ''candidates'' = Inr (section_of overlay ''candidates'')"
    using assms by (auto simp: overlay_wellformed_def fs check_schema_version_cases
        overlay_section_cases section_of_def split: option.splits json.splits)
  obtain es where es: "candidate_entries (section_of overlay ''candidates'') = Inr es"
    "\<forall>e \<in> set (map snd es). candidate_ok e" by (rule candidate_entries_ok)
  obtain ds where ds: "dataset_entries (section_of overlay ''datasets'') = Inr ds"
    "\<forall>(k, e) \<in> set ds. dataset_ok k e" by (rule dataset_entries_ok)
  have ces: "\<forall>e \<in> set (map snd (dict_of es)). candidate_ok e" using es(2) dict_of_set [of es] by auto
  have "promoted_ok []" "entries_ok []" by (simp_all add: promoted_ok_def entries_ok_def)
  moreover have "\<forall>(k, e) \<in> set (dict_of ds). dataset_ok k e" using ds(2) dict_of_set [of ds] by auto
  ultimately obtain promoted entries where
    m: "merge_datasets (dict_of ds) (promoted_of (map snd (dict_of es)) []) [] = Inr (promoted, entries)"
      "promoted_ok promoted" "entries_ok entries"
    using merge_datasets_ok promoted_of_ok [OF ces] by metis
  have "\<forall>(k, c) \<in> set promoted. table_key k \<and> cr_table_id c = k \<and> publishable c"
    using m(2) by (auto simp: promoted_ok_def dest!: dict_ok_get)
  from add_promoted_ok [OF this m(3)] obtain base where
    base: "add_promoted promoted entries = Inr base" "entries_ok base" by blast
  show ?thesis
    by (rule that [OF es(1) ds(1) m(1) base ces, of config])
      (simp add: plan_migration_def fs config checks [unfolded fs] es(1) [unfolded fs]
        ds(1) [unfolded fs] m(1) base(1) Let_def)
qed

lemma overlay_section_returns:
  "(\<exists>x. overlay_section fs name = Inr x) \<longleftrightarrow>
     (case dict_get fs name of None \<Rightarrow> True | Some JNull \<Rightarrow> True | Some (JObj _) \<Rightarrow> True | _ \<Rightarrow> False)"
  by (simp add: overlay_section_cases split: option.split json.split)

lemma overlay_wellformed_iff:
  "overlay_wellformed (JObj fs) \<longleftrightarrow>
     (\<exists>u. check_schema_version fs = Inr u) \<and> (\<exists>x. overlay_section fs ''datasets'' = Inr x) \<and>
     (\<exists>x. overlay_section fs ''candidates'' = Inr x) \<and> (\<exists>x. plan_config (dict_get fs ''config'') = Inr x)"
  unfolding overlay_section_returns
  by (simp add: overlay_wellformed_def check_schema_version_cases split: sum.split)

lemma plan_malformed:
  assumes "\<not> overlay_wellformed overlay"
  shows "\<exists>m. plan_migration overlay dg = Inl (LegacyOverlayError m)"
proof (cases overlay)
  case (JObj fs)
  show ?thesis
  proof (cases "check_schema_version fs")
    case (Inl e)
    then show ?thesis by (auto simp: plan_migration_def JObj dest: legacy_errors)
  next
    case a: (Inr u)
    show ?thesis
    proof (cases "overlay_section fs ''datasets''")
      case (Inl e)
      with a show ?thesis by (auto simp: plan_migration_def JObj dest: legacy_errors)
    next
      case b: (Inr x)
      show ?thesis
      proof (cases "overlay_section fs ''candidates''")
        case (Inl e)
        with a b show ?thesis by (auto simp: plan_migration_def JObj dest: legacy_errors)
      next
        case c: (Inr y)
        with a b assms obtain e where "plan_config (dict_get fs ''config'') = Inl e"
          by (cases "plan_config (dict_get fs ''config'')") (auto simp: overlay_wellformed_iff JObj)
        with a b c show ?thesis by (auto simp: plan_migration_def JObj dest: legacy_errors)
      qed
    qed
  qed
qed (simp_all add: plan_migration_def)

lemma add_candidates_keep:
  "dict_get d i = Some e \<Longrightarrow> \<forall>e' \<in> set es. pe_record_id e' = i \<longrightarrow> e' = e \<Longrightarrow>
     dict_get (add_candidates es d) i = Some e"
  by (induction es arbitrary: d) auto

lemma add_candidates_get:
  assumes "e \<in> set es" and "\<forall>e' \<in> set es. pe_record_id e' = pe_record_id e \<longrightarrow> e' = e"
  shows "dict_get (add_candidates es d) (pe_record_id e) = Some e"
  using assms
proof (induction es arbitrary: d)
  case (Cons a es)
  show ?case
  proof (cases "a = e")
    case True
    with Cons.prems(2) show ?thesis by (simp add: add_candidates_keep)
  next
    case False
    with Cons show ?thesis by simp
  qed
qed simp

lemma add_candidates_other:
  "\<forall>e \<in> set es. pe_record_id e \<noteq> i \<Longrightarrow> dict_get (add_candidates es d) i = dict_get d i"
  by (induction es arbitrary: d) auto

end
