(* ===== verification/Dataset_Import.thy ===== *)
theory Dataset_Import
  imports Dataset_Migration
begin

text \<open>
  What the migration planner and the import transaction of the stores guarantee: the plan accounts for
  every legacy record, and committing it writes exactly the planned records, once, over nothing.
\<close>

section \<open>Plans\<close>

text \<open>
  C9: planning fails closed. A plan is produced exactly for a well-formed overlay (an object whose
  schema version is an integer not ahead of the store, whose sections are objects and whose config is
  well-typed); anything else raises \<open>LegacyOverlayError\<close>, and no single record, whatever JSON it
  holds, makes planning raise.
\<close>

theorem plan_fails_closed:
  "case plan_migration overlay dg of
      Inr _ \<Rightarrow> overlay_wellformed overlay
    | Inl e \<Rightarrow> \<not> overlay_wellformed overlay \<and> (\<exists>m. e = LegacyOverlayError m)"
proof (cases "overlay_wellformed overlay")
  case True
  show ?thesis by (rule plan_shape [OF True, of dg]) (simp add: True)
next
  case False
  with plan_malformed [OF False, of dg] show ?thesis by auto
qed

lemma plan_Inr_wellformed:
  assumes "plan_migration overlay dg = Inr p"
  shows "overlay_wellformed overlay"
  using plan_malformed [of overlay dg] assms by auto

lemma plan_entries_ok:
  assumes "plan_migration overlay dg = Inr p"
  shows "sorted (map pe_record_id (mp_entries p)) \<and> distinct (map pe_record_id (mp_entries p)) \<and>
    (\<forall>e \<in> set (mp_entries p). entry_ok e)"
proof (rule plan_shape [OF plan_Inr_wellformed [OF assms], of dg])
  fix es ds promoted entries base config
  assume a: "entries_ok base" "\<forall>e \<in> set (map snd (dict_of es)). candidate_ok e"
    "plan_migration overlay dg = Inr \<lparr>mp_source_digest = dg,
       mp_entries = ordered_entries (add_candidates (map snd (dict_of es)) base),
       mp_config = config, mp_schema_version = DATASET_STATE_SCHEMA_VERSION\<rparr>"
  let ?d = "add_candidates (map snd (dict_of es)) base"
  have d: "entries_ok ?d"
    using a(1,2) by (intro add_candidates_ok) (auto simp: candidate_ok_def)
  from a(3) assms have p: "mp_entries p = ordered_entries ?d" by auto
  show ?thesis
    unfolding p ordered_entries_ids [OF d] ordered_entries_set
    using d by (auto simp: entries_ok_def dict_ok_def)
qed

text \<open>
  A plan's entries are sorted by record id, no two share an id, and each is either a rejection
  without a record or an import of a valid record that sits under the entry's own id.
\<close>

theorem plan_entries_sound:
  assumes "plan_migration overlay dg = Inr p"
  shows "sorted (map pe_record_id (mp_entries p)) \<and> distinct (map pe_record_id (mp_entries p)) \<and>
    (\<forall>e \<in> set (mp_entries p).
       case pe_action e of
         ENTRY_REJECT \<Rightarrow> pe_record e = None
       | ENTRY_IMPORT \<Rightarrow> (\<exists>r. pe_record e = Some r \<and> record_valid r \<and> record_id r = pe_record_id e))"
  using plan_entries_ok [OF assms] by (simp add: entry_ok_def)

definition example_overlay :: json where
  "example_overlay = JObj
     [(''candidates'', JObj
        [(''t'', JObj [(''state'', JStr ''promoted''), (''owner'', JStr ''ann'')]),
         (''u'', JObj [(''state'', JStr ''claimed'')]),
         ('' v'', JObj [])]),
      (''config'', JObj [])]"

lemma example_import_plan: "\<exists>p. plan_migration example_overlay ''d'' = Inr p"
proof -
  have "case plan_migration example_overlay ''d'' of Inl _ \<Rightarrow> False | Inr _ \<Rightarrow> True" by code_simp
  then show ?thesis by (auto split: sum.splits)
qed

theorem plan_entries_sound_witness:
  "\<exists>p. plan_migration example_overlay ''d'' = Inr p \<and> sorted (map pe_record_id (mp_entries p)) \<and>
     distinct (map pe_record_id (mp_entries p))"
  using example_import_plan plan_entries_sound by blast

text \<open>
  A legacy candidate with a valid table key is planned as its own rule says, as long as no other
  candidate key of the overlay is the text of its candidate id: its entry is in the plan.
\<close>

theorem plan_keeps_candidate:
  assumes "plan_migration overlay dg = Inr p"
    and "dict_ok (section_of overlay ''candidates'')"
    and "(k, JObj fs) \<in> set (section_of overlay ''candidates'')" and "table_key k"
    and "CANDIDATE_ID_PREFIX @ k \<notin> fst ` set (section_of overlay ''candidates'')"
  shows "\<exists>e. candidate_entry k fs = Inr e \<and> e \<in> set (mp_entries p)"
proof (rule plan_shape [OF plan_Inr_wellformed [OF assms(1)], of dg])
  fix es ds promoted entries base config
  assume a: "candidate_entries (section_of overlay ''candidates'') = Inr es"
    "plan_migration overlay dg = Inr \<lparr>mp_source_digest = dg,
       mp_entries = ordered_entries (add_candidates (map snd (dict_of es)) base),
       mp_config = config, mp_schema_version = DATASET_STATE_SCHEMA_VERSION\<rparr>"
  from a(1) have keys: "map fst es = map fst (section_of overlay ''candidates'')"
    and items: "\<exists>e. candidate_entry k fs = Inr e \<and> (k, e) \<in> set es"
    and ids: "\<forall>(k, e) \<in> set es. pe_record_id e = (if table_key k then CANDIDATE_ID_PREFIX @ k else k)"
    by (rule_tac candidate_entries_ok [of "section_of overlay ''candidates''"],
        use assms(3,4) in fastforce)+
  from items obtain e where e: "candidate_entry k fs = Inr e" "(k, e) \<in> set es" by blast
  have ok: "dict_ok es" using assms(2) keys by (simp add: dict_ok_def)
  have "e' = e" if "e' \<in> set (map snd es)" "pe_record_id e' = pe_record_id e" for e'
  proof -
    from that(1) obtain k' where k': "(k', e') \<in> set es" by auto
    then have "pe_record_id e' = (if table_key k' then CANDIDATE_ID_PREFIX @ k' else k')"
      using ids by auto
    moreover have "pe_record_id e = CANDIDATE_ID_PREFIX @ k" using ids e(2) assms(4) by auto
    moreover have "k' \<in> fst ` set (section_of overlay ''candidates'')"
    proof -
      from k' have "k' \<in> set (map fst es)" by force
      then show ?thesis unfolding keys by simp
    qed
    ultimately have "k' = k" using that(2) assms(5) by (auto split: if_splits)
    with dict_ok_get [OF ok k'] dict_ok_get [OF ok e(2)] show "e' = e" by simp
  qed
  then have "dict_get (add_candidates (map snd (dict_of es)) base) (pe_record_id e) = Some e"
    using e(2) by (intro add_candidates_get) (force simp: dict_of_distinct [OF ok])+
  with a(2) assms(1) e(1) show ?thesis by (auto simp: ordered_entries_set)
qed

theorem plan_keeps_candidate_witness:
  "\<exists>p e. plan_migration example_overlay ''d'' = Inr p \<and>
     candidate_entry ''u'' [(''state'', JStr ''claimed'')] = Inr e \<and> e \<in> set (mp_entries p)"
proof -
  from example_import_plan obtain p where p: "plan_migration example_overlay ''d'' = Inr p" by blast
  have s: "section_of example_overlay ''candidates'' =
        [(''t'', JObj [(''state'', JStr ''promoted''), (''owner'', JStr ''ann'')]),
         (''u'', JObj [(''state'', JStr ''claimed'')]), ('' v'', JObj [])]"
    by (simp add: section_of_def example_overlay_def)
  have "table_key ''u''" by code_simp
  with plan_keeps_candidate [OF p, of "''u''" "[(''state'', JStr ''claimed'')]"] p show ?thesis
    by (simp add: s dict_ok_def CANDIDATE_ID_PREFIX_def)
qed

text \<open>
  That side condition is needed. A second candidate key that spells the first one's candidate id is
  itself rejected as an invalid key, but its rejection replaces the first candidate's import: the
  overlay's only valid record is dropped from the plan, although the code states that candidate
  entries never collide.
\<close>

theorem plan_collision:
  "map_sum id (map pe_action \<circ> mp_entries) (plan_migration (JObj [(''candidates'', JObj
      [(''u'', JObj [(''state'', JStr ''claimed'')])])]) ''d'') = Inr [ENTRY_IMPORT] \<and>
   map_sum id (map pe_action \<circ> mp_entries) (plan_migration (JObj [(''candidates'', JObj
      [(''u'', JObj [(''state'', JStr ''claimed'')]),
       (''candidate:u'', JObj [(''state'', JStr ''claimed'')])])]) ''d'') = Inr [ENTRY_REJECT]"
  by code_simp

section \<open>The import transaction\<close>

lemma record_at_import:
  assumes "\<forall>r \<in> set rs. record_valid r"
  shows "record_at (s\<lparr>co_records := import_records (co_records s) rs\<rparr>) i =
    (case List.find (\<lambda>r. record_id r = i) (rev rs) of Some r \<Rightarrow> Some r | None \<Rightarrow> record_at s i)"
  using assms
proof (induction rs arbitrary: s)
  case Nil
  then show ?case by (simp add: record_at_def)
next
  case (Cons r rs)
  let ?s = "s\<lparr>co_records := dict_set (co_records s) (record_id r) (to_read_model r)\<rparr>"
  have "record_at ?s i = (if i = record_id r then Some r else record_at s i)"
    using Cons.prems payload_read_model by (simp add: record_at_def)
  moreover have "List.find P (xs @ [x]) = (case List.find P xs of None \<Rightarrow> if P x then Some x else None | v \<Rightarrow> v)"
    for P xs and x :: state_record
    by (induction xs) auto
  moreover have "record_at (s\<lparr>co_records := import_records (co_records s) (r # rs)\<rparr>) i =
      (case List.find (\<lambda>r. record_id r = i) (rev rs) of Some r \<Rightarrow> Some r | None \<Rightarrow> record_at ?s i)"
    using Cons.IH [of ?s] Cons.prems by simp
  ultimately show ?case
    by (cases "i = record_id r") (auto split: option.splits)
qed

lemma import_records_ok:
  "collection_ok s \<Longrightarrow> \<forall>r \<in> set rs. record_valid r \<Longrightarrow>
     collection_ok (s\<lparr>co_records := import_records (co_records s) rs\<rparr>)"
proof (induction rs arbitrary: s)
  case Nil
  then show ?case by simp
next
  case (Cons r rs)
  let ?s = "s\<lparr>co_records := dict_set (co_records s) (record_id r) (to_read_model r)\<rparr>"
  have "collection_ok ?s" using Cons.prems by (auto simp: collection_ok_def)
  with Cons.IH [of ?s] Cons.prems show ?case by simp
qed

lemma collection_ok_cong: "co_records s' = co_records s \<Longrightarrow> collection_ok s' = collection_ok s"
  by (simp add: collection_ok_def)

lemma record_at_cong: "co_records s' = co_records s \<Longrightarrow> record_at s' = record_at s"
  by (simp add: record_at_def fun_eq_iff)

lemma record_at_Some_has: "collection_ok s \<Longrightarrow> record_at s i = None \<longleftrightarrow> \<not> dict_has (co_records s) i"
proof -
  assume ok: "collection_ok s"
  show ?thesis
  proof (cases "dict_get (co_records s) i")
    case None
    then show ?thesis by (simp add: record_at_None dict_has_get)
  next
    case (Some p)
    then show ?thesis using ok by (auto simp: dict_has_get elim: collection_ok_get)
  qed
qed

lemma existing_record_None:
  "existing_record records rs = None \<longleftrightarrow> (\<forall>r \<in> set rs. \<not> dict_has records (record_id r))"
  by (induction rs) auto

definition imported_over :: "(string \<Rightarrow> state_record option) \<Rightarrow> state_record list
    \<Rightarrow> string \<Rightarrow> state_record option" where
  "imported_over m rs i =
     (case List.find (\<lambda>r. record_id r = i) (rev rs) of Some r \<Rightarrow> Some r | None \<Rightarrow> m i)"

lemma imported_over_distinct:
  assumes "distinct (map record_id rs)" and "r \<in> set rs"
  shows "imported_over m rs (record_id r) = Some r"
proof -
  obtain r' where r': "List.find (\<lambda>q. record_id q = record_id r) (rev rs) = Some r'"
    using assms(2) by (cases "List.find (\<lambda>q. record_id q = record_id r) (rev rs)")
      (auto simp: find_None_iff)
  have "List.find P xs = Some x \<Longrightarrow> x \<in> set xs \<and> P x" for P xs and x :: state_record
    by (induction xs) (auto split: if_splits)
  from this [OF r'] have "r' \<in> set rs" "record_id r' = record_id r" by simp_all
  with assms have "r' = r" by (auto simp: distinct_map inj_on_def)
  with r' show ?thesis by (simp add: imported_over_def)
qed

lemma commit_migration_cases:
  assumes ok: "collection_ok s" and valid: "\<forall>r \<in> set rs. record_valid r"
    and rb: "\<And>i. rebuild (dict_get (co_records s) i) = Inr (record_at s i)"
  obtains (stay) R where "commit_migration_with rebuild s rs config aid fp actor scope = Inr (R, s)"
      "sr_status R \<noteq> SW_COMMITTED"
      "\<And>m. dict_get (co_migrations s) aid = Some m \<Longrightarrow> mj_fingerprint m = fp \<Longrightarrow>
         sr_status R = SW_REPLAYED \<and> sr_records R = List.map_filter (record_at s) (mj_record_ids m)"
      "dict_get (co_migrations s) aid = None \<Longrightarrow> \<exists>r \<in> set rs. record_at s (record_id r) \<noteq> None"
    | (commit) R s' where "commit_migration_with rebuild s rs config aid fp actor scope = Inr (R, s')"
      "sr_status R = SW_COMMITTED" "sr_records R = rs" "collection_ok s'"
      "record_at s' = imported_over (record_at s) rs"
      "dict_get (co_migrations s) aid = None" "\<forall>r \<in> set rs. record_at s (record_id r) = None"
      "dict_get (co_migrations s') aid = Some \<lparr>mj_fingerprint = fp, mj_record_ids = map record_id rs,
         mj_actor = actor, mj_scope = scope\<rparr>"
      "co_actions s' = co_actions s" "co_discards s' = co_discards s" "co_config s' = config"
      "co_audit s' = co_audit s @ [import_event (length rs) aid actor scope]"
proof (cases "dict_get (co_migrations s) aid")
  case (Some m)
  show ?thesis
  proof (cases "mj_fingerprint m = fp")
    case True
    with Some stored_records_ok [of rebuild, OF rb]
    have "commit_migration_with rebuild s rs config aid fp actor scope =
      Inr (\<lparr>sr_status = SW_REPLAYED, sr_records = List.map_filter (record_at s) (mj_record_ids m),
        sr_fingerprint = Some fp,
        sr_detail = ''Overlay migration already committed; replaying the stored result.''\<rparr>, s)"
      by (simp add: commit_migration_with_def)
    then show ?thesis by (rule stay) (use Some True in simp_all)
  next
    case False
    with Some have "commit_migration_with rebuild s rs config aid fp actor scope =
      Inr (\<lparr>sr_status = SW_ACTION_CONFLICT, sr_records = [], sr_fingerprint = None,
        sr_detail = ''Migration action_id '' @ py_repr aid @ '' was committed with a different plan.''\<rparr>, s)"
      by (simp add: commit_migration_with_def)
    then show ?thesis by (rule stay) (use Some False in simp_all)
  qed
next
  case none: None
  show ?thesis
  proof (cases "existing_record (co_records s) rs")
    case (Some r)
    then have "existing_record (co_records s) rs \<noteq> None" by simp
    then have "\<exists>r \<in> set rs. record_at s (record_id r) \<noteq> None"
      using record_at_Some_has [OF ok] by (auto simp: existing_record_None)
    moreover from Some none have "commit_migration_with rebuild s rs config aid fp actor scope =
      Inr (\<lparr>sr_status = SW_ACTION_CONFLICT, sr_records = [], sr_fingerprint = None,
        sr_detail = record_id r @ '' already exists in the durable store; '' @
          ''refusing to overwrite it during overlay migration.''\<rparr>, s)"
      by (simp add: commit_migration_with_def)
    ultimately show ?thesis by (intro stay) (use none in auto)
  next
    case None
    let ?s = "s\<lparr>co_records := import_records (co_records s) rs, co_config := config,
      co_migrations := dict_set (co_migrations s) aid
        \<lparr>mj_fingerprint = fp, mj_record_ids = map record_id rs, mj_actor = actor, mj_scope = scope\<rparr>,
      co_audit := co_audit s @ [import_event (length rs) aid actor scope]\<rparr>"
    have c: "commit_migration_with rebuild s rs config aid fp actor scope =
      Inr (\<lparr>sr_status = SW_COMMITTED, sr_records = rs, sr_fingerprint = Some fp,
        sr_detail = import_detail (length rs)\<rparr>, ?s)"
      using none None by (simp add: commit_migration_with_def)
    have "collection_ok ?s"
      using collection_ok_cong [of ?s "s\<lparr>co_records := import_records (co_records s) rs\<rparr>"]
        import_records_ok [OF ok valid] by simp
    moreover have "record_at ?s = imported_over (record_at s) rs"
      using record_at_cong [of ?s "s\<lparr>co_records := import_records (co_records s) rs\<rparr>"]
        record_at_import [OF valid] by (simp add: fun_eq_iff imported_over_def)
    moreover have "\<forall>r \<in> set rs. record_at s (record_id r) = None"
      using None record_at_Some_has [OF ok] by (simp add: existing_record_None)
    ultimately show ?thesis using none by (intro commit [OF c]) simp_all
  qed
qed

lemma plan_records_ok:
  assumes "plan_migration overlay dg = Inr p"
  shows "\<forall>r \<in> set (plan_records p). record_valid r" "distinct (map record_id (plan_records p))"
proof -
  note ok = plan_entries_ok [OF assms]
  have imp: "pe_record e = Some r \<and> record_valid r \<and> record_id r = pe_record_id e"
    if "e \<in> set (mp_entries p)" "pe_imported e" "pe_record e = Some r" for e r
    using ok that by (auto simp: entry_ok_def pe_imported_def)
  show "\<forall>r \<in> set (plan_records p). record_valid r"
    using imp by (auto simp: plan_records_def plan_imports_def map_filter_set)
  have "map record_id (List.map_filter pe_record (filter pe_imported es)) =
      map pe_record_id (filter pe_imported es)"
    if "set es \<subseteq> set (mp_entries p)" for es
    using that
  proof (induction es)
    case (Cons e es)
    have "entry_ok e" using ok Cons.prems by simp
    then have "pe_imported e \<Longrightarrow> \<exists>r. pe_record e = Some r \<and> record_id r = pe_record_id e"
      by (auto simp: entry_ok_def pe_imported_def)
    with Cons show ?case by (auto simp: map_filter_simps)
  qed (simp add: map_filter_simps)
  from this [of "mp_entries p"] ok show "distinct (map record_id (plan_records p))"
    by (simp add: plan_records_def plan_imports_def distinct_map_filter)
qed

lemma durable_commit_cases:
  assumes "cell_ok cell" and "\<forall>r \<in> set rs. record_valid r"
  obtains (stay) R cell' where "durable_commit_migration cell rs config aid fp actor scope = Inr (R, cell')"
      "cell_abs cell' = cell_abs cell" "cell_ok cell'" "sr_status R \<noteq> SW_COMMITTED"
      "\<And>s. cell = cell_of s \<Longrightarrow> cell' = cell"
      "\<And>m. durable_committed_migration cell aid = Inr (Some m) \<Longrightarrow> mj_fingerprint m = fp \<Longrightarrow>
         sr_status R = SW_REPLAYED \<and>
         sr_records R = List.map_filter (ab_records (cell_abs cell)) (mj_record_ids m)"
      "durable_committed_migration cell aid = Inr None \<Longrightarrow>
         \<exists>r \<in> set rs. ab_records (cell_abs cell) (record_id r) \<noteq> None"
    | (commit) R s s' cell' where "durable_commit_migration cell rs config aid fp actor scope = Inr (R, cell')"
      "sr_status R = SW_COMMITTED" "sr_records R = rs" "cell_ok cell'"
      "validated_state cell = Inr s" "cell' = cell_of s'" "co_actions s' = co_actions s"
      "co_discards s' = co_discards s" "co_config s' = config"
      "co_audit s' = co_audit s @ [import_event (length rs) aid actor scope]"
      "ab_records (cell_abs cell') = imported_over (ab_records (cell_abs cell)) rs"
      "durable_committed_migration cell aid = Inr None"
      "\<forall>r \<in> set rs. ab_records (cell_abs cell) (record_id r) = None"
      "durable_committed_migration cell' aid = Inr (Some \<lparr>mj_fingerprint = fp,
         mj_record_ids = map record_id rs, mj_actor = actor, mj_scope = scope\<rparr>)"
proof -
  from assms(1) obtain s where s: "validated_state cell = Inr s" "collection_ok s"
    by (auto simp: cell_ok_def)
  note simps = durable_commit_migration_def durable_committed_migration_def cell_abs_def cell_ok_def
  show ?thesis
  proof (cases rule: commit_migration_cases [OF s(2) assms(2), where rebuild = durable_record and
      aid = aid and fp = fp and config = config and actor = actor and scope = scope])
    case 1
    show ?case by (rule durable_record_ok [OF s(2)])
  next
    case (2 R)
    with s show ?thesis
      by (intro stay [of R "cell_of s"]) (auto simp: simps)
  next
    case (3 R s')
    with s show ?thesis
      by (intro commit [of R "cell_of s'" s s']) (simp_all add: simps)
  qed
qed

text \<open>
  C10: importing a plan. On a readable store (every stored record is one the reader accepts) that has none
  of the planned records and has not committed the action id, the transaction commits: every planned record
  reads back as planned, every other record is untouched, the planned configuration replaces the stored
  one, actions and discards stay, and one event is added to the audit trail. The same call again, with the
  same action id and fingerprint, replays: it reports the same records and leaves the whole stored document,
  with its records, actions, audit trail, configuration, migration journal and discards, as it is.
\<close>

theorem import_exactly_once:
  assumes "plan_migration overlay dg = Inr p" and "cell_ok cell"
    and "\<forall>r \<in> set (plan_records p). ab_records (cell_abs cell) (record_id r) = None"
    and "durable_committed_migration cell aid = Inr None"
  shows "\<exists>R cell' s s' R2.
    durable_commit_migration cell (plan_records p) (mp_config p) aid fp actor scope = Inr (R, cell') \<and>
    sr_status R = SW_COMMITTED \<and> cell_ok cell' \<and>
    (\<forall>i. ab_records (cell_abs cell') i =
       (case List.find (\<lambda>r. record_id r = i) (rev (plan_records p)) of
          Some r \<Rightarrow> Some r | None \<Rightarrow> ab_records (cell_abs cell) i)) \<and>
    validated_state cell = Inr s \<and> validated_state cell' = Inr s' \<and>
    co_config s' = mp_config p \<and> co_actions s' = co_actions s \<and> co_discards s' = co_discards s \<and>
    co_audit s' = co_audit s @ [import_event (length (plan_records p)) aid actor scope] \<and>
    durable_commit_migration cell' (plan_records p) (mp_config p) aid fp actor scope = Inr (R2, cell') \<and>
    sr_status R2 = SW_REPLAYED \<and> sr_records R2 = plan_records p"
proof -
  let ?rs = "plan_records p"
  note valid = plan_records_ok(1) [OF assms(1)]
  show ?thesis
  proof (cases rule: durable_commit_cases [OF assms(2) valid, where config = "mp_config p" and aid = aid
      and fp = fp and actor = actor and scope = scope])
    case (1 R cell')
    with assms(3,4) show ?thesis by auto
  next
    case first: (2 R s s' cell')
    have "List.map_filter (ab_records (cell_abs cell')) (map record_id rs) = rs" if "set rs \<subseteq> set ?rs" for rs
      using that
      by (induction rs) (auto simp: first(11) map_filter_simps
          imported_over_distinct [OF plan_records_ok(2) [OF assms(1)]])
    then have reread: "List.map_filter (ab_records (cell_abs cell')) (map record_id ?rs) = ?rs" by simp
    obtain R2 where again: "durable_commit_migration cell' ?rs (mp_config p) aid fp actor scope = Inr (R2, cell')"
      "sr_status R2 = SW_REPLAYED" "sr_records R2 = ?rs"
    proof (cases rule: durable_commit_cases [OF first(4) valid, where config = "mp_config p" and aid = aid
        and fp = fp and actor = actor and scope = scope])
      case (1 R2 cell2)
      with 1(6) [OF first(14)] 1(5) [OF first(6)] reread that show ?thesis by simp
    next
      case (2 R2 t t' cell2)
      with first(14) show ?thesis by simp
    qed
    then show ?thesis
      using first by (intro exI [of _ R] exI [of _ cell'] exI [of _ s] exI [of _ s'] exI [of _ R2])
        (simp add: imported_over_def)
  qed
qed

theorem import_exactly_once_witness:
  "\<exists>p R cell'. plan_migration example_overlay ''d'' = Inr p \<and>
     durable_commit_migration None (plan_records p) (mp_config p) ''a'' ''f'' None None = Inr (R, cell') \<and>
     sr_status R = SW_COMMITTED"
proof -
  from example_import_plan obtain p where p: "plan_migration example_overlay ''d'' = Inr p" by blast
  have "cell_ok None" "\<And>i. ab_records (cell_abs None) i = None"
    "durable_committed_migration None ''a'' = Inr None"
    by (simp_all add: cell_ok_def collection_ok_def empty_collection_def cell_abs_def record_at_def
        payload_record_def durable_committed_migration_def)
  with import_exactly_once [OF p, where cell = None and aid = "''a''" and fp = "''f''"
      and actor = None and scope = None] p show ?thesis by blast
qed

text \<open>
  The import never overwrites. Whatever valid records a migration commits and whatever the store
  holds, every record that was there before is there, unchanged, afterwards, and unless the call
  reports COMMITTED nothing changed at all.
\<close>

theorem import_never_overwrites:
  assumes "cell_ok cell" and "\<forall>r \<in> set rs. record_valid r"
    and "durable_commit_migration cell rs config aid fp actor scope = Inr (R, cell')"
  shows "(ab_records (cell_abs cell) i = Some r \<longrightarrow> ab_records (cell_abs cell') i = Some r) \<and>
    (sr_status R \<noteq> SW_COMMITTED \<longrightarrow> cell_abs cell' = cell_abs cell)"
proof (cases rule: durable_commit_cases [OF assms(1,2), where config = config and aid = aid and fp = fp
      and actor = actor and scope = scope])
  case (1 R' c)
  with assms(3) show ?thesis by simp
next
  case (2 R' s0 s1 c)
  have "imported_over m rs i = m i" if "\<forall>r \<in> set rs. record_id r \<noteq> i" for m
  proof -
    have "List.find (\<lambda>r. record_id r = i) (rev rs) = None" using that by (simp add: find_None_iff)
    then show ?thesis by (simp add: imported_over_def)
  qed
  moreover have "\<forall>q \<in> set rs. record_id q \<noteq> i" if "ab_records (cell_abs cell) i = Some r"
    using 2(13) that by auto
  ultimately show ?thesis using 2 assms(3) by auto
qed

theorem import_never_overwrites_witness:
  "\<exists>R cell'. durable_commit_migration None [] [] ''a'' ''f'' None None = Inr (R, cell') \<and>
     (sr_status R = SW_COMMITTED \<or> cell_abs cell' = cell_abs None)"
proof -
  have ok: "cell_ok None"
    by (simp add: cell_ok_def collection_ok_def empty_collection_def)
  obtain R cell' where "durable_commit_migration None [] [] ''a'' ''f'' None None = Inr (R, cell')"
    by (rule durable_commit_cases [OF ok, where rs = "[]" and config = "[]" and aid = "''a''"
        and fp = "''f''" and actor = None and scope = None]) auto
  with import_never_overwrites [OF ok _ this] show ?thesis by auto
qed

text \<open>
  Recording a discard is idempotent. A second discard of the same source leaves the store exactly
  as the first one did, whoever records it and whatever plan digest it names.
\<close>

theorem discard_idempotent:
  assumes "durable_record_discard cell src plan actor scope = Inr cell1"
  shows "durable_record_discard cell1 src plan' actor' scope' = Inr cell1"
proof -
  from assms obtain s where s: "validated_state cell = Inr s"
    "cell1 = cell_of (discard_with s src plan actor scope)"
    by (auto simp: durable_record_discard_def bind_res_Inr_iff)
  have "\<exists>d \<in> set (co_discards (discard_with s src plan actor scope)).
      dj_action_id d = ''overlay-discard-'' @ src"
    by (auto simp: discard_with_def Let_def)
  then have "discard_with (discard_with s src plan actor scope) src plan' actor' scope' =
      discard_with s src plan actor scope"
    by (simp add: discard_with_def [of "discard_with s src plan actor scope"])
  then show ?thesis by (simp add: durable_record_discard_def s(2))
qed

theorem discard_idempotent_witness:
  "durable_record_discard (cell_of (discard_with empty_collection ''s'' ''p'' None None)) ''s'' ''q'' None None =
     Inr (cell_of (discard_with empty_collection ''s'' ''p'' None None))"
  by (rule discard_idempotent [where cell = None and plan = "''p''" and actor = None and scope = None])
    (simp add: durable_record_discard_def)

end
