(* ===== verification/Lineage_Graph.thy ===== *)
theory Lineage_Graph
  imports Phlo_Prelude
begin

text \<open>
  \<open>phlo_lineage/graph.py\<close>: the asset lineage graph, its breadth-first traversals with an optional
  depth, the impact report and the DOT and Mermaid exports. A Python set is a HOL set.
\<close>

record asset =
  as_name :: string
  as_type :: string
  as_status :: string
  as_description :: "string option"

record lineage_graph =
  lg_assets :: "(string, asset) dict"
  lg_edges :: "(string, string list) dict"

definition empty_graph :: lineage_graph where
  "empty_graph = \<lparr>lg_assets = [], lg_edges = []\<rparr>"

definition new_asset :: "string \<Rightarrow> string \<Rightarrow> string \<Rightarrow> asset" where
  "new_asset name asset_type status =
     \<lparr>as_name = name, as_type = asset_type, as_status = status, as_description = None\<rparr>"

definition add_asset :: "lineage_graph \<Rightarrow> string \<Rightarrow> string \<Rightarrow> string \<Rightarrow> lineage_graph" where
  "add_asset g name asset_type status =
     (if dict_has (lg_assets g) name then g
      else g\<lparr>lg_assets := dict_set (lg_assets g) name (new_asset name asset_type status)\<rparr>)"

text \<open>\<open>self.edges\<close> is a \<open>defaultdict(list)\<close>: looking a source up for writing creates its entry.\<close>

definition targets_of :: "lineage_graph \<Rightarrow> string \<Rightarrow> string list" where
  "targets_of g source = (case dict_get (lg_edges g) source of None \<Rightarrow> [] | Some ts \<Rightarrow> ts)"

definition add_edge :: "lineage_graph \<Rightarrow> string \<Rightarrow> string \<Rightarrow> lineage_graph" where
  "add_edge g source target =
     (let g = add_asset (add_asset g source ''unknown'' ''unknown'') target ''unknown'' ''unknown''
      in if target \<in> set (targets_of g source) then g
         else g\<lparr>lg_edges := dict_set (lg_edges g) source (targets_of g source @ [target])\<rparr>)"

section \<open>Traversals\<close>

datatype direction = Upstream | Downstream

fun neighbours :: "direction \<Rightarrow> (string, string list) dict \<Rightarrow> string \<Rightarrow> string list" where
  "neighbours Upstream edges current = map fst (filter (\<lambda>e. current \<in> set (snd e)) edges)"
| "neighbours Downstream edges current = (case dict_get edges current of None \<Rightarrow> [] | Some ts \<Rightarrow> ts)"

definition edge_nodes :: "(string, string list) dict \<Rightarrow> string set" where
  "edge_nodes edges = fst ` set edges \<union> \<Union> (set ` snd ` set edges)"

lemma finite_edge_nodes [simp]: "finite (edge_nodes edges)"
  by (simp add: edge_nodes_def)

lemma neighbours_nodes: "set (neighbours dir edges n) \<subseteq> edge_nodes edges"
proof (cases dir)
  case Upstream
  then show ?thesis by (auto simp: edge_nodes_def)
next
  case Downstream
  then show ?thesis
    by (cases "dict_get edges n") (force simp: edge_nodes_def dest: map_of_SomeD)+
qed

definition deeper :: "int option \<Rightarrow> nat \<Rightarrow> bool" where
  "deeper depth d = (case depth of None \<Rightarrow> True | Some k \<Rightarrow> int d < k)"

text \<open>
  The \<open>while queue\<close> loop of \<open>get_upstream\<close> and \<open>get_downstream\<close>, which differ only in how they find the
  neighbours of the current asset.
\<close>

function (sequential) traverse :: "direction \<Rightarrow> (string, string list) dict \<Rightarrow> int option
    \<Rightarrow> (string \<times> nat) list \<Rightarrow> string set \<Rightarrow> string set \<Rightarrow> string set" where
  "traverse dir edges depth [] visited found = found"
| "traverse dir edges depth ((current, d) # queue) visited found =
     (if current \<in> visited then traverse dir edges depth queue visited found
      else
        let ns = neighbours dir edges current;
            more = (if deeper depth d then map (\<lambda>n. (n, Suc d)) ns else [])
        in traverse dir edges depth (queue @ more) (insert current visited) (found \<union> set ns))"
  by pat_completeness auto
termination
proof (relation "measures [\<lambda>(dir, edges, depth, queue, visited, found).
      card ((edge_nodes edges \<union> fst ` set queue) - visited),
      \<lambda>(dir, edges, depth, queue, visited, found). length queue]", goal_cases)
  case 1
  show ?case by simp
next
  case (2 dir edges depth current d queue visited found)
  let ?old = "(edge_nodes edges \<union> fst ` set ((current, d) # queue)) - visited"
  let ?new = "(edge_nodes edges \<union> fst ` set queue) - visited"
  have "?new \<subseteq> ?old" by auto
  then have "card ?new \<le> card ?old" by (intro card_mono) auto
  then show ?case by auto
next
  case (3 dir edges depth current d queue visited found ns more)
  let ?old = "(edge_nodes edges \<union> fst ` set ((current, d) # queue)) - visited"
  let ?new = "(edge_nodes edges \<union> fst ` set (queue @ more)) - insert current visited"
  have "fst ` set more \<subseteq> edge_nodes edges"
    using 3(2,3) neighbours_nodes [of dir edges current] by auto
  then have "?new \<subseteq> ?old - {current}" by auto
  moreover have "current \<in> ?old" using 3(1) by simp
  ultimately have "card ?new < card ?old"
    by (intro psubset_card_mono) auto
  then show ?case by simp
qed

definition get_upstream :: "lineage_graph \<Rightarrow> string \<Rightarrow> int option \<Rightarrow> string set" where
  "get_upstream g asset_name depth = traverse Upstream (lg_edges g) depth [(asset_name, 0)] {} {}"

definition get_downstream :: "lineage_graph \<Rightarrow> string \<Rightarrow> int option \<Rightarrow> string set" where
  "get_downstream g asset_name depth = traverse Downstream (lg_edges g) depth [(asset_name, 0)] {} {}"

section \<open>Impact and exports\<close>

record impact_report =
  im_direct_count :: int
  im_indirect_count :: int
  im_publishing_affected :: bool
  im_affected_assets :: "string set"

definition asset_or_blank :: "lineage_graph \<Rightarrow> string \<Rightarrow> asset" where
  "asset_or_blank g name =
     (case dict_get (lg_assets g) name of None \<Rightarrow> new_asset [] ''unknown'' ''unknown'' | Some a \<Rightarrow> a)"

definition get_impact :: "lineage_graph \<Rightarrow> string \<Rightarrow> impact_report" where
  "get_impact g asset_name =
     (let downstream = get_downstream g asset_name None in
      \<lparr>im_direct_count = 0,
       im_indirect_count = int (card downstream) - int (card (get_downstream g asset_name (Some 1))),
       im_publishing_affected = (\<exists>a \<in> downstream. as_type (asset_or_blank g a) = ''publish''),
       im_affected_assets = downstream\<rparr>)"

definition dot_color :: "string \<Rightarrow> string" where
  "dot_color t =
     (if t = ''ingestion'' then ''lightblue'' else if t = ''transform'' then ''lightgreen''
      else if t = ''publish'' then ''lightcoral'' else ''lightgray'')"

definition dot_status_color :: "string \<Rightarrow> string" where
  "dot_status_color st =
     (if st = ''success'' then ''green'' else if st = ''warning'' then ''orange''
      else if st = ''failure'' then ''red'' else ''gray'')"

definition quoted :: "string \<Rightarrow> string" where
  "quoted s = CHR 0x22 # s @ [CHR 0x22]"

definition edge_pairs :: "lineage_graph \<Rightarrow> (string \<times> string) list" where
  "edge_pairs g = concat (map (\<lambda>(source, targets). map (Pair source) targets) (lg_edges g))"

definition to_dot :: "lineage_graph \<Rightarrow> string" where
  "to_dot g =
     str_join [CHR 0x0A]
       ([''digraph {'', ''  rankdir='' @ quoted ''LR'' @ '';''] @
        map (\<lambda>(name, a). ''  '' @ quoted name @ '' [label='' @ quoted name @ '', shape='' @ quoted ''box'' @
            '', style='' @ quoted ''filled'' @ '', fillcolor='' @ quoted (dot_color (as_type a)) @
            '', color='' @ quoted (dot_status_color (as_status a)) @ '', penwidth='' @ quoted ''2'' @ ''];'')
          (lg_assets g) @
        map (\<lambda>(source, target). ''  '' @ quoted source @ '' -> '' @ quoted target @ '';'') (edge_pairs g) @
        [''}''])"

definition safe_id :: "string \<Rightarrow> string" where
  "safe_id name =
     map (\<lambda>c. if c = CHR ''.'' then CHR ''_'' else c) (map (\<lambda>c. if c = CHR ''-'' then CHR ''_'' else c) name)"

definition mermaid_shape :: "string \<Rightarrow> string \<Rightarrow> string" where
  "mermaid_shape t name =
     (if t = ''ingestion'' then ''[('' @ name @ '' - Ingestion)]''
      else if t = ''transform'' then ''['' @ name @ '' - Transform]''
      else if t = ''publish'' then ''('' @ name @ '' - Publish)''
      else ''['' @ name @ '']'')"

definition to_mermaid :: "lineage_graph \<Rightarrow> string" where
  "to_mermaid g =
     str_join [CHR 0x0A]
       ([''graph TD''] @
        map (\<lambda>(name, a). ''  '' @ safe_id name @ quoted (mermaid_shape (as_type a) name)) (lg_assets g) @
        map (\<lambda>(source, target). ''  '' @ safe_id source @ '' --> '' @ safe_id target) (edge_pairs g))"

section \<open>Loading from the store\<close>

text \<open>
  The rows of the lineage store: key, type, status and description of a node; source and target of an
  edge. \<open>or "unknown"\<close> replaces a missing or empty value.
\<close>

type_synonym node_row = "string \<times> string option \<times> string option \<times> string option"

definition or_unknown :: "string option \<Rightarrow> string" where
  "or_unknown s = (case s of None \<Rightarrow> ''unknown'' | Some t \<Rightarrow> if t = [] then ''unknown'' else t)"

definition load_node :: "lineage_graph \<Rightarrow> node_row \<Rightarrow> lineage_graph" where
  "load_node g row =
     (case row of (key, asset_type, status, description) \<Rightarrow>
        let g = add_asset g key (or_unknown asset_type) (or_unknown status)
        in if str_truthy description
           then g\<lparr>lg_assets := dict_set (lg_assets g) key
                  ((asset_or_blank g key)\<lparr>as_description := description\<rparr>)\<rparr>
           else g)"

definition build_lineage :: "node_row list \<Rightarrow> (string \<times> string) list \<Rightarrow> lineage_graph" where
  "build_lineage nodes edges =
     foldl (\<lambda>g (source, target). add_edge g source target) (foldl load_node empty_graph nodes) edges"

section \<open>The edge relation\<close>

definition graph_ok :: "lineage_graph \<Rightarrow> bool" where
  "graph_ok g \<longleftrightarrow> dict_ok (lg_assets g) \<and> dict_ok (lg_edges g) \<and>
     (\<forall>source. distinct (targets_of g source)) \<and>
     edge_nodes (lg_edges g) \<subseteq> fst ` set (lg_assets g)"

definition edges_of :: "lineage_graph \<Rightarrow> (string \<times> string) set" where
  "edges_of g = {(source, target). target \<in> set (targets_of g source)}"

fun arrow :: "direction \<Rightarrow> lineage_graph \<Rightarrow> (string \<times> string) set" where
  "arrow Upstream g = (edges_of g)\<inverse>"
| "arrow Downstream g = edges_of g"

lemma neighbours_arrow:
  assumes "dict_ok (lg_edges g)"
  shows "set (neighbours dir (lg_edges g) n) = {m. (n, m) \<in> arrow dir g}"
proof (cases dir)
  case Upstream
  have "m \<in> fst ` {e \<in> set (lg_edges g). n \<in> set (snd e)} \<longleftrightarrow> (m, n) \<in> edges_of g" for m
  proof
    assume "m \<in> fst ` {e \<in> set (lg_edges g). n \<in> set (snd e)}"
    then obtain ts where "(m, ts) \<in> set (lg_edges g)" "n \<in> set ts" by auto
    with dict_ok_get [OF assms this(1)] show "(m, n) \<in> edges_of g"
      by (simp add: edges_of_def targets_of_def)
  next
    assume "(m, n) \<in> edges_of g"
    then obtain ts where "dict_get (lg_edges g) m = Some ts" "n \<in> set ts"
      by (cases "dict_get (lg_edges g) m") (auto simp: edges_of_def targets_of_def)
    with map_of_SomeD [OF this(1)] show "m \<in> fst ` {e \<in> set (lg_edges g). n \<in> set (snd e)}"
      by force
  qed
  then show ?thesis by (auto simp: Upstream)
next
  case Downstream
  then show ?thesis by (simp add: edges_of_def targets_of_def)
qed

lemma edges_add_asset [simp]:
  "lg_edges (add_asset g name t st) = lg_edges g"
  "targets_of (add_asset g name t st) = targets_of g"
  by (simp_all add: add_asset_def targets_of_def fun_eq_iff)

lemma assets_add_asset:
  "fst ` set (lg_assets (add_asset g name t st)) = insert name (fst ` set (lg_assets g))"
  by (auto simp: add_asset_def dict_keys_set)

lemma targets_add_edge:
  "targets_of (add_edge g a b) source =
     (if source = a \<and> b \<notin> set (targets_of g a) then targets_of g a @ [b] else targets_of g source)"
  by (simp add: add_edge_def Let_def) (simp add: targets_of_def)

lemma edge_nodes_set: "edge_nodes (dict_set es k ts) \<subseteq> edge_nodes es \<union> insert k (set ts)"
  using dict_set_subset [of k ts es] by (fastforce simp: edge_nodes_def)

lemma targets_nodes: "set (targets_of g source) \<subseteq> edge_nodes (lg_edges g)"
  using neighbours_nodes [of Downstream "lg_edges g" source] by (simp add: targets_of_def)

lemma graph_ok_add_asset: "graph_ok g \<Longrightarrow> graph_ok (add_asset g name t st)"
  using assets_add_asset [of g name t st]
  by (auto simp: graph_ok_def) (auto simp: add_asset_def intro: dict_ok_set)

lemma graph_ok_add_edge: "graph_ok g \<Longrightarrow> graph_ok (add_edge g a b)"
proof -
  let ?g = "add_asset (add_asset g a ''unknown'' ''unknown'') b ''unknown'' ''unknown''"
  assume "graph_ok g"
  then have g: "graph_ok ?g" by (intro graph_ok_add_asset)
  have keys: "a \<in> fst ` set (lg_assets ?g)" "b \<in> fst ` set (lg_assets ?g)"
    by (simp_all add: assets_add_asset)
  show ?thesis
  proof (cases "b \<in> set (targets_of g a)")
    case True
    with g show ?thesis by (simp add: add_edge_def)
  next
    case False
    let ?es = "dict_set (lg_edges ?g) a (targets_of ?g a @ [b])"
    have "dict_ok ?es" using g by (auto simp: graph_ok_def intro: dict_ok_set)
    moreover have "edge_nodes ?es \<subseteq> edge_nodes (lg_edges ?g) \<union> {a, b}"
      using edge_nodes_set [where es = "lg_edges ?g" and k = a and ts = "targets_of ?g a @ [b]"] targets_nodes [of g a] by auto
    ultimately show ?thesis
      using g False keys targets_add_edge [of g a b]
      by (auto simp: graph_ok_def add_edge_def Let_def)
  qed
qed

lemma edges_add_edge: "edges_of (add_edge g a b) = insert (a, b) (edges_of g)"
  by (auto simp: edges_of_def targets_add_edge split: if_splits)

lemma graph_ok_empty: "graph_ok empty_graph"
  by (simp add: graph_ok_def empty_graph_def targets_of_def edge_nodes_def)

section \<open>Breadth-first search\<close>

text \<open>
  The invariant of the traversal from \<open>a\<close>: the queue is ordered by depth and holds at most two depths,
  each queued depth is the length of a path from \<open>a\<close>, and each visited asset has a depth \<open>L\<close> such
  that its neighbours, unless it sits at the limit, are visited at most one deeper or still queued.
\<close>

definition within :: "int option \<Rightarrow> nat \<Rightarrow> bool" where
  "within depth n \<longleftrightarrow> (case depth of None \<Rightarrow> True | Some k \<Rightarrow> n = 0 \<or> int n \<le> k)"

lemma within_0 [simp]: "within depth 0"
  by (simp add: within_def split: option.split)

lemma within_Suc: "within depth (Suc n) \<longleftrightarrow> deeper depth n"
  by (auto simp: within_def deeper_def split: option.split)

lemma within_mono: "within depth n \<Longrightarrow> m \<le> n \<Longrightarrow> within depth m"
  by (auto simp: within_def split: option.splits)

definition bfs_inv :: "(string \<times> string) set \<Rightarrow> int option \<Rightarrow> string \<Rightarrow> (string \<times> nat) list
    \<Rightarrow> string set \<Rightarrow> (string \<Rightarrow> nat) \<Rightarrow> bool" where
  "bfs_inv R depth a queue visited L \<longleftrightarrow>
     sorted (map snd queue) \<and>
     (\<forall>q \<in> set queue. (a, fst q) \<in> R ^^ snd q \<and> within depth (snd q) \<and> snd q \<le> Suc (snd (hd queue))) \<and>
     (\<forall>z \<in> visited. (a, z) \<in> R ^^ L z \<and> within depth (L z) \<and> (\<forall>q \<in> set queue. L z \<le> snd q) \<and>
        (within depth (Suc (L z)) \<longrightarrow>
          (\<forall>w. (z, w) \<in> R \<longrightarrow> w \<in> visited \<and> L w \<le> Suc (L z) \<or> (w, Suc (L z)) \<in> set queue))) \<and>
     (a \<in> visited \<and> L a = 0 \<or> (a, 0) \<in> set queue)"

lemma bfs_inv_skip:
  assumes inv: "bfs_inv R depth a ((c, d) # queue) visited L" and c: "c \<in> visited"
  shows "bfs_inv R depth a queue visited L"
proof -
  from inv have srt: "sorted (d # map snd queue)"
    and q: "\<And>q. q \<in> set queue \<Longrightarrow> (a, fst q) \<in> R ^^ snd q \<and> within depth (snd q) \<and> d \<le> snd q \<and>
      snd q \<le> Suc d"
    and v: "\<And>z. z \<in> visited \<Longrightarrow> (a, z) \<in> R ^^ L z \<and> within depth (L z) \<and> L z \<le> d \<and>
        (within depth (Suc (L z)) \<longrightarrow>
          (\<forall>w. (z, w) \<in> R \<longrightarrow> w \<in> visited \<and> L w \<le> Suc (L z) \<or>
            (w, Suc (L z)) = (c, d) \<or> (w, Suc (L z)) \<in> set queue))"
    and start: "a \<in> visited \<and> L a = 0 \<or> (a, 0) = (c, d) \<or> (a, 0) \<in> set queue"
    by (auto simp: bfs_inv_def)
  have "L c \<le> d" using v [OF c] by simp
  have "\<forall>p \<in> set queue. snd p \<le> Suc (snd (hd queue))"
  proof
    fix p
    assume p: "p \<in> set queue"
    then have "hd queue \<in> set queue" by (cases queue) auto
    with q [of "hd queue"] q [OF p] show "snd p \<le> Suc (snd (hd queue))" by auto
  qed
  moreover have "\<forall>z \<in> visited. \<forall>q \<in> set queue. L z \<le> snd q"
    using v q by (meson le_trans)
  moreover have "\<forall>z \<in> visited. within depth (Suc (L z)) \<longrightarrow>
      (\<forall>w. (z, w) \<in> R \<longrightarrow> w \<in> visited \<and> L w \<le> Suc (L z) \<or> (w, Suc (L z)) \<in> set queue)"
  proof (intro ballI impI allI)
    fix z w
    assume "z \<in> visited" "within depth (Suc (L z))" "(z, w) \<in> R"
    with v [of z] consider "w \<in> visited \<and> L w \<le> Suc (L z)" | "w = c" "Suc (L z) = d"
      | "(w, Suc (L z)) \<in> set queue" by auto
    then show "w \<in> visited \<and> L w \<le> Suc (L z) \<or> (w, Suc (L z)) \<in> set queue"
      using c \<open>L c \<le> d\<close> by cases auto
  qed
  moreover have "a \<in> visited \<and> L a = 0 \<or> (a, 0) \<in> set queue"
    using start c \<open>L c \<le> d\<close> by auto
  ultimately show ?thesis
    using srt q v unfolding bfs_inv_def by auto
qed

lemma sorted_const: "sorted (map (\<lambda>_. k :: nat) xs)"
  by (induction xs) auto

lemma bfs_inv_visit:
  assumes inv: "bfs_inv R depth a ((c, d) # queue) visited L" and new: "c \<notin> visited"
    and ns: "set ns = {w. (c, w) \<in> R}"
  shows "bfs_inv R depth a (queue @ (if deeper depth d then map (\<lambda>n. (n, Suc d)) ns else []))
    (insert c visited) (L(c := d))"
proof -
  let ?more = "if deeper depth d then map (\<lambda>n. (n, Suc d)) ns else []"
  from inv have srt: "sorted (d # map snd queue)"
    and q: "\<And>q. q \<in> set queue \<Longrightarrow> (a, fst q) \<in> R ^^ snd q \<and> within depth (snd q) \<and> d \<le> snd q \<and>
      snd q \<le> Suc d"
    and c: "(a, c) \<in> R ^^ d" "within depth d"
    and v: "\<And>z. z \<in> visited \<Longrightarrow> (a, z) \<in> R ^^ L z \<and> within depth (L z) \<and> L z \<le> d \<and>
        (within depth (Suc (L z)) \<longrightarrow>
          (\<forall>w. (z, w) \<in> R \<longrightarrow> w \<in> visited \<and> L w \<le> Suc (L z) \<or>
            (w, Suc (L z)) = (c, d) \<or> (w, Suc (L z)) \<in> set queue))"
    and start: "a \<in> visited \<and> L a = 0 \<or> (a, 0) = (c, d) \<or> (a, 0) \<in> set queue"
    by (auto simp: bfs_inv_def)
  have m: "p \<in> set ?more \<Longrightarrow> (a, fst p) \<in> R ^^ snd p \<and> within depth (snd p) \<and> snd p = Suc d" for p
    using c ns by (auto simp: within_Suc split: if_splits)
  have "map snd ?more = map (\<lambda>_. Suc d) (if deeper depth d then ns else [])" by simp
  then have "sorted (map snd ?more)" by (simp only: sorted_const)
  then have "sorted (map snd (queue @ ?more))"
    using srt q m by (auto simp: sorted_append)
  moreover have "\<forall>p \<in> set (queue @ ?more). (a, fst p) \<in> R ^^ snd p \<and> within depth (snd p) \<and>
      snd p \<le> Suc (snd (hd (queue @ ?more)))"
  proof (cases queue)
    case Nil
    show ?thesis
    proof
      fix p
      assume p: "p \<in> set (queue @ ?more)"
      then have "p \<in> set ?more" by (simp add: Nil)
      moreover from this have "hd ?more \<in> set ?more" by (metis empty_iff hd_in_set set_empty)
      ultimately have "p \<in> set ?more" "hd ?more \<in> set ?more" by blast+
      from m [OF this(1)] m [OF this(2)] show "(a, fst p) \<in> R ^^ snd p \<and> within depth (snd p) \<and>
          snd p \<le> Suc (snd (hd (queue @ ?more)))"
        by (auto simp: Nil simp del: relpow.simps)
    qed
  next
    case (Cons p ps)
    then have "d \<le> snd p" using q by simp
    with Cons q m show ?thesis by (fastforce simp: Cons)
  qed
  moreover have "\<forall>z \<in> insert c visited. (a, z) \<in> R ^^ (L(c := d)) z \<and> within depth ((L(c := d)) z) \<and>
      (\<forall>p \<in> set (queue @ ?more). (L(c := d)) z \<le> snd p) \<and>
      (within depth (Suc ((L(c := d)) z)) \<longrightarrow>
        (\<forall>w. (z, w) \<in> R \<longrightarrow> w \<in> insert c visited \<and> (L(c := d)) w \<le> Suc ((L(c := d)) z) \<or>
          (w, Suc ((L(c := d)) z)) \<in> set (queue @ ?more)))"
  proof
    fix z
    assume z: "z \<in> insert c visited"
    have le: "\<forall>p \<in> set (queue @ ?more). (L(c := d)) z \<le> snd p"
    proof
      fix p assume "p \<in> set (queue @ ?more)"
      then have "d \<le> snd p" using q m by fastforce
      moreover have "(L(c := d)) z \<le> d" using v z by auto
      ultimately show "(L(c := d)) z \<le> snd p" by simp
    qed
    show "(a, z) \<in> R ^^ (L(c := d)) z \<and> within depth ((L(c := d)) z) \<and>
      (\<forall>p \<in> set (queue @ ?more). (L(c := d)) z \<le> snd p) \<and>
      (within depth (Suc ((L(c := d)) z)) \<longrightarrow>
        (\<forall>w. (z, w) \<in> R \<longrightarrow> w \<in> insert c visited \<and> (L(c := d)) w \<le> Suc ((L(c := d)) z) \<or>
          (w, Suc ((L(c := d)) z)) \<in> set (queue @ ?more)))"
    proof (cases "z = c")
      case True
      then show ?thesis using c le ns by (auto simp: within_Suc)
    next
      case False
      with z v [of z] le new show ?thesis by auto
    qed
  qed
  moreover have "a \<in> insert c visited \<and> (L(c := d)) a = 0 \<or> (a, 0) \<in> set (queue @ ?more)"
    using start new by auto
  ultimately show ?thesis unfolding bfs_inv_def by blast
qed

lemma bfs_inv_done:
  assumes inv: "bfs_inv R depth a [] visited L"
  shows "visited = {z. \<exists>n. (a, z) \<in> R ^^ n \<and> within depth n}"
proof
  show "visited \<subseteq> {z. \<exists>n. (a, z) \<in> R ^^ n \<and> within depth n}"
    using inv by (auto simp: bfs_inv_def)
  have "z \<in> visited \<and> L z \<le> n" if "(a, z) \<in> R ^^ n" "within depth n" for n z
    using that
  proof (induction n arbitrary: z)
    case 0
    with inv show ?case by (auto simp: bfs_inv_def)
  next
    case (Suc n)
    then obtain y where y: "(a, y) \<in> R ^^ n" "(y, z) \<in> R" by auto
    with Suc within_mono [OF Suc.prems(2), of n] have v: "y \<in> visited" "L y \<le> n" by auto
    then have "within depth (Suc (L y))" using within_mono Suc.prems(2) by simp
    with inv v(1) y(2) have "z \<in> visited \<and> L z \<le> Suc (L y)" by (auto simp: bfs_inv_def)
    with v(2) show ?case by auto
  qed
  then show "{z. \<exists>n. (a, z) \<in> R ^^ n \<and> within depth n} \<subseteq> visited" by blast
qed

lemma traverse_exact:
  assumes "bfs_inv (arrow dir g) depth a queue visited L" and "dict_ok (lg_edges g)"
    and "found = {w. \<exists>z \<in> visited. (z, w) \<in> arrow dir g}"
  shows "traverse dir (lg_edges g) depth queue visited found =
    {w. \<exists>n. (a, w) \<in> arrow dir g ^^ Suc n \<and> within depth n}"
  using assms
proof (induction dir "lg_edges g" depth queue visited found arbitrary: L rule: traverse.induct)
  case (1 dir depth visited found)
  have "visited = {z. \<exists>n. (a, z) \<in> arrow dir g ^^ n \<and> within depth n}"
    by (rule bfs_inv_done [OF 1(1)])
  then show ?case using 1(3) by auto
next
  case (2 dir depth current d queue visited found)
  show ?case
  proof (cases "current \<in> visited")
    case True
    with 2 bfs_inv_skip [OF 2(3) True] show ?thesis by simp
  next
    case False
    have ns: "set (neighbours dir (lg_edges g) current) = {w. (current, w) \<in> arrow dir g}"
      by (rule neighbours_arrow [OF 2(4)])
    have "found \<union> set (neighbours dir (lg_edges g) current) =
        {w. \<exists>z \<in> insert current visited. (z, w) \<in> arrow dir g}"
      using 2(5) ns by auto
    with 2(2) [OF False refl refl bfs_inv_visit [OF 2(3) False ns] 2(4)] False show ?thesis
      by (simp add: Let_def)
  qed
qed

lemma bfs_inv_start: "bfs_inv R depth a [(a, 0)] {} L"
  by (simp add: bfs_inv_def)

section \<open>Properties of the graph\<close>

text \<open>
  C11: unbounded traversals compute reachability. On a well-formed graph \<open>get_downstream\<close> returns
  exactly the assets reachable over one or more edges, \<open>get_upstream\<close> those that reach the asset.
\<close>

theorem lineage_reachability:
  assumes "graph_ok g"
  shows "get_downstream g a None = {b. (a, b) \<in> (edges_of g)\<^sup>+} \<and>
    get_upstream g a None = {b. (b, a) \<in> (edges_of g)\<^sup>+}"
proof -
  have "traverse dir (lg_edges g) None [(a, 0)] {} {} = {w. (a, w) \<in> (arrow dir g)\<^sup>+}" for dir
    using traverse_exact [OF bfs_inv_start, where dir = dir and g = g and found = "{}" and depth = None] assms
    by (auto simp: graph_ok_def within_def trancl_power Suc_le_eq gr0_conv_Suc simp del: relpow.simps)
  then show ?thesis
    by (simp add: get_downstream_def get_upstream_def trancl_converse del: traverse.simps)
qed

definition example_graph :: lineage_graph where
  "example_graph =
     add_edge (add_edge empty_graph ''bronze.orders'' ''silver.stg_orders'')
       ''silver.stg_orders'' ''gold.fct_orders''"

lemma example_graph_ok: "graph_ok example_graph"
  by (simp add: example_graph_def graph_ok_add_edge graph_ok_empty)

theorem lineage_reachability_witness:
  "get_downstream example_graph ''bronze.orders'' None =
     {b. (''bronze.orders'', b) \<in> (edges_of example_graph)\<^sup>+}"
  using lineage_reachability [OF example_graph_ok] by blast

text \<open>
  C12: what a depth limit means. With a depth of \<open>k\<close> the traversals return the assets at the end of a
  path of at least one and at most \<open>max k 0 + 1\<close> edges: breadth-first order makes the answer exact
  although each asset is expanded only once.
\<close>

theorem lineage_depth:
  assumes "graph_ok g"
  shows "get_downstream g a (Some k) =
      {b. \<exists>n. int n \<le> max k 0 \<and> (a, b) \<in> edges_of g ^^ Suc n} \<and>
    get_upstream g a (Some k) =
      {b. \<exists>n. int n \<le> max k 0 \<and> (b, a) \<in> edges_of g ^^ Suc n}"
proof -
  have "within (Some k) n \<longleftrightarrow> int n \<le> max k 0" for n
    by (auto simp: within_def)
  then have "traverse dir (lg_edges g) (Some k) [(a, 0)] {} {} =
      {w. \<exists>n. int n \<le> max k 0 \<and> (a, w) \<in> arrow dir g ^^ Suc n}" for dir
    using traverse_exact [OF bfs_inv_start, where dir = dir and g = g and found = "{}" and depth = "Some k"] assms
    by (auto simp: graph_ok_def simp del: relpow.simps)
  moreover have "(a, w) \<in> (edges_of g)\<inverse> ^^ n \<longleftrightarrow> (w, a) \<in> edges_of g ^^ n" for w n
  proof (induction n arbitrary: w)
    case (Suc n)
    have "(a, w) \<in> (edges_of g)\<inverse> ^^ Suc n \<longleftrightarrow> (\<exists>y. (a, y) \<in> (edges_of g)\<inverse> ^^ n \<and> (w, y) \<in> edges_of g)"
      by auto
    also have "\<dots> \<longleftrightarrow> (\<exists>y. (w, y) \<in> edges_of g \<and> (y, a) \<in> edges_of g ^^ n)"
      using Suc by auto
    also have "\<dots> \<longleftrightarrow> (w, a) \<in> edges_of g ^^ Suc n"
      by (metis relpow_Suc_D2 relpow_Suc_I2)
    finally show ?case .
  qed auto
  ultimately show ?thesis
    by (simp add: get_downstream_def get_upstream_def del: relpow.simps traverse.simps)
qed

theorem lineage_depth_witness:
  "get_upstream example_graph ''gold.fct_orders'' (Some 1) =
     {b. \<exists>n. int n \<le> max 1 0 \<and> (b, ''gold.fct_orders'') \<in> edges_of example_graph ^^ Suc n}"
  using lineage_depth [OF example_graph_ok] by blast

text \<open>
  A depth of one is not "direct only". On the example of the method's own documentation the
  limit 1 returns the indirect source too, and the impact report, which subtracts the result for
  depth 1, counts no indirect and no direct asset.
\<close>

theorem lineage_depth_divergence:
  "get_upstream example_graph ''gold.fct_orders'' (Some 1) = {''silver.stg_orders'', ''bronze.orders''} \<and>
   im_affected_assets (get_impact example_graph ''bronze.orders'') = {''silver.stg_orders'', ''gold.fct_orders''} \<and>
   im_direct_count (get_impact example_graph ''bronze.orders'') = 0 \<and>
   im_indirect_count (get_impact example_graph ''bronze.orders'') = 0"
  by code_simp

lemma load_node_edges: "graph_ok g \<Longrightarrow> graph_ok (load_node g r) \<and> edges_of (load_node g r) = edges_of g"
proof -
  assume "graph_ok g"
  obtain k t st d where r: "r = (k, t, st, d)" by (cases r)
  let ?g = "add_asset g k (or_unknown t) (or_unknown st)"
  have "graph_ok ?g" by (rule graph_ok_add_asset) fact
  moreover have "targets_of (?g\<lparr>lg_assets := as\<rparr>) = targets_of g" for as
    by (simp add: targets_of_def fun_eq_iff)
  ultimately show ?thesis
    by (auto simp: load_node_def r Let_def graph_ok_def edges_of_def dict_keys_set intro: dict_ok_set)
qed

text \<open>
  Building the graph. Adding an edge adds exactly that pair to the edges, keeps the graph
  well-formed (unique keys, no duplicate targets, every endpoint is an asset) and, loaded from any
  rows of the store, the graph has exactly the stored edges.
\<close>

theorem lineage_build:
  "graph_ok (build_lineage nodes edges) \<and> edges_of (build_lineage nodes edges) = set edges"
proof -
  have "graph_ok g \<Longrightarrow> graph_ok (foldl load_node g nodes) \<and> edges_of (foldl load_node g nodes) = edges_of g" for g
    by (induction nodes arbitrary: g) (auto simp: load_node_edges)
  then have n: "graph_ok (foldl load_node empty_graph nodes)"
    "edges_of (foldl load_node empty_graph nodes) = {}"
    using graph_ok_empty by (auto simp: edges_of_def empty_graph_def targets_of_def)
  have "graph_ok g \<Longrightarrow> graph_ok (foldl (\<lambda>g (s, t). add_edge g s t) g edges) \<and>
      edges_of (foldl (\<lambda>g (s, t). add_edge g s t) g edges) = edges_of g \<union> set edges" for g
    by (induction edges arbitrary: g) (auto simp: graph_ok_add_edge edges_add_edge)
  from this [OF n(1)] n(2) show ?thesis by (simp add: build_lineage_def)
qed

end
