(* ===== verification/Schema_Planning.thy ===== *)
theory Schema_Planning
  imports Phlo_Json
begin

text \<open>
  \<open>phlo/schema_migration/planning.py\<close> and \<open>instructions.py\<close> with the default classification of
  \<open>phlo/capabilities/schema.py\<close>: comparing two normalised schemas into an ordered list of changes.
  The order in which Python iterates over the set of common field names is the argument \<open>order\<close>.
\<close>

section \<open>Schemas and changes\<close>

record field_spec =
  fs_name :: string
  fs_dtype :: string
  fs_nullable :: bool
  fs_default :: json
  fs_metadata :: "(string \<times> json) list"

record normalized_schema =
  ns_fields :: "field_spec list"
  ns_metadata :: "(string \<times> json) list"

record schema_change =
  sc_field_name :: string
  sc_change_type :: string
  sc_old_value :: "string option"
  sc_new_value :: "string option"
  sc_classification :: string

record migration_outline =
  sp_table_name :: string
  sp_changes :: "schema_change list"
  sp_classification :: string
  sp_recommendations :: "string list"
  sp_requires_approval :: bool

record planning_policy =
  pp_change_classifications :: "(string, string) dict"
  pp_recommendations :: "(string, string) dict"

definition GENERIC_SCHEMA_POLICY :: planning_policy where
  "GENERIC_SCHEMA_POLICY = \<lparr>pp_change_classifications = [], pp_recommendations = []\<rparr>"

section \<open>Classification\<close>

definition DEFAULT_CLASSIFICATIONS :: "(string, string) dict" where
  "DEFAULT_CLASSIFICATIONS =
     [(''add'', ''safe''), (''drop'', ''breaking''), (''rename'', ''warning''),
      (''widen_type'', ''safe''), (''narrow_type'', ''breaking''), (''reorder'', ''safe''),
      (''nullability_relaxed'', ''safe''), (''nullability_tightened'', ''breaking'')]"

definition CLASSIFICATION_ORDER :: "string list" where
  "CLASSIFICATION_ORDER = [''safe'', ''warning'', ''breaking'']"

definition default_classify_change :: "string \<Rightarrow> (string, bool) dict \<Rightarrow> string" where
  "default_classify_change change_type details =
     (if change_type = ''add'' then
        let nullable = (case dict_get details ''nullable'' of None \<Rightarrow> True | Some b \<Rightarrow> b);
            has_default = (case dict_get details ''has_default'' of None \<Rightarrow> False | Some b \<Rightarrow> b)
        in if \<not> nullable \<and> \<not> has_default then ''breaking''
           else if \<not> nullable \<and> has_default then ''warning''
           else ''safe''
      else (case dict_get DEFAULT_CLASSIFICATIONS change_type of
              None \<Rightarrow> ''breaking'' | Some c \<Rightarrow> c))"

text \<open>\<open>CLASSIFICATION_ORDER.index(c)\<close> raises on an unknown classification.\<close>

fun index_of :: "'a list \<Rightarrow> 'a \<Rightarrow> nat option" where
  "index_of [] x = None"
| "index_of (y # ys) x = (if x = y then Some 0 else map_option Suc (index_of ys x))"

definition classification_index :: "string \<Rightarrow> nat res" where
  "classification_index c =
     (case index_of CLASSIFICATION_ORDER c of
        None \<Rightarrow> Inl (ValueError ''tuple.index(x): x not in tuple'') | Some i \<Rightarrow> Inr i)"

definition worst_classification :: "string list \<Rightarrow> string res" where
  "worst_classification cs =
     (if cs = [] then Inr ''safe''
      else bind_res (map_res classification_index cs) (\<lambda>is.
        Inr (CLASSIFICATION_ORDER ! Max (set is))))"

definition classify :: "string \<Rightarrow> planning_policy \<Rightarrow> (string, bool) dict \<Rightarrow> string" where
  "classify change_type policy details =
     (case dict_get (pp_change_classifications policy) change_type of
        Some override \<Rightarrow> override
      | None \<Rightarrow> default_classify_change change_type details)"

definition WIDEN_PAIRS :: "(string \<times> string) list" where
  "WIDEN_PAIRS =
     [(''int32'', ''int64''), (''float32'', ''float64''), (''int32'', ''float64''),
      (''int64'', ''float64''), (''date'', ''timestamptz'')]"

section \<open>Planning\<close>

definition squoted :: "string \<Rightarrow> string" where
  "squoted s = CHR 0x27 # s @ [CHR 0x27]"

fun add_fields :: "field_spec list \<Rightarrow> (string, field_spec) dict \<Rightarrow> (string, field_spec) dict res" where
  "add_fields [] acc = Inr acc"
| "add_fields (f # fs) acc =
     (if dict_has acc (fs_name f)
      then Inl (SchemaMigrationPlanningError
             (''Schema contains duplicate field name '' @ squoted (fs_name f) @ ''.''))
      else add_fields fs (dict_set acc (fs_name f) f))"

definition field_map :: "normalized_schema \<Rightarrow> (string, field_spec) dict res" where
  "field_map schema = add_fields (ns_fields schema) []"

definition rename_error :: "string \<Rightarrow> string \<Rightarrow> string \<Rightarrow> py_error" where
  "rename_error old_name new_name reason =
     SchemaMigrationPlanningError
       (''Rename instruction '' @ old_name @ '' -> '' @ new_name @ '' is invalid: '' @ reason)"

fun check_renames :: "(string, string) dict \<Rightarrow> (string, field_spec) dict \<Rightarrow> (string, field_spec) dict
    \<Rightarrow> (string, string) dict \<Rightarrow> unit res" where
  "check_renames [] current_fields desired_fields seen_targets = Inr ()"
| "check_renames ((old_name, new_name) # rs) current_fields desired_fields seen_targets =
     (if old_name = [] \<or> new_name = []
      then Inl (SchemaMigrationPlanningError ''Rename instructions require non-empty field names.'')
      else if old_name = new_name
      then Inl (rename_error old_name new_name ''source and target are identical.'')
      else if \<not> dict_has current_fields old_name
      then Inl (rename_error old_name new_name
             (''current schema has no field '' @ squoted old_name @ ''.''))
      else if \<not> dict_has desired_fields new_name
      then Inl (rename_error old_name new_name
             (''desired schema has no field '' @ squoted new_name @ ''.''))
      else case dict_get seen_targets new_name of
        Some previous_source \<Rightarrow> Inl (SchemaMigrationPlanningError
          (''Invalid rename instructions: multiple rename sources ('' @ squoted previous_source @
           '', '' @ squoted old_name @ '') target '' @ squoted new_name @ ''.''))
      | None \<Rightarrow> check_renames rs current_fields desired_fields
                  (dict_set seen_targets new_name old_name))"

fun check_targets :: "(string, string) dict \<Rightarrow> (string, field_spec) dict \<Rightarrow> unit res" where
  "check_targets [] current_fields = Inr ()"
| "check_targets ((old_name, new_name) # rs) current_fields =
     (if dict_has current_fields new_name
      then Inl (rename_error old_name new_name
             (''target field '' @ squoted new_name @ '' already exists in current schema.''))
      else check_targets rs current_fields)"

definition validate_renames :: "(string, string) dict \<Rightarrow> (string, field_spec) dict
    \<Rightarrow> (string, field_spec) dict \<Rightarrow> unit res" where
  "validate_renames renames current_fields desired_fields =
     bind_res (check_renames renames current_fields desired_fields []) (\<lambda>_.
       check_targets renames current_fields)"

definition py_bool_str :: "bool \<Rightarrow> string" where
  "py_bool_str b = (if b then ''True'' else ''False'')"

definition mutation_changes :: "string \<Rightarrow> field_spec \<Rightarrow> field_spec \<Rightarrow> planning_policy
    \<Rightarrow> schema_change list" where
  "mutation_changes field_name current_field desired_field policy =
     (if fs_dtype current_field \<noteq> fs_dtype desired_field then
        let change_type = (if (fs_dtype current_field, fs_dtype desired_field) \<in> set WIDEN_PAIRS
                           then ''widen_type'' else ''narrow_type'')
        in [\<lparr>sc_field_name = field_name, sc_change_type = change_type,
             sc_old_value = Some (fs_dtype current_field),
             sc_new_value = Some (fs_dtype desired_field),
             sc_classification = classify change_type policy []\<rparr>]
      else []) @
     (if fs_nullable current_field \<noteq> fs_nullable desired_field then
        let change_type = (if fs_nullable desired_field \<and> \<not> fs_nullable current_field
                           then ''nullability_relaxed'' else ''nullability_tightened'')
        in [\<lparr>sc_field_name = field_name, sc_change_type = change_type,
             sc_old_value = Some (py_bool_str (fs_nullable current_field)),
             sc_new_value = Some (py_bool_str (fs_nullable desired_field)),
             sc_classification = classify change_type policy []\<rparr>]
      else [])"

definition rename_change :: "string \<Rightarrow> string \<Rightarrow> planning_policy \<Rightarrow> schema_change" where
  "rename_change old_name new_name policy =
     \<lparr>sc_field_name = old_name, sc_change_type = ''rename'', sc_old_value = Some old_name,
      sc_new_value = Some new_name, sc_classification = classify ''rename'' policy []\<rparr>"

definition add_change :: "string \<Rightarrow> field_spec \<Rightarrow> planning_policy \<Rightarrow> schema_change" where
  "add_change name desired_field policy =
     \<lparr>sc_field_name = name, sc_change_type = ''add'', sc_old_value = None,
      sc_new_value = Some (fs_dtype desired_field),
      sc_classification = classify ''add'' policy
        [(''nullable'', fs_nullable desired_field), (''has_default'', fs_default desired_field \<noteq> JNull)]\<rparr>"

definition drop_change :: "string \<Rightarrow> field_spec \<Rightarrow> planning_policy \<Rightarrow> schema_change" where
  "drop_change name current_field policy =
     \<lparr>sc_field_name = name, sc_change_type = ''drop'', sc_old_value = Some (fs_dtype current_field),
      sc_new_value = None, sc_classification = classify ''drop'' policy []\<rparr>"

text \<open>Reading a field the code knows to be there: a missing key would raise \<open>KeyError\<close>.\<close>

definition field_at :: "(string, field_spec) dict \<Rightarrow> string \<Rightarrow> field_spec res" where
  "field_at fmap name =
     (case dict_get fmap name of None \<Rightarrow> Inl (KeyError name) | Some f \<Rightarrow> Inr f)"

definition rename_changes :: "(string, field_spec) dict \<Rightarrow> (string, field_spec) dict \<Rightarrow> planning_policy
    \<Rightarrow> string \<times> string \<Rightarrow> schema_change list res" where
  "rename_changes current_fields desired_fields policy r =
     (case r of (old_name, new_name) \<Rightarrow>
        bind_res (field_at current_fields old_name) (\<lambda>cf.
        bind_res (field_at desired_fields new_name) (\<lambda>df.
          Inr (rename_change old_name new_name policy # mutation_changes new_name cf df policy))))"

definition common_changes :: "(string, field_spec) dict \<Rightarrow> (string, field_spec) dict \<Rightarrow> planning_policy
    \<Rightarrow> string \<Rightarrow> schema_change list res" where
  "common_changes current_fields desired_fields policy name =
     bind_res (field_at current_fields name) (\<lambda>cf.
     bind_res (field_at desired_fields name) (\<lambda>df.
       Inr (mutation_changes name cf df policy)))"

definition plan_changes :: "(string set \<Rightarrow> string list) \<Rightarrow> (string, field_spec) dict
    \<Rightarrow> (string, field_spec) dict \<Rightarrow> (string, string) dict \<Rightarrow> planning_policy
    \<Rightarrow> schema_change list res" where
  "plan_changes order current_fields desired_fields renames policy =
     (let sources = fst ` set renames; targets = snd ` set renames;
          common = fst ` set current_fields \<inter> fst ` set desired_fields
      in bind_res (map_res (rename_changes current_fields desired_fields policy) (sort renames)) (\<lambda>rs.
         bind_res (map_res (common_changes current_fields desired_fields policy)
           (filter (\<lambda>n. n \<notin> sources \<and> n \<notin> targets) (order common))) (\<lambda>ms.
         Inr (concat rs @
           map (\<lambda>(n, df). add_change n df policy)
             (filter (\<lambda>(n, df). n \<notin> targets \<and> \<not> dict_has current_fields n) desired_fields) @
           map (\<lambda>(n, cf). drop_change n cf policy)
             (filter (\<lambda>(n, cf). n \<notin> sources \<and> \<not> dict_has desired_fields n) current_fields) @
           concat ms))))"

definition add_recommendation :: "planning_policy \<Rightarrow> string list \<Rightarrow> schema_change \<Rightarrow> string list" where
  "add_recommendation policy recs c =
     (let r = dict_get (pp_recommendations policy) (sc_change_type c)
      in if str_truthy r \<and> the r \<notin> set recs then recs @ [the r] else recs)"

definition recommendations :: "schema_change list \<Rightarrow> string \<Rightarrow> planning_policy \<Rightarrow> string list" where
  "recommendations changes classification policy =
     foldl (add_recommendation policy)
       (if classification = ''breaking''
        then [''Breaking changes detected - requires explicit approval.''] else [])
       changes"

definition plan_schema_migration :: "(string set \<Rightarrow> string list) \<Rightarrow> string \<Rightarrow> normalized_schema
    \<Rightarrow> normalized_schema \<Rightarrow> planning_policy \<Rightarrow> (string, string) dict option
    \<Rightarrow> migration_outline res" where
  "plan_schema_migration order table_name current desired policy instructions =
     bind_res (field_map current) (\<lambda>current_fields.
     bind_res (field_map desired) (\<lambda>desired_fields.
       let renames = (case instructions of None \<Rightarrow> [] | Some r \<Rightarrow> r) in
     bind_res (validate_renames renames current_fields desired_fields) (\<lambda>_.
     bind_res (plan_changes order current_fields desired_fields renames policy) (\<lambda>changes.
     bind_res (worst_classification (map sc_classification changes)) (\<lambda>classification.
       Inr \<lparr>sp_table_name = table_name, sp_changes = changes,
            sp_classification = classification,
            sp_recommendations = recommendations changes classification policy,
            sp_requires_approval = (classification = ''breaking'')\<rparr>)))))"

section \<open>Instructions\<close>

text \<open>
  The instruction file is a decoded document: \<open>None\<close> when the path does not exist, \<open>Inl\<close> when
  reading or parsing it fails with that text.
\<close>

definition split_flag :: "string \<Rightarrow> (string \<times> string) option" where
  "split_flag s =
     (if CHR ''='' \<in> set s
      then Some (takeWhile (\<lambda>c. c \<noteq> CHR ''='') s, drop 1 (dropWhile (\<lambda>c. c \<noteq> CHR ''='') s))
      else None)"

definition parse_rename_flag :: "string \<Rightarrow> (string \<times> string) res" where
  "parse_rename_flag value =
     (case split_flag value of
        None \<Rightarrow> Inl (MigrationInstructionError ''Use old_name=new_name.'')
      | Some (a, b) \<Rightarrow>
          (let old_name = py_strip a; new_name = py_strip b
           in if old_name = [] \<or> new_name = []
              then Inl (MigrationInstructionError ''Use old_name=new_name with non-empty field names.'')
              else Inr (old_name, new_name)))"

fun load_renames :: "string \<Rightarrow> (string \<times> json) list \<Rightarrow> (string, string) dict \<Rightarrow> (string, string) dict res" where
  "load_renames path [] renames = Inr renames"
| "load_renames path ((old_name, JStr new_name) # items) renames =
     (if py_strip old_name = [] \<or> py_strip new_name = []
      then Inl (MigrationInstructionError
             (''Migration file renames require non-empty field names: '' @ path))
      else load_renames path items (dict_set renames (py_strip old_name) (py_strip new_name)))"
| "load_renames path ((old_name, _) # items) renames =
     Inl (MigrationInstructionError (''Migration file renames must map strings: '' @ path))"

definition load_migration_yaml_renames :: "(string + json) option \<Rightarrow> string \<Rightarrow> string
    \<Rightarrow> (string, string) dict res" where
  "load_migration_yaml_renames file path table_name =
     (case file of
        None \<Rightarrow> Inr []
      | Some (Inl msg) \<Rightarrow> Inl (MigrationInstructionError msg)
      | Some (Inr doc) \<Rightarrow>
          (case (if json_truthy doc then doc else JObj []) of
             JObj payload \<Rightarrow>
               (let payload_table = (case dict_get payload ''table_name'' of None \<Rightarrow> JNull | Some v \<Rightarrow> v) in
                if payload_table \<noteq> JNull \<and> payload_table \<noteq> JStr table_name
                then Inl (MigrationInstructionError (''Migration file table mismatch: expected '' @
                       squoted table_name @ '', found '' @ squoted (json_text payload_table) @ ''.''))
                else
                  (case (case dict_get payload ''renames'' of None \<Rightarrow> JObj [] | Some v \<Rightarrow> v) of
                     JNull \<Rightarrow> Inr []
                   | JObj raw \<Rightarrow> load_renames path raw []
                   | _ \<Rightarrow> Inl (MigrationInstructionError
                       (''Migration file renames must be a mapping: '' @ path))))
           | _ \<Rightarrow> Inl (MigrationInstructionError (''Migration file root must be an object: '' @ path))))"

fun merge_flags :: "string list \<Rightarrow> (string, string) dict \<Rightarrow> (string, string) dict res" where
  "merge_flags [] renames = Inr renames"
| "merge_flags (value # flags) renames =
     bind_res (parse_rename_flag value) (\<lambda>(old_name, new_name).
       case dict_get renames old_name of
         Some existing \<Rightarrow>
           (if existing \<noteq> new_name
            then Inl (MigrationInstructionError
                   (''Conflicting rename instruction for '' @ old_name @ '': YAML maps it to '' @
                    existing @ '', CLI maps it to '' @ new_name @
                    ''. Sort out the YAML or CLI flags and rerun.''))
            else merge_flags flags (dict_set renames old_name new_name))
       | None \<Rightarrow> merge_flags flags (dict_set renames old_name new_name))"

definition resolve_migration_instructions :: "(string + json) option \<Rightarrow> string \<Rightarrow> string \<Rightarrow> string list
    \<Rightarrow> (string, string) dict res" where
  "resolve_migration_instructions file path table_name rename_flags =
     bind_res (load_migration_yaml_renames file path table_name) (merge_flags rename_flags)"

end
