(* ===== verification/Schema_Evolution.thy ===== *)
theory Schema_Evolution
  imports Schema_Planning
begin

text \<open>
  What a schema plan is for: a specification of applying a list of changes to a table, and the
  properties of the planner of \<open>Schema_Planning\<close> against it.
\<close>

section \<open>Applying a plan\<close>







section \<open>Fields and renames\<close>

lemma add_fields_Inr:
  "add_fields fs acc = Inr d \<longleftrightarrow>
     distinct (map fs_name fs) \<and> fst ` set acc \<inter> fs_name ` set fs = {} \<and>
     d = acc @ map (\<lambda>f. (fs_name f, f)) fs"
proof (induction fs arbitrary: acc)
  case Nil
  then show ?case by auto
next
  case (Cons f fs)
  show ?case
  proof (cases "dict_has acc (fs_name f)")
    case True
    then show ?thesis by auto
  next
    case False
    then show ?thesis using Cons.IH [of "dict_set acc (fs_name f) f"]
      by (auto simp: dict_set_new)
  qed
qed

definition fields_of :: "normalized_schema \<Rightarrow> (string, field_spec) dict" where
  "fields_of schema = map (\<lambda>f. (fs_name f, f)) (ns_fields schema)"

definition unique_names :: "normalized_schema \<Rightarrow> bool" where
  "unique_names schema \<longleftrightarrow> distinct (map fs_name (ns_fields schema))"

definition names_of :: "normalized_schema \<Rightarrow> string set" where
  "names_of schema = fs_name ` set (ns_fields schema)"

lemma field_map_Inr: "field_map s = Inr d \<longleftrightarrow> unique_names s \<and> d = fields_of s"
  by (simp add: field_map_def add_fields_Inr unique_names_def fields_of_def)

lemma fields_of_keys [simp]: "fst ` set (fields_of s) = names_of s"
  by (force simp: fields_of_def names_of_def)


lemma names_of_mem: "n \<in> names_of s \<longleftrightarrow> (\<exists>f. (n, f) \<in> set (fields_of s))"
  by (force simp: fields_of_def names_of_def)

lemma fields_of_ok: "unique_names s \<Longrightarrow> dict_ok (fields_of s)"
  by (simp add: dict_ok_def fields_of_def unique_names_def comp_def)


definition legal_renames :: "(string, string) dict \<Rightarrow> string set \<Rightarrow> string set \<Rightarrow> bool" where
  "legal_renames renames current desired \<longleftrightarrow>
     (\<forall>r \<in> set renames. fst r \<noteq> [] \<and> snd r \<noteq> [] \<and>
        fst r \<in> current \<and> snd r \<in> desired \<and> snd r \<notin> current) \<and>
     distinct (map snd renames)"

lemma check_renames_Inr:
  "check_renames rs c d seen = Inr () \<longleftrightarrow>
     (\<forall>(a, b) \<in> set rs. a \<noteq> [] \<and> b \<noteq> [] \<and> a \<noteq> b \<and> dict_has c a \<and> dict_has d b) \<and>
     distinct (map snd rs) \<and> snd ` set rs \<inter> fst ` set seen = {}"
proof (induction rs arbitrary: seen)
  case Nil
  then show ?case by simp
next
  case (Cons r rs)
  obtain a b where r: "r = (a, b)" by (cases r)
  show ?case
  proof (cases "dict_get seen b")
    case None
    then have "\<not> dict_has seen b" by (simp add: dict_has_get)
    then show ?thesis
      using None Cons.IH [of "dict_set seen b a"] by (auto simp: r dict_keys_set)
  next
    case (Some x)
    then have "dict_has seen b" by (simp add: dict_has_get)
    then show ?thesis using Some by (auto simp: r)
  qed
qed

lemma check_targets_Inr: "check_targets rs c = Inr () \<longleftrightarrow> (\<forall>r \<in> set rs. \<not> dict_has c (snd r))"
proof (induction rs)
  case (Cons r rs)
  then show ?case by (cases r) simp
qed simp

lemma validate_renames_Inr:
  "validate_renames rs c d = Inr () \<longleftrightarrow> legal_renames rs (fst ` set c) (fst ` set d)"
  unfolding validate_renames_def bind_res_Inr_iff check_targets_Inr legal_renames_def
  by (force simp: check_renames_Inr split_beta)


section \<open>The changes of a plan\<close>

text \<open>\<open>set_order\<close>: whatever order Python picks, iterating over a set visits each element once.\<close>

definition set_order :: "(string set \<Rightarrow> string list) \<Rightarrow> bool" where
  "set_order order \<longleftrightarrow> (\<forall>S. finite S \<longrightarrow> set (order S) = S \<and> distinct (order S))"

definition rename_block :: "(string, field_spec) dict \<Rightarrow> (string, field_spec) dict \<Rightarrow> planning_policy
    \<Rightarrow> string \<times> string \<Rightarrow> schema_change list" where
  "rename_block cf df policy r =
     rename_change (fst r) (snd r) policy #
       mutation_changes (snd r) (the (dict_get cf (fst r))) (the (dict_get df (snd r))) policy"

definition common_block :: "(string, field_spec) dict \<Rightarrow> (string, field_spec) dict \<Rightarrow> planning_policy
    \<Rightarrow> string \<Rightarrow> schema_change list" where
  "common_block cf df policy n =
     mutation_changes n (the (dict_get cf n)) (the (dict_get df n)) policy"

definition added :: "(string, field_spec) dict \<Rightarrow> (string, field_spec) dict \<Rightarrow> (string, string) dict
    \<Rightarrow> (string \<times> field_spec) list" where
  "added cf df renames = filter (\<lambda>(n, f). n \<notin> snd ` set renames \<and> \<not> dict_has cf n) df"

definition dropped :: "(string, field_spec) dict \<Rightarrow> (string, field_spec) dict \<Rightarrow> (string, string) dict
    \<Rightarrow> (string \<times> field_spec) list" where
  "dropped cf df renames = filter (\<lambda>(n, f). n \<notin> fst ` set renames \<and> \<not> dict_has df n) cf"

definition kept :: "(string set \<Rightarrow> string list) \<Rightarrow> (string, field_spec) dict
    \<Rightarrow> (string, field_spec) dict \<Rightarrow> (string, string) dict \<Rightarrow> string list" where
  "kept order cf df renames =
     filter (\<lambda>n. n \<notin> fst ` set renames \<and> n \<notin> snd ` set renames)
       (order (fst ` set cf \<inter> fst ` set df))"

lemma field_at_the: "dict_has d k \<Longrightarrow> field_at d k = Inr (the (dict_get d k))"
  by (auto simp: dict_has_get field_at_def)

lemma plan_changes_eq:
  assumes "legal_renames renames (fst ` set cf) (fst ` set df)" and "set_order order"
  shows "plan_changes order cf df renames policy =
    Inr (concat (map (rename_block cf df policy) (sort renames)) @
         map (\<lambda>(n, f). add_change n f policy) (added cf df renames) @
         map (\<lambda>(n, f). drop_change n f policy) (dropped cf df renames) @
         concat (map (common_block cf df policy) (kept order cf df renames)))"
proof -
  have "map_res (rename_changes cf df policy) (sort renames) =
      Inr (map (rename_block cf df policy) (sort renames))"
  proof (rule map_res_all_Inr)
    fix r assume r: "r \<in> set (sort renames)"
    then have "dict_has cf (fst r)" "dict_has df (snd r)"
      using assms(1) by (auto simp: legal_renames_def)
    then show "rename_changes cf df policy r = Inr (rename_block cf df policy r)"
      by (simp add: rename_changes_def rename_block_def split_beta field_at_the)
  qed
  moreover have "map_res (common_changes cf df policy) (kept order cf df renames) =
      Inr (map (common_block cf df policy) (kept order cf df renames))"
  proof (rule map_res_all_Inr)
    fix n assume "n \<in> set (kept order cf df renames)"
    then have "dict_has cf n" "dict_has df n"
      using assms(2) by (auto simp: kept_def set_order_def)
    then show "common_changes cf df policy n = Inr (common_block cf df policy n)"
      by (simp add: common_changes_def common_block_def field_at_the)
  qed
  ultimately show ?thesis
    unfolding plan_changes_def Let_def kept_def [symmetric] added_def [symmetric]
      dropped_def [symmetric]
    by (simp only: bind_res_simps)
qed


section \<open>Blocks of changes\<close>


lemma py_bool_str_inject [simp]: "py_bool_str a = py_bool_str b \<longleftrightarrow> a = b"
  by (simp add: py_bool_str_def)

lemma mutation_type_cases:
  "(if b then ''widen_type'' else ''narrow_type'') \<in> {''widen_type'', ''narrow_type''}"
  by simp






section \<open>The plan reaches the desired schema\<close>











lemma finite_names [simp]: "finite (names_of s)"
  by (simp add: names_of_def)

lemma set_kept:
  assumes "set_order order"
  shows "set (kept order (fields_of current) (fields_of desired) renames) =
     (names_of current \<inter> names_of desired) - fst ` set renames - snd ` set renames"
  using assms by (auto simp: kept_def set_order_def)





section \<open>Classification\<close>

lemma index_of_Some: "index_of xs x = Some i \<Longrightarrow> i < length xs \<and> xs ! i = x"
  by (induction xs arbitrary: i) (auto split: if_splits)

lemma index_of_None: "index_of xs x = None \<longleftrightarrow> x \<notin> set xs"
  by (induction xs) auto

lemma classification_index_Inr:
  "classification_index c = Inr i \<longleftrightarrow>
     c = ''safe'' \<and> i = 0 \<or> c = ''warning'' \<and> i = 1 \<or> c = ''breaking'' \<and> i = 2"
  by (auto simp: classification_index_def CLASSIFICATION_ORDER_def split: option.splits)

lemma worst_classification_breaking:
  assumes "worst_classification cs = Inr w"
  shows "w = ''breaking'' \<longleftrightarrow> ''breaking'' \<in> set cs"
proof (cases "cs = []")
  case True
  then show ?thesis using assms by (auto simp: worst_classification_def)
next
  case False
  then obtain js where js: "map_res classification_index cs = Inr js"
    and w: "w = CLASSIFICATION_ORDER ! Max (set js)"
    using assms by (auto simp: worst_classification_def bind_res_Inr_iff)
  have all: "list_all2 (\<lambda>c i. classification_index c = Inr i) cs js"
    using js by (simp add: map_res_Inr_iff)
  then have "js \<noteq> []" using False by auto
  then have top: "Max (set js) \<in> set js" by simp
  have bound: "i \<le> 2" if "i \<in> set js" for i
    using all that by (auto simp: list_all2_conv_all_nth in_set_conv_nth classification_index_Inr)
  have two: "2 \<in> set js \<longleftrightarrow> ''breaking'' \<in> set cs"
    using all by (fastforce simp: list_all2_conv_all_nth in_set_conv_nth classification_index_Inr)
  have "w = ''breaking'' \<longleftrightarrow> Max (set js) = 2"
    using bound [OF top] unfolding w by (auto simp: CLASSIFICATION_ORDER_def nth_Cons split: nat.splits)
  also have "\<dots> \<longleftrightarrow> 2 \<in> set js"
    using top bound by (metis List.finite_set Max_ge antisym)
  finally show ?thesis using two by simp
qed

lemma worst_classification_cong:
  assumes "worst_classification cs = Inr w" and "set ds = set cs"
  shows "worst_classification ds = Inr w"
proof (cases "cs = []")
  case True
  then show ?thesis using assms by simp
next
  case False
  then obtain js where js: "list_all2 (\<lambda>c i. classification_index c = Inr i) cs js"
    and w: "w = CLASSIFICATION_ORDER ! Max (set js)"
    using assms by (auto simp: worst_classification_def bind_res_Inr_iff map_res_Inr_iff)
  have values_of: "set ks = {i. \<exists>c \<in> set xs. classification_index c = Inr i}"
    if "list_all2 (\<lambda>c i. classification_index c = Inr i) xs ks" for xs ks
    using that by (induction rule: list_all2_induct) auto
  have "\<exists>i. classification_index c = Inr i" if "c \<in> set cs" for c
    using js that by (auto simp: list_all2_conv_all_nth in_set_conv_nth)
  then obtain f where "\<And>c. c \<in> set cs \<Longrightarrow> classification_index c = Inr (f c)" by metis
  then have ks: "map_res classification_index ds = Inr (map f ds)"
    using assms(2) by (intro map_res_all_Inr) auto
  then have "set (map f ds) = set js"
    using values_of [OF js] values_of [of ds "map f ds"] assms(2) by (simp add: map_res_Inr_iff)
  then show ?thesis using ks w False assms(2) by (auto simp: worst_classification_def)
qed

lemma worst_classification_returns:
  assumes "set cs \<subseteq> set CLASSIFICATION_ORDER"
  shows "\<exists>w. worst_classification cs = Inr w"
proof -
  have "\<exists>i. classification_index c = Inr i" if "c \<in> set cs" for c
    using assms that by (auto simp: classification_index_Inr CLASSIFICATION_ORDER_def)
  then have "map_res classification_index cs = Inr (map (\<lambda>c. SOME i. classification_index c = Inr i) cs)"
    by (intro map_res_all_Inr) (metis (mono_tags) someI_ex)
  then show ?thesis by (simp add: worst_classification_def)
qed

lemma classify_generic: "classify t GENERIC_SCHEMA_POLICY ds \<in> set CLASSIFICATION_ORDER"
  by (auto simp: classify_def GENERIC_SCHEMA_POLICY_def default_classify_change_def Let_def
      DEFAULT_CLASSIFICATIONS_def CLASSIFICATION_ORDER_def)


section \<open>Properties of the planner\<close>

lemma plan_Inr_cases:
  assumes "plan_schema_migration order t current desired policy (Some renames) = Inr p"
  obtains "unique_names current" "unique_names desired"
    "legal_renames renames (names_of current) (names_of desired)"
    "plan_changes order (fields_of current) (fields_of desired) renames policy = Inr (sp_changes p)"
    "worst_classification (map sc_classification (sp_changes p)) = Inr (sp_classification p)"
    "sp_requires_approval p \<longleftrightarrow> sp_classification p = ''breaking''"
  using assms
  by (auto simp: plan_schema_migration_def bind_res_Inr_iff field_map_Inr validate_renames_Inr Let_def)

lemma plan_changes_generic:
  assumes "set_order order" and "legal_renames renames (names_of current) (names_of desired)"
    and "plan_changes order (fields_of current) (fields_of desired) renames GENERIC_SCHEMA_POLICY = Inr cs"
  shows "sc_classification ` set cs \<subseteq> set CLASSIFICATION_ORDER"
proof -
  have "sc_classification c \<in> set CLASSIFICATION_ORDER"
    if "c \<in> set (mutation_changes n cf df GENERIC_SCHEMA_POLICY)" for c n cf df
    using that classify_generic by (auto simp: mutation_changes_def Let_def split: if_splits)
  then show ?thesis
    using assms(3) plan_changes_eq [of renames "fields_of current" "fields_of desired"] assms(1,2)
      classify_generic
    by (auto simp: rename_block_def common_block_def rename_change_def add_change_def drop_change_def)
qed

text \<open>
  When planning succeeds. Under the generic policy a plan is produced exactly for schemas without
  duplicate field names and legal renames: non-empty names, sources in the current schema, targets
  in the desired but not in the current one, and no target named twice. Anything else raises.
\<close>

theorem schema_plan_returns:
  assumes "set_order order"
  shows "(\<exists>p. plan_schema_migration order t current desired GENERIC_SCHEMA_POLICY (Some renames) = Inr p)
    \<longleftrightarrow> unique_names current \<and> unique_names desired \<and>
        legal_renames renames (names_of current) (names_of desired)" (is "?l \<longleftrightarrow> ?r")
proof
  assume ?l
  then show ?r by (auto elim: plan_Inr_cases)
next
  assume r: ?r
  then obtain cs where cs: "plan_changes order (fields_of current) (fields_of desired) renames
      GENERIC_SCHEMA_POLICY = Inr cs"
    using plan_changes_eq [of renames "fields_of current" "fields_of desired" order] assms by simp
  then obtain w where "worst_classification (map sc_classification cs) = Inr w"
    using worst_classification_returns [of "map sc_classification cs"] plan_changes_generic assms r
    by auto
  moreover have "field_map current = Inr (fields_of current)" "field_map desired = Inr (fields_of desired)"
    "validate_renames renames (fields_of current) (fields_of desired) = Inr ()"
    using r by (simp_all add: field_map_Inr validate_renames_Inr)
  ultimately show ?l using cs by (simp add: plan_schema_migration_def)
qed

definition example_field :: "string \<Rightarrow> string \<Rightarrow> bool \<Rightarrow> field_spec" where
  "example_field n t nullable =
     \<lparr>fs_name = n, fs_dtype = t, fs_nullable = nullable, fs_default = JNull, fs_metadata = []\<rparr>"

definition example_current :: normalized_schema where
  "example_current = \<lparr>ns_fields = [example_field ''id'' ''int32'' False, example_field ''nm'' ''string'' True,
     example_field ''old'' ''date'' True], ns_metadata = []\<rparr>"

definition example_desired :: normalized_schema where
  "example_desired = \<lparr>ns_fields = [example_field ''name'' ''string'' False, example_field ''id'' ''int64'' False,
     example_field ''at'' ''date'' True], ns_metadata = []\<rparr>"

lemma sorted_list_set_order: "set_order sorted_list_of_set"
  by (simp add: set_order_def)

lemma example_legal:
  "unique_names example_current \<and> unique_names example_desired \<and>
   legal_renames [(''nm'', ''name'')] (names_of example_current) (names_of example_desired)"
  by (simp add: unique_names_def names_of_def legal_renames_def example_current_def
      example_desired_def example_field_def)

lemma schema_plan_returns_witness:
  "\<exists>p. plan_schema_migration sorted_list_of_set ''t'' example_current example_desired
      GENERIC_SCHEMA_POLICY (Some [(''nm'', ''name'')]) = Inr p"
  using schema_plan_returns [OF sorted_list_set_order] example_legal by blast

definition example_plan :: "migration_outline res" where
  "example_plan = plan_schema_migration sorted_list_of_set ''t'' example_current example_desired
     GENERIC_SCHEMA_POLICY (Some [(''nm'', ''name'')])"

lemma example_plan_Inr: "\<exists>p. example_plan = Inr p"
proof -
  have "case example_plan of Inl _ \<Rightarrow> False | Inr _ \<Rightarrow> True"
    unfolding example_plan_def by code_simp
  then show ?thesis by (auto split: sum.splits)
qed




text \<open>
  The pairs of fields a plan compares: the renamed ones, and the ones that keep their name.
\<close>

definition matched :: "(string, string) dict \<Rightarrow> normalized_schema \<Rightarrow> normalized_schema
    \<Rightarrow> (string \<times> string) set" where
  "matched renames current desired =
     set renames \<union> {(n, n) |n. n \<in> names_of current \<and> n \<in> names_of desired \<and>
       n \<notin> fst ` set renames \<and> n \<notin> snd ` set renames}"

definition field_of :: "normalized_schema \<Rightarrow> string \<Rightarrow> field_spec" where
  "field_of s n = the (dict_get (fields_of s) n)"

definition harmful :: "field_spec \<Rightarrow> field_spec \<Rightarrow> bool" where
  "harmful f g \<longleftrightarrow>
     fs_dtype f \<noteq> fs_dtype g \<and> (fs_dtype f, fs_dtype g) \<notin> set WIDEN_PAIRS \<or>
     fs_nullable f \<and> \<not> fs_nullable g"

lemma mutation_breaking:
  "''breaking'' \<in> sc_classification ` set (mutation_changes n f g GENERIC_SCHEMA_POLICY) \<longleftrightarrow> harmful f g"
proof -
  have "classify ''widen_type'' GENERIC_SCHEMA_POLICY [] = ''safe''"
    "classify ''narrow_type'' GENERIC_SCHEMA_POLICY [] = ''breaking''"
    "classify ''nullability_relaxed'' GENERIC_SCHEMA_POLICY [] = ''safe''"
    "classify ''nullability_tightened'' GENERIC_SCHEMA_POLICY [] = ''breaking''"
    by code_simp+
  then show ?thesis by (auto simp: mutation_changes_def harmful_def Let_def)
qed

lemma plan_breaking:
  assumes "set_order order" and "legal_renames renames (names_of current) (names_of desired)"
    and "plan_changes order (fields_of current) (fields_of desired) renames GENERIC_SCHEMA_POLICY = Inr cs"
  shows "''breaking'' \<in> sc_classification ` set cs \<longleftrightarrow>
    (\<exists>(n, f) \<in> set (added (fields_of current) (fields_of desired) renames).
       \<not> fs_nullable f \<and> fs_default f = JNull) \<or>
    dropped (fields_of current) (fields_of desired) renames \<noteq> [] \<or>
    (\<exists>(a, b) \<in> matched renames current desired. harmful (field_of current a) (field_of desired b))"
proof -
  let ?cf = "fields_of current" and ?df = "fields_of desired" and ?g = GENERIC_SCHEMA_POLICY
  let ?breaks = "\<lambda>cs. ''breaking'' \<in> sc_classification ` set cs"
  have "classify ''rename'' ?g [] = ''warning''" and drop: "classify ''drop'' ?g [] = ''breaking''"
    by code_simp+
  then have "?breaks (rename_block ?cf ?df ?g r) \<longleftrightarrow>
      harmful (the (dict_get ?cf (fst r))) (the (dict_get ?df (snd r)))" for r
    using mutation_breaking by (simp add: rename_block_def rename_change_def)
  then have renamed: "?breaks (concat (map (rename_block ?cf ?df ?g) (sort renames))) \<longleftrightarrow>
      (\<exists>r \<in> set renames. harmful (field_of current (fst r)) (field_of desired (snd r)))"
    by (simp add: image_UN field_of_def)
  have "sc_classification (add_change n f ?g) = ''breaking'' \<longleftrightarrow>
      \<not> fs_nullable f \<and> fs_default f = JNull" for n f
    by (simp add: add_change_def classify_def GENERIC_SCHEMA_POLICY_def default_classify_change_def Let_def)
  then have adds: "?breaks (map (\<lambda>(n, f). add_change n f ?g) (added ?cf ?df renames)) \<longleftrightarrow>
      (\<exists>(n, f) \<in> set (added ?cf ?df renames). \<not> fs_nullable f \<and> fs_default f = JNull)"
    by (simp add: image_iff split_beta eq_commute [of "''breaking''"])
  have drops: "?breaks (map (\<lambda>(n, f). drop_change n f ?g) (dropped ?cf ?df renames)) \<longleftrightarrow>
      dropped ?cf ?df renames \<noteq> []"
    using drop by (cases "dropped ?cf ?df renames") (auto simp: drop_change_def split_beta)
  have commons: "?breaks (concat (map (common_block ?cf ?df ?g) (kept order ?cf ?df renames))) \<longleftrightarrow>
      (\<exists>n \<in> set (kept order ?cf ?df renames). harmful (field_of current n) (field_of desired n))"
    using mutation_breaking by (simp add: image_UN common_block_def field_of_def)
  have matching: "(\<exists>r \<in> set renames. harmful (field_of current (fst r)) (field_of desired (snd r))) \<or>
      (\<exists>n \<in> set (kept order ?cf ?df renames). harmful (field_of current n) (field_of desired n))
      \<longleftrightarrow> (\<exists>(a, b) \<in> matched renames current desired. harmful (field_of current a) (field_of desired b))"
    unfolding matched_def set_kept [OF assms(1)] by (simp add: bex_Un split_beta) blast
  have parts: "cs = concat (map (rename_block ?cf ?df ?g) (sort renames)) @
      map (\<lambda>(n, f). add_change n f ?g) (added ?cf ?df renames) @
      map (\<lambda>(n, f). drop_change n f ?g) (dropped ?cf ?df renames) @
      concat (map (common_block ?cf ?df ?g) (kept order ?cf ?df renames))"
    using plan_changes_eq [of renames ?cf ?df order] assms by simp
  show ?thesis
    unfolding parts set_append image_Un Un_iff renamed adds drops commons matching [symmetric]
    by blast
qed

text \<open>
  When approval is required. Under the generic policy a plan requires approval exactly when it is
  destructive: it adds a required field without a default, drops a field that is not renamed,
  changes a type outside the lossless widenings, or tightens nullability, also across a rename.
\<close>

theorem schema_plan_approval:
  assumes "set_order order" 
    and "plan_schema_migration order t current desired GENERIC_SCHEMA_POLICY (Some renames) = Inr p"
  shows "sp_requires_approval p \<longleftrightarrow>
    (\<exists>n \<in> names_of desired - names_of current - snd ` set renames.
       \<not> fs_nullable (field_of desired n) \<and> fs_default (field_of desired n) = JNull) \<or>
    \<not> names_of current \<subseteq> names_of desired \<union> fst ` set renames \<or>
    (\<exists>(a, b) \<in> matched renames current desired. harmful (field_of current a) (field_of desired b))"
proof -
  let ?cf = "fields_of current" and ?df = "fields_of desired"
  obtain unique: "unique_names desired" and legal: "legal_renames renames (names_of current) (names_of desired)"
    and changes: "plan_changes order ?cf ?df renames GENERIC_SCHEMA_POLICY = Inr (sp_changes p)"
    and worst: "worst_classification (map sc_classification (sp_changes p)) = Inr (sp_classification p)"
    and approval: "sp_requires_approval p \<longleftrightarrow> sp_classification p = ''breaking''"
    using plan_Inr_cases [OF assms(2)] by blast
  have at: "field_of desired n = f" if "(n, f) \<in> set ?df" for n f
    using dict_ok_get [OF fields_of_ok [OF unique] that] by (simp add: field_of_def)
  have "(n, f) \<in> set (added ?cf ?df renames) \<longleftrightarrow>
      n \<in> names_of desired - names_of current - snd ` set renames \<and> f = field_of desired n" for n f
    using at by (auto simp: added_def names_of_mem)
  then have adds: "(\<exists>(n, f) \<in> set (added ?cf ?df renames). \<not> fs_nullable f \<and> fs_default f = JNull) \<longleftrightarrow>
      (\<exists>n \<in> names_of desired - names_of current - snd ` set renames.
       \<not> fs_nullable (field_of desired n) \<and> fs_default (field_of desired n) = JNull)"
    by (simp add: Bex_def split_paired_Ex) 
  have drops: "dropped ?cf ?df renames \<noteq> [] \<longleftrightarrow> \<not> names_of current \<subseteq> names_of desired \<union> fst ` set renames"
    unfolding dropped_def fields_of_keys filter_empty_conv subset_iff names_of_mem [of _ current]
    by auto
  show ?thesis
    using worst_classification_breaking [OF worst] plan_breaking [OF assms(1) legal changes] approval
    unfolding adds drops by simp
qed

lemma schema_plan_approval_witness:
  "case example_plan of Inl _ \<Rightarrow> False | Inr p \<Rightarrow> sp_requires_approval p"
proof -
  obtain p where p: "example_plan = Inr p" using example_plan_Inr ..
  have "\<not> names_of example_current \<subseteq> names_of example_desired \<union> fst ` set [(''nm'', ''name'')]"
    by (simp add: names_of_def example_desired_def example_current_def example_field_def)
  then show ?thesis
    using schema_plan_approval [OF sorted_list_set_order p [unfolded example_plan_def]] by (simp add: p)
qed

text \<open>
  Set iteration order does not matter. Whatever order Python picks for the common field names, the
  plan has the same changes up to order, the same classification and the same approval.
\<close>

theorem schema_plan_order:
  assumes "set_order order" and "set_order order'"
    and "plan_schema_migration order t current desired policy (Some renames) = Inr p"
  shows "\<exists>p'. plan_schema_migration order' t current desired policy (Some renames) = Inr p' \<and>
    mset (sp_changes p') = mset (sp_changes p) \<and> sp_classification p' = sp_classification p \<and>
    sp_requires_approval p' = sp_requires_approval p"
proof -
  let ?cf = "fields_of current" and ?df = "fields_of desired"
  obtain unique: "unique_names current" "unique_names desired"
    and legal: "legal_renames renames (names_of current) (names_of desired)"
    and changes: "plan_changes order ?cf ?df renames policy = Inr (sp_changes p)"
    and worst: "worst_classification (map sc_classification (sp_changes p)) = Inr (sp_classification p)"
    and approval: "sp_requires_approval p \<longleftrightarrow> sp_classification p = ''breaking''"
    using plan_Inr_cases [OF assms(3)] by blast
  have parts: "mset cs =
      mset (concat (map (rename_block ?cf ?df policy) (sort renames))) +
      mset (map (\<lambda>(n, f). add_change n f policy) (added ?cf ?df renames)) +
      mset (map (\<lambda>(n, f). drop_change n f policy) (dropped ?cf ?df renames)) +
      mset (concat (map (common_block ?cf ?df policy) (kept some ?cf ?df renames)))"
    if "set_order some" and "plan_changes some ?cf ?df renames policy = Inr cs" for some cs
    using plan_changes_eq [of renames ?cf ?df some policy] legal that by auto
  obtain cs where cs: "plan_changes order' ?cf ?df renames policy = Inr cs"
    using plan_changes_eq [of renames ?cf ?df order' policy] legal assms(2) by simp
  have "mset (order S) = mset (order' S)" if "finite S" for S
    using assms(1,2) that by (simp add: set_order_def flip: set_eq_iff_mset_eq_distinct)
  then have kept: "mset (kept order' ?cf ?df renames) = mset (kept order ?cf ?df renames)"
    by (simp add: kept_def)
  have same: "mset cs = mset (sp_changes p)"
    unfolding parts [OF assms(1) changes] parts [OF assms(2) cs] 
    by (simp only: mset_concat_map [OF kept])
  then have "worst_classification (map sc_classification cs) = Inr (sp_classification p)"
    using worst_classification_cong [OF worst] by (metis mset_eq_setD set_map)
  moreover have "field_map current = Inr ?cf" "field_map desired = Inr ?df"
    "validate_renames renames ?cf ?df = Inr ()"
    using unique legal by (simp_all add: field_map_Inr validate_renames_Inr)
  ultimately show ?thesis
    using cs same approval by (simp add: plan_schema_migration_def)
qed

lemma schema_plan_order_witness:
  "case example_plan of Inl _ \<Rightarrow> False | Inr p \<Rightarrow>
     (\<exists>p'. plan_schema_migration (rev \<circ> sorted_list_of_set) ''t'' example_current example_desired
       GENERIC_SCHEMA_POLICY (Some [(''nm'', ''name'')]) = Inr p' \<and>
       mset (sp_changes p') = mset (sp_changes p))"
proof -
  obtain p where p: "example_plan = Inr p" using example_plan_Inr ..
  have "set_order (rev \<circ> sorted_list_of_set)" by (simp add: set_order_def)
  then show ?thesis
    using schema_plan_order [OF sorted_list_set_order _ p [unfolded example_plan_def]]
    by (fastforce simp: p)
qed

end
