(* ===== verification/Rbac_Models.thy ===== *)
theory Rbac_Models
  imports Phlo_Json
begin

text \<open>
  \<open>phlo/rbac/models.py\<close>: the canonical role and policy configuration, the expansion of the role
  hierarchy, the validation of a model and the roles of a principal. \<open>hashlib.sha256\<close> is the
  argument \<open>sha256\<close>; documents are decoded JSON values. The artifacts and plans of the file
  are in the compiler theories that use them.
\<close>

section \<open>Configuration\<close>

datatype policy_effect = ALLOW | DENY

fun effect_value :: "policy_effect \<Rightarrow> string" where
  "effect_value ALLOW = ''allow''"
| "effect_value DENY = ''deny''"

definition effect_coerce :: "string \<Rightarrow> policy_effect res" where
  "effect_coerce s =
     (if s = effect_value ALLOW then Inr ALLOW
      else if s = effect_value DENY then Inr DENY
      else Inl (ValueError (py_repr s @ '' is not a valid PolicyEffect'')))"

record role =
  ro_name :: string
  ro_inherits :: "string list"
  ro_description :: "json option"

record subject_assignment =
  su_services :: "(string, string list) dict"
  su_users :: "(string, string list) dict"

record roles_config =
  rc_version :: json
  rc_roles :: "(string, role) dict"
  rc_subjects :: subject_assignment

record rbac_policy_rule =
  pr_policy_id :: string
  pr_effect :: policy_effect
  pr_principal_roles :: "string list"
  pr_principal_attributes :: "(string \<times> json) list"
  pr_action :: string
  pr_resource_type :: string
  pr_resource_id_pattern :: string
  pr_resource_attributes :: "(string \<times> json) list"

record policies_config =
  pc_version :: json
  pc_policies :: "rbac_policy_rule list"

record canonical_rbac =
  rb_roles :: roles_config
  rb_policies :: policies_config
  rb_version_hash :: "string option"

section \<open>Parsing\<close>

text \<open>
  \<open>d.get(k, default)\<close>, \<open>tuple(v)\<close> and the reads that expect a mapping. A value the code accepts but
  that the types of the model do not hold, such as a role name that is a number, is \<open>UntypedPayload\<close>.
\<close>

definition get_or :: "(string \<times> json) list \<Rightarrow> string \<Rightarrow> json \<Rightarrow> json" where
  "get_or d k dflt = (case dict_get d k of None \<Rightarrow> dflt | Some v \<Rightarrow> v)"

fun str_list :: "json list \<Rightarrow> string list res" where
  "str_list [] = Inr []"
| "str_list (JStr s # vs) = bind_res (str_list vs) (\<lambda>ss. Inr (s # ss))"
| "str_list (_ # vs) = Inl UntypedPayload"

fun str_tuple :: "json \<Rightarrow> string list res" where
  "str_tuple (JList vs) = str_list vs"
| "str_tuple (JStr s) = Inr (map (\<lambda>c. [c]) s)"
| "str_tuple (JObj d) = Inr (map fst d)"
| "str_tuple _ = Inl TypeError"

fun as_mapping :: "json \<Rightarrow> (string \<times> json) list res" where
  "as_mapping (JObj d) = Inr d"
| "as_mapping _ = Inl UntypedPayload"

fun as_str :: "json \<Rightarrow> string res" where
  "as_str (JStr s) = Inr s"
| "as_str _ = Inl UntypedPayload"

definition role_from_dict :: "string \<times> json \<Rightarrow> (string \<times> role) res" where
  "role_from_dict item =
     bind_res (as_mapping (snd item)) (\<lambda>config.
     bind_res (str_tuple (get_or config ''inherits'' (JList []))) (\<lambda>inherits.
       Inr (fst item, \<lparr>ro_name = fst item, ro_inherits = inherits,
                       ro_description = dict_get config ''description''\<rparr>)))"

fun assignment_from_dict :: "string \<times> json \<Rightarrow> (string \<times> string list) res" where
  "assignment_from_dict (subject, JList vs) = bind_res (str_list vs) (\<lambda>rs. Inr (subject, rs))"
| "assignment_from_dict _ = Inl UntypedPayload"

definition roles_from_dict :: "(string \<times> json) list \<Rightarrow> roles_config res" where
  "roles_from_dict d =
     bind_res (as_mapping (get_or d ''roles'' (JObj []))) (\<lambda>roles_data.
     bind_res (as_mapping (get_or d ''subjects'' (JObj []))) (\<lambda>subjects_data.
     bind_res (map_res role_from_dict roles_data) (\<lambda>roles.
     bind_res (as_mapping (get_or subjects_data ''services'' (JObj []))) (\<lambda>services.
     bind_res (as_mapping (get_or subjects_data ''users'' (JObj []))) (\<lambda>users.
     bind_res (map_res assignment_from_dict services) (\<lambda>ss.
     bind_res (map_res assignment_from_dict users) (\<lambda>us.
       Inr \<lparr>rc_version = get_or d ''version'' (JInt 1), rc_roles = roles,
            rc_subjects = \<lparr>su_services = ss, su_users = us\<rparr>\<rparr>)))))))"

definition policy_from_dict :: "(string \<times> json) list \<Rightarrow> rbac_policy_rule res" where
  "policy_from_dict d =
     bind_res (bind_res (as_str (get_or d ''effect'' (JStr ''deny''))) effect_coerce) (\<lambda>eff.
     bind_res (as_mapping (get_or d ''principal'' (JObj []))) (\<lambda>principal.
     bind_res (as_mapping (get_or d ''resource'' (JObj []))) (\<lambda>resource.
     bind_res (case dict_get d ''policy_id'' of
                 None \<Rightarrow> Inl (KeyError ''policy_id'') | Some v \<Rightarrow> as_str v) (\<lambda>policy_id.
     bind_res (str_tuple (get_or principal ''roles'' (JList []))) (\<lambda>roles.
     bind_res (as_mapping (get_or principal ''attributes'' (JObj []))) (\<lambda>pattrs.
     bind_res (as_str (get_or d ''action'' (JStr ''*''))) (\<lambda>action.
     bind_res (as_str (get_or resource ''type'' (JStr ''*''))) (\<lambda>rtype.
     bind_res (as_str (get_or resource ''id_pattern'' (JStr ''*''))) (\<lambda>rid.
     bind_res (as_mapping (get_or resource ''attributes'' (JObj []))) (\<lambda>rattrs.
       Inr \<lparr>pr_policy_id = policy_id, pr_effect = eff, pr_principal_roles = roles,
            pr_principal_attributes = pattrs, pr_action = action, pr_resource_type = rtype,
            pr_resource_id_pattern = rid, pr_resource_attributes = rattrs\<rparr>))))))))))"

definition policies_from_dict :: "(string \<times> json) list \<Rightarrow> policies_config res" where
  "policies_from_dict d =
     (case get_or d ''policies'' (JList []) of
        JList ps \<Rightarrow>
          bind_res (map_res (\<lambda>p. bind_res (as_mapping p) policy_from_dict) ps) (\<lambda>policies.
            Inr \<lparr>pc_version = get_or d ''version'' (JInt 1), pc_policies = policies\<rparr>)
      | _ \<Rightarrow> Inl UntypedPayload)"

section \<open>Role hierarchy\<close>

definition unknown_role :: "string \<Rightarrow> py_error" where
  "unknown_role n = ValueError (''Unknown role: '' @ n)"

definition role_cycle :: "string list \<Rightarrow> string \<Rightarrow> py_error" where
  "role_cycle path n =
     ValueError (''Cycle detected in role hierarchy: '' @ str_join '' -> '' path @ '' -> '' @ n)"

definition missing_role :: "string \<Rightarrow> py_error" where
  "missing_role n =
     ValueError (''Role '' @ CHR 0x27 # n @ CHR 0x27 # '' referenced in hierarchy does not exist'')"

text \<open>
  \<open>_expand\<close> and its loop over the parents: \<open>path\<close> is the stack of roles being expanded, and the
  accumulated \<open>result_set\<close> is returned with the roles found. A role on the path is never expanded
  again, so the number of defined roles off the path bounds the recursion.
\<close>

function (sequential) expand :: "(string, role) dict \<Rightarrow> string list \<Rightarrow> string set \<Rightarrow> string \<Rightarrow> (string list \<times> string set) res"
and expand_all :: "(string, role) dict \<Rightarrow> string list \<Rightarrow> string set \<Rightarrow> string list
      \<Rightarrow> (string list \<times> string set) res" where
  "expand roles path result_set name =
     (if name \<in> set path then Inl (role_cycle path name)
      else if name \<in> result_set then Inr ([], result_set)
      else case dict_get roles name of
        None \<Rightarrow> Inl (missing_role name)
      | Some r \<Rightarrow>
          bind_res (expand_all roles (path @ [name]) (insert name result_set) (ro_inherits r))
            (\<lambda>(result, seen). Inr (name # result, seen)))"
| "expand_all roles path result_set [] = Inr ([], result_set)"
| "expand_all roles path result_set (parent # parents) =
     bind_res (expand roles path result_set parent) (\<lambda>(found, seen).
     bind_res (expand_all roles path seen parents) (\<lambda>(result, seen').
       Inr (found @ result, seen')))"
  by pat_completeness auto
termination
proof (relation "measures
    [\<lambda>x. case x of Inl (roles, path, _, _) \<Rightarrow> card (fst ` set roles - set path)
                 | Inr (roles, path, _, _) \<Rightarrow> card (fst ` set roles - set path),
     \<lambda>x. case x of Inl _ \<Rightarrow> 0 | Inr (_, _, _, ps) \<Rightarrow> Suc (length ps)]", goal_cases)
  case (2 roles path result_set name r)
  then have "name \<in> fst ` set roles" by (metis dict_has_get option.distinct(1))
  with 2 have "fst ` set roles - set (path @ [name]) \<subset> fst ` set roles - set path" by auto
  then show ?case by (simp add: psubset_card_mono)
qed auto

declare expand.simps [simp del]

definition expand_role_hierarchy :: "roles_config \<Rightarrow> string \<Rightarrow> string list res" where
  "expand_role_hierarchy rc role_name =
     (if \<not> dict_has (rc_roles rc) role_name then Inl (unknown_role role_name)
      else bind_res (expand (rc_roles rc) [] {} role_name) (\<lambda>(result, _). Inr result))"

definition get_effective_roles :: "roles_config \<Rightarrow> string \<Rightarrow> string set res" where
  "get_effective_roles rc role_name =
     bind_res (expand_role_hierarchy rc role_name) (\<lambda>rs. Inr (set rs))"

section \<open>The canonical model\<close>

definition dict_json :: "('a \<Rightarrow> json) \<Rightarrow> (string \<times> 'a) list \<Rightarrow> json" where
  "dict_json f d = JObj (map (\<lambda>p. (fst p, f (snd p))) d)"

definition strs_json :: "string list \<Rightarrow> json" where
  "strs_json ss = JList (map JStr ss)"

definition policy_json :: "rbac_policy_rule \<Rightarrow> json" where
  "policy_json p = JObj
     [(''policy_id'', JStr (pr_policy_id p)), (''effect'', JStr (effect_value (pr_effect p))),
      (''principal_roles'', strs_json (pr_principal_roles p)),
      (''principal_attributes'', JObj (pr_principal_attributes p)),
      (''action'', JStr (pr_action p)), (''resource_type'', JStr (pr_resource_type p)),
      (''resource_id_pattern'', JStr (pr_resource_id_pattern p)),
      (''resource_attributes'', JObj (pr_resource_attributes p))]"

definition rbac_content :: "roles_config \<Rightarrow> policies_config \<Rightarrow> json" where
  "rbac_content rc pc = JObj
     [(''roles_version'', rc_version rc), (''policies_version'', pc_version pc),
      (''roles'', dict_json (\<lambda>r. JObj [(''inherits'', strs_json (ro_inherits r))]) (rc_roles rc)),
      (''subjects'', JObj [(''services'', dict_json strs_json (su_services (rc_subjects rc))),
                          (''users'', dict_json strs_json (su_users (rc_subjects rc)))]),
      (''policies'', JList (map policy_json (pc_policies pc)))]"

definition from_configs :: "(string \<Rightarrow> string) \<Rightarrow> roles_config \<Rightarrow> policies_config \<Rightarrow> canonical_rbac" where
  "from_configs sha256 rc pc =
     \<lparr>rb_roles = rc, rb_policies = pc,
      rb_version_hash = Some (take 16 (sha256 (json_dumps '', '' '': '' (rbac_content rc pc))))\<rparr>"

definition effect_errors :: "rbac_policy_rule list \<Rightarrow> string list" where
  "effect_errors ps =
     map (\<lambda>e. ''Canonical RBAC does not support '' @ py_repr e @
         '' policies yet. Remove those rules until backend compilation semantics are implemented.'')
       (sort (remdups (map (effect_value \<circ> pr_effect) (filter (\<lambda>p. pr_effect p \<noteq> ALLOW) ps))))"

definition reference_errors :: "(string, role) dict \<Rightarrow> rbac_policy_rule list \<Rightarrow> string list" where
  "reference_errors roles ps =
     concat (map (\<lambda>p. map (\<lambda>r. ''Policy '' @ pr_policy_id p @ '' references unknown role: '' @ r)
                        (filter (\<lambda>r. \<not> dict_has roles r) (pr_principal_roles p))) ps)"

definition hierarchy_errors :: "roles_config \<Rightarrow> string list" where
  "hierarchy_errors rc =
     List.map_filter (\<lambda>n. case expand_role_hierarchy rc n of Inl e \<Rightarrow> Some (exc_text e) | Inr _ \<Rightarrow> None)
       (map fst (rc_roles rc))"

definition rbac_validate :: "canonical_rbac \<Rightarrow> string list" where
  "rbac_validate m =
     effect_errors (pc_policies (rb_policies m)) @
     reference_errors (rc_roles (rb_roles m)) (pc_policies (rb_policies m)) @
     hierarchy_errors (rb_roles m)"

fun union_roles :: "roles_config \<Rightarrow> string list \<Rightarrow> string set \<Rightarrow> string set res" where
  "union_roles rc [] eff = Inr eff"
| "union_roles rc (r # rs) eff =
     bind_res (get_effective_roles rc r) (\<lambda>more. union_roles rc rs (eff \<union> more))"

definition effective_roles_for_subject :: "canonical_rbac \<Rightarrow> string \<Rightarrow> string \<Rightarrow> string set res" where
  "effective_roles_for_subject m subject principal_type =
     (let subjects = rc_subjects (rb_roles m);
          assignments = (if principal_type \<in> {''service'', ''platform''}
                         then su_services subjects else su_users subjects)
      in union_roles (rb_roles m)
           (case dict_get assignments subject of None \<Rightarrow> [] | Some rs \<Rightarrow> rs) {})"

end
