(* ===== verification/Rbac_Hierarchy.thy ===== *)
theory Rbac_Hierarchy
  imports Rbac_Models
begin

text \<open>
  The expansion of the role hierarchy against the inheritance relation: what it returns, when it
  raises, and what a validated model guarantees to every principal.
\<close>

section \<open>The inheritance relation\<close>

definition inherits_from :: "(string, role) dict \<Rightarrow> (string \<times> string) set" where
  "inherits_from roles = {(a, b). \<exists>r. dict_get roles a = Some r \<and> b \<in> set (ro_inherits r)}"

text \<open>A role is sound when everything it reaches is defined and on no cycle.\<close>

definition sound_role :: "(string, role) dict \<Rightarrow> string \<Rightarrow> bool" where
  "sound_role roles n \<longleftrightarrow>
     (\<forall>x. (n, x) \<in> (inherits_from roles)\<^sup>* \<longrightarrow>
        dict_has roles x \<and> (x, x) \<notin> (inherits_from roles)\<^sup>+)"

text \<open>
  The invariant of the depth-first search: the finished roles (seen and off the path) are defined,
  closed under inheritance and on no cycle.
\<close>

definition expanding :: "(string, role) dict \<Rightarrow> string list \<Rightarrow> string set \<Rightarrow> bool" where
  "expanding roles path seen \<longleftrightarrow>
     set path \<subseteq> seen \<and>
     (\<forall>a \<in> seen - set path. dict_has roles a \<and> inherits_from roles `` {a} \<subseteq> seen - set path \<and>
        (a, a) \<notin> (inherits_from roles)\<^sup>+)"

lemma closed_reach:
  assumes "\<forall>a \<in> F. R `` {a} \<subseteq> F" and "(a, b) \<in> R\<^sup>*" and "a \<in> F"
  shows "b \<in> F"
  using assms(2,3) by (induction rule: rtrancl_induct) (use assms(1) in auto)

lemma expanding_start [simp]: "expanding roles [] {}"
  by (simp add: expanding_def)

lemma expanding_enter:
  "expanding roles path seen \<Longrightarrow> name \<notin> seen \<Longrightarrow> expanding roles (path @ [name]) (insert name seen)"
  by (auto simp: expanding_def)

lemma expanding_leave:
  assumes inv: "expanding roles (path @ [name]) seen" and "name \<notin> set path"
    and def: "dict_has roles name"
    and children: "inherits_from roles `` {name} \<subseteq> seen - set (path @ [name])"
  shows "expanding roles path seen"
proof -
  let ?R = "inherits_from roles" and ?F = "seen - set (path @ [name])"
  have F: "seen - set path = insert name ?F" using inv \<open>name \<notin> set path\<close> by (auto simp: expanding_def)
  have closed: "\<forall>a \<in> ?F. ?R `` {a} \<subseteq> ?F" using inv by (simp add: expanding_def)
  have "(name, name) \<notin> ?R\<^sup>+"
  proof
    assume "(name, name) \<in> ?R\<^sup>+"
    then obtain c where "(name, c) \<in> ?R" "(c, name) \<in> ?R\<^sup>*" by (meson tranclD)
    then have "name \<in> ?F" using closed_reach [OF closed] children by blast
    then show False by simp
  qed
  moreover have "\<forall>a \<in> ?F. dict_has roles a \<and> ?R `` {a} \<subseteq> ?F \<and> (a, a) \<notin> ?R\<^sup>+" "set path \<subseteq> seen"
    using inv by (simp_all add: expanding_def)
  ultimately show ?thesis
    using def children unfolding expanding_def F by blast
qed

section \<open>What the expansion returns\<close>

definition expanded :: "(string, role) dict \<Rightarrow> string list \<Rightarrow> string set \<Rightarrow> string set
    \<Rightarrow> string list \<Rightarrow> string set \<Rightarrow> bool" where
  "expanded roles path seen from result seen' \<longleftrightarrow>
     expanding roles path seen' \<and> seen' = seen \<union> set result \<and> distinct result \<and>
     set result \<inter> seen = {} \<and> from \<subseteq> seen' - set path \<and>
     (\<forall>x \<in> set result. \<exists>p \<in> from. (p, x) \<in> (inherits_from roles)\<^sup>*)"

lemma expand_expanded:
  "expand roles path seen name = Inr (result, seen') \<Longrightarrow> expanding roles path seen \<Longrightarrow>
     expanded roles path seen {name} result seen'"
  "expand_all roles path seen parents = Inr (result, seen') \<Longrightarrow> expanding roles path seen \<Longrightarrow>
     expanded roles path seen (set parents) result seen'"
proof (induction roles path seen name and roles path seen parents
    arbitrary: result seen' and result seen' rule: expand_expand_all.induct)
  case (1 roles path seen name)
  show ?case
  proof (cases "name \<in> set path \<or> name \<in> seen")
    case True
    then show ?thesis using 1 by (auto simp: expand.simps expanded_def split: if_splits)
  next
    case False
    then obtain r rest where r: "dict_get roles name = Some r"
      and rest: "expand_all roles (path @ [name]) (insert name seen) (ro_inherits r) = Inr (rest, seen')"
      and result: "result = name # rest"
      using 1(2) by (auto simp: expand.simps bind_res_Inr_iff split: option.splits)
    have sub: "expanded roles (path @ [name]) (insert name seen) (set (ro_inherits r)) rest seen'"
      using 1(1) [OF _ _ r rest] False expanding_enter 1(3) by simp
    have image: "inherits_from roles `` {name} = set (ro_inherits r)"
      using r by (auto simp: inherits_from_def)
    have "expanding roles path seen'"
    proof (rule expanding_leave)
      show "expanding roles (path @ [name]) seen'" using sub unfolding expanded_def by blast
      show "name \<notin> set path" using False by simp
      show "dict_has roles name" using r by (simp add: dict_has_get)
      show "inherits_from roles `` {name} \<subseteq> seen' - set (path @ [name])"
        using sub unfolding image expanded_def by blast
    qed
    moreover have "(name, x) \<in> (inherits_from roles)\<^sup>*" if "x \<in> set rest" for x
    proof -
      from that sub obtain p where p: "p \<in> set (ro_inherits r)" "(p, x) \<in> (inherits_from roles)\<^sup>*"
        by (auto simp: expanded_def)
      from p(1) have "(name, p) \<in> inherits_from roles" using r by (auto simp: inherits_from_def)
      then show ?thesis using p(2) by (rule converse_rtrancl_into_rtrancl)
    qed
    ultimately show ?thesis using sub False by (auto simp: expanded_def result)
  qed
next
  case (2 roles path seen)
  then show ?case by (simp add: expanded_def)
next
  case (3 roles path seen parent parents)
  then obtain found mid rest where
    one: "expand roles path seen parent = Inr (found, mid)"
    and all: "expand_all roles path mid parents = Inr (rest, seen')" and result: "result = found @ rest"
    by (auto simp: bind_res_Inr_iff)
  have first: "expanded roles path seen {parent} found mid" using 3(1) [OF one] 3(4) by simp
  moreover have "expanded roles path mid (set parents) rest seen'"
    by (rule 3(2) [OF all]) (use first in \<open>unfold expanded_def, blast\<close>)
  ultimately show ?case unfolding result expanded_def by auto
qed


section \<open>When the expansion raises\<close>

definition unsound_from :: "(string, role) dict \<Rightarrow> string set \<Rightarrow> bool" where
  "unsound_from roles from \<longleftrightarrow> (\<exists>p \<in> from. \<not> sound_role roles p)"

lemma unsound_step:
  "(a, b) \<in> inherits_from roles \<Longrightarrow> \<not> sound_role roles b \<Longrightarrow> \<not> sound_role roles a"
  unfolding sound_role_def by (meson converse_rtrancl_into_rtrancl)

definition is_ValueError :: "py_error \<Rightarrow> bool" where
  "is_ValueError e \<longleftrightarrow> (\<exists>s. e = ValueError s)"

lemma expand_raises:
  "expand roles path seen name = Inl e \<Longrightarrow> \<forall>p \<in> set path. (p, name) \<in> (inherits_from roles)\<^sup>+ \<Longrightarrow>
     \<not> sound_role roles name \<and> is_ValueError e"
  "expand_all roles path seen parents = Inl e \<Longrightarrow>
     \<forall>p \<in> set path. \<forall>q \<in> set parents. (p, q) \<in> (inherits_from roles)\<^sup>+ \<Longrightarrow>
     (\<exists>q \<in> set parents. \<not> sound_role roles q) \<and> is_ValueError e"
proof (induction roles path seen name and roles path seen parents
    arbitrary: e and e rule: expand_expand_all.induct)
  case (1 roles path seen name)
  consider (cycle) "name \<in> set path" | (missing) "name \<notin> set path" "name \<notin> seen" "dict_get roles name = None"
    | (deep) r where "name \<notin> set path" "name \<notin> seen" "dict_get roles name = Some r"
    using 1(2) by (cases "dict_get roles name") (auto simp: expand.simps split: if_splits)
  then show ?case
  proof cases
    case cycle
    then have "\<not> sound_role roles name" using 1(3) by (auto simp: sound_role_def)
    then show ?thesis
      using cycle 1(2) by (auto simp: expand.simps role_cycle_def is_ValueError_def)
  next
    case missing
    then have "\<not> dict_has roles name" unfolding dict_has_get by simp
    then have "\<not> sound_role roles name" unfolding sound_role_def by blast
    then show ?thesis
      using missing 1(2) by (auto simp: expand.simps missing_role_def is_ValueError_def)
  next
    case deep
    then have sub: "expand_all roles (path @ [name]) (insert name seen) (ro_inherits r) = Inl e"
      using 1(2) by (auto simp: expand.simps bind_res_Inl_iff)
    have edge: "(name, q) \<in> inherits_from roles" if "q \<in> set (ro_inherits r)" for q
      using that deep by (auto simp: inherits_from_def)
    then have "\<forall>p \<in> set (path @ [name]). \<forall>q \<in> set (ro_inherits r). (p, q) \<in> (inherits_from roles)\<^sup>+"
      using 1(3) by (auto intro: trancl_into_trancl)
    then have "(\<exists>q \<in> set (ro_inherits r). \<not> sound_role roles q) \<and> is_ValueError e"
      using 1(1) [OF _ _ deep(3) sub] deep by simp
    then show ?thesis using edge unsound_step by blast
  qed
next
  case (3 roles path seen parent parents)
  show ?case
  proof (cases "expand roles path seen parent")
    case (Inl e')
    then show ?thesis using 3(1) [OF Inl] 3(3,4) by simp
  next
    case (Inr fm)
    then obtain found mid where one: "expand roles path seen parent = Inr (found, mid)" by (cases fm) auto
    then have "expand_all roles path mid parents = Inl e" using 3(3) by (auto simp: bind_res_Inl_iff)
    then show ?thesis using 3(2) 3(4) by auto
  qed
qed simp

lemma expand_sound:
  assumes "expand roles [] {} name = Inr (result, seen)"
  shows "sound_role roles name \<and> distinct result \<and> set result = {x. (name, x) \<in> (inherits_from roles)\<^sup>*}"
proof -
  have e: "expanded roles [] {} {name} result seen" using expand_expanded(1) [OF assms] by simp
  then have seen: "seen = set result" by (simp add: expanded_def)
  have inv: "\<forall>a \<in> set result. dict_has roles a \<and> inherits_from roles `` {a} \<subseteq> set result \<and>
      (a, a) \<notin> (inherits_from roles)\<^sup>+"
    using e unfolding expanded_def expanding_def seen by simp
  have mem: "name \<in> set result" using e seen unfolding expanded_def by blast
  have "x \<in> set result" if "(name, x) \<in> (inherits_from roles)\<^sup>*" for x
    using closed_reach [OF _ that mem] inv by simp
  moreover have "(name, x) \<in> (inherits_from roles)\<^sup>*" if "x \<in> set result" for x
    using that e by (auto simp: expanded_def)
  ultimately have "set result = {x. (name, x) \<in> (inherits_from roles)\<^sup>*}" by blast
  moreover have "distinct result" using e by (simp add: expanded_def)
  ultimately show ?thesis using inv unfolding sound_role_def by blast
qed

lemma sound_role_defined: "sound_role roles n \<Longrightarrow> dict_has roles n"
  unfolding sound_role_def by blast

lemma expand_returns_iff: "(\<exists>r. expand roles [] {} name = Inr r) \<longleftrightarrow> sound_role roles name"
proof
  assume "\<exists>r. expand roles [] {} name = Inr r"
  then show "sound_role roles name" using expand_sound by fastforce
next
  assume "sound_role roles name"
  then show "\<exists>r. expand roles [] {} name = Inr r"
    using expand_raises(1) [of roles "[]" "{}" name] by (cases "expand roles [] {} name") auto
qed

lemma hierarchy_cases:
  "case expand_role_hierarchy rc n of
     Inr rs \<Rightarrow> sound_role (rc_roles rc) n \<and> distinct rs \<and>
       set rs = {x. (n, x) \<in> (inherits_from (rc_roles rc))\<^sup>*}
   | Inl e \<Rightarrow> \<not> sound_role (rc_roles rc) n \<and> is_ValueError e"
proof (cases "dict_has (rc_roles rc) n")
  case False
  then have "expand_role_hierarchy rc n = Inl (unknown_role n)" by (simp add: expand_role_hierarchy_def)
  moreover have "\<not> sound_role (rc_roles rc) n" using False sound_role_defined by blast
  ultimately show ?thesis by (simp add: unknown_role_def is_ValueError_def)
next
  case True
  then have eq: "expand_role_hierarchy rc n = bind_res (expand (rc_roles rc) [] {} n) (\<lambda>(result, _). Inr result)"
    by (simp add: expand_role_hierarchy_def)
  show ?thesis
  proof (cases "expand (rc_roles rc) [] {} n")
    case (Inl e)
    then show ?thesis using expand_raises(1) [OF Inl] by (simp add: eq)
  next
    case (Inr p)
    then show ?thesis using expand_sound [of "rc_roles rc" n "fst p" "snd p"]
      by (simp add: eq split_beta)
  qed
qed


section \<open>Validated models\<close>

definition assigned_roles :: "canonical_rbac \<Rightarrow> string \<Rightarrow> string \<Rightarrow> string list" where
  "assigned_roles m subject principal_type =
     (case dict_get (if principal_type \<in> {''service'', ''platform''}
                     then su_services (rc_subjects (rb_roles m)) else su_users (rc_subjects (rb_roles m)))
        subject of None \<Rightarrow> [] | Some rs \<Rightarrow> rs)"

lemma reference_errors_Nil:
  "reference_errors roles ps = [] \<longleftrightarrow> (\<forall>p \<in> set ps. \<forall>r \<in> set (pr_principal_roles p). dict_has roles r)"
  by (auto simp: reference_errors_def filter_empty_conv)

lemma effect_errors_Nil: "effect_errors ps = [] \<longleftrightarrow> (\<forall>p \<in> set ps. pr_effect p = ALLOW)"
proof -
  have "sort xs = [] \<longleftrightarrow> xs = []" for xs :: "string list"
    by (metis length_0_conv length_sort)
  then show ?thesis by (simp add: effect_errors_def filter_empty_conv)
qed

lemma map_filter_Nil: "List.map_filter f xs = [] \<longleftrightarrow> (\<forall>x \<in> set xs. f x = None)"
  by (induction xs) (auto simp: map_filter_simps split: option.splits)

lemma hierarchy_errors_Nil:
  "hierarchy_errors rc = [] \<longleftrightarrow> (\<forall>n \<in> fst ` set (rc_roles rc). sound_role (rc_roles rc) n)"
proof -
  have "(case expand_role_hierarchy rc n of Inl e \<Rightarrow> Some (exc_text e) | Inr _ \<Rightarrow> None) = None \<longleftrightarrow>
      sound_role (rc_roles rc) n" for n
    using hierarchy_cases [of rc n] by (auto split: sum.splits)
  then show ?thesis by (simp add: hierarchy_errors_def map_filter_Nil)
qed

lemma all_sound_iff:
  "(\<forall>n \<in> fst ` set roles. sound_role roles n) \<longleftrightarrow>
     acyclic (inherits_from roles) \<and> Range (inherits_from roles) \<subseteq> fst ` set roles" (is "?l \<longleftrightarrow> ?r")
proof -
  have dom: "dict_has roles a" if "(a, b) \<in> inherits_from roles" for a b
    using that by (auto simp: inherits_from_def dict_has_get)
  show ?thesis
  proof
    assume l: ?l
    have "dict_has roles b" if "(a, b) \<in> inherits_from roles" for a b
      using l dom [OF that] that unfolding sound_role_def by blast
    moreover have "(a, a) \<notin> (inherits_from roles)\<^sup>+" for a
      using l dom unfolding sound_role_def by (meson rtrancl.rtrancl_refl tranclD)
    ultimately show ?r by (auto simp: acyclic_def)
  next
    assume r: ?r
    have "dict_has roles x" if "dict_has roles n" "(n, x) \<in> (inherits_from roles)\<^sup>*" for n x
      using that(2,1) by (cases rule: rtranclE) (use r in auto)
    then show ?l using r unfolding sound_role_def acyclic_def by blast
  qed
qed

lemma union_roles_sound:
  "\<forall>r \<in> set rs. sound_role (rc_roles rc) r \<Longrightarrow>
     union_roles rc rs eff = Inr (eff \<union> (inherits_from (rc_roles rc))\<^sup>* `` set rs)"
proof (induction rs arbitrary: eff)
  case (Cons r rs)
  obtain xs where "expand_role_hierarchy rc r = Inr xs"
    and "set xs = {x. (r, x) \<in> (inherits_from (rc_roles rc))\<^sup>*}"
    using hierarchy_cases [of rc r] Cons.prems by (auto split: sum.splits)
  then show ?case using Cons by (auto simp: get_effective_roles_def)
qed simp

lemma union_roles_unsound:
  "r \<in> set rs \<Longrightarrow> \<not> sound_role (rc_roles rc) r \<Longrightarrow> \<exists>e. union_roles rc rs eff = Inl e"
proof (induction rs arbitrary: eff)
  case (Cons q rs)
  show ?case
  proof (cases "get_effective_roles rc q")
    case (Inr more)
    then have "sound_role (rc_roles rc) q"
      using hierarchy_cases [of rc q] by (auto simp: get_effective_roles_def bind_res_Inr_iff)
    with Cons show ?thesis by (simp add: Inr) blast
  qed simp
qed simp

section \<open>Properties\<close>

text \<open>
  C18: the expansion of a role. It returns exactly when the role and everything it inherits from is
  defined and on no cycle; it then lists, without repetition, exactly the roles reachable over
  inheritance. Otherwise it raises \<open>ValueError\<close>; it always returns or raises.
\<close>

theorem role_expansion:
  "case expand_role_hierarchy rc n of
     Inr rs \<Rightarrow> sound_role (rc_roles rc) n \<and> distinct rs \<and>
       set rs = {x. (n, x) \<in> (inherits_from (rc_roles rc))\<^sup>*}
   | Inl e \<Rightarrow> \<not> sound_role (rc_roles rc) n \<and> is_ValueError e"
  by (rule hierarchy_cases)

text \<open>
  What validation means. A model has no validation errors exactly when every policy is an allow
  policy over defined roles and the role hierarchy is acyclic with every parent defined.
\<close>

theorem rbac_valid_iff:
  "rbac_validate m = [] \<longleftrightarrow>
     (\<forall>p \<in> set (pc_policies (rb_policies m)). pr_effect p = ALLOW \<and>
        (\<forall>r \<in> set (pr_principal_roles p). dict_has (rc_roles (rb_roles m)) r)) \<and>
     acyclic (inherits_from (rc_roles (rb_roles m))) \<and>
     Range (inherits_from (rc_roles (rb_roles m))) \<subseteq> fst ` set (rc_roles (rb_roles m))"
  unfolding rbac_validate_def append_is_Nil_conv effect_errors_Nil reference_errors_Nil
    hierarchy_errors_Nil all_sound_iff
  by blast

definition example_rbac :: canonical_rbac where
  "example_rbac = \<lparr>rb_roles = \<lparr>rc_version = JInt 1,
       rc_roles = [(''a'', \<lparr>ro_name = ''a'', ro_inherits = [''b''], ro_description = None\<rparr>),
                   (''b'', \<lparr>ro_name = ''b'', ro_inherits = [], ro_description = None\<rparr>)],
       rc_subjects = \<lparr>su_services = [], su_users = [(''u'', [''a'']), (''v'', [''x''])]\<rparr>\<rparr>,
     rb_policies = \<lparr>pc_version = JInt 1, pc_policies = []\<rparr>, rb_version_hash = None\<rparr>"

lemma example_rbac_valid: "rbac_validate example_rbac = []"
  by code_simp

lemma rbac_valid_iff_witness: "acyclic (inherits_from (rc_roles (rb_roles example_rbac)))"
  using rbac_valid_iff [of example_rbac] example_rbac_valid by simp

lemma effective_roles_on_valid:
  assumes "rbac_validate m = []"
  shows "if \<forall>r \<in> set (assigned_roles m s t). dict_has (rc_roles (rb_roles m)) r
    then effective_roles_for_subject m s t =
      Inr ((inherits_from (rc_roles (rb_roles m)))\<^sup>* `` set (assigned_roles m s t))
    else \<exists>e. effective_roles_for_subject m s t = Inl e"
proof -
  let ?rc = "rb_roles m"
  have eq: "effective_roles_for_subject m s t = union_roles ?rc (assigned_roles m s t) {}"
    by (simp add: effective_roles_for_subject_def assigned_roles_def Let_def)
  have sound: "sound_role (rc_roles ?rc) r" if "dict_has (rc_roles ?rc) r" for r
    using assms that hierarchy_errors_Nil [of ?rc] unfolding rbac_validate_def append_is_Nil_conv by blast
  show ?thesis
  proof (cases "\<forall>r \<in> set (assigned_roles m s t). dict_has (rc_roles ?rc) r")
    case True
    then show ?thesis using union_roles_sound [of "assigned_roles m s t" ?rc "{}"] sound
      by (simp add: eq)
  next
    case False
    then show ?thesis using union_roles_unsound sound_role_defined unfolding eq by (smt (verit))
  qed
qed

text \<open>
  What validation gives a principal. On a valid model a principal's effective roles are the assigned
  roles and all they inherit from, whenever the assigned roles are defined. Subject assignments
  are not validated: with an undefined assigned role the query raises, on a valid model too.
\<close>

theorem effective_roles_exact:
  assumes "rbac_validate m = []"
  shows "if \<forall>r \<in> set (assigned_roles m s t). dict_has (rc_roles (rb_roles m)) r
    then effective_roles_for_subject m s t =
      Inr ((inherits_from (rc_roles (rb_roles m)))\<^sup>* `` set (assigned_roles m s t))
    else \<exists>e. effective_roles_for_subject m s t = Inl e"
  using assms by (rule effective_roles_on_valid)

lemma effective_roles_exact_witness:
  "(\<exists>e. effective_roles_for_subject example_rbac ''v'' ''user'' = Inl e) \<and>
   (\<exists>rs. effective_roles_for_subject example_rbac ''u'' ''user'' = Inr rs)"
proof
  have "assigned_roles example_rbac ''v'' ''user'' = [''x'']"
    and "assigned_roles example_rbac ''u'' ''user'' = [''a'']"
    and "\<not> dict_has (rc_roles (rb_roles example_rbac)) ''x''"
    and "dict_has (rc_roles (rb_roles example_rbac)) ''a''"
    by code_simp+
  then show "\<exists>e. effective_roles_for_subject example_rbac ''v'' ''user'' = Inl e"
    and "\<exists>rs. effective_roles_for_subject example_rbac ''u'' ''user'' = Inr rs"
    using effective_roles_exact [OF example_rbac_valid, of "''v''" "''user''"]
      effective_roles_exact [OF example_rbac_valid, of "''u''" "''user''"]
    by auto
qed

end
