(* ===== verification/Phlo_Text.thy ===== *)
theory Phlo_Text
  imports Phlo_Json
begin

text \<open>
  The parts of Python's text library that the access-control code uses: \<open>str.split\<close>, \<open>in\<close>, \<open>str.upper\<close>,
  the character classes of \<open>re\<close>, the anchored patterns the code validates identifiers with, UTF-8 and
  \<open>base64.urlsafe_b64encode\<close>, all on the model's characters (code points 0 to 255).
\<close>

section \<open>Splitting and searching\<close>

fun split_char :: "char \<Rightarrow> string \<Rightarrow> string list" where
  "split_char c [] = [[]]"
| "split_char c (x # xs) =
     (if x = c then [] # split_char c xs
      else (case split_char c xs of [] \<Rightarrow> [[x]] | s # ss \<Rightarrow> (x # s) # ss))"

fun split_max :: "nat \<Rightarrow> char \<Rightarrow> string \<Rightarrow> string list" where
  "split_max 0 c s = [s]"
| "split_max (Suc n) c s =
     (if c \<in> set s
      then takeWhile (\<lambda>x. x \<noteq> c) s # split_max n c (tl (dropWhile (\<lambda>x. x \<noteq> c) s))
      else [s])"

text \<open>\<open>s.split(sep)\<close> for a non-empty separator: \<open>skip\<close> counts the characters of a separator still to be passed.\<close>

fun split_str :: "string \<Rightarrow> nat \<Rightarrow> string \<Rightarrow> string list" where
  "split_str sep skip [] = [[]]"
| "split_str sep (Suc n) (x # xs) = split_str sep n xs"
| "split_str sep 0 (x # xs) =
     (if starts_with (x # xs) sep then [] # split_str sep (length sep - 1) xs
      else (case split_str sep 0 xs of [] \<Rightarrow> [[x]] | s # ss \<Rightarrow> (x # s) # ss))"

lemma split_char_neq_Nil [simp]: "split_char c s \<noteq> []"
  by (induction s) (auto split: list.splits)

lemma split_char_join: "str_join [c] (split_char c s) = s"
proof (induction s)
  case (Cons x xs)
  show ?case
  proof (cases "split_char c xs")
    case Nil
    then show ?thesis using split_char_neq_Nil by blast
  next
    case (Cons a as)
    then show ?thesis using Cons.IH by (cases as) auto
  qed
qed simp

lemma split_char_no: "c \<notin> set s \<Longrightarrow> split_char c s = [s]"
  by (induction s) auto

lemma split_char_append: "c \<notin> set a \<Longrightarrow> split_char c (a @ c # b) = a # split_char c b"
  by (induction a) auto

section \<open>Characters\<close>

abbreviation ord :: "char \<Rightarrow> nat" where
  "ord c \<equiv> of_char c"

definition ascii_upper :: "char \<Rightarrow> bool" where
  "ascii_upper c \<longleftrightarrow> 65 \<le> ord c \<and> ord c \<le> 90"

definition ascii_lower :: "char \<Rightarrow> bool" where
  "ascii_lower c \<longleftrightarrow> 97 \<le> ord c \<and> ord c \<le> 122"

definition ascii_digit :: "char \<Rightarrow> bool" where
  "ascii_digit c \<longleftrightarrow> 48 \<le> ord c \<and> ord c \<le> 57"

definition ascii_alnum :: "char \<Rightarrow> bool" where
  "ascii_alnum c \<longleftrightarrow> ascii_upper c \<or> ascii_lower c \<or> ascii_digit c"

text \<open>\<open>c.isalnum()\<close>; \<open>\\w\<close> adds the underscore.\<close>

definition py_isalnum :: "char \<Rightarrow> bool" where
  "py_isalnum c \<longleftrightarrow>
     ascii_alnum c \<or> ord c \<in> {170, 178, 179, 181, 185, 186, 188, 189, 190} \<or>
     (192 \<le> ord c \<and> ord c \<noteq> 215 \<and> ord c \<noteq> 247)"

definition re_word :: "char \<Rightarrow> bool" where
  "re_word c \<longleftrightarrow> py_isalnum c \<or> c = CHR ''_''"

text \<open>\<open>s.upper()\<close>: the sharp s becomes two letters; the two letters whose capital lies beyond 255 stay.\<close>

definition upper_char :: "char \<Rightarrow> string" where
  "upper_char c =
     (if ascii_lower c then [char_of (ord c - 32)]
      else if ord c = 223 then ''SS''
      else if 224 \<le> ord c \<and> ord c \<le> 254 \<and> ord c \<noteq> 247 then [char_of (ord c - 32)]
      else [c])"

definition py_upper :: "string \<Rightarrow> string" where
  "py_upper s = concat (map upper_char s)"

text \<open>\<open>s.lower()\<close>\<close>

definition lower_char :: "char \<Rightarrow> char" where
  "lower_char c =
     (if ascii_upper c \<or> 192 \<le> ord c \<and> ord c \<le> 222 \<and> ord c \<noteq> 215 then char_of (ord c + 32) else c)"

abbreviation py_lower :: "string \<Rightarrow> string" where
  "py_lower \<equiv> map lower_char"

text \<open>\<open>s.casefold()\<close>: the micro sign, whose folding is a Greek letter beyond 255, stays.\<close>

definition casefold_char :: "char \<Rightarrow> string" where
  "casefold_char c =
     (if ascii_upper c then [char_of (ord c + 32)]
      else if ord c = 223 then ''ss''
      else if 192 \<le> ord c \<and> ord c \<le> 222 \<and> ord c \<noteq> 215 then [char_of (ord c + 32)]
      else [c])"

definition py_casefold :: "string \<Rightarrow> string" where
  "py_casefold s = concat (map casefold_char s)"

section \<open>Anchored patterns\<close>

text \<open>
  \<open>re.compile("^[first][rest]*$").match(s)\<close>: \<open>$\<close> also matches before a newline that ends the text, so
  such a newline is accepted after the pattern (none of the classes contains a newline).
\<close>

definition drop_newline :: "string \<Rightarrow> string" where
  "drop_newline s = (if s \<noteq> [] \<and> last s = CHR 0x0A then butlast s else s)"

definition re_match :: "(char \<Rightarrow> bool) \<Rightarrow> (char \<Rightarrow> bool) \<Rightarrow> string \<Rightarrow> bool" where
  "re_match first rest s \<longleftrightarrow>
     (case drop_newline s of [] \<Rightarrow> False | c # cs \<Rightarrow> first c \<and> list_all rest cs)"

lemma re_match_chars:
  assumes "re_match first rest s" and "\<And>c. first c \<Longrightarrow> rest c"
  obtains t where "t \<noteq> []" "first (hd t)" "list_all rest t" "s = t \<or> s = t @ [CHR 0x0A]"
proof -
  obtain c cs where t: "drop_newline s = c # cs" "first c" "list_all rest cs"
    using assms(1) by (auto simp: re_match_def split: list.splits)
  have "s = c # cs \<or> s = c # cs @ [CHR 0x0A]"
    using t(1) append_butlast_last_id [of s]
    by (cases "s \<noteq> [] \<and> last s = CHR 0x0A") (auto simp: drop_newline_def)
  with t assms(2) that [of "c # cs"] show thesis by auto
qed

section \<open>UTF-8 and base64\<close>

text \<open>A byte is a natural number below 256.\<close>

definition utf8_char :: "char \<Rightarrow> nat list" where
  "utf8_char c = (if ord c < 128 then [ord c] else [192 + ord c div 64, 128 + ord c mod 64])"

definition utf8_encode :: "string \<Rightarrow> nat list" where
  "utf8_encode s = concat (map utf8_char s)"

text \<open>\<open>bytes.decode()\<close>; text beyond the model's characters is \<open>UntypedPayload\<close>, like malformed bytes an error.\<close>

fun utf8_decode :: "nat list \<Rightarrow> string res" where
  "utf8_decode [] = Inr []"
| "utf8_decode (b # bs) =
     (if b < 128 then bind_res (utf8_decode bs) (\<lambda>s. Inr (char_of b # s))
      else case bs of
        c # cs \<Rightarrow>
          (if (b = 194 \<or> b = 195) \<and> 128 \<le> c \<and> c < 192
           then bind_res (utf8_decode cs) (\<lambda>s. Inr (char_of ((b - 192) * 64 + (c - 128)) # s))
           else Inl UntypedPayload)
      | [] \<Rightarrow> Inl UntypedPayload)"

definition b64_char :: "nat \<Rightarrow> char" where
  "b64_char n =
     (if n < 26 then char_of (65 + n)
      else if n < 52 then char_of (71 + n)
      else if n < 62 then char_of (n - 4)
      else if n = 62 then CHR ''-'' else CHR ''_'')"

definition b64_value :: "char \<Rightarrow> nat option" where
  "b64_value c =
     (if ascii_upper c then Some (ord c - 65)
      else if ascii_lower c then Some (ord c - 71)
      else if ascii_digit c then Some (ord c + 4)
      else if c = CHR ''-'' then Some 62
      else if c = CHR ''_'' then Some 63
      else None)"

text \<open>\<open>base64.urlsafe_b64encode(bs).decode().rstrip("=")\<close>\<close>

fun b64_encode :: "nat list \<Rightarrow> string" where
  "b64_encode [] = []"
| "b64_encode [a] = [b64_char (a div 4), b64_char ((a mod 4) * 16)]"
| "b64_encode [a, b] =
     [b64_char (a div 4), b64_char ((a mod 4) * 16 + b div 16), b64_char ((b mod 16) * 4)]"
| "b64_encode (a # b # c # bs) =
     b64_char (a div 4) # b64_char ((a mod 4) * 16 + b div 16) #
     b64_char ((b mod 16) * 4 + c div 64) # b64_char (c mod 64) # b64_encode bs"

text \<open>
  \<open>base64.urlsafe_b64decode\<close> of a text of the alphabet, completed with the padding its length asks for:
  a single trailing character is an error, surplus trailing bits are dropped.
\<close>

fun b64_decode :: "nat list \<Rightarrow> nat list option" where
  "b64_decode [] = Some []"
| "b64_decode [w] = None"
| "b64_decode [w, x] = Some [w * 4 + x div 16]"
| "b64_decode [w, x, y] = Some [w * 4 + x div 16, (x mod 16) * 16 + y div 4]"
| "b64_decode (w # x # y # z # vs) =
     map_option (\<lambda>bs. (w * 4 + x div 16) # ((x mod 16) * 16 + y div 4) # ((y mod 4) * 64 + z) # bs)
       (b64_decode vs)"

lemma b64_value_char: "n < 64 \<Longrightarrow> b64_value (b64_char n) = Some n"
proof -
  assume "n < 64"
  then consider "n < 26" | "26 \<le> n" "n < 52" | "52 \<le> n" "n < 62" | "n = 62" | "n = 63" by linarith
  then show ?thesis
    by cases (auto simp: b64_char_def b64_value_def ascii_upper_def ascii_lower_def ascii_digit_def)
qed

lemma b64_values:
  assumes "\<forall>b \<in> set bs. b < 256"
  shows "\<exists>vs. map b64_value (b64_encode bs) = map Some vs \<and> b64_decode vs = Some bs"
  using assms
proof (induction bs rule: b64_encode.induct)
  case 1
  show ?case by (intro exI [of _ "[]"]) simp
next
  case (2 a)
  then show ?case
    by (intro exI [of _ "[a div 4, (a mod 4) * 16]"]) (auto simp: b64_value_char)
next
  case (3 a b)
  then show ?case
    by (intro exI [of _ "[a div 4, (a mod 4) * 16 + b div 16, (b mod 16) * 4]"])
       (auto simp: b64_value_char)
next
  case (4 a b c bs)
  then obtain vs where "map b64_value (b64_encode bs) = map Some vs" "b64_decode vs = Some bs" by auto
  with 4 show ?case
    by (intro exI [of _ "a div 4 # ((a mod 4) * 16 + b div 16) # ((b mod 16) * 4 + c div 64) # c mod 64 # vs"])
       (auto simp: b64_value_char)
qed

lemma ord_div_64: "ord c div 64 < 4"
  by (rule less_mult_imp_div_less) simp

lemma utf8_bytes: "b \<in> set (utf8_encode s) \<Longrightarrow> b < 256"
proof -
  assume "b \<in> set (utf8_encode s)"
  then obtain c where "b \<in> set (utf8_char c)" by (auto simp: utf8_encode_def)
  then show ?thesis using ord_div_64 [of c] by (auto simp: utf8_char_def split: if_splits)
qed

lemma utf8_roundtrip: "utf8_decode (utf8_encode s) = Inr s"
proof (induction s)
  case Nil
  then show ?case by (simp add: utf8_encode_def)
next
  case (Cons c s)
  have split: "ord c div 64 = 2 \<or> ord c div 64 = 3" if "\<not> ord c < 128"
    using that of_char_less_256 [of c] by linarith
  have "char_of ((192 + ord c div 64 - 192) * 64 + (128 + ord c mod 64 - 128)) = c"
    by (simp add: algebra_simps)
  then show ?case
    using Cons split by (auto simp: utf8_encode_def utf8_char_def)
qed

lemma utf8_encode_Nil [simp]: "utf8_encode s = [] \<longleftrightarrow> s = []"
  by (cases s) (auto simp: utf8_encode_def utf8_char_def)

end
