(* ===== verification/Trino_Governance.thy ===== *)
theory Trino_Governance
  imports Phlo_Text
begin

text \<open>
  \<open>phlo_trino/governance.py\<close>: grants through Trino SQL. \<open>TrinoResource.execute\<close> is the argument
  \<open>execute\<close>: it takes the state of the engine and a statement and returns the new state with the
  rows of the answer, or the exception it raised. Logging is left out.
\<close>

type_synonym 'e engine = "'e \<Rightarrow> string \<Rightarrow> 'e \<times> json list list res"

text \<open>\<open>AccessPolicy\<close> of \<open>phlo/capabilities/interfaces.py\<close>.\<close>

record access_policy =
  ap_policy_id :: "string option"
  ap_principal :: string
  ap_table_pattern :: string
  ap_action :: string
  ap_effect :: string
  ap_columns :: "string list option"
  ap_row_filter :: "string option"
  ap_data_masking :: "(string, string) dict option"

definition ALLOWED_ACTIONS :: "string list" where
  "ALLOWED_ACTIONS =
     [''SELECT'', ''INSERT'', ''DELETE'', ''UPDATE'', ''ALL PRIVILEGES'', ''GRANT'']"

definition identifier_re :: "string \<Rightarrow> bool" where
  "identifier_re = re_match re_word (\<lambda>c. re_word c \<or> c = CHR ''.'')"

definition validate_identifier :: "string \<Rightarrow> string \<Rightarrow> string res" where
  "validate_identifier value label =
     (if \<not> identifier_re value
      then Inl (ValueError (''Invalid '' @ label @ '': '' @ py_repr value))
      else Inr value)"

definition quote_identifier :: "string \<Rightarrow> string" where
  "quote_identifier s =
     CHR 0x22 # concat (map (\<lambda>c. if c = CHR 0x22 then [CHR 0x22, CHR 0x22] else [c]) s) @ [CHR 0x22]"

definition quote_qualified_identifier :: "string \<Rightarrow> string" where
  "quote_qualified_identifier s = str_join ''.'' (map quote_identifier (split_char CHR ''.'' s))"

definition probe :: "'e engine \<Rightarrow> 'e \<Rightarrow> 'e \<times> bool" where
  "probe execute e =
     (case execute e ''SELECT 1'' of (e', Inl _) \<Rightarrow> (e', False) | (e', Inr _) \<Rightarrow> (e', True))"

definition cell :: "json list \<Rightarrow> nat \<Rightarrow> json" where
  "cell row i = (if length row > i then row ! i else JNull)"

definition policy_of_row :: "json list \<Rightarrow> (string, json) dict" where
  "policy_of_row row =
     [(''grantor'', cell row 0), (''grantor_type'', cell row 1), (''grantee'', cell row 2),
      (''grantee_type'', cell row 3), (''catalog'', cell row 4), (''schema'', cell row 5),
      (''table'', cell row 6), (''privilege'', cell row 7), (''grantable'', cell row 8),
      (''with_hierarchy'', cell row 9)]"

definition list_policies :: "'e engine \<Rightarrow> 'e \<Rightarrow> string option \<Rightarrow> 'e \<times> (string, json) dict list res" where
  "list_policies execute e table_name =
     (case (case table_name of
              None \<Rightarrow> Inr ''SHOW GRANTS''
            | Some t \<Rightarrow> bind_res (validate_identifier t ''table_name'') (\<lambda>t.
                Inr (''SHOW GRANTS ON TABLE '' @ quote_qualified_identifier t))) of
        Inl err \<Rightarrow> (e, Inl err)
      | Inr sql \<Rightarrow>
          (case execute e sql of
             (e', Inl _) \<Rightarrow> (e', Inr [])
           | (e', Inr rows) \<Rightarrow> (e', Inr (map policy_of_row rows))))"

text \<open>Running a statement for its effect.\<close>

definition run_sql :: "'e engine \<Rightarrow> 'e \<Rightarrow> string \<Rightarrow> 'e \<times> unit res" where
  "run_sql execute e sql =
     (case execute e sql of (e', Inl err) \<Rightarrow> (e', Inl err) | (e', Inr _) \<Rightarrow> (e', Inr ()))"

definition policy_sql :: "access_policy \<Rightarrow> string res" where
  "policy_sql policy =
     (let action = py_upper (ap_action policy) in
      if action \<notin> set ALLOWED_ACTIONS
      then Inl (ValueError (''Unsupported action: '' @ py_repr action))
      else bind_res (validate_identifier (ap_table_pattern policy) ''table_pattern'') (\<lambda>_.
           bind_res (validate_identifier (ap_principal policy) ''principal'') (\<lambda>_.
             Inr ((if ap_effect policy = ''DENY'' then ''DENY '' else ''GRANT '') @ action @
                  '' ON TABLE '' @ quote_qualified_identifier (ap_table_pattern policy) @
                  '' TO '' @ quote_identifier (ap_principal policy)))))"

definition apply_policy :: "'e engine \<Rightarrow> 'e \<Rightarrow> access_policy \<Rightarrow> 'e \<times> unit res" where
  "apply_policy execute e policy =
     (case policy_sql policy of Inl err \<Rightarrow> (e, Inl err) | Inr sql \<Rightarrow> run_sql execute e sql)"

definition revoke_sql :: "string \<Rightarrow> string res" where
  "revoke_sql policy_id =
     (case split_max 2 CHR '':'' policy_id of
        [action, table, grantee] \<Rightarrow>
          (if py_upper action \<notin> set ALLOWED_ACTIONS
           then Inl (ValueError (''Unsupported action: '' @ py_repr action))
           else bind_res (validate_identifier table ''table'') (\<lambda>_.
                bind_res (validate_identifier grantee ''principal'') (\<lambda>_.
                  Inr (''REVOKE '' @ py_upper action @ '' ON TABLE '' @
                       quote_qualified_identifier table @ '' FROM '' @ quote_identifier grantee))))
      | _ \<Rightarrow> Inl (ValueError
             (''policy_id must be 'ACTION:TABLE:PRINCIPAL', got: '' @ policy_id)))"

definition revoke_policy :: "'e engine \<Rightarrow> 'e \<Rightarrow> string \<Rightarrow> 'e \<times> unit res" where
  "revoke_policy execute e policy_id =
     (case revoke_sql policy_id of Inl err \<Rightarrow> (e, Inl err) | Inr sql \<Rightarrow> run_sql execute e sql)"

definition check_access :: "'e engine \<Rightarrow> 'e \<Rightarrow> string \<Rightarrow> string \<Rightarrow> string \<Rightarrow> 'e \<times> bool res" where
  "check_access execute e subject table_name action =
     (case list_policies execute e (Some table_name) of
        (e', Inl err) \<Rightarrow> (e', Inl err)
      | (e', Inr policies) \<Rightarrow>
          (e', Inr (\<exists>p \<in> set policies.
             dict_get p ''grantee'' = Some (JStr subject) \<and>
             dict_get p ''privilege'' = Some (JStr (py_upper action)))))"

end
