(* ===== verification/Trino_Compiler.thy ===== *)
theory Trino_Compiler
  imports Rbac_Models Trino_Governance
begin

text \<open>
  \<open>phlo/rbac/compiler.py\<close>: compiling the canonical model to Trino grants, and planning, applying,
  verifying and reverting them through the governance backend of \<open>Trino_Governance\<close>. A compiler
  without a backend has the backend \<open>None\<close>. Plans and results are those of \<open>phlo/rbac/models.py\<close>.
\<close>

section \<open>Artifacts and plans\<close>

record backend_artifact =
  ba_backend :: string
  ba_artifact_type :: string
  ba_name :: string
  ba_statement :: string
  ba_managed :: bool
  ba_metadata :: "(string, json) dict"

record policy_change =
  ch_change_type :: string
  ch_backend :: string
  ch_artifact :: backend_artifact
  ch_revert_id :: "string option"

record sync_plan =
  sy_version_hash :: string
  sy_backend :: string
  sy_changes :: "policy_change list"
  sy_warnings :: "string list"
  sy_errors :: "string list"

record sync_result =
  sr_success :: bool
  sr_backend :: string
  sr_version_hash :: string
  sr_applied_count :: nat
  sr_failed_count :: nat
  sr_errors :: "string list"
  sr_revert_ids :: "string list"

record verify_result =
  vr_backend :: string
  vr_in_sync :: bool
  vr_missing :: "backend_artifact list"
  vr_extra :: "backend_artifact list"
  vr_mismatched :: "backend_artifact list"
  vr_error :: "string option"

record compiler_context =
  cc_environment :: string
  cc_backend_name :: string
  cc_managed_prefix :: string
  cc_dry_run :: bool

section \<open>Validation of SQL text\<close>

definition sql_letter :: "char \<Rightarrow> bool" where
  "sql_letter c \<longleftrightarrow> ascii_upper c \<or> ascii_lower c \<or> c = CHR ''_''"

definition sql_ident_char :: "char \<Rightarrow> bool" where
  "sql_ident_char c \<longleftrightarrow> sql_letter c \<or> ascii_digit c \<or> c = CHR ''.''"

definition sql_pattern_char :: "char \<Rightarrow> bool" where
  "sql_pattern_char c \<longleftrightarrow> sql_ident_char c \<or> c = CHR ''%'' \<or> c = CHR ''*''"

definition sql_priv_char :: "char \<Rightarrow> bool" where
  "sql_priv_char c \<longleftrightarrow> ascii_upper c \<or> c = CHR '' ''"

definition validate_sql_identifier :: "string \<Rightarrow> string \<Rightarrow> string res" where
  "validate_sql_identifier value label =
     (if \<not> re_match sql_letter sql_ident_char value
      then Inl (ValueError (''Unsafe '' @ label @ '': '' @ py_repr value))
      else Inr value)"

definition validate_sql_resource_pattern :: "string \<Rightarrow> string \<Rightarrow> string res" where
  "validate_sql_resource_pattern value label =
     (if value = ''*'' \<or> value = ''%'' then Inr value
      else if \<not> re_match sql_letter sql_pattern_char value
      then Inl (ValueError (''Unsafe '' @ label @ '': '' @ py_repr value))
      else if \<exists>seg \<in> set (butlast (split_char CHR ''.'' value)). CHR ''%'' \<in> set seg \<or> CHR ''*'' \<in> set seg
      then Inl (ValueError
             (''Wildcards only allowed in final segment of '' @ label @ '': '' @ py_repr value))
      else Inr value)"

definition validate_sql_privilege :: "string \<Rightarrow> string res" where
  "validate_sql_privilege value =
     (if \<not> re_match ascii_upper sql_priv_char value
      then Inl (ValueError (''Unsafe privilege: '' @ py_repr value))
      else Inr value)"

section \<open>Compiling\<close>

definition TRINO :: string where
  "TRINO = ''trino''"

definition TRINO_POLICY_PAIRS :: "(string \<times> string) list" where
  "TRINO_POLICY_PAIRS = [(''dataset.read'', ''dataset''), (''dataset.query'', ''dataset'')]"

definition SURFACE_ONLY_POLICY_PAIRS :: "(string \<times> string) list" where
  "SURFACE_ONLY_POLICY_PAIRS =
     [(''dataset.query'', ''project''), (''dataset.write'', ''dataset''),
      (''dataset.publish'', ''dataset''), (''asset.read'', ''asset''), (''asset.execute'', ''asset''),
      (''asset.manage'', ''asset''), (''service.read'', ''service''), (''service.manage'', ''service''),
      (''admin.read'', ''admin''), (''admin.manage'', ''admin''), (''admin.manage'', ''package''),
      (''settings.read'', ''settings''), (''settings.manage'', ''settings''),
      (''object.write'', ''object''), (''object.write'', ''project''), (''catalog.read'', ''catalog''),
      (''catalog.manage'', ''catalog''), (''platform_metadata.read'', ''platform_metadata''),
      (''observability.read'', ''observability''), (''maintenance.read'', ''maintenance''),
      (''run.read'', ''run''), (''run.execute'', ''run''), (''run.manage'', ''run''),
      (''run.manage'', ''service''), (''audit.read'', ''audit'')]"

definition ACTION_MAPPING :: "(string, string list) dict" where
  "ACTION_MAPPING = [(''dataset.read'', [''SELECT'']), (''dataset.query'', [''SELECT''])]"

definition supports_action :: "string \<Rightarrow> bool" where
  "supports_action action \<longleftrightarrow> dict_has ACTION_MAPPING action"

definition policy_applicability :: "string \<Rightarrow> string \<Rightarrow> string" where
  "policy_applicability action resource_type =
     (if (action, resource_type) \<in> set TRINO_POLICY_PAIRS then ''trino''
      else if (action, resource_type) \<in> set SURFACE_ONLY_POLICY_PAIRS then ''surface''
      else ''unsupported'')"

definition ensure_supported_policy_effect :: "rbac_policy_rule \<Rightarrow> unit res" where
  "ensure_supported_policy_effect policy =
     (if pr_effect policy \<noteq> ALLOW
      then Inl (ValueError (''Backend '' @ py_repr TRINO @ '' does not support canonical '' @
             py_repr (effect_value (pr_effect policy)) @ '' policies. Policy: '' @ pr_policy_id policy))
      else Inr ())"

definition star_to_percent :: "string \<Rightarrow> string" where
  "star_to_percent s = map (\<lambda>c. if c = CHR ''*'' then CHR ''%'' else c) s"

definition grant_statement :: "string \<Rightarrow> string \<Rightarrow> string \<Rightarrow> string \<Rightarrow> string" where
  "grant_statement resource_type privilege resource_id role_name =
     ''GRANT '' @ privilege @ '' ON '' @
     (if resource_type = ''dataset'' then ''TABLE ''
      else if resource_type = ''service'' then ''SCHEMA '' else resource_type @ '' '') @
     resource_id @ '' TO ROLE '' @ role_name"

definition grant_artifact :: "rbac_policy_rule \<Rightarrow> string \<Rightarrow> string \<Rightarrow> string \<Rightarrow> backend_artifact res" where
  "grant_artifact policy role_name resource_id privilege =
     bind_res (validate_sql_privilege privilege) (\<lambda>_. Inr
       \<lparr>ba_backend = TRINO, ba_artifact_type = ''grant'',
        ba_name = role_name @ ''_'' @ pr_resource_type policy @ ''_'' @ resource_id,
        ba_statement = grant_statement (pr_resource_type policy) privilege resource_id role_name,
        ba_managed = True,
        ba_metadata = [(''role'', JStr role_name), (''privilege'', JStr privilege),
                       (''resource'', JStr resource_id), (''policy_id'', JStr (pr_policy_id policy))]\<rparr>)"

definition role_artifacts :: "rbac_policy_rule \<Rightarrow> string \<Rightarrow> backend_artifact list res" where
  "role_artifacts policy role_name =
     (let resource_id = star_to_percent (pr_resource_id_pattern policy);
          privileges = (case dict_get ACTION_MAPPING (pr_action policy) of None \<Rightarrow> [] | Some ps \<Rightarrow> ps)
      in bind_res (validate_sql_identifier role_name ''role_name'') (\<lambda>_.
         bind_res (validate_sql_resource_pattern resource_id ''resource_id'') (\<lambda>_.
         bind_res (validate_sql_identifier (pr_resource_type policy) ''resource_type'') (\<lambda>_.
           map_res (grant_artifact policy role_name resource_id) privileges))))"

definition policy_artifacts :: "rbac_policy_rule \<Rightarrow> backend_artifact list res" where
  "policy_artifacts policy =
     (let applicability = policy_applicability (pr_action policy) (pr_resource_type policy) in
      if applicability = ''surface'' then Inr []
      else if applicability = ''unsupported''
      then Inl (ValueError (''Trino cannot compile policy '' @ py_repr (pr_policy_id policy) @
             '' for '' @ pr_action policy @ ''/'' @ pr_resource_type policy))
      else bind_res (ensure_supported_policy_effect policy) (\<lambda>_.
           bind_res (map_res (role_artifacts policy) (pr_principal_roles policy)) (\<lambda>as.
             Inr (concat as))))"

definition compile :: "canonical_rbac \<Rightarrow> backend_artifact list res" where
  "compile m =
     bind_res (map_res policy_artifacts (pc_policies (rb_policies m))) (\<lambda>as. Inr (concat as))"

section \<open>Observed state\<close>

definition matches_managed :: "string \<Rightarrow> compiler_context \<Rightarrow> bool" where
  "matches_managed name context = starts_with name (cc_managed_prefix context)"

definition grant_get :: "(string, json) dict \<Rightarrow> string \<Rightarrow> json" where
  "grant_get grant k = (case dict_get grant k of None \<Rightarrow> JStr [] | Some v \<Rightarrow> v)"

definition observed_artifact :: "string \<Rightarrow> (string, json) dict \<Rightarrow> backend_artifact" where
  "observed_artifact grantee grant =
     (let privilege = grant_get grant ''privilege''; table = grant_get grant ''table'';
          schema = grant_get grant ''schema'';
          resource = (if json_truthy schema \<and> json_truthy table
                      then JStr (json_text schema @ ''.'' @ json_text table)
                      else if json_truthy schema then schema else table);
          resource_type = (if json_truthy table then ''dataset'' else ''service'')
      in \<lparr>ba_backend = TRINO, ba_artifact_type = ''grant'',
          ba_name = grantee @ ''_'' @ resource_type @ ''_'' @ json_text resource,
          ba_statement = ''GRANT '' @ json_text privilege @ '' ON TABLE '' @ json_text resource @
            '' TO ROLE '' @ grantee,
          ba_managed = True,
          ba_metadata = [(''role'', JStr grantee), (''privilege'', privilege),
                         (''resource'', resource), (''resource_type'', JStr resource_type)]\<rparr>)"

text \<open>The loop stops at a truthy grantee that is no string, for which \<open>startswith\<close> raises.\<close>

fun observed :: "compiler_context \<Rightarrow> (string, json) dict list \<Rightarrow> backend_artifact list" where
  "observed context [] = []"
| "observed context (grant # grants) =
     (case grant_get grant ''grantee'' of
        JStr grantee \<Rightarrow>
          (if grantee = [] \<or> \<not> matches_managed grantee context then observed context grants
           else observed_artifact grantee grant # observed context grants)
      | g \<Rightarrow> (if json_truthy g then [] else observed context grants))"

definition read_current_state :: "'e engine option \<Rightarrow> compiler_context \<Rightarrow> 'e
    \<Rightarrow> 'e \<times> backend_artifact list" where
  "read_current_state backend context e =
     (case backend of
        None \<Rightarrow> (e, [])
      | Some execute \<Rightarrow>
          (case list_policies execute e None of
             (e', Inl _) \<Rightarrow> (e', [])
           | (e', Inr grants) \<Rightarrow> (e', observed context grants)))"

section \<open>Revert identifiers\<close>

definition encode_revert_id :: "string \<Rightarrow> string" where
  "encode_revert_id artifact_name = TRINO @ '':'' @ b64_encode (utf8_encode artifact_name)"

definition revert_id_error :: "string \<Rightarrow> py_error" where
  "revert_id_error revert_id = ValueError (''Invalid Trino revert ID: '' @ revert_id)"

definition b64_values_of :: "string \<Rightarrow> nat list option" where
  "b64_values_of s =
     (if \<forall>c \<in> set s. b64_value c \<noteq> None then Some (List.map_filter b64_value s) else None)"

definition decode_revert_id :: "string \<Rightarrow> string res" where
  "decode_revert_id revert_id =
     (let prefix = TRINO @ '':''; encoded = drop (length prefix) revert_id in
      if \<not> starts_with revert_id prefix then Inl (revert_id_error revert_id)
      else if encoded = [] then Inl (revert_id_error revert_id)
      else case b64_values_of encoded of
        None \<Rightarrow> Inl (revert_id_error revert_id)
      | Some vs \<Rightarrow>
          (case b64_decode vs of
             None \<Rightarrow> Inl (revert_id_error revert_id)
           | Some bs \<Rightarrow>
               (case utf8_decode bs of
                  Inl _ \<Rightarrow> Inl (revert_id_error revert_id)
                | Inr artifact_name \<Rightarrow>
                    (if artifact_name = [] then Inl (revert_id_error revert_id)
                     else Inr artifact_name))))"


section \<open>Planning, applying, verifying, reverting\<close>

text \<open>\<open>{a.name: a for a in artifacts}\<close>: a later artifact of a name takes the place of an earlier one.\<close>

definition by_name :: "backend_artifact list \<Rightarrow> (string, backend_artifact) dict" where
  "by_name artifacts = foldl (\<lambda>d a. dict_set d (ba_name a) a) [] artifacts"

definition create_change :: "backend_artifact \<Rightarrow> policy_change" where
  "create_change a =
     \<lparr>ch_change_type = ''create'', ch_backend = TRINO, ch_artifact = a,
      ch_revert_id = Some (encode_revert_id (ba_name a))\<rparr>"

definition delete_change :: "backend_artifact \<Rightarrow> policy_change" where
  "delete_change a =
     \<lparr>ch_change_type = ''delete'', ch_backend = TRINO, ch_artifact = a, ch_revert_id = None\<rparr>"

definition not_in :: "(string, backend_artifact) dict \<Rightarrow> (string, backend_artifact) dict
    \<Rightarrow> backend_artifact list" where
  "not_in d other = map snd (filter (\<lambda>p. \<not> dict_has other (fst p)) d)"

definition trino_plan :: "'e engine option \<Rightarrow> compiler_context \<Rightarrow> canonical_rbac \<Rightarrow> 'e
    \<Rightarrow> 'e \<times> sync_plan res" where
  "trino_plan backend context m e =
     (case compile m of
        Inl err \<Rightarrow> (e, Inl err)
      | Inr desired \<Rightarrow>
          (case read_current_state backend context e of
             (e', current) \<Rightarrow>
               (e', Inr \<lparr>sy_version_hash = (case rb_version_hash m of None \<Rightarrow> [] | Some h \<Rightarrow> h),
                     sy_backend = TRINO,
                     sy_changes = map create_change (not_in (by_name desired) (by_name current)) @
                       map delete_change (not_in (by_name current) (by_name desired)),
                     sy_warnings = [], sy_errors = []\<rparr>)))"

definition trino_verify :: "'e engine option \<Rightarrow> compiler_context \<Rightarrow> canonical_rbac \<Rightarrow> 'e
    \<Rightarrow> 'e \<times> verify_result res" where
  "trino_verify backend context m e =
     (case compile m of
        Inl err \<Rightarrow> (e, Inl err)
      | Inr desired \<Rightarrow>
          (case read_current_state backend context e of
             (e', current) \<Rightarrow>
               (let missing = not_in (by_name desired) (by_name current);
                    extra = not_in (by_name current) (by_name desired)
                in (e', Inr \<lparr>vr_backend = TRINO, vr_in_sync = (length missing = 0 \<and> length extra = 0),
                     vr_missing = missing, vr_extra = extra, vr_mismatched = [], vr_error = None\<rparr>))))"

definition meta :: "backend_artifact \<Rightarrow> string \<Rightarrow> string \<Rightarrow> json" where
  "meta a k dflt = (case dict_get (ba_metadata a) k of None \<Rightarrow> JStr dflt | Some v \<Rightarrow> v)"

text \<open>
  The metadata of an observed artifact can hold values that are no strings; \<open>str.upper\<close> and the
  patterns raise on them.
\<close>

definition artifact_policy :: "backend_artifact \<Rightarrow> access_policy res" where
  "artifact_policy a =
     (case (meta a ''role'' [], meta a ''resource'' [], meta a ''privilege'' ''SELECT'') of
        (JStr r, JStr res, JStr p) \<Rightarrow>
          Inr \<lparr>ap_policy_id = Some (ba_name a), ap_principal = r, ap_table_pattern = res,
               ap_action = p, ap_effect = ''ALLOW'', ap_columns = None, ap_row_filter = None,
               ap_data_masking = None\<rparr>
      | _ \<Rightarrow> Inl TypeError)"

definition apply_artifact :: "'e engine \<Rightarrow> backend_artifact \<Rightarrow> 'e \<Rightarrow> 'e \<times> unit res" where
  "apply_artifact execute a e =
     (if ba_artifact_type a \<noteq> ''grant'' \<or> str_contains ''REVOKE'' (ba_statement a) \<or>
         length (split_str '' TO ROLE '' 0 (ba_statement a)) \<noteq> 2
      then (e, Inr ())
      else case artifact_policy a of
        Inl err \<Rightarrow> (e, Inl err)
      | Inr policy \<Rightarrow> apply_policy execute e policy)"

definition revert_artifact :: "'e engine \<Rightarrow> backend_artifact \<Rightarrow> 'e \<Rightarrow> 'e \<times> unit res" where
  "revert_artifact execute a e =
     (if ba_artifact_type a = ''grant''
      then revoke_policy execute e
             (json_text (meta a ''privilege'' ''SELECT'') @ '':'' @ json_text (meta a ''resource'' []) @
              '':'' @ json_text (meta a ''role'' []))
      else (e, Inr ()))"

fun apply_changes_to :: "'e engine \<Rightarrow> policy_change list \<Rightarrow> 'e \<Rightarrow> string list \<Rightarrow> string list
    \<Rightarrow> 'e \<times> string list \<times> string list" where
  "apply_changes_to execute [] e ok errs = (e, ok, errs)"
| "apply_changes_to execute (c # cs) e ok errs =
     (if ch_change_type c = ''create'' then
        (case apply_artifact execute (ch_artifact c) e of
           (e', Inl err) \<Rightarrow> apply_changes_to execute cs e' ok
             (errs @ [''Failed to apply '' @ ba_name (ch_artifact c) @ '': '' @ exc_text err])
         | (e', Inr _) \<Rightarrow> apply_changes_to execute cs e'
             (if str_truthy (ch_revert_id c) then ok @ [the (ch_revert_id c)] else ok) errs)
      else if ch_change_type c = ''delete'' then
        (case revert_artifact execute (ch_artifact c) e of
           (e', Inl err) \<Rightarrow> apply_changes_to execute cs e' ok
             (errs @ [''Failed to revert '' @ ba_name (ch_artifact c) @ '': '' @ exc_text err])
         | (e', Inr _) \<Rightarrow> apply_changes_to execute cs e' ok errs)
      else apply_changes_to execute cs e ok errs)"

definition trino_apply :: "'e engine option \<Rightarrow> sync_plan \<Rightarrow> 'e \<Rightarrow> 'e \<times> string list \<times> string list" where
  "trino_apply backend plan e =
     (case backend of
        None \<Rightarrow> (e, [], [''No backend configured''])
      | Some execute \<Rightarrow> apply_changes_to execute (sy_changes plan) e [] [])"

fun revert_ids :: "'e engine \<Rightarrow> (string, backend_artifact) dict \<Rightarrow> string list \<Rightarrow> 'e
    \<Rightarrow> string list \<Rightarrow> string list \<Rightarrow> 'e \<times> string list \<times> string list" where
  "revert_ids execute current [] e ok errs = (e, ok, errs)"
| "revert_ids execute current (i # ids) e ok errs =
     (case decode_revert_id i of
        Inl err \<Rightarrow> revert_ids execute current ids e ok (errs @ [exc_text err])
      | Inr name \<Rightarrow>
          (case dict_get current name of
             None \<Rightarrow> revert_ids execute current ids e ok
               (errs @ [''Failed to revert '' @ i @ '': artifact '' @ py_repr name @ '' not found''])
           | Some a \<Rightarrow>
               (case revert_artifact execute a e of
                  (e', Inl err) \<Rightarrow> revert_ids execute current ids e' ok
                    (errs @ [''Failed to revert '' @ i @ '': '' @ exc_text err])
                | (e', Inr _) \<Rightarrow> revert_ids execute current ids e' (ok @ [i]) errs)))"

definition trino_revert :: "'e engine option \<Rightarrow> compiler_context \<Rightarrow> string list \<Rightarrow> 'e
    \<Rightarrow> 'e \<times> string list \<times> string list" where
  "trino_revert backend context ids e =
     (case backend of
        None \<Rightarrow> (e, [], [''No backend configured''])
      | Some execute \<Rightarrow>
          (case read_current_state backend context e of
             (e', current) \<Rightarrow> revert_ids execute (by_name current) ids e' [] []))"

section \<open>Artifacts by name\<close>

lemma by_name_snoc: "by_name (as @ [a]) = dict_set (by_name as) (ba_name a) a"
  by (simp add: by_name_def)

lemma by_name_facts:
  "dict_ok (by_name as) \<and> fst ` set (by_name as) = ba_name ` set as \<and>
   (\<forall>n a. dict_get (by_name as) n = Some a \<longrightarrow> a \<in> set as \<and> ba_name a = n)"
proof (induction as rule: rev_induct)
  case Nil
  then show ?case by (simp add: by_name_def)
next
  case (snoc a as)
  then show ?case by (simp add: by_name_snoc dict_ok_set dict_keys_set)
qed

lemma by_name_some:
  assumes "n \<in> ba_name ` set as"
  obtains a where "dict_get (by_name as) n = Some a" "a \<in> set as" "ba_name a = n"
proof -
  have "dict_has (by_name as) n" using by_name_facts [of as] assms by simp
  then show thesis using that by_name_facts [of as] unfolding dict_has_get by blast
qed

lemma set_not_in:
  "set (not_in (by_name as) (by_name bs)) =
     {a. \<exists>n. dict_get (by_name as) n = Some a \<and> n \<notin> ba_name ` set bs}"
proof -
  have "(n, a) \<in> set (by_name as) \<longleftrightarrow> dict_get (by_name as) n = Some a" for n a
    using by_name_facts [of as] by (simp add: dict_ok_def)
  moreover have "snd ` {p \<in> D. fst p \<notin> K} = {a. \<exists>n. (n, a) \<in> D \<and> n \<notin> K}"
    for D :: "(string \<times> backend_artifact) set" and K
    by force
  moreover have "fst ` set (by_name bs) = ba_name ` set bs" using by_name_facts [of bs] by simp
  ultimately show ?thesis by (simp add: not_in_def)
qed

lemma not_in_Nil: "not_in (by_name as) (by_name bs) = [] \<longleftrightarrow> ba_name ` set as \<subseteq> ba_name ` set bs"
proof
  assume "not_in (by_name as) (by_name bs) = []"
  then have none: "{a. \<exists>n. dict_get (by_name as) n = Some a \<and> n \<notin> ba_name ` set bs} = {}"
    using set_not_in [of as bs] by simp
  show "ba_name ` set as \<subseteq> ba_name ` set bs"
    using none by (auto elim!: by_name_some [of _ as])
next
  assume "ba_name ` set as \<subseteq> ba_name ` set bs"
  then have "set (not_in (by_name as) (by_name bs)) = {}"
    using by_name_facts [of as] unfolding set_not_in by blast
  then show "not_in (by_name as) (by_name bs) = []" by simp
qed

end
