(* ===== verification/Rbac_Sync.thy ===== *)
theory Rbac_Sync
  imports Trino_Compiler
begin

text \<open>
  \<open>phlo/rbac/config.py\<close> and \<open>phlo/rbac/sync.py\<close>: loading and validating the configuration, and the controller
  that plans, applies, verifies and reverts it on every backend. A configuration file is a decoded
  document, \<open>None\<close> when it does not exist; the lookup of a backend's compiler is an argument.
\<close>

section \<open>Loading\<close>

type_synonym config_file = "(string \<times> json) list option"

definition load_roles :: "string \<Rightarrow> config_file \<Rightarrow> roles_config res" where
  "load_roles path file =
     (case file of
        None \<Rightarrow> Inl (FileNotFoundError (''Roles config not found: '' @ path))
      | Some d \<Rightarrow>
          (case roles_from_dict d of
             Inl e \<Rightarrow> Inl (ValueError (''Invalid roles config: '' @ exc_text e))
           | Inr rc \<Rightarrow> Inr rc))"

definition load_policies :: "string \<Rightarrow> config_file \<Rightarrow> policies_config res" where
  "load_policies path file =
     (case file of
        None \<Rightarrow> Inl (FileNotFoundError (''Policies config not found: '' @ path))
      | Some d \<Rightarrow>
          (case policies_from_dict d of
             Inl e \<Rightarrow> Inl (ValueError (''Invalid policies config: '' @ exc_text e))
           | Inr pc \<Rightarrow> Inr pc))"

record config_loader =
  cl_roles_path :: string
  cl_policies_path :: string
  cl_roles_file :: config_file
  cl_policies_file :: config_file

definition load_rbac :: "(string \<Rightarrow> string) \<Rightarrow> config_loader \<Rightarrow> canonical_rbac res" where
  "load_rbac sha256 loader =
     bind_res (load_roles (cl_roles_path loader) (cl_roles_file loader)) (\<lambda>roles.
     bind_res (load_policies (cl_policies_path loader) (cl_policies_file loader)) (\<lambda>policies.
       let rbac = from_configs sha256 roles policies; errors = rbac_validate rbac in
       if errors \<noteq> []
       then Inl (ValueError (''Invalid RBAC configuration: '' @ json_repr (strs_json errors)))
       else Inr rbac))"

definition loader_validate :: "(string \<Rightarrow> string) \<Rightarrow> config_loader \<Rightarrow> bool \<times> string list" where
  "loader_validate sha256 loader =
     (case load_rbac sha256 loader of
        Inl e \<Rightarrow> (False, [exc_text e])
      | Inr rbac \<Rightarrow> (rbac_validate rbac = [], rbac_validate rbac))"

definition compute_version_hash :: "(string \<Rightarrow> string) \<Rightarrow> config_loader \<Rightarrow> string" where
  "compute_version_hash sha256 loader =
     take 16 (sha256 (json_dumps '', '' '': '' (JObj
       ((case cl_roles_file loader of None \<Rightarrow> [] | Some d \<Rightarrow> [(''roles'', JObj d)]) @
        (case cl_policies_file loader of None \<Rightarrow> [] | Some d \<Rightarrow> [(''policies'', JObj d)])))))"

section \<open>The controller\<close>

record 'e compiler =
  co_plan :: "compiler_context \<Rightarrow> canonical_rbac \<Rightarrow> 'e \<Rightarrow> 'e \<times> sync_plan res"
  co_apply :: "compiler_context \<Rightarrow> sync_plan \<Rightarrow> 'e \<Rightarrow> 'e \<times> (string list \<times> string list) res"
  co_verify :: "compiler_context \<Rightarrow> canonical_rbac \<Rightarrow> 'e \<Rightarrow> 'e \<times> verify_result res"
  co_revert :: "compiler_context \<Rightarrow> string list \<Rightarrow> 'e \<Rightarrow> 'e \<times> (string list \<times> string list) res"

type_synonym 'e compilers = "string \<Rightarrow> 'e compiler option"

definition make_context :: "string \<Rightarrow> string \<Rightarrow> bool \<Rightarrow> compiler_context" where
  "make_context environment backend_name dry_run =
     \<lparr>cc_environment = environment, cc_backend_name = backend_name, cc_managed_prefix = ''phlo_'',
      cc_dry_run = dry_run\<rparr>"

fun plan_backends :: "'e compilers \<Rightarrow> string \<Rightarrow> canonical_rbac \<Rightarrow> string list \<Rightarrow> 'e
    \<Rightarrow> (string, sync_plan) dict \<Rightarrow> 'e \<times> (string, sync_plan) dict" where
  "plan_backends compilers environment rbac [] e plans = (e, plans)"
| "plan_backends compilers environment rbac (b # bs) e plans =
     (case compilers b of
        None \<Rightarrow> plan_backends compilers environment rbac bs e plans
      | Some c \<Rightarrow>
          (case co_plan c (make_context environment b False) rbac e of
             (e', Inl _) \<Rightarrow> plan_backends compilers environment rbac bs e' plans
           | (e', Inr p) \<Rightarrow> plan_backends compilers environment rbac bs e' (dict_set plans b p)))"

definition failed_sync :: "string \<Rightarrow> canonical_rbac \<Rightarrow> py_error \<Rightarrow> sync_result" where
  "failed_sync b rbac err =
     \<lparr>sr_success = False, sr_backend = b,
      sr_version_hash = (case rb_version_hash rbac of None \<Rightarrow> [] | Some h \<Rightarrow> h),
      sr_applied_count = 0, sr_failed_count = 1, sr_errors = [exc_text err], sr_revert_ids = []\<rparr>"

definition sync_backend :: "'e compiler \<Rightarrow> compiler_context \<Rightarrow> canonical_rbac \<Rightarrow> 'e \<Rightarrow> 'e \<times> sync_result" where
  "sync_backend c context rbac e =
     (let b = cc_backend_name context in
      case co_plan c context rbac e of
        (e', Inl err) \<Rightarrow> (e', failed_sync b rbac err)
      | (e', Inr plan) \<Rightarrow>
          (if cc_dry_run context
           then (e', \<lparr>sr_success = True, sr_backend = b, sr_version_hash = sy_version_hash plan,
                   sr_applied_count = 0, sr_failed_count = 0, sr_errors = [], sr_revert_ids = []\<rparr>)
           else case co_apply c context plan e' of
               (e'', Inl err) \<Rightarrow> (e'', failed_sync b rbac err)
             | (e'', Inr (ids, errors)) \<Rightarrow>
                 (e'', \<lparr>sr_success = (length errors = 0), sr_backend = b,
                   sr_version_hash = sy_version_hash plan, sr_applied_count = length ids,
                   sr_failed_count = length errors, sr_errors = errors, sr_revert_ids = ids\<rparr>)))"

fun sync_backends :: "'e compilers \<Rightarrow> string \<Rightarrow> bool \<Rightarrow> canonical_rbac \<Rightarrow> string list \<Rightarrow> 'e
    \<Rightarrow> (string, sync_result) dict \<Rightarrow> 'e \<times> (string, sync_result) dict" where
  "sync_backends compilers environment dry_run rbac [] e results = (e, results)"
| "sync_backends compilers environment dry_run rbac (b # bs) e results =
     (case compilers b of
        None \<Rightarrow> sync_backends compilers environment dry_run rbac bs e results
      | Some c \<Rightarrow>
          (case sync_backend c (make_context environment b dry_run) rbac e of
             (e', r) \<Rightarrow> sync_backends compilers environment dry_run rbac bs e' (dict_set results b r)))"

definition unverified :: "string \<Rightarrow> py_error \<Rightarrow> verify_result" where
  "unverified b err =
     \<lparr>vr_backend = b, vr_in_sync = False, vr_missing = [], vr_extra = [], vr_mismatched = [],
      vr_error = Some (exc_text err)\<rparr>"

fun verify_backends :: "'e compilers \<Rightarrow> string \<Rightarrow> canonical_rbac \<Rightarrow> string list \<Rightarrow> 'e
    \<Rightarrow> (string, verify_result) dict \<Rightarrow> 'e \<times> (string, verify_result) dict" where
  "verify_backends compilers environment rbac [] e results = (e, results)"
| "verify_backends compilers environment rbac (b # bs) e results =
     (case compilers b of
        None \<Rightarrow> verify_backends compilers environment rbac bs e results
      | Some c \<Rightarrow>
          (case co_verify c (make_context environment b False) rbac e of
             (e', Inl err) \<Rightarrow>
               verify_backends compilers environment rbac bs e' (dict_set results b (unverified b err))
           | (e', Inr r) \<Rightarrow> verify_backends compilers environment rbac bs e' (dict_set results b r)))"

fun revert_backends :: "'e compilers \<Rightarrow> string \<Rightarrow> string list \<Rightarrow> string list \<Rightarrow> 'e
    \<Rightarrow> (string, string list \<times> string list) dict
    \<Rightarrow> 'e \<times> (string, string list \<times> string list) dict" where
  "revert_backends compilers environment ids [] e results = (e, results)"
| "revert_backends compilers environment ids (b # bs) e results =
     (case compilers b of
        None \<Rightarrow> revert_backends compilers environment ids bs e results
      | Some c \<Rightarrow>
          (case co_revert c (make_context environment b False) ids e of
             (e', Inl err) \<Rightarrow>
               revert_backends compilers environment ids bs e' (dict_set results b ([], [exc_text err]))
           | (e', Inr r) \<Rightarrow> revert_backends compilers environment ids bs e' (dict_set results b r)))"

text \<open>
  The operations of \<open>SyncController\<close>: \<open>registered\<close> is the list of names in the compiler registry, used
  when no backends are named.
\<close>

definition targets :: "string list \<Rightarrow> string list option \<Rightarrow> string list" where
  "targets registered backends =
     (case backends of None \<Rightarrow> registered | Some [] \<Rightarrow> registered | Some bs \<Rightarrow> bs)"

definition controller_plan :: "canonical_rbac res \<Rightarrow> 'e compilers \<Rightarrow> string list \<Rightarrow> string list option
    \<Rightarrow> string \<Rightarrow> 'e \<Rightarrow> ('e \<times> (string, sync_plan) dict) res" where
  "controller_plan loaded compilers registered backends environment e =
     bind_res loaded (\<lambda>rbac. Inr (plan_backends compilers environment rbac (targets registered backends) e []))"

definition controller_sync :: "canonical_rbac res \<Rightarrow> 'e compilers \<Rightarrow> string list \<Rightarrow> string list option
    \<Rightarrow> string \<Rightarrow> bool \<Rightarrow> 'e \<Rightarrow> ('e \<times> (string, sync_result) dict) res" where
  "controller_sync loaded compilers registered backends environment dry_run e =
     bind_res loaded (\<lambda>rbac.
       Inr (sync_backends compilers environment dry_run rbac (targets registered backends) e []))"

definition controller_verify :: "canonical_rbac res \<Rightarrow> 'e compilers \<Rightarrow> string list \<Rightarrow> string list option
    \<Rightarrow> string \<Rightarrow> 'e \<Rightarrow> ('e \<times> (string, verify_result) dict) res" where
  "controller_verify loaded compilers registered backends environment e =
     bind_res loaded (\<lambda>rbac. Inr (verify_backends compilers environment rbac (targets registered backends) e []))"

definition controller_revert :: "'e compilers \<Rightarrow> string list \<Rightarrow> string list \<Rightarrow> string list option
    \<Rightarrow> string \<Rightarrow> 'e \<Rightarrow> 'e \<times> (string, string list \<times> string list) dict" where
  "controller_revert compilers registered ids backends environment e =
     revert_backends compilers environment ids (targets registered backends) e []"

text \<open>The Trino compiler as a compiler of the controller.\<close>

definition trino_compiler :: "'e engine option \<Rightarrow> 'e compiler" where
  "trino_compiler backend =
     \<lparr>co_plan = \<lambda>context m e. trino_plan backend context m e,
      co_apply = \<lambda>context p e. (case trino_apply backend p e of (e', r) \<Rightarrow> (e', Inr r)),
      co_verify = \<lambda>context m e. trino_verify backend context m e,
      co_revert = \<lambda>context ids e. (case trino_revert backend context ids e of (e', r) \<Rightarrow> (e', Inr r))\<rparr>"

end
