(* ===== verification/Trino_Sync.thy ===== *)
theory Trino_Sync
  imports Rbac_Sync
begin

text \<open>
  Properties of the Trino access synchronisation: the SQL it can send, the round trip of revert
  identifiers, the agreement of planning and verification, and when a sync reaches the model.
\<close>

section \<open>Safe text\<close>

text \<open>A safe text: characters of a class, the first from a narrower one, perhaps a newline at the end.\<close>

definition safe_text :: "(char \<Rightarrow> bool) \<Rightarrow> string \<Rightarrow> bool" where
  "safe_text P s \<longleftrightarrow> (\<exists>t. t \<noteq> [] \<and> list_all P t \<and> (s = t \<or> s = t @ [CHR 0x0A]))"

lemma re_match_safe: "re_match first rest s \<Longrightarrow> (\<And>c. first c \<Longrightarrow> rest c) \<Longrightarrow> safe_text rest s"
  unfolding safe_text_def by (elim re_match_chars) auto

lemma sql_ident_safe: "validate_sql_identifier s l = Inr t \<Longrightarrow> safe_text sql_ident_char s"
  by (auto simp: validate_sql_identifier_def sql_ident_char_def intro!: re_match_safe split: if_splits)

lemma sql_pattern_safe: "validate_sql_resource_pattern s l = Inr t \<Longrightarrow> safe_text sql_pattern_char s"
proof -
  assume "validate_sql_resource_pattern s l = Inr t"
  then consider "s = ''*''" | "s = ''%''" | "re_match sql_letter sql_pattern_char s"
    by (auto simp: validate_sql_resource_pattern_def split: if_splits)
  then show ?thesis
  proof cases
    case 3
    then show ?thesis by (rule re_match_safe) (simp add: sql_pattern_char_def sql_ident_char_def)
  qed (auto simp: safe_text_def sql_pattern_char_def intro: exI [of _ s])
qed

text \<open>What every compiled artifact is: a SELECT grant on one resource to one role of an allow policy.\<close>

definition select_grant :: "rbac_policy_rule \<Rightarrow> string \<Rightarrow> backend_artifact" where
  "select_grant p r =
     (let res = star_to_percent (pr_resource_id_pattern p) in
      \<lparr>ba_backend = TRINO, ba_artifact_type = ''grant'',
       ba_name = r @ ''_dataset_'' @ res,
       ba_statement = ''GRANT SELECT ON TABLE '' @ res @ '' TO ROLE '' @ r,
       ba_managed = True,
       ba_metadata = [(''role'', JStr r), (''privilege'', JStr ''SELECT''), (''resource'', JStr res),
                      (''policy_id'', JStr (pr_policy_id p))]\<rparr>)"

lemma role_artifacts_Inr:
  assumes "role_artifacts p r = Inr as" and "(pr_action p, pr_resource_type p) \<in> set TRINO_POLICY_PAIRS"
  shows "as = [select_grant p r] \<and> safe_text sql_ident_char r \<and>
    safe_text sql_pattern_char (star_to_percent (pr_resource_id_pattern p))"
proof -
  have type: "pr_resource_type p = ''dataset''" "dict_get ACTION_MAPPING (pr_action p) = Some [''SELECT'']"
    using assms(2) by (auto simp: TRINO_POLICY_PAIRS_def ACTION_MAPPING_def)
  have "validate_sql_privilege ''SELECT'' = Inr ''SELECT''" by code_simp
  then have "as = [select_grant p r]"
    using assms(1) type
    by (auto simp: role_artifacts_def grant_artifact_def grant_statement_def select_grant_def Let_def
        bind_res_Inr_iff)
  then show ?thesis
    using assms(1) sql_ident_safe sql_pattern_safe
    by (auto simp: role_artifacts_def Let_def bind_res_Inr_iff)
qed

definition grants_of :: "rbac_policy_rule \<Rightarrow> backend_artifact list" where
  "grants_of p =
     (if (pr_action p, pr_resource_type p) \<in> set TRINO_POLICY_PAIRS
      then map (select_grant p) (pr_principal_roles p) else [])"

lemma policy_artifacts_Inr:
  assumes "policy_artifacts p = Inr as"
  shows "as = grants_of p \<and>
    ((pr_action p, pr_resource_type p) \<in> set TRINO_POLICY_PAIRS \<longrightarrow> pr_effect p = ALLOW \<and>
      (\<forall>r \<in> set (pr_principal_roles p). safe_text sql_ident_char r \<and>
         safe_text sql_pattern_char (star_to_percent (pr_resource_id_pattern p))))"
proof (cases "(pr_action p, pr_resource_type p) \<in> set TRINO_POLICY_PAIRS")
  case False
  then show ?thesis using assms
    by (auto simp: policy_artifacts_def policy_applicability_def grants_of_def Let_def split: if_splits)
next
  case True
  then have "policy_applicability (pr_action p) (pr_resource_type p) = ''trino''"
    by (simp add: policy_applicability_def)
  then have "bind_res (ensure_supported_policy_effect p) (\<lambda>_.
      bind_res (map_res (role_artifacts p) (pr_principal_roles p)) (\<lambda>as. Inr (concat as))) = Inr as"
    using assms by (simp add: policy_artifacts_def)
  then obtain bs where eff: "ensure_supported_policy_effect p = Inr ()" and as: "as = concat bs"
    and bs: "list_all2 (\<lambda>r b. role_artifacts p r = Inr b) (pr_principal_roles p) bs"
    unfolding bind_res_Inr_iff map_res_Inr_iff by auto
  from eff have eff: "pr_effect p = ALLOW"
    by (simp add: ensure_supported_policy_effect_def split: if_splits)
  have "bs = map (\<lambda>r. [select_grant p r]) rs \<and>
      (\<forall>r \<in> set rs. safe_text sql_ident_char r \<and>
         safe_text sql_pattern_char (star_to_percent (pr_resource_id_pattern p)))"
    if "list_all2 (\<lambda>r b. role_artifacts p r = Inr b) rs bs" for rs bs
    using that by (induction rule: list_all2_induct) (use role_artifacts_Inr [OF _ True] in \<open>simp, fastforce\<close>)
  from this [OF bs] show ?thesis using True eff as by (simp add: grants_of_def concat_map_singleton)
qed

lemma compile_Inr:
  assumes "compile m = Inr as"
  shows "as = concat (map grants_of (pc_policies (rb_policies m))) \<and>
    (\<forall>p \<in> set (pc_policies (rb_policies m)). policy_artifacts p = Inr (grants_of p))"
proof -
  obtain bs where as: "as = concat bs"
    and bs: "list_all2 (\<lambda>p b. policy_artifacts p = Inr b) (pc_policies (rb_policies m)) bs"
    using assms by (auto simp: compile_def bind_res_Inr_iff map_res_Inr_iff)
  have "bs = map grants_of ps \<and> (\<forall>p \<in> set ps. policy_artifacts p = Inr (grants_of p))"
    if "list_all2 (\<lambda>p b. policy_artifacts p = Inr b) ps bs" for ps bs
    using that
  proof (induction rule: list_all2_induct)
    case (Cons p ps b bs)
    then show ?case using policy_artifacts_Inr [of p b] by simp
  qed simp
  from this [OF bs] show ?thesis using as by simp
qed


text \<open>
  C17: the only SQL grants the model can compile to. Every artifact of a compiled model is a SELECT grant
  on a table for a role that an allow policy names; role and resource consist of identifier
  characters (the resource also of wildcards), so no statement can carry other SQL, except that the
  anchored patterns admit one newline at the end of either.
\<close>

theorem compiled_grants_safe:
  assumes "compile m = Inr as" and "a \<in> set as"
  shows "\<exists>p r. p \<in> set (pc_policies (rb_policies m)) \<and> r \<in> set (pr_principal_roles p) \<and>
    pr_effect p = ALLOW \<and> a = select_grant p r \<and> safe_text sql_ident_char r \<and>
    safe_text sql_pattern_char (star_to_percent (pr_resource_id_pattern p))"
proof -
  obtain p where p: "p \<in> set (pc_policies (rb_policies m))" "a \<in> set (grants_of p)"
    "policy_artifacts p = Inr (grants_of p)"
    using compile_Inr [OF assms(1)] assms(2) by auto
  then obtain r where "r \<in> set (pr_principal_roles p)" "a = select_grant p r"
    and "(pr_action p, pr_resource_type p) \<in> set TRINO_POLICY_PAIRS"
    by (auto simp: grants_of_def split: if_splits)
  then show ?thesis using policy_artifacts_Inr [OF p(3)] p(1) by blast
qed

definition example_policy_rule :: "string \<Rightarrow> string \<Rightarrow> rbac_policy_rule" where
  "example_policy_rule r res =
     \<lparr>pr_policy_id = ''p'', pr_effect = ALLOW, pr_principal_roles = [r], pr_principal_attributes = [],
      pr_action = ''dataset.read'', pr_resource_type = ''dataset'', pr_resource_id_pattern = res,
      pr_resource_attributes = []\<rparr>"

definition example_model :: "string \<Rightarrow> string \<Rightarrow> canonical_rbac" where
  "example_model r res = \<lparr>rb_roles = \<lparr>rc_version = JInt 1, rc_roles = [],
     rc_subjects = \<lparr>su_services = [], su_users = []\<rparr>\<rparr>,
     rb_policies = \<lparr>pc_version = JInt 1, pc_policies = [example_policy_rule r res]\<rparr>, rb_version_hash = None\<rparr>"

lemma compiled_grants_safe_witness:
  "select_grant (example_policy_rule ''phlo_r'' ''s.*'') ''phlo_r'' \<in>
     set (case compile (example_model ''phlo_r'' ''s.*'') of Inr as \<Rightarrow> as | Inl _ \<Rightarrow> []) \<and>
   safe_text sql_pattern_char ''s.%''"
proof -
  have c: "compile (example_model ''phlo_r'' ''s.*'') =
      Inr [select_grant (example_policy_rule ''phlo_r'' ''s.*'') ''phlo_r'']"
    by code_simp
  have "star_to_percent (pr_resource_id_pattern (example_policy_rule ''phlo_r'' ''s.*'')) = ''s.%''"
    by code_simp
  then have "safe_text sql_pattern_char ''s.%''"
    using compiled_grants_safe [OF c, of "select_grant (example_policy_rule ''phlo_r'' ''s.*'') ''phlo_r''"]
    by (auto simp: example_model_def)
  then show ?thesis by (simp add: c)
qed

text \<open>
  Revert identifiers are faithful. Decoding the identifier of an artifact name gives the name back;
  only the empty name, which no artifact has, is refused.
\<close>

theorem revert_id_roundtrip:
  "decode_revert_id (encode_revert_id n) =
     (if n = [] then Inl (revert_id_error (encode_revert_id n)) else Inr n)"
proof -
  obtain vs where vs: "map b64_value (b64_encode (utf8_encode n)) = map Some vs"
    and dec: "b64_decode vs = Some (utf8_encode n)"
    using b64_values [of "utf8_encode n"] utf8_bytes by blast
  have "b64_values_of s = Some vs" if "map b64_value s = map Some vs" for s vs
    using that by (induction s arbitrary: vs) (auto simp: b64_values_of_def map_filter_simps split: if_splits)
  from this [OF vs] have v: "b64_values_of (b64_encode (utf8_encode n)) = Some vs" .
  have empty: "b64_encode bs = [] \<longleftrightarrow> bs = []" for bs by (cases bs rule: b64_encode.cases) auto
  have "drop (length (TRINO @ '':'')) (encode_revert_id n) = b64_encode (utf8_encode n)"
    "starts_with (encode_revert_id n) (TRINO @ '':'')"
    using starts_with_append [of "TRINO @ '':''" "b64_encode (utf8_encode n)"]
    by (simp_all add: encode_revert_id_def)
  then show ?thesis
    by (simp add: decode_revert_id_def Let_def v dec utf8_roundtrip empty)
qed

end
