(* ===== verification/Trino_Convergence.thy ===== *)
theory Trino_Convergence
  imports Trino_Sync
begin

text \<open>
  When a sync reaches the model: what the backend takes for granted of Trino's grants as a law on the engine, and
  the proof that planning and applying make the managed grants exactly those of the model.
\<close>

section \<open>The engine\<close>

text \<open>A grant: role, schema, table, privilege. \<open>G e\<close> are the grants of engine state \<open>e\<close>.\<close>

type_synonym grant = "string \<times> string \<times> string \<times> string"

definition grant_row :: "grant \<Rightarrow> json list \<Rightarrow> bool" where
  "grant_row g row \<longleftrightarrow>
     (case g of (r, s, t, p) \<Rightarrow>
        cell row 2 = JStr r \<and> cell row 5 = JStr s \<and> cell row 6 = JStr t \<and> cell row 7 = JStr p)"

definition segment :: "string \<Rightarrow> bool" where
  "segment s \<longleftrightarrow> s \<noteq> [] \<and> list_all re_word s"

definition role_text :: "string \<Rightarrow> bool" where
  "role_text r \<longleftrightarrow> r \<noteq> [] \<and> re_word (hd r) \<and> list_all (\<lambda>c. re_word c \<or> c = CHR ''.'') r"

definition tidy :: "grant \<Rightarrow> bool" where
  "tidy g \<longleftrightarrow>
     (case g of (r, s, t, p) \<Rightarrow> role_text r \<and> segment s \<and> segment t \<and> p \<in> set ALLOWED_ACTIONS)"

definition grant_sql :: "grant \<Rightarrow> string" where
  "grant_sql g =
     (case g of (r, s, t, p) \<Rightarrow> ''GRANT '' @ p @ '' ON TABLE '' @ quote_identifier s @ ''.'' @
        quote_identifier t @ '' TO '' @ quote_identifier r)"

definition drop_sql :: "grant \<Rightarrow> string" where
  "drop_sql g =
     (case g of (r, s, t, p) \<Rightarrow> ''REVOKE '' @ p @ '' ON TABLE '' @ quote_identifier s @ ''.'' @
        quote_identifier t @ '' FROM '' @ quote_identifier r)"

definition grants_law :: "'e engine \<Rightarrow> ('e \<Rightarrow> grant set) \<Rightarrow> bool" where
  "grants_law execute G \<longleftrightarrow>
     (\<forall>e. \<exists>e' rows. execute e ''SHOW GRANTS'' = (e', Inr rows) \<and> G e' = G e \<and>
        (\<forall>row \<in> set rows. \<exists>g \<in> G e. grant_row g row) \<and> (\<forall>g \<in> G e. \<exists>row \<in> set rows. grant_row g row)) \<and>
     (\<forall>e g. tidy g \<longrightarrow>
        (\<exists>e' rows. execute e (grant_sql g) = (e', Inr rows) \<and> G e' = insert g (G e)) \<and>
        (\<exists>e' rows. execute e (drop_sql g) = (e', Inr rows) \<and> G e' = G e - {g}))"

section \<open>Artifacts and grants\<close>

definition managed :: "grant \<Rightarrow> bool" where
  "managed g \<longleftrightarrow> starts_with (fst g) ''phlo_''"

definition grant_name :: "grant \<Rightarrow> string" where
  "grant_name g = (case g of (r, s, t, p) \<Rightarrow> r @ ''_dataset_'' @ s @ ''.'' @ t)"

definition grant_of :: "backend_artifact \<Rightarrow> grant" where
  "grant_of a =
     (let parts = split_char CHR ''.'' (json_text (meta a ''resource'' []))
      in (json_text (meta a ''role'' []), hd parts, last parts, json_text (meta a ''privilege'' ''SELECT'')))"

definition seen_artifact :: "grant \<Rightarrow> backend_artifact" where
  "seen_artifact g =
     (case g of (r, s, t, p) \<Rightarrow>
       \<lparr>ba_backend = TRINO, ba_artifact_type = ''grant'', ba_name = r @ ''_dataset_'' @ s @ ''.'' @ t,
        ba_statement = ''GRANT '' @ p @ '' ON TABLE '' @ s @ ''.'' @ t @ '' TO ROLE '' @ r,
        ba_managed = True,
        ba_metadata = [(''role'', JStr r), (''privilege'', JStr p), (''resource'', JStr (s @ ''.'' @ t)),
                       (''resource_type'', JStr ''dataset'')]\<rparr>)"

text \<open>A policy whose grants Trino can represent: a plain two-part table, managed roles.\<close>

definition representable :: "rbac_policy_rule \<Rightarrow> bool" where
  "representable p \<longleftrightarrow>
     (\<exists>s t. star_to_percent (pr_resource_id_pattern p) = s @ ''.'' @ t \<and> segment s \<and> segment t) \<and>
     (\<forall>r \<in> set (pr_principal_roles p). role_text r \<and> starts_with r ''phlo_'' \<and>
        \<not> str_contains ''REVOKE'' (ba_statement (select_grant p r)))"

lemma not_word [simp]:
  "\<not> re_word CHR '' ''" "\<not> re_word CHR '':''" "\<not> re_word CHR 0x0A" "\<not> re_word CHR 0x22" "\<not> re_word CHR ''.''"
  by code_simp+

lemma segment_char: "segment s \<Longrightarrow> c \<in> set s \<Longrightarrow> re_word c"
  by (simp add: segment_def list_all_iff)

lemma segment_no_dot: "segment s \<Longrightarrow> CHR ''.'' \<notin> set s"
  using segment_char not_word(5) by blast

lemma identifier_text: "role_text r \<Longrightarrow> identifier_re r"
proof -
  assume r: "role_text r"
  then have "last r \<noteq> CHR 0x0A"
    using last_in_set [of r] not_word(3) unfolding role_text_def list_all_iff by fastforce
  then show ?thesis
    using r by (cases r) (auto simp: identifier_re_def re_match_def drop_newline_def role_text_def)
qed

lemma table_text: "segment s \<Longrightarrow> segment t \<Longrightarrow> role_text (s @ ''.'' @ t)"
  by (auto simp: role_text_def segment_def list_all_iff)

lemma quote_table:
  "segment s \<Longrightarrow> segment t \<Longrightarrow>
     quote_qualified_identifier (s @ ''.'' @ t) = quote_identifier s @ ''.'' @ quote_identifier t"
  using split_char_append [of "CHR ''.''" s t] split_char_no [of "CHR ''.''" t] segment_no_dot
  by (simp add: quote_qualified_identifier_def)


section \<open>Splitting the statement\<close>

lemma split_str_plain:
  assumes "\<forall>c \<in> set xs. c \<noteq> hd sep" and "sep \<noteq> []"
  shows "split_str sep 0 (xs @ ys) = (xs @ hd (split_str sep 0 ys)) # tl (split_str sep 0 ys)"
  using assms
proof (induction xs)
  case Nil
  have "split_str sep k zs \<noteq> []" for k zs
    by (induction sep k zs rule: split_str.induct) (auto split: list.splits)
  then show ?case by simp
next
  case (Cons x xs)
  then have "\<not> starts_with (x # xs @ ys) sep"
    by (cases sep) (auto simp: starts_with_def)
  then show ?case using Cons by simp
qed

lemma split_str_end:
  assumes "\<forall>c \<in> set xs. c \<noteq> hd sep" and "sep \<noteq> []"
  shows "split_str sep 0 xs = [xs]"
  using split_str_plain [OF assms, of "[]"] by simp

lemma split_str_skip: "split_str sep (length xs) (xs @ ys) = split_str sep 0 ys"
  by (induction xs) auto

lemma split_str_here:
  assumes "sep \<noteq> []"
  shows "split_str sep 0 (sep @ ys) = [] # split_str sep 0 ys"
proof -
  obtain c cs where sep: "sep = c # cs" using assms by (cases sep) auto
  have "starts_with (c # cs @ ys) (c # cs)" by (simp add: starts_with_def)
  then show ?thesis using split_str_skip [of sep cs ys] by (simp add: sep)
qed

lemma role_text_no_space: "role_text r \<Longrightarrow> \<forall>c \<in> set r. c \<noteq> CHR '' ''"
  using not_word(1) by (auto simp: role_text_def list_all_iff)

lemma grant_parts:
  assumes "role_text res" and "role_text r" and "CHR ''.'' \<in> set res"
  shows "length (split_str '' TO ROLE '' 0 (''GRANT SELECT ON TABLE '' @ res @ '' TO ROLE '' @ r)) = 2"
proof -
  note plain = role_text_no_space [OF assms(1)] role_text_no_space [OF assms(2)]
  let ?sep = "'' TO ROLE ''"
  have "split_str ?sep 0 (res @ ?sep @ r) = [res, r]"
    using split_str_plain [of res ?sep "?sep @ r"] split_str_here [of ?sep r]
      split_str_end [of r ?sep] plain by simp
  moreover have "\<not> starts_with (CHR '' '' # res @ ?sep @ r) ?sep"
  proof
    assume s: "starts_with (CHR '' '' # res @ ?sep @ r) ?sep"
    then have "take 2 res = ''TO'' \<and> (length res > 2 \<longrightarrow> res ! 2 = CHR '' '')" if "length res \<ge> 2"
      using that by (cases res; cases "tl res"; cases "tl (tl res)") (auto simp: starts_with_def)
    moreover have "length res \<ge> 2"
      using s plain(1) assms(1) by (cases res; cases "tl res") (auto simp: starts_with_def role_text_def)
    moreover have "length res > 2" if "take 2 res = ''TO''"
    proof (rule ccontr)
      assume "\<not> 2 < length res"
      then have "res = ''TO''" using that \<open>length res \<ge> 2\<close> by simp
      then show False using assms(3) by simp
    qed
    ultimately have "res ! 2 = CHR '' ''" "2 < length res" by auto
    then show False using plain(1) nth_mem by blast
  qed
  ultimately show ?thesis by (simp add: starts_with_def)
qed


section \<open>One grant\<close>

lemma run_grant:
  assumes "grants_law execute G" and "tidy g"
  shows "\<exists>e'. run_sql execute e (grant_sql g) = (e', Inr ()) \<and> G e' = insert g (G e)"
    and "\<exists>e'. run_sql execute e (drop_sql g) = (e', Inr ()) \<and> G e' = G e - {g}"
proof -
  from assms have "\<exists>e' rows. execute e (grant_sql g) = (e', Inr rows) \<and> G e' = insert g (G e)"
    and "\<exists>e' rows. execute e (drop_sql g) = (e', Inr rows) \<and> G e' = G e - {g}"
    unfolding grants_law_def by blast+
  then show "\<exists>e'. run_sql execute e (grant_sql g) = (e', Inr ()) \<and> G e' = insert g (G e)"
    and "\<exists>e'. run_sql execute e (drop_sql g) = (e', Inr ()) \<and> G e' = G e - {g}"
    by (auto simp: run_sql_def)
qed

lemma grant_of_select:
  assumes "star_to_percent (pr_resource_id_pattern p) = s @ ''.'' @ t" and "segment s" and "segment t"
  shows "grant_of (select_grant p r) = (r, s, t, ''SELECT'')"
  using split_char_append [of "CHR ''.''" s t] split_char_no [of "CHR ''.''" t] segment_no_dot assms
  by (simp add: grant_of_def select_grant_def meta_def Let_def)

lemma grant_of_seen: "tidy g \<Longrightarrow> grant_of (seen_artifact g) = g"
proof -
  assume g: "tidy g"
  obtain r s t p where gt: "g = (r, s, t, p)" by (cases g)
  have "split_char CHR ''.'' (s @ ''.'' @ t) = [s, t]"
    using split_char_append [of "CHR ''.''" s t] split_char_no [of "CHR ''.''" t] segment_no_dot g
    by (simp add: tidy_def gt)
  then show ?thesis by (simp add: grant_of_def seen_artifact_def meta_def gt Let_def)
qed

lemma upper_allowed: "p \<in> set ALLOWED_ACTIONS \<Longrightarrow> py_upper p = p"
proof -
  have "\<forall>p \<in> set ALLOWED_ACTIONS. py_upper p = p" by code_simp
  then show "p \<in> set ALLOWED_ACTIONS \<Longrightarrow> py_upper p = p" by blast
qed

lemma apply_select:
  assumes "grants_law execute G" and "representable p" and "r \<in> set (pr_principal_roles p)"
  shows "tidy (grant_of (select_grant p r)) \<and> managed (grant_of (select_grant p r)) \<and>
    ba_name (select_grant p r) = grant_name (grant_of (select_grant p r)) \<and>
    (\<exists>e'. apply_artifact execute (select_grant p r) e = (e', Inr ()) \<and>
       G e' = insert (grant_of (select_grant p r)) (G e))"
proof -
  obtain s t where res: "star_to_percent (pr_resource_id_pattern p) = s @ ''.'' @ t"
    and st: "segment s" "segment t"
    using assms(2) by (auto simp: representable_def)
  have r: "role_text r" "starts_with r ''phlo_''"
    and revoke: "\<not> str_contains ''REVOKE'' (ba_statement (select_grant p r))"
    using assms(2,3) by (auto simp: representable_def)
  let ?g = "(r, s, t, ''SELECT'')"
  have g: "grant_of (select_grant p r) = ?g" using grant_of_select res st .
  have tidy: "tidy ?g" using r st by (simp add: tidy_def ALLOWED_ACTIONS_def)
  have table: "role_text (s @ ''.'' @ t)" using table_text st .
  have "length (split_str '' TO ROLE '' 0 (ba_statement (select_grant p r))) = 2"
    using grant_parts [OF table r(1)] by (simp add: select_grant_def Let_def res)
  moreover have "artifact_policy (select_grant p r) =
      Inr \<lparr>ap_policy_id = Some (ba_name (select_grant p r)), ap_principal = r,
           ap_table_pattern = s @ ''.'' @ t, ap_action = ''SELECT'', ap_effect = ''ALLOW'',
      ap_columns = None, ap_row_filter = None, ap_data_masking = None\<rparr>"
    by (simp add: artifact_policy_def select_grant_def meta_def Let_def res)
  moreover have "policy_sql \<lparr>ap_policy_id = i, ap_principal = r, ap_table_pattern = s @ ''.'' @ t,
      ap_action = ''SELECT'', ap_effect = ''ALLOW'',
      ap_columns = None, ap_row_filter = None, ap_data_masking = None\<rparr> = Inr (grant_sql ?g)" for i
    using identifier_text [OF table] identifier_text [OF r(1)] quote_table [OF st]
      upper_allowed [of "''SELECT''"]
    by (simp add: policy_sql_def validate_identifier_def grant_sql_def ALLOWED_ACTIONS_def Let_def)
  ultimately have "apply_artifact execute (select_grant p r) e = run_sql execute e (grant_sql ?g)"
    using revoke by (simp add: apply_artifact_def apply_policy_def select_grant_def Let_def)
  then show ?thesis
    using run_grant(1) [OF assms(1) tidy] g tidy r(2)
    by (simp add: managed_def grant_name_def select_grant_def Let_def res)
qed

lemma split_max_no: "c \<notin> set s \<Longrightarrow> split_max n c s = [s]"
  by (cases n) auto

lemma split_max_append: "c \<notin> set a \<Longrightarrow> split_max (Suc n) c (a @ c # b) = a # split_max n c b"
  by (induction a) (auto simp: takeWhile_append dropWhile_append)

lemma revert_seen:
  assumes "grants_law execute G" and "tidy g"
  shows "\<exists>e'. revert_artifact execute (seen_artifact g) e = (e', Inr ()) \<and> G e' = G e - {g}"
proof -
  obtain r s t p where g: "g = (r, s, t, p)" by (cases g)
  have r: "role_text r" and st: "segment s" "segment t" and p: "p \<in> set ALLOWED_ACTIONS"
    using assms(2) by (auto simp: tidy_def g)
  have "\<forall>p \<in> set ALLOWED_ACTIONS. CHR '':'' \<notin> set p" by code_simp
  then have "CHR '':'' \<notin> set p" using p by blast
  moreover have "CHR '':'' \<notin> set (s @ ''.'' @ t)"
    using st segment_char not_word(2) by fastforce
  ultimately have "split_max 2 CHR '':'' (p @ '':'' @ (s @ ''.'' @ t) @ '':'' @ r) = [p, s @ ''.'' @ t, r]"
    using split_max_append [of "CHR '':''" p 1] split_max_append [of "CHR '':''" "s @ ''.'' @ t" 0]
    by (simp add: numeral_2_eq_2)
  then have "revoke_sql (p @ '':'' @ (s @ ''.'' @ t) @ '':'' @ r) = Inr (drop_sql g)"
    using identifier_text [OF table_text [OF st]] identifier_text [OF r] quote_table [OF st]
      upper_allowed [OF p] p
    by (simp add: revoke_sql_def validate_identifier_def drop_sql_def g)
  then have "revert_artifact execute (seen_artifact g) e = run_sql execute e (drop_sql g)"
    by (simp add: revert_artifact_def seen_artifact_def meta_def revoke_policy_def g)
  then show ?thesis using run_grant(2) [OF assms] by simp
qed


section \<open>Reading the grants\<close>

lemma observed_rows:
  assumes "\<forall>row \<in> set rows. \<exists>g \<in> S. grant_row g row" and "\<forall>g \<in> S. managed g \<longrightarrow> tidy g"
    and "cc_managed_prefix context = ''phlo_''"
  shows "set (observed context (map policy_of_row rows)) =
    seen_artifact ` {g \<in> S. managed g \<and> (\<exists>row \<in> set rows. grant_row g row)}"
  using assms(1)
proof (induction rows)
  case (Cons row rows)
  then obtain g where g: "g \<in> S" "grant_row g row" by auto
  obtain r s t p where gt: "g = (r, s, t, p)" by (cases g)
  have only: "grant_row h row \<longleftrightarrow> h = g" for h
    using g(2) by (cases h) (auto simp: grant_row_def gt)
  have cells: "grant_get (policy_of_row row) ''grantee'' = JStr r" "grant_get (policy_of_row row) ''schema'' = JStr s"
    "grant_get (policy_of_row row) ''table'' = JStr t" "grant_get (policy_of_row row) ''privilege'' = JStr p"
    using g(2) by (simp_all add: grant_get_def policy_of_row_def grant_row_def gt)
  show ?case
  proof (cases "managed g")
    case True
    then have "r \<noteq> []" "matches_managed r context"
      using assms(3) by (auto simp: managed_def gt matches_managed_def starts_with_def)
    moreover have "s \<noteq> []" "t \<noteq> []" using assms(2) g(1) True by (auto simp: tidy_def segment_def gt)
    then have "observed_artifact r (policy_of_row row) = seen_artifact g"
      using cells by (simp add: observed_artifact_def seen_artifact_def gt Let_def)
    ultimately have obs: "observed context (map policy_of_row (row # rows)) =
        seen_artifact g # observed context (map policy_of_row rows)"
      using cells by simp
    have ins: "{h \<in> S. managed h \<and> (\<exists>x \<in> set (row # rows). grant_row h x)} =
        insert g {h \<in> S. managed h \<and> (\<exists>x \<in> set rows. grant_row h x)}"
      using True g(1) by (auto simp: only)
    have IH: "set (observed context (map policy_of_row rows)) =
        seen_artifact ` {h \<in> S. managed h \<and> (\<exists>x \<in> set rows. grant_row h x)}"
      using Cons by simp
    show ?thesis unfolding obs ins by (simp only: list.set image_insert IH)
  next
    case False
    then have "observed context (map policy_of_row (row # rows)) = observed context (map policy_of_row rows)"
      using cells assms(3) by (simp add: managed_def gt matches_managed_def)
    moreover have "{h \<in> S. managed h \<and> (\<exists>x \<in> set (row # rows). grant_row h x)} =
        {h \<in> S. managed h \<and> (\<exists>x \<in> set rows. grant_row h x)}"
      using False by (auto simp: only)
    ultimately show ?thesis using Cons by simp
  qed
qed simp

lemma read_seen:
  assumes "grants_law execute G" and "\<forall>g \<in> G e. managed g \<longrightarrow> tidy g"
    and "cc_managed_prefix context = ''phlo_''"
  obtains e' current where "read_current_state (Some execute) context e = (e', current)" "G e' = G e"
    "set current = seen_artifact ` {g \<in> G e. managed g}"
proof -
  obtain e' rows where rows: "execute e ''SHOW GRANTS'' = (e', Inr rows)" "G e' = G e"
    "\<forall>row \<in> set rows. \<exists>g \<in> G e. grant_row g row" "\<forall>g \<in> G e. \<exists>row \<in> set rows. grant_row g row"
    using assms(1) unfolding grants_law_def by metis
  have "{g \<in> G e. managed g \<and> (\<exists>row \<in> set rows. grant_row g row)} = {g \<in> G e. managed g}"
    using rows(4) by blast
  then have "set (observed context (map policy_of_row rows)) = seen_artifact ` {g \<in> G e. managed g}"
    using observed_rows [OF rows(3) assms(2,3)] by simp
  then show thesis using rows(1,2) that by (simp add: read_current_state_def list_policies_def)
qed


section \<open>Applying a plan\<close>

lemma apply_creates:
  assumes "\<forall>a \<in> set as. \<forall>e. \<exists>e'. apply_artifact execute a e = (e', Inr ()) \<and> G e' = insert (grant_of a) (G e)"
  shows "\<exists>e'. apply_changes_to execute (map create_change as @ cs) e ok errs =
      apply_changes_to execute cs e' (ok @ map (\<lambda>a. encode_revert_id (ba_name a)) as) errs \<and>
      G e' = G e \<union> grant_of ` set as"
  using assms
proof (induction as arbitrary: e ok)
  case (Cons a as)
  from Cons.prems have "\<exists>e1. apply_artifact execute a e = (e1, Inr ()) \<and> G e1 = insert (grant_of a) (G e)"
    by simp
  then obtain e1 where one: "apply_artifact execute a e = (e1, Inr ())" "G e1 = insert (grant_of a) (G e)"
    by blast
  let ?ok = "ok @ [encode_revert_id (ba_name a)]"
  have "str_truthy (Some (encode_revert_id (ba_name a)))"
    by (simp add: str_truthy_def encode_revert_id_def TRINO_def)
  then have step: "apply_changes_to execute (map create_change (a # as) @ cs) e ok errs =
      apply_changes_to execute (map create_change as @ cs) e1 ?ok errs"
    using one(1) by (simp add: create_change_def)
  from Cons.prems have "\<exists>e'. apply_changes_to execute (map create_change as @ cs) e1 ?ok errs =
      apply_changes_to execute cs e' (?ok @ map (\<lambda>a. encode_revert_id (ba_name a)) as) errs \<and>
      G e' = G e1 \<union> grant_of ` set as"
    by (intro Cons.IH) simp
  then show ?case unfolding step one(2) by simp
qed (auto intro: exI)

lemma apply_deletes:
  assumes "\<forall>a \<in> set as. \<forall>e. \<exists>e'. revert_artifact execute a e = (e', Inr ()) \<and> G e' = G e - {grant_of a}"
  shows "\<exists>e'. apply_changes_to execute (map delete_change as) e ok errs = (e', ok, errs) \<and>
      G e' = G e - grant_of ` set as"
  using assms
proof (induction as arbitrary: e)
  case (Cons a as)
  from Cons.prems have "\<exists>e1. revert_artifact execute a e = (e1, Inr ()) \<and> G e1 = G e - {grant_of a}"
    by simp
  then obtain e1 where one: "revert_artifact execute a e = (e1, Inr ())" "G e1 = G e - {grant_of a}"
    by blast
  then have step: "apply_changes_to execute (map delete_change (a # as)) e ok errs =
      apply_changes_to execute (map delete_change as) e1 ok errs"
    by (simp add: delete_change_def)
  from Cons.prems have "\<exists>e'. apply_changes_to execute (map delete_change as) e1 ok errs = (e', ok, errs) \<and>
      G e' = G e1 - grant_of ` set as"
    by (intro Cons.IH) simp
  then show ?case unfolding step one(2) by (simp add: set_diff_eq)
qed simp

text \<open>The grants of a model, and a store on which a sync can reach them.\<close>

definition model_grants :: "canonical_rbac \<Rightarrow> grant set" where
  "model_grants m =
     {grant_of (select_grant p r) |p r. p \<in> set (pc_policies (rb_policies m)) \<and>
        r \<in> set (pr_principal_roles p) \<and> (pr_action p, pr_resource_type p) \<in> set TRINO_POLICY_PAIRS}"

definition syncable :: "('e \<Rightarrow> grant set) \<Rightarrow> canonical_rbac \<Rightarrow> 'e \<Rightarrow> bool" where
  "syncable G m e \<longleftrightarrow>
     (\<exists>as. compile m = Inr as) \<and>
     (\<forall>p \<in> set (pc_policies (rb_policies m)).
        (pr_action p, pr_resource_type p) \<in> set TRINO_POLICY_PAIRS \<longrightarrow> representable p) \<and>
     (\<forall>g \<in> G e. managed g \<longrightarrow> tidy g) \<and>
     inj_on grant_name ({g \<in> G e. managed g} \<union> model_grants m)"

lemma compiled_grants:
  assumes "compile m = Inr as"
  shows "grant_of ` set as = model_grants m"
    and "a \<in> set as \<Longrightarrow> \<exists>p r. a = select_grant p r \<and> p \<in> set (pc_policies (rb_policies m)) \<and>
      r \<in> set (pr_principal_roles p) \<and> (pr_action p, pr_resource_type p) \<in> set TRINO_POLICY_PAIRS"
proof -
  have as: "set as = {select_grant p r |p r. p \<in> set (pc_policies (rb_policies m)) \<and>
      r \<in> set (pr_principal_roles p) \<and> (pr_action p, pr_resource_type p) \<in> set TRINO_POLICY_PAIRS}"
    using compile_Inr [OF assms] by (auto simp: grants_of_def split: if_splits)
  then show "grant_of ` set as = model_grants m" by (auto simp: model_grants_def)
  show "a \<in> set as \<Longrightarrow> \<exists>p r. a = select_grant p r \<and> p \<in> set (pc_policies (rb_policies m)) \<and>
      r \<in> set (pr_principal_roles p) \<and> (pr_action p, pr_resource_type p) \<in> set TRINO_POLICY_PAIRS"
    using as by blast
qed


section \<open>Convergence\<close>

lemma not_in_grants:
  assumes "\<forall>a \<in> set as \<union> set bs. ba_name a = grant_name (grant_of a)"
    and inj: "inj_on grant_name (grant_of ` set as \<union> grant_of ` set bs)"
  shows "grant_of ` set (not_in (by_name as) (by_name bs)) = grant_of ` set as - grant_of ` set bs"
proof (rule set_eqI, rule iffI)
  fix g assume "g \<in> grant_of ` set (not_in (by_name as) (by_name bs))"
  then obtain a where a: "g = grant_of a" "a \<in> set (not_in (by_name as) (by_name bs))" by (rule imageE)
  then have in_as: "a \<in> set as" and out: "ba_name a \<notin> ba_name ` set bs"
    unfolding set_not_in using by_name_facts [of as] by auto
  have "grant_of a \<notin> grant_of ` set bs"
  proof
    assume "grant_of a \<in> grant_of ` set bs"
    then obtain c where c: "c \<in> set bs" "grant_of a = grant_of c" by (rule imageE)
    then have "ba_name a = ba_name c" using assms(1) in_as by simp
    then show False using c(1) out by simp
  qed
  then show "g \<in> grant_of ` set as - grant_of ` set bs" using a(1) in_as by simp
next
  fix g assume "g \<in> grant_of ` set as - grant_of ` set bs"
  then obtain b where b: "b \<in> set as" "g = grant_of b" and g: "g \<notin> grant_of ` set bs" by blast
  obtain a where a: "dict_get (by_name as) (ba_name b) = Some a" "a \<in> set as" "ba_name a = ba_name b"
    using by_name_some [of "ba_name b" as] b(1) by blast
  then have "grant_name (grant_of a) = grant_name g" using assms(1) b by simp
  then have same: "grant_of a = g" using inj_onD [OF inj] a(2) b by blast
  have "ba_name b \<notin> ba_name ` set bs"
  proof
    assume "ba_name b \<in> ba_name ` set bs"
    then obtain c where c: "c \<in> set bs" "ba_name c = ba_name b" by force
    then have "grant_name (grant_of c) = grant_name g" using assms(1) b by auto
    then have "grant_of c = g" using inj_onD [OF inj] c(1) b by blast
    then show False using g c(1) by blast
  qed
  then have "a \<in> set (not_in (by_name as) (by_name bs))" unfolding set_not_in using a(1) by blast
  then show "g \<in> grant_of ` set (not_in (by_name as) (by_name bs))" using same by blast
qed

lemma seen_names: "ba_name (seen_artifact g) = grant_name g"
  by (cases g) (simp add: seen_artifact_def grant_name_def)

lemma syncable_grants:
  assumes "grants_law execute G" and "syncable G m e" and "compile m = Inr as"
  shows "\<forall>a \<in> set as. ba_name a = grant_name (grant_of a) \<and> tidy (grant_of a) \<and> managed (grant_of a)"
    and "\<forall>a \<in> set as. \<forall>e. \<exists>e'. apply_artifact execute a e = (e', Inr ()) \<and> G e' = insert (grant_of a) (G e)"
proof -
  have "(ba_name a = grant_name (grant_of a) \<and> tidy (grant_of a) \<and> managed (grant_of a)) \<and>
      (\<exists>e'. apply_artifact execute a e = (e', Inr ()) \<and> G e' = insert (grant_of a) (G e))"
    if a: "a \<in> set as" for a e
  proof -
    obtain p r where pr: "a = select_grant p r" "p \<in> set (pc_policies (rb_policies m))"
      "r \<in> set (pr_principal_roles p)" "(pr_action p, pr_resource_type p) \<in> set TRINO_POLICY_PAIRS"
      using compiled_grants(2) [OF assms(3) a] by blast
    then have "representable p" using assms(2) by (simp add: syncable_def)
    then show ?thesis using apply_select [OF assms(1) _ pr(3), of e] unfolding pr(1) by simp
  qed
  then show "\<forall>a \<in> set as. ba_name a = grant_name (grant_of a) \<and> tidy (grant_of a) \<and> managed (grant_of a)"
    and "\<forall>a \<in> set as. \<forall>e. \<exists>e'. apply_artifact execute a e = (e', Inr ()) \<and> G e' = insert (grant_of a) (G e)"
    by blast+
qed

lemma plan_and_apply:
  assumes law: "grants_law execute G" and sync: "syncable G m e" and pre: "cc_managed_prefix context = ''phlo_''"
  shows "\<exists>e1 plan e2 ids. trino_plan (Some execute) context m e = (e1, Inr plan) \<and>
    trino_apply (Some execute) plan e1 = (e2, ids, []) \<and>
    G e2 = {g \<in> G e. \<not> managed g} \<union> model_grants m"
proof -
  obtain as where as: "compile m = Inr as" using sync by (auto simp: syncable_def)
  have tidy: "\<forall>g \<in> G e. managed g \<longrightarrow> tidy g" using sync by (simp add: syncable_def)
  obtain e1 current where cur: "read_current_state (Some execute) context e = (e1, current)"
    "G e1 = G e" "set current = seen_artifact ` {g \<in> G e. managed g}"
    using read_seen [OF law tidy pre] by blast
  let ?M = "{g \<in> G e. managed g}" and ?C = "not_in (by_name as) (by_name current)"
    and ?D = "not_in (by_name current) (by_name as)"
  have grants: "grant_of ` set current = ?M" "grant_of ` set as = model_grants m"
    using compiled_grants(1) [OF as] image_cong [OF refl, of ?M "\<lambda>g. grant_of (seen_artifact g)" "\<lambda>g. g"]
      tidy grant_of_seen unfolding cur(3) image_image by (simp_all del: not_ex)
  have names: "\<forall>a \<in> set as \<union> set current. ba_name a = grant_name (grant_of a)"
    using syncable_grants(1) [OF law sync as] tidy by (simp add: cur(3) grant_of_seen seen_names ball_Un)
  have inj: "inj_on grant_name (grant_of ` set as \<union> grant_of ` set current)"
    using sync unfolding grants by (simp add: syncable_def Un_commute)
  have CD: "grant_of ` set ?C = model_grants m - ?M" "grant_of ` set ?D = ?M - model_grants m"
    using not_in_grants [OF names inj] not_in_grants [OF names [unfolded Un_commute [of "set as"]]
        inj [unfolded Un_commute [of "grant_of ` set as"]]]
    unfolding grants by this+
  have sub: "set ?C \<subseteq> set as" "set ?D \<subseteq> set current"
    unfolding set_not_in using by_name_facts [of as] by_name_facts [of current] by auto
  let ?plan = "\<lparr>sy_version_hash = (case rb_version_hash m of None \<Rightarrow> [] | Some h \<Rightarrow> h), sy_backend = TRINO,
      sy_changes = map create_change ?C @ map delete_change ?D, sy_warnings = [], sy_errors = []\<rparr>"
  have "\<forall>a \<in> set ?C. \<forall>e. \<exists>e'. apply_artifact execute a e = (e', Inr ()) \<and> G e' = insert (grant_of a) (G e)"
    using syncable_grants(2) [OF law sync as] sub(1) by blast
  from apply_creates [OF this, of "map delete_change ?D" e1 "[]" "[]"]
  obtain e' where create: "apply_changes_to execute (map create_change ?C @ map delete_change ?D) e1 [] [] =
      apply_changes_to execute (map delete_change ?D) e' (map (\<lambda>a. encode_revert_id (ba_name a)) ?C) []"
    "G e' = G e \<union> (model_grants m - ?M)"
    unfolding cur(2) CD(1) by auto
  have "\<forall>a \<in> set ?D. \<forall>e. \<exists>e'. revert_artifact execute a e = (e', Inr ()) \<and> G e' = G e - {grant_of a}"
  proof (intro ballI allI)
    fix a e assume "a \<in> set ?D"
    then obtain g where g: "a = seen_artifact g" "tidy g" using sub(2) cur(3) tidy by auto
    then show "\<exists>e'. revert_artifact execute a e = (e', Inr ()) \<and> G e' = G e - {grant_of a}"
      using revert_seen [OF law g(2)] grant_of_seen by simp
  qed
  from apply_deletes [OF this, of e' "map (\<lambda>a. encode_revert_id (ba_name a)) ?C" "[]"]
  obtain e2 where delete: "apply_changes_to execute (map delete_change ?D) e'
      (map (\<lambda>a. encode_revert_id (ba_name a)) ?C) [] =
      (e2, map (\<lambda>a. encode_revert_id (ba_name a)) ?C, [])" "G e2 = G e' - (?M - model_grants m)"
    unfolding CD(2) by blast
  have "trino_plan (Some execute) context m e = (e1, Inr ?plan)"
    by (simp add: trino_plan_def as cur(1))
  moreover have "trino_apply (Some execute) ?plan e1 = (e2, map (\<lambda>a. encode_revert_id (ba_name a)) ?C, [])"
    by (simp add: trino_apply_def create(1) delete(1))
  moreover have "G e2 = {g \<in> G e. \<not> managed g} \<union> model_grants m"
    unfolding delete(2) create(2) by blast
  ultimately show ?thesis by blast
qed

text \<open>
  A sync reaches the model, on an engine as the backend takes it to be: \<open>SHOW GRANTS\<close> lists every grant (Trino
  documents it only for those of the current user), each statement on well-formed names succeeds and changes just
  its own grant. The engine holds only well-formed managed grants, and no two grants of the engine and the model
  have the same artifact name, which carries no privilege. Then planning and applying a representable model returns
  without errors and leaves exactly the model's grants beside the unmanaged ones, which it never touches; the
  verification that follows reports that the backend is in sync.
\<close>

theorem sync_reaches_model:
  assumes law: "grants_law execute G" and sync: "syncable G m e" and pre: "cc_managed_prefix context = ''phlo_''"
  shows "\<exists>e1 plan e2 ids e3 r. trino_plan (Some execute) context m e = (e1, Inr plan) \<and>
    trino_apply (Some execute) plan e1 = (e2, ids, []) \<and>
    G e2 = {g \<in> G e. \<not> managed g} \<union> model_grants m \<and>
    trino_verify (Some execute) context m e2 = (e3, Inr r) \<and> G e3 = G e2 \<and> vr_in_sync r"
proof -
  obtain e1 plan e2 ids where run: "trino_plan (Some execute) context m e = (e1, Inr plan)"
    "trino_apply (Some execute) plan e1 = (e2, ids, [])"
    "G e2 = {g \<in> G e. \<not> managed g} \<union> model_grants m"
    using plan_and_apply [OF assms] by blast
  obtain as where as: "compile m = Inr as" using sync by (auto simp: syncable_def)
  note model = syncable_grants(1) [OF law sync as] compiled_grants(1) [OF as]
  have "\<forall>g \<in> model_grants m. managed g \<and> tidy g" using model(1) unfolding model(2) [symmetric] by blast
  then have M: "{g \<in> G e2. managed g} = model_grants m" "\<forall>g \<in> model_grants m. tidy g"
    unfolding run(3) by blast+
  then have "\<forall>g \<in> G e2. managed g \<longrightarrow> tidy g" by blast
  then obtain e3 current where cur: "read_current_state (Some execute) context e2 = (e3, current)"
    "G e3 = G e2" "set current = seen_artifact ` model_grants m"
    using read_seen [OF law _ pre, of e2] unfolding M(1) by metis
  have "ba_name ` set current = grant_name ` model_grants m"
    unfolding cur(3) image_image seen_names by (rule refl)
  moreover have "ba_name ` set as = grant_name ` model_grants m"
    using model(1) unfolding model(2) [symmetric] image_image by auto
  ultimately have "not_in (by_name as) (by_name current) = []" "not_in (by_name current) (by_name as) = []"
    using not_in_Nil [of as current] not_in_Nil [of current as] by simp_all
  then have "\<exists>r. trino_verify (Some execute) context m e2 = (e3, Inr r) \<and> vr_in_sync r"
    by (simp add: trino_verify_def as cur(1))
  then show ?thesis using run cur(2) by blast
qed


section \<open>A concrete engine\<close>

text \<open>An engine that keeps a list of grants and reads the statements the backend sends.\<close>

definition row_of_grant :: "grant \<Rightarrow> json list" where
  "row_of_grant g =
     (case g of (r, s, t, p) \<Rightarrow>
       [JStr ''admin'', JStr ''USER'', JStr r, JStr ''ROLE'', JStr ''iceberg'', JStr s, JStr t, JStr p,
        JStr ''NO'', JNull])"

definition list_engine :: "grant list engine" where
  "list_engine gs sql =
     (if sql = ''SHOW GRANTS'' then (gs, Inr (map row_of_grant gs))
      else case split_char CHR 0x22 sql of
        [pre, s, _, t, _, r, _] \<Rightarrow>
          (if starts_with pre ''GRANT ''
           then (List.insert (r, s, t, take (length pre - 16) (drop 6 pre)) gs, Inr [])
           else (removeAll (r, s, t, take (length pre - 17) (drop 7 pre)) gs, Inr []))
      | _ \<Rightarrow> (gs, Inl (RuntimeError [])))"

lemma no_quote: "segment s \<Longrightarrow> CHR 0x22 \<notin> set s" "role_text r \<Longrightarrow> CHR 0x22 \<notin> set r"
  "p \<in> set ALLOWED_ACTIONS \<Longrightarrow> CHR 0x22 \<notin> set p"
proof -
  show "segment s \<Longrightarrow> CHR 0x22 \<notin> set s" using segment_char not_word(4) by blast
  show "role_text r \<Longrightarrow> CHR 0x22 \<notin> set r"
    using not_word(4) by (auto simp: role_text_def list_all_iff)
  have "\<forall>p \<in> set ALLOWED_ACTIONS. CHR 0x22 \<notin> set p" by code_simp
  then show "p \<in> set ALLOWED_ACTIONS \<Longrightarrow> CHR 0x22 \<notin> set p" by blast
qed

lemma quote_plain: "CHR 0x22 \<notin> set s \<Longrightarrow> quote_identifier s = CHR 0x22 # s @ [CHR 0x22]"
proof -
  assume "CHR 0x22 \<notin> set s"
  then have "concat (map (\<lambda>c. if c = CHR 0x22 then [CHR 0x22, CHR 0x22] else [c]) s) = s"
    by (induction s) auto
  then show ?thesis by (simp add: quote_identifier_def)
qed

lemma split_quoted:
  assumes "CHR 0x22 \<notin> set a" "CHR 0x22 \<notin> set s" "CHR 0x22 \<notin> set b" "CHR 0x22 \<notin> set t"
    "CHR 0x22 \<notin> set c" "CHR 0x22 \<notin> set r"
  shows "split_char CHR 0x22 (a @ quote_identifier s @ b @ quote_identifier t @ c @ quote_identifier r) =
    [a, s, b, t, c, r, []]"
  using assms by (simp add: quote_plain split_char_append split_char_no)

lemma list_engine_law: "grants_law list_engine set"
proof -
  have "list_engine gs ''SHOW GRANTS'' = (gs, Inr (map row_of_grant gs))" for gs
    by (simp add: list_engine_def)
  moreover have "grant_row g (row_of_grant g)" for g
    by (cases g) (simp add: grant_row_def row_of_grant_def cell_def)
  moreover have "list_engine gs (grant_sql g) = (List.insert g gs, Inr []) \<and>
      list_engine gs (drop_sql g) = (removeAll g gs, Inr [])" if g: "tidy g" for gs g
  proof -
    obtain r s t p where gt: "g = (r, s, t, p)" by (cases g)
    note q = no_quote(1) [of s] no_quote(1) [of t] no_quote(2) [of r] no_quote(3) [of p]
    have sg: "split_char CHR 0x22 (grant_sql g) = [''GRANT '' @ p @ '' ON TABLE '', s, ''.'', t, '' TO '', r, []]"
      using split_quoted [of "''GRANT '' @ p @ '' ON TABLE ''" s "''.''" t "'' TO ''" r] q g
      by (simp add: tidy_def gt grant_sql_def)
    have sd: "split_char CHR 0x22 (drop_sql g) = [''REVOKE '' @ p @ '' ON TABLE '', s, ''.'', t, '' FROM '', r, []]"
      using split_quoted [of "''REVOKE '' @ p @ '' ON TABLE ''" s "''.''" t "'' FROM ''" r] q g
      by (simp add: tidy_def gt drop_sql_def)
    have "grant_sql g \<noteq> ''SHOW GRANTS''" "drop_sql g \<noteq> ''SHOW GRANTS''"
      by (simp_all add: grant_sql_def drop_sql_def gt)
    then show ?thesis
      by (simp add: list_engine_def sg [unfolded gt] sd [unfolded gt] gt starts_with_def)
  qed
  ultimately show ?thesis unfolding grants_law_def by (simp del: split_paired_All split_paired_Ex) blast
qed

lemma example_compiles:
  "compile (example_model ''phlo_r'' ''s.t'') = Inr [select_grant (example_policy_rule ''phlo_r'' ''s.t'') ''phlo_r'']"
  by code_simp

lemma example_grants_of:
  "model_grants (example_model ''phlo_r'' ''s.t'') = {(''phlo_r'', ''s'', ''t'', ''SELECT'')}"
proof -
  have "grant_of (select_grant (example_policy_rule ''phlo_r'' ''s.t'') ''phlo_r'') =
      (''phlo_r'', ''s'', ''t'', ''SELECT'')"
    by code_simp
  then show ?thesis using compiled_grants(1) [OF example_compiles] by simp
qed

lemma example_representable: "representable (example_policy_rule ''phlo_r'' ''s.t'')"
proof -
  let ?p = "example_policy_rule ''phlo_r'' ''s.t''"
  have "star_to_percent (pr_resource_id_pattern ?p) = ''s'' @ ''.'' @ ''t''" "segment ''s''" "segment ''t''"
    by code_simp+
  moreover have "\<forall>r \<in> set (pr_principal_roles ?p). role_text r \<and> starts_with r ''phlo_'' \<and>
      \<not> str_contains ''REVOKE'' (ba_statement (select_grant ?p r))"
    by code_simp
  ultimately show ?thesis unfolding representable_def by blast
qed

text \<open>The witness: an engine that holds a foreign grant and a stale managed one.\<close>

definition example_grants :: "grant list" where
  "example_grants = [(''alice'', ''raw'', ''t'', ''SELECT''), (''phlo_old'', ''raw'', ''t'', ''SELECT'')]"

lemma sync_reaches_model_witness:
  "\<exists>e1 plan e2 ids. trino_plan (Some list_engine) (make_context ''dev'' ''trino'' False)
       (example_model ''phlo_r'' ''s.t'') example_grants = (e1, Inr plan) \<and>
     trino_apply (Some list_engine) plan e1 = (e2, ids, []) \<and>
     set e2 = {(''alice'', ''raw'', ''t'', ''SELECT''), (''phlo_r'', ''s'', ''t'', ''SELECT'')}"
proof -
  let ?m = "example_model ''phlo_r'' ''s.t''"
  have f: "filter managed example_grants = [(''phlo_old'', ''raw'', ''t'', ''SELECT'')]"
    "filter (\<lambda>g. \<not> managed g) example_grants = [(''alice'', ''raw'', ''t'', ''SELECT'')]"
    by code_simp+
  have man: "{g \<in> set example_grants. managed g} = {(''phlo_old'', ''raw'', ''t'', ''SELECT'')}"
    "{g \<in> set example_grants. \<not> managed g} = {(''alice'', ''raw'', ''t'', ''SELECT'')}"
    using arg_cong [OF f(1), of set] arg_cong [OF f(2), of set] by (simp_all only: set_filter list.set)
  have t: "\<forall>g \<in> set example_grants. managed g \<longrightarrow> tidy g" by code_simp
  have "inj_on grant_name ({g \<in> set example_grants. managed g} \<union> model_grants ?m)"
    unfolding man example_grants_of by (simp add: grant_name_def)
  then have "syncable set ?m example_grants"
    using t example_compiles example_representable
    by (simp add: syncable_def) (simp add: example_model_def)
  from sync_reaches_model [OF list_engine_law this, of "make_context ''dev'' ''trino'' False"]
  show ?thesis unfolding man(2) example_grants_of by (simp add: make_context_def insert_commute) blast
qed

text \<open>
  Verification looks at artifact names only, which carry no privilege. An engine that holds just an
  INSERT grant on the table of the model's SELECT grant is reported in sync, and planning changes
  nothing.
\<close>

theorem verify_ignores_privilege:
  "\<exists>g r. (''phlo_r'', ''s'', ''t'', ''SELECT'') \<in> model_grants (example_model ''phlo_r'' ''s.t'') \<and>
     g = (''phlo_r'', ''s'', ''t'', ''INSERT'') \<and>
     snd (trino_verify (Some list_engine) (make_context ''dev'' ''trino'' False)
       (example_model ''phlo_r'' ''s.t'') [g]) = Inr r \<and> vr_in_sync r \<and>
     (\<exists>p. snd (trino_plan (Some list_engine) (make_context ''dev'' ''trino'' False)
       (example_model ''phlo_r'' ''s.t'') [g]) = Inr p \<and> sy_changes p = [])"
proof -
  let ?m = "example_model ''phlo_r'' ''s.t''"
  have "(''phlo_r'', ''s'', ''t'', ''SELECT'') \<in> model_grants ?m" unfolding example_grants_of by simp
  moreover have "case snd (trino_verify (Some list_engine) (make_context ''dev'' ''trino'' False) ?m
      [(''phlo_r'', ''s'', ''t'', ''INSERT'')]) of Inr r \<Rightarrow> vr_in_sync r | Inl _ \<Rightarrow> False" by code_simp
  moreover have "case snd (trino_plan (Some list_engine) (make_context ''dev'' ''trino'' False) ?m
      [(''phlo_r'', ''s'', ''t'', ''INSERT'')]) of Inr r \<Rightarrow> sy_changes r = [] | Inl _ \<Rightarrow> False" by code_simp
  ultimately show ?thesis by (simp split: sum.splits)
qed

end
