(* ===== verification/Rbac_Controller.thy ===== *)
theory Rbac_Controller
  imports Trino_Convergence
begin

text \<open>
  What the controller relies on from a backend's compiler, as the locale \<open>sync_compiler\<close>: planning and
  verifying only read the backend, and verification reports sync exactly when there is nothing to
  plan. The Trino compiler is its interpretation.
\<close>

locale sync_compiler =
  fixes c :: "'e compiler" and reads :: "'e \<Rightarrow> 'e \<Rightarrow> bool"
  assumes plan_reads: "co_plan c ctx m e = (e', r) \<Longrightarrow> reads\<^sup>*\<^sup>* e e'"
    and verify_reads: "co_verify c ctx m e = (e', w) \<Longrightarrow> reads\<^sup>*\<^sup>* e e'"
    and verify_plan: "co_plan c ctx m e = (e1, Inr p) \<Longrightarrow> co_verify c ctx m e = (e2, Inr v) \<Longrightarrow>
      vr_in_sync v \<longleftrightarrow> sy_changes p = []"
    and verify_error: "co_plan c ctx m e = (e1, Inl err) \<longleftrightarrow> co_verify c ctx m e = (e1, Inl err)"
begin

lemma dry_run_reads:
  assumes "cc_dry_run ctx" and "sync_backend c ctx m e = (e', r)"
  shows "reads\<^sup>*\<^sup>* e e' \<and> sr_applied_count r = 0 \<and> sr_revert_ids r = []"
  using assms plan_reads [of ctx m e]
  by (auto simp: sync_backend_def failed_sync_def Let_def split: prod.splits sum.splits)

lemma dry_runs_read:
  assumes "\<forall>b c'. compilers b = Some c' \<longrightarrow> c' = c"
    and "sync_backends compilers environment True m bs e results = (e', results')"
    and "\<forall>p \<in> set results. sr_applied_count (snd p) = 0 \<and> sr_revert_ids (snd p) = []"
  shows "reads\<^sup>*\<^sup>* e e' \<and> (\<forall>p \<in> set results'. sr_applied_count (snd p) = 0 \<and> sr_revert_ids (snd p) = [])"
  using assms(2,3)
proof (induction bs arbitrary: e results)
  case (Cons b bs)
  show ?case
  proof (cases "compilers b")
    case None
    then have "sync_backends compilers environment True m bs e results = (e', results')"
      using Cons.prems(1) by simp
    then show ?thesis using Cons.IH Cons.prems(2) by blast
  next
    case (Some c')
    obtain e1 r where one: "sync_backend c (make_context environment b True) m e = (e1, r)" by fastforce
    have r: "reads\<^sup>*\<^sup>* e e1" "sr_applied_count r = 0 \<and> sr_revert_ids r = []"
      using dry_run_reads [OF _ one] by (simp_all add: make_context_def)
    have c': "c' = c" using assms(1) Some by blast
    have "sync_backends compilers environment True m bs e1 (dict_set results b r) = (e', results')"
      using Cons.prems(1) one by (simp add: Some c')
    moreover have "\<forall>p \<in> set (dict_set results b r). sr_applied_count (snd p) = 0 \<and> sr_revert_ids (snd p) = []"
      using dict_set_subset [of b r results] Cons.prems(2) r(2) by fastforce
    ultimately have "reads\<^sup>*\<^sup>* e1 e'" "\<forall>p \<in> set results'. sr_applied_count (snd p) = 0 \<and> sr_revert_ids (snd p) = []"
      using Cons.IH by blast+
    then show ?thesis using r(1) by (meson rtranclp_trans)
  qed
qed simp

lemma verified_backends_read:
  assumes "\<forall>b c'. compilers b = Some c' \<longrightarrow> c' = c"
    and "verify_backends compilers environment m bs e results = (e', results')"
  shows "reads\<^sup>*\<^sup>* e e'"
  using assms(2)
proof (induction bs arbitrary: e results)
  case (Cons b bs)
  show ?case
  proof (cases "compilers b")
    case None
    then show ?thesis using Cons by simp
  next
    case (Some c')
    then have c': "c' = c" using assms(1) by blast
    obtain e1 r where one: "co_verify c (make_context environment b False) m e = (e1, r)" by fastforce
    have "reads\<^sup>*\<^sup>* e1 e'"
      using Cons one by (cases r) (auto simp: Some c')
    then show ?thesis using verify_reads [OF one] by (rule rtranclp_trans [rotated])
  qed
qed simp

end

section \<open>The Trino compiler\<close>

definition shows_grants :: "'e engine \<Rightarrow> 'e \<Rightarrow> 'e \<Rightarrow> bool" where
  "shows_grants execute e e' \<longleftrightarrow> e' = fst (execute e ''SHOW GRANTS'')"

lemma read_current_reads:
  "read_current_state (Some execute) ctx e = (e', current) \<Longrightarrow> (shows_grants execute)\<^sup>*\<^sup>* e e'"
  by (auto simp: read_current_state_def list_policies_def shows_grants_def split: prod.splits sum.splits
      intro: r_into_rtranclp)

interpretation tr: sync_compiler "trino_compiler (Some execute)" "shows_grants execute" for execute
proof
  fix ctx m e e' r
  show "co_plan (trino_compiler (Some execute)) ctx m e = (e', r) \<Longrightarrow> (shows_grants execute)\<^sup>*\<^sup>* e e'"
    by (auto simp: trino_compiler_def trino_plan_def split: sum.splits prod.splits dest: read_current_reads)
next
  fix ctx m e e' v
  show "co_verify (trino_compiler (Some execute)) ctx m e = (e', v) \<Longrightarrow> (shows_grants execute)\<^sup>*\<^sup>* e e'"
    by (auto simp: trino_compiler_def trino_verify_def Let_def split: sum.splits prod.splits dest: read_current_reads)
next
  fix ctx m e e1 p e2 v
  show "co_plan (trino_compiler (Some execute)) ctx m e = (e1, Inr p) \<Longrightarrow>
    co_verify (trino_compiler (Some execute)) ctx m e = (e2, Inr v) \<Longrightarrow> vr_in_sync v \<longleftrightarrow> sy_changes p = []"
    by (auto simp: trino_compiler_def trino_plan_def trino_verify_def Let_def split: sum.splits prod.splits)
next
  fix ctx m e e1 err
  show "co_plan (trino_compiler (Some execute)) ctx m e = (e1, Inl err) \<longleftrightarrow>
    co_verify (trino_compiler (Some execute)) ctx m e = (e1, Inl err)"
    by (auto simp: trino_compiler_def trino_plan_def trino_verify_def Let_def split: sum.splits prod.splits)
qed

text \<open>The registry with the Trino compiler alone.\<close>

definition trino_registry :: "'e engine \<Rightarrow> 'e compilers" where
  "trino_registry execute b = (if b = TRINO then Some (trino_compiler (Some execute)) else None)"

text \<open>
  A dry run changes nothing. Whatever configuration is loaded and whatever backends are named,
  \<open>sync\<close> with \<open>dry_run\<close> sends the engine nothing but \<open>SHOW GRANTS\<close>, and every result it returns counts
  no applied change and holds no revert identifier.
\<close>

theorem dry_run_changes_nothing:
  assumes "controller_sync loaded (trino_registry execute) registered backends environment True e =
    Inr (e', results)"
  shows "(shows_grants execute)\<^sup>*\<^sup>* e e' \<and>
    (\<forall>p \<in> set results. sr_applied_count (snd p) = 0 \<and> sr_revert_ids (snd p) = [])"
proof -
  obtain m where "sync_backends (trino_registry execute) environment True m (targets registered backends) e [] =
      (e', results)"
    using assms by (cases loaded) (auto simp: controller_sync_def)
  then show ?thesis
    by (intro tr.dry_runs_read) (auto simp: trino_registry_def split: if_splits)
qed

lemma dry_run_changes_nothing_witness:
  "\<exists>results. controller_sync (Inr (example_model ''phlo_r'' ''s.t'')) (trino_registry list_engine) [TRINO] None
     ''dev'' True example_grants = Inr (example_grants, results) \<and> dict_has results TRINO \<and>
     (\<forall>p \<in> set results. sr_applied_count (snd p) = 0 \<and> sr_revert_ids (snd p) = [])"
proof -
  have "case controller_sync (Inr (example_model ''phlo_r'' ''s.t'')) (trino_registry list_engine) [TRINO] None
     ''dev'' True example_grants of Inr (gs, results) \<Rightarrow> gs = example_grants \<and> dict_has results TRINO
     | Inl _ \<Rightarrow> False" by code_simp
  then obtain results where run: "controller_sync (Inr (example_model ''phlo_r'' ''s.t''))
      (trino_registry list_engine) [TRINO] None ''dev'' True example_grants = Inr (example_grants, results)"
    "dict_has results TRINO"
    by (auto split: sum.splits)
  then show ?thesis using dry_run_changes_nothing [OF run(1)] by blast
qed

text \<open>
  Planning and verification agree. Either both fail with the same error, or the backend is in sync
  exactly when the plan has no changes.
\<close>

theorem verify_iff_no_changes:
  "case trino_plan (Some execute) ctx m e of
     (e1, Inl err) \<Rightarrow> trino_verify (Some execute) ctx m e = (e1, Inl err)
   | (e1, Inr p) \<Rightarrow> \<exists>v. snd (trino_verify (Some execute) ctx m e) = Inr v \<and>
       (vr_in_sync v \<longleftrightarrow> sy_changes p = [])"
proof -
  have co: "co_plan (trino_compiler (Some execute)) ctx m e = trino_plan (Some execute) ctx m e"
    "co_verify (trino_compiler (Some execute)) ctx m e = trino_verify (Some execute) ctx m e"
    by (simp_all add: trino_compiler_def)
  show ?thesis
  proof (cases "trino_plan (Some execute) ctx m e")
    case (Pair e1 r)
    obtain e2 w where v: "trino_verify (Some execute) ctx m e = (e2, w)" by fastforce
    show ?thesis
    proof (cases r)
      case (Inl err)
      then show ?thesis using tr.verify_error [of execute ctx m e e1 err] unfolding co by (simp add: Pair)
    next
      case (Inr p)
      show ?thesis
      proof (cases w)
        case (Inl err)
        then show ?thesis
          using tr.verify_error [of execute ctx m e e2 err] unfolding co by (simp add: Pair Inr v)
      next
        case (Inr v')
        then show ?thesis
          using tr.verify_plan [of execute ctx m e e1 p e2 v'] \<open>r = Inr p\<close> unfolding co by (simp add: Pair v)
      qed
    qed
  qed
qed

end
