(* ===== verification/Audit_Events.thy ===== *)
theory Audit_Events
  imports Phlo_Json
begin

text \<open>
  \<open>phlo/audit/events.py\<close>: the canonical audit event, its serialised form, and the emitter that
  delivers an event to every sink. The fresh event id and the timestamp are arguments; a sink is a
  function on the state of the world, and logging is left out.
\<close>

section \<open>The event\<close>

definition AUDIT_SCHEMA_VERSION :: string where
  "AUDIT_SCHEMA_VERSION = ''1.0''"

record canonical_audit_event =
  ce_schema_version :: string
  ce_event_type :: string
  ce_event_id :: string
  ce_timestamp :: string
  ce_surface :: string
  ce_actor_subject :: string
  ce_actor_type :: string
  ce_actor_roles :: "string list"
  ce_authentication_source :: string
  ce_action :: string
  ce_resource_type :: string
  ce_resource_id :: string
  ce_decision :: string
  ce_reason_code :: string
  ce_policy_id :: "string option"
  ce_explanation :: "string option"
  ce_request_id :: "string option"
  ce_correlation_id :: string
  ce_parent_correlation_id :: string
  ce_run_id :: "string option"
  ce_source_ip :: "string option"
  ce_target_state_before :: "(string \<times> json) list option"
  ce_target_state_after :: "(string \<times> json) list option"
  ce_change_reason :: "string option"
  ce_outcome :: string
  ce_attributes :: "(string \<times> json) list"

definition blank_event :: "string \<Rightarrow> string \<Rightarrow> canonical_audit_event" where
  "blank_event event_id timestamp =
     \<lparr>ce_schema_version = AUDIT_SCHEMA_VERSION, ce_event_type = [], ce_event_id = event_id,
      ce_timestamp = timestamp, ce_surface = [], ce_actor_subject = [], ce_actor_type = [],
      ce_actor_roles = [], ce_authentication_source = [], ce_action = [], ce_resource_type = [],
      ce_resource_id = [], ce_decision = [], ce_reason_code = [], ce_policy_id = None,
      ce_explanation = None, ce_request_id = None, ce_correlation_id = [],
      ce_parent_correlation_id = [], ce_run_id = None, ce_source_ip = None,
      ce_target_state_before = None, ce_target_state_after = None, ce_change_reason = None,
      ce_outcome = [], ce_attributes = []\<rparr>"

definition json_dict_opt :: "(string \<times> json) list option \<Rightarrow> json" where
  "json_dict_opt d = (case d of None \<Rightarrow> JNull | Some fs \<Rightarrow> JObj fs)"

definition event_to_dict :: "canonical_audit_event \<Rightarrow> (string \<times> json) list" where
  "event_to_dict e =
     [(''schema_version'', JStr (ce_schema_version e)), (''event_type'', JStr (ce_event_type e)),
      (''event_id'', JStr (ce_event_id e)), (''timestamp'', JStr (ce_timestamp e)),
      (''surface'', JStr (ce_surface e)), (''actor_subject'', JStr (ce_actor_subject e)),
      (''actor_type'', JStr (ce_actor_type e)),
      (''actor_roles'', JList (map JStr (ce_actor_roles e))),
      (''authentication_source'', JStr (ce_authentication_source e)),
      (''action'', JStr (ce_action e)), (''resource_type'', JStr (ce_resource_type e)),
      (''resource_id'', JStr (ce_resource_id e)), (''decision'', JStr (ce_decision e)),
      (''reason_code'', JStr (ce_reason_code e)), (''policy_id'', json_opt (ce_policy_id e)),
      (''explanation'', json_opt (ce_explanation e)), (''request_id'', json_opt (ce_request_id e)),
      (''correlation_id'', JStr (ce_correlation_id e)),
      (''parent_correlation_id'', JStr (ce_parent_correlation_id e)),
      (''run_id'', json_opt (ce_run_id e)), (''source_ip'', json_opt (ce_source_ip e)),
      (''target_state_before'', json_dict_opt (ce_target_state_before e)),
      (''target_state_after'', json_dict_opt (ce_target_state_after e)),
      (''change_reason'', json_opt (ce_change_reason e)), (''outcome'', JStr (ce_outcome e)),
      (''attributes'', JObj (ce_attributes e))]"

text \<open>
  \<open>CanonicalAuditEvent(**data)\<close> on a decoded document. The stores write every field, so a missing one,
  like a value the field's type does not admit, is \<open>UntypedPayload\<close>; an unknown key is a \<open>TypeError\<close>.
\<close>

definition EVENT_FIELDS :: "string list" where
  "EVENT_FIELDS = map fst (event_to_dict (blank_event [] []))"

definition text_field :: "(string \<times> json) list \<Rightarrow> string \<Rightarrow> string res" where
  "text_field d k = (case dict_get d k of Some (JStr s) \<Rightarrow> Inr s | _ \<Rightarrow> Inl UntypedPayload)"

definition text_opt_field :: "(string \<times> json) list \<Rightarrow> string \<Rightarrow> string option res" where
  "text_opt_field d k =
     (case dict_get d k of
        Some (JStr s) \<Rightarrow> Inr (Some s) | Some JNull \<Rightarrow> Inr None | _ \<Rightarrow> Inl UntypedPayload)"

definition dict_opt_field :: "(string \<times> json) list \<Rightarrow> string \<Rightarrow> (string \<times> json) list option res" where
  "dict_opt_field d k =
     (case dict_get d k of
        Some (JObj fs) \<Rightarrow> Inr (Some fs) | Some JNull \<Rightarrow> Inr None | _ \<Rightarrow> Inl UntypedPayload)"

fun all_text :: "json list \<Rightarrow> string list res" where
  "all_text [] = Inr []"
| "all_text (JStr s # vs) = bind_res (all_text vs) (\<lambda>ss. Inr (s # ss))"
| "all_text (_ # vs) = Inl UntypedPayload"

definition texts_field :: "(string \<times> json) list \<Rightarrow> string \<Rightarrow> string list res" where
  "texts_field d k = (case dict_get d k of Some (JList vs) \<Rightarrow> all_text vs | _ \<Rightarrow> Inl UntypedPayload)"

definition event_of_dict :: "(string \<times> json) list \<Rightarrow> canonical_audit_event res" where
  "event_of_dict d =
     (if \<exists>k \<in> fst ` set d. k \<notin> set EVENT_FIELDS then Inl TypeError else
     bind_res (text_field d ''schema_version'') (\<lambda>schema_version.
     bind_res (text_field d ''event_type'') (\<lambda>event_type.
     bind_res (text_field d ''event_id'') (\<lambda>event_id.
     bind_res (text_field d ''timestamp'') (\<lambda>timestamp.
     bind_res (text_field d ''surface'') (\<lambda>surface.
     bind_res (text_field d ''actor_subject'') (\<lambda>actor_subject.
     bind_res (text_field d ''actor_type'') (\<lambda>actor_type.
     bind_res (texts_field d ''actor_roles'') (\<lambda>actor_roles.
     bind_res (text_field d ''authentication_source'') (\<lambda>authentication_source.
     bind_res (text_field d ''action'') (\<lambda>act.
     bind_res (text_field d ''resource_type'') (\<lambda>resource_type.
     bind_res (text_field d ''resource_id'') (\<lambda>resource_id.
     bind_res (text_field d ''decision'') (\<lambda>decision.
     bind_res (text_field d ''reason_code'') (\<lambda>reason_code.
     bind_res (text_opt_field d ''policy_id'') (\<lambda>policy_id.
     bind_res (text_opt_field d ''explanation'') (\<lambda>explanation.
     bind_res (text_opt_field d ''request_id'') (\<lambda>request_id.
     bind_res (text_field d ''correlation_id'') (\<lambda>correlation_id.
     bind_res (text_field d ''parent_correlation_id'') (\<lambda>parent_correlation_id.
     bind_res (text_opt_field d ''run_id'') (\<lambda>run_id.
     bind_res (text_opt_field d ''source_ip'') (\<lambda>source_ip.
     bind_res (dict_opt_field d ''target_state_before'') (\<lambda>target_state_before.
     bind_res (dict_opt_field d ''target_state_after'') (\<lambda>target_state_after.
     bind_res (text_opt_field d ''change_reason'') (\<lambda>change_reason.
     bind_res (text_field d ''outcome'') (\<lambda>event_outcome.
     bind_res (case dict_get d ''attributes'' of
                 Some (JObj fs) \<Rightarrow> Inr fs | _ \<Rightarrow> Inl UntypedPayload) (\<lambda>attributes.
       Inr \<lparr>ce_schema_version = schema_version, ce_event_type = event_type, ce_event_id = event_id,
            ce_timestamp = timestamp, ce_surface = surface, ce_actor_subject = actor_subject,
            ce_actor_type = actor_type, ce_actor_roles = actor_roles,
            ce_authentication_source = authentication_source, ce_action = act,
            ce_resource_type = resource_type, ce_resource_id = resource_id,
            ce_decision = decision, ce_reason_code = reason_code, ce_policy_id = policy_id,
            ce_explanation = explanation, ce_request_id = request_id,
            ce_correlation_id = correlation_id, ce_parent_correlation_id = parent_correlation_id,
            ce_run_id = run_id, ce_source_ip = source_ip,
            ce_target_state_before = target_state_before,
            ce_target_state_after = target_state_after, ce_change_reason = change_reason,
            ce_outcome = event_outcome, ce_attributes = attributes\<rparr>)))))))))))))))))))))))))))"

lemma all_text_map [simp]: "all_text (map JStr ss) = Inr ss"
  by (induction ss) simp_all

lemma event_fields_known: "fst ` set (event_to_dict e) = set EVENT_FIELDS"
  by (simp add: EVENT_FIELDS_def event_to_dict_def)

lemma read_field:
  "dict_get d k = Some (JStr s) \<Longrightarrow> text_field d k = Inr s"
  "dict_get d k = Some (json_opt t) \<Longrightarrow> text_opt_field d k = Inr t"
  "dict_get d k = Some (json_dict_opt fs) \<Longrightarrow> dict_opt_field d k = Inr fs"
  "dict_get d k = Some (JList (map JStr ss)) \<Longrightarrow> texts_field d k = Inr ss"
  by (auto simp: text_field_def text_opt_field_def dict_opt_field_def texts_field_def json_opt_def json_dict_opt_def
      split: option.split)

lemma event_dict_roundtrip: "event_of_dict (event_to_dict e) = Inr e"
proof -
  have "\<not> (\<exists>k \<in> fst ` set (event_to_dict e). k \<notin> set EVENT_FIELDS)"
    unfolding event_fields_known by blast
  then show ?thesis
    unfolding event_of_dict_def if_not_P
    by (simp add: event_to_dict_def read_field)
qed

section \<open>Building events\<close>

record actor_fields =
  af_subject :: string
  af_type :: string
  af_roles :: "string list"
  af_authentication_source :: string

record resource_fields =
  rf_action :: string
  rf_resource_type :: string
  rf_resource_id :: string

definition with_actor :: "actor_fields \<Rightarrow> resource_fields \<Rightarrow> canonical_audit_event
    \<Rightarrow> canonical_audit_event" where
  "with_actor actor res e =
     e\<lparr>ce_actor_subject := af_subject actor, ce_actor_type := af_type actor,
       ce_actor_roles := af_roles actor, ce_authentication_source := af_authentication_source actor,
       ce_action := rf_action res, ce_resource_type := rf_resource_type res,
       ce_resource_id := rf_resource_id res\<rparr>"

record authorization_fields =
  zf_decision :: string
  zf_reason_code :: string
  zf_policy_id :: "string option"
  zf_explanation :: "string option"
  zf_request_id :: "string option"
  zf_correlation_id :: "string option"
  zf_parent_correlation_id :: string
  zf_source_ip :: "string option"
  zf_outcome :: string

definition from_authorization_decision :: "string \<Rightarrow> string \<Rightarrow> string \<Rightarrow> actor_fields
    \<Rightarrow> resource_fields \<Rightarrow> authorization_fields \<Rightarrow> canonical_audit_event" where
  "from_authorization_decision event_id timestamp surface actor res z =
     (with_actor actor res (blank_event event_id timestamp))
       \<lparr>ce_event_type := ''authorization'', ce_surface := surface,
        ce_decision := zf_decision z, ce_reason_code := zf_reason_code z,
        ce_policy_id := zf_policy_id z, ce_explanation := zf_explanation z,
        ce_request_id := zf_request_id z,
        ce_correlation_id := (case zf_correlation_id z of None \<Rightarrow> [] | Some c \<Rightarrow> c),
        ce_parent_correlation_id := zf_parent_correlation_id z,
        ce_source_ip := zf_source_ip z, ce_outcome := zf_outcome z\<rparr>"

record mutation_fields =
  mf_target_state_before :: "(string \<times> json) list option"
  mf_target_state_after :: "(string \<times> json) list option"
  mf_change_reason :: "string option"
  mf_request_id :: "string option"
  mf_source_ip :: "string option"
  mf_outcome :: string

definition mutation_event :: "string \<Rightarrow> string \<Rightarrow> string \<Rightarrow> actor_fields \<Rightarrow> resource_fields
    \<Rightarrow> mutation_fields \<Rightarrow> canonical_audit_event" where
  "mutation_event event_id timestamp surface actor res m =
     (with_actor actor res (blank_event event_id timestamp))
       \<lparr>ce_event_type := ''mutation'', ce_surface := surface,
        ce_decision := ''allow'', ce_reason_code := ''mutation_executed'',
        ce_target_state_before := mf_target_state_before m,
        ce_target_state_after := mf_target_state_after m,
        ce_change_reason := mf_change_reason m, ce_request_id := mf_request_id m,
        ce_source_ip := mf_source_ip m, ce_outcome := mf_outcome m\<rparr>"

section \<open>The emitter\<close>

record 'w audit_sink =
  sk_is_durable :: bool
  sk_write :: "canonical_audit_event \<Rightarrow> 'w \<Rightarrow> 'w \<times> unit res"

record 'w audit_emitter =
  em_surface :: string
  em_sinks :: "'w audit_sink list"

definition add_sink :: "'w audit_emitter \<Rightarrow> 'w audit_sink \<Rightarrow> 'w audit_emitter" where
  "add_sink em sink = em\<lparr>em_sinks := em_sinks em @ [sink]\<rparr>"

text \<open>\<open>if not event.surface: event = replace(event, surface=self.surface)\<close>.\<close>

definition stamped :: "'w audit_emitter \<Rightarrow> canonical_audit_event \<Rightarrow> canonical_audit_event" where
  "stamped em event =
     (if ce_surface event = [] then event\<lparr>ce_surface := em_surface em\<rparr> else event)"

text \<open>
  The loop over the sinks with its three flags: a durable sink was seen, one succeeded, and the last
  error of a durable sink when durability was required.
\<close>

fun deliver :: "bool \<Rightarrow> canonical_audit_event \<Rightarrow> 'w audit_sink list \<Rightarrow> 'w
    \<Rightarrow> bool \<times> bool \<times> py_error option \<Rightarrow> 'w \<times> bool \<times> bool \<times> py_error option" where
  "deliver require_durable event [] w flags = (w, flags)"
| "deliver require_durable event (sink # sinks) w (seen, succeeded, err) =
     (case sk_write sink event w of
        (w', Inr _) \<Rightarrow>
          deliver require_durable event sinks w'
            (seen \<or> sk_is_durable sink, succeeded \<or> sk_is_durable sink, err)
      | (w', Inl e) \<Rightarrow>
          deliver require_durable event sinks w'
            (seen \<or> sk_is_durable sink, succeeded,
             if require_durable \<and> sk_is_durable sink then Some e else err))"

definition emit_event :: "'w audit_emitter \<Rightarrow> canonical_audit_event \<Rightarrow> bool \<Rightarrow> 'w \<Rightarrow> 'w \<times> unit res" where
  "emit_event em event require_durable w =
     (case deliver require_durable (stamped em event) (em_sinks em) w (False, False, None) of
        (w', seen, succeeded, err) \<Rightarrow>
          (w', if require_durable \<and> \<not> seen
               then Inl (AuditPersistenceError ''no durable audit sink is configured'')
               else if err \<noteq> None \<and> \<not> succeeded
               then Inl (AuditPersistenceError ''durable audit persistence failed'')
               else Inr ()))"

definition emit_authorization :: "'w audit_emitter \<Rightarrow> string \<Rightarrow> string \<Rightarrow> string option \<Rightarrow> actor_fields
    \<Rightarrow> resource_fields \<Rightarrow> authorization_fields \<Rightarrow> bool \<Rightarrow> 'w \<Rightarrow> 'w \<times> unit res" where
  "emit_authorization em event_id timestamp surface actor res z require_durable w =
     emit_event em
       (from_authorization_decision event_id timestamp
          (case surface of None \<Rightarrow> em_surface em | Some s \<Rightarrow> if s = [] then em_surface em else s)
          actor res z) require_durable w"

definition emit_mutation :: "'w audit_emitter \<Rightarrow> string \<Rightarrow> string \<Rightarrow> actor_fields \<Rightarrow> resource_fields
    \<Rightarrow> mutation_fields \<Rightarrow> 'w \<Rightarrow> 'w \<times> unit res" where
  "emit_mutation em event_id timestamp actor res m w =
     emit_event em (mutation_event event_id timestamp (em_surface em) actor res m) False w"

text \<open>\<open>create_default_emitter\<close>: one sink, which logs; what it does to the log is the argument.\<close>

definition logging_sink :: "(canonical_audit_event \<Rightarrow> 'w \<Rightarrow> 'w \<times> unit res) \<Rightarrow> 'w audit_sink" where
  "logging_sink log_event = \<lparr>sk_is_durable = False, sk_write = log_event\<rparr>"

definition create_default_emitter :: "(canonical_audit_event \<Rightarrow> 'w \<Rightarrow> 'w \<times> unit res) \<Rightarrow> string \<Rightarrow> 'w audit_emitter" where
  "create_default_emitter log_event surface =
     add_sink \<lparr>em_surface = surface, em_sinks = []\<rparr> (logging_sink log_event)"

section \<open>Delivery\<close>

text \<open>The world after a list of sinks has been written to, whatever they answered.\<close>

definition world_after :: "canonical_audit_event \<Rightarrow> 'w audit_sink list \<Rightarrow> 'w \<Rightarrow> 'w" where
  "world_after event sinks w = foldl (\<lambda>w sink. fst (sk_write sink event w)) w sinks"

definition persisted :: "canonical_audit_event \<Rightarrow> 'w audit_sink list \<Rightarrow> 'w \<Rightarrow> bool" where
  "persisted event sinks w \<longleftrightarrow>
     (\<exists>pre sink post. sinks = pre @ sink # post \<and> sk_is_durable sink \<and>
        snd (sk_write sink event (world_after event pre w)) = Inr ())"

lemma persisted_Nil [simp]: "\<not> persisted event [] w"
  by (simp add: persisted_def)

lemma persisted_Cons:
  "persisted event (sink # sinks) w \<longleftrightarrow>
     sk_is_durable sink \<and> snd (sk_write sink event w) = Inr () \<or>
     persisted event sinks (fst (sk_write sink event w))"
proof
  assume "persisted event (sink # sinks) w"
  then obtain pre s post where s: "sink # sinks = pre @ s # post" "sk_is_durable s"
    "snd (sk_write s event (world_after event pre w)) = Inr ()"
    unfolding persisted_def by blast
  show "sk_is_durable sink \<and> snd (sk_write sink event w) = Inr () \<or>
     persisted event sinks (fst (sk_write sink event w))"
  proof (cases pre)
    case Nil
    then show ?thesis using s by (simp add: world_after_def)
  next
    case (Cons x xs)
    then show ?thesis using s unfolding persisted_def by (auto simp: world_after_def)
  qed
next
  assume r: "sk_is_durable sink \<and> snd (sk_write sink event w) = Inr () \<or>
     persisted event sinks (fst (sk_write sink event w))"
  then show "persisted event (sink # sinks) w"
  proof
    assume "sk_is_durable sink \<and> snd (sk_write sink event w) = Inr ()"
    then show ?thesis
      unfolding persisted_def by (intro exI [of _ "[]"] exI [of _ sink] exI [of _ sinks]) (simp add: world_after_def)
  next
    assume "persisted event sinks (fst (sk_write sink event w))"
    then obtain pre s post where "sinks = pre @ s # post" "sk_is_durable s"
      "snd (sk_write s event (world_after event pre (fst (sk_write sink event w)))) = Inr ()"
      unfolding persisted_def by blast
    then show ?thesis
      unfolding persisted_def by (intro exI [of _ "sink # pre"] exI [of _ s] exI [of _ post]) (simp add: world_after_def)
  qed
qed

lemma deliver_facts:
  "deliver rd event sinks w (seen, succeeded, err) = (w', seen', succeeded', err') \<Longrightarrow>
     w' = world_after event sinks w \<and>
     (seen' \<longleftrightarrow> seen \<or> (\<exists>s \<in> set sinks. sk_is_durable s)) \<and>
     (succeeded' \<longleftrightarrow> succeeded \<or> persisted event sinks w) \<and>
     (rd \<and> (\<exists>s \<in> set sinks. sk_is_durable s) \<and> \<not> persisted event sinks w \<longrightarrow> err' \<noteq> None) \<and>
     (err \<noteq> None \<longrightarrow> err' \<noteq> None) \<and> (\<not> rd \<longrightarrow> err' = err)"
proof (induction sinks arbitrary: w seen succeeded err)
  case Nil
  then show ?case by (simp add: world_after_def)
next
  case (Cons sink sinks)
  obtain w1 r where wr: "sk_write sink event w = (w1, r)" by fastforce
  have wa: "world_after event (sink # sinks) w = world_after event sinks w1"
    by (simp add: world_after_def wr)
  show ?case
  proof (cases r)
    case (Inl e)
    from Cons.prems have "deliver rd event sinks w1 (seen \<or> sk_is_durable sink, succeeded,
        if rd \<and> sk_is_durable sink then Some e else err) = (w', seen', succeeded', err')"
      by (simp add: wr Inl)
    from Cons.IH [OF this] show ?thesis
      unfolding wa persisted_Cons by (auto simp: wr Inl split: if_splits)
  next
    case (Inr u)
    from Cons.prems have "deliver rd event sinks w1 (seen \<or> sk_is_durable sink,
        succeeded \<or> sk_is_durable sink, err) = (w', seen', succeeded', err')"
      by (simp add: wr Inr)
    from Cons.IH [OF this] show ?thesis
      unfolding wa persisted_Cons by (auto simp: wr Inr)
  qed
qed

lemma emit_event_spec:
  "emit_event em event require_durable w =
     (world_after (stamped em event) (em_sinks em) w,
      if require_durable \<and> \<not> persisted (stamped em event) (em_sinks em) w
      then Inl (AuditPersistenceError
             (if \<exists>s \<in> set (em_sinks em). sk_is_durable s then ''durable audit persistence failed''
              else ''no durable audit sink is configured''))
      else Inr ())"
proof -
  obtain w' seen succeeded err where d: "deliver require_durable (stamped em event) (em_sinks em) w
      (False, False, None) = (w', seen, succeeded, err)"
    by (metis prod_cases4)
  have "\<not> persisted (stamped em event) (em_sinks em) w" if "\<not> (\<exists>s \<in> set (em_sinks em). sk_is_durable s)"
    using that unfolding persisted_def by (metis in_set_conv_decomp)
  then show ?thesis
    using deliver_facts [OF d] unfolding emit_event_def d by auto
qed

text \<open>
  C21: what a required durable emission promises. It returns exactly when some durable sink persisted the
  event, stamped with the emitter's surface; a plain emission always returns. Either way every sink
  is written to, in order, whatever the ones before it answered.
\<close>

theorem durable_emission:
  "emit_event em event require_durable w =
     (world_after (stamped em event) (em_sinks em) w,
      if require_durable \<and> \<not> persisted (stamped em event) (em_sinks em) w
      then Inl (AuditPersistenceError
             (if \<exists>s \<in> set (em_sinks em). sk_is_durable s then ''durable audit persistence failed''
              else ''no durable audit sink is configured''))
      else Inr ())"
  by (rule emit_event_spec)

end
