(* ===== verification/Audit_Chain.thy ===== *)
theory Audit_Chain
  imports Audit_Events
begin

text \<open>
  \<open>phlo/compliance/audit/sealed.py\<close> and \<open>store.py\<close>: audit records sealed by a keyed hash chain per
  surface, the sink that seals them, and the two stores. The keyed hash is the argument \<open>hmac\<close>, the key
  setting and the security mode are arguments of \<open>get_hmac_key\<close>; the PostgreSQL table is the list of
  its rows under the constraints its DDL declares (sequence numbers unbounded, and a sealing time read
  back as it was written). Each operation runs under its lock, so it is one
  step.
\<close>

section \<open>Sealing\<close>

definition GENESIS_HASH :: string where
  "GENESIS_HASH = replicate 64 CHR ''0''"

definition get_hmac_key :: "string \<Rightarrow> bool \<Rightarrow> string res" where
  "get_hmac_key setting regulated =
     (if setting \<noteq> [] then Inr setting
      else if regulated then Inl (RuntimeError ''PHLO_AUDIT_HMAC_KEY is required in regulated mode'')
      else Inr ''phlo-dev-audit-key'')"

definition seal_payload :: "canonical_audit_event \<Rightarrow> int \<Rightarrow> string \<Rightarrow> string" where
  "seal_payload event sequence_number previous_hash =
     int_str sequence_number @ '':'' @ json_dumps '', '' '': '' (JObj (event_to_dict event)) @ '':'' @
     previous_hash"

type_synonym hmac = "string \<Rightarrow> string \<Rightarrow> string"

text \<open>\<open>default_key\<close> is what \<open>_get_hmac_key()\<close> answers; it is asked only when no key is given.\<close>

definition compute_record_hash :: "hmac \<Rightarrow> string res \<Rightarrow> canonical_audit_event \<Rightarrow> int \<Rightarrow> string
    \<Rightarrow> string option \<Rightarrow> string res" where
  "compute_record_hash hmac default_key event sequence_number previous_hash hmac_key =
     bind_res (case hmac_key of None \<Rightarrow> default_key | Some k \<Rightarrow> Inr k) (\<lambda>key.
       Inr (hmac key (seal_payload event sequence_number previous_hash)))"

record sealed_record =
  se_sequence_number :: int
  se_event :: canonical_audit_event
  se_previous_hash :: string
  se_record_hash :: string
  se_sealed_at :: string

definition seal :: "hmac \<Rightarrow> string res \<Rightarrow> string \<Rightarrow> canonical_audit_event \<Rightarrow> int \<Rightarrow> string \<Rightarrow> string option
    \<Rightarrow> sealed_record res" where
  "seal hmac default_key now event sequence_number previous_hash hmac_key =
     bind_res (compute_record_hash hmac default_key event sequence_number previous_hash hmac_key) (\<lambda>h.
       Inr \<lparr>se_sequence_number = sequence_number, se_event = event,
            se_previous_hash = previous_hash, se_record_hash = h, se_sealed_at = now\<rparr>)"

definition sealed_to_dict :: "sealed_record \<Rightarrow> (string \<times> json) list" where
  "sealed_to_dict r =
     [(''sequence_number'', JInt (se_sequence_number r)), (''sealed_at'', JStr (se_sealed_at r)),
      (''previous_hash'', JStr (se_previous_hash r)), (''record_hash'', JStr (se_record_hash r)),
      (''event'', JObj (event_to_dict (se_event r)))]"

section \<open>Verifying\<close>

record chain_verification =
  cv_valid :: bool
  cv_surface :: string
  cv_total_records :: nat
  cv_first_invalid_sequence :: "int option"
  cv_error_message :: "string option"
  cv_verified_hashes :: "string list"

definition invalid_chain :: "string \<Rightarrow> nat \<Rightarrow> sealed_record \<Rightarrow> string \<Rightarrow> chain_verification" where
  "invalid_chain surface records_n r what =
     \<lparr>cv_valid = False, cv_surface = surface, cv_total_records = records_n,
      cv_first_invalid_sequence = Some (se_sequence_number r),
      cv_error_message = Some (what @ '' hash mismatch at sequence '' @ int_str (se_sequence_number r)),
      cv_verified_hashes = []\<rparr>"

fun first_invalid :: "hmac \<Rightarrow> string res \<Rightarrow> string option \<Rightarrow> string \<Rightarrow> nat \<Rightarrow> string \<Rightarrow> sealed_record list
    \<Rightarrow> chain_verification option res" where
  "first_invalid hmac default_key hmac_key surface records_n expected_prev [] = Inr None"
| "first_invalid hmac default_key hmac_key surface records_n expected_prev (r # rs) =
     (if se_previous_hash r \<noteq> expected_prev
      then Inr (Some (invalid_chain surface records_n r ''Previous''))
      else bind_res (compute_record_hash hmac default_key (se_event r) (se_sequence_number r)
             (se_previous_hash r) hmac_key) (\<lambda>expected_hash.
           if se_record_hash r \<noteq> expected_hash
           then Inr (Some (invalid_chain surface records_n r ''Record''))
           else first_invalid hmac default_key hmac_key surface records_n (se_record_hash r) rs))"

text \<open>The body of \<open>verify_chain\<close>, the same in both stores.\<close>

definition verify_records :: "hmac \<Rightarrow> string res \<Rightarrow> string option \<Rightarrow> string \<Rightarrow> sealed_record list
    \<Rightarrow> chain_verification res" where
  "verify_records hmac default_key hmac_key surface records =
     (if records = []
      then Inr \<lparr>cv_valid = True, cv_surface = surface, cv_total_records = 0,
                cv_first_invalid_sequence = None, cv_error_message = None, cv_verified_hashes = []\<rparr>
      else bind_res (first_invalid hmac default_key hmac_key surface (length records) GENESIS_HASH records)
        (\<lambda>found. case found of
            Some bad \<Rightarrow> Inr bad
          | None \<Rightarrow> Inr \<lparr>cv_valid = True, cv_surface = surface, cv_total_records = length records,
                cv_first_invalid_sequence = None, cv_error_message = None,
                cv_verified_hashes = map se_record_hash records\<rparr>))"

section \<open>The in-memory store\<close>

definition surface_of :: "canonical_audit_event \<Rightarrow> string" where
  "surface_of event = (if ce_surface event = [] then ''unknown'' else ce_surface event)"

type_synonym memory_audit = "(string, sealed_record list) dict"

definition mem_records :: "memory_audit \<Rightarrow> string \<Rightarrow> sealed_record list" where
  "mem_records store surface = (case dict_get store surface of None \<Rightarrow> [] | Some rs \<Rightarrow> rs)"

definition mem_append :: "memory_audit \<Rightarrow> sealed_record \<Rightarrow> memory_audit" where
  "mem_append store record = dict_append store (surface_of (se_event record)) record"

definition mem_get_last :: "memory_audit \<Rightarrow> string \<Rightarrow> sealed_record option" where
  "mem_get_last store surface =
     (let records = mem_records store surface in if records \<noteq> [] then Some (last records) else None)"

definition in_bounds :: "int option \<Rightarrow> int option \<Rightarrow> int \<Rightarrow> bool" where
  "in_bounds after before n \<longleftrightarrow>
     (case after of None \<Rightarrow> True | Some a \<Rightarrow> n > a) \<and> (case before of None \<Rightarrow> True | Some b \<Rightarrow> n < b)"

definition py_take :: "int \<Rightarrow> 'a list \<Rightarrow> 'a list" where
  "py_take limit xs = (if limit \<ge> 0 then take (nat limit) xs else take (nat (int (length xs) + limit)) xs)"

definition mem_query :: "memory_audit \<Rightarrow> string \<Rightarrow> int option \<Rightarrow> int option \<Rightarrow> int \<Rightarrow> sealed_record list" where
  "mem_query store surface after before limit =
     py_take limit (filter (\<lambda>r. in_bounds after before (se_sequence_number r)) (mem_records store surface))"

definition mem_verify_chain :: "hmac \<Rightarrow> string res \<Rightarrow> memory_audit \<Rightarrow> string \<Rightarrow> string option
    \<Rightarrow> chain_verification res" where
  "mem_verify_chain hmac default_key store surface hmac_key =
     verify_records hmac default_key hmac_key surface (mem_records store surface)"

section \<open>The PostgreSQL store\<close>

record audit_row =
  aw_surface :: string
  aw_sequence_number :: int
  aw_sealed_at :: string
  aw_previous_hash :: string
  aw_record_hash :: string
  aw_event_data :: "(string \<times> json) list"

text \<open>
  What the table refuses: a surface with a NUL (the driver), a \<open>JSONB\<close> document with one, a text longer
  than its column, and a sequence number the surface already has.
\<close>

fun jsonb_ok :: "json \<Rightarrow> bool" where
  "jsonb_ok (JStr s) \<longleftrightarrow> CHR 0x00 \<notin> set s"
| "jsonb_ok (JList xs) \<longleftrightarrow> (\<forall>x \<in> set xs. jsonb_ok x)"
| "jsonb_ok (JObj d) \<longleftrightarrow> (\<forall>p \<in> set d. CHR 0x00 \<notin> set (fst p) \<and> jsonb_ok (snd p))"
| "jsonb_ok _ \<longleftrightarrow> True"

definition insert_row :: "audit_row list \<Rightarrow> audit_row \<Rightarrow> audit_row list res" where
  "insert_row table row =
     (if CHR 0x00 \<in> set (aw_surface row)
      then Inl (ValueError ''A string literal cannot contain NUL (0x00) characters.'')
      else if \<not> jsonb_ok (JObj (aw_event_data row))
      then Inl (DatabaseError ''unsupported Unicode escape sequence'')
      else if length (aw_surface row) > 255 \<or> length (aw_previous_hash row) > 64 \<or>
         length (aw_record_hash row) > 64
      then Inl (DatabaseError ''value too long'')
      else if \<exists>r \<in> set table. aw_surface r = aw_surface row \<and>
                aw_sequence_number r = aw_sequence_number row
      then Inl (DatabaseError ''duplicate key'')
      else Inr (table @ [row]))"

definition row_of :: "string \<Rightarrow> sealed_record \<Rightarrow> audit_row" where
  "row_of surface r =
     \<lparr>aw_surface = surface, aw_sequence_number = se_sequence_number r, aw_sealed_at = se_sealed_at r,
      aw_previous_hash = se_previous_hash r, aw_record_hash = se_record_hash r,
      aw_event_data = event_to_dict (se_event r)\<rparr>"

definition surface_rows :: "audit_row list \<Rightarrow> string \<Rightarrow> audit_row list" where
  "surface_rows table surface =
     sort_key aw_sequence_number (filter (\<lambda>r. aw_surface r = surface) table)"

definition pg_append_event :: "hmac \<Rightarrow> string res \<Rightarrow> string \<Rightarrow> audit_row list \<Rightarrow> canonical_audit_event
    \<Rightarrow> string \<Rightarrow> (sealed_record \<times> audit_row list) res" where
  "pg_append_event hmac default_key now table event hmac_key =
     (let surface = surface_of event; rows = surface_rows table surface;
          sequence_number = (if rows = [] then 1 else aw_sequence_number (last rows) + 1);
          previous_hash = (if rows = [] then GENESIS_HASH else aw_record_hash (last rows))
      in bind_res (seal hmac default_key now event sequence_number previous_hash (Some hmac_key)) (\<lambda>record.
         bind_res (insert_row table (row_of surface record)) (\<lambda>table'.
           Inr (record, table'))))"

definition pg_append :: "audit_row list \<Rightarrow> sealed_record \<Rightarrow> audit_row list res" where
  "pg_append table record = insert_row table (row_of (ce_surface (se_event record)) record)"

definition record_of :: "audit_row \<Rightarrow> sealed_record res" where
  "record_of row =
     bind_res (event_of_dict (aw_event_data row)) (\<lambda>event.
       Inr \<lparr>se_sequence_number = aw_sequence_number row, se_event = event,
            se_previous_hash = aw_previous_hash row, se_record_hash = aw_record_hash row,
            se_sealed_at = aw_sealed_at row\<rparr>)"

definition pg_get_last :: "audit_row list \<Rightarrow> string \<Rightarrow> sealed_record option res" where
  "pg_get_last table surface =
     (let rows = surface_rows table surface in
      if rows = [] then Inr None else bind_res (record_of (last rows)) (\<lambda>r. Inr (Some r)))"

definition pg_query :: "audit_row list \<Rightarrow> string \<Rightarrow> int option \<Rightarrow> int option \<Rightarrow> int
    \<Rightarrow> sealed_record list res" where
  "pg_query table surface after before limit =
     (if limit < 0 then Inl (DatabaseError ''LIMIT must not be negative'')
      else map_res record_of (take (nat limit)
             (filter (\<lambda>r. in_bounds after before (aw_sequence_number r)) (surface_rows table surface))))"

definition pg_verify_chain :: "hmac \<Rightarrow> string res \<Rightarrow> audit_row list \<Rightarrow> string \<Rightarrow> string option
    \<Rightarrow> chain_verification res" where
  "pg_verify_chain hmac default_key table surface hmac_key =
     bind_res (pg_query table surface None None 100000)
       (verify_records hmac default_key hmac_key surface)"

section \<open>The sink\<close>

text \<open>
  \<open>hmac_key or _get_hmac_key()\<close>, and \<open>write\<close>: a store that seals by itself (PostgreSQL) is handed the
  event; over the in-memory store the sink keeps the last sequence number and hash of each surface.
\<close>

definition sink_key :: "string option \<Rightarrow> string res \<Rightarrow> string res" where
  "sink_key hmac_key default_key =
     (case hmac_key of None \<Rightarrow> default_key | Some k \<Rightarrow> if k = [] then default_key else Inr k)"

record memory_sink =
  ms_store :: memory_audit
  ms_surface_state :: "(string, int \<times> string) dict"

definition get_surface_state :: "memory_sink \<Rightarrow> string \<Rightarrow> int \<times> string" where
  "get_surface_state sink surface =
     (case dict_get (ms_surface_state sink) surface of
        Some st \<Rightarrow> st
      | None \<Rightarrow>
          (case mem_get_last (ms_store sink) surface of
             None \<Rightarrow> (0, GENESIS_HASH)
           | Some r \<Rightarrow> (se_sequence_number r, se_record_hash r)))"

definition mem_sink_write :: "hmac \<Rightarrow> string res \<Rightarrow> string \<Rightarrow> string \<times> canonical_audit_event \<Rightarrow> memory_sink
    \<Rightarrow> memory_sink res" where
  "mem_sink_write hmac default_key key item sink =
     (case item of (now, event) \<Rightarrow>
        let surface = surface_of event; (seq, prev_hash) = get_surface_state sink surface in
        bind_res (seal hmac default_key now event (seq + 1) prev_hash (Some key)) (\<lambda>sealed.
          Inr \<lparr>ms_store = mem_append (ms_store sink) sealed,
               ms_surface_state = dict_set (ms_surface_state sink) surface
                 (seq + 1, se_record_hash sealed)\<rparr>))"

definition pg_sink_write :: "hmac \<Rightarrow> string res \<Rightarrow> string \<Rightarrow> string \<times> canonical_audit_event
    \<Rightarrow> audit_row list \<Rightarrow> audit_row list res" where
  "pg_sink_write hmac default_key key item table =
     (case item of (now, event) \<Rightarrow>
        bind_res (pg_append_event hmac default_key now table event key) (\<lambda>(_, table'). Inr table'))"

end
