(* ===== verification/Audit_Chain_Spec.thy ===== *)
theory Audit_Chain_Spec
  imports Audit_Chain
begin

text \<open>
  What the sealed audit trail promises: the interface of a store that seals (\<open>audit_store\<close>), both
  stores as its interpretations, the chains they build verify, a verified chain is determined by its
  last hash, and what verification cannot see.
\<close>

section \<open>Chains\<close>

text \<open>The hash under one key, and the record that seals an event on top of a chain.\<close>

definition last_state :: "sealed_record list \<Rightarrow> int \<times> string" where
  "last_state rs =
     (if rs = [] then (0, GENESIS_HASH)
      else (se_sequence_number (last rs), se_record_hash (last rs)))"

definition sealed_on :: "(string \<Rightarrow> string) \<Rightarrow> sealed_record list \<Rightarrow> canonical_audit_event
    \<Rightarrow> sealed_record \<Rightarrow> bool" where
  "sealed_on h rs event r \<longleftrightarrow>
     se_event r = event \<and> se_sequence_number r = fst (last_state rs) + 1 \<and>
     se_previous_hash r = snd (last_state rs) \<and>
     se_record_hash r = h (seal_payload event (se_sequence_number r) (se_previous_hash r))"

fun linked :: "(string \<Rightarrow> string) \<Rightarrow> string \<Rightarrow> sealed_record list \<Rightarrow> bool" where
  "linked h prev [] \<longleftrightarrow> True"
| "linked h prev (r # rs) \<longleftrightarrow>
     se_previous_hash r = prev \<and>
     se_record_hash r = h (seal_payload (se_event r) (se_sequence_number r) prev) \<and>
     linked h (se_record_hash r) rs"

lemma linked_append:
  "linked h prev (rs @ [r]) \<longleftrightarrow>
     linked h prev rs \<and>
     se_previous_hash r = (if rs = [] then prev else se_record_hash (last rs)) \<and>
     se_record_hash r = h (seal_payload (se_event r) (se_sequence_number r) (se_previous_hash r))"
  by (induction rs arbitrary: prev) auto

lemma linked_append2:
  "linked h prev (rs @ [r, q]) \<longleftrightarrow>
     linked h prev (rs @ [r]) \<and> se_previous_hash q = se_record_hash r \<and>
     se_record_hash q = h (seal_payload (se_event q) (se_sequence_number q) (se_previous_hash q))"
  using linked_append [of h prev "rs @ [r]" q] by simp

lemma linked_take: "linked h prev rs \<Longrightarrow> linked h prev (take n rs)"
  by (induction rs arbitrary: prev n) (auto simp: take_Cons split: nat.splits)

lemma first_invalid_linked:
  "\<exists>f. first_invalid hmac dk (Some key) s n prev rs = Inr f \<and> (f = None \<longleftrightarrow> linked (hmac key) prev rs) \<and>
     (\<forall>v. f = Some v \<longrightarrow> \<not> cv_valid v)"
  by (induction rs arbitrary: prev) (auto simp: compute_record_hash_def invalid_chain_def)

text \<open>Verification with a key never raises, and accepts exactly the linked chains.\<close>

lemma verify_linked:
  "\<exists>v. verify_records hmac dk (Some key) s rs = Inr v \<and>
     (cv_valid v \<longleftrightarrow> linked (hmac key) GENESIS_HASH rs) \<and>
     (cv_valid v \<longrightarrow> cv_total_records v = length rs \<and> cv_verified_hashes v = map se_record_hash rs)"
proof -
  obtain f where f: "first_invalid hmac dk (Some key) s (length rs) GENESIS_HASH rs = Inr f"
    "f = None \<longleftrightarrow> linked (hmac key) GENESIS_HASH rs" "\<forall>v. f = Some v \<longrightarrow> \<not> cv_valid v"
    using first_invalid_linked by blast
  show ?thesis
  proof (cases f)
    case None
    then show ?thesis using f by (simp add: verify_records_def)
  next
    case (Some v)
    then show ?thesis using f by (cases rs) (simp_all add: verify_records_def)
  qed
qed

section \<open>The interface of a sealing store\<close>

fun write_all :: "('i \<Rightarrow> 's \<Rightarrow> 's res) \<Rightarrow> 'i list \<Rightarrow> 's \<Rightarrow> 's res" where
  "write_all wr [] s = Inr s"
| "write_all wr (i # its) s = bind_res (wr i s) (write_all wr its)"

locale audit_store =
  fixes wr :: "string \<times> canonical_audit_event \<Rightarrow> 's \<Rightarrow> 's res"
    and chain :: "'s \<Rightarrow> string \<Rightarrow> sealed_record list"
    and ok :: "'s \<Rightarrow> bool"
    and h :: "string \<Rightarrow> string"
  assumes write_ok: "ok s \<Longrightarrow> wr i s = Inr s' \<Longrightarrow> ok s'"
    and write_seals: "ok s \<Longrightarrow> wr i s = Inr s' \<Longrightarrow>
      \<exists>r. sealed_on h (chain s (surface_of (snd i))) (snd i) r \<and>
        chain s' = (chain s)(surface_of (snd i) := chain s (surface_of (snd i)) @ [r])"
begin

lemma write_linked:
  assumes "ok s" and "\<And>surface. linked h GENESIS_HASH (chain s surface)" and "wr i s = Inr s'"
  shows "linked h GENESIS_HASH (chain s' surface)"
proof -
  obtain r where "sealed_on h (chain s (surface_of (snd i))) (snd i) r"
    "chain s' = (chain s)(surface_of (snd i) := chain s (surface_of (snd i)) @ [r])"
    using write_seals [OF assms(1,3)] by blast
  then show ?thesis
    using assms(2) by (auto simp: sealed_on_def linked_append last_state_def)
qed

lemma writes_chain:
  assumes "ok s" and "\<And>surface. linked h GENESIS_HASH (chain s surface)" and "write_all wr its s = Inr s'"
  shows "ok s' \<and> linked h GENESIS_HASH (chain s' surface) \<and>
    (\<exists>rs. chain s' surface = chain s surface @ rs \<and>
       map se_event rs = filter (\<lambda>e. surface_of e = surface) (map snd its))"
  using assms
proof (induction its arbitrary: s)
  case (Cons i its)
  then obtain s1 where s1: "wr i s = Inr s1" "write_all wr its s1 = Inr s'"
    by (auto simp: bind_res_Inr_iff)
  obtain r where r: "sealed_on h (chain s (surface_of (snd i))) (snd i) r"
    "chain s1 = (chain s)(surface_of (snd i) := chain s (surface_of (snd i)) @ [r])"
    using write_seals [OF Cons.prems(1) s1(1)] by blast
  have "ok s1" using write_ok [OF Cons.prems(1) s1(1)] .
  from Cons.IH [OF this write_linked [OF Cons.prems(1,2) s1(1)] s1(2)]
  show ?case using r by (auto simp: sealed_on_def)
qed simp

end

section \<open>The in-memory store behind its sink\<close>

definition memory_ok :: "memory_sink \<Rightarrow> bool" where
  "memory_ok sink \<longleftrightarrow>
     (\<forall>surface st. dict_get (ms_surface_state sink) surface = Some st \<longrightarrow>
        st = last_state (mem_records (ms_store sink) surface))"

lemma surface_state_last: "memory_ok sink \<Longrightarrow>
    get_surface_state sink surface = last_state (mem_records (ms_store sink) surface)"
  by (cases "dict_get (ms_surface_state sink) surface")
    (simp_all add: memory_ok_def get_surface_state_def last_state_def mem_get_last_def Let_def del: split_paired_All)

lemma mem_records_append: "mem_records (mem_append store r) =
    (mem_records store)(surface_of (se_event r) := mem_records store (surface_of (se_event r)) @ [r])"
  by (rule ext) (auto simp: mem_records_def mem_append_def dict_append_def split: option.splits)

lemma mem_write_sealed:
  assumes "memory_ok sink"
  shows "\<exists>sink' r. mem_sink_write hmac dk key i sink = Inr sink' \<and> memory_ok sink' \<and>
    sealed_on (hmac key) (mem_records (ms_store sink) (surface_of (snd i))) (snd i) r \<and>
    mem_records (ms_store sink') = (mem_records (ms_store sink))
      (surface_of (snd i) := mem_records (ms_store sink) (surface_of (snd i)) @ [r])"
proof -
  obtain now event where i: "i = (now, event)" by (cases i)
  obtain n prev where st: "last_state (mem_records (ms_store sink) (surface_of event)) = (n, prev)"
    by fastforce
  let ?r = "\<lparr>se_sequence_number = n + 1, se_event = event, se_previous_hash = prev,
      se_record_hash = hmac key (seal_payload event (n + 1) prev), se_sealed_at = now\<rparr>"
  let ?sink = "\<lparr>ms_store = mem_append (ms_store sink) ?r,
      ms_surface_state = dict_set (ms_surface_state sink) (surface_of event) (n + 1, se_record_hash ?r)\<rparr>"
  have "mem_sink_write hmac dk key i sink = Inr ?sink"
    by (simp add: i mem_sink_write_def surface_state_last [OF assms] st seal_def compute_record_hash_def)
  moreover have "memory_ok ?sink"
    using assms by (simp add: memory_ok_def mem_records_append) (simp add: last_state_def)
  moreover have "sealed_on (hmac key) (mem_records (ms_store sink) (surface_of event)) event ?r"
    by (simp add: sealed_on_def st)
  ultimately show ?thesis using mem_records_append [of "ms_store sink" ?r] by (simp add: i) blast
qed

interpretation memory_trail: audit_store "mem_sink_write hmac dk key"
  "\<lambda>sink. mem_records (ms_store sink)" memory_ok "hmac key" for hmac dk key
proof
  fix sink i sink'
  assume "memory_ok sink" "mem_sink_write hmac dk key i sink = Inr sink'"
  then show "memory_ok sink'" and "\<exists>r. sealed_on (hmac key) (mem_records (ms_store sink) (surface_of (snd i))) (snd i) r \<and>
      mem_records (ms_store sink') = (mem_records (ms_store sink))
        (surface_of (snd i) := mem_records (ms_store sink) (surface_of (snd i)) @ [r])"
    using mem_write_sealed [of sink hmac dk key i] by auto
qed

section \<open>The PostgreSQL store\<close>

lemma sort_key_snoc: "\<forall>y \<in> set xs. f y \<le> f x \<Longrightarrow> sort_key f (xs @ [x]) = sort_key f xs @ [x]"
proof -
  have ins: "insort_key f y (zs @ [x]) = insort_key f y zs @ [x]" if "f y \<le> f x" for y zs
    using that by (induction zs) auto
  show "\<forall>y \<in> set xs. f y \<le> f x \<Longrightarrow> sort_key f (xs @ [x]) = sort_key f xs @ [x]"
    by (induction xs) (simp_all add: ins)
qed

lemma surface_rows_snoc:
  assumes "\<forall>r \<in> set table. aw_surface r = aw_surface row \<longrightarrow> aw_sequence_number r \<le> aw_sequence_number row"
  shows "surface_rows (table @ [row]) = (surface_rows table)
    (aw_surface row := surface_rows table (aw_surface row) @ [row])"
  using assms by (intro ext) (auto simp: surface_rows_def sort_key_snoc)

lemma last_row_max:
  assumes "r \<in> set table" and "aw_surface r = surface"
  shows "aw_sequence_number r \<le> aw_sequence_number (last (surface_rows table surface))"
proof -
  let ?rows = "surface_rows table surface"
  have r: "r \<in> set ?rows" using assms by (simp add: surface_rows_def)
  then have "sorted (map aw_sequence_number (butlast ?rows @ [last ?rows]))"
    by (cases "?rows = []") (simp_all add: surface_rows_def)
  moreover have "r \<in> set (butlast ?rows) \<or> r = last ?rows"
    using r append_butlast_last_id [of ?rows] by (metis in_set_butlastD insert_iff list.set(1) list.set(2)
        rotate1.simps(2) set_rotate1 empty_iff)
  ultimately show ?thesis by (auto simp: sorted_append)
qed

text \<open>A row of the store: its event reads back, and its hash fits the column of the next row.\<close>

definition table_ok :: "audit_row list \<Rightarrow> bool" where
  "table_ok table \<longleftrightarrow>
     (\<forall>row \<in> set table. (\<exists>e. aw_event_data row = event_to_dict e) \<and> length (aw_record_hash row) \<le> 64)"

definition table_chain :: "audit_row list \<Rightarrow> string \<Rightarrow> sealed_record list" where
  "table_chain table surface = map (\<lambda>row. projr (record_of row)) (surface_rows table surface)"

lemma record_of_row: "record_of (row_of surface r) = Inr r"
  by (cases r) (simp add: record_of_def row_of_def event_dict_roundtrip)

lemma record_of_ok:
  "table_ok table \<Longrightarrow> row \<in> set table \<Longrightarrow> \<exists>r. record_of row = Inr r \<and>
     se_sequence_number r = aw_sequence_number row \<and> se_record_hash r = aw_record_hash row"
  unfolding table_ok_def record_of_def using event_dict_roundtrip by fastforce

lemma table_last_state:
  assumes "table_ok table"
  shows "last_state (table_chain table surface) =
    (let rows = surface_rows table surface in
     if rows = [] then (0, GENESIS_HASH) else (aw_sequence_number (last rows), aw_record_hash (last rows)))"
proof (cases "surface_rows table surface = []")
  case False
  then have "last (surface_rows table surface) \<in> set table"
    using last_in_set [OF False] by (simp add: surface_rows_def)
  then show ?thesis
    using record_of_ok [OF assms, of "last (surface_rows table surface)"] False
    by (auto simp: last_state_def table_chain_def last_map Let_def)
qed (simp add: last_state_def table_chain_def)

lemma pg_append_sealed:
  assumes ok: "table_ok table"
    and w: "pg_append_event hmac dk now table event key = Inr (r, table')"
  shows "table_ok table' \<and> sealed_on (hmac key) (table_chain table (surface_of event)) event r \<and>
    table_chain table' = (table_chain table)
      (surface_of event := table_chain table (surface_of event) @ [r])"
proof -
  let ?s = "surface_of event"
  obtain n prev where st: "last_state (table_chain table ?s) = (n, prev)" by fastforce
  have r: "r = \<lparr>se_sequence_number = n + 1, se_event = event, se_previous_hash = prev,
      se_record_hash = hmac key (seal_payload event (n + 1) prev), se_sealed_at = now\<rparr>"
    and ins: "insert_row table (row_of ?s r) = Inr table'"
    using w st table_last_state [OF ok, of ?s]
    by (auto simp: pg_append_event_def Let_def seal_def compute_record_hash_def bind_res_Inr_iff
        split: if_splits)
  have table': "table' = table @ [row_of ?s r]" and len: "length (se_record_hash r) \<le> 64"
    using ins by (auto simp: insert_row_def row_of_def split: if_splits)
  have "\<forall>q \<in> set table. aw_surface q = ?s \<longrightarrow> aw_sequence_number q \<le> n + 1"
  proof (intro ballI impI)
    fix q assume q: "q \<in> set table" "aw_surface q = ?s"
    then have "q \<in> set (surface_rows table ?s)" by (simp add: surface_rows_def)
    then have "surface_rows table ?s \<noteq> []" by auto
    then show "aw_sequence_number q \<le> n + 1"
      using last_row_max [OF q] st table_last_state [OF ok, of ?s] by (simp add: Let_def)
  qed
  then have rows: "surface_rows table' = (surface_rows table) (?s := surface_rows table ?s @ [row_of ?s r])"
    using surface_rows_snoc [of table "row_of ?s r"] by (simp add: table' row_of_def r)
  have "table_ok table'"
    using ok len unfolding table' table_ok_def by (auto simp: row_of_def)
  moreover have "table_chain table' = (table_chain table) (?s := table_chain table ?s @ [r])"
    by (rule ext) (simp add: table_chain_def rows record_of_row)
  moreover have "sealed_on (hmac key) (table_chain table ?s) event r"
    by (simp add: sealed_on_def st r)
  ultimately show ?thesis by blast
qed

interpretation durable_trail: audit_store "pg_sink_write hmac dk key" table_chain table_ok "hmac key"
  for hmac dk key
proof
  fix table i table'
  assume ok: "table_ok table" and w: "pg_sink_write hmac dk key i table = Inr table'"
  obtain now event where i: "i = (now, event)" by (cases i)
  obtain r where "pg_append_event hmac dk now table event key = Inr (r, table')"
    using w by (auto simp: i pg_sink_write_def bind_res_Inr_iff)
  from pg_append_sealed [OF ok this]
  show "table_ok table'" and "\<exists>r. sealed_on (hmac key) (table_chain table (surface_of (snd i))) (snd i) r \<and>
      table_chain table' = (table_chain table)
        (surface_of (snd i) := table_chain table (surface_of (snd i)) @ [r])"
    by (auto simp: i)
qed

section \<open>The trail verifies\<close>

text \<open>An event the table accepts.\<close>

definition storable :: "canonical_audit_event \<Rightarrow> bool" where
  "storable event \<longleftrightarrow> length (surface_of event) \<le> 255 \<and> jsonb_ok (JObj (event_to_dict event))"

lemma storable_surface: "storable event \<Longrightarrow> CHR 0x00 \<notin> set (surface_of event)"
  by (simp add: storable_def event_to_dict_def surface_of_def)

lemma pg_write_returns:
  assumes "table_ok table" and "\<forall>k m. length (hmac k m) \<le> 64" and "storable (snd i)"
  shows "\<exists>table'. pg_sink_write hmac dk key i table = Inr table'"
proof -
  obtain now event where i: "i = (now, event)" by (cases i)
  let ?s = "surface_of event"
  obtain n prev where st: "last_state (table_chain table ?s) = (n, prev)" by fastforce
  let ?r = "\<lparr>se_sequence_number = n + 1, se_event = event, se_previous_hash = prev,
      se_record_hash = hmac key (seal_payload event (n + 1) prev), se_sealed_at = now\<rparr>"
  have new: "\<not> (\<exists>q \<in> set table. aw_surface q = ?s \<and> aw_sequence_number q = n + 1)"
  proof
    assume "\<exists>q \<in> set table. aw_surface q = ?s \<and> aw_sequence_number q = n + 1"
    then obtain q where q: "q \<in> set table" "aw_surface q = ?s" "aw_sequence_number q = n + 1" by blast
    then have "q \<in> set (surface_rows table ?s)" by (simp add: surface_rows_def)
    then have "surface_rows table ?s \<noteq> []" by auto
    then show False
      using last_row_max [OF q(1,2)] q(3) st table_last_state [OF assms(1), of ?s] by (simp add: Let_def)
  qed
  have "length prev \<le> 64"
  proof (cases "surface_rows table ?s = []")
    case True
    then show ?thesis using st table_last_state [OF assms(1), of ?s] by (auto simp: GENESIS_HASH_def)
  next
    case False
    then have "last (surface_rows table ?s) \<in> set table"
      using last_in_set [OF False] by (simp add: surface_rows_def)
    then show ?thesis
      using st table_last_state [OF assms(1), of ?s] False assms(1) by (auto simp: table_ok_def Let_def)
  qed
  then have "insert_row table (row_of ?s ?r) = Inr (table @ [row_of ?s ?r])"
    using new assms(2,3) storable_surface [OF assms(3)]
    by (simp add: insert_row_def row_of_def i not_less storable_def del: jsonb_ok.simps)
  moreover have "pg_append_event hmac dk now table event key =
      bind_res (insert_row table (row_of ?s ?r)) (\<lambda>table'. Inr (?r, table'))"
    using st table_last_state [OF assms(1), of ?s]
    by (auto simp: pg_append_event_def Let_def seal_def compute_record_hash_def split: if_splits)
  ultimately show ?thesis by (simp add: pg_sink_write_def i)
qed

lemma pg_writes_return:
  assumes "table_ok table" and "\<forall>k m. length (hmac k m) \<le> 64"
    and "\<forall>i \<in> set items. storable (snd i)"
  shows "\<exists>table'. write_all (pg_sink_write hmac dk key) items table = Inr table'"
  using assms(1,3)
proof (induction items arbitrary: table)
  case (Cons i items)
  then obtain t1 where t1: "pg_sink_write hmac dk key i table = Inr t1"
    using pg_write_returns [OF _ assms(2)] by fastforce
  then have "table_ok t1" using durable_trail.write_ok [OF Cons.prems(1)] by blast
  then show ?case using Cons.IH [of t1] Cons.prems(2) t1 by simp
qed simp

lemma pg_query_chain:
  assumes "table_ok table" and "limit \<ge> 0"
  shows "pg_query table surface None None limit = Inr (take (nat limit) (table_chain table surface))"
proof -
  have "map_res record_of rows = Inr (map (\<lambda>row. projr (record_of row)) rows)" if "set rows \<subseteq> set table" for rows
    using that record_of_ok [OF assms(1)] by (intro map_res_all_Inr) fastforce
  moreover have "set (take (nat limit) (surface_rows table surface)) \<subseteq> set table"
    using set_take_subset [of "nat limit" "surface_rows table surface"] by (auto simp: surface_rows_def)
  ultimately show ?thesis
    using assms(2) by (simp add: pg_query_def in_bounds_def table_chain_def take_map)
qed

text \<open>Verification of a surface in PostgreSQL sees its first hundred thousand records only.\<close>

lemma pg_verify_chain_records:
  "table_ok table \<Longrightarrow> pg_verify_chain hmac dk table surface k =
     verify_records hmac dk k surface (take 100000 (table_chain table surface))"
  by (simp add: pg_verify_chain_def pg_query_chain)

definition events_of :: "string \<Rightarrow> (string \<times> canonical_audit_event) list \<Rightarrow> canonical_audit_event list" where
  "events_of surface items = filter (\<lambda>e. surface_of e = surface) (map snd items)"

text \<open>
  C20: the durable trail verifies. With a hash that fits its column and events
  whose texts fit theirs and hold no NUL, every
  sequence of writes to an empty table succeeds; each surface then holds exactly its events, in
  order, and verifies as a valid chain.
\<close>

theorem durable_trail_verifies:
  assumes "\<forall>k m. length (hmac k m) \<le> 64" and "\<forall>i \<in> set items. storable (snd i)"
  shows "\<exists>table v. write_all (pg_sink_write hmac dk key) items [] = Inr table \<and>
    pg_query table surface None None (int (length items)) = Inr (table_chain table surface) \<and>
    map se_event (table_chain table surface) = events_of surface items \<and>
    pg_verify_chain hmac dk table surface (Some key) = Inr v \<and> cv_valid v \<and>
    cv_total_records v = min 100000 (length (events_of surface items))"
proof -
  have ok: "table_ok []" by (simp add: table_ok_def)
  obtain table where w: "write_all (pg_sink_write hmac dk key) items [] = Inr table"
    using pg_writes_return [OF ok assms] by blast
  have empty: "table_chain [] s = []" for s by (simp add: table_chain_def surface_rows_def)
  have t: "table_ok table" "linked (hmac key) GENESIS_HASH (table_chain table surface)"
    "map se_event (table_chain table surface) = events_of surface items"
    using durable_trail.writes_chain [OF ok _ w, of surface] by (auto simp: empty events_of_def)
  have len: "length (table_chain table surface) = length (events_of surface items)"
    using arg_cong [OF t(3), of length] by simp
  also have "\<dots> \<le> length items" using length_filter_le [of _ "map snd items"] by (simp add: events_of_def)
  finally have "pg_query table surface None None (int (length items)) = Inr (table_chain table surface)"
    using pg_query_chain [OF t(1), of "int (length items)" surface] by simp
  moreover obtain v where "pg_verify_chain hmac dk table surface (Some key) = Inr v" "cv_valid v"
    "cv_total_records v = min 100000 (length (events_of surface items))"
    using verify_linked [of hmac dk key surface "take 100000 (table_chain table surface)"]
      linked_take [OF t(2), of 100000] len
    by (auto simp: pg_verify_chain_records [OF t(1)] min.commute)
  ultimately show ?thesis using w t(3) by blast
qed

definition example_event :: "string \<Rightarrow> string \<Rightarrow> canonical_audit_event" where
  "example_event surface act =
     (blank_event ''e'' ''t'')\<lparr>ce_surface := surface, ce_action := act\<rparr>"

lemma durable_trail_verifies_witness:
  "\<exists>table v. write_all (pg_sink_write (\<lambda>k m. take 64 k) (Inr []) ''k'') [(''t'', example_event ''api'' ''a''),
       (''t'', example_event [] ''b'')] [] = Inr table \<and>
     pg_verify_chain (\<lambda>k m. take 64 k) (Inr []) table ''unknown'' (Some ''k'') = Inr v \<and> cv_valid v \<and>
     cv_total_records v = 1"
proof -
  let ?items = "[(''t'', example_event ''api'' ''a''), (''t'', example_event [] ''b'')]"
  have "\<forall>i \<in> set ?items. storable (snd i)"
    by (simp add: storable_def surface_of_def example_event_def blank_event_def event_to_dict_def
        json_dict_opt_def json_opt_def AUDIT_SCHEMA_VERSION_def)
  moreover have "length (events_of ''unknown'' ?items) = 1"
    by (simp add: events_of_def surface_of_def example_event_def)
  ultimately show ?thesis
    using durable_trail_verifies [of "\<lambda>k m. take 64 k" ?items "Inr []" "''k''" "''unknown''"] by auto
qed

lemma memory_writes:
  "\<exists>sink. write_all (mem_sink_write hmac dk key) items \<lparr>ms_store = [], ms_surface_state = []\<rparr> = Inr sink \<and>
    linked (hmac key) GENESIS_HASH (mem_records (ms_store sink) surface) \<and>
    map se_event (mem_records (ms_store sink) surface) = events_of surface items"
proof -
  let ?s = "\<lparr>ms_store = [], ms_surface_state = []\<rparr>"
  have ok: "memory_ok ?s" by (simp add: memory_ok_def)
  have "\<exists>sink. write_all (mem_sink_write hmac dk key) items s = Inr sink" if "memory_ok s" for s
    using that by (induction items arbitrary: s) (simp, metis mem_write_sealed bind_res_simps(2) write_all.simps(2))
  then obtain sink where w: "write_all (mem_sink_write hmac dk key) items ?s = Inr sink" using ok by blast
  have empty: "mem_records (ms_store ?s) x = []" for x by (simp add: mem_records_def)
  have "linked (hmac key) GENESIS_HASH (mem_records (ms_store ?s) x)" for x
    unfolding empty by simp
  from memory_trail.writes_chain [OF ok this w, of surface, unfolded empty] w
  show ?thesis by (auto simp: events_of_def)
qed

text \<open>
  The sink over the in-memory store. Its writes never fail, and each surface holds exactly its
  events, in order, as a valid chain.
\<close>

theorem memory_trail_verifies:
  "\<exists>sink v. write_all (mem_sink_write hmac dk key) items \<lparr>ms_store = [], ms_surface_state = []\<rparr> = Inr sink \<and>
    map se_event (mem_records (ms_store sink) surface) = events_of surface items \<and>
    mem_verify_chain hmac dk (ms_store sink) surface (Some key) = Inr v \<and> cv_valid v \<and>
    cv_total_records v = length (events_of surface items)"
proof -
  obtain sink where t: "write_all (mem_sink_write hmac dk key) items \<lparr>ms_store = [], ms_surface_state = []\<rparr> = Inr sink"
    "linked (hmac key) GENESIS_HASH (mem_records (ms_store sink) surface)"
    "map se_event (mem_records (ms_store sink) surface) = events_of surface items"
    using memory_writes by blast
  have "length (mem_records (ms_store sink) surface) = length (events_of surface items)"
    using arg_cong [OF t(3), of length] by (simp only: length_map)
  then show ?thesis
    using t verify_linked [of hmac dk key surface "mem_records (ms_store sink) surface"]
    by (auto simp: mem_verify_chain_def)
qed

text \<open>
  What verification cannot see. Whatever was written, the chain of a surface cut after any number
  of records still verifies: the loss of the newest records leaves no trace in the chain itself.
\<close>

theorem truncation_undetected:
  "\<exists>sink v. write_all (mem_sink_write hmac dk key) items \<lparr>ms_store = [], ms_surface_state = []\<rparr> = Inr sink \<and>
    mem_verify_chain hmac dk [(surface, take n (mem_records (ms_store sink) surface))] surface (Some key) = Inr v \<and>
    cv_valid v"
proof -
  obtain sink where t: "write_all (mem_sink_write hmac dk key) items \<lparr>ms_store = [], ms_surface_state = []\<rparr> = Inr sink"
    "linked (hmac key) GENESIS_HASH (mem_records (ms_store sink) surface)"
    using memory_writes by blast
  then show ?thesis
    using verify_linked [of hmac dk key surface "take n (mem_records (ms_store sink) surface)"]
      linked_take [OF t(2), of n]
    by (auto simp: mem_verify_chain_def mem_records_def)
qed

section \<open>What a verified chain pins down\<close>

lemma digit_code: "n < (10 :: nat) \<Longrightarrow> of_char (char_of (48 + n) :: char) = 48 + n"
  by simp

lemma digit_neq: "n < (10 :: nat) \<Longrightarrow> of_char c < (48 :: nat) \<or> of_char c > (57 :: nat) \<Longrightarrow> char_of (48 + n) \<noteq> (c :: char)"
  using digit_code [of n] by auto

lemma nat_str_no_colon: "CHR '':'' \<notin> set (nat_str n)"
proof (induction n rule: nat_str.induct)
  case (1 n)
  have "char_of (48 + n mod 10) \<noteq> CHR '':''" using digit_neq [of "n mod 10" "CHR '':''"] by simp
  moreover have "n < 10 \<Longrightarrow> char_of (48 + n) \<noteq> CHR '':''" using digit_neq [of n "CHR '':''"] by simp
  ultimately show ?case using 1 by (subst nat_str.simps) auto
qed

lemma int_str_no_colon: "CHR '':'' \<notin> set (int_str i)"
  by (simp add: int_str_def nat_str_no_colon)

lemma digit_inject: "m < 10 \<Longrightarrow> n < 10 \<Longrightarrow> (char_of (48 + m) :: char) = char_of (48 + n) \<Longrightarrow> m = (n :: nat)"
  using digit_code [of m] digit_code [of n] by simp

lemma nat_str_neq_Nil: "nat_str n \<noteq> []"
  by (subst nat_str.simps) simp

lemma nat_str_inject: "nat_str m = nat_str n \<Longrightarrow> m = n"
proof (induction m arbitrary: n rule: nat_str.induct)
  case (1 m)
  show ?case
  proof (cases "m < 10"; cases "n < 10")
    assume "m < 10" "n < 10"
    then show ?thesis using 1(2) digit_inject by (simp add: nat_str.simps [of m] nat_str.simps [of n])
  next
    assume "m < 10" "\<not> n < 10"
    then show ?thesis
      using 1(2) nat_str_neq_Nil by (simp add: nat_str.simps [of m] nat_str.simps [of n] Cons_eq_append_conv)
  next
    assume "\<not> m < 10" "n < 10"
    then show ?thesis
      using 1(2) nat_str_neq_Nil by (simp add: nat_str.simps [of m] nat_str.simps [of n])
  next
    assume mn: "\<not> m < 10" "\<not> n < 10"
    then have "nat_str (m div 10) = nat_str (n div 10)" "(char_of (48 + m mod 10) :: char) = char_of (48 + n mod 10)"
      using 1(2) by (simp_all add: nat_str.simps [of m] nat_str.simps [of n])
    then have "m div 10 = n div 10" "m mod 10 = n mod 10"
      using 1(1) [OF mn(1)] digit_inject by simp_all
    then show ?thesis by (metis div_mult_mod_eq)
  qed
qed

lemma int_str_inject: "int_str i = int_str j \<Longrightarrow> i = j"
proof -
  have digit: "\<exists>c s. nat_str n = c # s \<and> c \<noteq> CHR ''-''" for n
  proof (induction n rule: nat_str.induct)
    case (1 n)
    have "char_of (48 + n) \<noteq> CHR ''-''" if "n < 10" using digit_neq [OF that, of "CHR ''-''"] by simp
    then show ?case using 1 by (subst nat_str.simps) auto
  qed
  have "nat_str m \<noteq> CHR ''-'' # s" for m s using digit [of m] by auto
  then show "int_str i = int_str j \<Longrightarrow> i = j"
    by (auto simp: int_str_def dest: nat_str_inject split: if_splits) (metis)+
qed

lemma colon_split:
  assumes "c \<notin> set a" "c \<notin> set b" "a @ c # x = b @ c # y"
  shows "a = b \<and> x = y"
proof -
  have t: "takeWhile (\<lambda>z. z \<noteq> c) (u @ c # v) = u" if "c \<notin> set u" for u v
    using that by (induction u) auto
  have "a = b" using arg_cong [OF assms(3), of "takeWhile (\<lambda>z. z \<noteq> c)"] t assms(1,2) by simp
  then show ?thesis using assms(3) by simp
qed

lemma colon_split_last:
  assumes "c \<notin> set p" "c \<notin> set q" "x @ c # p = y @ c # q"
  shows "x = y \<and> p = q"
  using colon_split [of c "rev p" "rev q" "rev x" "rev y"] arg_cong [OF assms(3), of rev] assms(1,2) by simp

text \<open>The text under the hash determines its three parts.\<close>

definition event_text :: "canonical_audit_event \<Rightarrow> string" where
  "event_text e = json_dumps '', '' '': '' (JObj (event_to_dict e))"

lemma seal_payload_inject:
  assumes "seal_payload e n p = seal_payload e' n' p'" and "CHR '':'' \<notin> set p" and "CHR '':'' \<notin> set p'"
  shows "n = n' \<and> event_text e = event_text e' \<and> p = p'"
proof -
  have "int_str n @ CHR '':'' # (event_text e @ CHR '':'' # p) = int_str n' @ CHR '':'' # (event_text e' @ CHR '':'' # p')"
    using assms(1) by (simp add: seal_payload_def event_text_def)
  from colon_split [OF int_str_no_colon int_str_no_colon this]
  have "int_str n = int_str n'" "event_text e @ CHR '':'' # p = event_text e' @ CHR '':'' # p'" by auto
  then show ?thesis using int_str_inject colon_split_last [OF assms(2,3)] by blast
qed

definition strong_hash :: "(string \<Rightarrow> string) \<Rightarrow> bool" where
  "strong_hash h \<longleftrightarrow> inj h \<and> (\<forall>m. CHR '':'' \<notin> set (h m) \<and> h m \<noteq> GENESIS_HASH)"

definition record_facts :: "sealed_record \<Rightarrow> int \<times> string \<times> string \<times> string" where
  "record_facts r = (se_sequence_number r, event_text (se_event r), se_previous_hash r, se_record_hash r)"

lemma linked_last:
  "linked h GENESIS_HASH (rs @ [r]) \<Longrightarrow> strong_hash h \<Longrightarrow> CHR '':'' \<notin> set (se_previous_hash r)"
proof (cases rs rule: rev_cases)
  case (snoc xs x)
  then show "linked h GENESIS_HASH (rs @ [r]) \<Longrightarrow> strong_hash h \<Longrightarrow> ?thesis"
    by (auto simp: linked_append linked_append2 strong_hash_def)
qed (simp add: linked_append GENESIS_HASH_def)

lemma linked_determined:
  assumes "strong_hash h" and "linked h GENESIS_HASH (rs @ [r])" and "linked h GENESIS_HASH (rs' @ [r'])"
    and "se_record_hash r = se_record_hash r'"
  shows "map record_facts (rs @ [r]) = map record_facts (rs' @ [r'])"
  using assms(2-)
proof (induction rs arbitrary: r rs' r' rule: rev_induct)
  case Nil
  then have p: "h (seal_payload (se_event r) (se_sequence_number r) GENESIS_HASH) =
      h (seal_payload (se_event r') (se_sequence_number r') (se_previous_hash r'))"
    and r: "se_previous_hash r = GENESIS_HASH"
    by (simp_all add: linked_append)
  have "seal_payload (se_event r) (se_sequence_number r) GENESIS_HASH =
      seal_payload (se_event r') (se_sequence_number r') (se_previous_hash r')"
    using p assms(1) by (simp add: strong_hash_def inj_eq)
  then have facts: "se_sequence_number r = se_sequence_number r'" "event_text (se_event r) = event_text (se_event r')"
    "GENESIS_HASH = se_previous_hash r'"
    using seal_payload_inject [OF _ _ linked_last [OF Nil(2) assms(1)]] by (auto simp: GENESIS_HASH_def)
  have "rs' = []"
  proof (cases rs' rule: rev_cases)
    case (snoc xs x)
    then have "se_previous_hash r' = h (seal_payload (se_event x) (se_sequence_number x) (se_previous_hash x))"
      using Nil(2) by (simp add: linked_append linked_append2)
    then show ?thesis using facts(3) assms(1) unfolding strong_hash_def by metis
  qed
  then show ?case using facts r Nil(3) by (simp add: record_facts_def)
next
  case (snoc x xs)
  have "h (seal_payload (se_event r) (se_sequence_number r) (se_previous_hash r)) =
      h (seal_payload (se_event r') (se_sequence_number r') (se_previous_hash r'))"
    and prev: "se_previous_hash r = se_record_hash x"
    using snoc.prems linked_append [of h GENESIS_HASH "xs @ [x]" r] linked_append [of h GENESIS_HASH rs' r']
    by (simp_all del: append_assoc)
  then have "seal_payload (se_event r) (se_sequence_number r) (se_previous_hash r) =
      seal_payload (se_event r') (se_sequence_number r') (se_previous_hash r')"
    using assms(1) by (simp add: strong_hash_def inj_eq)
  then have facts: "se_sequence_number r = se_sequence_number r'" "event_text (se_event r) = event_text (se_event r')"
    "se_previous_hash r = se_previous_hash r'"
    using seal_payload_inject [OF _ linked_last [OF snoc.prems(1) assms(1)] linked_last [OF snoc.prems(2) assms(1)]]
    by blast+
  have hx: "se_record_hash x \<noteq> GENESIS_HASH"
    using snoc.prems(1) assms(1) by (simp add: linked_append linked_append2 strong_hash_def)
  show ?case
  proof (cases rs' rule: rev_cases)
    case Nil
    then show ?thesis using snoc.prems(2) facts(3) prev hx by (simp add: linked_append)
  next
    case (snoc ys y)
    then have "se_record_hash x = se_record_hash y" using snoc.prems(2) facts(3) prev by (simp add: linked_append linked_append2)
    moreover have "linked h GENESIS_HASH (xs @ [x])" "linked h GENESIS_HASH (ys @ [y])"
      using snoc.prems(1,2) snoc by (simp_all add: linked_append linked_append2)
    ultimately have "map record_facts (xs @ [x]) = map record_facts (ys @ [y])" using snoc.IH by blast
    moreover have "record_facts r = record_facts r'" using facts snoc.prems(3) by (simp add: record_facts_def)
    ultimately show ?thesis by (simp add: snoc)
  qed
qed

text \<open>
  C19: a verified chain is determined by its last hash. With a hash that no two texts share, that contains no
  colon and is never the genesis text, two non-empty chains that verify under one key and end in the
  same record hash have the same records in the same order: sequence numbers, serialised events
  and hashes. Only the sealing times are outside the hash.
\<close>

theorem chain_tamper_evident:
  assumes "strong_hash (hmac key)"
    and "verify_records hmac dk (Some key) surface rs = Inr v" "cv_valid v" "rs \<noteq> []"
    and "verify_records hmac dk (Some key) surface rs' = Inr v'" "cv_valid v'" "rs' \<noteq> []"
    and "last (cv_verified_hashes v) = last (cv_verified_hashes v')"
  shows "map record_facts rs = map record_facts rs'"
proof -
  have l: "linked (hmac key) GENESIS_HASH rs" "cv_verified_hashes v = map se_record_hash rs"
    using verify_linked [of hmac dk key surface rs] assms(2,3) by auto
  have l': "linked (hmac key) GENESIS_HASH rs'" "cv_verified_hashes v' = map se_record_hash rs'"
    using verify_linked [of hmac dk key surface rs'] assms(5,6) by auto
  obtain xs x ys y where "rs = xs @ [x]" "rs' = ys @ [y]"
    using assms(4,7) by (metis rev_exhaust)
  then show ?thesis
    using linked_determined [OF assms(1), of xs x ys y] l l' assms(8) by simp
qed

text \<open>A hash with these properties: the text itself, in hexadecimal.\<close>

definition hex_mac :: hmac where
  "hex_mac key m = CHR ''h'' # concat (map hex2 m)"

lemma hex_mac_strong: "strong_hash (hex_mac key)"
proof -
  have "concat (map hex2 m) = concat (map hex2 m') \<Longrightarrow> m = m'" for m m'
  proof (induction m arbitrary: m')
    case (Cons c m)
    show ?case
    proof (cases m')
      case Nil
      then show ?thesis using Cons.prems length_hex2 [of c] by auto
    next
      case (Cons d m'')
      then show ?thesis using Cons.prems Cons.IH [of m''] by (auto simp: hex2_append_inject)
    qed
  next
    case Nil
    then show ?case
    proof (cases m')
      case (Cons d m'')
      then show ?thesis using Nil length_hex2 [of d] by auto
    qed simp
  qed
  moreover have "CHR '':'' \<notin> set (hex2 c)" for c
  proof -
    have "\<forall>n \<in> set [0..<16]. hex_digit n \<noteq> CHR '':''" by code_simp
    then have "hex_digit (of_char c div 16) \<noteq> CHR '':''" "hex_digit (of_char c mod 16) \<noteq> CHR '':''"
      by (simp_all add: less_mult_imp_div_less)
    then show ?thesis by (auto simp: hex2_def Let_def)
  qed
  ultimately show ?thesis
    by (auto simp: strong_hash_def inj_def hex_mac_def GENESIS_HASH_def numeral_eq_Suc)
qed

definition example_record :: "string \<Rightarrow> sealed_record" where
  "example_record now =
     \<lparr>se_sequence_number = 1, se_event = example_event ''api'' ''a'', se_previous_hash = GENESIS_HASH,
      se_record_hash = hex_mac ''k'' (seal_payload (example_event ''api'' ''a'') 1 GENESIS_HASH),
      se_sealed_at = now\<rparr>"

lemma chain_tamper_evident_witness:
  "map record_facts [example_record ''t1''] = map record_facts [example_record ''t2'']"
proof -
  have "\<exists>v. verify_records hex_mac (Inr []) (Some ''k'') ''api'' [example_record now] = Inr v \<and> cv_valid v \<and>
      last (cv_verified_hashes v) = hex_mac ''k'' (seal_payload (example_event ''api'' ''a'') 1 GENESIS_HASH)" for now
    using verify_linked [of hex_mac "Inr []" "''k''" "''api''" "[example_record now]"]
    by (auto simp: example_record_def)
  then obtain v v' where
    "verify_records hex_mac (Inr []) (Some ''k'') ''api'' [example_record ''t1''] = Inr v" "cv_valid v"
    "verify_records hex_mac (Inr []) (Some ''k'') ''api'' [example_record ''t2''] = Inr v'" "cv_valid v'"
    "last (cv_verified_hashes v) = last (cv_verified_hashes v')"
    by metis
  then show ?thesis using chain_tamper_evident [where hmac = hex_mac and key = "''k''", OF hex_mac_strong] by blast
qed

end
