(* ===== verification/Operation_Journal.thy ===== *)
theory Operation_Journal
  imports Phlo_Text Phlo_Json
begin

text \<open>
  \<open>phlo/operations/journal.py\<close> and \<open>journal_store.py\<close>: the durable operation journal. A store is a
  record of its operations; the in-memory store keeps entries by operation id, the file store keeps one JSON
  document per operation in a directory. A directory maps file names to what reading the file gives
  (\<open>None\<close> when it is not JSON); each store operation runs under the journal lock, so it is one step.
\<close>

type_synonym json_object = "(string \<times> json) list"

section \<open>Entries\<close>

datatype journal_state = JS_CLAIMED | JS_SUBMITTED | JS_SUCCEEDED | JS_FAILED | JS_UNKNOWN

fun journal_value :: "journal_state \<Rightarrow> string" where
  "journal_value JS_CLAIMED = ''claimed''"
| "journal_value JS_SUBMITTED = ''submitted''"
| "journal_value JS_SUCCEEDED = ''succeeded''"
| "journal_value JS_FAILED = ''failed''"
| "journal_value JS_UNKNOWN = ''unknown''"

definition journal_coerce :: "string \<Rightarrow> journal_state res" where
  "journal_coerce s =
     (if s = ''claimed'' then Inr JS_CLAIMED
      else if s = ''submitted'' then Inr JS_SUBMITTED
      else if s = ''succeeded'' then Inr JS_SUCCEEDED
      else if s = ''failed'' then Inr JS_FAILED
      else if s = ''unknown'' then Inr JS_UNKNOWN
      else Inl (ValueError (py_repr s @ '' is not a valid OperationJournalState'')))"

record journal_entry =
  je_operation_id :: string
  je_subject :: string
  je_action :: string
  je_target :: string
  je_plan_token :: string
  je_state :: journal_state
  je_claim_expiry :: string
  je_result :: "json_object option"
  je_observation_time :: string

definition json_object_opt :: "json_object option \<Rightarrow> json" where
  "json_object_opt r = (case r of None \<Rightarrow> JNull | Some d \<Rightarrow> JObj d)"

definition entry_to_dict :: "journal_entry \<Rightarrow> json_object" where
  "entry_to_dict e =
     [(''operation_id'', JStr (je_operation_id e)), (''subject'', JStr (je_subject e)),
      (''action'', JStr (je_action e)), (''target'', JStr (je_target e)),
      (''plan_token'', JStr (je_plan_token e)), (''state'', JStr (journal_value (je_state e))),
      (''claim_expiry'', JStr (je_claim_expiry e)), (''result'', json_object_opt (je_result e)),
      (''observation_time'', JStr (je_observation_time e))]"

section \<open>The store protocol\<close>

record 's journal_ops =
  op_claim :: "'s \<Rightarrow> journal_entry \<Rightarrow> (bool \<times> 's) res"
  op_move :: "'s \<Rightarrow> string \<Rightarrow> journal_state \<Rightarrow> json_object option \<Rightarrow> (bool \<times> 's) res"
  op_read :: "'s \<Rightarrow> string \<Rightarrow> journal_entry option res"

section \<open>The in-memory store\<close>

type_synonym memory_journal = "(string, journal_entry) dict"

definition memory_claim :: "memory_journal \<Rightarrow> journal_entry \<Rightarrow> (bool \<times> memory_journal) res" where
  "memory_claim entries entry =
     (case dict_get entries (je_operation_id entry) of
        Some existing \<Rightarrow>
          (if je_state existing \<noteq> JS_SUCCEEDED then Inr (False, entries)
           else Inr (True, dict_set entries (je_operation_id entry) entry))
      | None \<Rightarrow> Inr (True, dict_set entries (je_operation_id entry) entry))"

definition memory_transition :: "memory_journal \<Rightarrow> string \<Rightarrow> journal_state \<Rightarrow> json_object option
    \<Rightarrow> (bool \<times> memory_journal) res" where
  "memory_transition entries operation_id state result =
     (case dict_get entries operation_id of
        None \<Rightarrow> Inr (False, entries)
      | Some entry \<Rightarrow>
          Inr (True, dict_set entries operation_id (entry\<lparr>je_state := state, je_result := result\<rparr>)))"

definition memory_read :: "memory_journal \<Rightarrow> string \<Rightarrow> journal_entry option res" where
  "memory_read entries operation_id = Inr (dict_get entries operation_id)"

definition memory_journal_ops :: "memory_journal journal_ops" where
  "memory_journal_ops =
     \<lparr>op_claim = memory_claim, op_move = memory_transition, op_read = memory_read\<rparr>"

section \<open>The file store\<close>

text \<open>The digest is an argument: \<open>hashlib.sha256(...).hexdigest()\<close>.\<close>

definition safe_char :: "char \<Rightarrow> bool" where
  "safe_char c \<longleftrightarrow> py_isalnum c \<or> c \<in> set ''._-''"

definition safe_name :: "(string \<Rightarrow> string) \<Rightarrow> string \<Rightarrow> string" where
  "safe_name sha256 operation_id =
     (let safe = map (\<lambda>c. if safe_char c then c else CHR ''_'') operation_id
      in if safe \<noteq> operation_id then safe @ ''__'' @ take 8 (sha256 operation_id) else safe)"

definition journal_path :: "(string \<Rightarrow> string) \<Rightarrow> string \<Rightarrow> string" where
  "journal_path sha256 operation_id = safe_name sha256 operation_id @ ''.json''"

type_synonym journal_dir = "(string, json option) dict"

text \<open>\<open>_iter_records\<close>: the \<open>*.json\<close> files in the order of their names, those that are journal records.\<close>

definition journal_record :: "json option \<Rightarrow> json_object option" where
  "journal_record content =
     (case content of
        Some (JObj d) \<Rightarrow>
          (if dict_has d ''action'' \<and> dict_has d ''state'' \<and> dict_has d ''target'' then Some d else None)
      | _ \<Rightarrow> None)"

definition iter_records :: "journal_dir \<Rightarrow> json_object list" where
  "iter_records dir =
     List.map_filter (\<lambda>f. journal_record (snd f))
       (sort_key fst (filter (\<lambda>f. drop (length (fst f) - 5) (fst f) = ''.json'') dir))"

definition active_states :: "journal_state list" where
  "active_states = [JS_CLAIMED, JS_SUBMITTED, JS_UNKNOWN]"

text \<open>A state that is not a string raises \<open>ValueError\<close>, as an unknown one does.\<close>

definition state_of_json :: "json \<Rightarrow> journal_state res" where
  "state_of_json v =
     (case v of JStr s \<Rightarrow> journal_coerce s
      | _ \<Rightarrow> Inl (ValueError (json_repr v @ '' is not a valid OperationJournalState'')))"

fun active_claim :: "journal_entry \<Rightarrow> json_object list \<Rightarrow> bool res" where
  "active_claim entry [] = Inr False"
| "active_claim entry (r # rs) =
     (if dict_get r ''action'' = Some (JStr (je_action entry)) \<and>
         dict_get r ''target'' = Some (JStr (je_target entry))
      then bind_res (state_of_json (the (dict_get r ''state''))) (\<lambda>st.
             if st \<in> set active_states then Inr True else active_claim entry rs)
      else active_claim entry rs)"

definition file_claim :: "(string \<Rightarrow> string) \<Rightarrow> journal_dir \<Rightarrow> journal_entry \<Rightarrow> (bool \<times> journal_dir) res" where
  "file_claim sha256 dir entry =
     (let path = journal_path sha256 (je_operation_id entry) in
      if dict_has dir path then Inr (False, dir)
      else bind_res (active_claim entry (iter_records dir)) (\<lambda>busy.
        if busy then Inr (False, dir)
        else Inr (True, dict_set dir path (Some (JObj (entry_to_dict entry))))))"

text \<open>
  \<open>record["state"] = ...\<close> on a decoded document: anything but an object raises; a list raises
  \<open>TypeError\<close>, as does any other value. A file that is not JSON raises \<open>ValueError\<close>.
\<close>

definition file_document :: "json option \<Rightarrow> json_object res" where
  "file_document content =
     (case content of
        None \<Rightarrow> Inl (ValueError ''JSONDecodeError'')
      | Some (JObj d) \<Rightarrow> Inr d
      | Some _ \<Rightarrow> Inl TypeError)"

definition file_transition :: "(string \<Rightarrow> string) \<Rightarrow> journal_dir \<Rightarrow> string \<Rightarrow> journal_state
    \<Rightarrow> json_object option \<Rightarrow> (bool \<times> journal_dir) res" where
  "file_transition sha256 dir operation_id state result =
     (let path = journal_path sha256 operation_id in
      case dict_get dir path of
        None \<Rightarrow> Inr (False, dir)
      | Some content \<Rightarrow>
          bind_res (file_document content) (\<lambda>d.
            Inr (True, dict_set dir path (Some (JObj
              (dict_set (dict_set d ''state'' (JStr (journal_value state)))
                 ''result'' (json_object_opt result)))))))"

definition str_of :: "json_object \<Rightarrow> string \<Rightarrow> string res" where
  "str_of d k = (case dict_get d k of None \<Rightarrow> Inl (KeyError k) | Some v \<Rightarrow> Inr (json_text v))"

definition str_or_blank :: "json_object \<Rightarrow> string \<Rightarrow> string" where
  "str_or_blank d k =
     (case dict_get d k of None \<Rightarrow> [] | Some v \<Rightarrow> if json_truthy v then json_text v else [])"

definition entry_of_dict :: "json_object \<Rightarrow> journal_entry res" where
  "entry_of_dict d =
     bind_res (str_of d ''operation_id'') (\<lambda>operation_id.
     bind_res (str_of d ''subject'') (\<lambda>subject.
     bind_res (str_of d ''action'') (\<lambda>act.
     bind_res (str_of d ''target'') (\<lambda>target.
     bind_res (str_of d ''plan_token'') (\<lambda>plan_token.
     bind_res (bind_res (str_of d ''state'') journal_coerce) (\<lambda>state.
     bind_res (case dict_get d ''result'' of
                 None \<Rightarrow> Inr None | Some JNull \<Rightarrow> Inr None | Some (JObj r) \<Rightarrow> Inr (Some r)
               | Some _ \<Rightarrow> Inl UntypedPayload) (\<lambda>result.
       Inr \<lparr>je_operation_id = operation_id, je_subject = subject, je_action = act,
            je_target = target, je_plan_token = plan_token, je_state = state,
            je_claim_expiry = str_or_blank d ''claim_expiry'', je_result = result,
            je_observation_time = str_or_blank d ''observation_time''\<rparr>)))))))"

definition file_read :: "(string \<Rightarrow> string) \<Rightarrow> journal_dir \<Rightarrow> string \<Rightarrow> journal_entry option res" where
  "file_read sha256 dir operation_id =
     (case dict_get dir (journal_path sha256 operation_id) of
        None \<Rightarrow> Inr None
      | Some content \<Rightarrow>
          bind_res (file_document content) (\<lambda>d. bind_res (entry_of_dict d) (\<lambda>e. Inr (Some e))))"

definition file_journal_ops :: "(string \<Rightarrow> string) \<Rightarrow> journal_dir journal_ops" where
  "file_journal_ops sha256 =
     \<lparr>op_claim = file_claim sha256, op_move = file_transition sha256, op_read = file_read sha256\<rparr>"

section \<open>The operations of core\<close>

definition maintenance_operation_id :: "string \<Rightarrow> string \<Rightarrow> string \<Rightarrow> string \<Rightarrow> string" where
  "maintenance_operation_id operation table ref plan_token =
     operation @ '':'' @ table @ '':'' @ ref @ '':'' @ plan_token"

definition maintenance_plan_token :: "json_object \<Rightarrow> string" where
  "maintenance_plan_token plan =
     (let token = dict_get plan ''plan_token''; before = dict_get plan ''before_revision'';
          absent = (\<lambda>v. v = None \<or> v = Some JNull);
          token = (if (absent token \<or> \<not> json_truthy (the token)) \<and> \<not> absent before then before else token)
      in if absent token then [] else json_text (the token))"

definition claim_operation :: "'s journal_ops \<Rightarrow> string \<Rightarrow> string \<Rightarrow> string \<Rightarrow> string \<Rightarrow> string \<Rightarrow> 's
    \<Rightarrow> (journal_entry \<times> 's) res" where
  "claim_operation ops operation_id subject act target plan_token s =
     (let entry = \<lparr>je_operation_id = operation_id, je_subject = subject, je_action = act,
                   je_target = target, je_plan_token = plan_token, je_state = JS_CLAIMED,
                   je_claim_expiry = [], je_result = None, je_observation_time = []\<rparr>
      in bind_res (op_claim ops s entry) (\<lambda>(ok, s').
           if \<not> ok then Inl (OperationJournalError ''conflicting_claim'' [operation_id, act, target])
           else Inr (entry, s')))"

definition unknown_operation :: "string \<Rightarrow> py_error" where
  "unknown_operation operation_id = OperationJournalError ''unknown_operation'' [operation_id]"

definition move_or_raise :: "'s journal_ops \<Rightarrow> string \<Rightarrow> journal_state \<Rightarrow> json_object option \<Rightarrow> 's
    \<Rightarrow> 's res" where
  "move_or_raise ops operation_id state result s =
     bind_res (op_move ops s operation_id state result) (\<lambda>(ok, s').
       if \<not> ok then Inl (unknown_operation operation_id) else Inr s')"

definition mark_submitted :: "'s journal_ops \<Rightarrow> string \<Rightarrow> 's \<Rightarrow> 's res" where
  "mark_submitted ops operation_id = move_or_raise ops operation_id JS_SUBMITTED None"

definition result_state :: "json_object \<Rightarrow> journal_state" where
  "result_state result =
     (case dict_get result ''accepted'' of
        None \<Rightarrow> JS_FAILED | Some v \<Rightarrow> if json_truthy v then JS_SUCCEEDED else JS_FAILED)"

definition complete_operation :: "'s journal_ops \<Rightarrow> string \<Rightarrow> json_object \<Rightarrow> 's \<Rightarrow> 's res" where
  "complete_operation ops operation_id result =
     move_or_raise ops operation_id (result_state result) (Some result)"

definition mark_unknown :: "'s journal_ops \<Rightarrow> string \<Rightarrow> 's \<Rightarrow> 's res" where
  "mark_unknown ops operation_id = move_or_raise ops operation_id JS_UNKNOWN None"

definition reconcile_unknown :: "'s journal_ops \<Rightarrow> string \<Rightarrow> json_object \<Rightarrow> 's \<Rightarrow> 's res" where
  "reconcile_unknown ops operation_id result =
     move_or_raise ops operation_id (result_state result) (Some result)"

definition read_or_replay :: "'s journal_ops \<Rightarrow> string \<Rightarrow> 's \<Rightarrow> json_object option res" where
  "read_or_replay ops operation_id s =
     bind_res (op_read ops s operation_id) (\<lambda>entry.
       case entry of
         None \<Rightarrow> Inr None
       | Some e \<Rightarrow>
           (if je_state e = JS_UNKNOWN
            then Inl (OperationJournalError ''unknown_outcome_blocks_replay'' [operation_id])
            else Inr (je_result e)))"

end
