(* ===== verification/Operation_Journal_Spec.thy ===== *)
theory Operation_Journal_Spec
  imports Operation_Journal
begin

text \<open>
  What the operation journal promises: the interface of a journal store (\<open>operation_journal\<close>) with the
  client's lemmas, both stores as its interpretations, and for the file store the exclusion of a
  second active claim on one action and target.
\<close>

section \<open>The interface\<close>

locale operation_journal =
  fixes ops :: "'s journal_ops"
    and entries :: "'s \<Rightarrow> string \<Rightarrow> journal_entry option"
    and ok :: "'s \<Rightarrow> bool"
    and ids :: "string set"
  assumes reads: "ok s \<Longrightarrow> i \<in> ids \<Longrightarrow> op_read ops s i = Inr (entries s i)"
    and moves: "ok s \<Longrightarrow> i \<in> ids \<Longrightarrow> entries s i = Some e \<Longrightarrow>
      \<exists>s'. op_move ops s i st r = Inr (True, s') \<and> ok s' \<and>
        (\<forall>j \<in> ids. entries s' j = ((entries s)(i \<mapsto> e\<lparr>je_state := st, je_result := r\<rparr>)) j)"
    and moves_unknown: "ok s \<Longrightarrow> i \<in> ids \<Longrightarrow> entries s i = None \<Longrightarrow> op_move ops s i st r = Inr (False, s)"
    and claims: "ok s \<Longrightarrow> je_operation_id e \<in> ids \<Longrightarrow> op_claim ops s e = Inr (b, s') \<Longrightarrow>
      if b then ok s' \<and> (\<forall>j \<in> ids. entries s' j = ((entries s)(je_operation_id e \<mapsto> e)) j) else s' = s"
    and claims_open: "ok s \<Longrightarrow> je_operation_id e \<in> ids \<Longrightarrow> entries s (je_operation_id e) = Some e' \<Longrightarrow>
      je_state e' \<noteq> JS_SUCCEEDED \<Longrightarrow> op_claim ops s e = Inr (False, s)"
begin

lemma move_known:
  assumes "ok s" and "i \<in> ids" and "entries s i = Some e"
  obtains s' where "move_or_raise ops i st r s = Inr s'" "ok s'"
    "\<forall>j \<in> ids. entries s' j = ((entries s)(i \<mapsto> e\<lparr>je_state := st, je_result := r\<rparr>)) j"
  using moves [OF assms, of st r] that by (auto simp: move_or_raise_def)

lemma complete_replays:
  assumes "ok s" and "i \<in> ids" and "entries s i = Some e"
  shows "\<exists>s'. complete_operation ops i result s = Inr s' \<and> ok s' \<and>
    read_or_replay ops i s' = Inr (Some result) \<and>
    (\<forall>j \<in> ids. j \<noteq> i \<longrightarrow> read_or_replay ops j s' = read_or_replay ops j s)"
proof -
  obtain s' where s': "move_or_raise ops i (result_state result) (Some result) s = Inr s'" "ok s'"
    "\<forall>j \<in> ids. entries s' j =
       ((entries s)(i \<mapsto> e\<lparr>je_state := result_state result, je_result := Some result\<rparr>)) j"
    using move_known [OF assms] by blast
  have "result_state result \<noteq> JS_UNKNOWN" by (simp add: result_state_def split: option.splits)
  then have "read_or_replay ops i s' = Inr (Some result)"
    using reads [OF s'(2) assms(2)] s'(3) assms(2) by (simp add: read_or_replay_def)
  moreover have "read_or_replay ops j s' = read_or_replay ops j s" if "j \<in> ids" "j \<noteq> i" for j
    using reads [OF s'(2) that(1)] reads [OF assms(1) that(1)] s'(3) that by (simp add: read_or_replay_def)
  ultimately show ?thesis using s'(1,2) by (auto simp: complete_operation_def)
qed

lemma unknown_blocks:
  assumes "ok s" and "i \<in> ids" and "entries s i = Some e"
  shows "\<exists>s'. mark_unknown ops i s = Inr s' \<and> ok s' \<and>
    read_or_replay ops i s' = Inl (OperationJournalError ''unknown_outcome_blocks_replay'' [i]) \<and>
    claim_operation ops i subject act target token s' =
      Inl (OperationJournalError ''conflicting_claim'' [i, act, target]) \<and>
    (\<exists>s''. reconcile_unknown ops i result s' = Inr s'' \<and> read_or_replay ops i s'' = Inr (Some result))"
proof -
  obtain s' where s': "move_or_raise ops i JS_UNKNOWN None s = Inr s'" "ok s'"
    "\<forall>j \<in> ids. entries s' j = ((entries s)(i \<mapsto> e\<lparr>je_state := JS_UNKNOWN, je_result := None\<rparr>)) j"
    using move_known [OF assms] by blast
  then have at: "entries s' i = Some (e\<lparr>je_state := JS_UNKNOWN, je_result := None\<rparr>)"
    using assms(2) by simp
  have "read_or_replay ops i s' = Inl (OperationJournalError ''unknown_outcome_blocks_replay'' [i])"
    using reads [OF s'(2) assms(2)] at by (simp add: read_or_replay_def)
  moreover have "claim_operation ops i subject act target token s' =
      Inl (OperationJournalError ''conflicting_claim'' [i, act, target])"
    using claims_open [OF s'(2) _ _, of "\<lparr>je_operation_id = i, je_subject = subject, je_action = act,
        je_target = target, je_plan_token = token, je_state = JS_CLAIMED, je_claim_expiry = [],
        je_result = None, je_observation_time = []\<rparr>"] at assms(2)
    by (simp add: claim_operation_def)
  moreover have "\<exists>s''. reconcile_unknown ops i result s' = Inr s'' \<and> read_or_replay ops i s'' = Inr (Some result)"
    using complete_replays [OF s'(2) assms(2) at, of result]
    by (auto simp: reconcile_unknown_def complete_operation_def)
  ultimately show ?thesis using s'(1,2) by (auto simp: mark_unknown_def)
qed

lemma claim_enters:
  assumes "ok s" and "i \<in> ids" and "claim_operation ops i subject act target token s = Inr (e, s')"
  shows "ok s' \<and> entries s' i = Some e \<and> je_state e = JS_CLAIMED"
proof -
  have e: "je_operation_id e = i" "je_state e = JS_CLAIMED" and c: "op_claim ops s e = Inr (True, s')"
    using assms(3) by (auto simp: claim_operation_def Let_def bind_res_Inr_iff split: if_splits)
  then show ?thesis using claims [OF assms(1) _ c] assms(2) by simp
qed

end

section \<open>The in-memory store\<close>

interpretation memory_journal: operation_journal memory_journal_ops dict_get "\<lambda>_. True" UNIV
  by unfold_locales
    (auto simp: memory_journal_ops_def memory_read_def memory_transition_def memory_claim_def
      split: option.splits if_splits)

section \<open>The file store\<close>

lemma journal_coerce_value [simp]: "journal_coerce (journal_value st) = Inr st"
  by (cases st) (simp_all add: journal_coerce_def)

lemma entry_dict_roundtrip: "entry_of_dict (entry_to_dict e) = Inr e"
  by (cases "je_result e")
    (simp_all add: entry_of_dict_def entry_to_dict_def str_of_def str_or_blank_def json_object_opt_def)

lemma entry_dict_moved:
  assumes "entry_of_dict d = Inr e"
  shows "entry_of_dict (dict_set (dict_set d ''state'' (JStr (journal_value st))) ''result'' (json_object_opt r)) =
    Inr (e\<lparr>je_state := st, je_result := r\<rparr>)"
proof -
  let ?d = "dict_set (dict_set d ''state'' (JStr (journal_value st))) ''result'' (json_object_opt r)"
  have kept: "str_of ?d k = str_of d k" "str_or_blank ?d k = str_or_blank d k" if "k \<noteq> ''state''" "k \<noteq> ''result''" for k
    using that by (simp_all add: str_of_def str_or_blank_def)
  have state: "str_of ?d ''state'' = Inr (journal_value st)"
    by (simp add: str_of_def)
  have res: "(case dict_get ?d ''result'' of
       None \<Rightarrow> Inr None | Some JNull \<Rightarrow> Inr None | Some (JObj r) \<Rightarrow> Inr (Some r)
     | Some _ \<Rightarrow> Inl UntypedPayload) = Inr r"
    by (cases r) (simp_all add: json_object_opt_def)
  show ?thesis
    unfolding entry_of_dict_def [of ?d] kept [of "''operation_id''", simplified] kept [of "''subject''", simplified]
      kept [of "''action''", simplified] kept [of "''target''", simplified] kept [of "''plan_token''", simplified]
      kept [of "''claim_expiry''", simplified] kept [of "''observation_time''", simplified] state res
    using assms unfolding entry_of_dict_def [of d]
    by (simp only: bind_res_Inr_iff) (elim exE conjE, simp, hypsubst, simp)
qed

text \<open>A directory in good order for a set of operation ids.\<close>

definition dir_ok :: "(string \<Rightarrow> string) \<Rightarrow> string set \<Rightarrow> journal_dir \<Rightarrow> bool" where
  "dir_ok sha256 ids dir \<longleftrightarrow>
     inj_on (journal_path sha256) ids \<and>
     (\<forall>i \<in> ids. \<forall>content. dict_get dir (journal_path sha256 i) = Some content \<longrightarrow>
        (\<exists>d e. content = Some (JObj d) \<and> entry_of_dict d = Inr e))"

definition dir_entries :: "(string \<Rightarrow> string) \<Rightarrow> journal_dir \<Rightarrow> string \<Rightarrow> journal_entry option" where
  "dir_entries sha256 dir i =
     (case dict_get dir (journal_path sha256 i) of
        Some (Some (JObj d)) \<Rightarrow> (case entry_of_dict d of Inr e \<Rightarrow> Some e | Inl _ \<Rightarrow> None)
      | _ \<Rightarrow> None)"

lemma dir_entries_Some:
  assumes "dir_ok sha256 ids dir" and "i \<in> ids"
  shows "dir_entries sha256 dir i = Some e \<longleftrightarrow>
    (\<exists>d. dict_get dir (journal_path sha256 i) = Some (Some (JObj d)) \<and> entry_of_dict d = Inr e)"
  using assms by (auto simp: dir_entries_def dir_ok_def split: option.splits json.splits sum.splits)

lemma dir_entries_None:
  assumes "dir_ok sha256 ids dir" and "i \<in> ids"
  shows "dir_entries sha256 dir i = None \<longleftrightarrow> dict_get dir (journal_path sha256 i) = None"
  using assms by (fastforce simp: dir_entries_def dir_ok_def split: option.splits json.splits sum.splits)

lemma dir_set:
  assumes "dir_ok sha256 ids dir" and "i \<in> ids" and "entry_of_dict d = Inr e"
  shows "dir_ok sha256 ids (dict_set dir (journal_path sha256 i) (Some (JObj d))) \<and>
    (\<forall>j \<in> ids. dir_entries sha256 (dict_set dir (journal_path sha256 i) (Some (JObj d))) j =
       ((dir_entries sha256 dir)(i \<mapsto> e)) j)"
proof -
  have "journal_path sha256 j = journal_path sha256 i \<longleftrightarrow> j = i" if "j \<in> ids" for j
    using assms(1,2) that by (auto simp: dir_ok_def dest: inj_onD)
  then show ?thesis using assms by (auto simp: dir_ok_def dir_entries_def)
qed

interpretation file_journal: operation_journal "file_journal_ops sha256" "dir_entries sha256" "dir_ok sha256 ids" ids
  for sha256 ids
proof
  fix dir i
  assume ok: "dir_ok sha256 ids dir" and i: "i \<in> ids"
  show "op_read (file_journal_ops sha256) dir i = Inr (dir_entries sha256 dir i)"
  proof (cases "dict_get dir (journal_path sha256 i)")
    case None
    then show ?thesis by (simp add: file_journal_ops_def file_read_def dir_entries_def)
  next
    case (Some content)
    then obtain d e where "content = Some (JObj d)" "entry_of_dict d = Inr e"
      using ok i unfolding dir_ok_def by blast
    then show ?thesis
      using Some by (simp add: file_journal_ops_def file_read_def dir_entries_def file_document_def)
  qed
next
  fix dir i e st r
  assume ok: "dir_ok sha256 ids dir" and i: "i \<in> ids" and e: "dir_entries sha256 dir i = Some e"
  obtain d where d: "dict_get dir (journal_path sha256 i) = Some (Some (JObj d))" "entry_of_dict d = Inr e"
    using e dir_entries_Some [OF ok i] by blast
  show "\<exists>s'. op_move (file_journal_ops sha256) dir i st r = Inr (True, s') \<and> dir_ok sha256 ids s' \<and>
      (\<forall>j \<in> ids. dir_entries sha256 s' j =
         ((dir_entries sha256 dir)(i \<mapsto> e\<lparr>je_state := st, je_result := r\<rparr>)) j)"
    using dir_set [OF ok i entry_dict_moved [OF d(2), where st = st and r = r]] d(1)
    by (simp add: file_journal_ops_def file_transition_def file_document_def)
next
  fix dir i st r
  assume "dir_ok sha256 ids dir" "i \<in> ids" "dir_entries sha256 dir i = None"
  then show "op_move (file_journal_ops sha256) dir i st r = Inr (False, dir)"
    using dir_entries_None by (simp add: file_journal_ops_def file_transition_def)
next
  fix dir b dir' and e :: journal_entry
  assume ok: "dir_ok sha256 ids dir" and i: "je_operation_id e \<in> ids"
    and c: "op_claim (file_journal_ops sha256) dir e = Inr (b, dir')"
  show "if b then dir_ok sha256 ids dir' \<and>
      (\<forall>j \<in> ids. dir_entries sha256 dir' j = ((dir_entries sha256 dir)(je_operation_id e \<mapsto> e)) j)
      else dir' = dir"
    using c dir_set [OF ok i entry_dict_roundtrip]
    by (auto simp: file_journal_ops_def file_claim_def Let_def bind_res_Inr_iff split: if_splits)
next
  fix dir and e e' :: journal_entry
  assume ok: "dir_ok sha256 ids dir" and i: "je_operation_id e \<in> ids"
    and "dir_entries sha256 dir (je_operation_id e) = Some e'"
  then have "dict_has dir (journal_path sha256 (je_operation_id e))"
    using dir_entries_Some [OF ok i] by (auto simp: dict_has_get)
  then show "op_claim (file_journal_ops sha256) dir e = Inr (False, dir)"
    by (simp add: file_journal_ops_def file_claim_def)
qed

section \<open>What the file store promises\<close>

text \<open>
  C22: one operation, one result. After a claim and the completion of the claimed operation, replay
  returns exactly the recorded result, whatever it was, a second claim of the operation raises, and
  what any other operation replays is unchanged.
\<close>

theorem journal_replays_result:
  assumes "dir_ok sha256 ids dir" and "i \<in> ids"
    and "claim_operation (file_journal_ops sha256) i subject act target token dir = Inr (e, dir1)"
  shows "\<exists>dir2. complete_operation (file_journal_ops sha256) i result dir1 = Inr dir2 \<and>
    read_or_replay (file_journal_ops sha256) i dir2 = Inr (Some result) \<and>
    (\<forall>s a t tok. claim_operation (file_journal_ops sha256) i s a t tok dir2 =
       Inl (OperationJournalError ''conflicting_claim'' [i, a, t])) \<and>
    (\<forall>j \<in> ids. j \<noteq> i \<longrightarrow>
       read_or_replay (file_journal_ops sha256) j dir2 = read_or_replay (file_journal_ops sha256) j dir1)"
proof -
  have c: "dir_ok sha256 ids dir1" "dir_entries sha256 dir1 i = Some e"
    using file_journal.claim_enters [OF assms] by simp_all
  then obtain dir2 where d: "complete_operation (file_journal_ops sha256) i result dir1 = Inr dir2"
    "dir_ok sha256 ids dir2" "read_or_replay (file_journal_ops sha256) i dir2 = Inr (Some result)"
    "\<forall>j \<in> ids. j \<noteq> i \<longrightarrow>
       read_or_replay (file_journal_ops sha256) j dir2 = read_or_replay (file_journal_ops sha256) j dir1"
    using file_journal.complete_replays [OF c(1) assms(2) c(2), of result] by blast
  have "dict_has dir2 (journal_path sha256 i)"
    using d(1) by (auto simp: complete_operation_def move_or_raise_def file_journal_ops_def
        file_transition_def Let_def bind_res_Inr_iff dict_keys_set split: option.splits if_splits)
  then show ?thesis
    using d by (auto simp: claim_operation_def file_journal_ops_def file_claim_def)
qed

definition example_hash :: "string \<Rightarrow> string" where
  "example_hash s = replicate 8 CHR ''0''"

lemma example_dir_ok: "dir_ok example_hash {''a'', ''b''} []"
proof -
  have "journal_path example_hash ''a'' = ''a.json''" "journal_path example_hash ''b'' = ''b.json''"
    by code_simp+
  then show ?thesis by (simp add: dir_ok_def)
qed

lemma example_claim:
  "\<exists>e dir. claim_operation (file_journal_ops example_hash) ''a'' ''u'' ''compact'' ''t'' ''p'' [] = Inr (e, dir)"
proof -
  have "case claim_operation (file_journal_ops example_hash) ''a'' ''u'' ''compact'' ''t'' ''p'' [] of
      Inr _ \<Rightarrow> True | Inl _ \<Rightarrow> False"
    by code_simp
  then show ?thesis by (auto split: sum.splits)
qed

lemma journal_replays_result_witness:
  "\<exists>dir1 dir2. complete_operation (file_journal_ops example_hash) ''a'' [(''accepted'', JBool True)] dir1 = Inr dir2 \<and>
    read_or_replay (file_journal_ops example_hash) ''a'' dir2 = Inr (Some [(''accepted'', JBool True)])"
proof -
  obtain e dir1 where "claim_operation (file_journal_ops example_hash) ''a'' ''u'' ''compact'' ''t'' ''p'' [] = Inr (e, dir1)"
    using example_claim by blast
  from journal_replays_result [OF example_dir_ok _ this, of "[(''accepted'', JBool True)]"]
  show ?thesis by auto
qed

text \<open>
  An unknown outcome blocks. Once a recorded operation is marked unknown, replaying it raises and
  claiming it again raises, until it is reconciled; then replay returns the reconciled result.
\<close>

theorem journal_unknown_blocks:
  assumes "dir_ok sha256 ids dir" and "i \<in> ids" and "dir_entries sha256 dir i = Some e"
  shows "\<exists>dir1. mark_unknown (file_journal_ops sha256) i dir = Inr dir1 \<and>
    read_or_replay (file_journal_ops sha256) i dir1 =
      Inl (OperationJournalError ''unknown_outcome_blocks_replay'' [i]) \<and>
    claim_operation (file_journal_ops sha256) i subject act target token dir1 =
      Inl (OperationJournalError ''conflicting_claim'' [i, act, target]) \<and>
    (\<exists>dir2. reconcile_unknown (file_journal_ops sha256) i result dir1 = Inr dir2 \<and>
       read_or_replay (file_journal_ops sha256) i dir2 = Inr (Some result))"
  using file_journal.unknown_blocks [OF assms, of subject act target token result] by blast

lemma journal_unknown_blocks_witness:
  "\<exists>dir dir1. mark_unknown (file_journal_ops example_hash) ''a'' dir = Inr dir1 \<and>
    read_or_replay (file_journal_ops example_hash) ''a'' dir1 =
      Inl (OperationJournalError ''unknown_outcome_blocks_replay'' [''a''])"
proof -
  obtain e dir where c: "claim_operation (file_journal_ops example_hash) ''a'' ''u'' ''compact'' ''t'' ''p'' [] = Inr (e, dir)"
    using example_claim by blast
  have "dir_ok example_hash {''a'', ''b''} dir" "dir_entries example_hash dir ''a'' = Some e"
    using file_journal.claim_enters [OF example_dir_ok _ c] by simp_all
  from journal_unknown_blocks [OF this(1) _ this(2)] show ?thesis by blast
qed

section \<open>One active claim\<close>

text \<open>The active record of a file on an action and a target.\<close>

definition is_json_name :: "string \<Rightarrow> bool" where
  "is_json_name f \<longleftrightarrow> drop (length f - 5) f = ''.json''"

definition active_on :: "journal_dir \<Rightarrow> string \<Rightarrow> json \<Rightarrow> json \<Rightarrow> bool" where
  "active_on dir f act target \<longleftrightarrow>
     is_json_name f \<and>
     (\<exists>content d st. dict_get dir f = Some content \<and> journal_record content = Some d \<and>
        dict_get d ''action'' = Some act \<and> dict_get d ''target'' = Some target \<and>
        state_of_json (the (dict_get d ''state'')) = Inr st \<and> st \<in> set active_states)"

definition one_active :: "journal_dir \<Rightarrow> bool" where
  "one_active dir \<longleftrightarrow>
     (\<forall>f g act target. active_on dir f act target \<and> active_on dir g act target \<longrightarrow> f = g)"

text \<open>
  The processes that share a journal directory, as its callers (\<open>create_backup\<close>, \<open>apply_restore\<close>,
  \<open>apply_upgrade\<close>, the maintenance commands and the two API routes) use it: a process claims an operation,
  marks it submitted, and ends its work on it by marking it unknown or by completing it, or is cut off; an
  operator reconciles an operation that no process is working on. The store itself keeps no such order: its
  \<open>transition\<close> accepts any state for a record that exists (\<open>late_mark_two_active\<close> below). So the state of the
  journal is taken together with the operations that a process is working on.
\<close>

type_synonym journal_world = "journal_dir \<times> string set"

inductive journal_step :: "(string \<Rightarrow> string) \<Rightarrow> journal_world \<Rightarrow> journal_world \<Rightarrow> bool" for sha256 where
  claim: "claim_operation (file_journal_ops sha256) i subject act target token dir = Inr (e, dir') \<Longrightarrow>
    journal_step sha256 (dir, working) (dir', insert i working)"
| submit: "i \<in> working \<Longrightarrow> mark_submitted (file_journal_ops sha256) i dir = Inr dir' \<Longrightarrow>
    journal_step sha256 (dir, working) (dir', working)"
| unknown: "i \<in> working \<Longrightarrow> mark_unknown (file_journal_ops sha256) i dir = Inr dir' \<Longrightarrow>
    journal_step sha256 (dir, working) (dir', working - {i})"
| complete: "i \<in> working \<Longrightarrow> complete_operation (file_journal_ops sha256) i result dir = Inr dir' \<Longrightarrow>
    journal_step sha256 (dir, working) (dir', working - {i})"
| cut_off: "journal_step sha256 (dir, working) (dir, working - {i})"
| reconcile: "journal_path sha256 i \<notin> journal_path sha256 ` working \<Longrightarrow>
    reconcile_unknown (file_journal_ops sha256) i result dir = Inr dir' \<Longrightarrow>
    journal_step sha256 (dir, working) (dir', working)"

text \<open>
  What every call keeps: beside exclusion, that each operation worked on is active in the directory, under a
  file of its own. That is why a mark of its own process never brings back an operation that has ended.
\<close>

definition journal_inv :: "(string \<Rightarrow> string) \<Rightarrow> journal_world \<Rightarrow> bool" where
  "journal_inv sha256 w \<longleftrightarrow>
     one_active (fst w) \<and> inj_on (journal_path sha256) (snd w) \<and>
     (\<forall>i \<in> snd w. \<exists>a t. active_on (fst w) (journal_path sha256 i) a t)"

lemma active_claim_False:
  "active_claim entry rs = Inr False \<Longrightarrow> r \<in> set rs \<Longrightarrow>
     dict_get r ''action'' = Some (JStr (je_action entry)) \<Longrightarrow>
     dict_get r ''target'' = Some (JStr (je_target entry)) \<Longrightarrow>
     \<exists>st. state_of_json (the (dict_get r ''state'')) = Inr st \<and> st \<notin> set active_states"
  by (induction rs) (auto simp: bind_res_Inr_iff split: if_splits)

lemma in_iter_records:
  "dict_get dir f = Some content \<Longrightarrow> is_json_name f \<Longrightarrow> journal_record content = Some d \<Longrightarrow>
     d \<in> set (iter_records dir)"
  by (auto simp: iter_records_def map_filter_set is_json_name_def intro!: bexI [of _ "(f, content)"]
      dest: map_of_SomeD)

lemma is_json_path: "is_json_name (journal_path sha256 i)"
  by (simp add: is_json_name_def journal_path_def)

lemma active_on_set:
  "active_on (dict_set dir f content) g a t \<longleftrightarrow>
     (if g = f then is_json_name f \<and> (\<exists>d st. journal_record content = Some d \<and>
          dict_get d ''action'' = Some a \<and> dict_get d ''target'' = Some t \<and>
          state_of_json (the (dict_get d ''state'')) = Inr st \<and> st \<in> set active_states)
      else active_on dir g a t)"
  by (auto simp: active_on_def)

lemma claim_one_active:
  assumes "one_active dir"
    and "claim_operation (file_journal_ops sha256) i subject act target token dir = Inr (e, dir')"
  shows "one_active dir'"
proof -
  let ?p = "journal_path sha256 i"
  have e: "je_operation_id e = i" "je_action e = act" "je_target e = target" "je_state e = JS_CLAIMED"
    and c: "file_claim sha256 dir e = Inr (True, dir')"
    using assms(2) by (auto simp: claim_operation_def file_journal_ops_def Let_def bind_res_Inr_iff split: if_splits)
  have new: "dir' = dict_set dir ?p (Some (JObj (entry_to_dict e)))"
    and idle: "active_claim e (iter_records dir) = Inr False"
    using c e by (auto simp: file_claim_def Let_def bind_res_Inr_iff split: if_splits)
  have free: "\<not> active_on dir g (JStr act) (JStr target)" for g
  proof
    assume "active_on dir g (JStr act) (JStr target)"
    then obtain content d st where g: "is_json_name g" "dict_get dir g = Some content"
      "journal_record content = Some d" "dict_get d ''action'' = Some (JStr act)"
      "dict_get d ''target'' = Some (JStr target)" "state_of_json (the (dict_get d ''state'')) = Inr st"
      "st \<in> set active_states"
      unfolding active_on_def by blast
    show False
      using active_claim_False [OF idle in_iter_records [OF g(2,1,3)]] g e by auto
  qed
  have "active_on dir' g a t \<longleftrightarrow> (if g = ?p then a = JStr act \<and> t = JStr target \<and> active_on dir' g a t
      else active_on dir g a t)" for g a t
    unfolding new active_on_set by (auto simp: journal_record_def entry_to_dict_def e)
  then show ?thesis using assms(1) free unfolding one_active_def by metis
qed

lemma move_one_active:
  assumes "one_active dir" and "move_or_raise (file_journal_ops sha256) i st r dir = Inr dir'"
    and "st \<in> set active_states \<Longrightarrow> \<exists>a t. active_on dir (journal_path sha256 i) a t"
  shows "one_active dir'"
proof -
  let ?p = "journal_path sha256 i"
  obtain content d where d: "dict_get dir ?p = Some content" "file_document content = Inr d"
    and dir': "dir' = dict_set dir ?p (Some (JObj (dict_set (dict_set d ''state'' (JStr (journal_value st)))
      ''result'' (json_object_opt r))))"
    using assms(2) by (auto simp: move_or_raise_def file_journal_ops_def file_transition_def Let_def
        bind_res_Inr_iff split: option.splits if_splits)
  have content: "content = Some (JObj d)"
    using d(2) by (auto simp: file_document_def split: option.splits json.splits)
  have "active_on dir' g a t \<Longrightarrow> active_on dir g a t" for g a t
  proof (cases "g = ?p")
    case False
    then show "active_on dir' g a t \<Longrightarrow> active_on dir g a t" unfolding dir' active_on_set by simp
  next
    case True
    assume "active_on dir' g a t"
    then have act: "st \<in> set active_states" "dict_get d ''action'' = Some a" "dict_get d ''target'' = Some t"
      unfolding dir' active_on_set True by (auto simp: journal_record_def state_of_json_def split: if_splits)
    then obtain a' t' where "active_on dir ?p a' t'" using assms(3) by blast
    then show "active_on dir g a t"
      using act d(1) unfolding active_on_def True by (auto simp: journal_record_def content split: if_splits)
  qed
  then show ?thesis using assms(1) unfolding one_active_def by blast
qed

lemma result_state_final: "result_state r \<notin> set active_states"
  by (simp add: result_state_def active_states_def split: option.splits)

text \<open>A move of the operation \<open>i\<close> leaves every other file as it is; a move to an active state keeps \<open>i\<close> active.\<close>

lemma move_keeps_active:
  assumes "move_or_raise (file_journal_ops sha256) i st r dir = Inr dir'" and "active_on dir f a t"
    and "f \<noteq> journal_path sha256 i \<or> st \<in> set active_states"
  shows "active_on dir' f a t"
proof -
  obtain content d where d: "dict_get dir (journal_path sha256 i) = Some content" "file_document content = Inr d"
    and dir': "dir' = dict_set dir (journal_path sha256 i)
      (Some (JObj (dict_set (dict_set d ''state'' (JStr (journal_value st))) ''result'' (json_object_opt r))))"
    using assms(1) by (auto simp: move_or_raise_def file_journal_ops_def file_transition_def Let_def
        bind_res_Inr_iff split: option.splits if_splits)
  have content: "content = Some (JObj d)"
    using d(2) by (auto simp: file_document_def split: option.splits json.splits)
  show ?thesis
  proof (cases "f = journal_path sha256 i")
    case False
    then show ?thesis using assms(2) unfolding dir' active_on_set by simp
  next
    case True
    then have "st \<in> set active_states" using assms(3) by simp
    then show ?thesis
      using assms(2) d(1) unfolding dir' active_on_set True active_on_def
      by (auto simp: content journal_record_def state_of_json_def dict_has_get split: if_splits)
  qed
qed

lemma move_inv:
  assumes "journal_inv sha256 (dir, working)" and "move_or_raise (file_journal_ops sha256) i st r dir = Inr dir'"
    and "st \<in> set active_states \<Longrightarrow> i \<in> working" and "working' \<subseteq> working"
    and "st \<notin> set active_states \<Longrightarrow> \<forall>j \<in> working'. journal_path sha256 j \<noteq> journal_path sha256 i"
  shows "journal_inv sha256 (dir', working')"
proof -
  have "one_active dir'"
    using move_one_active [OF _ assms(2)] assms(1,3) by (auto simp: journal_inv_def)
  moreover have "\<exists>a t. active_on dir' (journal_path sha256 j) a t" if j: "j \<in> working'" for j
  proof -
    obtain a t where "active_on dir (journal_path sha256 j) a t"
      using assms(1,4) j unfolding journal_inv_def snd_conv fst_conv by blast
    from move_keeps_active [OF assms(2) this] assms(5) j show ?thesis by blast
  qed
  ultimately show ?thesis using assms(1,4) by (auto simp: journal_inv_def intro: inj_on_subset)
qed

lemma inv_path_distinct:
  "journal_inv sha256 (dir, working) \<Longrightarrow> i \<in> working \<Longrightarrow>
     \<forall>j \<in> working - {i}. journal_path sha256 j \<noteq> journal_path sha256 i"
  by (auto simp: journal_inv_def dest: inj_onD)

lemma claim_inv:
  assumes "journal_inv sha256 (dir, working)"
    and "claim_operation (file_journal_ops sha256) i subject act target token dir = Inr (e, dir')"
  shows "journal_inv sha256 (dir', insert i working)"
proof -
  let ?p = "journal_path sha256 i"
  have e: "je_operation_id e = i" "je_state e = JS_CLAIMED" and c: "file_claim sha256 dir e = Inr (True, dir')"
    using assms(2) by (auto simp: claim_operation_def file_journal_ops_def Let_def bind_res_Inr_iff split: if_splits)
  have new: "dir' = dict_set dir ?p (Some (JObj (entry_to_dict e)))" and fresh: "\<not> dict_has dir ?p"
    using c e by (auto simp: file_claim_def Let_def bind_res_Inr_iff split: if_splits)
  have other: "journal_path sha256 j \<noteq> ?p" if "j \<in> working" for j
    using assms(1) that fresh by (auto simp: journal_inv_def active_on_def dict_has_get)
  have claimed: "journal_coerce ''claimed'' = Inr JS_CLAIMED" using journal_coerce_value [of JS_CLAIMED] by simp
  have "active_on dir' ?p (JStr (je_action e)) (JStr (je_target e))"
    unfolding new active_on_set
    by (simp add: is_json_path journal_record_def entry_to_dict_def e state_of_json_def active_states_def claimed)
  moreover have "\<exists>a t. active_on dir' (journal_path sha256 j) a t" if "j \<in> working" for j
    using assms(1) that other [OF that] unfolding new active_on_set by (simp add: journal_inv_def)
  moreover have "one_active dir'" using claim_one_active [OF _ assms(2)] assms(1) by (simp add: journal_inv_def)
  moreover have "inj_on (journal_path sha256) (insert i working)"
  proof -
    have "?p \<notin> journal_path sha256 ` working" using other by (metis imageE)
    then have "?p \<notin> journal_path sha256 ` (working - {i})" by blast
    then show ?thesis using assms(1) by (simp add: journal_inv_def inj_on_insert)
  qed
  ultimately show ?thesis by (auto simp: journal_inv_def)
qed

lemma step_inv: "journal_step sha256 w w' \<Longrightarrow> journal_inv sha256 w \<Longrightarrow> journal_inv sha256 w'"
proof (induction rule: journal_step.induct)
  case (claim i subject act target token dir e dir' working)
  then show ?case using claim_inv by blast
next
  case (submit i working dir dir')
  then show ?case
    using move_inv [of sha256 dir working i JS_SUBMITTED None dir' working]
    by (simp add: mark_submitted_def active_states_def)
next
  case (unknown i working dir dir')
  then show ?case
    using move_inv [of sha256 dir working i JS_UNKNOWN None dir' "working - {i}"]
    by (simp add: mark_unknown_def active_states_def)
next
  case (complete i working result dir dir')
  then show ?case
    using move_inv [of sha256 dir working i "result_state result" "Some result" dir' "working - {i}"]
      result_state_final [of result] inv_path_distinct [of sha256 dir working i]
    by (simp add: complete_operation_def)
next
  case (cut_off dir working i)
  then show ?case by (auto simp: journal_inv_def intro: inj_on_subset)
next
  case (reconcile i working result dir dir')
  have "\<forall>j \<in> working. journal_path sha256 j \<noteq> journal_path sha256 i" using reconcile(1) by (metis imageI)
  with reconcile show ?case
    using move_inv [of sha256 dir working i "result_state result" "Some result" dir' working]
      result_state_final [of result]
    by (simp add: reconcile_unknown_def)
qed

text \<open>
  C23: exclusion. Processes share a journal directory, nothing being worked on at first, and call the journal
  in any interleaving: each claims operations, marks and completes those it claimed and is still working on,
  and may be cut off at any point; operations nobody works on may be reconciled. Then there is never more than
  one active operation (claimed, submitted or unknown) for an action and target.
\<close>

theorem journal_one_active:
  assumes "(journal_step sha256)\<^sup>*\<^sup>* (dir, {}) (dir', working)" and "one_active dir"
  shows "one_active dir'"
proof -
  have "journal_inv sha256 w'" if "(journal_step sha256)\<^sup>*\<^sup>* w w'" "journal_inv sha256 w" for w w'
    using that by (induction rule: rtranclp_induct) (auto intro: step_inv)
  from this [OF assms(1)] assms(2) show ?thesis by (simp add: journal_inv_def)
qed

lemma journal_one_active_witness:
  "\<exists>e dir dir'. claim_operation (file_journal_ops example_hash) ''a'' ''u'' ''compact'' ''t'' ''p'' [] = Inr (e, dir) \<and>
     mark_submitted (file_journal_ops example_hash) ''a'' dir = Inr dir' \<and> one_active dir'"
proof -
  obtain e dir where c: "claim_operation (file_journal_ops example_hash) ''a'' ''u'' ''compact'' ''t'' ''p'' [] = Inr (e, dir)"
    using example_claim by blast
  have "dir_ok example_hash {''a'', ''b''} dir" "dir_entries example_hash dir ''a'' = Some e"
    using file_journal.claim_enters [OF example_dir_ok _ c] by simp_all
  then obtain dir' where m: "mark_submitted (file_journal_ops example_hash) ''a'' dir = Inr dir'"
    using file_journal.move_known [of example_hash "{''a'', ''b''}" dir "''a''" e JS_SUBMITTED None]
    by (auto simp: mark_submitted_def)
  have "journal_step example_hash ([], {}) (dir, {''a''})" by (rule journal_step.claim [OF c])
  moreover have "journal_step example_hash (dir, {''a''}) (dir', {''a''})" by (rule journal_step.submit [OF _ m]) simp
  ultimately have "(journal_step example_hash)\<^sup>*\<^sup>* ([], {}) (dir', {''a''})" by simp
  moreover have "one_active []" by (simp add: one_active_def active_on_def)
  ultimately show ?thesis using journal_one_active c m by blast
qed

definition late_mark_run :: "journal_dir res" where
  "late_mark_run =
     bind_res (claim_operation (file_journal_ops example_hash) ''a'' ''u'' ''compact'' ''t'' ''p'' []) (\<lambda>(_, s).
     bind_res (complete_operation (file_journal_ops example_hash) ''a'' [(''accepted'', JBool True)] s) (\<lambda>s.
     bind_res (claim_operation (file_journal_ops example_hash) ''b'' ''u'' ''compact'' ''t'' ''p'' s) (\<lambda>(_, s).
     mark_submitted (file_journal_ops example_hash) ''a'' s)))"

text \<open>
  The order matters: the store does not check the state a record is in. A mark of an operation that was already
  completed, after another operation on the same target was claimed, leaves both active.
\<close>

lemma late_mark_two_active:
  "\<exists>dir e e'. late_mark_run = Inr dir \<and> dir_entries example_hash dir ''a'' = Some e \<and>
     dir_entries example_hash dir ''b'' = Some e' \<and> je_action e = je_action e' \<and> je_target e = je_target e' \<and>
     je_state e = JS_SUBMITTED \<and> je_state e' = JS_CLAIMED"
proof -
  have "case late_mark_run of
      Inl _ \<Rightarrow> False
    | Inr dir \<Rightarrow> (case (dir_entries example_hash dir ''a'', dir_entries example_hash dir ''b'') of
        (Some e, Some e') \<Rightarrow> je_action e = je_action e' \<and> je_target e = je_target e' \<and>
          je_state e = JS_SUBMITTED \<and> je_state e' = JS_CLAIMED
      | _ \<Rightarrow> False)"
    by code_simp
  then show ?thesis by (auto split: sum.splits option.splits)
qed

definition memory_run :: "memory_journal res" where
  "memory_run =
     bind_res (claim_operation memory_journal_ops ''a'' ''u'' ''compact'' ''t'' ''p'' []) (\<lambda>(_, s).
     bind_res (complete_operation memory_journal_ops ''a'' [(''accepted'', JBool True)] s) (\<lambda>s.
     bind_res (claim_operation memory_journal_ops ''a'' ''u'' ''compact'' ''t'' ''p'' s) (\<lambda>(_, s).
     bind_res (claim_operation memory_journal_ops ''b'' ''u'' ''compact'' ''t'' ''p'' s) (\<lambda>(_, s). Inr s))))"

text \<open>
  The in-memory store is no model of the protocol. It grants a second claim on the same action and
  target under another operation id, and it grants a claim on an operation that already succeeded,
  whose recorded result is then lost to replay.
\<close>

theorem memory_journal_reclaims:
  "\<exists>s. memory_run = Inr s \<and> read_or_replay memory_journal_ops ''a'' s = Inr None \<and>
     (\<exists>e e'. dict_get s ''a'' = Some e \<and> dict_get s ''b'' = Some e' \<and>
        je_state e = JS_CLAIMED \<and> je_state e' = JS_CLAIMED \<and>
        je_action e = je_action e' \<and> je_target e = je_target e')"
  by (simp add: memory_run_def claim_operation_def complete_operation_def move_or_raise_def
      memory_journal_ops_def memory_claim_def memory_transition_def memory_read_def read_or_replay_def
      result_state_def Let_def)

end
