(* ===== verification/Access_Governance.thy ===== *)
theory Access_Governance
  imports Phlo_Json
begin

text \<open>
  \<open>phlo/compliance/governance\<close>: access reviews and separation of duties (\<open>types.py\<close>), emergency access
  (\<open>break_glass.py\<close>), dormancy (\<open>dormant.py\<close>), recertification campaigns (\<open>recertification.py\<close>) and the
  activity monitor (\<open>activity.py\<close>). Fresh ids and the current time are arguments. Where the code
  parses or compares a time it is an instant in microseconds; the text of an instant is the
  argument \<open>iso_text\<close>. The order in which a set is iterated is the argument \<open>order\<close>.
\<close>

section \<open>Reviews and separation of duties\<close>

datatype review_status = RS_PENDING | RS_APPROVED | RS_DENIED | RS_EXPIRED | RS_REVOKED

datatype review_type = RT_INITIAL | RT_PERIODIC | RT_EMERGENCY | RT_CERTIFICATION

definition review_type_coerce :: "string \<Rightarrow> review_type res" where
  "review_type_coerce s =
     (if s = ''initial'' then Inr RT_INITIAL
      else if s = ''periodic'' then Inr RT_PERIODIC
      else if s = ''emergency'' then Inr RT_EMERGENCY
      else if s = ''certification'' then Inr RT_CERTIFICATION
      else Inl (ValueError (py_repr s @ '' is not a valid AccessReviewType'')))"

record access_reviewer =
  av_subject :: string
  av_name :: "string option"
  av_email :: "string option"

record access_review =
  rv_review_id :: string
  rv_principal_subject :: string
  rv_principal_type :: string
  rv_resource_type :: string
  rv_resource_id :: string
  rv_action :: string
  rv_review_type :: review_type
  rv_status :: review_status
  rv_reviewers :: "access_reviewer list"
  rv_requested_at :: string
  rv_decided_at :: "string option"
  rv_decided_by :: "string option"
  rv_justification :: "string option"
  rv_notes :: "string option"
  rv_compliance_domain :: "string option"

record sod_violation =
  sv_principal_subject :: string
  sv_conflicting_roles :: "string list"
  sv_policy_id :: string
  sv_message :: string

record sod_policy =
  sp_policy_id :: string
  sp_description :: string
  sp_conflicting_roles :: "string list"
  sp_severity :: string

type_synonym sod_order = "string set \<Rightarrow> string list"

definition set_text :: "string list \<Rightarrow> string" where
  "set_text xs = ''{'' @ str_join '', '' (map py_repr xs) @ ''}''"

definition check_violation :: "sod_order \<Rightarrow> sod_policy \<Rightarrow> string list \<Rightarrow> sod_violation option" where
  "check_violation order policy roles =
     (let conflicting = set (sp_conflicting_roles policy) \<inter> set roles in
      if card conflicting \<ge> 2
      then Some \<lparr>sv_principal_subject = [], sv_conflicting_roles = order conflicting,
                 sv_policy_id = sp_policy_id policy,
                 sv_message = ''Roles '' @ set_text (order conflicting) @ '' violate SoD policy '' @
                   sp_policy_id policy @ '': '' @ sp_description policy\<rparr>
      else None)"

definition DEFAULT_SOD_POLICIES :: "sod_policy list" where
  "DEFAULT_SOD_POLICIES =
     [\<lparr>sp_policy_id = ''sod-data-admin'',
       sp_description = ''Data admin and data write access should not be held by same principal'',
       sp_conflicting_roles = [''data_admin'', ''data_write''], sp_severity = ''high''\<rparr>,
      \<lparr>sp_policy_id = ''sod-payment'',
       sp_description = ''Payment approval and initiation should be separate roles'',
       sp_conflicting_roles = [''payment_approver'', ''payment_initiator''], sp_severity = ''high''\<rparr>]"

definition check_separation_of_duties :: "sod_order \<Rightarrow> string \<Rightarrow> string list \<Rightarrow> sod_policy list option
    \<Rightarrow> sod_violation list" where
  "check_separation_of_duties order subject roles policies =
     List.map_filter (\<lambda>p. map_option (\<lambda>v. v\<lparr>sv_principal_subject := subject\<rparr>) (check_violation order p roles))
       (case policies of None \<Rightarrow> DEFAULT_SOD_POLICIES | Some ps \<Rightarrow> ps)"

section \<open>Emergency access\<close>

datatype bg_status = BG_PENDING | BG_APPROVED | BG_DENIED | BG_EXPIRED | BG_REVOKED

fun bg_value :: "bg_status \<Rightarrow> string" where
  "bg_value BG_PENDING = ''pending''"
| "bg_value BG_APPROVED = ''approved''"
| "bg_value BG_DENIED = ''denied''"
| "bg_value BG_EXPIRED = ''expired''"
| "bg_value BG_REVOKED = ''revoked''"

record bg_request =
  bg_request_id :: string
  bg_principal_subject :: string
  bg_principal_type :: string
  bg_resource_type :: string
  bg_resource_id :: string
  bg_action :: string
  bg_justification :: string
  bg_urgency :: string
  bg_state :: bg_status
  bg_requested_at :: int
  bg_approved_at :: "int option"
  bg_approved_by :: "string option"
  bg_expires_at :: "int option"
  bg_denied_by :: "string option"
  bg_denied_at :: "int option"
  bg_denial_reason :: "string option"
  bg_revoked_by :: "string option"
  bg_revoked_at :: "int option"
  bg_revocation_reason :: "string option"

record bg_approval =
  ba_request_id :: string
  ba_approved_by :: string
  ba_approved_at :: int
  ba_validity_hours :: int
  ba_conditions :: "string option"

record bg_manager =
  bm_requests :: "(string, bg_request) dict"
  bm_default_validity_hours :: int

definition int_or :: "int option \<Rightarrow> int \<Rightarrow> int" where
  "int_or v dflt = (case v of None \<Rightarrow> dflt | Some n \<Rightarrow> if n = 0 then dflt else n)"

definition new_manager :: "int option \<Rightarrow> bg_manager" where
  "new_manager default_validity_hours =
     \<lparr>bm_requests = [], bm_default_validity_hours = int_or default_validity_hours 24\<rparr>"

definition hours :: "int \<Rightarrow> int" where
  "hours n = n * 3600000000"

record access_target =
  at_principal_subject :: string
  at_principal_type :: string
  at_resource_type :: string
  at_resource_id :: string
  at_action :: string

definition create_request :: "string \<Rightarrow> int \<Rightarrow> bg_manager \<Rightarrow> access_target \<Rightarrow> string \<Rightarrow> string
    \<Rightarrow> bg_request \<times> bg_manager" where
  "create_request request_id now m t justification urgency =
     (let request =
        \<lparr>bg_request_id = request_id, bg_principal_subject = at_principal_subject t,
         bg_principal_type = at_principal_type t, bg_resource_type = at_resource_type t,
         bg_resource_id = at_resource_id t, bg_action = at_action t,
         bg_justification = justification, bg_urgency = urgency, bg_state = BG_PENDING,
         bg_requested_at = now, bg_approved_at = None, bg_approved_by = None, bg_expires_at = None,
         bg_denied_by = None, bg_denied_at = None, bg_denial_reason = None, bg_revoked_by = None,
         bg_revoked_at = None, bg_revocation_reason = None\<rparr>
      in (request, m\<lparr>bm_requests := dict_set (bm_requests m) request_id request\<rparr>))"

definition with_request :: "bg_manager \<Rightarrow> string \<Rightarrow> (bg_request \<Rightarrow> 'a res) \<Rightarrow> 'a res" where
  "with_request m request_id f =
     (case dict_get (bm_requests m) request_id of
        None \<Rightarrow> Inl (ValueError (''Request not found: '' @ request_id))
      | Some request \<Rightarrow> f request)"

definition put_request :: "bg_manager \<Rightarrow> string \<Rightarrow> bg_request \<Rightarrow> bg_manager" where
  "put_request m request_id request = m\<lparr>bm_requests := dict_set (bm_requests m) request_id request\<rparr>"

text \<open>\<open>now\<close> is read for the expiry, \<open>now'\<close> a moment later for the approval time.\<close>

definition approve :: "int \<Rightarrow> int \<Rightarrow> bg_manager \<Rightarrow> string \<Rightarrow> string \<Rightarrow> int option \<Rightarrow> string option
    \<Rightarrow> (bg_approval \<times> bg_manager) res" where
  "approve now now' m request_id approved_by validity_hours conditions =
     with_request m request_id (\<lambda>request.
       if bg_state request \<noteq> BG_PENDING
       then Inl (ValueError (''Request not pending: '' @ bg_value (bg_state request)))
       else
         let h = int_or validity_hours (bm_default_validity_hours m) in
         Inr (\<lparr>ba_request_id = request_id, ba_approved_by = approved_by, ba_approved_at = now',
               ba_validity_hours = h, ba_conditions = conditions\<rparr>,
              put_request m request_id (request
                \<lparr>bg_state := BG_APPROVED, bg_approved_at := Some now',
                 bg_approved_by := Some approved_by, bg_expires_at := Some (now + hours h)\<rparr>)))"

definition deny :: "int \<Rightarrow> bg_manager \<Rightarrow> string \<Rightarrow> string \<Rightarrow> string \<Rightarrow> bg_manager res" where
  "deny now m request_id denied_by reason =
     (if denied_by = [] then Inl (ValueError ''denied_by must not be empty'')
      else if reason = [] then Inl (ValueError ''reason must not be empty'')
      else with_request m request_id (\<lambda>request.
        if bg_state request \<noteq> BG_PENDING
        then Inl (ValueError (''Request not pending: '' @ bg_value (bg_state request)))
        else Inr (put_request m request_id (request
               \<lparr>bg_state := BG_DENIED, bg_denied_by := Some denied_by, bg_denied_at := Some now,
                bg_denial_reason := Some reason\<rparr>))))"

definition revoke :: "int \<Rightarrow> bg_manager \<Rightarrow> string \<Rightarrow> string \<Rightarrow> string \<Rightarrow> bg_manager res" where
  "revoke now m request_id revoked_by reason =
     (if revoked_by = [] then Inl (ValueError ''revoked_by must not be empty'')
      else if reason = [] then Inl (ValueError ''reason must not be empty'')
      else with_request m request_id (\<lambda>request.
        if bg_state request \<noteq> BG_APPROVED
        then Inl (ValueError (''Request not approved: '' @ bg_value (bg_state request)))
        else Inr (put_request m request_id (request
               \<lparr>bg_state := BG_REVOKED, bg_revoked_by := Some revoked_by, bg_revoked_at := Some now,
                bg_revocation_reason := Some reason\<rparr>))))"

definition get_request :: "bg_manager \<Rightarrow> string \<Rightarrow> bg_request option" where
  "get_request m request_id = dict_get (bm_requests m) request_id"

definition is_valid :: "int \<Rightarrow> bg_manager \<Rightarrow> string \<Rightarrow> bool" where
  "is_valid now m request_id \<longleftrightarrow>
     (case get_request m request_id of
        None \<Rightarrow> False
      | Some request \<Rightarrow>
          bg_state request = BG_APPROVED \<and>
          (case bg_expires_at request of None \<Rightarrow> True | Some e \<Rightarrow> now < e))"

definition create_emergency_review :: "string \<Rightarrow> string \<Rightarrow> bg_request \<Rightarrow> access_review" where
  "create_emergency_review review_id requested_at request =
     \<lparr>rv_review_id = review_id, rv_principal_subject = bg_principal_subject request,
      rv_principal_type = bg_principal_type request, rv_resource_type = bg_resource_type request,
      rv_resource_id = bg_resource_id request, rv_action = bg_action request,
      rv_review_type = RT_EMERGENCY,
      rv_status = (if bg_state request = BG_APPROVED then RS_APPROVED else RS_DENIED),
      rv_reviewers = [], rv_requested_at = requested_at, rv_decided_at = None, rv_decided_by = None,
      rv_justification = Some (bg_justification request),
      rv_notes = Some (''Break-glass request '' @ bg_request_id request),
      rv_compliance_domain = None\<rparr>"

section \<open>Dormancy\<close>

record dormancy_threshold =
  dt_max_inactive_days :: int
  dt_warning_days :: int
  dt_review_type :: string

definition default_threshold :: dormancy_threshold where
  "default_threshold = \<lparr>dt_max_inactive_days = 90, dt_warning_days = 60, dt_review_type = ''periodic''\<rparr>"

record dormant_principal =
  dp_principal_subject :: string
  dp_principal_type :: string
  dp_last_activity :: int
  dp_days_inactive :: int
  dp_severity :: string
  dp_should_review :: bool

text \<open>\<open>timedelta.days\<close> rounds towards minus infinity.\<close>

definition whole_days :: "int \<Rightarrow> int" where
  "whole_days delta = delta div 86400000000"

definition check_dormancy :: "dormancy_threshold \<Rightarrow> string \<Rightarrow> string \<Rightarrow> int \<Rightarrow> int \<Rightarrow> dormant_principal option" where
  "check_dormancy threshold subject ptype last_activity reference_time =
     (let days = whole_days (reference_time - last_activity);
          dormant = (\<lambda>severity. Some
            \<lparr>dp_principal_subject = subject, dp_principal_type = ptype, dp_last_activity = last_activity,
             dp_days_inactive = days, dp_severity = severity, dp_should_review = True\<rparr>)
      in if days \<ge> dt_max_inactive_days threshold then dormant ''high''
         else if days \<ge> dt_warning_days threshold then dormant ''medium''
         else None)"

text \<open>The dictionaries of the batch hold a subject, a type and the last activity.\<close>

definition check_batch :: "dormancy_threshold \<Rightarrow> (string \<times> string \<times> int) list \<Rightarrow> int \<Rightarrow> dormant_principal list" where
  "check_batch threshold principals reference_time =
     List.map_filter (\<lambda>(subject, ptype, last). check_dormancy threshold subject ptype last reference_time)
       principals"

definition create_dormancy_review :: "(int \<Rightarrow> string) \<Rightarrow> string \<Rightarrow> string \<Rightarrow> dormant_principal \<Rightarrow> string option
    \<Rightarrow> access_review" where
  "create_dormancy_review iso_text review_id requested_at d rtype =
     \<lparr>rv_review_id = review_id, rv_principal_subject = dp_principal_subject d,
      rv_principal_type = dp_principal_type d, rv_resource_type = ''account'',
      rv_resource_id = dp_principal_subject d, rv_action = ''access.recertify'',
      rv_review_type =
        (case review_type_coerce (case rtype of None \<Rightarrow> ''periodic'' | Some t \<Rightarrow> if t = [] then ''periodic'' else t) of
           Inr rt \<Rightarrow> rt | Inl _ \<Rightarrow> RT_PERIODIC),
      rv_status = RS_PENDING, rv_reviewers = [], rv_requested_at = requested_at, rv_decided_at = None,
      rv_decided_by = None,
      rv_justification = Some (''Dormant account detected: '' @ int_str (dp_days_inactive d) @ '' days inactive''),
      rv_notes = Some (''Last activity: '' @ iso_text (dp_last_activity d)), rv_compliance_domain = None\<rparr>"

section \<open>Recertification campaigns\<close>

datatype campaign_status = CS_DRAFT | CS_ACTIVE | CS_COMPLETED | CS_CANCELLED | CS_OVERDUE

record campaign =
  ca_campaign_id :: string
  ca_name :: string
  ca_description :: "string option"
  ca_compliance_domain :: "string option"
  ca_status :: campaign_status
  ca_created_at :: int
  ca_deadline :: "int option"
  ca_completed_at :: "int option"
  ca_reviews :: "string list"

record campaign_summary =
  cs_campaign_id :: string
  cs_total_reviews :: nat
  cs_completed :: nat
  cs_pending :: nat
  cs_denied :: nat
  cs_overdue :: nat

type_synonym campaigns = "(string, campaign) dict"

definition create_campaign :: "string \<Rightarrow> int \<Rightarrow> int \<Rightarrow> campaigns \<Rightarrow> string \<Rightarrow> string option \<Rightarrow> string option
    \<Rightarrow> int \<Rightarrow> campaign \<times> campaigns" where
  "create_campaign campaign_id now created_at cs name description domain deadline_days =
     (let c = \<lparr>ca_campaign_id = campaign_id, ca_name = name, ca_description = description,
               ca_compliance_domain = domain, ca_status = CS_DRAFT, ca_created_at = created_at,
               ca_deadline = (if deadline_days > 0 then Some (now + hours (24 * deadline_days)) else None),
               ca_completed_at = None, ca_reviews = []\<rparr>
      in (c, dict_set cs campaign_id c))"

definition with_campaign :: "campaigns \<Rightarrow> string \<Rightarrow> (campaign \<Rightarrow> campaign) \<Rightarrow> campaigns res" where
  "with_campaign cs campaign_id f =
     (case dict_get cs campaign_id of
        None \<Rightarrow> Inl (ValueError (''Campaign not found: '' @ campaign_id))
      | Some c \<Rightarrow> Inr (dict_set cs campaign_id (f c)))"

definition add_review :: "campaigns \<Rightarrow> string \<Rightarrow> access_review \<Rightarrow> campaigns res" where
  "add_review cs campaign_id review =
     with_campaign cs campaign_id (\<lambda>c.
       c\<lparr>ca_reviews := ca_reviews c @ [rv_review_id review], ca_status := CS_ACTIVE\<rparr>)"

definition get_review_status :: "string \<Rightarrow> string" where
  "get_review_status review_id = ''pending''"

text \<open>The completion rate of the summary is \<open>cs_completed / cs_total_reviews\<close>, 0 without reviews.\<close>

definition get_campaign_summary :: "campaigns \<Rightarrow> string \<Rightarrow> campaign_summary option" where
  "get_campaign_summary cs campaign_id =
     (case dict_get cs campaign_id of
        None \<Rightarrow> None
      | Some c \<Rightarrow>
          (let number = (\<lambda>st. length (filter (\<lambda>r. get_review_status r = st) (ca_reviews c))) in
           Some \<lparr>cs_campaign_id = campaign_id, cs_total_reviews = length (ca_reviews c),
                 cs_completed = number ''completed'', cs_pending = number ''pending'',
                 cs_denied = number ''denied'', cs_overdue = number ''overdue''\<rparr>))"

definition complete_campaign :: "int \<Rightarrow> campaigns \<Rightarrow> string \<Rightarrow> campaigns res" where
  "complete_campaign now cs campaign_id =
     with_campaign cs campaign_id (\<lambda>c. c\<lparr>ca_status := CS_COMPLETED, ca_completed_at := Some now\<rparr>)"

record attestation =
  tt_attestation_id :: string
  tt_principal_subject :: string
  tt_reviewer_subject :: string
  tt_attestations :: "string list"
  tt_created_at :: int
  tt_expires_at :: "int option"
  tt_signature_hash :: "string option"

definition create_attestation :: "string \<Rightarrow> int \<Rightarrow> int \<Rightarrow> string \<Rightarrow> string \<Rightarrow> string list \<Rightarrow> int option
    \<Rightarrow> attestation" where
  "create_attestation attestation_id now created_at subject reviewer attestations expires_days =
     \<lparr>tt_attestation_id = attestation_id, tt_principal_subject = subject, tt_reviewer_subject = reviewer,
      tt_attestations = attestations, tt_created_at = created_at,
      tt_expires_at = (case expires_days of
         None \<Rightarrow> None | Some d \<Rightarrow> if d > 0 then Some (now + hours (24 * d)) else None),
      tt_signature_hash = None\<rparr>"

section \<open>The activity monitor\<close>

record access_activity =
  ac_activity_id :: string
  ac_principal_subject :: string
  ac_principal_type :: string
  ac_action :: string
  ac_resource_type :: string
  ac_resource_id :: string
  ac_timestamp :: string
  ac_result :: string
  ac_roles :: "string list"

record activity_monitor =
  am_policies :: "sod_policy list"
  am_activities :: "(string, access_activity list) dict"
  am_violations :: "sod_violation list"

record activity_summary =
  as_principal_subject :: string
  as_total_accesses :: nat
  as_unique_resources :: nat
  as_actions_performed :: "string list"
  as_last_access :: "string option"
  as_detected_violations :: nat

definition new_monitor :: "sod_policy list option \<Rightarrow> activity_monitor" where
  "new_monitor policies =
     \<lparr>am_policies = (case policies of None \<Rightarrow> [] | Some ps \<Rightarrow> ps), am_activities = [], am_violations = []\<rparr>"

definition record_activity :: "string \<Rightarrow> string \<Rightarrow> activity_monitor \<Rightarrow> access_target \<Rightarrow> string list option
    \<Rightarrow> string \<Rightarrow> access_activity \<times> activity_monitor" where
  "record_activity activity_id timestamp m t roles result =
     (let activity = \<lparr>ac_activity_id = activity_id, ac_principal_subject = at_principal_subject t,
            ac_principal_type = at_principal_type t, ac_action = at_action t,
            ac_resource_type = at_resource_type t, ac_resource_id = at_resource_id t,
            ac_timestamp = timestamp, ac_result = result,
            ac_roles = (case roles of None \<Rightarrow> [] | Some rs \<Rightarrow> rs)\<rparr>
      in (activity,
          m\<lparr>am_activities := dict_append (am_activities m) (at_principal_subject t) activity\<rparr>))"

definition check_sod_violations :: "sod_order \<Rightarrow> activity_monitor \<Rightarrow> string \<Rightarrow> string list
    \<Rightarrow> sod_violation list \<times> activity_monitor" where
  "check_sod_violations order m subject roles =
     (let violations = check_separation_of_duties order subject roles (Some (am_policies m))
      in (violations, m\<lparr>am_violations := am_violations m @ violations\<rparr>))"

definition principal_activities :: "activity_monitor \<Rightarrow> string \<Rightarrow> access_activity list" where
  "principal_activities m subject =
     (case dict_get (am_activities m) subject of None \<Rightarrow> [] | Some as \<Rightarrow> as)"

text \<open>A slice bound may be negative.\<close>

definition py_prefix :: "int \<Rightarrow> 'a list \<Rightarrow> 'a list" where
  "py_prefix n xs = (if n \<ge> 0 then take (nat n) xs else take (nat (int (length xs) + n)) xs)"

definition get_principal_activities :: "activity_monitor \<Rightarrow> string \<Rightarrow> int option \<Rightarrow> access_activity list" where
  "get_principal_activities m subject limit =
     (let sorted_activities = sorted_reverse ac_timestamp (principal_activities m subject)
      in case limit of None \<Rightarrow> sorted_activities | Some n \<Rightarrow> py_prefix n sorted_activities)"

definition get_activity_summary :: "sod_order \<Rightarrow> activity_monitor \<Rightarrow> string \<Rightarrow> activity_summary" where
  "get_activity_summary order m subject =
     (let activities = principal_activities m subject in
      if activities = []
      then \<lparr>as_principal_subject = subject, as_total_accesses = 0, as_unique_resources = 0,
            as_actions_performed = [], as_last_access = None, as_detected_violations = 0\<rparr>
      else \<lparr>as_principal_subject = subject, as_total_accesses = length activities,
            as_unique_resources = card (set (map (\<lambda>a. (ac_resource_type a, ac_resource_id a)) activities)),
            as_actions_performed = order (set (map ac_action activities)),
            as_last_access = Some (Max (set (map ac_timestamp activities))),
            as_detected_violations =
              length (filter (\<lambda>v. sv_principal_subject v = subject) (am_violations m))\<rparr>)"

end
