(* ===== verification/Access_Governance_Spec.thy ===== *)
theory Access_Governance_Spec
  imports Access_Governance
begin

text \<open>
  What access governance promises: the states of an emergency request and the evidence each carries,
  the end of emergency access, the detection of conflicting duties, and the bookkeeping of
  campaigns.
\<close>

section \<open>Emergency requests\<close>

text \<open>A request carries exactly the evidence of the decisions its state stands for.\<close>

definition undecided :: "bg_request \<Rightarrow> bool" where
  "undecided r \<longleftrightarrow> bg_approved_at r = None \<and> bg_approved_by r = None \<and> bg_expires_at r = None"

definition not_denied :: "bg_request \<Rightarrow> bool" where
  "not_denied r \<longleftrightarrow> bg_denied_by r = None \<and> bg_denied_at r = None \<and> bg_denial_reason r = None"

definition not_revoked :: "bg_request \<Rightarrow> bool" where
  "not_revoked r \<longleftrightarrow> bg_revoked_by r = None \<and> bg_revoked_at r = None \<and> bg_revocation_reason r = None"

definition given :: "string option \<Rightarrow> bool" where
  "given s \<longleftrightarrow> (\<exists>t. s = Some t \<and> t \<noteq> [])"

definition was_approved :: "bg_request \<Rightarrow> bool" where
  "was_approved r \<longleftrightarrow> bg_approved_at r \<noteq> None \<and> bg_approved_by r \<noteq> None \<and> bg_expires_at r \<noteq> None"

fun evidence :: "bg_status \<Rightarrow> bg_request \<Rightarrow> bool" where
  "evidence BG_PENDING r \<longleftrightarrow> undecided r \<and> not_denied r \<and> not_revoked r"
| "evidence BG_APPROVED r \<longleftrightarrow> was_approved r \<and> not_denied r \<and> not_revoked r"
| "evidence BG_DENIED r \<longleftrightarrow> undecided r \<and> given (bg_denied_by r) \<and> bg_denied_at r \<noteq> None \<and>
     given (bg_denial_reason r) \<and> not_revoked r"
| "evidence BG_REVOKED r \<longleftrightarrow> was_approved r \<and> not_denied r \<and> given (bg_revoked_by r) \<and>
     bg_revoked_at r \<noteq> None \<and> given (bg_revocation_reason r)"
| "evidence BG_EXPIRED r \<longleftrightarrow> False"

definition request_ok :: "bg_request \<Rightarrow> bool" where
  "request_ok r \<longleftrightarrow> evidence (bg_state r) r"

text \<open>The calls of a manager, at any times; a created id is new, as \<open>uuid4\<close> makes it.\<close>

inductive bg_step :: "bg_manager \<Rightarrow> bg_manager \<Rightarrow> bool" where
  created: "\<not> dict_has (bm_requests m) i \<Longrightarrow> create_request i now m t j u = (r, m') \<Longrightarrow> bg_step m m'"
| approved: "approve now now' m i by h c = Inr (a, m') \<Longrightarrow> bg_step m m'"
| denied: "deny now m i by reason = Inr m' \<Longrightarrow> bg_step m m'"
| revoked: "revoke now m i by reason = Inr m' \<Longrightarrow> bg_step m m'"

text \<open>How one request moves: untouched, approved or denied from pending, revoked from approved.\<close>

inductive request_move :: "bg_request \<Rightarrow> bg_request \<Rightarrow> bool" where
  same: "request_move r r"
| approves: "bg_state r = BG_PENDING \<Longrightarrow> request_move r (r\<lparr>bg_state := BG_APPROVED, bg_approved_at := Some a,
    bg_approved_by := Some b, bg_expires_at := Some e\<rparr>)"
| denies: "bg_state r = BG_PENDING \<Longrightarrow> b \<noteq> [] \<Longrightarrow> d \<noteq> [] \<Longrightarrow>
    request_move r (r\<lparr>bg_state := BG_DENIED, bg_denied_by := Some b, bg_denied_at := Some a, bg_denial_reason := Some d\<rparr>)"
| revokes: "bg_state r = BG_APPROVED \<Longrightarrow> b \<noteq> [] \<Longrightarrow> d \<noteq> [] \<Longrightarrow>
    request_move r (r\<lparr>bg_state := BG_REVOKED, bg_revoked_by := Some b, bg_revoked_at := Some a,
      bg_revocation_reason := Some d\<rparr>)"

inductive_cases request_moveE: "request_move r r'"

lemma with_request_Inr:
  "with_request m i f = Inr x \<longleftrightarrow> (\<exists>r. get_request m i = Some r \<and> f r = Inr x)"
  by (auto simp: with_request_def get_request_def split: option.splits)

lemma get_put: "get_request (put_request m i r) j = (if j = i then Some r else get_request m j)"
  by (simp add: get_request_def put_request_def)

lemma step_moves:
  assumes "bg_step m m'" and "get_request m i = Some r"
  shows "\<exists>r'. get_request m' i = Some r' \<and> request_move r r'"
  using assms
proof (induction rule: bg_step.induct)
  case (created m j now t just u q m')
  then have "i \<noteq> j" by (auto simp: get_request_def dict_has_get)
  then show ?case using created by (auto simp: create_request_def Let_def get_request_def intro: request_move.same)
next
  case (approved now now' m j "by" h c a m')
  then show ?case
    by (auto simp: approve_def with_request_Inr Let_def get_put intro!: request_move.intros split: if_splits)
next
  case (denied now m j "by" reason m')
  then show ?case
    by (auto simp: deny_def with_request_Inr get_put intro!: request_move.intros split: if_splits)
next
  case (revoked now m j "by" reason m')
  then show ?case
    by (auto simp: revoke_def with_request_Inr get_put intro!: request_move.intros split: if_splits)
qed

lemma steps_moves:
  assumes "bg_step\<^sup>*\<^sup>* m m'" and "get_request m i = Some r"
  shows "\<exists>r'. get_request m' i = Some r' \<and> request_move\<^sup>*\<^sup>* r r'"
  using assms
proof (induction rule: rtranclp_induct)
  case (step m1 m2)
  then obtain r1 where "get_request m1 i = Some r1" "request_move\<^sup>*\<^sup>* r r1" by blast
  then show ?case using step_moves [OF step.hyps(2)] rtranclp.rtrancl_into_rtrancl by metis
qed blast

lemma step_new:
  assumes "bg_step m m'" and "get_request m i = None" and "get_request m' i = Some r"
  shows "bg_state r = BG_PENDING \<and> request_ok r"
  using assms
proof (induction rule: bg_step.induct)
  case (created m j now t just u q m')
  then show ?case
    by (auto simp: create_request_def Let_def get_request_def request_ok_def undecided_def not_denied_def
        not_revoked_def split: if_splits)
next
  case (approved now now' m j "by" h c a m')
  then show ?case by (auto simp: approve_def with_request_Inr Let_def get_put split: if_splits)
next
  case (denied now m j "by" reason m')
  then show ?case by (auto simp: deny_def with_request_Inr get_put split: if_splits)
next
  case (revoked now m j "by" reason m')
  then show ?case by (auto simp: revoke_def with_request_Inr get_put split: if_splits)
qed

lemma move_ok: "request_move r r' \<Longrightarrow> request_ok r \<Longrightarrow> request_ok r'"
  by (induction rule: request_move.induct)
    (auto simp: request_ok_def undecided_def not_denied_def not_revoked_def was_approved_def given_def)

text \<open>
  C24: an emergency request and its evidence. In every state a manager can reach, a pending request
  carries no decision, an approved one its approver, approval and expiry times, a denied or revoked
  one in addition a non-empty name and reason; no request is ever in the state \<open>expired\<close>.
\<close>

theorem emergency_evidence:
  assumes "bg_step\<^sup>*\<^sup>* (new_manager h) m" and "get_request m i = Some r"
  shows "request_ok r"
  using assms
proof (induction arbitrary: r rule: rtranclp_induct)
  case base
  then show ?case by (simp add: new_manager_def get_request_def)
next
  case (step m1 m2)
  show ?case
  proof (cases "get_request m1 i")
    case None
    then show ?thesis using step_new [OF step.hyps(2)] step.prems by blast
  next
    case (Some r1)
    then show ?thesis using step_moves [OF step.hyps(2) Some] step.IH [OF Some] step.prems move_ok by fastforce
  qed
qed

definition example_target :: access_target where
  "example_target = \<lparr>at_principal_subject = ''ann'', at_principal_type = ''user'', at_resource_type = ''dataset'',
     at_resource_id = ''t'', at_action = ''dataset.read''\<rparr>"

definition example_manager :: bg_manager where
  "example_manager = snd (create_request ''r'' 0 (new_manager None) example_target ''outage'' ''high'')"

lemma example_approved: "\<exists>a m. approve 0 0 example_manager ''r'' ''bob'' (Some 1) None = Inr (a, m)"
  by (simp add: approve_def with_request_def example_manager_def create_request_def new_manager_def Let_def)

lemma example_created: "bg_step (new_manager None) example_manager"
  unfolding example_manager_def
  by (rule bg_step.created [where i = "''r''" and now = 0 and t = example_target and j = "''outage''" and u = "''high''"])
    (auto simp: new_manager_def prod_eq_iff)

lemma emergency_evidence_witness:
  "\<exists>a m r. approve 0 0 example_manager ''r'' ''bob'' (Some 1) None = Inr (a, m) \<and>
     get_request m ''r'' = Some r \<and> bg_state r = BG_APPROVED \<and> request_ok r"
proof -
  obtain a m where a: "approve 0 0 example_manager ''r'' ''bob'' (Some 1) None = Inr (a, m)"
    using example_approved by blast
  then obtain r where r: "get_request m ''r'' = Some r" "bg_state r = BG_APPROVED"
    by (auto simp: approve_def with_request_Inr Let_def get_put split: if_splits)
  have "bg_step\<^sup>*\<^sup>* (new_manager None) m"
    using example_created bg_step.approved [OF a] by (meson converse_rtranclp_into_rtranclp rtranclp.rtrancl_refl)
  from emergency_evidence [OF this r(1)] show ?thesis using a r by blast
qed

lemma move_expired:
  "request_move\<^sup>*\<^sup>* r r' \<Longrightarrow> bg_state r \<noteq> BG_PENDING \<Longrightarrow>
     bg_state r' \<noteq> BG_PENDING \<and> (bg_state r' = BG_APPROVED \<longrightarrow> bg_state r = BG_APPROVED \<and> bg_expires_at r' = bg_expires_at r)"
  by (induction rule: rtranclp_induct) (auto elim!: request_moveE)

text \<open>
  Emergency access ends for good. Once a request has been decided and does not grant access at some
  time, it never grants access again: not at a later time, and not after any further calls.
\<close>

theorem emergency_access_ends:
  assumes "bg_step\<^sup>*\<^sup>* m m'" and "get_request m i = Some r" and "bg_state r \<noteq> BG_PENDING"
    and "\<not> is_valid now m i" and "now \<le> now'"
  shows "\<not> is_valid now' m' i"
proof -
  obtain r' where r': "get_request m' i = Some r'" "request_move\<^sup>*\<^sup>* r r'"
    using steps_moves [OF assms(1,2)] by blast
  show ?thesis
    using move_expired [OF r'(2) assms(3)] assms(2,4,5) r'(1)
    by (auto simp: is_valid_def split: option.splits)
qed

lemma emergency_access_ends_witness:
  "\<exists>a m. approve 0 0 example_manager ''r'' ''bob'' (Some 1) None = Inr (a, m) \<and>
     is_valid 3599999999 m ''r'' \<and> \<not> is_valid 3600000001 m ''r''"
proof -
  obtain a m where a: "approve 0 0 example_manager ''r'' ''bob'' (Some 1) None = Inr (a, m)"
    using example_approved by blast
  then obtain r where r: "get_request m ''r'' = Some r" "bg_state r = BG_APPROVED" "bg_expires_at r = Some 3600000000"
    by (auto simp: approve_def with_request_Inr Let_def get_put hours_def int_or_def split: if_splits)
  then have "\<not> is_valid 3600000000 m ''r''" "is_valid 3599999999 m ''r''" by (simp_all add: is_valid_def)
  with emergency_access_ends [of m m "''r''" r 3600000000 3600000001] a r show ?thesis by auto
qed

section \<open>Separation of duties\<close>

lemma card_two: "finite A \<Longrightarrow> card A \<ge> 2 \<longleftrightarrow> (\<exists>a b. a \<in> A \<and> b \<in> A \<and> a \<noteq> b)"
proof
  assume "finite A" "card A \<ge> 2"
  then show "\<exists>a b. a \<in> A \<and> b \<in> A \<and> a \<noteq> b" by (metis card_le_Suc0_iff_eq not_less_eq_eq numeral_2_eq_2)
next
  assume f: "finite A" and "\<exists>a b. a \<in> A \<and> b \<in> A \<and> a \<noteq> b"
  then obtain a b where "{a, b} \<subseteq> A" "a \<noteq> b" by blast
  then show "card A \<ge> 2" using card_mono [OF f, of "{a, b}"] by simp
qed

lemma check_violation_None:
  "check_violation order p roles = None \<longleftrightarrow>
     \<not> (\<exists>a b. a \<noteq> b \<and> {a, b} \<subseteq> set (sp_conflicting_roles p) \<inter> set roles)"
  using card_two [of "set (sp_conflicting_roles p) \<inter> set roles"]
  by (auto simp: check_violation_def Let_def)

text \<open>
  Conflicts are found exactly. A principal has no violation exactly when no policy names two different
  roles it holds, whatever order sets are iterated in; with no policies given the default ones apply.
\<close>

theorem conflicting_duties_exact:
  "check_separation_of_duties order subject roles policies = [] \<longleftrightarrow>
     \<not> (\<exists>p a b. p \<in> set (case policies of None \<Rightarrow> DEFAULT_SOD_POLICIES | Some ps \<Rightarrow> ps) \<and> a \<noteq> b \<and>
          {a, b} \<subseteq> set (sp_conflicting_roles p) \<inter> set roles)"
proof -
  have "List.map_filter (\<lambda>p. map_option (\<lambda>v. v\<lparr>sv_principal_subject := subject\<rparr>) (check_violation order p roles)) ps = []
      \<longleftrightarrow> (\<forall>p \<in> set ps. check_violation order p roles = None)" for ps
    by (induction ps) (auto simp: map_filter_simps split: option.splits)
  then show ?thesis unfolding check_separation_of_duties_def check_violation_None by blast
qed

section \<open>Campaigns\<close>

text \<open>
  A campaign never makes progress. Whatever its state, the summary counts every review as pending
  and none as completed, after the campaign was completed too.
\<close>

theorem campaign_never_progresses:
  "case complete_campaign now cs i of
     Inl e \<Rightarrow> get_campaign_summary cs i = None
   | Inr cs' \<Rightarrow> \<exists>c s. dict_get cs' i = Some c \<and> ca_status c = CS_COMPLETED \<and>
       get_campaign_summary cs' i = Some s \<and> cs_completed s = 0 \<and> cs_pending s = length (ca_reviews c)"
  by (auto simp: complete_campaign_def with_campaign_def get_campaign_summary_def get_review_status_def Let_def
      split: option.splits)

end
