(* ===== verification/Signatures.thy ===== *)
theory Signatures
  imports Phlo_Text Audit_Events
begin

text \<open>
  \<open>phlo/compliance/signatures\<close>: signature requests and sealed signature records (\<open>types.py\<close>), the
  step-up challenges (\<open>step_up.py\<close>) and the signature service (\<open>service.py\<close>). The keyed hash, the
  digest, the settings, fresh ids and the current time are arguments.
\<close>

section \<open>Requests and records\<close>

datatype signature_meaning = SM_APPROVED | SM_RELEASED | SM_REVIEWED | SM_ACKNOWLEDGED | SM_AUTHORED

fun meaning_value :: "signature_meaning \<Rightarrow> string" where
  "meaning_value SM_APPROVED = ''approved''"
| "meaning_value SM_RELEASED = ''released''"
| "meaning_value SM_REVIEWED = ''reviewed''"
| "meaning_value SM_ACKNOWLEDGED = ''acknowledged''"
| "meaning_value SM_AUTHORED = ''authored''"

text \<open>The two settings are \<open>phlo_signature_hmac_key\<close> and \<open>phlo_audit_hmac_key\<close>.\<close>

definition signature_hmac_key :: "string option \<Rightarrow> string option \<Rightarrow> bool \<Rightarrow> string res" where
  "signature_hmac_key signature_key audit_key regulated =
     (case str_or signature_key audit_key of
        Some k \<Rightarrow>
          if k \<noteq> [] then Inr k
          else if regulated
          then Inl (RuntimeError ''PHLO_SIGNATURE_HMAC_KEY or PHLO_AUDIT_HMAC_KEY is required in regulated mode'')
          else Inr ''phlo-dev-signature-key''
      | None \<Rightarrow>
          if regulated
          then Inl (RuntimeError ''PHLO_SIGNATURE_HMAC_KEY or PHLO_AUDIT_HMAC_KEY is required in regulated mode'')
          else Inr ''phlo-dev-signature-key'')"

record signature_request =
  sgq_signer_subject :: string
  sgq_meaning :: signature_meaning
  sgq_record_type :: string
  sgq_record_id :: string
  sgq_record_version :: string
  sgq_action :: string
  sgq_justification :: "string option"

record signature_record =
  sgr_signature_id :: string
  sgr_signer_subject :: string
  sgr_meaning :: signature_meaning
  sgr_record_type :: string
  sgr_record_id :: string
  sgr_record_version :: string
  sgr_action :: string
  sgr_justification :: "string option"
  sgr_signed_at :: string
  sgr_authentication_assurance :: string
  sgr_signature_hash :: string

definition canonical_payload :: "signature_record \<Rightarrow> string" where
  "canonical_payload r =
     json_dumps '', '' '': '' (JObj
       [(''signature_id'', JStr (sgr_signature_id r)),
        (''signer_subject'', JStr (sgr_signer_subject r)),
        (''meaning'', JStr (meaning_value (sgr_meaning r))),
        (''record_type'', JStr (sgr_record_type r)),
        (''record_id'', JStr (sgr_record_id r)),
        (''record_version'', JStr (sgr_record_version r)),
        (''action'', JStr (sgr_action r)),
        (''justification'', json_opt (sgr_justification r)),
        (''signed_at'', JStr (sgr_signed_at r)),
        (''authentication_assurance'', JStr (sgr_authentication_assurance r))])"

type_synonym keyed_hash = "string \<Rightarrow> string \<Rightarrow> string"

text \<open>\<open>key\<close> is what \<open>_get_signature_hmac_key()\<close> answers.\<close>

definition signature_from_request :: "keyed_hash \<Rightarrow> string res \<Rightarrow> string \<Rightarrow> string \<Rightarrow> signature_request \<Rightarrow> string
    \<Rightarrow> signature_record res" where
  "signature_from_request hmac key fresh_id now request assurance =
     (let r = \<lparr>sgr_signature_id = fresh_id, sgr_signer_subject = sgq_signer_subject request,
          sgr_meaning = sgq_meaning request, sgr_record_type = sgq_record_type request,
          sgr_record_id = sgq_record_id request, sgr_record_version = sgq_record_version request,
          sgr_action = sgq_action request, sgr_justification = sgq_justification request,
          sgr_signed_at = now, sgr_authentication_assurance = assurance, sgr_signature_hash = []\<rparr>
      in bind_res key (\<lambda>k. Inr (r\<lparr>sgr_signature_hash := hmac k (canonical_payload r)\<rparr>)))"

text \<open>\<open>compare_digest\<close> raises on a text that is not ASCII; the computed digest is hexadecimal.\<close>

definition has_valid_hash :: "keyed_hash \<Rightarrow> string res \<Rightarrow> signature_record \<Rightarrow> bool res" where
  "has_valid_hash hmac key r =
     (if sgr_signature_hash r = [] then Inr False
      else bind_res key (\<lambda>k.
        if \<not> list_all (\<lambda>c. ord c < 128) (sgr_signature_hash r) then Inl TypeError
        else Inr (hmac k (canonical_payload r) = sgr_signature_hash r)))"

section \<open>Step-up challenges\<close>

record auth_principal =
  ap_subject :: string
  ap_principal_type :: string
  ap_issuer :: "string option"
  ap_groups :: "string list"
  ap_claims :: "(string, json) dict"
  ap_attributes :: "(string, string) dict"

record auth_session =
  ss_principal :: auth_principal
  ss_auth_method :: string
  ss_provider_name :: string
  ss_attributes :: "(string, string) dict"

record step_up_result =
  su_success :: bool
  su_assurance_level :: string
  su_message :: "string option"

definition session_confirm_challenge :: "auth_session \<Rightarrow> step_up_result" where
  "session_confirm_challenge session =
     \<lparr>su_success = False, su_assurance_level = ''none'',
      su_message = Some ''No step-up verification mechanism is configured''\<rparr>"

definition new_mfa_challenge :: "int \<Rightarrow> int res" where
  "new_mfa_challenge max_age_seconds =
     (if max_age_seconds \<le> 0 then Inl (ValueError ''max_age_seconds must be positive'')
      else Inr max_age_seconds)"

definition step_up_denied :: "string \<Rightarrow> step_up_result" where
  "step_up_denied message = \<lparr>su_success = False, su_assurance_level = ''none'', su_message = Some message\<rparr>"

text \<open>The time is in microseconds; \<open>auth_time\<close> is an integer number of seconds.\<close>

definition recent_mfa_challenge :: "int \<Rightarrow> int \<Rightarrow> auth_session \<Rightarrow> step_up_result" where
  "recent_mfa_challenge max_age_seconds now session =
     (let attrs = ss_attributes session; claims = ap_claims (ss_principal session) in
      if ss_provider_name session \<noteq> ''jwt'' \<or> ss_auth_method session \<noteq> ''bearer_token'' \<or>
         ap_principal_type (ss_principal session) \<noteq> ''user'' \<or>
         \<not> str_truthy (dict_get attrs ''jwt_issuer'') \<or> \<not> str_truthy (dict_get attrs ''jwt_audience'') \<or>
         dict_get attrs ''jwt_issuer_validated'' \<noteq> Some ''true'' \<or>
         dict_get attrs ''jwt_audience_validated'' \<noteq> Some ''true''
      then step_up_denied ''A human JWT with configured issuer and audience validation is required''
      else (case (dict_get claims ''auth_time'', dict_get claims ''amr'') of
              (Some (JInt auth_time), Some (JList amr)) \<Rightarrow>
                (if JStr ''mfa'' \<notin> set amr
                 then step_up_denied ''Recent MFA authentication is required''
                 else let age = now - auth_time * 1000000 in
                   if age < 0 \<or> age > max_age_seconds * 1000000
                   then step_up_denied ''MFA authentication is stale''
                   else \<lparr>su_success = True, su_assurance_level = ''mfa'', su_message = None\<rparr>)
            | _ \<Rightarrow> step_up_denied ''Recent MFA authentication is required''))"

section \<open>The service\<close>

definition DEFAULT_CRITICAL_ACTIONS :: "string list" where
  "DEFAULT_CRITICAL_ACTIONS =
     [''dataset.publish'', ''asset.approve'', ''admin.manage'', ''settings.manage'', ''catalog.manage'']"

record 's signature_repository =
  rp_save :: "signature_record \<Rightarrow> 's \<Rightarrow> 's res"
  rp_save_idempotent :: "signature_record \<Rightarrow> string option \<Rightarrow> string option \<Rightarrow> 's \<Rightarrow> (signature_record \<times> 's) res"
  rp_consume :: "string \<Rightarrow> signature_request \<Rightarrow> 's \<Rightarrow> (bool \<times> 's) res"

record ('s, 'w) signature_service =
  sv_critical_actions :: "string list"
  sv_step_up :: "auth_session \<Rightarrow> step_up_result"
  sv_audit_emitter :: "'w audit_emitter option"
  sv_repository :: "'s signature_repository option"

definition require_signature :: "('s, 'w) signature_service \<Rightarrow> string \<Rightarrow> string \<Rightarrow> bool" where
  "require_signature svc act resource_type \<longleftrightarrow> act \<in> set (sv_critical_actions svc)"

definition signing_digest :: "(string \<Rightarrow> string) \<Rightarrow> signature_request \<Rightarrow> string" where
  "signing_digest sha256 request =
     sha256 (json_compact (JObj
       [(''signer_subject'', JStr (sgq_signer_subject request)),
        (''meaning'', JStr (meaning_value (sgq_meaning request))),
        (''record_type'', JStr (sgq_record_type request)),
        (''record_id'', JStr (sgq_record_id request)),
        (''record_version'', JStr (sgq_record_version request)),
        (''action'', JStr (sgq_action request)),
        (''justification'', json_opt (sgq_justification request))]))"

definition signature_event :: "string \<Rightarrow> string \<Rightarrow> signature_record \<Rightarrow> auth_session \<Rightarrow> canonical_audit_event" where
  "signature_event event_id now r session =
     (blank_event event_id now)
       \<lparr>ce_event_type := ''signature'', ce_surface := ''compliance'',
        ce_actor_subject := sgr_signer_subject r,
        ce_actor_type := ap_principal_type (ss_principal session),
        ce_actor_roles := ap_groups (ss_principal session),
        ce_authentication_source := (if ss_auth_method session = [] then ''unknown'' else ss_auth_method session),
        ce_action := ''signature.create'', ce_resource_type := sgr_record_type r,
        ce_resource_id := sgr_record_id r, ce_decision := ''allow'',
        ce_reason_code := ''signature_recorded'', ce_outcome := ''success'',
        ce_attributes :=
          [(''signature_id'', JStr (sgr_signature_id r)), (''meaning'', JStr (meaning_value (sgr_meaning r))),
           (''action'', JStr (sgr_action r)), (''record_version'', JStr (sgr_record_version r)),
           (''authentication_assurance'', JStr (sgr_authentication_assurance r)),
           (''signature_hash'', JStr (sgr_signature_hash r)), (''justification'', json_opt (sgr_justification r))]\<rparr>"

definition emit_signature_event :: "('s, 'w) signature_service \<Rightarrow> string \<Rightarrow> string \<Rightarrow> signature_record
    \<Rightarrow> auth_session \<Rightarrow> 'w \<Rightarrow> 'w \<times> unit res" where
  "emit_signature_event svc event_id now r session w =
     (case sv_audit_emitter svc of
        None \<Rightarrow> (w, Inr ())
      | Some em \<Rightarrow> emit_event em (signature_event event_id now r session) False w)"

text \<open>
  What a signing draws from its environment: the keyed hash and its key, the digest, the fresh
  signature and event ids and the two times.
\<close>

record signing_env =
  ev_hmac :: keyed_hash
  ev_key :: "string res"
  ev_sha256 :: "string \<Rightarrow> string"
  ev_signature_id :: string
  ev_signed_at :: string
  ev_event_id :: string
  ev_event_time :: string

definition store_signature :: "signing_env \<Rightarrow> 's signature_repository \<Rightarrow> signature_request \<Rightarrow> string option
    \<Rightarrow> signature_record \<Rightarrow> 's \<Rightarrow> (signature_record \<times> 's) res" where
  "store_signature env repo request idempotency_key r s =
     (case idempotency_key of
        None \<Rightarrow> bind_res (rp_save repo r s) (\<lambda>s'. Inr (r, s'))
      | Some k \<Rightarrow>
          rp_save_idempotent repo r (Some k) (Some (signing_digest (ev_sha256 env) request)) s)"

definition sign :: "signing_env \<Rightarrow> ('s, 'w) signature_service \<Rightarrow> signature_request \<Rightarrow> auth_session \<Rightarrow> string option
    \<Rightarrow> 's \<Rightarrow> 'w \<Rightarrow> (signature_record \<times> 's \<times> 'w) res" where
  "sign env svc request session idempotency_key s w =
     (if sgq_signer_subject request \<noteq> ap_subject (ss_principal session)
      then Inl (ValueError (''Signer subject mismatch: request='' @ sgq_signer_subject request @
             '', session='' @ ap_subject (ss_principal session)))
      else if sgq_action request = [] \<or> sgq_record_type request = [] \<or> sgq_record_id request = [] \<or>
              sgq_record_version request = []
      then Inl (ValueError ''Signature action, target, and target version are required'')
      else
        let step_up = sv_step_up svc session in
        if \<not> su_success step_up
        then Inl (PermissionError (''Step-up authentication failed: '' @ opt_text (su_message step_up)))
        else
          bind_res (signature_from_request (ev_hmac env) (ev_key env) (ev_signature_id env) (ev_signed_at env)
                      request (su_assurance_level step_up)) (\<lambda>r.
          case sv_repository svc of
            None \<Rightarrow> Inl (RuntimeError ''Durable signature storage is not configured'')
          | Some repo \<Rightarrow>
              bind_res (store_signature env repo request idempotency_key r s) (\<lambda>(stored, s').
                case emit_signature_event svc (ev_event_id env) (ev_event_time env) stored session w of
                  (w', outcome) \<Rightarrow> bind_res outcome (\<lambda>_. Inr (stored, s', w')))))"

definition verify_signature :: "('s, 'w) signature_service \<Rightarrow> string \<Rightarrow> signature_request \<Rightarrow> 's \<Rightarrow> (bool \<times> 's) res" where
  "verify_signature svc signature_id expected s =
     (case sv_repository svc of
        None \<Rightarrow> Inr (False, s)
      | Some repo \<Rightarrow> rp_consume repo signature_id expected s)"

end
