(* ===== verification/Identity_Authority.thy ===== *)
theory Identity_Authority
  imports Signatures
begin

text \<open>
  \<open>phlo/identity/authority.py\<close>: members, invitations, service accounts and single-use signatures, all
  held in one record of the settings store, which reads and replaces it atomically (so every
  operation is one function of that cell). Digest, keyed hash, fresh tokens and ids and the time are
  arguments; an expiry is an instant in microseconds, every other time is its text.
\<close>

section \<open>The stored state\<close>

record member_item =
  mi_email :: "string option"
  mi_principal_type :: string
  mi_roles :: "string list"
  mi_active :: bool
  mi_version :: int
  mi_created_at :: string
  mi_updated_at :: string

record invitation_item =
  ii_email :: string
  ii_roles :: "string list"
  ii_status :: string
  ii_invited_by :: string
  ii_expires_at :: int
  ii_created_at :: string
  ii_token_hash :: string

record account_item =
  ai_name :: string
  ai_roles :: "string list"
  ai_active :: bool
  ai_version :: int
  ai_created_at :: string
  ai_token_hash :: string

record stored_signature =
  st_record :: signature_record
  st_consumed_at :: "string option"

text \<open>The journal of idempotent operations holds service accounts and signatures side by side.\<close>

datatype operation_result = Made_Account string | Made_Signature string

record operation_item =
  oi_request_digest :: string
  oi_result :: operation_result
  oi_completed_at :: string

record identity_state =
  is_members :: "(string, member_item) dict"
  is_invitations :: "(string, invitation_item) dict"
  is_service_accounts :: "(string, account_item) dict"
  is_signatures :: "(string, stored_signature) dict"
  is_operations :: "(string, operation_item) dict"

definition IDENTITY_SCHEMA_VERSION :: int where
  "IDENTITY_SCHEMA_VERSION = 1"

definition empty_identity :: identity_state where
  "empty_identity = \<lparr>is_members = [], is_invitations = [], is_service_accounts = [], is_signatures = [],
     is_operations = []\<rparr>"

text \<open>
  The settings of the record: a field that is missing or not an object is \<open>None\<close>; for the journal,
  \<open>None\<close> is missing and \<open>Some None\<close> is not an object.
\<close>

record identity_cell =
  ic_schema_version :: json
  ic_members :: "(string, member_item) dict option"
  ic_invitations :: "(string, invitation_item) dict option"
  ic_service_accounts :: "(string, account_item) dict option"
  ic_signatures :: "(string, stored_signature) dict option"
  ic_operations :: "(string, operation_item) dict option option"

definition IDENTITY_UNAVAILABLE :: py_error where
  "IDENTITY_UNAVAILABLE = StorageCorruptionError ''Identity authority state is unavailable''"

definition validate_identity :: "identity_cell option \<Rightarrow> identity_state res" where
  "validate_identity cell =
     (case cell of
        None \<Rightarrow> Inr empty_identity
      | Some c \<Rightarrow>
          if \<not> json_eq (ic_schema_version c) (JInt IDENTITY_SCHEMA_VERSION) then Inl IDENTITY_UNAVAILABLE
          else (case (ic_members c, ic_invitations c, ic_service_accounts c, ic_signatures c) of
                  (Some ms, Some is, Some accts, Some sigs) \<Rightarrow>
                    (case ic_operations c of
                       None \<Rightarrow> Inr \<lparr>is_members = ms, is_invitations = is, is_service_accounts = accts,
                                    is_signatures = sigs, is_operations = []\<rparr>
                     | Some (Some ops) \<Rightarrow> Inr \<lparr>is_members = ms, is_invitations = is,
                                    is_service_accounts = accts, is_signatures = sigs, is_operations = ops\<rparr>
                     | Some None \<Rightarrow> Inl IDENTITY_UNAVAILABLE)
                | _ \<Rightarrow> Inl IDENTITY_UNAVAILABLE))"

definition identity_cell_of :: "identity_state \<Rightarrow> identity_cell option" where
  "identity_cell_of s =
     Some \<lparr>ic_schema_version = JInt IDENTITY_SCHEMA_VERSION, ic_members = Some (is_members s),
           ic_invitations = Some (is_invitations s), ic_service_accounts = Some (is_service_accounts s),
           ic_signatures = Some (is_signatures s), ic_operations = Some (Some (is_operations s))\<rparr>"

text \<open>\<open>_mutate\<close>: a mutation that raises leaves the record as it was.\<close>

definition mutate :: "(identity_state \<Rightarrow> ('a \<times> identity_state) res) \<Rightarrow> identity_cell option
    \<Rightarrow> ('a \<times> identity_cell option) res" where
  "mutate mutation cell =
     bind_res (validate_identity cell) (\<lambda>s.
     bind_res (mutation s) (\<lambda>(x, s'). Inr (x, identity_cell_of s')))"

section \<open>Roles and members\<close>

definition SUPPORTED_ROLES :: "string list" where
  "SUPPORTED_ROLES = [''admin'', ''operator'', ''developer'', ''analyst'', ''viewer'', ''service'']"

definition validate_roles :: "string list \<Rightarrow> string list res" where
  "validate_roles roles =
     (let canonical = sort (remdups roles) in
      if canonical = [] \<or> \<not> set canonical \<subseteq> set SUPPORTED_ROLES
      then Inl (ValueError ''One or more role names are invalid.'')
      else Inr canonical)"

definition member_of :: "identity_cell option \<Rightarrow> string \<Rightarrow> member_item option res" where
  "member_of cell subject =
     bind_res (validate_identity cell) (\<lambda>s. Inr (dict_get (is_members s) subject))"

definition members :: "identity_cell option \<Rightarrow> (string \<times> member_item) list res" where
  "members cell = bind_res (validate_identity cell) (\<lambda>s. Inr (sort_key fst (is_members s)))"

definition managed_roles :: "identity_cell option \<Rightarrow> string \<Rightarrow> string \<Rightarrow> string list option res" where
  "managed_roles cell subject principal_type =
     bind_res (validate_identity cell) (\<lambda>s.
       case dict_get (is_members s) subject of
         None \<Rightarrow>
           (case dict_get (is_service_accounts s) subject of
              None \<Rightarrow> Inr None
            | Some account \<Rightarrow> if \<not> ai_active account then Inr None else Inr (Some (ai_roles account)))
       | Some member \<Rightarrow>
           if mi_principal_type member \<noteq> principal_type \<or> \<not> mi_active member then Inr (Some [])
           else Inr (Some (mi_roles member)))"

definition IDENTITY_PRINCIPAL_TYPES :: "string list" where
  "IDENTITY_PRINCIPAL_TYPES = [''user'', ''service'', ''platform'']"

definition assign_in :: "string \<Rightarrow> string \<Rightarrow> string option \<Rightarrow> string \<Rightarrow> string list \<Rightarrow> int \<Rightarrow> bool
    \<Rightarrow> identity_state \<Rightarrow> (member_item \<times> identity_state) res" where
  "assign_in now subject email principal_type roles expected_version active s =
     (case dict_get (is_members s) subject of
        None \<Rightarrow>
          if expected_version = 0 then
            let item = \<lparr>mi_email = (if str_truthy email then map_option (\<lambda>e. py_casefold (py_strip e)) email else None),
                        mi_principal_type = principal_type, mi_roles = roles, mi_active = active,
                        mi_version = 1, mi_created_at = now, mi_updated_at = now\<rparr>
            in Inr (item, s\<lparr>is_members := dict_set (is_members s) subject item\<rparr>)
          else Inl (IdentityConflictError ''Member is missing or has changed.'')
      | Some existing \<Rightarrow>
          if mi_version existing \<noteq> expected_version
          then Inl (IdentityConflictError ''Member is missing or has changed.'')
          else
            let item = existing\<lparr>mi_email := str_or email (mi_email existing), mi_roles := roles,
                        mi_active := active, mi_version := expected_version + 1, mi_updated_at := now\<rparr>
            in Inr (item, s\<lparr>is_members := dict_set (is_members s) subject item\<rparr>))"

definition assign_roles :: "string \<Rightarrow> string \<Rightarrow> string option \<Rightarrow> string \<Rightarrow> string list \<Rightarrow> int \<Rightarrow> bool
    \<Rightarrow> identity_cell option \<Rightarrow> (member_item \<times> identity_cell option) res" where
  "assign_roles now subject email principal_type roles expected_version active cell =
     (if py_strip subject = [] \<or> principal_type \<notin> set IDENTITY_PRINCIPAL_TYPES
      then Inl (ValueError ''Identity subject or type is invalid.'')
      else bind_res (validate_roles roles) (\<lambda>canonical_roles.
        mutate (assign_in now subject email principal_type canonical_roles expected_version active) cell))"

section \<open>Invitations\<close>

definition create_invitation :: "(string \<Rightarrow> string) \<Rightarrow> (int \<Rightarrow> string) \<Rightarrow> string \<Rightarrow> string \<Rightarrow> int \<Rightarrow> string
    \<Rightarrow> string list \<Rightarrow> string \<Rightarrow> int \<Rightarrow> identity_cell option
    \<Rightarrow> ((string \<times> invitation_item \<times> string) \<times> identity_cell option) res" where
  "create_invitation sha256 iso_text invitation_id token created_at email roles invited_by ttl cell =
     (let normalized_email = py_casefold (py_strip email) in
      if CHR ''@'' \<notin> set normalized_email \<or> ttl \<le> 0
      then Inl (ValueError ''Invitation email or expiry is invalid.'')
      else bind_res (validate_roles roles) (\<lambda>canonical_roles.
        let item = \<lparr>ii_email = normalized_email, ii_roles = canonical_roles, ii_status = ''pending'',
                    ii_invited_by = invited_by, ii_expires_at = created_at + ttl,
                    ii_created_at = iso_text created_at, ii_token_hash = sha256 token\<rparr>
        in mutate (\<lambda>s.
             if \<exists>invite \<in> set (is_invitations s). ii_email (snd invite) = normalized_email \<and>
                  ii_status (snd invite) = ''pending''
             then Inl (IdentityConflictError ''A pending invitation already exists for this email.'')
             else Inr ((invitation_id, item, token),
                       s\<lparr>is_invitations := dict_set (is_invitations s) invitation_id item\<rparr>)) cell))"

definition invitations :: "identity_cell option \<Rightarrow> (string \<times> invitation_item) list res" where
  "invitations cell =
     bind_res (validate_identity cell) (\<lambda>s.
       Inr (sorted_reverse (\<lambda>i. ii_created_at (snd i)) (is_invitations s)))"

definition accept_in :: "int \<Rightarrow> string \<Rightarrow> string \<Rightarrow> string \<Rightarrow> string \<Rightarrow> string \<Rightarrow> identity_state
    \<Rightarrow> (member_item \<times> identity_state) res" where
  "accept_in now now_text token_hash subject normalized_email principal_type s =
     (case filter (\<lambda>i. ii_token_hash (snd i) = token_hash) (is_invitations s) of
        [(invitation_id, invite)] \<Rightarrow>
          if ii_status invite \<noteq> ''pending'' \<or> ii_email invite \<noteq> normalized_email \<or>
             ii_expires_at invite \<le> now \<or> dict_has (is_members s) subject
          then Inl (IdentityConflictError ''Invitation is invalid, expired, or already used.'')
          else
            let item = \<lparr>mi_email = Some normalized_email, mi_principal_type = principal_type,
                        mi_roles = ii_roles invite, mi_active = True, mi_version = 1,
                        mi_created_at = now_text, mi_updated_at = now_text\<rparr>
            in Inr (item, s\<lparr>is_members := dict_set (is_members s) subject item,
                            is_invitations := dict_set (is_invitations s) invitation_id
                              (invite\<lparr>ii_status := ''accepted''\<rparr>)\<rparr>)
      | _ \<Rightarrow> Inl (IdentityConflictError ''Invitation is invalid or already used.''))"

definition accept_invitation :: "(string \<Rightarrow> string) \<Rightarrow> int \<Rightarrow> string \<Rightarrow> string \<Rightarrow> string \<Rightarrow> string \<Rightarrow> string
    \<Rightarrow> identity_cell option \<Rightarrow> (member_item \<times> identity_cell option) res" where
  "accept_invitation sha256 now now_text token subject email principal_type cell =
     (if principal_type \<noteq> ''user'' \<or> py_strip subject = []
      then Inl (ValueError ''Only an authenticated user can accept an invitation.'')
      else mutate (accept_in now now_text (sha256 token) subject (py_casefold (py_strip email)) principal_type) cell)"

section \<open>Service accounts\<close>

definition insert_account :: "string \<Rightarrow> string option \<Rightarrow> string \<Rightarrow> string \<Rightarrow> account_item \<Rightarrow> identity_state
    \<Rightarrow> ((string \<times> account_item) \<times> identity_state) res" where
  "insert_account completed_at operation_id request_digest subject item s =
     (case (case operation_id of None \<Rightarrow> None | Some i \<Rightarrow> dict_get (is_operations s) i) of
        Some prior \<Rightarrow>
          if oi_request_digest prior \<noteq> request_digest
          then Inl (IdentityConflictError ''Idempotency key was already used for a different request.'')
          else Inl (IdentityConflictError ''Service account already exists; its one-time token is not replayed.'')
      | None \<Rightarrow>
          let s' = s\<lparr>is_service_accounts := dict_set (is_service_accounts s) subject item\<rparr> in
          Inr ((subject, item),
               case operation_id of
                 None \<Rightarrow> s'
               | Some i \<Rightarrow> s'\<lparr>is_operations := dict_set (is_operations s') i
                   \<lparr>oi_request_digest = request_digest, oi_result = Made_Account subject,
                    oi_completed_at = completed_at\<rparr>\<rparr>))"

definition create_service_account :: "(string \<Rightarrow> string) \<Rightarrow> string \<Rightarrow> string \<Rightarrow> string \<Rightarrow> string \<Rightarrow> string
    \<Rightarrow> string list \<Rightarrow> string option \<Rightarrow> string option \<Rightarrow> identity_cell option
    \<Rightarrow> (((string \<times> account_item) \<times> string) \<times> identity_cell option) res" where
  "create_service_account sha256 subject_token token created_at completed_at name roles idempotency_key actor_subject cell =
     (if py_strip name = [] then Inl (ValueError ''Service-account name is required.'')
      else if (case idempotency_key of None \<Rightarrow> False | Some k \<Rightarrow> py_strip k = [] \<or> \<not> str_truthy actor_subject)
      then Inl (ValueError ''An actor is required when using an idempotency key.'')
      else bind_res (validate_roles roles) (\<lambda>canonical_roles.
        let normalized_name = py_strip name;
            request_digest = sha256 (normalized_name @ CHR 0x00 # str_join '','' canonical_roles);
            operation_id = map_option (\<lambda>k. sha256 (opt_text actor_subject @ CHR 0x00 # k)) idempotency_key;
            item = \<lparr>ai_name = normalized_name, ai_roles = canonical_roles, ai_active = True, ai_version = 1,
                    ai_created_at = created_at, ai_token_hash = sha256 token\<rparr>
        in bind_res (mutate (insert_account completed_at operation_id request_digest
                       (''phlo-service:'' @ subject_token) item) cell) (\<lambda>(account, cell').
             Inr ((account, token), cell'))))"

definition service_accounts :: "identity_cell option \<Rightarrow> (string \<times> account_item) list res" where
  "service_accounts cell =
     bind_res (validate_identity cell) (\<lambda>s. Inr (sort_key fst (is_service_accounts s)))"

definition authenticate_service_token :: "(string \<Rightarrow> string) \<Rightarrow> identity_cell option \<Rightarrow> string
    \<Rightarrow> (string \<times> string) option res" where
  "authenticate_service_token sha256 cell token =
     bind_res (validate_identity cell) (\<lambda>s.
       Inr (map_option (\<lambda>(subject, item). (subject, ai_name item))
              (List.find (\<lambda>(subject, item). ai_active item \<and> ai_token_hash item = sha256 token)
                 (is_service_accounts s))))"

definition revoke_in :: "string \<Rightarrow> int \<Rightarrow> identity_state \<Rightarrow> ((string \<times> account_item) \<times> identity_state) res" where
  "revoke_in subject expected_version s =
     (case dict_get (is_service_accounts s) subject of
        None \<Rightarrow> Inl (IdentityConflictError ''Service account is missing or has changed.'')
      | Some item \<Rightarrow>
          if ai_version item \<noteq> expected_version \<or> \<not> ai_active item
          then Inl (IdentityConflictError ''Service account is missing or has changed.'')
          else
            let updated = item\<lparr>ai_active := False, ai_token_hash := [], ai_version := expected_version + 1\<rparr>
            in Inr ((subject, updated),
                    s\<lparr>is_service_accounts := dict_set (is_service_accounts s) subject updated\<rparr>))"

definition revoke_service_account :: "string \<Rightarrow> int \<Rightarrow> identity_cell option
    \<Rightarrow> ((string \<times> account_item) \<times> identity_cell option) res" where
  "revoke_service_account subject expected_version = mutate (revoke_in subject expected_version)"

section \<open>Signatures\<close>

definition insert_signature :: "string \<Rightarrow> string option \<Rightarrow> string option \<Rightarrow> signature_record \<Rightarrow> identity_state
    \<Rightarrow> (signature_record \<times> identity_state) res" where
  "insert_signature completed_at operation_id request_digest r s =
     (case (case operation_id of None \<Rightarrow> None | Some i \<Rightarrow> dict_get (is_operations s) i) of
        Some prior \<Rightarrow>
          if Some (oi_request_digest prior) \<noteq> request_digest
          then Inl (IdentityConflictError ''Idempotency key was already used for a different signature request.'')
          else (case oi_result prior of
                  Made_Account _ \<Rightarrow> Inl (KeyError ''signature_id'')
                | Made_Signature i \<Rightarrow>
                    (case dict_get (is_signatures s) i of
                       None \<Rightarrow> Inl IDENTITY_UNAVAILABLE
                     | Some stored \<Rightarrow> Inr (st_record stored, s)))
      | None \<Rightarrow>
          if dict_has (is_signatures s) (sgr_signature_id r)
          then Inl (IdentityConflictError ''Signature already exists.'')
          else
            let s' = s\<lparr>is_signatures := dict_set (is_signatures s) (sgr_signature_id r)
                         \<lparr>st_record = r, st_consumed_at = None\<rparr>\<rparr>
            in Inr (r, case operation_id of
                 None \<Rightarrow> s'
               | Some i \<Rightarrow> s'\<lparr>is_operations := dict_set (is_operations s') i
                   \<lparr>oi_request_digest = opt_text request_digest, oi_result = Made_Signature (sgr_signature_id r),
                    oi_completed_at = completed_at\<rparr>\<rparr>))"

definition save_signature_idempotent :: "keyed_hash \<Rightarrow> string res \<Rightarrow> (string \<Rightarrow> string) \<Rightarrow> string \<Rightarrow> signature_record
    \<Rightarrow> string option \<Rightarrow> string option \<Rightarrow> identity_cell option \<Rightarrow> (signature_record \<times> identity_cell option) res" where
  "save_signature_idempotent hmac key sha256 completed_at r idempotency_key request_digest cell =
     bind_res
       (if sgr_action r = [] \<or> sgr_record_type r = [] \<or> sgr_record_id r = [] \<or> sgr_record_version r = []
        then Inr False else has_valid_hash hmac key r) (\<lambda>complete.
     if \<not> complete then Inl (ValueError ''Signature is incomplete or invalid.'')
     else if (case idempotency_key of None \<Rightarrow> False | Some k \<Rightarrow> py_strip k = [] \<or> \<not> str_truthy request_digest)
     then Inl (ValueError ''A request digest is required when using an idempotency key.'')
     else
       let operation_id = map_option (\<lambda>k. sha256 (''signature'' @ CHR 0x00 # sgr_signer_subject r @ CHR 0x00 # k))
             idempotency_key
       in mutate (insert_signature completed_at operation_id request_digest r) cell)"

definition save_signature :: "keyed_hash \<Rightarrow> string res \<Rightarrow> (string \<Rightarrow> string) \<Rightarrow> string \<Rightarrow> signature_record
    \<Rightarrow> identity_cell option \<Rightarrow> identity_cell option res" where
  "save_signature hmac key sha256 completed_at r cell =
     bind_res (save_signature_idempotent hmac key sha256 completed_at r None None cell) (\<lambda>(_, cell'). Inr cell')"

definition review_allowed :: "identity_state \<Rightarrow> string \<Rightarrow> signature_request \<Rightarrow> string \<Rightarrow> signature_request \<Rightarrow> bool" where
  "review_allowed s signature_id expected review_id reviewer \<longleftrightarrow>
     review_id \<noteq> signature_id \<and> sgq_signer_subject reviewer \<noteq> sgq_signer_subject expected \<and>
     sgq_meaning reviewer = SM_REVIEWED \<and> sgq_meaning expected = SM_APPROVED \<and>
     sgq_action reviewer = sgq_action expected \<and> sgq_record_type reviewer = sgq_record_type expected \<and>
     sgq_record_id reviewer = sgq_record_id expected \<and>
     sgq_record_version reviewer = sgq_record_version expected \<and>
     (case dict_get (is_members s) (sgq_signer_subject reviewer) of
        None \<Rightarrow> False
      | Some member \<Rightarrow> mi_active member \<and> mi_principal_type member = ''user'' \<and>
          (''admin'' \<in> set (mi_roles member) \<or> ''operator'' \<in> set (mi_roles member)))"

definition intent_matches :: "signature_record \<Rightarrow> signature_request \<Rightarrow> bool" where
  "intent_matches r intent \<longleftrightarrow>
     sgr_authentication_assurance r = ''mfa'' \<and>
     sgr_signer_subject r = sgq_signer_subject intent \<and> sgr_meaning r = sgq_meaning intent \<and>
     sgr_action r = sgq_action intent \<and> sgr_record_type r = sgq_record_type intent \<and>
     sgr_record_id r = sgq_record_id intent \<and> sgr_record_version r = sgq_record_version intent \<and>
     (sgq_justification intent = None \<or> sgr_justification r = sgq_justification intent)"

fun intents_hold :: "keyed_hash \<Rightarrow> string res \<Rightarrow> identity_state \<Rightarrow> (string \<times> signature_request) list \<Rightarrow> bool res" where
  "intents_hold hmac key s [] = Inr True"
| "intents_hold hmac key s ((i, intent) # rest) =
     (case dict_get (is_signatures s) i of
        None \<Rightarrow> Inr False
      | Some item \<Rightarrow>
          if st_consumed_at item \<noteq> None then Inr False
          else bind_res (has_valid_hash hmac key (st_record item)) (\<lambda>valid.
            if \<not> valid \<or> \<not> intent_matches (st_record item) intent then Inr False
            else intents_hold hmac key s rest))"

fun mark_consumed :: "string list \<Rightarrow> string list \<Rightarrow> (string, stored_signature) dict \<Rightarrow> (string, stored_signature) dict" where
  "mark_consumed (now # nows) (i # is) sigs =
     mark_consumed nows is (case dict_get sigs i of None \<Rightarrow> sigs
       | Some item \<Rightarrow> dict_set sigs i (item\<lparr>st_consumed_at := Some now\<rparr>))"
| "mark_consumed _ _ sigs = sigs"

definition consume_in :: "keyed_hash \<Rightarrow> string res \<Rightarrow> string list \<Rightarrow> string \<Rightarrow> signature_request
    \<Rightarrow> (string \<times> signature_request) option \<Rightarrow> identity_state \<Rightarrow> (bool \<times> identity_state) res" where
  "consume_in hmac key nows signature_id expected review s =
     (if (case review of None \<Rightarrow> False
          | Some (review_id, reviewer) \<Rightarrow> \<not> review_allowed s signature_id expected review_id reviewer)
      then Inr (False, s)
      else
        let intents = (signature_id, expected) # (case review of None \<Rightarrow> [] | Some r \<Rightarrow> [r]) in
        bind_res (intents_hold hmac key s intents) (\<lambda>ok.
          if ok then Inr (True, s\<lparr>is_signatures := mark_consumed nows (map fst intents) (is_signatures s)\<rparr>)
          else Inr (False, s)))"

text \<open>\<open>nows\<close> holds the times at which the signatures are marked, one for each.\<close>

definition consume_signature :: "keyed_hash \<Rightarrow> string res \<Rightarrow> string \<Rightarrow> string \<Rightarrow> string \<Rightarrow> signature_request
    \<Rightarrow> (string \<times> signature_request) option \<Rightarrow> identity_cell option \<Rightarrow> (bool \<times> identity_cell option) res" where
  "consume_signature hmac key now now' signature_id expected review =
     mutate (consume_in hmac key [now, now'] signature_id expected review)"

definition signatures_of :: "identity_cell option \<Rightarrow> string \<Rightarrow> stored_signature list res" where
  "signatures_of cell signer_subject =
     bind_res (validate_identity cell) (\<lambda>s.
       Inr (sorted_reverse (\<lambda>i. sgr_signed_at (st_record i))
         (filter (\<lambda>i. sgr_signer_subject (st_record i) = signer_subject) (map snd (is_signatures s)))))"

definition identity_repository :: "keyed_hash \<Rightarrow> string res \<Rightarrow> (string \<Rightarrow> string) \<Rightarrow> string \<Rightarrow> string \<Rightarrow> string
    \<Rightarrow> identity_cell option signature_repository" where
  "identity_repository hmac key sha256 completed_at now now' =
     \<lparr>rp_save = save_signature hmac key sha256 completed_at,
      rp_save_idempotent = save_signature_idempotent hmac key sha256 completed_at,
      rp_consume = (\<lambda>i expected. consume_signature hmac key now now' i expected None)\<rparr>"

end
