(* ===== verification/Single_Use.thy ===== *)
theory Single_Use
  imports Phlo_Prelude
begin

text \<open>
  The contract of everything that may be used once: a signature, an invitation, the nonce of a
  token. \<open>used i s s'\<close> says that a call succeeded in using \<open>i\<close> and moved the store from \<open>s\<close> to \<open>s'\<close>;
  \<open>step\<close> is any other call.
\<close>

locale single_use =
  fixes step :: "'s \<Rightarrow> 's \<Rightarrow> bool"
    and spent :: "'i \<Rightarrow> 's \<Rightarrow> bool"
    and used :: "'i \<Rightarrow> 's \<Rightarrow> 's \<Rightarrow> bool"
  assumes use_spends: "used i s s' \<Longrightarrow> spent i s'"
    and spent_stays: "step s s' \<Longrightarrow> spent i s \<Longrightarrow> spent i s'"
    and spent_refused: "spent i s \<Longrightarrow> \<not> used i s s'"
begin

lemma spent_for_good: "step\<^sup>*\<^sup>* s s' \<Longrightarrow> spent i s \<Longrightarrow> spent i s'"
  by (induction rule: rtranclp_induct) (auto intro: spent_stays)

lemma used_once: "used i s s1 \<Longrightarrow> step\<^sup>*\<^sup>* s1 s2 \<Longrightarrow> \<not> used i s2 s3"
  using use_spends spent_for_good spent_refused by blast

end

end
