(* ===== verification/Identity_Spec.thy ===== *)
theory Identity_Spec
  imports Identity_Authority Single_Use
begin

text \<open>
  What the identity authority promises, over every sequence of its calls: versions only grow, a used
  invitation or signature stays used, a revoked account stays revoked, an idempotent signature is
  replayed. \<open>evolves\<close> is what any call may do to the stored state.
\<close>

section \<open>How the state evolves\<close>

definition members_grow :: "(string, member_item) dict \<Rightarrow> (string, member_item) dict \<Rightarrow> bool" where
  "members_grow ms ms' \<longleftrightarrow>
     (\<forall>i m. dict_get ms i = Some m \<longrightarrow>
        (\<exists>m'. dict_get ms' i = Some m' \<and> (m' = m \<or> mi_version m < mi_version m')))"

definition invitations_stay :: "(string, invitation_item) dict \<Rightarrow> (string, invitation_item) dict \<Rightarrow> bool" where
  "invitations_stay vs vs' \<longleftrightarrow>
     (\<forall>i v. dict_get vs i = Some v \<longrightarrow>
        (\<exists>v'. dict_get vs' i = Some v' \<and> ii_token_hash v' = ii_token_hash v \<and>
           (v' = v \<or> ii_status v' \<noteq> ''pending''))) \<and>
     (dict_ok vs \<longrightarrow> dict_ok vs')"

definition accounts_stay :: "(string, account_item) dict \<Rightarrow> (string, account_item) dict \<Rightarrow> bool" where
  "accounts_stay accts accts' \<longleftrightarrow>
     (\<forall>i a. dict_get accts i = Some a \<longrightarrow>
        (\<exists>a'. dict_get accts' i = Some a' \<and> (a' = a \<or> \<not> ai_active a'))) \<and>
     (dict_ok accts \<longrightarrow> dict_ok accts')"

definition signatures_stay :: "(string, stored_signature) dict \<Rightarrow> (string, stored_signature) dict \<Rightarrow> bool" where
  "signatures_stay sigs sigs' \<longleftrightarrow>
     (\<forall>i g. dict_get sigs i = Some g \<longrightarrow>
        (\<exists>g'. dict_get sigs' i = Some g' \<and> st_record g' = st_record g \<and>
           (g' = g \<or> st_consumed_at g = None)))"

definition operations_stay :: "(string, operation_item) dict \<Rightarrow> (string, operation_item) dict \<Rightarrow> bool" where
  "operations_stay ops ops' \<longleftrightarrow> (\<forall>i p. dict_get ops i = Some p \<longrightarrow> dict_get ops' i = Some p)"

definition evolves :: "identity_state \<Rightarrow> identity_state \<Rightarrow> bool" where
  "evolves s s' \<longleftrightarrow>
     members_grow (is_members s) (is_members s') \<and>
     invitations_stay (is_invitations s) (is_invitations s') \<and>
     accounts_stay (is_service_accounts s) (is_service_accounts s') \<and>
     signatures_stay (is_signatures s) (is_signatures s') \<and>
     operations_stay (is_operations s) (is_operations s')"

lemma stay_refl [simp]:
  "members_grow ms ms" "invitations_stay vs vs" "accounts_stay accts accts" "signatures_stay sigs sigs"
  "operations_stay ops ops"
  by (simp_all add: members_grow_def invitations_stay_def accounts_stay_def signatures_stay_def
      operations_stay_def)

lemma members_grow_set [intro]:
  "(\<And>m. dict_get ms i = Some m \<Longrightarrow> mi_version m < mi_version x) \<Longrightarrow> members_grow ms (dict_set ms i x)"
  by (auto simp: members_grow_def)

lemma invitations_stay_new [intro]:
  "dict_get vs i = None \<Longrightarrow> invitations_stay vs (dict_set vs i x)"
  by (auto simp: invitations_stay_def)

lemma invitations_stay_set [intro]:
  "(\<And>v. dict_get vs i = Some v \<Longrightarrow> ii_token_hash x = ii_token_hash v) \<Longrightarrow> ii_status x \<noteq> ''pending'' \<Longrightarrow>
     invitations_stay vs (dict_set vs i x)"
  by (auto simp: invitations_stay_def)

lemma accounts_stay_new [intro]:
  "dict_get accts i = None \<Longrightarrow> accounts_stay accts (dict_set accts i x)"
  by (auto simp: accounts_stay_def)

lemma accounts_stay_set [intro]:
  "\<not> ai_active x \<Longrightarrow> accounts_stay accts (dict_set accts i x)"
  by (auto simp: accounts_stay_def)

lemma signatures_stay_new [intro]:
  "dict_get sigs i = None \<Longrightarrow> signatures_stay sigs (dict_set sigs i x)"
  by (auto simp: signatures_stay_def)

lemma signatures_stay_consumed:
  "dict_get sigs i = Some g \<Longrightarrow> st_consumed_at g = None \<Longrightarrow>
     signatures_stay sigs (dict_set sigs i (g\<lparr>st_consumed_at := c\<rparr>))"
  by (auto simp: signatures_stay_def)

lemma operations_stay_new [intro]:
  "dict_get ops i = None \<Longrightarrow> operations_stay ops (dict_set ops i x)"
  by (auto simp: operations_stay_def)

lemma evolves_refl [simp]: "evolves s s"
  by (simp add: evolves_def)

lemma evolves_member:
  "evolves s s' \<Longrightarrow> dict_get (is_members s) i = Some m \<Longrightarrow>
     \<exists>m'. dict_get (is_members s') i = Some m' \<and> mi_version m \<le> mi_version m'"
  unfolding evolves_def members_grow_def by (metis less_le order_refl)

lemma evolves_signature:
  assumes "evolves s s'" and "dict_get (is_signatures s) i = Some g"
  shows "\<exists>g'. dict_get (is_signatures s') i = Some g' \<and> st_record g' = st_record g \<and>
    (st_consumed_at g \<noteq> None \<longrightarrow> g' = g)"
  using assms unfolding evolves_def signatures_stay_def by blast

lemma evolves_invitation:
  assumes "evolves s s'" and "dict_get (is_invitations s) i = Some v"
  shows "\<exists>v'. dict_get (is_invitations s') i = Some v' \<and> ii_token_hash v' = ii_token_hash v \<and>
    (ii_status v \<noteq> ''pending'' \<longrightarrow> ii_status v' \<noteq> ''pending'')"
  using assms unfolding evolves_def invitations_stay_def by metis

lemma evolves_account:
  assumes "evolves s s'" and "dict_get (is_service_accounts s) i = Some a" and "\<not> ai_active a"
  shows "\<exists>a'. dict_get (is_service_accounts s') i = Some a' \<and> \<not> ai_active a'"
  using assms unfolding evolves_def accounts_stay_def by metis

lemma evolves_operation:
  "evolves s s' \<Longrightarrow> dict_get (is_operations s) i = Some p \<Longrightarrow> dict_get (is_operations s') i = Some p"
  by (simp add: evolves_def operations_stay_def)

text \<open>The keys of a Python dictionary are distinct.\<close>

definition identity_ok :: "identity_state \<Rightarrow> bool" where
  "identity_ok s \<longleftrightarrow> dict_ok (is_invitations s) \<and> dict_ok (is_service_accounts s)"

lemma evolves_ok: "evolves s s' \<Longrightarrow> identity_ok s \<Longrightarrow> identity_ok s'"
  by (simp add: evolves_def accounts_stay_def invitations_stay_def identity_ok_def)

section \<open>Each operation\<close>

lemma assign_evolves:
  assumes "assign_in now i e t rs v act s = Inr (m, s')"
  shows "evolves s s' \<and> dict_get (is_members s') i = Some m \<and> mi_version m = v + 1"
proof (cases "dict_get (is_members s) i")
  case None
  then have "v = 0" "s' = s\<lparr>is_members := dict_set (is_members s) i m\<rparr>" "mi_version m = 1"
    using assms by (auto simp: assign_in_def Let_def split: if_splits)
  then show ?thesis using None by (auto simp: evolves_def)
next
  case (Some old)
  then have "mi_version old = v" "s' = s\<lparr>is_members := dict_set (is_members s) i m\<rparr>" "mi_version m = v + 1"
    using assms by (auto simp: assign_in_def Let_def split: if_splits)
  then show ?thesis using Some by (auto simp: evolves_def)
qed

lemma invite_evolves:
  "dict_get (is_invitations s) i = None \<Longrightarrow>
     evolves s (s\<lparr>is_invitations := dict_set (is_invitations s) i v\<rparr>)"
  by (auto simp: evolves_def)

lemma accept_in_Inr:
  assumes "accept_in now nt h subject mail pt s = Inr (m, s')"
  shows "\<exists>i v. filter (\<lambda>i. ii_token_hash (snd i) = h) (is_invitations s) = [(i, v)] \<and>
    ii_status v = ''pending'' \<and> ii_email v = mail \<and> now < ii_expires_at v \<and>
    dict_get (is_members s) subject = None \<and> mi_roles m = ii_roles v \<and>
    s' = s\<lparr>is_members := dict_set (is_members s) subject m,
           is_invitations := dict_set (is_invitations s) i (v\<lparr>ii_status := ''accepted''\<rparr>)\<rparr>"
proof -
  obtain i v where f: "filter (\<lambda>i. ii_token_hash (snd i) = h) (is_invitations s) = [(i, v)]"
    using assms unfolding accept_in_def
    by (cases "filter (\<lambda>i. ii_token_hash (snd i) = h) (is_invitations s)" rule: remdups_adj.cases) auto
  show ?thesis
    using assms unfolding accept_in_def f by (auto simp: Let_def dict_has_get f split: if_splits)
qed

lemma matched_invitation:
  assumes "filter (\<lambda>i. ii_token_hash (snd i) = h) (is_invitations s) = [(i, v)]"
    and "dict_get (is_invitations s) j = Some w" and "ii_token_hash w = h"
  shows "j = i \<and> w = v"
proof -
  have "(j, w) \<in> set (filter (\<lambda>i. ii_token_hash (snd i) = h) (is_invitations s))"
    using map_of_SomeD [OF assms(2)] assms(3) by simp
  then show ?thesis by (simp add: assms(1))
qed

lemma accept_evolves:
  assumes "identity_ok s" and "accept_in now nt h subject mail pt s = Inr (m, s')"
  shows "evolves s s' \<and> (\<exists>i v. dict_get (is_invitations s) i = Some v \<and> ii_token_hash v = h \<and>
    ii_status v = ''pending'' \<and> ii_email v = mail \<and> now < ii_expires_at v \<and> mi_roles m = ii_roles v \<and>
    dict_get (is_members s') subject = Some m \<and>
    dict_get (is_invitations s') i = Some (v\<lparr>ii_status := ''accepted''\<rparr>))"
proof -
  obtain i v where a: "filter (\<lambda>i. ii_token_hash (snd i) = h) (is_invitations s) = [(i, v)]"
    "ii_status v = ''pending''" "ii_email v = mail" "now < ii_expires_at v"
    "dict_get (is_members s) subject = None" "mi_roles m = ii_roles v"
    "s' = s\<lparr>is_members := dict_set (is_members s) subject m,
           is_invitations := dict_set (is_invitations s) i (v\<lparr>ii_status := ''accepted''\<rparr>)\<rparr>"
    using accept_in_Inr [OF assms(2)] by blast
  have "(i, v) \<in> set (filter (\<lambda>i. ii_token_hash (snd i) = h) (is_invitations s))" unfolding a(1) by simp
  then have "ii_token_hash v = h" "dict_get (is_invitations s) i = Some v"
    using assms(1) by (auto simp: identity_ok_def intro: dict_ok_get)
  then show ?thesis using a by (auto simp: evolves_def)
qed

lemma account_evolves:
  assumes "dict_get (is_service_accounts s) i = None" and "insert_account t op d i a s = Inr (x, s')"
  shows "evolves s s'"
  using assms by (auto simp: insert_account_def evolves_def Let_def split: option.splits if_splits)

lemma revoke_evolves:
  assumes "revoke_in i v s = Inr (x, s')"
  shows "evolves s s' \<and> (\<exists>a. dict_get (is_service_accounts s') i = Some a \<and> \<not> ai_active a)"
  using assms
  by (auto simp: revoke_in_def evolves_def Let_def intro!: accounts_stay_set split: option.splits if_splits)

lemma insert_signature_evolves:
  assumes "insert_signature t op d r s = Inr (x, s')"
  shows "evolves s s'"
  using assms
  by (auto simp: insert_signature_def evolves_def Let_def dict_has_get
      split: option.splits if_splits operation_result.splits)

section \<open>Consuming signatures\<close>

definition usable :: "keyed_hash \<Rightarrow> string res \<Rightarrow> identity_state \<Rightarrow> string \<Rightarrow> signature_request \<Rightarrow> bool" where
  "usable hmac key s i intent \<longleftrightarrow>
     (\<exists>g. dict_get (is_signatures s) i = Some g \<and> st_consumed_at g = None \<and>
        has_valid_hash hmac key (st_record g) = Inr True \<and> intent_matches (st_record g) intent)"

lemma intents_hold_iff:
  "intents_hold hmac key s intents = Inr True \<longleftrightarrow>
     (\<forall>i intent. (i, intent) \<in> set intents \<longrightarrow> usable hmac key s i intent)"
proof (induction intents)
  case (Cons p rest)
  obtain i intent where p: "p = (i, intent)" by (cases p)
  show ?case
    using Cons by (auto simp: p usable_def bind_res_Inr_iff split: option.splits if_splits)
qed simp

definition intents_of :: "string \<Rightarrow> signature_request \<Rightarrow> (string \<times> signature_request) option
    \<Rightarrow> (string \<times> signature_request) list" where
  "intents_of i e review = (i, e) # (case review of None \<Rightarrow> [] | Some r \<Rightarrow> [r])"

definition consumed_ids :: "string \<Rightarrow> (string \<times> signature_request) option \<Rightarrow> string list" where
  "consumed_ids i review = i # (case review of None \<Rightarrow> [] | Some (j, rv) \<Rightarrow> [j])"

lemma in_consumed_ids: "j \<in> set (consumed_ids i review) \<longleftrightarrow> (\<exists>intent. (j, intent) \<in> set (intents_of i e review))"
  by (auto simp: consumed_ids_def intents_of_def split: option.splits)

lemma consume_in_True:
  "consume_in hmac key nows i e review s = Inr (True, s') \<longleftrightarrow>
     (case review of None \<Rightarrow> True | Some (j, rv) \<Rightarrow> review_allowed s i e j rv) \<and>
     (\<forall>j intent. (j, intent) \<in> set (intents_of i e review) \<longrightarrow> usable hmac key s j intent) \<and>
     s' = s\<lparr>is_signatures := mark_consumed nows (map fst (intents_of i e review)) (is_signatures s)\<rparr>"
proof -
  have "consume_in hmac key nows i e review s =
      (if (case review of None \<Rightarrow> False | Some (j, rv) \<Rightarrow> \<not> review_allowed s i e j rv) then Inr (False, s)
       else bind_res (intents_hold hmac key s (intents_of i e review)) (\<lambda>ok.
         if ok then Inr (True, s\<lparr>is_signatures := mark_consumed nows (map fst (intents_of i e review)) (is_signatures s)\<rparr>)
         else Inr (False, s)))"
    unfolding consume_in_def intents_of_def Let_def by (rule refl)
  then show ?thesis
    using intents_hold_iff [of hmac key s "intents_of i e review"]
    by (cases review) (auto simp: bind_res_Inr_iff split: if_splits)
qed

lemma consume_evolves:
  assumes "consume_in hmac key [n, n'] i e review s = Inr (ok, s')"
  shows "evolves s s'"
proof (cases ok)
  case False
  then have "s' = s" using assms by (auto simp: consume_in_def Let_def bind_res_Inr_iff split: if_splits)
  then show ?thesis by simp
next
  case True
  then have "consume_in hmac key [n, n'] i e review s = Inr (True, s')" using assms by simp
  note c = this [unfolded consume_in_True]
  obtain g where g: "dict_get (is_signatures s) i = Some g" "st_consumed_at g = None"
    using c by (auto simp: intents_of_def usable_def)
  let ?one = "dict_set (is_signatures s) i (g\<lparr>st_consumed_at := Some n\<rparr>)"
  have one: "signatures_stay (is_signatures s) ?one" using g by (rule signatures_stay_consumed)
  have "signatures_stay (is_signatures s) (is_signatures s')"
  proof (cases review)
    case None
    then show ?thesis using c g one by (simp add: intents_of_def)
  next
    case (Some r)
    obtain j rv where r: "r = (j, rv)" by (cases r)
    obtain h where h: "dict_get (is_signatures s) j = Some h" "st_consumed_at h = None"
      using c by (auto simp: intents_of_def usable_def Some r)
    have "j \<noteq> i" using c by (simp add: Some r review_allowed_def)
    then show ?thesis using c g h by (auto simp: intents_of_def Some r signatures_stay_def)
  qed
  then show ?thesis using c by (simp add: evolves_def)
qed

lemma consumed_marked:
  assumes "consume_in hmac key [n, n'] i e review s = Inr (True, s')"
    and "j \<in> set (consumed_ids i review)"
  shows "\<exists>g. dict_get (is_signatures s') j = Some g \<and> st_consumed_at g \<noteq> None"
proof -
  note c = assms(1) [unfolded consume_in_True]
  obtain g where g: "dict_get (is_signatures s) i = Some g"
    using c by (auto simp: intents_of_def usable_def)
  show ?thesis
  proof (cases review)
    case None
    then show ?thesis using c g assms(2) by (simp add: intents_of_def consumed_ids_def)
  next
    case (Some r)
    obtain k rv where r: "r = (k, rv)" by (cases r)
    obtain h where "dict_get (is_signatures s) k = Some h"
      using c by (auto simp: intents_of_def usable_def Some r)
    then show ?thesis using c g assms(2) by (auto simp: intents_of_def consumed_ids_def Some r)
  qed
qed

lemma consumed_refused:
  assumes "dict_get (is_signatures s) j = Some g" and "st_consumed_at g \<noteq> None"
    and "j \<in> set (consumed_ids i review)"
  shows "consume_in hmac key nows i e review s \<noteq> Inr (True, s')"
proof
  assume "consume_in hmac key nows i e review s = Inr (True, s')"
  moreover obtain intent where "(j, intent) \<in> set (intents_of i e review)" using assms(3) in_consumed_ids by blast
  ultimately have "usable hmac key s j intent" unfolding consume_in_True by blast
  then show False using assms(1,2) by (simp add: usable_def)
qed

section \<open>The calls\<close>

lemma mutate_Inr:
  "mutate f cell = Inr (x, cell') \<longleftrightarrow>
     (\<exists>s s'. validate_identity cell = Inr s \<and> f s = Inr (x, s') \<and> cell' = identity_cell_of s')"
  by (auto simp: mutate_def bind_res_Inr_iff)

lemma validate_cell_of [simp]: "validate_identity (identity_cell_of s) = Inr s"
  by (simp add: validate_identity_def identity_cell_of_def IDENTITY_SCHEMA_VERSION_def)

text \<open>
  A call of the authority that returns. Random ids do not repeat: an invitation and an account get an
  id that is not in use.
\<close>

inductive identity_step :: "identity_cell option \<Rightarrow> identity_cell option \<Rightarrow> bool" where
  assigned: "assign_roles now i mail t rs v act cell = Inr (m, cell') \<Longrightarrow> identity_step cell cell'"
| invited: "create_invitation sha256 isot i tok at mail rs by' ttl cell = Inr (x, cell') \<Longrightarrow>
    (\<And>s. validate_identity cell = Inr s \<Longrightarrow> dict_get (is_invitations s) i = None) \<Longrightarrow> identity_step cell cell'"
| accepted: "accept_invitation sha256 now nt tok i mail pt cell = Inr (m, cell') \<Longrightarrow> identity_step cell cell'"
| account_made: "create_service_account sha256 i tok at t name rs k actor cell = Inr (x, cell') \<Longrightarrow>
    (\<And>s. validate_identity cell = Inr s \<Longrightarrow> dict_get (is_service_accounts s) (''phlo-service:'' @ i) = None) \<Longrightarrow>
    identity_step cell cell'"
| revoked: "revoke_service_account i v cell = Inr (x, cell') \<Longrightarrow> identity_step cell cell'"
| saved: "save_signature_idempotent hmac key sha256 t r k d cell = Inr (r', cell') \<Longrightarrow> identity_step cell cell'"
| consumed: "consume_signature hmac key n n' i e review cell = Inr (ok, cell') \<Longrightarrow> identity_step cell cell'"

definition identity_cell_ok :: "identity_cell option \<Rightarrow> bool" where
  "identity_cell_ok cell \<longleftrightarrow> (\<exists>s. validate_identity cell = Inr s \<and> identity_ok s)"

lemma step_evolves:
  assumes "identity_step cell cell'" and "validate_identity cell = Inr s" and "identity_ok s"
  shows "\<exists>s'. validate_identity cell' = Inr s' \<and> evolves s s'"
  using assms
proof (cases rule: identity_step.cases)
  case (assigned now i mail t rs v act m)
  then show ?thesis using assms(2) assign_evolves
    by (fastforce simp: assign_roles_def mutate_Inr bind_res_Inr_iff split: if_splits)
next
  case (invited sha256 isot i tok at mail rs by' ttl x)
  then show ?thesis using assms(2) invite_evolves [of s i]
    by (auto simp: create_invitation_def mutate_Inr bind_res_Inr_iff Let_def split: if_splits)
next
  case (accepted sha256 now nt tok i mail pt m)
  then show ?thesis using assms(2) accept_evolves [OF assms(3)]
    by (fastforce simp: accept_invitation_def mutate_Inr split: if_splits)
next
  case (account_made sha256 i tok at t name rs k actor x)
  then show ?thesis using assms(2) account_evolves [of s "''phlo-service:'' @ i"]
    by (fastforce simp: create_service_account_def mutate_Inr bind_res_Inr_iff Let_def split: if_splits)
next
  case (revoked i v x)
  then show ?thesis using assms(2) revoke_evolves
    by (fastforce simp: revoke_service_account_def mutate_Inr)
next
  case (saved hmac key sha256 t r k d r')
  then show ?thesis using assms(2) insert_signature_evolves
    by (fastforce simp: save_signature_idempotent_def mutate_Inr bind_res_Inr_iff Let_def split: if_splits)
next
  case (consumed hmac key n n' i e review ok)
  then show ?thesis using assms(2) consume_evolves
    by (fastforce simp: consume_signature_def mutate_Inr)
qed

section \<open>Four things that happen once\<close>

lemma cell_evolves:
  assumes "identity_step cell cell'" and "validate_identity cell = Inr s" and "identity_ok s"
  obtains s' where "validate_identity cell' = Inr s'" "identity_ok s'" "evolves s s'"
  using step_evolves [OF assms] evolves_ok assms(3) by blast

definition signature_spent :: "string \<Rightarrow> identity_cell option \<Rightarrow> bool" where
  "signature_spent i cell \<longleftrightarrow>
     (\<exists>s g. validate_identity cell = Inr s \<and> identity_ok s \<and> dict_get (is_signatures s) i = Some g \<and>
        st_consumed_at g \<noteq> None)"

definition signature_used :: "string \<Rightarrow> identity_cell option \<Rightarrow> identity_cell option \<Rightarrow> bool" where
  "signature_used i cell cell' \<longleftrightarrow>
     identity_cell_ok cell \<and>
     (\<exists>hmac key n n' j e review. i \<in> set (consumed_ids j review) \<and>
        consume_signature hmac key n n' j e review cell = Inr (True, cell'))"

interpretation signature_store: single_use identity_step signature_spent signature_used
proof
  fix i cell cell'
  assume "signature_used i cell cell'"
  then obtain hmac key n n' j e review s s' where i: "i \<in> set (consumed_ids j review)"
    and c: "consume_in hmac key [n, n'] j e review s = Inr (True, s')"
    and v: "validate_identity cell = Inr s" "identity_ok s" "cell' = identity_cell_of s'"
    unfolding signature_used_def identity_cell_ok_def consume_signature_def mutate_Inr by auto
  have "identity_ok s'" using consume_evolves [OF c] evolves_ok v(2) by blast
  then show "signature_spent i cell'"
    using consumed_marked [OF c i] v(3) by (auto simp: signature_spent_def)
next
  fix cell cell' i
  assume "identity_step cell cell'" and "signature_spent i cell"
  then show "signature_spent i cell'"
    unfolding signature_spent_def by (metis cell_evolves evolves_signature)
next
  fix i cell cell'
  assume "signature_spent i cell"
  then show "\<not> signature_used i cell cell'"
    unfolding signature_spent_def signature_used_def consume_signature_def mutate_Inr
    by (metis consumed_refused sum.inject(2))
qed

definition invitation_spent :: "string \<Rightarrow> identity_cell option \<Rightarrow> bool" where
  "invitation_spent h cell \<longleftrightarrow>
     (\<exists>s i v. validate_identity cell = Inr s \<and> identity_ok s \<and> dict_get (is_invitations s) i = Some v \<and>
        ii_token_hash v = h \<and> ii_status v \<noteq> ''pending'')"

definition invitation_used :: "string \<Rightarrow> identity_cell option \<Rightarrow> identity_cell option \<Rightarrow> bool" where
  "invitation_used h cell cell' \<longleftrightarrow>
     identity_cell_ok cell \<and>
     (\<exists>sha256 now nt token subject mail pt m. sha256 token = h \<and>
        accept_invitation sha256 now nt token subject mail pt cell = Inr (m, cell'))"

lemma accept_Inr:
  "accept_invitation sha256 now nt token subject mail pt cell = Inr (m, cell') \<Longrightarrow>
     \<exists>s s'. validate_identity cell = Inr s \<and> cell' = identity_cell_of s' \<and>
       accept_in now nt (sha256 token) subject (py_casefold (py_strip mail)) pt s = Inr (m, s')"
  by (auto simp: accept_invitation_def mutate_Inr split: if_splits)

lemma accepted_refused:
  assumes "dict_get (is_invitations s) i = Some v" and "ii_token_hash v = h" and "ii_status v \<noteq> ''pending''"
  shows "accept_in now nt h subject mail pt s \<noteq> Inr (m, s')"
  using accept_in_Inr [of now nt h subject mail pt s m s'] matched_invitation [OF _ assms(1,2)] assms(3) by blast

lemma invitation_used_in:
  assumes "invitation_used h cell cell'"
  shows "\<exists>s s' now nt subject mail pt m. validate_identity cell = Inr s \<and> identity_ok s \<and>
    cell' = identity_cell_of s' \<and> accept_in now nt h subject mail pt s = Inr (m, s')"
proof -
  obtain sha256 now nt token subject mail pt m s where "sha256 token = h"
    and a: "accept_invitation sha256 now nt token subject mail pt cell = Inr (m, cell')"
    and s: "validate_identity cell = Inr s" "identity_ok s"
    using assms unfolding invitation_used_def identity_cell_ok_def by blast
  moreover obtain s1 s' where "validate_identity cell = Inr s1" "cell' = identity_cell_of s'"
    "accept_in now nt (sha256 token) subject (py_casefold (py_strip mail)) pt s1 = Inr (m, s')"
    using accept_Inr [OF a] by blast
  ultimately show ?thesis by (metis sum.inject(2))
qed

interpretation invitation_store: single_use identity_step invitation_spent invitation_used
proof
  fix h cell cell'
  assume "invitation_used h cell cell'"
  then obtain s s' now nt subject mail pt m where c: "accept_in now nt h subject mail pt s = Inr (m, s')"
    and v: "identity_ok s" "cell' = identity_cell_of s'"
    using invitation_used_in by blast
  obtain i v where "dict_get (is_invitations s') i = Some (v\<lparr>ii_status := ''accepted''\<rparr>)" "ii_token_hash v = h"
    using accept_evolves [OF v(1) c] by blast
  moreover have "identity_ok s'" using accept_evolves [OF v(1) c] evolves_ok v(1) by blast
  ultimately show "invitation_spent h cell'" unfolding invitation_spent_def v(2) by fastforce
next
  fix cell cell' h
  assume step: "identity_step cell cell'" and "invitation_spent h cell"
  then obtain s i v where s: "validate_identity cell = Inr s" "identity_ok s"
    "dict_get (is_invitations s) i = Some v" "ii_token_hash v = h" "ii_status v \<noteq> ''pending''"
    unfolding invitation_spent_def by blast
  from cell_evolves [OF step s(1,2)] obtain s' where s': "validate_identity cell' = Inr s'" "identity_ok s'"
    "evolves s s'" .
  show "invitation_spent h cell'"
    unfolding invitation_spent_def using evolves_invitation [OF s'(3) s(3)] s(4,5) s'(1,2) by auto
next
  fix h cell cell'
  assume "invitation_spent h cell"
  then obtain s i v where s: "validate_identity cell = Inr s" "dict_get (is_invitations s) i = Some v"
    "ii_token_hash v = h" "ii_status v \<noteq> ''pending''"
    unfolding invitation_spent_def by blast
  show "\<not> invitation_used h cell cell'"
  proof
    assume "invitation_used h cell cell'"
    then obtain s1 s' now nt subject mail pt m where "validate_identity cell = Inr s1"
      "accept_in now nt h subject mail pt s1 = Inr (m, s')"
      using invitation_used_in by blast
    then show False using accepted_refused [OF s(2-4)] s(1) by simp
  qed
qed

definition account_revoked :: "string \<Rightarrow> identity_cell option \<Rightarrow> bool" where
  "account_revoked i cell \<longleftrightarrow>
     (\<exists>s a. validate_identity cell = Inr s \<and> identity_ok s \<and> dict_get (is_service_accounts s) i = Some a \<and>
        \<not> ai_active a)"

definition account_revocation :: "string \<Rightarrow> identity_cell option \<Rightarrow> identity_cell option \<Rightarrow> bool" where
  "account_revocation i cell cell' \<longleftrightarrow>
     identity_cell_ok cell \<and> (\<exists>v x. revoke_service_account i v cell = Inr (x, cell'))"

interpretation account_store: single_use identity_step account_revoked account_revocation
proof
  fix i cell cell'
  assume "account_revocation i cell cell'"
  then obtain v x s s' where r: "revoke_in i v s = Inr (x, s')" "identity_ok s" "cell' = identity_cell_of s'"
    unfolding account_revocation_def identity_cell_ok_def revoke_service_account_def mutate_Inr by auto
  then have "identity_ok s'" using revoke_evolves [OF r(1)] evolves_ok by blast
  then show "account_revoked i cell'"
    unfolding account_revoked_def r(3) using revoke_evolves [OF r(1)] by auto
next
  fix cell cell' i
  assume "identity_step cell cell'" and "account_revoked i cell"
  then show "account_revoked i cell'"
    unfolding account_revoked_def by (metis cell_evolves evolves_account)
next
  fix i cell cell'
  assume "account_revoked i cell"
  then show "\<not> account_revocation i cell cell'"
    by (auto simp: account_revoked_def account_revocation_def revoke_service_account_def mutate_Inr revoke_in_def Let_def)
qed

definition version_spent :: "string \<times> int \<Rightarrow> identity_cell option \<Rightarrow> bool" where
  "version_spent iv cell \<longleftrightarrow>
     (\<exists>s m. validate_identity cell = Inr s \<and> identity_ok s \<and> dict_get (is_members s) (fst iv) = Some m \<and>
        snd iv < mi_version m)"

definition version_used :: "string \<times> int \<Rightarrow> identity_cell option \<Rightarrow> identity_cell option \<Rightarrow> bool" where
  "version_used iv cell cell' \<longleftrightarrow>
     identity_cell_ok cell \<and>
     (\<exists>now mail t rs act m. assign_roles now (fst iv) mail t rs (snd iv) act cell = Inr (m, cell'))"

lemma assign_Inr:
  "assign_roles now i mail t rs v act cell = Inr (m, cell') \<Longrightarrow>
     \<exists>s s' rs'. validate_identity cell = Inr s \<and> cell' = identity_cell_of s' \<and>
       validate_roles rs = Inr rs' \<and> assign_in now i mail t rs' v act s = Inr (m, s')"
  by (auto simp: assign_roles_def mutate_Inr bind_res_Inr_iff split: if_splits)

lemma assigned_refused:
  "dict_get (is_members s) i = Some m \<Longrightarrow> v < mi_version m \<Longrightarrow>
     assign_in now i mail t rs v act s \<noteq> Inr (x, s')"
  by (simp add: assign_in_def)

lemma version_used_in:
  assumes "version_used iv cell cell'"
  shows "\<exists>s s' now mail t rs act m. validate_identity cell = Inr s \<and> identity_ok s \<and>
    cell' = identity_cell_of s' \<and> assign_in now (fst iv) mail t rs (snd iv) act s = Inr (m, s')"
proof -
  obtain now mail t rs act m s where
    a: "assign_roles now (fst iv) mail t rs (snd iv) act cell = Inr (m, cell')"
    and s: "validate_identity cell = Inr s" "identity_ok s"
    using assms unfolding version_used_def identity_cell_ok_def by blast
  moreover obtain s1 s' rs' where "validate_identity cell = Inr s1" "cell' = identity_cell_of s'"
    "assign_in now (fst iv) mail t rs' (snd iv) act s1 = Inr (m, s')"
    using assign_Inr [OF a] by blast
  ultimately show ?thesis by (metis sum.inject(2))
qed

interpretation version_store: single_use identity_step version_spent version_used
proof
  fix iv cell cell'
  assume "version_used iv cell cell'"
  then obtain now mail t rs act m s s' where
    a: "assign_in now (fst iv) mail t rs (snd iv) act s = Inr (m, s')" "identity_ok s" "cell' = identity_cell_of s'"
    using version_used_in by blast
  have "identity_ok s'" using assign_evolves [OF a(1)] evolves_ok a(2) by blast
  then show "version_spent iv cell'"
    unfolding version_spent_def a(3) using assign_evolves [OF a(1)] by auto
next
  fix cell cell' iv
  assume step: "identity_step cell cell'" and "version_spent iv cell"
  then obtain s m where s: "validate_identity cell = Inr s" "identity_ok s"
    "dict_get (is_members s) (fst iv) = Some m" "snd iv < mi_version m"
    unfolding version_spent_def by blast
  from cell_evolves [OF step s(1,2)] obtain s' where s': "validate_identity cell' = Inr s'" "identity_ok s'"
    "evolves s s'" .
  show "version_spent iv cell'"
    unfolding version_spent_def using evolves_member [OF s'(3) s(3)] s(4) s'(1,2) by auto
next
  fix iv cell cell'
  assume "version_spent iv cell"
  then obtain s m where s: "validate_identity cell = Inr s" "dict_get (is_members s) (fst iv) = Some m"
    "snd iv < mi_version m"
    unfolding version_spent_def by blast
  show "\<not> version_used iv cell cell'"
  proof
    assume "version_used iv cell cell'"
    then obtain s1 s' now mail t rs act x where "validate_identity cell = Inr s1"
      "assign_in now (fst iv) mail t rs (snd iv) act s1 = Inr (x, s')"
      using version_used_in by blast
    then show False using assigned_refused [OF s(2,3)] s(1) by simp
  qed
qed

end
