(* ===== verification/Identity_Promises.thy ===== *)
theory Identity_Promises
  imports Identity_Spec
begin

text \<open>
  The promises of the identity authority and of the signature service over it, stated for every
  sequence of calls that follows, and a signing that is used up by its verification.
\<close>

section \<open>A concrete state\<close>

definition example_mac :: keyed_hash where
  "example_mac k m = ''f''"

definition signed_as :: "string \<Rightarrow> string \<Rightarrow> signature_meaning \<Rightarrow> stored_signature" where
  "signed_as i who meaning =
     \<lparr>st_record = \<lparr>sgr_signature_id = i, sgr_signer_subject = who, sgr_meaning = meaning, sgr_record_type = ''dataset'',
        sgr_record_id = ''t'', sgr_record_version = ''1'', sgr_action = ''dataset.publish'', sgr_justification = None,
        sgr_signed_at = ''d'', sgr_authentication_assurance = ''mfa'', sgr_signature_hash = ''f''\<rparr>,
      st_consumed_at = None\<rparr>"

definition intent_of :: "string \<Rightarrow> signature_meaning \<Rightarrow> signature_request" where
  "intent_of who meaning =
     \<lparr>sgq_signer_subject = who, sgq_meaning = meaning, sgq_record_type = ''dataset'', sgq_record_id = ''t'',
      sgq_record_version = ''1'', sgq_action = ''dataset.publish'', sgq_justification = None\<rparr>"

definition example_identity :: identity_state where
  "example_identity =
     \<lparr>is_members = [(''bob'', \<lparr>mi_email = None, mi_principal_type = ''user'', mi_roles = [''operator''],
        mi_active = True, mi_version = 1, mi_created_at = ''d'', mi_updated_at = ''d''\<rparr>)],
      is_invitations = [(''i'', \<lparr>ii_email = ''c@d'', ii_roles = [''viewer''], ii_status = ''pending'',
        ii_invited_by = ''bob'', ii_expires_at = 10, ii_created_at = ''d'', ii_token_hash = ''tok''\<rparr>)],
      is_service_accounts = [(''svc'', \<lparr>ai_name = ''svc'', ai_roles = [''service''], ai_active = True,
        ai_version = 1, ai_created_at = ''d'', ai_token_hash = ''key''\<rparr>)],
      is_signatures = [(''s1'', signed_as ''s1'' ''ann'' SM_APPROVED), (''s2'', signed_as ''s2'' ''bob'' SM_REVIEWED)],
      is_operations = []\<rparr>"

lemma example_identity_ok: "identity_cell_ok (identity_cell_of example_identity)"
  by (simp add: identity_cell_ok_def identity_ok_def example_identity_def dict_ok_def)

definition returns_true :: "(bool \<times> 'a) res \<Rightarrow> bool" where
  "returns_true r = (case r of Inr (True, _) \<Rightarrow> True | _ \<Rightarrow> False)"

lemma returns_trueE: "returns_true r \<Longrightarrow> \<exists>x. r = Inr (True, x)"
  by (auto simp: returns_true_def split: sum.splits bool.splits prod.splits)

lemma example_consumed:
  "\<exists>cell1. consume_signature example_mac (Inr ''k'') ''n'' ''n'' ''s1'' (intent_of ''ann'' SM_APPROVED)
     (Some (''s2'', intent_of ''bob'' SM_REVIEWED)) (identity_cell_of example_identity) = Inr (True, cell1)"
proof -
  have "returns_true (consume_signature example_mac (Inr ''k'') ''n'' ''n'' ''s1'' (intent_of ''ann'' SM_APPROVED)
     (Some (''s2'', intent_of ''bob'' SM_REVIEWED)) (identity_cell_of example_identity))"
    by code_simp
  then show ?thesis by (rule returns_trueE)
qed

section \<open>Once and for good\<close>

text \<open>
  C37: a signature is used at most once. After a consumption that succeeded, whatever calls follow, no
  consumption succeeds again that names one of its signatures, alone or as a review.
\<close>

theorem signature_used_once:
  assumes "identity_cell_ok cell" and "consume_signature hmac key n n' i e review cell = Inr (True, cell1)"
    and "identity_step\<^sup>*\<^sup>* cell1 cell2"
    and "j \<in> set (consumed_ids i review)" and "j \<in> set (consumed_ids i' review')"
  shows "consume_signature hmac' key' t t' i' e' review' cell2 \<noteq> Inr (True, cell3)"
proof
  assume c: "consume_signature hmac' key' t t' i' e' review' cell2 = Inr (True, cell3)"
  have u: "signature_used j cell cell1"
    using assms(1,2,4) unfolding signature_used_def by blast
  have "identity_cell_ok cell2"
    using signature_store.spent_for_good [OF assms(3) signature_store.use_spends [OF u]]
    by (auto simp: signature_spent_def identity_cell_ok_def)
  then have "signature_used j cell2 cell3"
    using c assms(5) unfolding signature_used_def by blast
  then show False using signature_store.used_once [OF u assms(3)] by blast
qed

lemma signature_used_once_witness:
  "\<exists>cell1. consume_signature example_mac (Inr ''k'') ''n'' ''n'' ''s1'' (intent_of ''ann'' SM_APPROVED)
       (Some (''s2'', intent_of ''bob'' SM_REVIEWED)) (identity_cell_of example_identity) = Inr (True, cell1) \<and>
     (\<forall>cell3. consume_signature example_mac (Inr ''k'') ''n'' ''n'' ''s2'' (intent_of ''bob'' SM_REVIEWED) None cell1
        \<noteq> Inr (True, cell3))"
proof -
  obtain cell1 where c: "consume_signature example_mac (Inr ''k'') ''n'' ''n'' ''s1'' (intent_of ''ann'' SM_APPROVED)
       (Some (''s2'', intent_of ''bob'' SM_REVIEWED)) (identity_cell_of example_identity) = Inr (True, cell1)"
    using example_consumed by blast
  show ?thesis
    using c signature_used_once [OF example_identity_ok c rtranclp.rtrancl_refl, of "''s2''" "''s2''" None]
    by (auto simp: consumed_ids_def)
qed

text \<open>
  An invitation is accepted at most once. After an acceptance that succeeded, whatever calls
  follow, no acceptance with the same token succeeds, for any subject, email or time.
\<close>

theorem invitation_used_once:
  assumes "identity_cell_ok cell"
    and "accept_invitation sha256 now nt token subject mail pt cell = Inr (m, cell1)"
    and "identity_step\<^sup>*\<^sup>* cell1 cell2"
  shows "accept_invitation sha256 now' nt' token subject' mail' pt' cell2 \<noteq> Inr (m', cell3)"
proof
  assume c: "accept_invitation sha256 now' nt' token subject' mail' pt' cell2 = Inr (m', cell3)"
  have u: "invitation_used (sha256 token) cell cell1"
    using assms(1,2) unfolding invitation_used_def by blast
  have "identity_cell_ok cell2"
    using invitation_store.spent_for_good [OF assms(3) invitation_store.use_spends [OF u]]
    by (auto simp: invitation_spent_def identity_cell_ok_def)
  then have "invitation_used (sha256 token) cell2 cell3"
    using c unfolding invitation_used_def by blast
  then show False using invitation_store.used_once [OF u assms(3)] by blast
qed

lemma invitation_used_once_witness:
  "\<exists>m cell1. accept_invitation (\<lambda>t. t) 5 ''n'' ''tok'' ''cy'' ''C@d'' ''user'' (identity_cell_of example_identity)
       = Inr (m, cell1) \<and>
     (\<forall>m' cell3. accept_invitation (\<lambda>t. t) 6 ''n'' ''tok'' ''dan'' ''c@d'' ''user'' cell1 \<noteq> Inr (m', cell3))"
proof -
  have "case accept_invitation (\<lambda>t. t) 5 ''n'' ''tok'' ''cy'' ''C@d'' ''user'' (identity_cell_of example_identity) of
      Inr _ \<Rightarrow> True | _ \<Rightarrow> False"
    by code_simp
  then obtain m cell1 where c: "accept_invitation (\<lambda>t. t) 5 ''n'' ''tok'' ''cy'' ''C@d'' ''user''
      (identity_cell_of example_identity) = Inr (m, cell1)"
    by (auto split: sum.splits)
  show ?thesis
    using c invitation_used_once [OF example_identity_ok c rtranclp.rtrancl_refl] by blast
qed

text \<open>
  No update is lost. After an assignment that named the current version of a member, whatever
  calls follow, no assignment that names this version again succeeds.
\<close>

theorem version_used_once:
  assumes "identity_cell_ok cell"
    and "assign_roles now subject mail pt rs v act cell = Inr (m, cell1)"
    and "identity_step\<^sup>*\<^sup>* cell1 cell2"
  shows "assign_roles now' subject mail' pt' rs' v act' cell2 \<noteq> Inr (m', cell3)"
proof
  assume c: "assign_roles now' subject mail' pt' rs' v act' cell2 = Inr (m', cell3)"
  have u: "version_used (subject, v) cell cell1"
    using assms(1,2) by (simp add: version_used_def) blast
  have "identity_cell_ok cell2"
    using version_store.spent_for_good [OF assms(3) version_store.use_spends [OF u]]
    by (auto simp: version_spent_def identity_cell_ok_def)
  then have "version_used (subject, v) cell2 cell3"
    using c by (simp add: version_used_def) blast
  then show False using version_store.used_once [OF u assms(3)] by blast
qed

lemma version_used_once_witness:
  "\<exists>m cell1. assign_roles ''n'' ''bob'' None ''user'' [''viewer''] 1 True (identity_cell_of example_identity)
       = Inr (m, cell1) \<and>
     (\<forall>m' cell3. assign_roles ''n'' ''bob'' None ''user'' [''admin''] 1 True cell1 \<noteq> Inr (m', cell3))"
proof -
  have "case assign_roles ''n'' ''bob'' None ''user'' [''viewer''] 1 True (identity_cell_of example_identity) of
      Inr _ \<Rightarrow> True | _ \<Rightarrow> False"
    by code_simp
  then obtain m cell1 where c: "assign_roles ''n'' ''bob'' None ''user'' [''viewer''] 1 True
      (identity_cell_of example_identity) = Inr (m, cell1)"
    by (auto split: sum.splits)
  show ?thesis
    using c version_used_once [OF example_identity_ok c rtranclp.rtrancl_refl] by blast
qed

lemma find_key: "List.find P xs = Some x \<Longrightarrow> x \<in> set xs \<and> P x"
  by (induction xs) (auto split: if_splits)

text \<open>
  C40: a revoked account stays out. After a revocation, whatever calls follow, no token authenticates
  as the account, and its roles count as unmanaged.
\<close>

theorem revoked_stays_out:
  assumes "identity_cell_ok cell" and "revoke_service_account subject v cell = Inr (x, cell1)"
    and "identity_step\<^sup>*\<^sup>* cell1 cell2"
  shows "authenticate_service_token sha256 cell2 token \<noteq> Inr (Some (subject, name)) \<and>
    (\<forall>pt. managed_roles cell2 subject pt = Inr None \<or>
       (\<exists>m. member_of cell2 subject = Inr (Some m)))"
proof -
  have "account_revocation subject cell cell1"
    using assms(1,2) unfolding account_revocation_def by blast
  then have "account_revoked subject cell2"
    using account_store.spent_for_good [OF assms(3) account_store.use_spends] by blast
  then obtain s a where s: "validate_identity cell2 = Inr s" "dict_ok (is_service_accounts s)"
    "dict_get (is_service_accounts s) subject = Some a" "\<not> ai_active a"
    unfolding account_revoked_def identity_ok_def by blast
  have "authenticate_service_token sha256 cell2 token \<noteq> Inr (Some (subject, name))"
  proof
    assume "authenticate_service_token sha256 cell2 token = Inr (Some (subject, name))"
    then obtain item where "(subject, item) \<in> set (is_service_accounts s)" "ai_active item"
      using s(1) by (auto simp: authenticate_service_token_def dest!: find_key)
    then show False using dict_ok_get [OF s(2), of subject item] s(3,4) by simp
  qed
  then show ?thesis
    using s by (auto simp: managed_roles_def member_of_def split: option.splits)
qed

lemma revoked_stays_out_witness:
  "\<exists>x cell1. revoke_service_account ''svc'' 1 (identity_cell_of example_identity) = Inr (x, cell1) \<and>
     authenticate_service_token (\<lambda>t. t) cell1 ''key'' \<noteq> Inr (Some (''svc'', ''svc''))"
proof -
  have "case revoke_service_account ''svc'' 1 (identity_cell_of example_identity) of Inr _ \<Rightarrow> True | _ \<Rightarrow> False"
    by code_simp
  then obtain x cell1 where c: "revoke_service_account ''svc'' 1 (identity_cell_of example_identity) = Inr (x, cell1)"
    by (auto split: sum.splits)
  show ?thesis
    using c revoked_stays_out [OF example_identity_ok c rtranclp.rtrancl_refl] by blast
qed

section \<open>Four eyes\<close>

text \<open>
  C38: four eyes. A consumption with a review succeeds only with two signatures, unused, keyed and made
  under MFA, of two different signers, an approval and a review of the same action, target and version,
  the reviewer being an active user who is administrator or operator.
\<close>

theorem four_eyes:
  assumes "consume_signature hmac key n n' i e (Some (j, rv)) cell = Inr (True, cell')"
  shows "\<exists>s g h m. validate_identity cell = Inr s \<and>
    dict_get (is_signatures s) i = Some g \<and> dict_get (is_signatures s) j = Some h \<and> i \<noteq> j \<and>
    st_consumed_at g = None \<and> st_consumed_at h = None \<and>
    has_valid_hash hmac key (st_record g) = Inr True \<and> has_valid_hash hmac key (st_record h) = Inr True \<and>
    sgr_authentication_assurance (st_record g) = ''mfa'' \<and> sgr_authentication_assurance (st_record h) = ''mfa'' \<and>
    sgr_signer_subject (st_record g) \<noteq> sgr_signer_subject (st_record h) \<and>
    sgr_meaning (st_record g) = SM_APPROVED \<and> sgr_meaning (st_record h) = SM_REVIEWED \<and>
    sgr_action (st_record h) = sgr_action (st_record g) \<and>
    sgr_record_type (st_record h) = sgr_record_type (st_record g) \<and>
    sgr_record_id (st_record h) = sgr_record_id (st_record g) \<and>
    sgr_record_version (st_record h) = sgr_record_version (st_record g) \<and>
    dict_get (is_members s) (sgr_signer_subject (st_record h)) = Some m \<and> mi_active m \<and>
    mi_principal_type m = ''user'' \<and> set (mi_roles m) \<inter> {''admin'', ''operator''} \<noteq> {}"
proof -
  obtain s s' where v: "validate_identity cell = Inr s"
    and c: "consume_in hmac key [n, n'] i e (Some (j, rv)) s = Inr (True, s')"
    using assms by (auto simp: consume_signature_def mutate_Inr)
  have r: "review_allowed s i e j rv" and u: "usable hmac key s i e" "usable hmac key s j rv"
    using c unfolding consume_in_True by (auto simp: intents_of_def)
  obtain g where g: "dict_get (is_signatures s) i = Some g" "st_consumed_at g = None"
    "has_valid_hash hmac key (st_record g) = Inr True" "intent_matches (st_record g) e"
    using u(1) unfolding usable_def by blast
  obtain h where h: "dict_get (is_signatures s) j = Some h" "st_consumed_at h = None"
    "has_valid_hash hmac key (st_record h) = Inr True" "intent_matches (st_record h) rv"
    using u(2) unfolding usable_def by blast
  obtain m where m: "dict_get (is_members s) (sgq_signer_subject rv) = Some m" "mi_active m"
    "mi_principal_type m = ''user''" "''admin'' \<in> set (mi_roles m) \<or> ''operator'' \<in> set (mi_roles m)"
    using r by (auto simp: review_allowed_def split: option.splits)
  show ?thesis
    using v g(1-3) h(1-3) m r g(4) h(4)
    by (intro exI [of _ s] exI [of _ g] exI [of _ h] exI [of _ m])
      (auto simp: review_allowed_def intent_matches_def)
qed

lemma four_eyes_witness:
  "\<exists>g h. dict_get (is_signatures example_identity) ''s1'' = Some g \<and>
     dict_get (is_signatures example_identity) ''s2'' = Some h \<and>
     sgr_signer_subject (st_record g) \<noteq> sgr_signer_subject (st_record h)"
proof -
  obtain cell1 where c: "consume_signature example_mac (Inr ''k'') ''n'' ''n'' ''s1'' (intent_of ''ann'' SM_APPROVED)
       (Some (''s2'', intent_of ''bob'' SM_REVIEWED)) (identity_cell_of example_identity) = Inr (True, cell1)"
    using example_consumed by blast
  show ?thesis using four_eyes [OF c] by auto
qed

section \<open>From signing to verification\<close>

lemma mfa_assurance:
  "su_success (recent_mfa_challenge age now session) \<Longrightarrow>
     su_assurance_level (recent_mfa_challenge age now session) = ''mfa''"
  by (auto simp: recent_mfa_challenge_def step_up_denied_def Let_def split: option.splits json.splits if_splits)

text \<open>A signature that was stored is usable for the request it was made for.\<close>

lemma saved_usable:
  assumes "signature_from_request hmac key fresh_id now request ''mfa'' = Inr r"
    and "save_signature_idempotent hmac key sha256 t r None None cell = Inr (r', cell')"
  shows "\<exists>s. cell' = identity_cell_of s \<and> usable hmac key s (sgr_signature_id r) request \<and> r' = r"
proof -
  obtain s s' where v: "has_valid_hash hmac key r = Inr True"
    and i: "insert_signature t None None r s = Inr (r', s')" and c: "cell' = identity_cell_of s'"
    using assms(2) by (auto simp: save_signature_idempotent_def bind_res_Inr_iff mutate_Inr split: if_splits)
  have g: "r' = r" "dict_get (is_signatures s') (sgr_signature_id r) = Some \<lparr>st_record = r, st_consumed_at = None\<rparr>"
    using i by (auto simp: insert_signature_def Let_def split: if_splits)
  have "intent_matches r request"
    using assms(1) by (auto simp: signature_from_request_def intent_matches_def Let_def bind_res_Inr_iff)
  then show ?thesis using g v c by (auto simp: usable_def)
qed

text \<open>The requests a signature stands for, once it was made for one of them.\<close>

definition request_matches :: "signature_request \<Rightarrow> signature_request \<Rightarrow> bool" where
  "request_matches request other \<longleftrightarrow>
     sgq_signer_subject other = sgq_signer_subject request \<and> sgq_meaning other = sgq_meaning request \<and>
     sgq_action other = sgq_action request \<and> sgq_record_type other = sgq_record_type request \<and>
     sgq_record_id other = sgq_record_id request \<and> sgq_record_version other = sgq_record_version request \<and>
     (sgq_justification other = None \<or> sgq_justification other = sgq_justification request)"

lemma saved_matches:
  assumes "signature_from_request hmac key fresh_id now request ''mfa'' = Inr r"
    and "save_signature_idempotent hmac key sha256 t r None None cell = Inr (r', cell')"
    and "cell' = identity_cell_of s"
  shows "usable hmac key s (sgr_signature_id r) other \<longleftrightarrow> request_matches request other"
proof -
  obtain s1 s' where v: "has_valid_hash hmac key r = Inr True"
    and i: "insert_signature t None None r s1 = Inr (r', s')" and c: "cell' = identity_cell_of s'"
    using assms(2) by (auto simp: save_signature_idempotent_def bind_res_Inr_iff mutate_Inr split: if_splits)
  have "s' = s" using c assms(3) validate_cell_of by (metis sum.inject(2))
  then have g: "dict_get (is_signatures s) (sgr_signature_id r) = Some \<lparr>st_record = r, st_consumed_at = None\<rparr>"
    using i by (auto simp: insert_signature_def Let_def split: if_splits)
  have "intent_matches r other \<longleftrightarrow> request_matches request other"
    using assms(1)
    by (auto simp: signature_from_request_def intent_matches_def request_matches_def Let_def bind_res_Inr_iff)
  then show ?thesis using g v by (simp add: usable_def)
qed

lemma stored_without_key:
  assumes "store_signature env (identity_repository hmac key sha256 t n n') request None r0 cell = Inr (r, cell1)"
  shows "r = r0 \<and> (\<exists>x. save_signature_idempotent hmac key sha256 t r0 None None cell = Inr (x, cell1))"
proof (cases "save_signature_idempotent hmac key sha256 t r0 None None cell")
  case (Inr y)
  then show ?thesis
    using assms by (cases y) (simp add: store_signature_def identity_repository_def save_signature_def)
qed (use assms in \<open>simp add: store_signature_def identity_repository_def save_signature_def\<close>)

lemma consume_usable:
  assumes "validate_identity cell = Inr s" and "usable hmac key s i e"
  shows "\<exists>cell'. consume_signature hmac key n n' i e None cell = Inr (True, cell')"
proof -
  have "\<exists>s'. consume_in hmac key [n, n'] i e None s = Inr (True, s')"
    using assms(2) unfolding consume_in_True by (auto simp: intents_of_def)
  then show ?thesis using assms(1) by (auto simp: consume_signature_def mutate_Inr)
qed

text \<open>
  C39: a signing and its verification. With the MFA challenge and the identity authority as store, a signature
  that was issued without an idempotency key verifies, and it verifies exactly for the requests that agree with
  the one it was made for on the signer, the meaning, the action, the record's type, id and version, and, where
  they name a justification, on the justification; one that names none passes whatever the signer justified.
  It verifies once: after a verification no request verifies with it, and the store stays as it is. (With an
  idempotency key a replayed signing answers the signature of the first one, which may be consumed already.)
\<close>

theorem signed_verifies_once:
  assumes "sv_step_up svc = recent_mfa_challenge age time"
    and "sv_repository svc = Some (identity_repository (ev_hmac env) (ev_key env) sha256 t n n')"
    and "sign env svc request session None cell w = Inr (r, cell1, w')"
  shows "\<exists>cell2. sgr_signer_subject r = ap_subject (ss_principal session) \<and>
    verify_signature svc (sgr_signature_id r) request cell1 = Inr (True, cell2) \<and>
    (\<forall>other. verify_signature svc (sgr_signature_id r) other cell2 = Inr (False, cell2)) \<and>
    (\<forall>other. (\<exists>cell3. verify_signature svc (sgr_signature_id r) other cell1 = Inr (True, cell3)) \<longleftrightarrow>
       sgq_signer_subject other = sgq_signer_subject request \<and> sgq_meaning other = sgq_meaning request \<and>
       sgq_action other = sgq_action request \<and> sgq_record_type other = sgq_record_type request \<and>
       sgq_record_id other = sgq_record_id request \<and> sgq_record_version other = sgq_record_version request \<and>
       (sgq_justification other = None \<or> sgq_justification other = sgq_justification request))"
proof -
  let ?m = "ev_hmac env" and ?k = "ev_key env"
  have who: "sgq_signer_subject request = ap_subject (ss_principal session)"
    and su: "su_success (sv_step_up svc session)"
    using assms(3) by (auto simp: sign_def Let_def split: if_splits)
  have lvl: "su_assurance_level (sv_step_up svc session) = ''mfa''"
    using su mfa_assurance assms(1) by simp
  obtain r0 where f: "signature_from_request ?m ?k (ev_signature_id env) (ev_signed_at env) request ''mfa'' = Inr r0"
    and st: "store_signature env (identity_repository ?m ?k sha256 t n n') request None r0 cell = Inr (r, cell1)"
    using assms(2,3) lvl by (auto simp: sign_def Let_def bind_res_Inr_iff case_prod_beta split: if_splits)
  obtain x where sv: "save_signature_idempotent ?m ?k sha256 t r0 None None cell = Inr (x, cell1)" and r: "r = r0"
    using stored_without_key [OF st] by blast
  obtain s where s: "cell1 = identity_cell_of s" and u: "usable ?m ?k s (sgr_signature_id r) request"
    using saved_usable [OF f sv] r by blast
  have verify: "verify_signature svc i q c = consume_signature ?m ?k n n' i q None c" for i q c
    by (simp add: verify_signature_def assms(2) identity_repository_def)
  obtain cell2 where c2: "consume_signature ?m ?k n n' (sgr_signature_id r) request None cell1 = Inr (True, cell2)"
    using consume_usable [OF _ u] s by fastforce
  obtain s2 where c2s: "consume_in ?m ?k [n, n'] (sgr_signature_id r) request None s = Inr (True, s2)"
    and s2c: "cell2 = identity_cell_of s2"
    using c2 s by (auto simp: consume_signature_def mutate_Inr)
  obtain g where "dict_get (is_signatures s2) (sgr_signature_id r) = Some g" "st_consumed_at g \<noteq> None"
    using consumed_marked [OF c2s] by (auto simp: consumed_ids_def)
  then have "consume_signature ?m ?k n n' (sgr_signature_id r) other None cell2 = Inr (False, cell2)" for other
    by (auto simp: consume_signature_def mutate_def consume_in_def Let_def s2c)
  moreover have "(\<exists>cell3. consume_signature ?m ?k n n' (sgr_signature_id r) other None cell1 = Inr (True, cell3)) \<longleftrightarrow>
       request_matches request other" for other
  proof
    assume "\<exists>cell3. consume_signature ?m ?k n n' (sgr_signature_id r) other None cell1 = Inr (True, cell3)"
    then have "usable ?m ?k s (sgr_signature_id r) other"
      using s unfolding consume_signature_def mutate_Inr consume_in_True by (auto simp: intents_of_def)
    then show "request_matches request other"
      using saved_matches [OF f sv s [unfolded r]] by (simp add: r)
  next
    assume "request_matches request other"
    then have "usable ?m ?k s (sgr_signature_id r) other"
      using saved_matches [OF f sv s [unfolded r]] by (simp add: r)
    then show "\<exists>cell3. consume_signature ?m ?k n n' (sgr_signature_id r) other None cell1 = Inr (True, cell3)"
      using consume_usable [of cell1 s] s by simp
  qed
  moreover have "sgr_signer_subject r = ap_subject (ss_principal session)"
    using f r who by (auto simp: signature_from_request_def Let_def bind_res_Inr_iff)
  ultimately show ?thesis using c2 unfolding verify request_matches_def by blast
qed

definition mfa_session :: auth_session where
  "mfa_session =
     \<lparr>ss_principal = \<lparr>ap_subject = ''ann'', ap_principal_type = ''user'', ap_issuer = None, ap_groups = [],
        ap_claims = [(''auth_time'', JInt 100), (''amr'', JList [JStr ''pwd'', JStr ''mfa''])], ap_attributes = []\<rparr>,
      ss_auth_method = ''bearer_token'', ss_provider_name = ''jwt'',
      ss_attributes = [(''jwt_issuer'', ''i''), (''jwt_audience'', ''a''), (''jwt_issuer_validated'', ''true''),
        (''jwt_audience_validated'', ''true'')]\<rparr>"

definition example_env :: signing_env where
  "example_env = \<lparr>ev_hmac = example_mac, ev_key = Inr ''k'', ev_sha256 = (\<lambda>x. x), ev_signature_id = ''s9'',
     ev_signed_at = ''d'', ev_event_id = ''e'', ev_event_time = ''d''\<rparr>"

definition example_signing :: "(identity_cell option, unit) signature_service" where
  "example_signing = \<lparr>sv_critical_actions = DEFAULT_CRITICAL_ACTIONS, sv_step_up = recent_mfa_challenge 300 200000000,
     sv_audit_emitter = None,
     sv_repository = Some (identity_repository example_mac (Inr ''k'') (\<lambda>x. x) ''d'' ''n'' ''n'')\<rparr>"

lemma signed_verifies_once_witness:
  "\<exists>r cell1 cell2. sign example_env example_signing (intent_of ''ann'' SM_APPROVED) mfa_session None None ()
       = Inr (r, cell1, ()) \<and>
     verify_signature example_signing (sgr_signature_id r) (intent_of ''ann'' SM_APPROVED) cell1 = Inr (True, cell2)"
proof -
  have "case sign example_env example_signing (intent_of ''ann'' SM_APPROVED) mfa_session None None () of
      Inr _ \<Rightarrow> True | _ \<Rightarrow> False"
    by code_simp
  then obtain r cell1 where c: "sign example_env example_signing (intent_of ''ann'' SM_APPROVED) mfa_session None None ()
      = Inr (r, cell1, ())"
    by (auto split: sum.splits)
  show ?thesis
    using c signed_verifies_once [OF _ _ c, of 300 200000000 "\<lambda>x. x" "''d''" "''n''" "''n''"]
    by (auto simp: example_signing_def example_env_def)
qed

section \<open>Replaying a signing\<close>

definition recorded :: "string \<Rightarrow> string \<Rightarrow> signature_record \<Rightarrow> identity_cell option \<Rightarrow> bool" where
  "recorded op d r cell \<longleftrightarrow>
     (\<exists>s p i g. cell = identity_cell_of s \<and> identity_ok s \<and> dict_get (is_operations s) op = Some p \<and>
        oi_request_digest p = d \<and> oi_result p = Made_Signature i \<and> dict_get (is_signatures s) i = Some g \<and>
        st_record g = r)"

lemma step_writes: "identity_step cell cell' \<Longrightarrow> \<exists>s'. cell' = identity_cell_of s'"
  by (erule identity_step.cases)
    (auto simp: assign_roles_def create_invitation_def accept_invitation_def create_service_account_def
      revoke_service_account_def save_signature_idempotent_def consume_signature_def mutate_Inr bind_res_Inr_iff
      Let_def split: if_splits)

lemma step_recorded:
  assumes "identity_step cell cell'" and "recorded op d r cell"
  shows "recorded op d r cell'"
proof -
  obtain s p i g where s: "cell = identity_cell_of s" "identity_ok s" "dict_get (is_operations s) op = Some p"
    "oi_request_digest p = d" "oi_result p = Made_Signature i" "dict_get (is_signatures s) i = Some g" "st_record g = r"
    using assms(2) unfolding recorded_def by blast
  obtain s' where s': "validate_identity cell' = Inr s'" "identity_ok s'" "evolves s s'"
    using cell_evolves [OF assms(1) _ s(2)] s(1) by (metis validate_cell_of)
  obtain g' where "dict_get (is_signatures s') i = Some g'" "st_record g' = r"
    using evolves_signature [OF s'(3) s(6)] s(7) by blast
  moreover have "cell' = identity_cell_of s'" using step_writes [OF assms(1)] s'(1) by auto
  ultimately show ?thesis
    unfolding recorded_def using s'(2) evolves_operation [OF s'(3) s(3)] s(4,5) by blast
qed

definition signing_operation :: "(string \<Rightarrow> string) \<Rightarrow> string \<Rightarrow> string \<Rightarrow> string" where
  "signing_operation sha256 who k = sha256 (''signature'' @ CHR 0x00 # who @ CHR 0x00 # k)"

lemma saved_recorded:
  assumes "identity_cell_ok cell"
    and "save_signature_idempotent hmac key sha256 t r (Some k) (Some d) cell = Inr (r1, cell1)"
  shows "recorded (signing_operation sha256 (sgr_signer_subject r) k) d r1 cell1"
proof -
  let ?op = "signing_operation sha256 (sgr_signer_subject r) k"
  obtain s s' where i: "insert_signature t (Some ?op) (Some d) r s = Inr (r1, s')"
    and s: "identity_ok s" "cell1 = identity_cell_of s'"
    using assms
    by (auto simp: save_signature_idempotent_def bind_res_Inr_iff mutate_Inr identity_cell_ok_def
        signing_operation_def split: if_splits)
  have "identity_ok s'" using insert_signature_evolves [OF i] evolves_ok s(1) by blast
  moreover have "\<exists>p j g. dict_get (is_operations s') ?op = Some p \<and> oi_request_digest p = d \<and>
      oi_result p = Made_Signature j \<and> dict_get (is_signatures s') j = Some g \<and> st_record g = r1"
    using i by (auto simp: insert_signature_def Let_def opt_text_def split: option.splits if_splits operation_result.splits)
  ultimately show ?thesis unfolding recorded_def using s(2) by blast
qed

text \<open>
  A signing is replayed. After a signature was saved under a key, whatever calls follow, saving a
  signature of the same signer under the same key answers the first record and changes nothing when
  the request is the same, and raises a conflict when it is another.
\<close>

theorem signing_replayed:
  assumes "identity_cell_ok cell"
    and "save_signature_idempotent hmac key sha256 t r (Some k) (Some d) cell = Inr (r1, cell1)"
    and "identity_step\<^sup>*\<^sup>* cell1 cell2"
    and "sgr_signer_subject r' = sgr_signer_subject r" and "has_valid_hash hmac' key' r' = Inr True"
    and "sgr_action r' \<noteq> []" "sgr_record_type r' \<noteq> []" "sgr_record_id r' \<noteq> []" "sgr_record_version r' \<noteq> []"
    and "d' \<noteq> []"
  shows "save_signature_idempotent hmac' key' sha256 t' r' (Some k) (Some d') cell2 =
    (if d' = d then Inr (r1, cell2)
     else Inl (IdentityConflictError ''Idempotency key was already used for a different signature request.''))"
proof -
  have "recorded (signing_operation sha256 (sgr_signer_subject r) k) d r1 cell2"
    using assms(3) by (induction rule: rtranclp_induct) (auto intro: step_recorded saved_recorded [OF assms(1,2)])
  then obtain s p i g where s: "cell2 = identity_cell_of s"
    "dict_get (is_operations s) (signing_operation sha256 (sgr_signer_subject r) k) = Some p"
    "oi_request_digest p = d" "oi_result p = Made_Signature i" "dict_get (is_signatures s) i = Some g" "st_record g = r1"
    unfolding recorded_def by blast
  have "py_strip k \<noteq> []"
    using assms(2) by (auto simp: save_signature_idempotent_def bind_res_Inr_iff split: if_splits)
  then show ?thesis
    using s assms(4-10)
    by (auto simp: save_signature_idempotent_def mutate_def insert_signature_def signing_operation_def str_truthy_def)
qed

lemma signing_replayed_witness:
  "\<exists>r1 cell1. save_signature_idempotent example_mac (Inr ''k'') (\<lambda>x. x) ''t'' (st_record (signed_as ''s7'' ''ann'' SM_APPROVED))
       (Some ''key'') (Some ''d'') None = Inr (r1, cell1) \<and>
     save_signature_idempotent example_mac (Inr ''k'') (\<lambda>x. x) ''u'' (st_record (signed_as ''s8'' ''ann'' SM_APPROVED))
       (Some ''key'') (Some ''d'') cell1 = Inr (r1, cell1)"
proof -
  have ok: "identity_cell_ok None"
    by (simp add: identity_cell_ok_def identity_ok_def validate_identity_def empty_identity_def)
  have v: "has_valid_hash example_mac (Inr ''k'') (st_record (signed_as ''s8'' ''ann'' SM_APPROVED)) = Inr True"
    by code_simp
  have "case save_signature_idempotent example_mac (Inr ''k'') (\<lambda>x. x) ''t'' (st_record (signed_as ''s7'' ''ann'' SM_APPROVED))
       (Some ''key'') (Some ''d'') None of Inr _ \<Rightarrow> True | _ \<Rightarrow> False"
    by code_simp
  then obtain r1 cell1 where c: "save_signature_idempotent example_mac (Inr ''k'') (\<lambda>x. x) ''t''
      (st_record (signed_as ''s7'' ''ann'' SM_APPROVED)) (Some ''key'') (Some ''d'') None = Inr (r1, cell1)"
    by (auto split: sum.splits)
  show ?thesis
    using c signing_replayed [OF ok c rtranclp.rtrancl_refl _ v, of "''d''" "''u''"]
    by (auto simp: signed_as_def)
qed

end
