(* ===== verification/Phlo_Glob.thy ===== *)
theory Phlo_Glob
  imports Phlo_Text
begin

text \<open>
  \<open>fnmatch.fnmatch\<close> on a POSIX system, where case is not folded: the pattern is read into a list of
  items the way \<open>fnmatch.translate\<close> reads it, bracket expressions with its treatment of hyphens, empty
  ranges and a leading exclamation mark included, and matched against the whole text.
\<close>

section \<open>Patterns\<close>

datatype glob_item = Glob_Star | Glob_Any | Glob_Char char | Glob_Class bool "string list"

text \<open>
  The hyphens of a bracket expression that stand between the ends of a range split it into chunks;
  the first is looked for after the first character, every other after the end of the last range.
\<close>

function glob_chunks :: "nat \<Rightarrow> string \<Rightarrow> string list" where
  "glob_chunks k s =
     (let p = k + length (takeWhile (\<lambda>c. c \<noteq> CHR ''-'') (drop k s)) in
      if p \<ge> length s then [s] else take p s # glob_chunks 2 (drop (p + 1) s))"
  by auto

termination
  by (relation "measure (\<lambda>(k, s). length s)") (auto simp: Let_def)

declare glob_chunks.simps [simp del]

text \<open>A hyphen at the end belongs to the chunk before it.\<close>

definition glob_trailing :: "string list \<Rightarrow> string list" where
  "glob_trailing cs =
     (if length cs \<ge> 2 \<and> last cs = [] then butlast (butlast cs) @ [last (butlast cs) @ ''-''] else cs)"

text \<open>Ranges whose ends are out of order disappear with their ends, from the last to the first.\<close>

fun glob_merge :: "string list \<Rightarrow> string list" where
  "glob_merge [] = []"
| "glob_merge (c # cs) =
     (case glob_merge cs of
        [] \<Rightarrow> [c]
      | d # ds \<Rightarrow> if ord (last c) > ord (hd d) then (butlast c @ tl d) # ds else c # d # ds)"

definition glob_class :: "string \<Rightarrow> glob_item" where
  "glob_class stuff =
     (let k = (if hd stuff = CHR ''!'' then 2 else 1);
          cs = (if CHR ''-'' \<in> set stuff then glob_merge (glob_trailing (glob_chunks k stuff)) else [stuff])
      in case cs of
           (CHR ''!'' # c) # ds \<Rightarrow> Glob_Class True (c # ds)
         | _ \<Rightarrow> Glob_Class False cs)"

text \<open>\<open>[\<close> opens an expression that ends at the next \<open>]\<close>, but not at one that comes first.\<close>

definition bracket_skip :: "string \<Rightarrow> nat" where
  "bracket_skip cs =
     (let p = (case cs of c # _ \<Rightarrow> if c = CHR ''!'' then 1 else 0 | [] \<Rightarrow> 0) in
      case drop p cs of c # _ \<Rightarrow> if c = CHR '']'' then p + 1 else p | [] \<Rightarrow> p)"

definition bracket_end :: "string \<Rightarrow> nat" where
  "bracket_end cs = bracket_skip cs + length (takeWhile (\<lambda>c. c \<noteq> CHR '']'') (drop (bracket_skip cs) cs))"

function (sequential) glob_items :: "string \<Rightarrow> glob_item list" where
  "glob_items [] = []"
| "glob_items (c # cs) =
     (if c = CHR ''*'' then Glob_Star # glob_items cs
      else if c = CHR ''?'' then Glob_Any # glob_items cs
      else if c = CHR ''['' \<and> bracket_end cs < length cs
      then glob_class (take (bracket_end cs) cs) # glob_items (drop (bracket_end cs + 1) cs)
      else Glob_Char c # glob_items cs)"
  by pat_completeness auto

termination
  by (relation "measure length") auto

section \<open>Matching\<close>

text \<open>Between two chunks lies a range; after an exclamation mark that was the whole chunk, a hyphen.\<close>

fun in_chunks :: "char \<Rightarrow> string list \<Rightarrow> bool" where
  "in_chunks x [] \<longleftrightarrow> False"
| "in_chunks x [c] \<longleftrightarrow> x \<in> set c"
| "in_chunks x (c # d # ds) \<longleftrightarrow>
     x \<in> set c \<or> (if c = [] then x = CHR ''-'' else ord (last c) \<le> ord x \<and> ord x \<le> ord (hd d)) \<or>
     in_chunks x (d # ds)"

fun item_matches :: "glob_item \<Rightarrow> char \<Rightarrow> bool" where
  "item_matches (Glob_Class negated cs) x \<longleftrightarrow> (in_chunks x cs \<noteq> negated)"
| "item_matches (Glob_Char c) x \<longleftrightarrow> x = c"
| "item_matches Glob_Any x \<longleftrightarrow> True"
| "item_matches Glob_Star x \<longleftrightarrow> False"

function (sequential) glob_match :: "glob_item list \<Rightarrow> string \<Rightarrow> bool" where
  "glob_match [] s \<longleftrightarrow> s = []"
| "glob_match (Glob_Star # gs) [] \<longleftrightarrow> glob_match gs []"
| "glob_match (Glob_Star # gs) (x # s) \<longleftrightarrow> glob_match gs (x # s) \<or> glob_match (Glob_Star # gs) s"
| "glob_match (g # gs) [] \<longleftrightarrow> False"
| "glob_match (g # gs) (x # s) \<longleftrightarrow> item_matches g x \<and> glob_match gs s"
  by pat_completeness auto

termination
  by (relation "measure (\<lambda>(gs, s). length gs + length s)") auto

definition fnmatch :: "string \<Rightarrow> string \<Rightarrow> bool" where
  "fnmatch name pat \<longleftrightarrow> glob_match (glob_items pat) name"

section \<open>Facts\<close>

lemma glob_star: "glob_match (Glob_Star # gs) s \<longleftrightarrow> (\<exists>u v. s = u @ v \<and> glob_match gs v)"
proof (induction s)
  case (Cons x s)
  then show ?case by (auto simp: Cons_eq_append_conv)
qed simp

lemma fnmatch_star [simp]: "fnmatch s ''*''"
  by (simp add: fnmatch_def glob_star)

text \<open>A pattern without special characters matches itself only; one followed by a star, its extensions.\<close>

definition plain :: "string \<Rightarrow> bool" where
  "plain p \<longleftrightarrow> set p \<inter> {CHR ''*'', CHR ''?'', CHR ''[''} = {}"

lemma plain_items: "plain p \<Longrightarrow> glob_items (p @ q) = map Glob_Char p @ glob_items q"
  by (induction p) (auto simp: plain_def)

lemma plain_match: "glob_match (map Glob_Char p @ gs) s \<longleftrightarrow> (\<exists>v. s = p @ v \<and> glob_match gs v)"
proof (induction p arbitrary: s)
  case (Cons c p)
  then show ?case by (cases s) auto
qed simp

lemma fnmatch_plain: "plain p \<Longrightarrow> fnmatch s p \<longleftrightarrow> s = p"
  using plain_items [of p "[]"] plain_match [of p "[]" s] by (simp add: fnmatch_def)

lemma fnmatch_prefix: "plain p \<Longrightarrow> fnmatch s (p @ ''*'') \<longleftrightarrow> (\<exists>v. s = p @ v)"
  using plain_items [of p "''*''"] plain_match [of p "[Glob_Star]" s] by (auto simp: fnmatch_def glob_star)

end
