(* ===== verification/Authorization.thy ===== *)
theory Authorization
  imports Phlo_Glob Rbac_Models
begin

text \<open>
  \<open>phlo/capabilities/authorization.py\<close>: the default policy decision point. Rules come from the canonical
  RBAC model, so an attribute pattern is any JSON value; \<open>fnmatch\<close> raises on one that is not a string, and
  the backend turns every exception into a denial.
\<close>

section \<open>Requests, rules and decisions\<close>

record principal_ref =
  pn_subject :: string
  pn_principal_type :: string
  pn_roles :: "string list"
  pn_attributes :: "(string, string) dict"

record resource_ref =
  rr_resource_type :: string
  rr_resource_id :: string
  rr_attributes :: "(string, string) dict"

record authorization_decision =
  ad_allowed :: bool
  ad_reason_code :: string
  ad_policy_id :: "string option"
  ad_explanation :: "string option"

record authz_rule =
  az_policy_id :: string
  az_effect :: string
  az_principal_roles :: "string list"
  az_principal_attributes :: "(string, json) dict"
  az_action :: string
  az_resource_type :: string
  az_resource_id_pattern :: string
  az_resource_attributes :: "(string, json) dict"

text \<open>The rules of a backend built from the policies of the canonical model, where every key is present.\<close>

definition authz_rule_of :: "rbac_policy_rule \<Rightarrow> authz_rule" where
  "authz_rule_of p =
     \<lparr>az_policy_id = pr_policy_id p, az_effect = effect_value (pr_effect p),
      az_principal_roles = pr_principal_roles p, az_principal_attributes = pr_principal_attributes p,
      az_action = pr_action p, az_resource_type = pr_resource_type p,
      az_resource_id_pattern = pr_resource_id_pattern p, az_resource_attributes = pr_resource_attributes p\<rparr>"

record authz_backend =
  ab_rbac :: "canonical_rbac option"
  ab_policies :: "authz_rule list"

definition new_authz_backend :: "rbac_policy_rule list option \<Rightarrow> canonical_rbac option \<Rightarrow> authz_backend" where
  "new_authz_backend policies rbac =
     \<lparr>ab_rbac = rbac,
      ab_policies = map authz_rule_of
        (case policies of
           Some ps \<Rightarrow> ps
         | None \<Rightarrow> (case rbac of None \<Rightarrow> [] | Some m \<Rightarrow> pc_policies (rb_policies m)))\<rparr>"

section \<open>Matching\<close>

definition pattern_matches :: "string \<Rightarrow> string \<Rightarrow> bool" where
  "pattern_matches rule_pattern request \<longleftrightarrow> rule_pattern = ''*'' \<or> fnmatch request rule_pattern"

definition principal_roles_match :: "string list \<Rightarrow> string list \<Rightarrow> bool" where
  "principal_roles_match rule_roles principal_roles \<longleftrightarrow>
     rule_roles = [] \<or> (\<exists>r \<in> set rule_roles. r \<in> set principal_roles)"

fun attributes_match :: "(string, json) dict \<Rightarrow> (string, string) dict \<Rightarrow> bool res" where
  "attributes_match [] request_attrs = Inr True"
| "attributes_match ((key, v) # rest) request_attrs =
     (case dict_get request_attrs key of
        None \<Rightarrow> Inr False
      | Some r \<Rightarrow>
          (case v of
             JStr p \<Rightarrow> if fnmatch r p then attributes_match rest request_attrs else Inr False
           | _ \<Rightarrow> Inl TypeError))"

definition rule_matches :: "authz_rule \<Rightarrow> principal_ref \<Rightarrow> string \<Rightarrow> resource_ref \<Rightarrow> bool res" where
  "rule_matches rule pn request_action resource =
     (if \<not> pattern_matches (az_action rule) request_action then Inr False
      else if \<not> pattern_matches (az_resource_type rule) (rr_resource_type resource) then Inr False
      else if \<not> pattern_matches (az_resource_id_pattern rule) (rr_resource_id resource) then Inr False
      else if \<not> principal_roles_match (az_principal_roles rule) (pn_roles pn) then Inr False
      else bind_res (attributes_match (az_principal_attributes rule) (pn_attributes pn)) (\<lambda>ok.
        if \<not> ok then Inr False
        else attributes_match (az_resource_attributes rule) (rr_attributes resource)))"

section \<open>Decisions\<close>

definition deny_decision :: "authz_rule \<Rightarrow> authorization_decision" where
  "deny_decision rule =
     \<lparr>ad_allowed = False, ad_reason_code = ''explicit_deny'', ad_policy_id = Some (az_policy_id rule),
      ad_explanation = Some (''Matched deny rule '' @ az_policy_id rule)\<rparr>"

definition allow_decision :: "authz_rule \<Rightarrow> authorization_decision" where
  "allow_decision rule =
     \<lparr>ad_allowed = True, ad_reason_code = ''explicit_allow'', ad_policy_id = Some (az_policy_id rule),
      ad_explanation = Some (''Matched allow rule '' @ az_policy_id rule)\<rparr>"

definition default_deny :: authorization_decision where
  "default_deny = \<lparr>ad_allowed = False, ad_reason_code = ''default_deny'', ad_policy_id = None,
     ad_explanation = Some ''No matching policy rule''\<rparr>"

definition backend_unavailable :: authorization_decision where
  "backend_unavailable = \<lparr>ad_allowed = False, ad_reason_code = ''backend_unavailable'', ad_policy_id = None,
     ad_explanation = Some ''Authorization backend failed''\<rparr>"

text \<open>The loop over the rules, with the allow decision found so far.\<close>

fun decide :: "(authz_rule \<Rightarrow> bool res) \<Rightarrow> authz_rule list \<Rightarrow> authorization_decision option
    \<Rightarrow> authorization_decision res" where
  "decide matches_rule [] matching_allow =
     Inr (case matching_allow of Some d \<Rightarrow> d | None \<Rightarrow> default_deny)"
| "decide matches_rule (rule # rules) matching_allow =
     bind_res (matches_rule rule) (\<lambda>hit.
       if hit \<and> az_effect rule = ''deny'' then Inr (deny_decision rule)
       else decide matches_rule rules
              (if hit \<and> az_effect rule = ''allow'' then Some (allow_decision rule) else matching_allow))"

definition explain_decision :: "authz_backend \<Rightarrow> principal_ref \<Rightarrow> string \<Rightarrow> resource_ref \<Rightarrow> authorization_decision" where
  "explain_decision backend pn request_action resource =
     (case decide (\<lambda>rule. rule_matches rule pn request_action resource) (ab_policies backend) None of
        Inr d \<Rightarrow> d
      | Inl _ \<Rightarrow> backend_unavailable)"

definition is_allowed :: "authz_backend \<Rightarrow> principal_ref \<Rightarrow> string \<Rightarrow> resource_ref \<Rightarrow> bool" where
  "is_allowed backend pn request_action resource = ad_allowed (explain_decision backend pn request_action resource)"

definition filter_resources :: "authz_backend \<Rightarrow> principal_ref \<Rightarrow> resource_ref list \<Rightarrow> string \<Rightarrow> resource_ref list" where
  "filter_resources backend pn resources request_action =
     filter (is_allowed backend pn request_action) resources"

section \<open>The default provider\<close>

text \<open>
  What is registered: \<open>loaded\<close> and \<open>loaded_policies\<close> are what the configuration loader answers for the whole
  model and for the policies alone. Only a missing file and a \<open>ValueError\<close> are handled.
\<close>

fun load_failure :: "py_error \<Rightarrow> bool" where
  "load_failure (FileNotFoundError _) = True"
| "load_failure (ValueError _) = True"
| "load_failure _ = False"

definition default_provider :: "canonical_rbac option \<Rightarrow> canonical_rbac res \<Rightarrow> policies_config res \<Rightarrow> bool
    \<Rightarrow> authz_backend res" where
  "default_provider rbac loaded loaded_policies regulated =
     (case (case rbac of Some m \<Rightarrow> Inr m | None \<Rightarrow> loaded) of
        Inr m \<Rightarrow> Inr (new_authz_backend (Some (pc_policies (rb_policies m))) (Some m))
      | Inl e \<Rightarrow>
          if \<not> load_failure e then Inl e
          else if regulated then Inl (RuntimeError ''Regulated authorization policies are unavailable'')
          else (case loaded_policies of
                  Inr pc \<Rightarrow> Inr (new_authz_backend (Some (pc_policies pc)) None)
                | Inl e' \<Rightarrow> if load_failure e' then Inr (new_authz_backend (Some []) None) else Inl e'))"

section \<open>What a decision means\<close>

definition hits :: "(authz_rule \<Rightarrow> bool res) \<Rightarrow> authz_rule list \<Rightarrow> string \<Rightarrow> authz_rule list" where
  "hits matches_rule rules eff = filter (\<lambda>r. matches_rule r = Inr True \<and> az_effect r = eff) rules"

lemma decide_all:
  assumes "\<forall>r \<in> set rules. \<exists>b. matches_rule r = Inr b"
  shows "decide matches_rule rules acc = Inr
    (case hits matches_rule rules ''deny'' of
       r # _ \<Rightarrow> deny_decision r
     | [] \<Rightarrow> (case rev (hits matches_rule rules ''allow'') of
                r # _ \<Rightarrow> allow_decision r
              | [] \<Rightarrow> (case acc of Some d \<Rightarrow> d | None \<Rightarrow> default_deny)))"
  using assms
proof (induction rules arbitrary: acc)
  case (Cons rule rules)
  obtain b where b: "matches_rule rule = Inr b" using Cons.prems by auto
  show ?case
  proof (cases "b \<and> az_effect rule = ''deny''")
    case True
    then show ?thesis using b by (simp add: hits_def)
  next
    case False
    then show ?thesis
      using b Cons.prems Cons.IH [of "if b \<and> az_effect rule = ''allow'' then Some (allow_decision rule) else acc"]
      by (cases b; cases "rev (hits matches_rule rules ''allow'')") (auto simp: hits_def split: list.splits)
  qed
qed (simp add: hits_def)

end
