(* ===== verification/Identity_Bridge.thy ===== *)
theory Identity_Bridge
  imports Authorization Identity_Authority
begin

text \<open>
  \<open>phlo/identity/bridge.py\<close>: from an authenticated caller to the principal of an authorization decision.
  \<open>authority\<close> is the record of the identity authority when the setting enables it. A set of roles is
  sorted where it is listed, and left out of the text of an error, where its order is not fixed.
\<close>

definition DEFAULT_GROUP_ROLE_MAPPING :: "(string, string) dict" where
  "DEFAULT_GROUP_ROLE_MAPPING =
     [(''admin'', ''admin''), (''operators'', ''operator''), (''developers'', ''developer''),
      (''analysts'', ''analyst''), (''viewers'', ''viewer'')]"

definition APPROVED_PRINCIPAL_TYPES :: "string list" where
  "APPROVED_PRINCIPAL_TYPES = [''user'', ''service'', ''platform'']"

record bridge_config =
  bc_group_role_mapping :: "(string, string) dict"
  bc_enforce_approved_principal_types :: bool
  bc_propagate_idp_groups :: bool
  bc_authentication_source_claim :: string
  bc_canonical_rbac :: "canonical_rbac option"

definition default_bridge :: bridge_config where
  "default_bridge =
     \<lparr>bc_group_role_mapping = DEFAULT_GROUP_ROLE_MAPPING, bc_enforce_approved_principal_types = False,
      bc_propagate_idp_groups = True, bc_authentication_source_claim = ''authentication_source'',
      bc_canonical_rbac = None\<rparr>"

definition create_regulated_bridge :: "canonical_rbac option \<Rightarrow> bridge_config" where
  "create_regulated_bridge rbac =
     default_bridge\<lparr>bc_group_role_mapping := [], bc_enforce_approved_principal_types := True,
       bc_canonical_rbac := rbac\<rparr>"

definition map_groups_to_roles :: "(string, string) dict \<Rightarrow> string list \<Rightarrow> string list" where
  "map_groups_to_roles mapping groups =
     fold (\<lambda>group roles.
       case dict_get mapping group of
         None \<Rightarrow> roles
       | Some r \<Rightarrow> if r \<in> set roles then roles else roles @ [r]) groups []"

definition apply_principal_type_roles :: "string \<Rightarrow> string list \<Rightarrow> string list" where
  "apply_principal_type_roles principal_type existing_roles =
     (if principal_type = ''service'' \<and> ''service'' \<notin> set existing_roles then existing_roles @ [''service'']
      else existing_roles)"

definition managed_roles_for :: "identity_cell option option \<Rightarrow> auth_principal \<Rightarrow> string list option res" where
  "managed_roles_for authority ap =
     (case authority of
        None \<Rightarrow> Inr None
      | Some cell \<Rightarrow> managed_roles cell (ap_subject ap) (ap_principal_type ap))"

text \<open>The roles of a caller before those its type brings: managed roles replace all others.\<close>

definition resolved_roles :: "bridge_config \<Rightarrow> identity_cell option option \<Rightarrow> auth_principal \<Rightarrow> string set res" where
  "resolved_roles config authority ap =
     bind_res (managed_roles_for authority ap) (\<lambda>managed.
       case managed of
         Some rs \<Rightarrow> Inr (set rs)
       | None \<Rightarrow>
           let roles = set (map_groups_to_roles (bc_group_role_mapping config) (ap_groups ap)) in
           (case bc_canonical_rbac config of
              None \<Rightarrow> Inr roles
            | Some m \<Rightarrow> bind_res (effective_roles_for_subject m (ap_subject ap) (ap_principal_type ap))
                (\<lambda>more. Inr (roles \<union> more))))"

definition unapproved_type :: "string \<Rightarrow> py_error" where
  "unapproved_type t =
     ValueError (''Principal type '' @ CHR 0x27 # t @ CHR 0x27 # '' is not approved for regulated mode.'')"

definition canonicalize :: "bridge_config \<Rightarrow> identity_cell option option \<Rightarrow> auth_principal \<Rightarrow> principal_ref res" where
  "canonicalize config authority ap =
     (if bc_enforce_approved_principal_types config \<and> ap_principal_type ap \<notin> set APPROVED_PRINCIPAL_TYPES
      then Inl (unapproved_type (ap_principal_type ap))
      else bind_res (resolved_roles config authority ap) (\<lambda>roles.
        let attrs = (if bc_propagate_idp_groups config
                     then dict_set (ap_attributes ap) ''idp_groups'' (str_join '','' (ap_groups ap))
                     else ap_attributes ap);
            source = (case str_or (dict_get attrs (bc_authentication_source_claim config)) (ap_issuer ap) of
                        Some s \<Rightarrow> if s \<noteq> [] then s else ''unknown''
                      | None \<Rightarrow> ''unknown'')
        in Inr \<lparr>pn_subject = ap_subject ap, pn_principal_type = ap_principal_type ap,
                pn_roles = apply_principal_type_roles (ap_principal_type ap) (sorted_list_of_set roles),
                pn_attributes = dict_set attrs ''authentication_source'' source\<rparr>))"

definition canonicalize_principal :: "identity_cell option option \<Rightarrow> auth_principal \<Rightarrow> bool \<Rightarrow> principal_ref res" where
  "canonicalize_principal authority ap regulated =
     canonicalize (if regulated then create_regulated_bridge None else default_bridge) authority ap"

section \<open>What a principal holds\<close>

lemma map_groups_roles:
  "set (map_groups_to_roles mapping groups) = {r. \<exists>g \<in> set groups. dict_get mapping g = Some r}"
proof -
  have "set (fold (\<lambda>group roles. case dict_get mapping group of None \<Rightarrow> roles
          | Some r \<Rightarrow> if r \<in> set roles then roles else roles @ [r]) groups acc)
      = set acc \<union> {r. \<exists>g \<in> set groups. dict_get mapping g = Some r}" for acc
    by (induction groups arbitrary: acc) (auto split: option.splits)
  then show ?thesis by (simp add: map_groups_to_roles_def)
qed

lemma type_roles: "set (apply_principal_type_roles t rs) = set rs \<union> (if t = ''service'' then {''service''} else {})"
  by (auto simp: apply_principal_type_roles_def)

lemma canonicalize_Inr:
  "canonicalize config authority ap = Inr p \<Longrightarrow>
     \<exists>roles. resolved_roles config authority ap = Inr roles \<and> pn_subject p = ap_subject ap \<and>
       pn_principal_type p = ap_principal_type ap \<and>
       pn_roles p = apply_principal_type_roles (ap_principal_type ap) (sorted_list_of_set roles)"
  by (auto simp: canonicalize_def Let_def bind_res_Inr_iff split: if_splits)

text \<open>
  A finding: a disabled member of type service keeps the role \<open>service\<close>, and a revoked service account counts as
  unmanaged, so its roles come from the model of access again.
\<close>

lemma disabled_service_keeps_role:
  assumes "member_of cell (ap_subject ap) = Inr (Some m)" and "\<not> mi_active m"
    and "ap_principal_type ap = ''service''" and "canonicalize config (Some cell) ap = Inr p"
  shows "pn_roles p = [''service'']"
proof -
  obtain s where s: "validate_identity cell = Inr s" "dict_get (is_members s) (ap_subject ap) = Some m"
    using assms(1) by (auto simp: member_of_def bind_res_Inr_iff)
  then have "resolved_roles config (Some cell) ap = Inr {}"
    using assms(2) by (simp add: resolved_roles_def managed_roles_for_def managed_roles_def)
  then show ?thesis
    using canonicalize_Inr [OF assms(4)] assms(3) by (auto simp: apply_principal_type_roles_def)
qed

end
