(* ===== verification/Enforcement.thy ===== *)
theory Enforcement
  imports Identity_Bridge
begin

text \<open>
  \<open>phlo/security/enforcement.py\<close> and the result type of \<open>adapters.py\<close>: the one path by which a surface gets
  an authorization decision. The process-wide context, once it exists, is its bridge, the authority, the
  policy backend and the audit emitter; the backend is any function that answers or raises.
\<close>

section \<open>Results and context\<close>

datatype enforcement_variant = EV_ALLOW | EV_DENY | EV_ERROR

fun variant_value :: "enforcement_variant \<Rightarrow> string" where
  "variant_value EV_ALLOW = ''allow''"
| "variant_value EV_DENY = ''deny''"
| "variant_value EV_ERROR = ''error''"

record enforcement_result =
  er_variant :: enforcement_variant
  er_reason_code :: "string option"
  er_policy_id :: "string option"
  er_explanation :: "string option"

definition result_allow :: enforcement_result where
  "result_allow = \<lparr>er_variant = EV_ALLOW, er_reason_code = None, er_policy_id = None, er_explanation = None\<rparr>"

definition result_deny :: "string \<Rightarrow> string option \<Rightarrow> string option \<Rightarrow> enforcement_result" where
  "result_deny reason policy_id explanation =
     \<lparr>er_variant = EV_DENY, er_reason_code = Some reason, er_policy_id = policy_id, er_explanation = explanation\<rparr>"

definition result_error :: "string \<Rightarrow> string option \<Rightarrow> enforcement_result" where
  "result_error reason explanation =
     \<lparr>er_variant = EV_ERROR, er_reason_code = Some reason, er_policy_id = None, er_explanation = explanation\<rparr>"

definition result_allowed :: "enforcement_result \<Rightarrow> bool" where
  "result_allowed r \<longleftrightarrow> er_variant r = EV_ALLOW"

type_synonym policy_backend = "principal_ref \<Rightarrow> string \<Rightarrow> resource_ref \<Rightarrow> authorization_decision res"

record 'w enforcement_context =
  ec_bridge :: bridge_config
  ec_authority :: "identity_cell option option"
  ec_backend :: policy_backend
  ec_emitter :: "'w audit_emitter"

text \<open>A caller that is no \<open>AuthPrincipal\<close> is \<open>None\<close>.\<close>

definition context_canonicalize :: "'w enforcement_context \<Rightarrow> auth_principal option \<Rightarrow> principal_ref res" where
  "context_canonicalize ctx caller =
     (case caller of
        None \<Rightarrow> Inl TypeError
      | Some ap \<Rightarrow> canonicalize (ec_bridge ctx) (ec_authority ctx) ap)"

section \<open>The decision path\<close>

record enforce_request =
  eq_action :: string
  eq_resource :: resource_ref
  eq_request_id :: "string option"
  eq_surface :: string
  eq_correlation_id :: "string option"
  eq_require_durable_audit :: bool

definition decision_result :: "authorization_decision \<Rightarrow> enforcement_result" where
  "decision_result d =
     (if ad_allowed d then result_allow
      else result_deny (if ad_reason_code d = [] then ''explicit_deny'' else ad_reason_code d)
             (ad_policy_id d) (ad_explanation d))"

definition enforcement_actor :: "principal_ref \<Rightarrow> actor_fields" where
  "enforcement_actor p =
     \<lparr>af_subject = pn_subject p, af_type = pn_principal_type p, af_roles = pn_roles p,
      af_authentication_source =
        (case dict_get (pn_attributes p) ''authentication_source'' of None \<Rightarrow> ''unknown'' | Some s \<Rightarrow> s)\<rparr>"

definition enforcement_target :: "enforce_request \<Rightarrow> resource_fields" where
  "enforcement_target q =
     \<lparr>rf_action = eq_action q, rf_resource_type = rr_resource_type (eq_resource q),
      rf_resource_id = rr_resource_id (eq_resource q)\<rparr>"

definition enforcement_fields :: "enforce_request \<Rightarrow> enforcement_result \<Rightarrow> authorization_fields" where
  "enforcement_fields q r =
     \<lparr>zf_decision = variant_value (er_variant r), zf_reason_code = (case er_reason_code r of None \<Rightarrow> [] | Some c \<Rightarrow> c),
      zf_policy_id = er_policy_id r, zf_explanation = None, zf_request_id = eq_request_id q,
      zf_correlation_id = eq_correlation_id q, zf_parent_correlation_id = [], zf_source_ip = None,
      zf_outcome = []\<rparr>"

definition enforce :: "'w enforcement_context \<Rightarrow> string \<Rightarrow> string \<Rightarrow> auth_principal option \<Rightarrow> enforce_request \<Rightarrow> 'w
    \<Rightarrow> enforcement_result \<times> 'w" where
  "enforce ctx event_id event_time caller q w =
     (case context_canonicalize ctx caller of
        Inl _ \<Rightarrow> (result_error ''canonicalization_failed'' (Some ''Failed to canonicalize principal''), w)
      | Inr p \<Rightarrow>
          (case ec_backend ctx p (eq_action q) (eq_resource q) of
             Inl _ \<Rightarrow> (result_error ''backend_unavailable'' (Some ''Authorization backend failed''), w)
           | Inr d \<Rightarrow>
               let result = decision_result d in
               (case emit_authorization (ec_emitter ctx) event_id event_time (Some (eq_surface q))
                       (enforcement_actor p) (enforcement_target q) (enforcement_fields q result)
                       (eq_require_durable_audit q) w of
                  (w', Inr _) \<Rightarrow> (result, w')
                | (w', Inl _) \<Rightarrow>
                    if eq_require_durable_audit q \<and> result_allowed result
                    then (result_error ''audit_persistence_failed''
                            (Some ''Required durable audit persistence failed''), w')
                    else (result, w'))))"

section \<open>The regulated context\<close>

text \<open>
  In regulated mode the context is built at its first access: the backend must be registered, and the
  bridge gets the access model of the backend. A failure is raised out of \<open>enforce\<close>.
\<close>

definition regulated_context :: "identity_cell option option \<Rightarrow> authz_backend option \<Rightarrow> 'w audit_emitter
    \<Rightarrow> 'w enforcement_context res" where
  "regulated_context authority backend emitter =
     (case backend of
        None \<Rightarrow> Inl (RuntimeError ''No authorization_policy_backend is configured'')
      | Some b \<Rightarrow> Inr \<lparr>ec_bridge = create_regulated_bridge (ab_rbac b), ec_authority = authority,
          ec_backend = (\<lambda>p act res. Inr (explain_decision b p act res)), ec_emitter = emitter\<rparr>)"

end
