(* ===== verification/Enforcement_Spec.thy ===== *)
theory Enforcement_Spec
  imports Enforcement Rbac_Hierarchy
begin

text \<open>
  What a decision of the default backend means, when enforcement allows an action, what it records, and
  what an allowed action says about the caller in regulated mode.
\<close>

section \<open>A concrete deployment\<close>

definition grant_rbac :: canonical_rbac where
  "grant_rbac =
     \<lparr>rb_roles = \<lparr>rc_version = JInt 1,
        rc_roles = [(''a'', \<lparr>ro_name = ''a'', ro_inherits = [''b''], ro_description = None\<rparr>),
                    (''b'', \<lparr>ro_name = ''b'', ro_inherits = [], ro_description = None\<rparr>)],
        rc_subjects = \<lparr>su_services = [], su_users = [(''u'', [''a''])]\<rparr>\<rparr>,
      rb_policies = \<lparr>pc_version = JInt 1,
        pc_policies = [\<lparr>pr_policy_id = ''p'', pr_effect = ALLOW, pr_principal_roles = [''b''],
          pr_principal_attributes = [], pr_action = ''dataset.*'', pr_resource_type = ''dataset'',
          pr_resource_id_pattern = ''raw.[a-m]*'', pr_resource_attributes = []\<rparr>]\<rparr>,
      rb_version_hash = None\<rparr>"

definition example_caller :: auth_principal where
  "example_caller = \<lparr>ap_subject = ''u'', ap_principal_type = ''user'', ap_issuer = Some ''idp'', ap_groups = [''admin''],
     ap_claims = [], ap_attributes = []\<rparr>"

definition example_access :: "bool \<Rightarrow> enforce_request" where
  "example_access durable =
     \<lparr>eq_action = ''dataset.read'',
      eq_resource = \<lparr>rr_resource_type = ''dataset'', rr_resource_id = ''raw.events'', rr_attributes = []\<rparr>,
      eq_request_id = None, eq_surface = ''api'', eq_correlation_id = None, eq_require_durable_audit = durable\<rparr>"

text \<open>A durable sink that keeps the events it was given.\<close>

definition keeping_emitter :: "canonical_audit_event list audit_emitter" where
  "keeping_emitter = \<lparr>em_surface = ''core'',
     em_sinks = [\<lparr>sk_is_durable = True, sk_write = (\<lambda>e w. (w @ [e], Inr ()))\<rparr>]\<rparr>"

definition example_context :: "canonical_audit_event list enforcement_context" where
  "example_context = \<lparr>ec_bridge = create_regulated_bridge (Some grant_rbac), ec_authority = None,
     ec_backend = (\<lambda>p act res. Inr (explain_decision (new_authz_backend None (Some grant_rbac)) p act res)),
     ec_emitter = keeping_emitter\<rparr>"

lemma example_regulated: "regulated_context None (Some (new_authz_backend None (Some grant_rbac))) keeping_emitter
    = Inr example_context"
  by (simp add: regulated_context_def example_context_def new_authz_backend_def)

lemma example_enforced: "result_allowed (fst (enforce example_context ''i'' ''t'' (Some example_caller) (example_access True) []))"
  by code_simp

section \<open>Decisions\<close>

lemma decide_Inr:
  "decide f rules acc = Inr d \<Longrightarrow> ad_allowed d \<Longrightarrow>
     (\<forall>r \<in> set rules. (\<exists>b. f r = Inr b) \<and> \<not> (f r = Inr True \<and> az_effect r = ''deny'')) \<and>
     ((\<exists>r \<in> set rules. f r = Inr True \<and> az_effect r = ''allow'') \<or> (\<exists>a. acc = Some a \<and> ad_allowed a))"
proof (induction rules arbitrary: acc)
  case Nil
  then show ?case by (auto simp: default_deny_def split: option.splits)
next
  case (Cons r rules)
  obtain b where b: "f r = Inr b" using Cons.prems(1) by (auto simp: bind_res_Inr_iff)
  show ?case
  proof (cases "b \<and> az_effect r = ''deny''")
    case True
    then show ?thesis using Cons.prems b by (auto simp: deny_decision_def)
  next
    case False
    let ?acc = "if b \<and> az_effect r = ''allow'' then Some (allow_decision r) else acc"
    have "decide f rules ?acc = Inr d" using Cons.prems(1) b False by simp
    from Cons.IH [OF this Cons.prems(2)] show ?thesis using b False by (auto split: if_splits)
  qed
qed

lemma allow_is_allowed [simp]: "ad_allowed (allow_decision r)" "\<not> ad_allowed (deny_decision r)" "\<not> ad_allowed default_deny"
  "\<not> ad_allowed backend_unavailable"
  by (simp_all add: allow_decision_def deny_decision_def default_deny_def backend_unavailable_def)

lemma allowed_iff:
  "ad_allowed (explain_decision b p act res) \<longleftrightarrow>
     \<not> (\<exists>rule \<in> set (ab_policies b). \<exists>e. rule_matches rule p act res = Inl e) \<and>
     (\<exists>rule \<in> set (ab_policies b). rule_matches rule p act res = Inr True \<and> az_effect rule = ''allow'') \<and>
     \<not> (\<exists>rule \<in> set (ab_policies b). rule_matches rule p act res = Inr True \<and> az_effect rule = ''deny'')"
  (is "?allowed \<longleftrightarrow> ?grant")
proof
  let ?f = "\<lambda>rule. rule_matches rule p act res"
  assume ?allowed
  then obtain d where "decide ?f (ab_policies b) None = Inr d" "ad_allowed d"
    unfolding explain_decision_def by (cases "decide ?f (ab_policies b) None") auto
  from decide_Inr [OF this] show ?grant by fastforce
next
  let ?f = "\<lambda>rule. rule_matches rule p act res" and ?rs = "ab_policies b"
  assume g: ?grant
  then have "\<forall>r \<in> set ?rs. \<exists>v. ?f r = Inr v" by (metis sum.exhaust)
  note d = decide_all [of ?rs ?f None, OF this]
  have "hits ?f ?rs ''deny'' = []" using g by (auto simp: hits_def filter_empty_conv)
  moreover have "hits ?f ?rs ''allow'' \<noteq> []" using g by (auto simp: hits_def filter_empty_conv)
  then obtain r xs where "rev (hits ?f ?rs ''allow'') = r # xs" by (metis neq_Nil_conv rev_is_Nil_conv)
  ultimately show ?allowed unfolding explain_decision_def d by simp
qed

text \<open>
  C27: deny overrides, default is deny, failure is deny. The default backend allows a request exactly when
  matching fails on no rule, some allow rule matches and no deny rule does; so the order of the rules
  never decides.
\<close>

theorem decision_exact:
  "ad_allowed (explain_decision b p act res) \<longleftrightarrow>
     \<not> (\<exists>rule \<in> set (ab_policies b). \<exists>e. rule_matches rule p act res = Inl e) \<and>
     (\<exists>rule \<in> set (ab_policies b). rule_matches rule p act res = Inr True \<and> az_effect rule = ''allow'') \<and>
     \<not> (\<exists>rule \<in> set (ab_policies b). rule_matches rule p act res = Inr True \<and> az_effect rule = ''deny'')"
  by (rule allowed_iff)

section \<open>Enforcement\<close>

definition decision_event :: "'w enforcement_context \<Rightarrow> string \<Rightarrow> string \<Rightarrow> principal_ref \<Rightarrow> enforce_request
    \<Rightarrow> authorization_decision \<Rightarrow> canonical_audit_event" where
  "decision_event ctx event_id event_time p q d =
     from_authorization_decision event_id event_time
       (if eq_surface q = [] then em_surface (ec_emitter ctx) else eq_surface q)
       (enforcement_actor p) (enforcement_target q) (enforcement_fields q (decision_result d))"

lemma emitted_decision:
  "emit_authorization (ec_emitter ctx) i t (Some (eq_surface q)) (enforcement_actor p) (enforcement_target q)
       (enforcement_fields q (decision_result d)) durable w =
     (let event = stamped (ec_emitter ctx) (decision_event ctx i t p q d); sinks = em_sinks (ec_emitter ctx) in
      (world_after event sinks w,
       if durable \<and> \<not> persisted event sinks w
       then Inl (AuditPersistenceError
              (if \<exists>s \<in> set sinks. sk_is_durable s then ''durable audit persistence failed''
               else ''no durable audit sink is configured''))
       else Inr ()))"
  unfolding emit_authorization_def decision_event_def Let_def option.case emit_event_spec by (rule refl)

lemma result_allowed_simps [simp]:
  "result_allowed result_allow" "\<not> result_allowed (result_deny r p e)" "\<not> result_allowed (result_error r e)"
  "result_allowed (decision_result d) \<longleftrightarrow> ad_allowed d"
  by (simp_all add: result_allowed_def result_allow_def result_deny_def result_error_def decision_result_def)

lemma enforce_cases:
  "enforce ctx i t caller q w =
     (case context_canonicalize ctx caller of
        Inl _ \<Rightarrow> (result_error ''canonicalization_failed'' (Some ''Failed to canonicalize principal''), w)
      | Inr p \<Rightarrow>
          (case ec_backend ctx p (eq_action q) (eq_resource q) of
             Inl _ \<Rightarrow> (result_error ''backend_unavailable'' (Some ''Authorization backend failed''), w)
           | Inr d \<Rightarrow>
               let event = stamped (ec_emitter ctx) (decision_event ctx i t p q d);
                   sinks = em_sinks (ec_emitter ctx) in
               (if eq_require_durable_audit q \<and> ad_allowed d \<and> \<not> persisted event sinks w
                then result_error ''audit_persistence_failed'' (Some ''Required durable audit persistence failed'')
                else decision_result d, world_after event sinks w)))"
  unfolding enforce_def emitted_decision Let_def
  by (auto split: sum.splits)

text \<open>
  C26: when an action is allowed. Enforcement allows exactly when the caller can be canonicalised, the
  backend answers and allows, and, where durable audit is required, a durable sink persisted the event
  of this decision; in every other case it returns a denial or an error and never raises.
\<close>

theorem enforce_allows_iff:
  "result_allowed (fst (enforce ctx i t caller q w)) \<longleftrightarrow>
     (\<exists>p d. context_canonicalize ctx caller = Inr p \<and> ec_backend ctx p (eq_action q) (eq_resource q) = Inr d \<and>
        ad_allowed d \<and>
        (eq_require_durable_audit q \<longrightarrow>
           persisted (stamped (ec_emitter ctx) (decision_event ctx i t p q d)) (em_sinks (ec_emitter ctx)) w))"
  unfolding enforce_cases by (auto simp: Let_def split: sum.splits)

lemma enforce_allows_iff_witness:
  "\<exists>p d. context_canonicalize example_context (Some example_caller) = Inr p \<and>
     ec_backend example_context p ''dataset.read'' (eq_resource (example_access True)) = Inr d \<and> ad_allowed d \<and>
     persisted (stamped keeping_emitter (decision_event example_context ''i'' ''t'' p (example_access True) d))
       (em_sinks keeping_emitter) []"
  using enforce_allows_iff [of example_context "''i''" "''t''" "Some example_caller" "example_access True" "[]"]
    example_enforced
  by (simp add: example_access_def example_context_def)

text \<open>
  Every decision is recorded. Whenever the backend answered, the event of its decision, with the
  caller, its roles, the action, the resource and the variant, is written to every sink, in order,
  even when the request is denied.
\<close>

theorem enforce_records:
  assumes "context_canonicalize ctx caller = Inr p" and "ec_backend ctx p (eq_action q) (eq_resource q) = Inr d"
  shows "snd (enforce ctx i t caller q w) =
      world_after (stamped (ec_emitter ctx) (decision_event ctx i t p q d)) (em_sinks (ec_emitter ctx)) w \<and>
    ce_actor_subject (decision_event ctx i t p q d) = pn_subject p \<and>
    ce_actor_roles (decision_event ctx i t p q d) = pn_roles p \<and>
    ce_action (decision_event ctx i t p q d) = eq_action q \<and>
    ce_resource_id (decision_event ctx i t p q d) = rr_resource_id (eq_resource q) \<and>
    ce_decision (decision_event ctx i t p q d) = (if ad_allowed d then ''allow'' else ''deny'')"
  unfolding enforce_cases
  by (simp add: assms Let_def decision_event_def from_authorization_decision_def with_actor_def
      enforcement_actor_def enforcement_target_def enforcement_fields_def decision_result_def result_allow_def
      result_deny_def)

lemma enforce_records_witness:
  "\<exists>p d. snd (enforce example_context ''i'' ''t'' (Some example_caller) (example_access False) []) =
     world_after (stamped keeping_emitter (decision_event example_context ''i'' ''t'' p (example_access False) d))
       (em_sinks keeping_emitter) []"
proof -
  have "case context_canonicalize example_context (Some example_caller) of Inr _ \<Rightarrow> True | _ \<Rightarrow> False"
    by code_simp
  then obtain p where p: "context_canonicalize example_context (Some example_caller) = Inr p"
    by (auto split: sum.splits)
  show ?thesis
    using enforce_records [OF p, of "example_access False" _ "''i''" "''t''" "[]"]
    by (auto simp: example_context_def)
qed

text \<open>
  A finding. With the emitter the context is built with, which only logs, an action that requires
  durable audit is never allowed, whatever the policies say.
\<close>

theorem default_emitter_refuses:
  "\<not> (ec_emitter ctx = create_default_emitter log surface \<and> eq_require_durable_audit q \<and>
      result_allowed (fst (enforce ctx i t caller q w)))"
proof -
  have "\<not> persisted event (em_sinks (create_default_emitter log surface)) w" for event
    by (simp add: create_default_emitter_def add_sink_def logging_sink_def persisted_Cons)
  then show ?thesis unfolding enforce_cases by (auto simp: Let_def split: sum.splits)
qed

section \<open>Access in regulated mode\<close>

lemma union_roles_finite: "union_roles rc rs eff = Inr s \<Longrightarrow> finite eff \<Longrightarrow> finite s"
  by (induction rs arbitrary: eff) (auto simp: get_effective_roles_def bind_res_Inr_iff)

lemma resolved_roles_finite: "resolved_roles config authority ap = Inr roles \<Longrightarrow> finite roles"
  by (auto simp: resolved_roles_def bind_res_Inr_iff effective_roles_for_subject_def Let_def
      intro: union_roles_finite split: option.splits)

lemma principal_roles:
  assumes "canonicalize config authority ap = Inr p" and "resolved_roles config authority ap = Inr roles"
  shows "set (pn_roles p) = roles \<union> (if ap_principal_type ap = ''service'' then {''service''} else {})"
  using canonicalize_Inr [OF assms(1)] assms(2) resolved_roles_finite [OF assms(2)] by (auto simp: type_roles)

text \<open>The roles a caller has in regulated mode.\<close>

definition holds_role :: "identity_cell option option \<Rightarrow> canonical_rbac \<Rightarrow> auth_principal \<Rightarrow> string \<Rightarrow> bool" where
  "holds_role authority m ap r \<longleftrightarrow>
     r = ''service'' \<and> ap_principal_type ap = ''service'' \<or>
     (case managed_roles_for authority ap of
        Inr (Some rs) \<Rightarrow> r \<in> set rs
      | _ \<Rightarrow> r \<in> (inherits_from (rc_roles (rb_roles m)))\<^sup>* `` set (assigned_roles m (ap_subject ap) (ap_principal_type ap)))"

lemma regulated_roles:
  assumes "rbac_validate m = []" and "canonicalize (create_regulated_bridge (Some m)) authority ap = Inr p"
    and "r \<in> set (pn_roles p)"
  shows "holds_role authority m ap r"
proof -
  obtain roles where roles: "resolved_roles (create_regulated_bridge (Some m)) authority ap = Inr roles"
    using canonicalize_Inr [OF assms(2)] by blast
  then obtain managed where mg: "managed_roles_for authority ap = Inr managed"
    by (auto simp: resolved_roles_def bind_res_Inr_iff)
  have "roles = (case managed of Some rs \<Rightarrow> set rs
      | None \<Rightarrow> (inherits_from (rc_roles (rb_roles m)))\<^sup>* `` set (assigned_roles m (ap_subject ap) (ap_principal_type ap)))"
    using roles effective_roles_on_valid [OF assms(1), of "ap_subject ap" "ap_principal_type ap"]
    by (auto simp: resolved_roles_def mg create_regulated_bridge_def map_groups_roles split: option.splits if_splits)
  then show ?thesis
    using principal_roles [OF assms(2) roles] assms(3) mg by (auto simp: holds_role_def split: option.splits if_splits)
qed

lemma matched_rule:
  "rule_matches rule p act res = Inr True \<Longrightarrow>
     pattern_matches (az_action rule) act \<and> pattern_matches (az_resource_type rule) (rr_resource_type res) \<and>
     pattern_matches (az_resource_id_pattern rule) (rr_resource_id res) \<and>
     principal_roles_match (az_principal_roles rule) (pn_roles p)"
  by (auto simp: rule_matches_def split: if_splits)

text \<open>
  C25: no access without a grant. In regulated mode, with a valid access model, an action is allowed only to
  a caller of an approved type, and only by an allow policy whose action, resource type and resource
  pattern match and which either names no roles, and so is open to every such caller (the validation of the
  model does not ask for any), or names one the caller holds: by managed assignment if there is one, else by the
  assignments of the model and what they inherit, or, for a caller of type service, the role \<open>service\<close>. Groups
  of the identity provider never count.
\<close>

theorem regulated_access_needs_grant:
  assumes "rbac_validate m = []"
    and "regulated_context authority (Some (new_authz_backend None (Some m))) em = Inr ctx"
    and "result_allowed (fst (enforce ctx i t (Some ap) q w))"
  shows "ap_principal_type ap \<in> set APPROVED_PRINCIPAL_TYPES \<and>
    (\<exists>policy \<in> set (pc_policies (rb_policies m)). pr_effect policy = ALLOW \<and>
       pattern_matches (pr_action policy) (eq_action q) \<and>
       pattern_matches (pr_resource_type policy) (rr_resource_type (eq_resource q)) \<and>
       pattern_matches (pr_resource_id_pattern policy) (rr_resource_id (eq_resource q)) \<and>
       (pr_principal_roles policy = [] \<or> (\<exists>r \<in> set (pr_principal_roles policy). holds_role authority m ap r)))"
proof -
  let ?b = "new_authz_backend None (Some m)"
  have ctx: "ec_bridge ctx = create_regulated_bridge (Some m)" "ec_authority ctx = authority"
    "ec_backend ctx = (\<lambda>p act res. Inr (explain_decision ?b p act res))"
    using assms(2) by (auto simp: regulated_context_def new_authz_backend_def)
  obtain p where p: "canonicalize (create_regulated_bridge (Some m)) authority ap = Inr p"
    and d: "ad_allowed (explain_decision ?b p (eq_action q) (eq_resource q))"
    using assms(3) unfolding enforce_cases
    by (auto simp: ctx context_canonicalize_def Let_def split: sum.splits if_splits)
  have "ap_principal_type ap \<in> set APPROVED_PRINCIPAL_TYPES"
    using p by (auto simp: canonicalize_def create_regulated_bridge_def split: if_splits)
  moreover obtain rule where rule: "rule \<in> set (ab_policies ?b)" "az_effect rule = ''allow''"
    "rule_matches rule p (eq_action q) (eq_resource q) = Inr True"
    using d unfolding allowed_iff by blast
  then obtain policy where policy: "policy \<in> set (pc_policies (rb_policies m))" "rule = authz_rule_of policy"
    by (auto simp: new_authz_backend_def)
  have "pr_effect policy = ALLOW"
    using rule(2) policy(2) by (cases "pr_effect policy") (simp_all add: authz_rule_of_def)
  moreover have "pr_principal_roles policy = [] \<or> (\<exists>r \<in> set (pr_principal_roles policy). holds_role authority m ap r)"
    using matched_rule [OF rule(3)] regulated_roles [OF assms(1) p] policy(2)
    by (auto simp: principal_roles_match_def authz_rule_of_def)
  ultimately show ?thesis
    using matched_rule [OF rule(3)] policy by (auto simp: authz_rule_of_def)
qed

lemma regulated_access_needs_grant_witness:
  "\<exists>policy \<in> set (pc_policies (rb_policies grant_rbac)).
     pr_principal_roles policy = [] \<or> (\<exists>r \<in> set (pr_principal_roles policy). holds_role None grant_rbac example_caller r)"
proof -
  have "rbac_validate grant_rbac = []" by code_simp
  from regulated_access_needs_grant [OF this example_regulated example_enforced] show ?thesis by blast
qed

end
