(* ===== verification/Phlo_Json_Read.thy ===== *)
theory Phlo_Json_Read
  imports Phlo_Text
begin

text \<open>
  The reading side of Python's text library: \<open>json.loads\<close> on text and UTF-8 bytes, \<open>json.dumps\<close> in
  dictionary order (its inverse), the lenient \<open>base64.urlsafe_b64decode\<close>, \<open>bytes.decode("utf-8")\<close> and
  \<open>int\<close> of a text. Numbers with a fraction or an exponent are kept as their text.
\<close>

section \<open>Values\<close>

datatype pvalue =
    PNull
  | PBool bool
  | PInt int
  | PFloat string
  | PStr string
  | PList "pvalue list"
  | PObj "(string \<times> pvalue) list"

fun pv_of :: "json \<Rightarrow> pvalue" where
  "pv_of JNull = PNull"
| "pv_of (JBool b) = PBool b"
| "pv_of (JInt i) = PInt i"
| "pv_of (JStr s) = PStr s"
| "pv_of (JList xs) = PList (map pv_of xs)"
| "pv_of (JObj d) = PObj (map (\<lambda>p. (fst p, pv_of (snd p))) d)"

text \<open>The message of a \<open>JSONDecodeError\<close> is left out.\<close>

abbreviation bad_json :: "py_error" where
  "bad_json \<equiv> ValueError []"

section \<open>Scanning\<close>

definition json_ws :: "char \<Rightarrow> bool" where
  "json_ws c \<longleftrightarrow> c = CHR '' '' \<or> c = CHR 0x09 \<or> c = CHR 0x0A \<or> c = CHR 0x0D"

abbreviation skip_ws :: "string \<Rightarrow> string" where
  "skip_ws \<equiv> dropWhile json_ws"

definition hex_value :: "char \<Rightarrow> nat option" where
  "hex_value c =
     (if ascii_digit c then Some (ord c - 48)
      else if 97 \<le> ord c \<and> ord c \<le> 102 then Some (ord c - 87)
      else if 65 \<le> ord c \<and> ord c \<le> 70 then Some (ord c - 55)
      else None)"

definition hex4 :: "string \<Rightarrow> (nat \<times> string) option" where
  "hex4 s =
     (case s of
        a # b # c # d # r \<Rightarrow>
          (case (hex_value a, hex_value b, hex_value c, hex_value d) of
             (Some k, Some l, Some m, Some n) \<Rightarrow> Some (((k * 16 + l) * 16 + m) * 16 + n, r)
           | _ \<Rightarrow> None)
      | _ \<Rightarrow> None)"

definition unescape :: "char \<Rightarrow> char option" where
  "unescape e =
     (if e = CHR 0x22 \<or> e = CHR 0x5C \<or> e = CHR ''/'' then Some e
      else if e = CHR ''b'' then Some (CHR 0x08)
      else if e = CHR ''f'' then Some (CHR 0x0C)
      else if e = CHR ''n'' then Some (CHR 0x0A)
      else if e = CHR ''r'' then Some (CHR 0x0D)
      else if e = CHR ''t'' then Some (CHR 0x09)
      else None)"

lemma hex4_shorter: "hex4 s = Some (n, r) \<Longrightarrow> length r < length s"
  by (auto simp: hex4_def split: list.splits option.splits)

text \<open>
  One character of a string's text, or its closing quote, and what follows; an escape of a character
  beyond the model is \<open>UntypedPayload\<close>.
\<close>

definition scan_char :: "string \<Rightarrow> (char option \<times> string) res" where
  "scan_char s =
     (case s of
        [] \<Rightarrow> Inl bad_json
      | c # cs \<Rightarrow>
          if c = CHR 0x22 then Inr (None, cs)
          else if c = CHR 0x5C then
            (case cs of
               [] \<Rightarrow> Inl bad_json
             | e # es \<Rightarrow>
                 if e = CHR ''u'' then
                   (case hex4 es of
                      None \<Rightarrow> Inl bad_json
                    | Some (n, r) \<Rightarrow> if n < 256 then Inr (Some (char_of n), r) else Inl UntypedPayload)
                 else (case unescape e of None \<Rightarrow> Inl bad_json | Some c' \<Rightarrow> Inr (Some c', es)))
          else if ord c < 32 then Inl bad_json
          else Inr (Some c, cs))"

lemma scan_char_shorter: "scan_char s = Inr (x, r) \<Longrightarrow> length r < length s"
  unfolding scan_char_def
  by (auto split: list.splits if_splits option.splits prod.splits dest!: hex4_shorter)

function scan_string :: "string \<Rightarrow> (string \<times> string) res" where
  "scan_string s =
     (case scan_char s of
        Inl x \<Rightarrow> Inl x
      | Inr (None, r) \<Rightarrow> Inr ([], r)
      | Inr (Some c, r) \<Rightarrow> (case scan_string r of Inl x \<Rightarrow> Inl x | Inr (t, r') \<Rightarrow> Inr (c # t, r')))"
  by pat_completeness auto
termination by (relation "measure length") (auto dest: scan_char_shorter)

declare scan_string.simps [simp del]

lemma scan_string_shorter: "scan_string s = Inr (t, r) \<Longrightarrow> length r < length s"
proof (induction s arbitrary: t r rule: scan_string.induct)
  case (1 s)
  show ?case
  proof (cases "scan_char s")
    case (Inr p)
    obtain x r0 where p: "p = (x, r0)" by (cases p)
    show ?thesis
      using 1(2) Inr p scan_char_shorter [of s x r0] 1(1) [of p x r0]
      by (subst (asm) scan_string.simps) (fastforce split: option.splits sum.splits prod.splits)
  qed (use 1(2) in \<open>simp add: scan_string.simps\<close>)
qed

text \<open>A number: the longest text of the JSON grammar; more than 4300 digits are refused.\<close>

definition scan_exponent :: "string \<Rightarrow> string \<times> string" where
  "scan_exponent s =
     (case s of
        e # r \<Rightarrow>
          (let sign = (case r of c # _ \<Rightarrow> if c = CHR ''+'' \<or> c = CHR ''-'' then [c] else [] | [] \<Rightarrow> []);
               ds = takeWhile ascii_digit (drop (length sign) r)
           in if (e = CHR ''e'' \<or> e = CHR ''E'') \<and> ds \<noteq> []
              then (e # sign @ ds, drop (length sign + length ds) r) else ([], s))
      | [] \<Rightarrow> ([], s))"

definition scan_fraction :: "string \<Rightarrow> string \<times> string" where
  "scan_fraction s =
     (case s of
        p # r \<Rightarrow>
          (let ds = takeWhile ascii_digit r
           in if p = CHR ''.'' \<and> ds \<noteq> [] then (p # ds, drop (length ds) r) else ([], s))
      | [] \<Rightarrow> ([], s))"

definition scan_digits :: "string \<Rightarrow> string \<times> string" where
  "scan_digits s =
     (if starts_with s ''0'' then (''0'', tl s) else (takeWhile ascii_digit s, dropWhile ascii_digit s))"

fun digits_value :: "nat \<Rightarrow> string \<Rightarrow> nat" where
  "digits_value n [] = n"
| "digits_value n (c # cs) = digits_value (n * 10 + (ord c - 48)) cs"

definition scan_number :: "string \<Rightarrow> (pvalue \<times> string) res" where
  "scan_number s =
     (let neg = starts_with s ''-'';
          (ds, r) = scan_digits (if neg then tl s else s);
          (fr, r') = scan_fraction r;
          (ex, r'') = scan_exponent r'
      in if ds = [] then Inl bad_json
         else if fr \<noteq> [] \<or> ex \<noteq> [] then Inr (PFloat ((if neg then ''-'' else []) @ ds @ fr @ ex), r'')
         else if 4300 < length ds then Inl bad_json
         else Inr (PInt (if neg then - int (digits_value 0 ds) else int (digits_value 0 ds)), r''))"

section \<open>Parsing\<close>

lemma ws_bound: "length (skip_ws r) \<le> length r"
  by (rule length_dropWhile_le)

lemma ws_bound2: "length (skip_ws (tl (skip_ws r))) \<le> length r"
  using ws_bound [of "tl (skip_ws r)"] ws_bound [of r] by simp

lemma ws_less:
  "length b < n \<Longrightarrow> Suc (2 * length (skip_ws (tl (skip_ws b)))) \<le> 2 * n"
  "length b < n \<Longrightarrow> length (skip_ws (tl (skip_ws b))) \<le> n"
  using ws_bound2 [of b] by simp_all

definition literals :: "(string \<times> pvalue) list" where
  "literals = [(''null'', PNull), (''true'', PBool True), (''false'', PBool False), (''NaN'', PFloat ''NaN''),
     (''Infinity'', PFloat ''Infinity''), (''-Infinity'', PFloat ''-Infinity'')]"

text \<open>
  \<open>parse_items\<close> and \<open>parse_members\<close> read up to the closing bracket; the tests that the rest of the text
  is shorter always hold (\<open>parse_shorter\<close>).
\<close>

function parse_value :: "string \<Rightarrow> (pvalue \<times> string) res"
and parse_items :: "string \<Rightarrow> (pvalue list \<times> string) res"
and parse_members :: "string \<Rightarrow> ((string \<times> pvalue) list \<times> string) res" where
  "parse_value s =
     (case s of
        [] \<Rightarrow> Inl bad_json
      | c # cs \<Rightarrow>
          if c = CHR 0x22 then (case scan_string cs of Inl x \<Rightarrow> Inl x | Inr (t, r) \<Rightarrow> Inr (PStr t, r))
          else if c = CHR ''{'' then
            (if starts_with (skip_ws cs) ''}'' then Inr (PObj [], tl (skip_ws cs))
             else (case parse_members (skip_ws cs) of
                     Inl x \<Rightarrow> Inl x
                   | Inr (d, r) \<Rightarrow> Inr (PObj (fold (\<lambda>(k, v) e. dict_set e k v) d []), r)))
          else if c = CHR ''['' then
            (if starts_with (skip_ws cs) '']'' then Inr (PList [], tl (skip_ws cs))
             else (case parse_items (skip_ws cs) of Inl x \<Rightarrow> Inl x | Inr (vs, r) \<Rightarrow> Inr (PList vs, r)))
          else (case List.find (\<lambda>l. starts_with s (fst l)) literals of
                  Some (l, v) \<Rightarrow> Inr (v, drop (length l) s)
                | None \<Rightarrow> scan_number s))"
| "parse_items s =
     (case parse_value s of
        Inl x \<Rightarrow> Inl x
      | Inr (v, r) \<Rightarrow>
          if length r < length s then
            (if starts_with (skip_ws r) '']'' then Inr ([v], tl (skip_ws r))
             else if starts_with (skip_ws r) '','' then
               (case parse_items (skip_ws (tl (skip_ws r))) of
                  Inl x \<Rightarrow> Inl x | Inr (vs, r') \<Rightarrow> Inr (v # vs, r'))
             else Inl bad_json)
          else Inl bad_json)"
| "parse_members s =
     (if \<not> starts_with s [CHR 0x22] then Inl bad_json
      else (case scan_string (tl s) of
        Inl x \<Rightarrow> Inl x
      | Inr (k, r) \<Rightarrow>
          if length r < length s \<and> starts_with (skip_ws r) '':'' then
            (case parse_value (skip_ws (tl (skip_ws r))) of
               Inl x \<Rightarrow> Inl x
             | Inr (v, r') \<Rightarrow>
                 if length r' < length s then
                   (if starts_with (skip_ws r') ''}'' then Inr ([(k, v)], tl (skip_ws r'))
                    else if starts_with (skip_ws r') '','' then
                      (case parse_members (skip_ws (tl (skip_ws r'))) of
                         Inl x \<Rightarrow> Inl x | Inr (d, r'') \<Rightarrow> Inr ((k, v) # d, r''))
                    else Inl bad_json)
                 else Inl bad_json)
          else Inl bad_json))"
  by pat_completeness auto
termination
  by (relation "measure (\<lambda>x. case x of Inl s \<Rightarrow> 2 * length s | Inr (Inl s) \<Rightarrow> 2 * length s + 1
                                     | Inr (Inr s) \<Rightarrow> 2 * length s + 1)")
     (auto simp: ws_bound less_Suc_eq_le ws_less)

declare parse_value.simps [simp del] parse_items.simps [simp del] parse_members.simps [simp del]


text \<open>\<open>json.loads\<close> of a text.\<close>

definition json_loads :: "string \<Rightarrow> pvalue res" where
  "json_loads s =
     (case parse_value (skip_ws s) of
        Inl x \<Rightarrow> Inl x
      | Inr (v, r) \<Rightarrow> if skip_ws r = [] then Inr v else Inl bad_json)"

lemma scan_number_shorter: "scan_number s = Inr (v, r) \<Longrightarrow> length r < length s"
proof -
  assume s: "scan_number s = Inr (v, r)"
  let ?t = "if starts_with s ''-'' then tl s else s"
  obtain ds u where ds: "scan_digits ?t = (ds, u)" by (cases "scan_digits ?t")
  obtain fr u' where fr: "scan_fraction u = (fr, u')" by (cases "scan_fraction u")
  obtain ex u'' where ex: "scan_exponent u' = (ex, u'')" by (cases "scan_exponent u'")
  have "ds \<noteq> []" "r = u''" using s ds fr ex by (auto simp: scan_number_def Let_def split: if_splits)
  moreover have "length u'' \<le> length u'"
    using ex by (auto simp: scan_exponent_def Let_def split: list.splits if_splits)
  moreover have "length u' \<le> length u"
    using fr by (auto simp: scan_fraction_def Let_def split: list.splits if_splits)
  moreover have "ds \<noteq> [] \<Longrightarrow> length u < length ?t"
    using ds length_dropWhile_le [of ascii_digit ?t] takeWhile_dropWhile_id [of ascii_digit ?t]
    by (cases ?t) (auto simp: scan_digits_def starts_with_def le_imp_less_Suc length_dropWhile_le split: if_splits)
  ultimately show ?thesis by (auto split: if_splits)
qed

lemma starts_with_Cons: "starts_with s [c] \<longleftrightarrow> (\<exists>t. s = c # t)"
  by (cases s) (auto simp: starts_with_def)

lemma literal_shorter:
  assumes "List.find (\<lambda>l. starts_with s (fst l)) literals = Some (l, v)"
  shows "l \<noteq> [] \<and> starts_with s l"
proof -
  from assms [unfolded find_Some_iff]
  obtain i where i: "i < length literals" "starts_with s (fst (literals ! i))" "(l, v) = literals ! i"
    by blast
  have "(l, v) \<in> set literals" using i(1,3) nth_mem by metis
  moreover have "starts_with s l" using i(2) i(3) [symmetric] by simp
  ultimately show ?thesis by (auto simp: literals_def)
qed

lemma tl_ws_bound: "length (tl (skip_ws r)) \<le> length r"
  using ws_bound [of r] by simp

lemma parse_items_Inr:
  assumes "parse_items s = Inr (vs, r)"
  obtains v r0 where "parse_value s = Inr (v, r0)" "length r0 < length s"
    "r = tl (skip_ws r0) \<or> starts_with (skip_ws r0) '','' \<and> \<not> starts_with (skip_ws r0) '']'' \<and>
       (\<exists>vs'. parse_items (skip_ws (tl (skip_ws r0))) = Inr (vs', r))"
  using assms by (subst (asm) parse_items.simps) (auto split: if_splits sum.splits)

lemma parse_members_Inr:
  assumes "parse_members s = Inr (d, r)"
  obtains r0 where "length r0 < length s"
    "r = tl (skip_ws r0) \<or> (\<exists>k r1 v d'. starts_with s [CHR 0x22] \<and> scan_string (tl s) = Inr (k, r1) \<and>
       length r1 < length s \<and> starts_with (skip_ws r1) '':'' \<and>
       parse_value (skip_ws (tl (skip_ws r1))) = Inr (v, r0) \<and> \<not> starts_with (skip_ws r0) ''}'' \<and>
       starts_with (skip_ws r0) '','' \<and> parse_members (skip_ws (tl (skip_ws r0))) = Inr (d', r))"
  using assms by (subst (asm) parse_members.simps) (auto split: if_splits sum.splits)

lemma parse_shorter:
  "parse_value s = Inr (v, r) \<Longrightarrow> length r < length s"
  "parse_items s = Inr (vs, r) \<Longrightarrow> length r < length s"
  "parse_members s = Inr (d, r) \<Longrightarrow> length r < length s"
proof (induction s and s and s arbitrary: v r and vs r and d r rule: parse_value_parse_items_parse_members.induct)
  case (1 s)
  show ?case
  proof (cases s)
    case (Cons c cs)
    have tl_less: "length (tl (skip_ws cs)) < length s"
      using tl_ws_bound [of cs] by (simp add: Cons)
    have step: "length r < length (skip_ws cs) \<Longrightarrow> length r < length s"
      using ws_bound [of cs] by (simp add: Cons)
    have drop: "l \<noteq> [] \<Longrightarrow> length (drop (length l) s) < length s" for l :: string
      by (simp add: Cons)
    show ?thesis
      using 1(3) 1(1,2) [OF Cons] tl_less step drop literal_shorter [of s] scan_string_shorter [of cs]
        scan_number_shorter [of s]
      by (subst (asm) parse_value.simps)
         (auto simp: Cons split: if_splits sum.splits prod.splits option.splits)
  qed (use 1(3) in \<open>simp add: parse_value.simps\<close>)
next
  case (2 s)
  then obtain v r0 where p: "parse_value s = Inr (v, r0)" "length r0 < length s"
    and r: "r = tl (skip_ws r0) \<or> starts_with (skip_ws r0) '','' \<and> \<not> starts_with (skip_ws r0) '']'' \<and>
       (\<exists>vs'. parse_items (skip_ws (tl (skip_ws r0))) = Inr (vs', r))"
    by (auto elim: parse_items_Inr)
  from r show ?case
  proof
    assume "r = tl (skip_ws r0)"
    then show ?thesis using p(2) tl_ws_bound [of r0] by simp
  next
    assume "starts_with (skip_ws r0) '','' \<and> \<not> starts_with (skip_ws r0) '']'' \<and>
       (\<exists>vs'. parse_items (skip_ws (tl (skip_ws r0))) = Inr (vs', r))"
    then show ?thesis using 2(2) [OF p(1) refl p(2)] ws_less(2) [OF p(2)] by fastforce
  qed
next
  case (3 s)
  from 3(3) show ?case
  proof (cases rule: parse_members_Inr)
    case (1 r0)
    from 1(2) show ?thesis
    proof
      assume "r = tl (skip_ws r0)"
      then show ?thesis using 1(1) tl_ws_bound [of r0] by simp
    next
      assume "\<exists>k r1 v d'. starts_with s [CHR 0x22] \<and> scan_string (tl s) = Inr (k, r1) \<and>
       length r1 < length s \<and> starts_with (skip_ws r1) '':'' \<and>
       parse_value (skip_ws (tl (skip_ws r1))) = Inr (v, r0) \<and> \<not> starts_with (skip_ws r0) ''}'' \<and>
       starts_with (skip_ws r0) '','' \<and> parse_members (skip_ws (tl (skip_ws r0))) = Inr (d', r)"
      then obtain k r1 v d' where "starts_with s [CHR 0x22]" "scan_string (tl s) = Inr (k, r1)"
        "length r1 < length s" "starts_with (skip_ws r1) '':''"
        "parse_value (skip_ws (tl (skip_ws r1))) = Inr (v, r0)" "\<not> starts_with (skip_ws r0) ''}''"
        "starts_with (skip_ws r0) '',''" "parse_members (skip_ws (tl (skip_ws r0))) = Inr (d', r)"
        by blast
      then have "length r < length (skip_ws (tl (skip_ws r0)))"
        using 3(2) 1(1) by simp
      then show ?thesis using ws_less(2) [OF 1(1)] by simp
    qed
  qed
qed


section \<open>Writing in dictionary order\<close>

text \<open>\<open>json.dumps(v, sort_keys=False, separators=(",", ":"))\<close>\<close>

fun json_line :: "json \<Rightarrow> string" where
  "json_line JNull = ''null''"
| "json_line (JBool b) = (if b then ''true'' else ''false'')"
| "json_line (JInt i) = int_str i"
| "json_line (JStr s) = json_str s"
| "json_line (JList xs) = ''['' @ str_join '','' (map json_line xs) @ '']''"
| "json_line (JObj d) =
     ''{'' @ str_join '','' (map (\<lambda>p. json_str (fst p) @ '':'' @ json_line (snd p)) d) @ ''}''"

text \<open>The values that are read back: distinct keys, and no number of more than 4300 digits.\<close>

fun json_plain :: "json \<Rightarrow> bool" where
  "json_plain (JInt i) \<longleftrightarrow> length (nat_str (nat \<bar>i\<bar>)) \<le> 4300"
| "json_plain (JList xs) \<longleftrightarrow> (\<forall>x \<in> set xs. json_plain x)"
| "json_plain (JObj d) \<longleftrightarrow> distinct (map fst d) \<and> (\<forall>p \<in> set d. json_plain (snd p))"
| "json_plain _ \<longleftrightarrow> True"

lemma hex_value_digit: "n < 16 \<Longrightarrow> hex_value (hex_digit n) = Some n"
  by (auto simp: hex_value_def hex_digit_def ascii_digit_def)

lemma ord_div_16: "ord c div 16 < 16"
  by (rule less_mult_imp_div_less) simp

lemma scan_char_esc: "scan_char (json_esc c @ u) = Inr (Some c, u)"
proof -
  have "hex4 (CHR ''0'' # CHR ''0'' # hex2 c @ u) = Some (ord c, u)"
    using ord_div_16 [of c] hex_value_digit [of "ord c div 16"] hex_value_digit [of "ord c mod 16"]
    by (simp add: hex4_def hex2_def Let_def hex_value_def ascii_digit_def)
  then show ?thesis by (auto simp: json_esc_def scan_char_def unescape_def)
qed

lemma scan_string_text: "scan_string (concat (map json_esc s) @ CHR 0x22 # u) = Inr (s, u)"
proof (induction s)
  case Nil
  show ?case by (simp add: scan_string.simps scan_char_def)
next
  case (Cons c s)
  then show ?case by (subst scan_string.simps) (simp add: scan_char_esc)
qed

lemma digit_char: "(n :: nat) < 10 \<Longrightarrow> ascii_digit (char_of (48 + n))"
  by (simp add: ascii_digit_def)

lemma nat_str_digits: "list_all ascii_digit (nat_str n)"
  by (induction n rule: nat_str.induct) (subst nat_str.simps, auto simp: digit_char)

lemma nat_str_hd: "\<exists>c cs. nat_str n = c # cs \<and> (n = 0 \<longrightarrow> c = CHR ''0'' \<and> cs = []) \<and> (0 < n \<longrightarrow> c \<noteq> CHR ''0'')"
proof (induction n rule: nat_str.induct)
  case (1 n)
  show ?case
  proof (cases "n < 10")
    case True
    have "char_of (48 + n) \<noteq> CHR ''0''" if "0 < n"
    proof
      assume "char_of (48 + n) = CHR ''0''"
      then have "ord (char_of (48 + n)) = 48" by simp
      then show False using that True by simp
    qed
    moreover have "char_of (48 :: nat) = CHR ''0''" by code_simp
    ultimately show ?thesis using True by (subst nat_str.simps) simp
  next
    case False
    then show ?thesis using 1 by (subst nat_str.simps) auto
  qed
qed

lemma digits_value_append: "digits_value n (s @ t) = digits_value (digits_value n s) t"
  by (induction s arbitrary: n) auto

lemma digits_value_nat_str: "digits_value 0 (nat_str n) = n"
  by (induction n rule: nat_str.induct) (subst nat_str.simps, auto simp: digits_value_append)

text \<open>What may follow a value inside a document.\<close>

definition value_end :: "string \<Rightarrow> bool" where
  "value_end u \<longleftrightarrow> u = [] \<or> hd u \<in> {CHR '','', CHR '']'', CHR ''}''}"

lemma scan_digits_nat_str:
  assumes "value_end u"
  shows "scan_digits (nat_str n @ u) = (nat_str n, u)"
proof -
  have no: "u \<noteq> [] \<Longrightarrow> \<not> ascii_digit (hd u)"
    using assms by (auto simp: value_end_def ascii_digit_def)
  obtain c cs where n: "nat_str n = c # cs" "n = 0 \<longrightarrow> c = CHR ''0'' \<and> cs = []" "0 < n \<longrightarrow> c \<noteq> CHR ''0''"
    using nat_str_hd by blast
  have "takeWhile ascii_digit (nat_str n @ u) = nat_str n \<and> dropWhile ascii_digit (nat_str n @ u) = u"
    using nat_str_digits [of n] no by (cases u) (auto simp: list_all_iff takeWhile_append dropWhile_append)
  then show ?thesis
    using n by (cases "n = 0") (auto simp: scan_digits_def starts_with_def)
qed

lemma scan_number_int:
  assumes "value_end u" and "length (nat_str (nat \<bar>i\<bar>)) \<le> 4300"
  shows "scan_number (int_str i @ u) = Inr (PInt i, u)"
proof -
  have fr: "scan_fraction u = ([], u)" and ex: "scan_exponent u = ([], u)"
    using assms(1) by (cases u; auto simp: scan_fraction_def scan_exponent_def value_end_def Let_def)+
  have ne: "nat_str n \<noteq> []" "\<not> starts_with (nat_str n @ u) ''-''" for n
    using nat_str_hd [of n] nat_str_digits [of n] by (auto simp: starts_with_def ascii_digit_def)
  have pos: "starts_with (CHR ''-'' # s) ''-''" for s by (simp add: starts_with_def)
  show ?thesis
  proof (cases "i < 0")
    case True
    then have "nat \<bar>i\<bar> = nat (- i)" by simp
    then show ?thesis
      using True assms by (simp add: scan_number_def int_str_def pos scan_digits_nat_str fr ex ne digits_value_nat_str)
  next
    case False
    then have "nat \<bar>i\<bar> = nat i" by simp
    then show ?thesis
      using False assms by (simp add: scan_number_def int_str_def scan_digits_nat_str fr ex ne digits_value_nat_str)
  qed
qed


lemma value_end_Cons [simp]: "value_end []" "value_end (CHR '','' # u)" "value_end (CHR '']'' # u)" "value_end (CHR ''}'' # u)"
  by (simp_all add: value_end_def)

text \<open>The first character of a document says which case of the parser reads it.\<close>

lemma int_str_hd: "\<exists>c cs. int_str i = c # cs \<and> (ascii_digit c \<or> c = CHR ''-'' \<and> (\<exists>d ds. cs = d # ds \<and> ascii_digit d))"
proof -
  have c: "\<exists>c cs. nat_str n = c # cs \<and> ascii_digit c" for n
    using nat_str_hd [of n] nat_str_digits [of n] by auto
  show ?thesis using c [of "nat i"] c [of "nat (- i)"] by (cases "i < 0") (auto simp: int_str_def)
qed

lemma json_digit_neq: "ascii_digit c \<Longrightarrow> c \<notin> {CHR 0x22, CHR ''{'', CHR ''['', CHR '']'', CHR ''}'', CHR '' '', CHR 0x09,
    CHR 0x0A, CHR 0x0D, CHR ''n'', CHR ''t'', CHR ''f'', CHR ''N'', CHR ''I'', CHR ''-''}"
  by (auto simp: ascii_digit_def)

lemma json_line_hd: "\<exists>c cs. json_line v = c # cs \<and> \<not> json_ws c \<and> c \<noteq> CHR '']'' \<and> c \<noteq> CHR ''}''"
proof (cases v)
  case (JInt i)
  obtain c cs where c: "int_str i = c # cs" "ascii_digit c \<or> c = CHR ''-''" using int_str_hd by blast
  then have "\<not> json_ws c \<and> c \<noteq> CHR '']'' \<and> c \<noteq> CHR ''}''"
    using json_digit_neq [of c] by (auto simp: json_ws_def)
  then show ?thesis using c JInt by simp
qed (auto simp: json_ws_def json_str_def)

lemma skip_ws_line [simp]: "skip_ws (json_line v @ u) = json_line v @ u"
  using json_line_hd [of v] by auto

lemma skip_ws_str [simp]: "skip_ws (json_str k @ u) = json_str k @ u"
  by (simp add: json_str_def json_ws_def)

lemma starts_line [simp]: "\<not> starts_with (json_line v @ u) '']''" "\<not> starts_with (json_line v @ u) ''}''"
  using json_line_hd [of v] by (auto simp: starts_with_def)

lemma parse_int:
  assumes "value_end u" and "length (nat_str (nat \<bar>i\<bar>)) \<le> 4300"
  shows "parse_value (int_str i @ u) = Inr (PInt i, u)"
proof -
  obtain c cs where c: "int_str i = c # cs" "ascii_digit c \<or> c = CHR ''-'' \<and> (\<exists>d ds. cs = d # ds \<and> ascii_digit d)"
    using int_str_hd [of i] by auto
  have "\<not> starts_with (c # cs @ u) l" if "l \<in> fst ` set literals" for l
  proof (cases "ascii_digit c")
    case True
    then show ?thesis
      using that json_digit_neq [OF True] by (auto simp: literals_def starts_with_def)
  next
    case False
    then obtain d ds where d: "c = CHR ''-''" "cs = d # ds" "ascii_digit d" using c(2) by blast
    then show ?thesis
      using that json_digit_neq [OF d(3)] by (auto simp: literals_def starts_with_def)
  qed
  then have find: "List.find (\<lambda>l. starts_with (c # cs @ u) (fst l)) literals = None"
    unfolding find_None_iff by blast
  have "c \<noteq> CHR 0x22 \<and> c \<noteq> CHR ''{'' \<and> c \<noteq> CHR ''[''"
    using c(2) json_digit_neq [of c] by auto
  then have "parse_value (int_str i @ u) = scan_number (int_str i @ u)"
    using find by (subst parse_value.simps) (simp add: c(1))
  then show ?thesis using scan_number_int [OF assms] by simp
qed

lemma parse_string: "parse_value (json_str s @ u) = Inr (PStr s, u)"
  by (subst parse_value.simps) (simp add: json_str_def scan_string_text)

lemma parse_literals:
  "parse_value (''null'' @ u) = Inr (PNull, u)"
  "parse_value (''true'' @ u) = Inr (PBool True, u)"
  "parse_value (''false'' @ u) = Inr (PBool False, u)"
  by (subst parse_value.simps, simp add: literals_def starts_with_def)+

text \<open>The comma-separated texts, as the two list parsers see them.\<close>

lemma parse_items_text:
  assumes "xs \<noteq> []" and "\<And>x u. x \<in> set xs \<Longrightarrow> value_end u \<Longrightarrow> parse_value (json_line x @ u) = Inr (pv_of x, u)"
  shows "parse_items (str_join '','' (map json_line xs) @ CHR '']'' # u) = Inr (map pv_of xs, u)"
  using assms
proof (induction xs rule: list_nonempty_induct)
  case (single x)
  then show ?case
    using json_line_hd [of x] by (subst parse_items.simps) (auto simp: json_ws_def starts_with_def)
next
  case (cons x xs)
  obtain y ys where xs: "xs = y # ys" using cons(1) by (cases xs) auto
  let ?rest = "str_join '','' (map json_line xs) @ CHR '']'' # u"
  have rest: "skip_ws ?rest = ?rest"
    using json_line_hd [of y] by (cases ys) (auto simp: xs)
  have "parse_value (json_line x @ CHR '','' # ?rest) = Inr (pv_of x, CHR '','' # ?rest)"
    using cons(3) by simp
  moreover have "parse_items ?rest = Inr (map pv_of xs, u)" using cons(2,3) by simp
  moreover have "str_join '','' (map json_line (x # xs)) @ CHR '']'' # u = json_line x @ CHR '','' # ?rest"
    by (simp add: xs)
  ultimately show ?case
    using json_line_hd [of x] rest by (subst parse_items.simps) (auto simp: json_ws_def starts_with_def)
qed


abbreviation member_line :: "string \<times> json \<Rightarrow> string" where
  "member_line p \<equiv> json_str (fst p) @ '':'' @ json_line (snd p)"

abbreviation pv_member :: "string \<times> json \<Rightarrow> string \<times> pvalue" where
  "pv_member p \<equiv> (fst p, pv_of (snd p))"

lemma parse_members_text:
  assumes "d \<noteq> []" and "\<And>p u. p \<in> set d \<Longrightarrow> value_end u \<Longrightarrow> parse_value (json_line (snd p) @ u) = Inr (pv_of (snd p), u)"
  shows "parse_members (str_join '','' (map member_line d) @ CHR ''}'' # u) = Inr (map pv_member d, u)"
  using assms
proof (induction d rule: list_nonempty_induct)
  case (single p)
  then show ?case
    by (subst parse_members.simps) (simp add: json_str_def scan_string_text starts_with_def json_ws_def)
next
  case (cons p d)
  obtain q ds where d: "d = q # ds" using cons(1) by (cases d) auto
  let ?rest = "str_join '','' (map member_line d) @ CHR ''}'' # u"
  have rest: "skip_ws ?rest = ?rest"
    by (cases ds) (simp_all add: d json_str_def json_ws_def)
  have "parse_value (json_line (snd p) @ CHR '','' # ?rest) = Inr (pv_of (snd p), CHR '','' # ?rest)"
    using cons(3) by simp
  moreover have "parse_members ?rest = Inr (map pv_member d, u)" using cons(2,3) by simp
  moreover have "str_join '','' (map member_line (p # d)) @ CHR ''}'' # u
      = json_str (fst p) @ CHR '':'' # json_line (snd p) @ CHR '','' # ?rest"
    by (simp add: d)
  moreover have "skip_ws (json_line (snd p) @ CHR '','' # ?rest) = json_line (snd p) @ CHR '','' # ?rest"
    by simp
  ultimately show ?case
    using rest by (subst parse_members.simps) (simp add: json_str_def scan_string_text starts_with_def json_ws_def)
qed

lemma fold_dict_set: "distinct (map fst (e @ d)) \<Longrightarrow> fold (\<lambda>(k, v) e. dict_set e k v) d e = e @ d"
proof (induction d arbitrary: e)
  case (Cons p d)
  have "dict_set e (fst p) (snd p) = e @ [p]"
    using Cons.prems by (induction e) auto
  then show ?case using Cons by (simp add: case_prod_beta)
qed simp

theorem parse_line: "json_plain v \<Longrightarrow> value_end u \<Longrightarrow> parse_value (json_line v @ u) = Inr (pv_of v, u)"
proof (induction v arbitrary: u rule: json_line.induct)
  case (5 xs)
  show ?case
  proof (cases "xs = []")
    case False
    then have "skip_ws (str_join '','' (map json_line xs) @ CHR '']'' # u) = str_join '','' (map json_line xs) @ CHR '']'' # u
        \<and> \<not> starts_with (str_join '','' (map json_line xs) @ CHR '']'' # u) '']''"
      using json_line_hd [of "hd xs"] by (cases xs rule: list.exhaust; cases "tl xs") (auto simp: starts_with_def)
    moreover have "parse_items (str_join '','' (map json_line xs) @ CHR '']'' # u) = Inr (map pv_of xs, u)"
      using 5 False by (intro parse_items_text) auto
    ultimately show ?thesis by (subst parse_value.simps) simp
  qed (subst parse_value.simps, simp add: starts_with_def json_ws_def)
next
  case (6 d)
  show ?case
  proof (cases "d = []")
    case False
    let ?t = "str_join '','' (map member_line d) @ CHR ''}'' # u"
    have "skip_ws ?t = ?t \<and> \<not> starts_with ?t ''}''"
      using False by (cases d rule: list.exhaust; cases "tl d") (auto simp: starts_with_def json_str_def json_ws_def)
    moreover have "parse_members ?t = Inr (map pv_member d, u)"
      using 6 False by (intro parse_members_text) auto
    moreover have "fold (\<lambda>(k, v) e. dict_set e k v) (map pv_member d) [] = map pv_member d"
      using 6(2) by (subst fold_dict_set) (simp_all add: comp_def)
    ultimately show ?thesis by (subst parse_value.simps) simp
  qed (subst parse_value.simps, simp add: starts_with_def json_ws_def)
qed (auto simp: parse_literals [simplified] parse_string parse_int)

lemma json_loads_line: "json_plain v \<Longrightarrow> json_loads (json_line v) = Inr (pv_of v)"
  using parse_line [of v "[]"] skip_ws_line [of v "[]"] by (simp add: json_loads_def)

section \<open>Base64, UTF-8 and integers\<close>

text \<open>
  \<open>base64.urlsafe_b64decode\<close> as \<open>binascii.a2b_base64\<close> reads it: characters outside the alphabet are
  skipped, and reading stops at complete padding. The state is the position in the group of four, the
  bits left over and the padding seen.
\<close>

definition b64_std_value :: "char \<Rightarrow> nat option" where
  "b64_std_value c = (if c = CHR ''+'' then Some 62 else if c = CHR ''/'' then Some 63 else b64_value c)"

fun a2b :: "nat \<Rightarrow> nat \<Rightarrow> nat \<Rightarrow> string \<Rightarrow> nat list option" where
  "a2b quad left pads [] = (if quad = 0 then Some [] else None)"
| "a2b quad left pads (c # cs) =
     (if c = CHR ''='' then
        (if 2 \<le> quad then (if 4 \<le> quad + Suc pads then Some [] else a2b quad left (Suc pads) cs)
         else a2b quad left pads cs)
      else (case b64_std_value c of
              None \<Rightarrow> a2b quad left pads cs
            | Some v \<Rightarrow>
                if quad = 0 then a2b 1 v 0 cs
                else if quad = 1 then map_option (Cons (left * 4 + v div 16)) (a2b 2 (v mod 16) 0 cs)
                else if quad = 2 then map_option (Cons (left * 16 + v div 4)) (a2b 3 (v mod 4) 0 cs)
                else map_option (Cons (left * 64 + v)) (a2b 0 0 0 cs)))"

definition unb64url :: "string \<Rightarrow> nat list res" where
  "unb64url value =
     (if \<not> list_all (\<lambda>c. ord c < 128) value then Inl (ValueError [])
      else (case a2b 0 0 0 (value @ replicate (nat ((- int (length value)) mod 4)) (CHR ''='')) of
              None \<Rightarrow> Inl (ValueError []) | Some bs \<Rightarrow> Inr bs))"

lemma b64_std_char: "n < 64 \<Longrightarrow> b64_std_value (b64_char n) = Some n \<and> b64_char n \<noteq> CHR ''=''"
proof -
  assume "n < 64"
  then have v: "b64_value (b64_char n) = Some n" by (rule b64_value_char)
  then have "b64_char n \<notin> {CHR ''+'', CHR ''/'', CHR ''=''}"
    by (auto simp: b64_value_def ascii_upper_def ascii_lower_def ascii_digit_def)
  then show ?thesis using v by (auto simp: b64_std_value_def)
qed

lemma a2b_encode:
  assumes "\<forall>b \<in> set bs. b < 256"
  shows "a2b 0 0 0 (b64_encode bs @ replicate (nat ((- int (length (b64_encode bs))) mod 4)) (CHR ''='')) = Some bs"
  using assms
proof (induction bs rule: b64_encode.induct)
  case 1
  show ?case by simp
next
  case (2 a)
  then show ?case using b64_std_char by (simp add: numeral_2_eq_2)
next
  case (3 a b)
  then have "a div 4 < 64" "(a mod 4) * 16 + b div 16 < 64" "(b mod 16) * 4 < 64" "b div 16 < 16" by auto
  then show ?case by (simp add: b64_std_char)
next
  case (4 a b c bs)
  have "(- int (length (b64_encode (a # b # c # bs)))) mod 4 = (- int (length (b64_encode bs))) mod 4"
    by simp presburger
  moreover have "a div 4 < 64" "(a mod 4) * 16 + b div 16 < 64" "(b mod 16) * 4 + c div 64 < 64" "c mod 64 < 64"
    "b div 16 < 16" "c div 64 < 4" using 4 by auto
  ultimately show ?case using 4 by (simp add: b64_std_char)
qed


lemma b64_encode_ascii: "c \<in> set (b64_encode bs) \<Longrightarrow> ord c < 128 \<and> c \<noteq> CHR ''.''"
proof -
  have ch: "ord (b64_char n) < 128 \<and> b64_char n \<noteq> CHR ''.''" for n
  proof -
    have "b64_char n = CHR ''_'' \<or> n < 64" by (auto simp: b64_char_def)
    moreover have "b64_char n \<noteq> CHR ''.''" if "n < 64"
      using b64_value_char [OF that] by (auto simp: b64_value_def ascii_upper_def ascii_lower_def ascii_digit_def)
    ultimately show ?thesis by (auto simp: b64_char_def)
  qed
  show "c \<in> set (b64_encode bs) \<Longrightarrow> ord c < 128 \<and> c \<noteq> CHR ''.''"
    by (induction bs rule: b64_encode.induct) (auto simp: ch)
qed

lemma unb64url_encode: "\<forall>b \<in> set bs. b < 256 \<Longrightarrow> unb64url (b64_encode bs) = Inr bs"
  using a2b_encode [of bs] b64_encode_ascii by (simp add: unb64url_def list_all_iff)

text \<open>
  \<open>bytes.decode("utf-8")\<close> by code points: the shortest form only, no surrogates, at most \<open>0x10FFFF\<close>. Text
  beyond the model's characters is \<open>UntypedPayload\<close>.
\<close>

definition utf8_tail :: "nat \<Rightarrow> bool" where
  "utf8_tail b \<longleftrightarrow> 128 \<le> b \<and> b < 192"

fun utf8_points :: "nat list \<Rightarrow> nat list option" where
  "utf8_points [] = Some []"
| "utf8_points (a # bs) =
     (if a < 128 then map_option (Cons a) (utf8_points bs)
      else if 194 \<le> a \<and> a < 224 then
        (case bs of
           b # r \<Rightarrow> if utf8_tail b then map_option (Cons ((a - 192) * 64 + (b - 128))) (utf8_points r) else None
         | _ \<Rightarrow> None)
      else if 224 \<le> a \<and> a < 240 then
        (case bs of
           b # c # r \<Rightarrow>
             (let n = ((a - 224) * 64 + (b - 128)) * 64 + (c - 128)
              in if utf8_tail b \<and> utf8_tail c \<and> 2048 \<le> n \<and> \<not> (55296 \<le> n \<and> n < 57344)
                 then map_option (Cons n) (utf8_points r) else None)
         | _ \<Rightarrow> None)
      else if 240 \<le> a \<and> a < 245 then
        (case bs of
           b # c # d # r \<Rightarrow>
             (let n = (((a - 240) * 64 + (b - 128)) * 64 + (c - 128)) * 64 + (d - 128)
              in if utf8_tail b \<and> utf8_tail c \<and> utf8_tail d \<and> 65536 \<le> n \<and> n < 1114112
                 then map_option (Cons n) (utf8_points r) else None)
         | _ \<Rightarrow> None)
      else None)"

definition utf8_text :: "nat list \<Rightarrow> string res" where
  "utf8_text bs =
     (case utf8_points bs of
        None \<Rightarrow> Inl (ValueError [])
      | Some ns \<Rightarrow> if list_all (\<lambda>n. n < 256) ns then Inr (map char_of ns) else Inl UntypedPayload)"

lemma utf8_points_encode: "utf8_points (utf8_encode s) = Some (map of_char s)"
proof (induction s)
  case (Cons c s)
  have "2 \<le> ord c div 64 \<and> ord c div 64 < 4" if "\<not> ord c < 128"
    using that of_char_less_256 [of c] by linarith
  then show ?case
    using Cons by (cases "ord c < 128") (auto simp: utf8_encode_def utf8_char_def utf8_tail_def algebra_simps)
qed (simp add: utf8_encode_def)

lemma utf8_text_encode: "utf8_text (utf8_encode s) = Inr s"
  by (simp add: utf8_text_def utf8_points_encode list_all_iff comp_def)

text \<open>
  \<open>int(s)\<close>: surrounding blanks (those of \<open>int_space\<close>), a sign, and digits with single underscores
  between them, at most 4300 of them. Digits beyond the model's characters do not occur.
\<close>

definition int_space :: "char \<Rightarrow> bool" where
  "int_space c \<longleftrightarrow> (9 \<le> ord c \<and> ord c \<le> 13) \<or> ord c \<in> {32, 133, 160}"

fun digit_groups :: "string \<Rightarrow> bool" where
  "digit_groups [] = False"
| "digit_groups [c] = ascii_digit c"
| "digit_groups (c # d # cs) = (ascii_digit c \<and> (if d = CHR ''_'' then digit_groups cs else digit_groups (d # cs)))"

definition py_int :: "string \<Rightarrow> int res" where
  "py_int s =
     (let t = rev (dropWhile int_space (rev (dropWhile int_space s)));
          neg = starts_with t ''-'';
          body = (if neg \<or> starts_with t ''+'' then tl t else t);
          ds = filter ascii_digit body
      in if \<not> digit_groups body \<or> 4300 < length ds then Inl (ValueError [])
         else Inr (if neg then - int (digits_value 0 ds) else int (digits_value 0 ds)))"

lemma digit_groups_digits: "s \<noteq> [] \<Longrightarrow> list_all ascii_digit s \<Longrightarrow> digit_groups s"
  by (induction s rule: digit_groups.induct) (auto simp: ascii_digit_def)

lemma dropWhile_none: "list_all (\<lambda>x. \<not> P x) s \<Longrightarrow> dropWhile P s = s"
  by (cases s) auto

lemma py_int_nat_str:
  assumes "length (nat_str n) \<le> 4300"
  shows "py_int (nat_str n) = Inr (int n)"
proof -
  have ds: "list_all ascii_digit (nat_str n)" by (rule nat_str_digits)
  then have sp: "list_all (\<lambda>c. \<not> int_space c) (nat_str n)"
    by (auto simp: list_all_iff int_space_def ascii_digit_def)
  then have strip: "rev (dropWhile int_space (rev (dropWhile int_space (nat_str n)))) = nat_str n"
    by (simp add: dropWhile_none list_all_iff)
  obtain c cs where c: "nat_str n = c # cs" using nat_str_hd by blast
  then have "c \<noteq> CHR ''-''" "c \<noteq> CHR ''+''" using ds by (auto simp: ascii_digit_def)
  then have "\<not> starts_with (nat_str n) ''-''" "\<not> starts_with (nat_str n) ''+''"
    by (simp_all add: starts_with_def c)
  then show ?thesis
    using strip ds digit_groups_digits [of "nat_str n"] assms
    using nat_str_hd [of n] by (auto simp: py_int_def Let_def digits_value_nat_str list_all_iff)
qed

lemma nat_str_length: "n < 10 ^ Suc k \<Longrightarrow> length (nat_str n) \<le> Suc k"
proof (induction k arbitrary: n)
  case 0
  then show ?case by (simp add: nat_str.simps)
next
  case (Suc k)
  then show ?case by (subst nat_str.simps) (auto simp: less_mult_imp_div_less)
qed

end
