(* ===== verification/Security_Mode.thy ===== *)
theory Security_Mode
  imports Phlo_Text
begin

text \<open>
  \<open>phlo/security/mode.py\<close> and \<open>gating.py\<close>: whether regulated mode and HTTP authorization are in force,
  and which services may run then. The process settings and what \<open>phlo.yaml\<close> says are arguments.
\<close>

section \<open>The mode\<close>

record process_settings =
  ps_regulated :: "string option"
  ps_regulated_mode :: "string option"
  ps_environment :: "string option"
  ps_service_secret :: "string option"
  ps_credentials_file :: "string option"

text \<open>The validator of the setting \<open>phlo_regulated\<close>.\<close>

definition regulated_override :: "string option \<Rightarrow> bool option" where
  "regulated_override value =
     (case value of
        None \<Rightarrow> None
      | Some v \<Rightarrow>
          (let normalized = py_lower (py_strip v) in
           if normalized \<in> {''1'', ''true'', ''yes'', ''on''} then Some True
           else if normalized \<in> {''0'', ''false'', ''no'', ''off''} then Some False
           else None))"

text \<open>\<open>configured\<close> is what \<open>get_regulated_config()\<close> answers.\<close>

definition is_regulated :: "process_settings \<Rightarrow> bool option res \<Rightarrow> bool option \<Rightarrow> bool res" where
  "is_regulated ps configured config_regulated =
     (case regulated_override (ps_regulated ps) of
        Some b \<Rightarrow> Inr b
      | None \<Rightarrow>
          (case config_regulated of
             Some b \<Rightarrow> Inr b
           | None \<Rightarrow>
               if py_strip (case ps_regulated_mode ps of None \<Rightarrow> [] | Some v \<Rightarrow> v) \<noteq> []
               then Inl (RuntimeError ''PHLO_REGULATED_MODE was removed in 0.19.0; set PHLO_REGULATED instead'')
               else bind_res configured (\<lambda>c. Inr (case c of None \<Rightarrow> False | Some b \<Rightarrow> b))))"

definition PRODUCTION_HTTP_ENVIRONMENTS :: "string list" where
  "PRODUCTION_HTTP_ENVIRONMENTS = [''prod'', ''production'', ''staging'', ''regulated'']"

definition requires_http_authorization :: "process_settings \<Rightarrow> bool option res \<Rightarrow> bool res" where
  "requires_http_authorization ps configured =
     bind_res (is_regulated ps configured None) (\<lambda>regulated.
       Inr (regulated \<or>
            (case ps_environment ps of
               None \<Rightarrow> False
             | Some environment \<Rightarrow> py_lower (py_strip environment) \<in> set PRODUCTION_HTTP_ENVIRONMENTS)))"

section \<open>Service gating\<close>

definition UNSUPPORTED_SERVICES :: "string list" where
  "UNSUPPORTED_SERVICES = [''pgweb'', ''openmetadata'', ''openmetadata-server'', ''openmetadata-ingestion'']"

definition APPROVED_CLI_PACKAGES :: "string list" where
  "APPROVED_CLI_PACKAGES =
     [''phlo-alerting'', ''phlo-lineage'', ''phlo-dlt'', ''phlo-dbt'', ''phlo-pandera'', ''phlo-clickhouse'',
      ''phlo-clickstack'', ''phlo-sling'']"

definition PENDING_ADAPTER_SERVICES :: "string list" where
  "PENDING_ADAPTER_SERVICES = []"

definition INGRESS_OPTIONAL_SERVICES :: "string list" where
  "INGRESS_OPTIONAL_SERVICES = [''superset'', ''hasura'', ''postgrest'']"

definition WRITE_RESTRICTED_SERVICES :: "string list" where
  "WRITE_RESTRICTED_SERVICES = [''hasura'', ''postgrest'']"

definition APPROVED_SERVICES :: "string list" where
  "APPROVED_SERVICES =
     [''phlo-api'', ''cli'', ''dagster-webserver'', ''dagster-code'', ''dagster-daemon'', ''postgres'', ''minio'',
      ''minio-setup'', ''nessie'', ''trino'', ''observatory'', ''prometheus'', ''grafana'', ''loki'', ''alloy'',
      ''clickhouse'', ''clickhouse-setup'', ''phlo-trino-cli'', ''phlo-nessie-cli'', ''phlo-minio-cli'',
      ''phlo-postgres-cli'']"

definition normalized_service :: "string \<Rightarrow> string" where
  "normalized_service name = map (\<lambda>c. if c = CHR ''_'' \<or> c = CHR '' '' then CHR ''-'' else c) (py_lower name)"

abbreviation squote :: "string \<Rightarrow> string" where
  "squote s \<equiv> CHR 0x27 # s @ [CHR 0x27]"

text \<open>\<open>regulated\<close> is the argument, or what \<open>is_regulated()\<close> answers when it is left out.\<close>

definition check_service_allowed :: "bool \<Rightarrow> string \<Rightarrow> unit res" where
  "check_service_allowed regulated service_name =
     (let normalized = normalized_service service_name in
      if \<not> regulated then Inr ()
      else if normalized \<in> set UNSUPPORTED_SERVICES
      then Inl (UnsupportedSurfaceError service_name
        (squote service_name @ '' is not an approved regulated entry point. Use phlo-api or approved CLI paths instead.''))
      else if normalized \<in> set PENDING_ADAPTER_SERVICES
      then Inl (UnsupportedSurfaceError service_name
        (squote service_name @ '' adapter is pending approval. Direct access is forbidden until the adapter is approved.''))
      else if normalized \<in> set INGRESS_OPTIONAL_SERVICES then Inr ()
      else if normalized \<in> set APPROVED_CLI_PACKAGES then Inr ()
      else if normalized \<notin> set APPROVED_SERVICES
      then Inl (UnsupportedSurfaceError service_name
        (squote service_name @ '' is not a known approved regulated entry point.''))
      else Inr ())"

definition is_service_allowed :: "bool \<Rightarrow> string \<Rightarrow> bool" where
  "is_service_allowed regulated service_name =
     (case check_service_allowed regulated service_name of Inr _ \<Rightarrow> True | Inl _ \<Rightarrow> False)"

definition get_blocked_services :: "string list" where
  "get_blocked_services = sort (remdups (UNSUPPORTED_SERVICES @ PENDING_ADAPTER_SERVICES))"

definition get_approved_services :: "string list" where
  "get_approved_services = sort APPROVED_SERVICES"

definition get_write_restricted_services :: "string list" where
  "get_write_restricted_services = sort WRITE_RESTRICTED_SERVICES"

text \<open>
  \<open>allow_writes\<close> says whether \<open>surfaces.<service>.allow_writes\<close> in \<open>phlo.yaml\<close> is \<open>True\<close>; a configuration
  that cannot be read counts as not.
\<close>

definition is_write_restricted :: "(string \<Rightarrow> bool res) \<Rightarrow> bool \<Rightarrow> string \<Rightarrow> bool" where
  "is_write_restricted allow_writes regulated service_name =
     (let normalized = normalized_service service_name in
      regulated \<and> normalized \<in> set WRITE_RESTRICTED_SERVICES \<and> allow_writes normalized \<noteq> Inr True)"

definition check_cli_package_allowed :: "bool \<Rightarrow> string \<Rightarrow> unit res" where
  "check_cli_package_allowed regulated package_name =
     (if \<not> regulated \<or> normalized_service package_name \<in> set APPROVED_CLI_PACKAGES then Inr ()
      else Inl (UnsupportedSurfaceError package_name
        (squote package_name @ '' is not an approved CLI package. Use only approved CLI plugin packages in regulated mode.'')))"

record service_selection =
  sl_allowed :: "string list"
  sl_blocked :: "(string \<times> string) list"
  sl_unknown :: "string list"
  sl_ingress_optional :: "(string \<times> string) list"
  sl_regulated :: bool

definition select_service :: "string \<Rightarrow> service_selection \<Rightarrow> service_selection" where
  "select_service service r =
     (let normalized = normalized_service service;
          allowed = r\<lparr>sl_allowed := sl_allowed r @ [service]\<rparr>;
          blocked = (\<lambda>reason q. q\<lparr>sl_blocked := sl_blocked q @ [(service, reason)]\<rparr>)
      in if normalized \<in> set UNSUPPORTED_SERVICES then blocked ''Not an approved regulated entry point'' r
         else if normalized \<in> set PENDING_ADAPTER_SERVICES then blocked ''Adapter pending approval'' r
         else if normalized \<in> set INGRESS_OPTIONAL_SERVICES
         then blocked ''Required ingress enforcement is not configured''
                (r\<lparr>sl_ingress_optional := sl_ingress_optional r @ [(service, ''Ingress protection required'')]\<rparr>)
         else if normalized \<in> set APPROVED_CLI_PACKAGES then allowed
         else if normalized \<notin> set APPROVED_SERVICES
         then blocked ''Not a known approved regulated entry point'' (r\<lparr>sl_unknown := sl_unknown r @ [service]\<rparr>)
         else allowed)"

definition validate_service_selection :: "bool \<Rightarrow> string list \<Rightarrow> service_selection" where
  "validate_service_selection regulated services =
     fold select_service services
       \<lparr>sl_allowed = [], sl_blocked = [], sl_unknown = [], sl_ingress_optional = [], sl_regulated = regulated\<rparr>"

lemma select_partition:
  "sl_allowed (fold select_service ss r) = sl_allowed r @
     filter (\<lambda>s. check_service_allowed True s = Inr () \<and> normalized_service s \<notin> set INGRESS_OPTIONAL_SERVICES) ss"
  "map fst (sl_blocked (fold select_service ss r)) = map fst (sl_blocked r) @
     filter (\<lambda>s. check_service_allowed True s \<noteq> Inr () \<or> normalized_service s \<in> set INGRESS_OPTIONAL_SERVICES) ss"
  by (induction ss arbitrary: r) (auto simp: select_service_def check_service_allowed_def Let_def)

end
