(* ===== verification/Service_Tokens.thy ===== *)
theory Service_Tokens
  imports Phlo_Json_Read Security_Mode Single_Use Signatures
begin

text \<open>
  \<open>phlo/security/service_identity.py\<close>: the durable nonce store, workload keys and key rings, the claims
  of a \<open>phlo1\<close> token, issuing and validating it, and the shared-secret tokens of development. The keyed
  hash, the fresh id, the clock and the process settings are arguments.
\<close>

section \<open>Nonces\<close>

text \<open>
  The table \<open>phlo_service_token_nonces\<close>, \<open>None\<close> before it is created. \<open>failure\<close> is what the database
  raises instead of running the statement; the transaction is rolled back then. Expiries are in seconds,
  the clock in microseconds.
\<close>

type_synonym nonce_table = "(string, int) dict option"

abbreviation nonces_missing :: py_error where
  "nonces_missing \<equiv> DatabaseError ''relation phlo_service_token_nonces does not exist''"

definition ensure_nonces :: "py_error option \<Rightarrow> nonce_table \<Rightarrow> unit res \<times> nonce_table" where
  "ensure_nonces failure t =
     (case failure of
        Some e \<Rightarrow> (Inl e, t)
      | None \<Rightarrow> (Inr (), case t of None \<Rightarrow> Some [] | Some rows \<Rightarrow> Some rows))"

definition consume_nonce :: "py_error option \<Rightarrow> string \<Rightarrow> int \<Rightarrow> nonce_table \<Rightarrow> bool res \<times> nonce_table" where
  "consume_nonce failure nonce expires_at t =
     (case failure of
        Some e \<Rightarrow> (Inl e, t)
      | None \<Rightarrow>
          if CHR 0x00 \<in> set nonce
          then (Inl (ValueError ''A string literal cannot contain NUL (0x00) characters.''), t)
          else (case t of
                  None \<Rightarrow> (Inl nonces_missing, t)
                | Some rows \<Rightarrow>
                    if dict_has rows nonce then (Inr False, t)
                    else (Inr True, Some (dict_set rows nonce expires_at))))"

definition purge_expired :: "py_error option \<Rightarrow> int \<Rightarrow> nonce_table \<Rightarrow> nat res \<times> nonce_table" where
  "purge_expired failure now t =
     (case failure of
        Some e \<Rightarrow> (Inl e, t)
      | None \<Rightarrow>
          (case t of
             None \<Rightarrow> (Inl nonces_missing, t)
           | Some rows \<Rightarrow>
               (Inr (length (filter (\<lambda>r. snd r * 1000000 \<le> now) rows)),
                Some (filter (\<lambda>r. \<not> snd r * 1000000 \<le> now) rows))))"

section \<open>Keys\<close>

datatype key_state = KS_ACTIVE | KS_RETIRING | KS_RETIRED

record workload_key =
  wk_kid :: string
  wk_secret :: string
  wk_state :: key_state
  wk_activated_at :: int
  wk_retiring_until :: "int option"

definition can_sign :: "workload_key \<Rightarrow> int \<Rightarrow> bool" where
  "can_sign k now \<longleftrightarrow> wk_state k = KS_ACTIVE \<and> wk_activated_at k \<le> now"

definition can_verify :: "workload_key \<Rightarrow> int \<Rightarrow> bool" where
  "can_verify k now =
     (if wk_activated_at k > now then False
      else if wk_state k = KS_RETIRED then False
      else \<not> (wk_state k = KS_RETIRING \<and>
              (case wk_retiring_until k of None \<Rightarrow> False | Some until \<Rightarrow> now > until)))"

record key_ring =
  kr_caller :: string
  kr_audience :: string
  kr_scp :: "string list"
  kr_keys :: "(string, workload_key) dict"

text \<open>\<open>max\<close> answers the first of the keys activated last.\<close>

definition active_key :: "key_ring \<Rightarrow> int \<Rightarrow> workload_key option" where
  "active_key ring now =
     (case filter (\<lambda>k. can_sign k now) (map snd (kr_keys ring)) of
        [] \<Rightarrow> None
      | k # ks \<Rightarrow> Some (fold (\<lambda>x best. if wk_activated_at x > wk_activated_at best then x else best) ks k))"

definition key_by_kid :: "key_ring \<Rightarrow> string \<Rightarrow> workload_key option" where
  "key_by_kid ring kid = dict_get (kr_keys ring) kid"

type_synonym key_rings = "(string \<times> string, key_ring) dict"

definition ring_for :: "key_rings \<Rightarrow> string \<Rightarrow> string \<Rightarrow> key_ring option" where
  "ring_for rings caller audience = dict_get rings (caller, audience)"

section \<open>Claims\<close>

record token_claims =
  tc_sub :: string
  tc_aud :: string
  tc_scp :: "string list"
  tc_iat :: int
  tc_exp :: int
  tc_jti :: string

definition to_canonical_json :: "token_claims \<Rightarrow> string" where
  "to_canonical_json c = json_line (JObj
     [(''sub'', JStr (tc_sub c)), (''aud'', JStr (tc_aud c)), (''scp'', JList (map JStr (tc_scp c))),
      (''iat'', JInt (tc_iat c)), (''exp'', JInt (tc_exp c)), (''jti'', JStr (tc_jti c))])"

fun claim_text :: "string \<Rightarrow> pvalue option \<Rightarrow> string res" where
  "claim_text what (Some (PStr s)) = (if s = [] then Inl (ValueError (what @ '' must be a non-empty string'')) else Inr s)"
| "claim_text what _ = Inl (ValueError (what @ '' must be a non-empty string''))"

fun nonempty_texts :: "pvalue \<Rightarrow> string list option" where
  "nonempty_texts (PList xs) =
     those (map (\<lambda>x. case x of PStr s \<Rightarrow> if s = [] then None else Some s | _ \<Rightarrow> None) xs)"
| "nonempty_texts _ = None"

text \<open>A Boolean is an \<open>int\<close>.\<close>

fun claim_int :: "pvalue option \<Rightarrow> int option" where
  "claim_int (Some (PInt i)) = Some i"
| "claim_int (Some (PBool b)) = Some (if b then 1 else 0)"
| "claim_int _ = None"

definition claim_names :: "string list" where
  "claim_names = [''sub'', ''aud'', ''scp'', ''iat'', ''exp'', ''jti'']"

definition claims_of :: "pvalue \<Rightarrow> token_claims res" where
  "claims_of raw =
     (case raw of
        PObj d \<Rightarrow>
          if fst ` set d \<noteq> set claim_names
          then Inl (ValueError ''claims must contain exactly the canonical fields'')
          else bind_res (claim_text ''sub'' (dict_get d ''sub'')) (\<lambda>sub.
            bind_res (claim_text ''aud'' (dict_get d ''aud'')) (\<lambda>aud.
            (case nonempty_texts (case dict_get d ''scp'' of None \<Rightarrow> PNull | Some v \<Rightarrow> v) of
               None \<Rightarrow> Inl (ValueError ''scp must be a list of non-empty strings'')
             | Some scp \<Rightarrow>
                 (case (claim_int (dict_get d ''iat''), claim_int (dict_get d ''exp'')) of
                    (Some iat, Some exp) \<Rightarrow>
                      bind_res (claim_text ''jti'' (dict_get d ''jti'')) (\<lambda>jti.
                        Inr \<lparr>tc_sub = sub, tc_aud = aud, tc_scp = scp, tc_iat = iat, tc_exp = exp, tc_jti = jti\<rparr>)
                  | _ \<Rightarrow> Inl (ValueError ''iat and exp must be integers'')))))
      | _ \<Rightarrow> Inl (ValueError ''claims must be an object''))"

definition from_canonical_json :: "string \<Rightarrow> token_claims res" where
  "from_canonical_json payload =
     (case json_loads payload of
        Inr raw \<Rightarrow> claims_of raw
      | Inl UntypedPayload \<Rightarrow> Inl UntypedPayload
      | Inl _ \<Rightarrow> Inl (ValueError ''malformed claims JSON''))"

section \<open>Loading the credentials\<close>

definition int_of_value :: "pvalue \<Rightarrow> int res" where
  "int_of_value v =
     (case v of
        PInt i \<Rightarrow> Inr i
      | PBool b \<Rightarrow> Inr (if b then 1 else 0)
      | PStr s \<Rightarrow> py_int s
      | PFloat _ \<Rightarrow> Inl UntypedPayload
      | _ \<Rightarrow> Inl TypeError)"

text \<open>Truth of a value; a number with a fraction counts as true, and \<open>int_of_value\<close> refuses it.\<close>

fun pv_truthy :: "pvalue \<Rightarrow> bool" where
  "pv_truthy PNull = False"
| "pv_truthy (PBool b) = b"
| "pv_truthy (PInt i) = (i \<noteq> 0)"
| "pv_truthy (PFloat _) = True"
| "pv_truthy (PStr s) = (s \<noteq> [])"
| "pv_truthy (PList xs) = (xs \<noteq> [])"
| "pv_truthy (PObj d) = (d \<noteq> [])"

text \<open>The message of an unknown state is left out.\<close>

definition key_state_of :: "pvalue option \<Rightarrow> key_state res" where
  "key_state_of v =
     (case v of
        None \<Rightarrow> Inr KS_ACTIVE
      | Some (PStr s) \<Rightarrow>
          if s = ''active'' then Inr KS_ACTIVE
          else if s = ''retiring'' then Inr KS_RETIRING
          else if s = ''retired'' then Inr KS_RETIRED
          else Inl (ValueError [])
      | Some _ \<Rightarrow> Inl (ValueError []))"

definition load_key :: "string \<Rightarrow> pvalue \<Rightarrow> (string, workload_key) dict \<Rightarrow> (string, workload_key) dict res" where
  "load_key kid entry keys =
     (case entry of
        PObj d \<Rightarrow>
          (case dict_get d ''secret'' of
             Some (PStr secret) \<Rightarrow>
               if secret = [] then Inl (RuntimeError (''missing secret for kid '' @ py_repr kid))
               else bind_res (key_state_of (dict_get d ''state'')) (\<lambda>state.
                 bind_res (case dict_get d ''activated_at'' of
                             Some v \<Rightarrow> if pv_truthy v then int_of_value v else Inr 0 | None \<Rightarrow> Inr 0) (\<lambda>activated_at.
                 bind_res (case dict_get d ''retiring_until'' of
                             Some v \<Rightarrow> if pv_truthy v then map_sum id Some (int_of_value v) else Inr None
                           | None \<Rightarrow> Inr None) (\<lambda>retiring_until.
                 Inr (dict_set keys kid
                   \<lparr>wk_kid = kid, wk_secret = secret, wk_state = state, wk_activated_at = activated_at,
                    wk_retiring_until = retiring_until\<rparr>))))
           | _ \<Rightarrow> Inl (RuntimeError (''missing secret for kid '' @ py_repr kid)))
      | _ \<Rightarrow> Inr keys)"

definition load_ring :: "string \<Rightarrow> string \<Rightarrow> pvalue \<Rightarrow> key_rings \<Rightarrow> key_rings res" where
  "load_ring caller audience entry rings =
     (let who = py_repr caller @ ''/'' @ py_repr audience in
      case entry of
        PObj d \<Rightarrow>
          (case nonempty_texts (case dict_get d ''scp'' of None \<Rightarrow> PList [] | Some v \<Rightarrow> v) of
             None \<Rightarrow> Inl (RuntimeError (''invalid scp for caller/audience '' @ who))
           | Some scp \<Rightarrow>
               (case dict_get d ''keys'' of
                  Some (PObj (k # ks)) \<Rightarrow>
                    bind_res (fold_res (\<lambda>(kid, e). load_key kid e) (k # ks) []) (\<lambda>keys.
                      Inr (dict_set rings (caller, audience)
                        \<lparr>kr_caller = caller, kr_audience = audience, kr_scp = sort scp, kr_keys = keys\<rparr>))
                | _ \<Rightarrow> Inl (RuntimeError (''missing keys for caller/audience '' @ who))))
      | _ \<Rightarrow> Inr rings)"

definition load_workload_key_rings :: "(string, pvalue) dict \<Rightarrow> key_rings res" where
  "load_workload_key_rings payload =
     fold_res (\<lambda>(caller, audiences) rings.
       case audiences of
         PObj d \<Rightarrow> fold_res (\<lambda>(audience, entry). load_ring caller audience entry) d rings
       | _ \<Rightarrow> Inr rings) payload []"

text \<open>
  \<open>lstat\<close> is the mode of the file, \<open>read\<close> its bytes. A document beyond the model's characters is
  \<open>UntypedPayload\<close>.
\<close>

definition load_service_identity_credentials :: "string option \<Rightarrow> (py_error + nat) \<Rightarrow> nat list res \<Rightarrow> key_rings res" where
  "load_service_identity_credentials raw_path lstat read =
     (if \<not> str_truthy raw_path then Inr []
      else (case lstat of
              Inl e \<Rightarrow> Inl (RuntimeError (''cannot stat service identity credentials: '' @ exc_text e))
            | Inr mode \<Rightarrow>
                if mode div 4096 mod 16 \<noteq> 8
                then Inl (RuntimeError ''service identity credentials must be a regular file (not a symlink)'')
                else if mode mod 64 \<noteq> 0
                then Inl (RuntimeError ''service identity credentials must be owner-controlled and not group/world readable'')
                else (case bind_res (bind_res read utf8_text) json_loads of
                        Inl UntypedPayload \<Rightarrow> Inl UntypedPayload
                      | Inl e \<Rightarrow> Inl (RuntimeError (''cannot load service identity credentials: '' @ exc_text e))
                      | Inr (PObj payload) \<Rightarrow> load_workload_key_rings payload
                      | Inr _ \<Rightarrow> Inl (RuntimeError ''service identity credentials must be a JSON object''))))"

section \<open>Workload tokens\<close>

definition WORKLOAD_TOKEN_VERSION :: string where
  "WORKLOAD_TOKEN_VERSION = ''phlo1''"

definition WORKLOAD_TOKEN_MAX_AGE_SECONDS :: int where
  "WORKLOAD_TOKEN_MAX_AGE_SECONDS = 300"

definition WORKLOAD_TOKEN_MAX_CLOCK_SKEW_SECONDS :: int where
  "WORKLOAD_TOKEN_MAX_CLOCK_SKEW_SECONDS = 30"

text \<open>\<open>hmac secret text\<close>: the bytes of the keyed digest of the UTF-8 bytes of the text.\<close>

type_synonym keyed_digest = "string \<Rightarrow> string \<Rightarrow> nat list"

abbreviation token_body :: "string \<Rightarrow> string \<Rightarrow> string" where
  "token_body kid payload_b64 \<equiv> WORKLOAD_TOKEN_VERSION @ ''.'' @ kid @ ''.'' @ payload_b64"

abbreviation texts_repr :: "string list \<Rightarrow> string" where
  "texts_repr xs \<equiv>
     (case xs of [x] \<Rightarrow> ''('' @ py_repr x @ '',)'' | _ \<Rightarrow> ''('' @ str_join '', '' (map py_repr xs) @ '')'')"

definition create_scoped_service_token :: "keyed_digest \<Rightarrow> string \<Rightarrow> int \<Rightarrow> string \<Rightarrow> string \<Rightarrow> string list \<Rightarrow> key_rings
    \<Rightarrow> string res" where
  "create_scoped_service_token hmac fresh_id now caller audience scp rings =
     (let who = ''for caller '' @ py_repr caller @ '' and audience '' @ py_repr audience in
      case ring_for rings caller audience of
        None \<Rightarrow> Inl (RuntimeError (''No service credential configured '' @ who))
      | Some ring \<Rightarrow>
          let requested = sort scp in
          if requested \<noteq> sort (kr_scp ring)
          then Inl (RuntimeError (''Requested scopes '' @ texts_repr requested @ '' '' @ who @
                 '' do not match the declared scope set '' @ texts_repr (sort (kr_scp ring))))
          else (case active_key ring now of
                  None \<Rightarrow> Inl (RuntimeError (''No active key '' @ who))
                | Some key \<Rightarrow>
                    let claims = \<lparr>tc_sub = caller, tc_aud = audience, tc_scp = sort scp, tc_iat = now,
                                  tc_exp = now + WORKLOAD_TOKEN_MAX_AGE_SECONDS, tc_jti = fresh_id\<rparr>;
                        body = token_body (wk_kid key) (b64_encode (utf8_encode (to_canonical_json claims)))
                    in Inr (body @ ''.'' @ b64_encode (hmac (wk_secret key) body))))"

text \<open>
  The first part of the validation, up to the signature. \<open>compare_digest\<close> raises on a text that is not
  ASCII.
\<close>

definition signed_payload :: "keyed_digest \<Rightarrow> string \<Rightarrow> string \<Rightarrow> string \<Rightarrow> key_rings \<Rightarrow> int
    \<Rightarrow> (string \<times> string) option res" where
  "signed_payload hmac token expected_audience allowed_caller rings now =
     (case split_char (CHR ''.'') token of
        [version, kid, payload_b64, provided_sig] \<Rightarrow>
          if version \<noteq> WORKLOAD_TOKEN_VERSION then Inr None
          else (case ring_for rings allowed_caller expected_audience of
                  None \<Rightarrow> Inr None
                | Some ring \<Rightarrow>
                    (case key_by_kid ring kid of
                       None \<Rightarrow> Inr None
                     | Some key \<Rightarrow>
                         if \<not> can_verify key now then Inr None
                         else if \<not> list_all (\<lambda>c. ord c < 128) provided_sig then Inl TypeError
                         else if b64_encode (hmac (wk_secret key) (token_body kid payload_b64)) \<noteq> provided_sig
                         then Inr None
                         else Inr (Some (kid, payload_b64))))
      | _ \<Rightarrow> Inr None)"

definition payload_claims :: "string \<Rightarrow> token_claims res" where
  "payload_claims payload_b64 = bind_res (bind_res (unb64url payload_b64) utf8_text) from_canonical_json"

definition claims_acceptable :: "token_claims \<Rightarrow> string \<Rightarrow> string \<Rightarrow> string list \<Rightarrow> int \<Rightarrow> int \<Rightarrow> int \<Rightarrow> bool" where
  "claims_acceptable c expected_audience allowed_caller expected_scp max_age skew now =
     (if tc_sub c \<noteq> allowed_caller then False
      else if tc_aud c \<noteq> expected_audience then False
      else if sort (tc_scp c) \<noteq> sort expected_scp then False
      else if tc_iat c > now + skew then False
      else if tc_exp c < now - skew then False
      else if tc_exp c - tc_iat c > max_age then False
      else True)"

text \<open>\<open>datetime.fromtimestamp(seconds, tz=UTC)\<close> holds the years 1 to 9999.\<close>

definition timestamp_ok :: "int \<Rightarrow> bool" where
  "timestamp_ok seconds \<longleftrightarrow> - 62135596800 \<le> seconds \<and> seconds \<le> 253402300799"

definition replay_key :: "string \<Rightarrow> string \<Rightarrow> string \<Rightarrow> string" where
  "replay_key audience kid jti = audience @ '':'' @ kid @ '':'' @ jti"

text \<open>\<open>consume\<close> is the \<open>consume\<close> of the nonce store the receiver injects, \<open>s\<close> the state of that store.\<close>

definition validate_scoped_service_token :: "keyed_digest \<Rightarrow> (string \<Rightarrow> int \<Rightarrow> 's \<Rightarrow> bool res \<times> 's) \<Rightarrow> string \<Rightarrow> string
    \<Rightarrow> string \<Rightarrow> string list \<Rightarrow> key_rings \<Rightarrow> int \<Rightarrow> int \<Rightarrow> int \<Rightarrow> 's \<Rightarrow> string option res \<times> 's" where
  "validate_scoped_service_token hmac consume token expected_audience allowed_caller expected_scp rings max_age skew now s =
     (case signed_payload hmac token expected_audience allowed_caller rings now of
        Inl e \<Rightarrow> (Inl e, s)
      | Inr None \<Rightarrow> (Inr None, s)
      | Inr (Some (kid, payload_b64)) \<Rightarrow>
          (case payload_claims payload_b64 of
             Inl UntypedPayload \<Rightarrow> (Inl UntypedPayload, s)
           | Inl _ \<Rightarrow> (Inr None, s)
           | Inr c \<Rightarrow>
               if \<not> claims_acceptable c expected_audience allowed_caller expected_scp max_age skew now
               then (Inr None, s)
               else if \<not> timestamp_ok (tc_exp c + skew) then (Inl (ValueError ''year is out of range''), s)
               else (case consume (replay_key expected_audience kid (tc_jti c)) (tc_exp c + skew) s of
                       (Inl e, s') \<Rightarrow> (Inl e, s')
                     | (Inr False, s') \<Rightarrow> (Inr None, s')
                     | (Inr True, s') \<Rightarrow> (Inr (Some (tc_sub c)), s'))))"

definition PHLO_INITIATOR_HEADER :: string where
  "PHLO_INITIATOR_HEADER = ''X-Phlo-Initiator''"

definition PHLO_CORRELATION_HEADER :: string where
  "PHLO_CORRELATION_HEADER = ''X-Phlo-Correlation-Id''"

text \<open>The part the two header builders share: a blank initiator or correlation id is left out.\<close>

definition service_headers :: "string option \<Rightarrow> string option \<Rightarrow> string \<Rightarrow> (string, string) dict" where
  "service_headers initiator correlation_id token =
     [(''Authorization'', ''Bearer '' @ token)] @
     (if str_truthy initiator then [(PHLO_INITIATOR_HEADER, the initiator)] else []) @
     (if str_truthy correlation_id then [(PHLO_CORRELATION_HEADER, the correlation_id)] else [])"

definition build_scoped_service_headers :: "keyed_digest \<Rightarrow> string \<Rightarrow> int \<Rightarrow> string \<Rightarrow> string \<Rightarrow> string list \<Rightarrow> key_rings
    \<Rightarrow> string option \<Rightarrow> string option \<Rightarrow> (string, string) dict res" where
  "build_scoped_service_headers hmac fresh_id now caller audience scp rings initiator correlation_id =
     bind_res (create_scoped_service_token hmac fresh_id now caller audience scp rings) (\<lambda>token.
       Inr (service_headers initiator correlation_id token))"

section \<open>Shared-secret tokens\<close>

definition legacy_service_tokens_allowed :: "process_settings \<Rightarrow> bool option res \<Rightarrow> bool res" where
  "legacy_service_tokens_allowed ps configured =
     bind_res (is_regulated ps configured None) (\<lambda>regulated.
       Inr (\<not> regulated \<and>
            py_lower (case ps_environment ps of None \<Rightarrow> ''dev'' | Some e \<Rightarrow> e)
              \<notin> {''prod'', ''production'', ''staging'', ''regulated''}))"

definition DEFAULT_MAX_AGE_SECONDS :: int where
  "DEFAULT_MAX_AGE_SECONDS = 300"

text \<open>The clock is in microseconds.\<close>

definition create_service_token :: "keyed_hash \<Rightarrow> string \<Rightarrow> int \<Rightarrow> process_settings \<Rightarrow> bool option res \<Rightarrow> string
    \<Rightarrow> string res" where
  "create_service_token hmac fresh_id now ps configured service_id =
     bind_res (legacy_service_tokens_allowed ps configured) (\<lambda>allowed.
       if \<not> allowed
       then Inl (RuntimeError ''Shared service tokens are development-only; use scoped service tokens'')
       else (case ps_service_secret ps of
               Some secret \<Rightarrow>
                 if secret = []
                 then Inl (RuntimeError ''PHLO_SERVICE_SECRET must be set for service-to-service auth'')
                 else let message = service_id @ '':'' @ int_str (now div 1000000) @ '':'' @ fresh_id
                      in Inr (message @ '':'' @ hmac secret message)
             | None \<Rightarrow> Inl (RuntimeError ''PHLO_SERVICE_SECRET must be set for service-to-service auth'')))"

text \<open>The least integer that no longer fits a \<open>float\<close>.\<close>

definition float_limit :: int where
  "float_limit = 2 ^ 1024 - 2 ^ 970"

definition validate_service_token :: "keyed_hash \<Rightarrow> process_settings \<Rightarrow> bool option res \<Rightarrow> string \<Rightarrow> int \<Rightarrow> int
    \<Rightarrow> string option res" where
  "validate_service_token hmac ps configured token max_age now =
     bind_res (legacy_service_tokens_allowed ps configured) (\<lambda>allowed.
       if \<not> allowed \<or> \<not> str_truthy (ps_service_secret ps) then Inr None
       else (case split_max 3 (CHR '':'') token of
               [service_id, timestamp, nonce, provided] \<Rightarrow>
                 (case py_int timestamp of
                    Inl _ \<Rightarrow> Inr None
                  | Inr token_time \<Rightarrow>
                      if float_limit \<le> \<bar>token_time\<bar> then Inl OverflowError
                      else if \<bar>now - token_time * 1000000\<bar> > max_age * 1000000 then Inr None
                      else if \<not> list_all (\<lambda>c. ord c < 128) provided then Inl TypeError
                      else if hmac (the (ps_service_secret ps)) (service_id @ '':'' @ timestamp @ '':'' @ nonce)
                              \<noteq> provided
                      then Inr None else Inr (Some service_id))
             | _ \<Rightarrow> Inr None))"

definition build_service_headers :: "keyed_hash \<Rightarrow> string \<Rightarrow> int \<Rightarrow> process_settings \<Rightarrow> bool option res \<Rightarrow> string
    \<Rightarrow> string option \<Rightarrow> string option \<Rightarrow> (string, string) dict res" where
  "build_service_headers hmac fresh_id now ps configured service_id initiator correlation_id =
     bind_res (create_service_token hmac fresh_id now ps configured service_id) (\<lambda>token.
       Inr (service_headers initiator correlation_id token))"

end
