(* ===== verification/Service_Tokens_Spec.thy ===== *)
theory Service_Tokens_Spec
  imports Service_Tokens
begin

text \<open>
  What the workload tokens of \<open>Service_Tokens\<close> promise: who is authenticated and by what, that an issued
  token is accepted, for how long, and how often. The contract of a nonce store is a locale; the
  PostgreSQL store provides it.
\<close>

section \<open>The contract of a nonce store\<close>

locale nonce_store =
  fixes consume :: "string \<Rightarrow> int \<Rightarrow> 's \<Rightarrow> bool res \<times> 's"
    and held :: "string \<Rightarrow> int \<Rightarrow> 's \<Rightarrow> bool"
  assumes accepted_held: "consume n e s = (Inr True, s') \<Longrightarrow> held n e s'"
    and held_refused: "held n e' s \<Longrightarrow> fst (consume n e s) \<noteq> Inr True"
    and held_kept: "held m f s \<Longrightarrow> held m f (snd (consume n e s))"
begin

lemma accepted_once: "consume n e s = (Inr True, s1) \<Longrightarrow> held n e s2 \<Longrightarrow> fst (consume n e' s2) \<noteq> Inr True"
  using held_refused by blast

end

definition nonce_held :: "string \<Rightarrow> int \<Rightarrow> nonce_table \<Rightarrow> bool" where
  "nonce_held n e t \<longleftrightarrow> (\<exists>rows. t = Some rows \<and> dict_get rows n = Some e)"

interpretation pg: nonce_store "consume_nonce failure" nonce_held for failure
  by unfold_locales
     (auto simp: consume_nonce_def nonce_held_def dict_has_get split: option.splits if_splits)

section \<open>What is accepted\<close>

lemma split_four: "split_char c s = [a, b, d, e] \<longleftrightarrow>
   s = a @ [c] @ b @ [c] @ d @ [c] @ e \<and> c \<notin> set a \<and> c \<notin> set b \<and> c \<notin> set d \<and> c \<notin> set e"
  (is "?l \<longleftrightarrow> ?r")
proof
  have no: "\<forall>p \<in> set (split_char c t). c \<notin> set p" for t
    by (induction t) (auto split: list.splits)
  show ?r if ?l
    using split_char_join [of c s] no [of s] that by auto
  show ?l if ?r
    using that by (auto simp: split_char_append split_char_no)
qed

text \<open>The claims a token carries for a receiver, if it is authentic there.\<close>

definition authentic :: "keyed_digest \<Rightarrow> key_rings \<Rightarrow> int \<Rightarrow> string \<Rightarrow> string \<Rightarrow> string \<Rightarrow> string \<Rightarrow> token_claims \<Rightarrow> bool" where
  "authentic hmac rings now caller audience token kid c \<longleftrightarrow>
     (\<exists>payload ring key.
        token = token_body kid payload @ ''.'' @ b64_encode (hmac (wk_secret key) (token_body kid payload)) \<and>
        CHR ''.'' \<notin> set kid \<and> CHR ''.'' \<notin> set payload \<and>
        ring_for rings caller audience = Some ring \<and> key_by_kid ring kid = Some key \<and> can_verify key now \<and>
        payload_claims payload = Inr c)"

lemma b64_ascii: "list_all (\<lambda>c. ord c < 128) (b64_encode bs)" "CHR ''.'' \<notin> set (b64_encode bs)"
  using b64_encode_ascii by (auto simp: list_all_iff)

lemma signed_payload_iff:
  "signed_payload hmac token audience caller rings now = Inr (Some (kid, payload)) \<longleftrightarrow>
   (\<exists>ring key. token = token_body kid payload @ ''.'' @ b64_encode (hmac (wk_secret key) (token_body kid payload)) \<and>
      CHR ''.'' \<notin> set kid \<and> CHR ''.'' \<notin> set payload \<and>
      ring_for rings caller audience = Some ring \<and> key_by_kid ring kid = Some key \<and> can_verify key now)"
  (is "?l \<longleftrightarrow> ?r")
proof
  assume ?l
  then obtain sig ring key where s: "split_char (CHR ''.'') token = [WORKLOAD_TOKEN_VERSION, kid, payload, sig]"
    and k: "ring_for rings caller audience = Some ring" "key_by_kid ring kid = Some key" "can_verify key now"
      "sig = b64_encode (hmac (wk_secret key) (token_body kid payload))"
    by (auto simp: signed_payload_def split: list.splits option.splits if_splits)
  from s [unfolded split_four] k show ?r by auto
next
  assume ?r
  then obtain ring key where r: "token = token_body kid payload @ ''.'' @ b64_encode (hmac (wk_secret key) (token_body kid payload))"
      "CHR ''.'' \<notin> set kid" "CHR ''.'' \<notin> set payload"
      "ring_for rings caller audience = Some ring" "key_by_kid ring kid = Some key" "can_verify key now"
    by blast
  then have "split_char (CHR ''.'') token = [WORKLOAD_TOKEN_VERSION, kid, payload,
      b64_encode (hmac (wk_secret key) (token_body kid payload))]"
    unfolding split_four using b64_ascii(2) by (auto simp: WORKLOAD_TOKEN_VERSION_def)
  then show ?l using r(4-6) b64_ascii(1) by (simp add: signed_payload_def)
qed

lemma validate_iff:
  "validate_scoped_service_token hmac consume token audience caller scp rings max_age skew now s = (Inr (Some who), s') \<longleftrightarrow>
   (\<exists>kid c. authentic hmac rings now caller audience token kid c \<and>
      claims_acceptable c audience caller scp max_age skew now \<and> timestamp_ok (tc_exp c + skew) \<and>
      consume (replay_key audience kid (tc_jti c)) (tc_exp c + skew) s = (Inr True, s') \<and> who = caller)"
  (is "?l \<longleftrightarrow> ?r")
proof
  assume ?l
  then obtain kid payload c where "signed_payload hmac token audience caller rings now = Inr (Some (kid, payload))"
      "payload_claims payload = Inr c" "claims_acceptable c audience caller scp max_age skew now"
      "timestamp_ok (tc_exp c + skew)"
      "consume (replay_key audience kid (tc_jti c)) (tc_exp c + skew) s = (Inr True, s')" "who = tc_sub c"
    unfolding validate_scoped_service_token_def
    by (auto split: sum.splits option.splits prod.splits if_splits py_error.splits bool.splits)
  then show ?r
    unfolding signed_payload_iff authentic_def by (auto simp: claims_acceptable_def split: if_splits)
next
  assume ?r
  then obtain kid c payload where "signed_payload hmac token audience caller rings now = Inr (Some (kid, payload))"
      "payload_claims payload = Inr c" "claims_acceptable c audience caller scp max_age skew now"
      "timestamp_ok (tc_exp c + skew)"
      "consume (replay_key audience kid (tc_jti c)) (tc_exp c + skew) s = (Inr True, s')" "who = caller"
    unfolding signed_payload_iff authentic_def by blast
  then show ?l
    unfolding validate_scoped_service_token_def by (auto simp: claims_acceptable_def split: if_splits)
qed


lemma claims_acceptable_iff:
  "claims_acceptable c audience caller scp max_age skew now \<longleftrightarrow>
   tc_sub c = caller \<and> tc_aud c = audience \<and> sort (tc_scp c) = sort scp \<and>
   tc_iat c - skew \<le> now \<and> now \<le> tc_exp c + skew \<and> tc_exp c - tc_iat c \<le> max_age"
  by (auto simp: claims_acceptable_def)

text \<open>
  C28: a receiver authenticates a workload token exactly when it is signed by a key of the ring of the
  expected caller and audience that may still verify, its claims name that caller and audience and the
  expected scopes, it is in its time window up to the clock skew, and the nonce store accepts its replay
  key. The answer is then the expected caller and nothing else.
\<close>

theorem token_accepted_iff:
  "validate_scoped_service_token hmac consume token audience caller scp rings max_age skew now s = (Inr (Some who), s') \<longleftrightarrow>
   who = caller \<and>
   (\<exists>kid c. authentic hmac rings now caller audience token kid c \<and>
      tc_sub c = caller \<and> tc_aud c = audience \<and> sort (tc_scp c) = sort scp \<and>
      tc_iat c - skew \<le> now \<and> now \<le> tc_exp c + skew \<and> tc_exp c - tc_iat c \<le> max_age \<and>
      timestamp_ok (tc_exp c + skew) \<and>
      consume (replay_key audience kid (tc_jti c)) (tc_exp c + skew) s = (Inr True, s'))"
  unfolding validate_iff claims_acceptable_iff by blast

section \<open>An issued token is accepted\<close>

text \<open>Reading back the claims.\<close>

lemma those_map_Some: "(\<And>x. x \<in> set xs \<Longrightarrow> f x = Some (g x)) \<Longrightarrow> those (map f xs) = Some (map g xs)"
  by (induction xs) auto

lemma texts_back: "[] \<notin> set xs \<Longrightarrow> nonempty_texts (PList (map (pv_of \<circ> JStr) xs)) = Some xs"
proof -
  assume ne: "[] \<notin> set xs"
  have "those (map ((\<lambda>x. case x of PStr s \<Rightarrow> if s = [] then None else Some s | _ \<Rightarrow> None) \<circ> (pv_of \<circ> JStr)) xs)
      = Some (map id xs)"
    using ne by (intro those_map_Some) auto
  then show ?thesis by (simp add: comp_assoc)
qed

definition small_int :: "int \<Rightarrow> bool" where
  "small_int i \<longleftrightarrow> - (10 ^ 12) < i \<and> i < 10 ^ 12"

lemma small_int_text: "small_int i \<Longrightarrow> length (nat_str (nat \<bar>i\<bar>)) \<le> 4300"
proof -
  assume "small_int i"
  then have "nat \<bar>i\<bar> < 10 ^ Suc 11" by (auto simp: small_int_def)
  then show ?thesis using nat_str_length [of "nat \<bar>i\<bar>" 11] by simp
qed

lemma timestamp_small: "timestamp_ok i \<Longrightarrow> small_int i"
  by (simp add: timestamp_ok_def small_int_def)

lemma claims_back:
  assumes "tc_sub c \<noteq> []" and "tc_aud c \<noteq> []" and "[] \<notin> set (tc_scp c)" and "tc_jti c \<noteq> []"
    and "small_int (tc_iat c)" and "small_int (tc_exp c)"
  shows "from_canonical_json (to_canonical_json c) = Inr c"
proof -
  let ?v = "JObj [(''sub'', JStr (tc_sub c)), (''aud'', JStr (tc_aud c)), (''scp'', JList (map JStr (tc_scp c))),
      (''iat'', JInt (tc_iat c)), (''exp'', JInt (tc_exp c)), (''jti'', JStr (tc_jti c))]"
  have "json_loads (to_canonical_json c) = Inr (pv_of ?v)"
    unfolding to_canonical_json_def using assms(5,6)
    by (intro json_loads_line) (auto simp: small_int_text)
  then show ?thesis
    using assms(1-4) by (simp add: from_canonical_json_def claims_of_def claim_names_def texts_back [simplified])
qed

lemma payload_back:
  assumes "from_canonical_json t = Inr c"
  shows "payload_claims (b64_encode (utf8_encode t)) = Inr c"
  using assms utf8_bytes unb64url_encode [of "utf8_encode t"] by (simp add: payload_claims_def utf8_text_encode)


text \<open>What the loaded credentials keep: keys are filed under their id, and scopes are sorted.\<close>

definition key_ring_ok :: "key_ring \<Rightarrow> bool" where
  "key_ring_ok ring \<longleftrightarrow>
     dict_ok (kr_keys ring) \<and> (\<forall>p \<in> set (kr_keys ring). wk_kid (snd p) = fst p \<and> wk_secret (snd p) \<noteq> []) \<and>
     sorted (kr_scp ring) \<and> [] \<notin> set (kr_scp ring)"

definition rings_ok :: "key_rings \<Rightarrow> bool" where
  "rings_ok rings \<longleftrightarrow>
     (\<forall>p \<in> set rings. key_ring_ok (snd p) \<and> fst p = (kr_caller (snd p), kr_audience (snd p)))"

definition keys_ok :: "(string, workload_key) dict \<Rightarrow> bool" where
  "keys_ok keys \<longleftrightarrow> dict_ok keys \<and> (\<forall>p \<in> set keys. wk_kid (snd p) = fst p \<and> wk_secret (snd p) \<noteq> [])"

lemma load_key_ok: "load_key kid e keys = Inr keys' \<Longrightarrow> keys_ok keys \<Longrightarrow> keys_ok keys'"
  using dict_set_subset [of kid _ keys]
  by (auto simp: load_key_def keys_ok_def bind_res_Inr_iff split: pvalue.splits option.splits if_splits;
      fastforce)

lemma those_nonempty: "those (map (\<lambda>x. case x of PStr s \<Rightarrow> if s = [] then None else Some s | _ \<Rightarrow> None) xs) = Some ys
    \<Longrightarrow> [] \<notin> set ys"
  by (induction xs arbitrary: ys) (auto split: option.splits pvalue.splits if_splits)

lemma nonempty_texts_Some: "nonempty_texts v = Some xs \<Longrightarrow> [] \<notin> set xs"
  by (cases v) (auto dest: those_nonempty)

lemma load_ring_ok: "load_ring caller audience e rings = Inr rings' \<Longrightarrow> rings_ok rings \<Longrightarrow> rings_ok rings'"
proof -
  assume l: "load_ring caller audience e rings = Inr rings'" and ok: "rings_ok rings"
  show ?thesis
  proof (cases "rings' = rings")
    case False
    then obtain d where d: "e = PObj d" using l by (cases e) (auto simp: load_ring_def)
    let ?v = "case dict_get d ''scp'' of None \<Rightarrow> PList [] | Some v \<Rightarrow> v"
    obtain scp where n: "nonempty_texts ?v = Some scp"
      using l d by (cases "nonempty_texts ?v") (auto simp: load_ring_def Let_def)
    obtain k ks where ks: "dict_get d ''keys'' = Some (PObj (k # ks))"
    proof (cases "dict_get d ''keys''")
      case (Some v)
      then show ?thesis using l d n that
        by (cases v) (auto simp: load_ring_def Let_def split: list.splits)
    qed (use l d n in \<open>simp add: load_ring_def Let_def\<close>)
    obtain keys where keys: "fold_res (\<lambda>(kid, e). load_key kid e) (k # ks) [] = Inr keys"
      and r: "rings' = dict_set rings (caller, audience)
        \<lparr>kr_caller = caller, kr_audience = audience, kr_scp = sort scp, kr_keys = keys\<rparr>"
      using l d n ks by (auto simp: load_ring_def Let_def bind_res_Inr_iff simp del: fold_res.simps)
    have scp: "[] \<notin> set scp" using n by (rule nonempty_texts_Some)
    have "keys_ok keys"
      using keys by (rule fold_res_inv) (auto simp: keys_ok_def [of "[]"] load_key_ok)
    then show ?thesis
      using ok scp dict_set_subset [of "(caller, audience)" _ rings]
      by (fastforce simp: r rings_ok_def key_ring_ok_def keys_ok_def)
  qed (use ok in simp)
qed

lemma loaded_rings_ok: "load_workload_key_rings payload = Inr rings \<Longrightarrow> rings_ok rings"
  unfolding load_workload_key_rings_def
  by (erule fold_res_inv) (auto simp: rings_ok_def [of "[]"] split: pvalue.splits
      intro: load_ring_ok elim!: fold_res_inv)

lemma fold_best: "fold (\<lambda>x best. if wk_activated_at x > wk_activated_at best then x else best) ks k \<in> set (k # ks)"
proof (induction ks arbitrary: k)
  case (Cons x ks)
  show ?case using Cons.IH [of "if wk_activated_at x > wk_activated_at k then x else k"] by (auto split: if_splits)
qed simp

lemma active_key_Some: "active_key ring now = Some k \<Longrightarrow> (\<exists>kid. (kid, k) \<in> set (kr_keys ring)) \<and> can_sign k now"
proof -
  assume "active_key ring now = Some k"
  then have "k \<in> set (filter (\<lambda>k. can_sign k now) (map snd (kr_keys ring)))"
    (is "k \<in> set ?ks")
  proof (cases "filter (\<lambda>k. can_sign k now) (map snd (kr_keys ring))")
    case (Cons k0 ks)
    then show ?thesis using \<open>active_key ring now = Some k\<close> fold_best [of ks k0] by (auto simp: active_key_def)
  qed (simp add: active_key_def)
  then show ?thesis by auto
qed

lemma signer_verifies:
  assumes "rings_ok rings" and "ring_for rings caller audience = Some ring" and "active_key ring now = Some key"
  shows "key_by_kid ring (wk_kid key) = Some key"
proof -
  have "((caller, audience), ring) \<in> set rings" using assms(2) by (auto simp: ring_for_def map_of_SomeD)
  then have "key_ring_ok ring" using assms(1) by (auto simp: rings_ok_def)
  then show ?thesis
    using active_key_Some [OF assms(3)] by (auto simp: key_ring_ok_def key_by_kid_def dict_ok_get)
qed

lemma ring_scopes:
  assumes "rings_ok rings" and "ring_for rings caller audience = Some ring"
  shows "[] \<notin> set (kr_scp ring)"
proof -
  have "((caller, audience), ring) \<in> set rings" using assms(2) by (auto simp: ring_for_def map_of_SomeD)
  then show ?thesis using assms(1) by (auto simp: rings_ok_def key_ring_ok_def)
qed


lemma sort_twice [simp]: "sort (sort xs) = sort xs"
  by (simp add: sorted_sort_id)

definition issued_claims :: "string \<Rightarrow> string \<Rightarrow> string list \<Rightarrow> int \<Rightarrow> string \<Rightarrow> token_claims" where
  "issued_claims caller audience scp issued fresh =
     \<lparr>tc_sub = caller, tc_aud = audience, tc_scp = sort scp, tc_iat = issued,
      tc_exp = issued + WORKLOAD_TOKEN_MAX_AGE_SECONDS, tc_jti = fresh\<rparr>"

abbreviation claims_text :: "token_claims \<Rightarrow> string" where
  "claims_text c \<equiv> b64_encode (utf8_encode (to_canonical_json c))"

lemma issued_token:
  assumes "create_scoped_service_token hmac fresh issued caller audience scp rings = Inr token" and "rings_ok rings"
    and "ring_for rings caller audience = Some ring" and "active_key ring issued = Some key"
    and "c = issued_claims caller audience scp issued fresh"
  shows "[] \<notin> set scp"
    "token = token_body (wk_kid key) (claims_text c) @ ''.'' @ b64_encode (hmac (wk_secret key) (token_body (wk_kid key) (claims_text c)))"
proof -
  have r: "sort scp = sort (kr_scp ring)"
    using assms(1,3) by (simp add: create_scoped_service_token_def Let_def split: if_splits)
  have "[] \<notin> set (kr_scp ring)" using ring_scopes [OF assms(2,3)] .
  then show "[] \<notin> set scp" using r by (metis set_sort)
  show "token = token_body (wk_kid key) (claims_text c) @ ''.'' @ b64_encode (hmac (wk_secret key) (token_body (wk_kid key) (claims_text c)))"
    using assms(1,3-5) r by (simp add: create_scoped_service_token_def Let_def issued_claims_def)
qed

text \<open>
  C29: a token issued from loaded credentials is accepted by the receiver it is for, once: while its key may
  still verify and its window lasts, the receiver answers the caller, and a second presentation against
  the store it leaves behind is refused, by this receiver at any time. (The id of the key must not
  contain a dot, and names, fresh id and scopes must be what a claim may hold.)
\<close>

theorem issued_accepted_once:
  assumes "load_workload_key_rings payload = Inr rings"
    and "create_scoped_service_token hmac fresh issued caller audience scp rings = Inr token"
    and "caller \<noteq> []" and "audience \<noteq> []" and "fresh \<noteq> []" and "CHR 0x00 \<notin> set (audience @ fresh)"
    and "ring_for rings caller audience = Some ring" and "active_key ring issued = Some key"
    and "can_verify key now" and "CHR ''.'' \<notin> set (wk_kid key)" and "CHR 0x00 \<notin> set (wk_kid key)"
    and "\<not> dict_has nonces (replay_key audience (wk_kid key) fresh)"
    and "issued - skew \<le> now" and "now \<le> issued + WORKLOAD_TOKEN_MAX_AGE_SECONDS + skew"
    and "WORKLOAD_TOKEN_MAX_AGE_SECONDS \<le> max_age"
    and "timestamp_ok issued" and "timestamp_ok (issued + WORKLOAD_TOKEN_MAX_AGE_SECONDS)"
    and "timestamp_ok (issued + WORKLOAD_TOKEN_MAX_AGE_SECONDS + skew)"
  shows "\<exists>nonces'. validate_scoped_service_token hmac (consume_nonce None) token audience caller scp rings max_age skew
           now (Some nonces) = (Inr (Some caller), Some nonces') \<and>
         fst (validate_scoped_service_token hmac (consume_nonce None) token audience caller scp rings max_age skew
           later (Some nonces')) = Inr None"
proof -
  have ok: "rings_ok rings" using assms(1) by (rule loaded_rings_ok)
  define c where "c = issued_claims caller audience scp issued fresh"
  let ?p = "claims_text c"
  let ?n = "replay_key audience (wk_kid key) fresh"
  note token = issued_token [OF assms(2) ok assms(7,8) c_def]
  have "from_canonical_json (to_canonical_json c) = Inr c"
    using assms(3-5) token(1) timestamp_small [OF assms(16)] timestamp_small [OF assms(17)]
    by (intro claims_back) (simp_all add: c_def issued_claims_def)
  then have rd: "payload_claims ?p = Inr c" by (rule payload_back)
  have kid: "key_by_kid ring (wk_kid key) = Some key" by (rule signer_verifies [OF ok assms(7,8)])
  have signed: "signed_payload hmac token audience caller rings t =
      (if can_verify key t then Inr (Some (wk_kid key, ?p)) else Inr None)" for t
  proof (cases "can_verify key t")
    case True
    then show ?thesis
      unfolding if_P [OF True] signed_payload_iff using token(2) assms(7,10) kid b64_ascii(2) by blast
  next
    case False
    have "split_char (CHR ''.'') token = [WORKLOAD_TOKEN_VERSION, wk_kid key, ?p,
        b64_encode (hmac (wk_secret key) (token_body (wk_kid key) ?p))]"
      unfolding split_four token(2) using b64_ascii(2) assms(10) by (auto simp: WORKLOAD_TOKEN_VERSION_def)
    then show ?thesis using False assms(7) kid by (simp add: signed_payload_def)
  qed
  have acc: "claims_acceptable c audience caller scp max_age skew now"
    using assms(13-15) by (simp add: claims_acceptable_iff c_def issued_claims_def)
  have nul: "CHR 0x00 \<notin> set ?n" using assms(6,11) by (auto simp: replay_key_def)
  have c: "tc_exp c = issued + WORKLOAD_TOKEN_MAX_AGE_SECONDS" "tc_jti c = fresh" "tc_sub c = caller"
    by (simp_all add: c_def issued_claims_def)
  let ?nonces' = "dict_set nonces ?n (tc_exp c + skew)"
  have "validate_scoped_service_token hmac (consume_nonce None) token audience caller scp rings max_age skew
      now (Some nonces) = (Inr (Some caller), Some ?nonces')"
    using signed [of now] assms(9,12,18) rd acc nul
    by (simp add: validate_scoped_service_token_def consume_nonce_def c_def issued_claims_def)
  moreover have "fst (validate_scoped_service_token hmac (consume_nonce None) token audience caller scp rings max_age
      skew later (Some ?nonces')) = Inr None"
    using signed [of later] assms(18) rd nul
    by (simp add: validate_scoped_service_token_def consume_nonce_def c dict_keys_set)
  ultimately show ?thesis by blast
qed


definition example_digest :: keyed_digest where
  "example_digest key text = [length key mod 256, length text mod 256, 7]"

definition example_credentials :: "(string, pvalue) dict" where
  "example_credentials =
     [(''phlo-api'', PObj [(''phlo-dagster'', PObj
        [(''scp'', PList [PStr ''dagster:control'']),
         (''keys'', PObj [(''k1'', PObj [(''secret'', PStr ''s3cret''), (''activated_at'', PInt 900)])])])])]"

definition example_key :: workload_key where
  "example_key = \<lparr>wk_kid = ''k1'', wk_secret = ''s3cret'', wk_state = KS_ACTIVE, wk_activated_at = 900,
     wk_retiring_until = None\<rparr>"

definition example_rings :: key_rings where
  "example_rings = [((''phlo-api'', ''phlo-dagster''),
     \<lparr>kr_caller = ''phlo-api'', kr_audience = ''phlo-dagster'', kr_scp = [''dagster:control''],
      kr_keys = [(''k1'', example_key)]\<rparr>)]"

definition example_token :: string where
  "example_token = projr (create_scoped_service_token example_digest ''j1'' 1000 ''phlo-api'' ''phlo-dagster''
     [''dagster:control''] example_rings)"

abbreviation example_validate :: "int \<Rightarrow> nonce_table \<Rightarrow> string option res \<times> nonce_table" where
  "example_validate \<equiv> validate_scoped_service_token example_digest (consume_nonce None) example_token ''phlo-dagster''
     ''phlo-api'' [''dagster:control''] example_rings 300 30"

lemma example_loaded: "load_workload_key_rings example_credentials = Inr example_rings"
  by code_simp

lemma example_issued_key: "create_scoped_service_token example_digest ''j1'' 1000 ''phlo-api'' ''phlo-dagster''
     [''dagster:control''] example_rings = Inr example_token"
  by code_simp

lemma example_accepted:
  "example_validate 1000 (Some []) = (Inr (Some ''phlo-api''), Some [(''phlo-dagster:k1:j1'', 1330)])"
  by code_simp

lemma example_replayed:
  "example_validate 1330 (Some []) = (Inr (Some ''phlo-api''), Some [(''phlo-dagster:k1:j1'', 1330)])"
  by code_simp


lemma issued_accepted_once_witness:
  "\<exists>nonces'. example_validate 1000 (Some []) = (Inr (Some ''phlo-api''), Some nonces') \<and>
      fst (example_validate 1001 (Some nonces')) = Inr None"
proof -
  have "ring_for example_rings ''phlo-api'' ''phlo-dagster'' = Some (snd (hd example_rings))"
    "active_key (snd (hd example_rings)) 1000 = Some example_key"
    "can_verify example_key 1000" "CHR ''.'' \<notin> set (wk_kid example_key)" "CHR 0x00 \<notin> set (wk_kid example_key)"
    by code_simp+
  then show ?thesis
    by (intro issued_accepted_once [OF example_loaded example_issued_key])
       (auto simp: timestamp_ok_def WORKLOAD_TOKEN_MAX_AGE_SECONDS_def)
qed

section \<open>How often a token is accepted\<close>

text \<open>
  What happens to the nonce table between two validations: other tokens are consumed, maintenance purges at
  a time not in the future, the receiver restarts, the clock (in microseconds) goes on.
\<close>

type_synonym nonce_world = "nonce_table \<times> int"

inductive nonce_step :: "nonce_world \<Rightarrow> nonce_world \<Rightarrow> bool" where
  consumed: "nonce_step (t, now) (snd (consume_nonce failure n e t), now)"
| purged: "p \<le> now \<Longrightarrow> nonce_step (t, now) (snd (purge_expired failure p t), now)"
| started: "nonce_step (t, now) (snd (ensure_nonces failure t), now)"
| ticked: "now \<le> now' \<Longrightarrow> nonce_step (t, now) (t, now')"

inductive_cases nonce_stepE: "nonce_step w w'"

lemma purge_keeps: "nonce_held n e t \<Longrightarrow> p < e * 1000000 \<Longrightarrow> nonce_held n e (snd (purge_expired failure p t))"
proof (cases failure)
  case None
  assume h: "nonce_held n e t" and p: "p < e * 1000000"
  then obtain rows where rows: "t = Some rows" "dict_get rows n = Some e" by (auto simp: nonce_held_def)
  have "dict_get (filter (\<lambda>r. \<not> snd r * 1000000 \<le> p) rows) n = Some e"
    using rows(2) p by (induction rows) (auto split: if_splits)
  then show ?thesis using rows(1) None by (simp add: purge_expired_def nonce_held_def)
qed (simp add: purge_expired_def)

lemma clock_forward: "nonce_step\<^sup>*\<^sup>* w w' \<Longrightarrow> snd w \<le> snd w'"
  by (induction rule: rtranclp_induct) (auto elim: nonce_stepE)

text \<open>
  A nonce that the table held and holds no more was removed by a purge, whose time was at or after the expiry of
  the nonce: of all the steps between, no other drops a row.
\<close>

definition purged_between :: "string \<Rightarrow> int \<Rightarrow> nonce_world \<Rightarrow> nonce_world \<Rightarrow> int \<Rightarrow> bool" where
  "purged_between n e w w' p \<longleftrightarrow>
     (\<exists>t at failure. nonce_step\<^sup>*\<^sup>* w (t, at) \<and> p \<le> at \<and>
        nonce_held n e t \<and> \<not> nonce_held n e (snd (purge_expired failure p t)) \<and>
        nonce_step\<^sup>*\<^sup>* (snd (purge_expired failure p t), at) w')"

lemma purged_between_step: "purged_between n e w w' p \<Longrightarrow> nonce_step w' w'' \<Longrightarrow> purged_between n e w w'' p"
  unfolding purged_between_def by (meson rtranclp.rtrancl_into_rtrancl)

lemma nonce_lost:
  assumes "nonce_step\<^sup>*\<^sup>* w w'" and "nonce_held n e (fst w)" and "\<not> nonce_held n e (fst w')"
  shows "\<exists>p. purged_between n e w w' p"
  using assms(1,3)
proof (induction rule: rtranclp_induct)
  case base
  then show ?case using assms(2) by simp
next
  case (step w1 w2)
  show ?case
  proof (cases "nonce_held n e (fst w1)")
    case False
    with step show ?thesis using purged_between_step by blast
  next
    case held: True
    from step(2) show ?thesis
    proof cases
      case (consumed t now failure m f)
      then show ?thesis using held step(4) pg.held_kept by simp
    next
      case (purged p now t failure)
      then have "purged_between n e w w2 p"
        unfolding purged_between_def using step(1,4) held by (intro exI [of _ t] exI [of _ now]) auto
      then show ?thesis by blast
    next
      case (started t now failure)
      then show ?thesis using held step(4)
        by (auto simp: ensure_nonces_def nonce_held_def split: option.splits)
    next
      case (ticked now now' t)
      then show ?thesis using held step(4) by simp
    qed
  qed
qed

lemma purged_between_time:
  assumes "purged_between n e w w' p"
  shows "e * 1000000 \<le> p" and "p \<le> snd w'"
proof -
  obtain t at failure where h: "p \<le> at" "nonce_held n e t" "\<not> nonce_held n e (snd (purge_expired failure p t))"
    "nonce_step\<^sup>*\<^sup>* (snd (purge_expired failure p t), at) w'"
    using assms unfolding purged_between_def by blast
  show "e * 1000000 \<le> p" using purge_keeps [OF h(2), of p failure] h(3) by (cases "p < e * 1000000") auto
  show "p \<le> snd w'" using clock_forward [OF h(4)] h(1) by simp
qed

lemma authentic_unique:
  assumes "authentic hmac rings now caller audience token kid c"
    and "authentic hmac' rings' now' caller' audience' token kid' c'"
  shows "kid' = kid \<and> c' = c"
proof -
  have *: "\<exists>payload sig. split_char (CHR ''.'') token = [WORKLOAD_TOKEN_VERSION, kid, payload, sig] \<and> payload_claims payload = Inr c"
    if "authentic hmac rings now caller audience token kid c" for hmac rings now caller audience kid c
    using that unfolding authentic_def split_four
    using b64_ascii(2) by (force simp: WORKLOAD_TOKEN_VERSION_def)
  show ?thesis using * [OF assms(1)] * [OF assms(2)] by auto
qed

text \<open>
  C30: a token is accepted once, but for the last second of its window. Between two acceptances by receivers of
  one audience that share the nonce table and allow the same clock skew lie only consumptions, purges at a time
  not in the future, restarts and the passing of time. Then the second acceptance falls in the very second in
  which the token's window, skew included, closes, and between the two a purge whose time lies in that same
  second removed the nonce the first acceptance had stored: it deletes from that instant on, while the
  validation, which counts whole seconds, still accepts.
\<close>

theorem accepted_again_only_at_close:
  assumes "validate_scoped_service_token hmac (consume_nonce failure) token audience caller scp rings max_age skew
             (now div 1000000) t = (Inr (Some who), t1)"
    and "nonce_step\<^sup>*\<^sup>* (t1, now) (t2, now2)"
    and "validate_scoped_service_token hmac2 (consume_nonce failure2) token audience caller2 scp2 rings2 max_age2 skew
             (now2 div 1000000) t2 = (Inr (Some who2), t3)"
  shows "\<exists>kid c p. authentic hmac rings (now div 1000000) caller audience token kid c \<and>
           now2 div 1000000 = tc_exp c + skew \<and> p div 1000000 = tc_exp c + skew \<and>
           purged_between (replay_key audience kid (tc_jti c)) (tc_exp c + skew) (t1, now) (t2, now2) p"
proof -
  obtain kid c where a: "authentic hmac rings (now div 1000000) caller audience token kid c"
    and u: "consume_nonce failure (replay_key audience kid (tc_jti c)) (tc_exp c + skew) t = (Inr True, t1)"
    using assms(1) unfolding validate_iff by blast
  obtain kid2 c2 where a2: "authentic hmac2 rings2 (now2 div 1000000) caller2 audience token kid2 c2"
    and acc2: "claims_acceptable c2 audience caller2 scp2 max_age2 skew (now2 div 1000000)"
    and u2: "consume_nonce failure2 (replay_key audience kid2 (tc_jti c2)) (tc_exp c2 + skew) t2 = (Inr True, t3)"
    using assms(3) unfolding validate_iff by blast
  have eq: "kid2 = kid" "c2 = c" using authentic_unique [OF a a2] by auto
  let ?n = "replay_key audience kid (tc_jti c)" and ?e = "tc_exp c + skew"
  have "nonce_held ?n ?e (fst (t1, now))" using pg.accepted_held [OF u] by simp
  moreover have "\<not> nonce_held ?n ?e (fst (t2, now2))"
    using pg.held_refused [of ?n ?e t2 failure2 ?e] u2 by (auto simp: eq)
  ultimately obtain p where p: "purged_between ?n ?e (t1, now) (t2, now2) p"
    using nonce_lost [OF assms(2)] by blast
  have "?e \<le> p div 1000000" and "p div 1000000 \<le> now2 div 1000000"
    using zdiv_mono1 [OF purged_between_time(1) [OF p], of 1000000]
      zdiv_mono1 [OF purged_between_time(2) [OF p], of 1000000] by simp_all
  moreover have "now2 div 1000000 \<le> ?e" using acc2 by (simp add: claims_acceptable_iff eq)
  ultimately show ?thesis using a p by (intro exI [of _ kid] exI [of _ c] exI [of _ p]) simp
qed

text \<open>And it is accepted again there: issued and used at 1000, purged and presented again at 1330.\<close>

lemma accepted_again_only_at_close_witness:
  "\<exists>t1 t2 t3. example_validate 1000 (Some []) = (Inr (Some ''phlo-api''), t1) \<and>
     nonce_step\<^sup>*\<^sup>* (t1, 1000 * 1000000) (t2, 1330 * 1000000) \<and>
     example_validate 1330 t2 = (Inr (Some ''phlo-api''), t3) \<and>
     (\<exists>kid c p. authentic example_digest example_rings 1000 ''phlo-api'' ''phlo-dagster'' example_token kid c \<and>
        1330 = tc_exp c + 30 \<and> p div 1000000 = 1330 \<and>
        purged_between (replay_key ''phlo-dagster'' kid (tc_jti c)) 1330 (t1, 1000 * 1000000) (t2, 1330 * 1000000) p)"
proof -
  let ?t1 = "Some [(''phlo-dagster:k1:j1'', 1330)] :: nonce_table"
  have "nonce_step (?t1, 1000 * 1000000) (?t1, 1330 * 1000000)" by (rule ticked) simp
  moreover have "nonce_step (?t1, 1330 * 1000000) (snd (purge_expired None (1330 * 1000000) ?t1), 1330 * 1000000)"
    by (rule purged) simp
  ultimately have run: "nonce_step\<^sup>*\<^sup>* (?t1, 1000 * 1000000) (Some [], 1330 * 1000000)"
    by (simp add: purge_expired_def)
  have "example_validate (1000 * 1000000 div 1000000) (Some []) = (Inr (Some ''phlo-api''), ?t1)"
    "example_validate (1330 * 1000000 div 1000000) (Some []) = (Inr (Some ''phlo-api''), ?t1)"
    using example_accepted example_replayed by simp_all
  from accepted_again_only_at_close [OF this(1) run this(2)]
  obtain kid c p where f: "authentic example_digest example_rings 1000 ''phlo-api'' ''phlo-dagster'' example_token kid c"
    "1330 = tc_exp c + 30" "p div 1000000 = 1330"
    "purged_between (replay_key ''phlo-dagster'' kid (tc_jti c)) 1330 (?t1, 1000 * 1000000) (Some [], 1330 * 1000000) p"
    by auto
  then have "\<exists>kid c p. authentic example_digest example_rings 1000 ''phlo-api'' ''phlo-dagster'' example_token kid c \<and>
      1330 = tc_exp c + 30 \<and> p div 1000000 = 1330 \<and>
      purged_between (replay_key ''phlo-dagster'' kid (tc_jti c)) 1330 (?t1, 1000 * 1000000) (Some [], 1330 * 1000000) p"
    by blast
  with example_accepted example_replayed run show ?thesis by blast
qed


section \<open>Shared-secret tokens\<close>

lemma split_max_Suc: "c \<notin> set a \<Longrightarrow> split_max (Suc n) c (a @ c # b) = a # split_max n c b"
  by (simp add: takeWhile_append dropWhile_append)

text \<open>
  A shared-secret token is accepted wherever shared-secret tokens are allowed, as often as it is
  presented, for as long as its age in either direction is within the limit. The service id must not hold a
  colon. The instance is a finding: in the environment \<open>" production"\<close> HTTP authorization is required, because
  that test strips blanks, and shared-secret tokens, which are documented as development-only, are accepted
  all the same, because theirs does not.
\<close>

theorem shared_token_accepted:
  assumes "create_service_token hmac fresh now ps configured service_id = Inr token"
    and "CHR '':'' \<notin> set service_id" and "CHR '':'' \<notin> set fresh"
    and "list_all (\<lambda>c. ord c < 128) (hmac (the (ps_service_secret ps))
           (service_id @ '':'' @ int_str (now div 1000000) @ '':'' @ fresh))"
    and "0 \<le> now" and "now < 10 ^ 18"
    and "\<bar>now2 - now div 1000000 * 1000000\<bar> \<le> max_age * 1000000"
  shows "validate_service_token hmac ps configured token max_age now2 = Inr (Some service_id)"
proof -
  let ?t = "nat (now div 1000000)"
  let ?m = "service_id @ '':'' @ nat_str ?t @ '':'' @ fresh"
  have t: "int_str (now div 1000000) = nat_str ?t" "int ?t = now div 1000000"
    using assms(5) by (simp_all add: int_str_def pos_imp_zdiv_neg_iff pos_imp_zdiv_nonneg_iff)
  obtain secret where s: "ps_service_secret ps = Some secret" "secret \<noteq> []"
    "legacy_service_tokens_allowed ps configured = Inr True" "token = ?m @ '':'' @ hmac secret ?m"
    using assms(1) unfolding create_service_token_def t(1)
    by (auto simp: bind_res_Inr_iff Let_def split: if_splits option.splits)
  have "now div 1000000 < 10 ^ 12" using zdiv_mono1 [of now "10 ^ 18 - 1" 1000000] assms(6) by simp
  then have small: "?t < 10 ^ Suc 11" by simp
  have digits: "py_int (nat_str ?t) = Inr (int ?t)"
    using nat_str_length [OF small] by (intro py_int_nat_str) simp
  have "CHR '':'' \<notin> set (nat_str ?t)"
    using nat_str_digits [of ?t] by (auto simp: list_all_iff ascii_digit_def)
  then have split: "split_max 3 (CHR '':'') token = [service_id, nat_str ?t, fresh, hmac secret ?m]"
    using assms(2,3) s(4) by (simp add: numeral_3_eq_3 split_max_Suc del: split_max.simps(2))
  have "\<not> float_limit \<le> \<bar>now div 1000000\<bar>"
  proof -
    have "(10 :: int) ^ 12 \<le> float_limit" by (simp add: float_limit_def)
    moreover have "0 \<le> now div 1000000" using assms(5) by (simp add: pos_imp_zdiv_nonneg_iff)
    ultimately show ?thesis using \<open>now div 1000000 < 10 ^ 12\<close> by simp
  qed
  then have "\<not> float_limit \<le> \<bar>int ?t\<bar>" unfolding t(2) .
  then show ?thesis
    using split digits s(1-3) assms(4,7) t
    by (simp add: validate_service_token_def str_truthy_def split: if_splits)
qed

definition example_hex :: keyed_hash where
  "example_hex key text = nat_str (length key * 1000 + length text)"

definition blank_production :: process_settings where
  "blank_production = \<lparr>ps_regulated = None, ps_regulated_mode = None, ps_environment = Some '' production'',
     ps_service_secret = Some ''s3cret'', ps_credentials_file = None\<rparr>"

lemma shared_token_accepted_witness:
  "requires_http_authorization blank_production (Inr None) = Inr True \<and>
   (\<exists>token. create_service_token example_hex ''n1'' 5000000 blank_production (Inr None) ''phlo-api'' = Inr token \<and>
      validate_service_token example_hex blank_production (Inr None) token 300 7000000 = Inr (Some ''phlo-api''))"
proof -
  have http: "requires_http_authorization blank_production (Inr None) = Inr True" by code_simp
  have "create_service_token example_hex ''n1'' 5000000 blank_production (Inr None) ''phlo-api'' =
      Inr ''phlo-api:5:n1:6013''"
  proof -
    have "legacy_service_tokens_allowed blank_production (Inr None) = Inr True" by code_simp
    then show ?thesis
      by (simp add: create_service_token_def blank_production_def example_hex_def int_str_def nat_str.simps)
        code_simp
  qed
  moreover have "list_all (\<lambda>c. ord c < 128) (example_hex k m)" for k m
    using nat_str_digits [of "length k * 1000 + length m"]
    by (fastforce simp: example_hex_def list_all_iff ascii_digit_def)
  ultimately show ?thesis
    using shared_token_accepted [of example_hex "''n1''" 5000000 blank_production "Inr None" "''phlo-api''"
        "''phlo-api:5:n1:6013''" 7000000 300] http by simp
qed

end
