(* ===== verification/Rbac_Compilers.thy ===== *)
theory Rbac_Compilers
  imports Phlo_Json_Read Trino_Compiler Rbac_Sync
begin

text \<open>
  \<open>phlo/rbac/compilers.py\<close> and what it uses of the base class in \<open>compiler.py\<close>: the PostgreSQL, MinIO and
  Nessie compilers, planning and verification by name and by content, and the generic application of a
  plan through a governance backend. A backend is a record of its operations over a state; the identifiers
  a plan draws from \<open>uuid4\<close> are the argument \<open>ids\<close>.
\<close>

section \<open>Backends and the base class\<close>

record 'e governance_backend =
  gb_list :: "'e \<Rightarrow> 'e \<times> (string, json) dict list res"
  gb_apply :: "access_policy \<Rightarrow> 'e \<Rightarrow> 'e \<times> unit res"
  gb_revoke :: "string \<Rightarrow> 'e \<Rightarrow> 'e \<times> unit res"

definition ensure_effect :: "string \<Rightarrow> rbac_policy_rule \<Rightarrow> unit res" where
  "ensure_effect backend_name policy =
     (if pr_effect policy \<noteq> ALLOW
      then Inl (ValueError (''Backend '' @ py_repr backend_name @ '' does not support canonical '' @
             py_repr (effect_value (pr_effect policy)) @ '' policies. Policy: '' @ pr_policy_id policy))
      else Inr ())"

definition plan_create :: "string \<Rightarrow> string \<Rightarrow> backend_artifact \<Rightarrow> policy_change" where
  "plan_create backend_name revert_id a =
     \<lparr>ch_change_type = ''create'', ch_backend = backend_name, ch_artifact = a, ch_revert_id = Some revert_id\<rparr>"

definition plan_delete :: "string \<Rightarrow> backend_artifact \<Rightarrow> policy_change" where
  "plan_delete backend_name a =
     \<lparr>ch_change_type = ''delete'', ch_backend = backend_name, ch_artifact = a, ch_revert_id = None\<rparr>"

definition generate_revert_id :: "string \<Rightarrow> string \<Rightarrow> string" where
  "generate_revert_id backend_name hex = backend_name @ ''_'' @ take 8 hex"

definition plan_of :: "string \<Rightarrow> canonical_rbac \<Rightarrow> policy_change list \<Rightarrow> sync_plan" where
  "plan_of backend_name m changes =
     \<lparr>sy_version_hash = (case rb_version_hash m of None \<Rightarrow> [] | Some h \<Rightarrow> h), sy_backend = backend_name,
      sy_changes = changes, sy_warnings = [], sy_errors = []\<rparr>"

text \<open>\<open>GovernanceCompiler.plan\<close> on the compiled and the observed artifacts.\<close>

definition plan_by_name :: "(nat \<Rightarrow> string) \<Rightarrow> string \<Rightarrow> canonical_rbac \<Rightarrow> backend_artifact list
    \<Rightarrow> backend_artifact list \<Rightarrow> sync_plan" where
  "plan_by_name ids backend_name m desired current =
     (let new = not_in (by_name desired) (by_name current) in
      plan_of backend_name m
        (map (\<lambda>(k, a). plan_create backend_name (generate_revert_id backend_name (ids k)) a) (enumerate 0 new) @
         map (plan_delete backend_name) (not_in (by_name current) (by_name desired))))"

text \<open>\<open>_plan_content_aware\<close>; \<open>k\<close> counts the identifiers drawn.\<close>

fun content_changes :: "(nat \<Rightarrow> string) \<Rightarrow> string \<Rightarrow> (backend_artifact \<Rightarrow> backend_artifact \<Rightarrow> bool res)
    \<Rightarrow> (string, backend_artifact) dict \<Rightarrow> nat \<Rightarrow> (string \<times> backend_artifact) list \<Rightarrow> policy_change list res" where
  "content_changes ids backend_name equivalent current k [] = Inr []"
| "content_changes ids backend_name equivalent current k ((name, a) # rest) =
     (let create = plan_create backend_name (generate_revert_id backend_name (ids k)) a in
      case dict_get current name of
        None \<Rightarrow> bind_res (content_changes ids backend_name equivalent current (Suc k) rest) (\<lambda>cs. Inr (create # cs))
      | Some found \<Rightarrow>
          bind_res (equivalent a found) (\<lambda>same.
            if same then content_changes ids backend_name equivalent current k rest
            else bind_res (content_changes ids backend_name equivalent current (Suc k) rest) (\<lambda>cs.
              Inr (plan_delete backend_name found # create # cs))))"

definition plan_content_aware :: "(nat \<Rightarrow> string) \<Rightarrow> string \<Rightarrow> (backend_artifact \<Rightarrow> backend_artifact \<Rightarrow> bool res)
    \<Rightarrow> canonical_rbac \<Rightarrow> backend_artifact list \<Rightarrow> backend_artifact list \<Rightarrow> sync_plan res" where
  "plan_content_aware ids backend_name equivalent m desired current =
     bind_res (content_changes ids backend_name equivalent (by_name current) 0 (by_name desired)) (\<lambda>cs.
       Inr (plan_of backend_name m
         (cs @ map (plan_delete backend_name) (not_in (by_name current) (by_name desired)))))"

fun mismatched :: "(backend_artifact \<Rightarrow> backend_artifact \<Rightarrow> bool res) \<Rightarrow> (string, backend_artifact) dict
    \<Rightarrow> (string \<times> backend_artifact) list \<Rightarrow> backend_artifact list res" where
  "mismatched equivalent current [] = Inr []"
| "mismatched equivalent current ((name, a) # rest) =
     (case dict_get current name of
        None \<Rightarrow> mismatched equivalent current rest
      | Some found \<Rightarrow>
          bind_res (equivalent a found) (\<lambda>same.
            bind_res (mismatched equivalent current rest) (\<lambda>as. Inr (if same then as else a # as))))"

definition verify_content_aware :: "string \<Rightarrow> (backend_artifact \<Rightarrow> backend_artifact \<Rightarrow> bool res)
    \<Rightarrow> backend_artifact list \<Rightarrow> backend_artifact list \<Rightarrow> verify_result res" where
  "verify_content_aware backend_name equivalent desired current =
     (let missing = not_in (by_name desired) (by_name current);
          extra = not_in (by_name current) (by_name desired)
      in bind_res (mismatched equivalent (by_name current) (by_name desired)) (\<lambda>mm.
           Inr \<lparr>vr_backend = backend_name, vr_in_sync = (missing = [] \<and> extra = [] \<and> mm = []),
                vr_missing = missing, vr_extra = extra, vr_mismatched = mm, vr_error = None\<rparr>))"

text \<open>\<open>GovernanceCompiler.apply\<close>: \<open>change\<close> applies one change; a failure is reported and the loop goes on.\<close>

fun apply_plan :: "(policy_change \<Rightarrow> 'e \<Rightarrow> 'e \<times> unit res) \<Rightarrow> policy_change list \<Rightarrow> 'e
    \<Rightarrow> 'e \<times> string list \<times> string list" where
  "apply_plan change [] e = (e, [], [])"
| "apply_plan change (c # cs) e =
     (case change c e of
        (e', Inl err) \<Rightarrow>
          (case apply_plan change cs e' of
             (e'', ok, errs) \<Rightarrow>
               (e'', ok, (''Failed to apply '' @ ba_name (ch_artifact c) @ '': '' @ exc_text err) # errs))
      | (e', Inr _) \<Rightarrow>
          (case apply_plan change cs e' of
             (e'', ok, errs) \<Rightarrow>
               (e'', (if ch_change_type c = ''create'' \<and> str_truthy (ch_revert_id c)
                      then the (ch_revert_id c) # ok else ok), errs)))"

definition list_rows :: "'e governance_backend option \<Rightarrow> 'e \<Rightarrow> 'e \<times> (string, json) dict list res" where
  "list_rows backend e = (case backend of None \<Rightarrow> (e, Inr []) | Some b \<Rightarrow> gb_list b e)"

definition row_text :: "(string, json) dict \<Rightarrow> string \<Rightarrow> string \<Rightarrow> string" where
  "row_text row k dflt = (case dict_get row k of None \<Rightarrow> dflt | Some v \<Rightarrow> json_text v)"

definition metadata_text :: "backend_artifact \<Rightarrow> string \<Rightarrow> string \<Rightarrow> string" where
  "metadata_text a k dflt = row_text (ba_metadata a) k dflt"

abbreviation no_backend :: "string \<Rightarrow> py_error" where
  "no_backend name \<equiv> RuntimeError (''No '' @ name @ '' governance backend registered'')"

definition artifact_change :: "string \<Rightarrow> (backend_artifact \<Rightarrow> access_policy) \<Rightarrow> (backend_artifact \<Rightarrow> string)
    \<Rightarrow> 'e governance_backend option \<Rightarrow> policy_change \<Rightarrow> 'e \<Rightarrow> 'e \<times> unit res" where
  "artifact_change name policy_of revoke_id backend c e =
     (case backend of
        None \<Rightarrow> (e, Inl (no_backend name))
      | Some b \<Rightarrow>
          (if ch_change_type c = ''create'' then gb_apply b (policy_of (ch_artifact c)) e
           else if ch_change_type c = ''delete'' then gb_revoke b (revoke_id (ch_artifact c)) e
           else (e, Inr ())))"

section \<open>Slugs\<close>

definition slug_char :: "char \<Rightarrow> bool" where
  "slug_char c \<longleftrightarrow> ascii_alnum c \<or> c = CHR ''_'' \<or> c = CHR ''-''"

text \<open>\<open>re.sub\<close>: each longest run of other characters becomes one underscore.\<close>

fun slug_sub :: "bool \<Rightarrow> string \<Rightarrow> string" where
  "slug_sub inside [] = []"
| "slug_sub inside (c # cs) =
     (if slug_char c then c # slug_sub False cs
      else if inside then slug_sub True cs else CHR ''_'' # slug_sub True cs)"

definition slug :: "string \<Rightarrow> string" where
  "slug value =
     (let strip = (\<lambda>s. rev (dropWhile ((=) CHR ''_'') (rev (dropWhile ((=) CHR ''_'') s))));
          s = strip (slug_sub False value)
      in if s = [] then ''all'' else s)"

section \<open>Which policies belong to which compiler\<close>

definition POSTGRES_POLICY_PAIRS :: "(string \<times> string) list" where
  "POSTGRES_POLICY_PAIRS =
     [(''dataset.read'', ''dataset''), (''dataset.query'', ''dataset''), (''dataset.write'', ''dataset'')]"

definition MINIO_POLICY_PAIRS :: "(string \<times> string) list" where
  "MINIO_POLICY_PAIRS =
     [(''object.read'', ''object''), (''object.write'', ''object''), (''dataset.read'', ''dataset''),
      (''dataset.query'', ''dataset''), (''dataset.write'', ''dataset'')]"

definition NESSIE_POLICY_PAIRS :: "(string \<times> string) list" where
  "NESSIE_POLICY_PAIRS =
     [(''catalog.read'', ''catalog''), (''catalog.manage'', ''catalog''), (''dataset.read'', ''dataset''),
      (''dataset.query'', ''dataset''), (''dataset.write'', ''dataset''), (''dataset.publish'', ''dataset'')]"

definition KNOWN_POLICY_PAIRS :: "(string \<times> string) list" where
  "KNOWN_POLICY_PAIRS =
     TRINO_POLICY_PAIRS @ SURFACE_ONLY_POLICY_PAIRS @ POSTGRES_POLICY_PAIRS @ MINIO_POLICY_PAIRS @ NESSIE_POLICY_PAIRS"

definition pair_applicability :: "string \<Rightarrow> (string \<times> string) list \<Rightarrow> string \<Rightarrow> string \<Rightarrow> string" where
  "pair_applicability backend_name pairs action resource_type =
     (if (action, resource_type) \<in> set pairs then backend_name
      else if (action, resource_type) \<in> set KNOWN_POLICY_PAIRS then ''surface''
      else ''unsupported'')"

text \<open>The head of each \<open>compile\<close>: \<open>own\<close> compiles a policy of the backend.\<close>

definition compile_policy :: "string \<Rightarrow> (string \<times> string) list \<Rightarrow> (rbac_policy_rule \<Rightarrow> backend_artifact list res)
    \<Rightarrow> rbac_policy_rule \<Rightarrow> backend_artifact list res" where
  "compile_policy backend_name pairs own policy =
     (let applicability = pair_applicability backend_name pairs (pr_action policy) (pr_resource_type policy) in
      if applicability = ''surface'' then Inr []
      else if applicability = ''unsupported''
      then Inl (ValueError (backend_name @ '' cannot compile policy '' @ py_repr (pr_policy_id policy) @ '' for '' @
             pr_action policy @ ''/'' @ pr_resource_type policy))
      else bind_res (ensure_effect backend_name policy) (\<lambda>_. own policy))"

definition compile_all :: "(rbac_policy_rule \<Rightarrow> backend_artifact list res) \<Rightarrow> canonical_rbac \<Rightarrow> backend_artifact list res" where
  "compile_all compile_one m =
     bind_res (map_res compile_one (pc_policies (rb_policies m))) (\<lambda>as. Inr (concat as))"

definition ops_of :: "(string, string list) dict \<Rightarrow> string \<Rightarrow> string list" where
  "ops_of mapping action = (case dict_get mapping action of None \<Rightarrow> [] | Some xs \<Rightarrow> xs)"


section \<open>PostgreSQL\<close>

definition POSTGRES :: string where
  "POSTGRES = ''postgres''"

definition POSTGRES_ACTIONS :: "(string, string list) dict" where
  "POSTGRES_ACTIONS =
     [(''dataset.read'', [''SELECT'']), (''dataset.query'', [''SELECT'']),
      (''dataset.write'', [''INSERT'', ''UPDATE'', ''DELETE''])]"

definition READ_ALL_ROLE :: string where
  "READ_ALL_ROLE = ''pg_read_all_data''"

definition WRITE_ALL_ROLE :: string where
  "WRITE_ALL_ROLE = ''pg_write_all_data''"

definition pg_artifact :: "string \<Rightarrow> string \<Rightarrow> string \<Rightarrow> string \<Rightarrow> string \<Rightarrow> string \<Rightarrow> string \<Rightarrow> backend_artifact" where
  "pg_artifact name statement role privilege resource policy_id scope =
     \<lparr>ba_backend = POSTGRES, ba_artifact_type = ''grant'', ba_name = name, ba_statement = statement,
      ba_managed = True,
      ba_metadata = [(''role'', JStr role), (''privilege'', JStr privilege), (''resource'', JStr resource),
                     (''policy_id'', JStr policy_id), (''scope'', JStr scope)]\<rparr>"

definition all_data_artifact :: "string \<Rightarrow> rbac_policy_rule \<Rightarrow> backend_artifact" where
  "all_data_artifact role_name policy =
     (let predefined = (if pr_action policy = ''dataset.write'' then WRITE_ALL_ROLE else READ_ALL_ROLE)
      in pg_artifact (role_name @ ''__*__'' @ predefined) (''GRANT '' @ predefined @ '' TO '' @ role_name)
           role_name predefined ''*'' (pr_policy_id policy) ''role_membership'')"

definition schema_privilege_artifacts :: "string \<Rightarrow> string \<Rightarrow> rbac_policy_rule \<Rightarrow> string \<Rightarrow> backend_artifact list res" where
  "schema_privilege_artifacts role_name schema policy privilege =
     (let resource = schema @ ''.*''; name = role_name @ ''__'' @ resource @ ''__'' @ privilege in
      bind_res (validate_sql_privilege privilege) (\<lambda>_. Inr
        [pg_artifact name
           (''GRANT '' @ privilege @ '' ON ALL TABLES IN SCHEMA '' @ schema @ '' TO '' @ role_name)
           role_name privilege resource (pr_policy_id policy) ''all_tables'',
         pg_artifact (name @ ''__DEFAULT'')
           (''ALTER DEFAULT PRIVILEGES IN SCHEMA '' @ schema @ '' GRANT '' @ privilege @ '' ON TABLES TO '' @ role_name)
           role_name privilege resource (pr_policy_id policy) ''default_privileges'']))"

definition schema_artifacts :: "string \<Rightarrow> string \<Rightarrow> string list \<Rightarrow> rbac_policy_rule \<Rightarrow> backend_artifact list res" where
  "schema_artifacts role_name schema privileges policy =
     (let resource = schema @ ''.*'' in
      bind_res (validate_sql_identifier schema ''schema'') (\<lambda>_.
      bind_res (map_res (schema_privilege_artifacts role_name schema policy) privileges) (\<lambda>as. Inr
        (pg_artifact (role_name @ ''__'' @ resource @ ''__USAGE'')
           (''GRANT USAGE ON SCHEMA '' @ schema @ '' TO '' @ role_name)
           role_name ''USAGE'' resource (pr_policy_id policy) ''schema_usage'' # concat as))))"

definition table_artifact :: "string \<Rightarrow> string \<Rightarrow> rbac_policy_rule \<Rightarrow> string \<Rightarrow> backend_artifact res" where
  "table_artifact role_name resource policy privilege =
     bind_res (validate_sql_privilege privilege) (\<lambda>_. Inr
       (pg_artifact (role_name @ ''__'' @ resource @ ''__'' @ privilege)
          (''GRANT '' @ privilege @ '' ON TABLE '' @ resource @ '' TO '' @ role_name)
          role_name privilege resource (pr_policy_id policy) ''table''))"

definition ends_with :: "string \<Rightarrow> string \<Rightarrow> bool" where
  "ends_with s t \<longleftrightarrow> starts_with (rev s) (rev t)"

definition pg_role_artifacts :: "rbac_policy_rule \<Rightarrow> string \<Rightarrow> backend_artifact list res" where
  "pg_role_artifacts policy role_name =
     (let privileges = ops_of POSTGRES_ACTIONS (pr_action policy); resource = pr_resource_id_pattern policy in
      bind_res (validate_sql_identifier role_name ''role_name'') (\<lambda>_.
        if resource = ''*'' then Inr [all_data_artifact role_name policy]
        else bind_res (validate_sql_resource_pattern resource ''resource_id'') (\<lambda>_.
          if ends_with resource ''.*''
          then schema_artifacts role_name (take (length resource - 2) resource) privileges policy
          else map_res (table_artifact role_name resource policy) privileges)))"

definition pg_policy_artifacts :: "rbac_policy_rule \<Rightarrow> backend_artifact list res" where
  "pg_policy_artifacts policy =
     bind_res (map_res (pg_role_artifacts policy) (pr_principal_roles policy)) (\<lambda>as. Inr (concat as))"

definition pg_compile :: "canonical_rbac \<Rightarrow> backend_artifact list res" where
  "pg_compile = compile_all (compile_policy POSTGRES POSTGRES_POLICY_PAIRS pg_policy_artifacts)"

definition ROW_SCOPES :: "string list" where
  "ROW_SCOPES = [''schema_usage'', ''all_tables'', ''default_privileges'', ''role_membership'']"

definition row_artifact :: "(string, json) dict \<Rightarrow> string \<Rightarrow> backend_artifact" where
  "row_artifact row grantee =
     (let kind = row_text row ''kind'' ''table_grant''; schema = row_text row ''schema'' [];
          table = row_text row ''table'' []; privilege = row_text row ''privilege'' [];
          wide = kind \<in> {''schema_usage'', ''all_tables'', ''default_privileges''};
          name = (if kind = ''role_membership'' then grantee @ ''__*__'' @ privilege
                  else if wide then grantee @ ''__'' @ schema @ ''.*__'' @ privilege @
                         (if kind = ''default_privileges'' then ''__DEFAULT'' else [])
                  else grantee @ ''__'' @ schema @ ''.'' @ table @ ''__'' @ privilege);
          resource = (if kind = ''role_membership'' then ''*''
                      else if wide then schema @ ''.*''
                      else if schema \<noteq> [] then schema @ ''.'' @ table else table)
      in \<lparr>ba_backend = POSTGRES, ba_artifact_type = ''grant'', ba_name = name, ba_statement = [],
          ba_managed = True,
          ba_metadata = [(''role'', JStr grantee), (''privilege'', JStr privilege), (''resource'', JStr resource),
             (''scope'', JStr (if kind \<in> set ROW_SCOPES then kind else ''table'')),
             (''complete'', case dict_get row ''complete'' of None \<Rightarrow> JBool True | Some v \<Rightarrow> v),
             (''inferred'', JBool (kind = ''all_tables''))]\<rparr>)"

definition pg_observed :: "compiler_context \<Rightarrow> (string, json) dict list \<Rightarrow> backend_artifact list" where
  "pg_observed context rows =
     List.map_filter (\<lambda>row. let grantee = row_text row ''grantee'' [] in
       if grantee = [] \<or> \<not> matches_managed grantee context then None else Some (row_artifact row grantee)) rows"

definition PREDEFINED_ROLE_PRIVILEGES :: "(string, string list) dict" where
  "PREDEFINED_ROLE_PRIVILEGES =
     [(''pg_read_all_data'', [''SELECT'', ''USAGE'']),
      (''pg_write_all_data'', [''INSERT'', ''UPDATE'', ''DELETE'', ''TRUNCATE''])]"

definition covers :: "backend_artifact \<Rightarrow> backend_artifact \<Rightarrow> bool" where
  "covers have_grant want_grant =
     (let get = (\<lambda>a k. dict_get (ba_metadata a) k);
          text = (\<lambda>a k. row_text (ba_metadata a) k ''None'');
          priv_h = text have_grant ''privilege''; priv_w = text want_grant ''privilege'';
          res_h = text have_grant ''resource''; res_w = text want_grant ''resource''
      in if get have_grant ''role'' \<noteq> get want_grant ''role'' then False
         else if priv_h \<noteq> priv_w \<and> priv_w \<notin> set (ops_of PREDEFINED_ROLE_PRIVILEGES priv_h) then False
         else if res_h = res_w \<and> get have_grant ''scope'' \<noteq> get want_grant ''scope'' then False
         else if res_h = ''*'' then True
         else if res_h = res_w then True
         else ends_with res_h ''.*'' \<and> starts_with res_w (butlast res_h))"

definition pg_verify_artifacts :: "backend_artifact list \<Rightarrow> backend_artifact list \<Rightarrow> verify_result" where
  "pg_verify_artifacts desired all_current =
     (let current = filter (\<lambda>a. dict_get (ba_metadata a) ''complete'' \<noteq> Some (JBool False)) all_current;
          missing = filter (\<lambda>want_grant. \<not> (\<exists>have_grant \<in> set current. covers have_grant want_grant)) desired;
          extra = filter (\<lambda>have_grant.
            \<not> json_truthy (case dict_get (ba_metadata have_grant) ''inferred'' of None \<Rightarrow> JNull | Some v \<Rightarrow> v) \<and>
            \<not> (\<exists>want_grant \<in> set desired. covers want_grant have_grant)) current
      in \<lparr>vr_backend = POSTGRES, vr_in_sync = (missing = [] \<and> extra = []), vr_missing = missing,
          vr_extra = extra, vr_mismatched = [], vr_error = None\<rparr>)"

definition allow_policy :: "string \<Rightarrow> string \<Rightarrow> string \<Rightarrow> string \<Rightarrow> access_policy" where
  "allow_policy policy_id grantee table_pattern action =
     \<lparr>ap_policy_id = Some policy_id, ap_principal = grantee, ap_table_pattern = table_pattern,
      ap_action = action, ap_effect = ''ALLOW'', ap_columns = None, ap_row_filter = None, ap_data_masking = None\<rparr>"

definition pg_change :: "'e governance_backend option \<Rightarrow> policy_change \<Rightarrow> 'e \<Rightarrow> 'e \<times> unit res" where
  "pg_change = artifact_change POSTGRES
     (\<lambda>a. allow_policy (ba_name a) (metadata_text a ''role'' []) (metadata_text a ''resource'' [])
            (metadata_text a ''privilege'' ''SELECT''))
     (\<lambda>a. metadata_text a ''scope'' ''table'' @ '':'' @ metadata_text a ''privilege'' [] @ '':'' @
            metadata_text a ''resource'' [] @ '':'' @ metadata_text a ''role'' [])"

definition pg_plan :: "(nat \<Rightarrow> string) \<Rightarrow> 'e governance_backend option \<Rightarrow> compiler_context \<Rightarrow> canonical_rbac \<Rightarrow> 'e
    \<Rightarrow> 'e \<times> sync_plan res" where
  "pg_plan ids backend context m e =
     (case pg_compile m of
        Inl err \<Rightarrow> (e, Inl err)
      | Inr desired \<Rightarrow>
          (case list_rows backend e of
             (e', Inl err) \<Rightarrow> (e', Inl err)
           | (e', Inr rows) \<Rightarrow> (e', Inr (plan_by_name ids POSTGRES m desired (pg_observed context rows)))))"

definition pg_verify :: "'e governance_backend option \<Rightarrow> compiler_context \<Rightarrow> canonical_rbac \<Rightarrow> 'e
    \<Rightarrow> 'e \<times> verify_result res" where
  "pg_verify backend context m e =
     (case pg_compile m of
        Inl err \<Rightarrow> (e, Inl err)
      | Inr desired \<Rightarrow>
          (case list_rows backend e of
             (e', Inl err) \<Rightarrow> (e', Inl err)
           | (e', Inr rows) \<Rightarrow> (e', Inr (pg_verify_artifacts desired (pg_observed context rows)))))"

definition pg_apply :: "'e governance_backend option \<Rightarrow> sync_plan \<Rightarrow> 'e \<Rightarrow> 'e \<times> string list \<times> string list" where
  "pg_apply backend plan e = apply_plan (pg_change backend) (sy_changes plan) e"


section \<open>MinIO\<close>

definition MINIO :: string where
  "MINIO = ''minio''"

definition READ_ACTIONS :: "string list" where
  "READ_ACTIONS = [''s3:GetObject'', ''s3:GetObjectVersion'', ''s3:ListBucket'']"

definition WRITE_ACTIONS :: "string list" where
  "WRITE_ACTIONS = READ_ACTIONS @ [''s3:PutObject'', ''s3:DeleteObject'', ''s3:AbortMultipartUpload'']"

definition MINIO_ACTIONS :: "(string, string list) dict" where
  "MINIO_ACTIONS =
     [(''object.read'', READ_ACTIONS), (''dataset.read'', READ_ACTIONS), (''dataset.query'', READ_ACTIONS),
      (''object.write'', WRITE_ACTIONS), (''dataset.write'', WRITE_ACTIONS)]"

text \<open>\<open>warehouse\<close> is \<open>context.extra.get("warehouse_bucket")\<close>.\<close>

definition resource_prefix :: "string option \<Rightarrow> rbac_policy_rule \<Rightarrow> string \<times> string" where
  "resource_prefix warehouse policy =
     (let resource = pr_resource_id_pattern policy in
      if pr_resource_type policy = ''dataset''
      then (the (str_or warehouse (Some ''lake'')),
            filter (\<lambda>c. c \<noteq> CHR ''*'') (map (\<lambda>c. if c = CHR ''.'' then CHR ''/'' else c) resource))
      else if CHR ''/'' \<in> set resource
      then (takeWhile (\<lambda>c. c \<noteq> CHR ''/'') resource,
            rev (dropWhile (\<lambda>c. c = CHR ''*'') (rev (tl (dropWhile (\<lambda>c. c \<noteq> CHR ''/'') resource)))))
      else (resource, []))"

definition policy_document :: "string \<Rightarrow> string \<Rightarrow> string list \<Rightarrow> json" where
  "policy_document bucket prefix actions =
     (let object_arn = (if prefix \<noteq> [] then ''arn:aws:s3:::'' @ bucket @ ''/'' @ prefix @ ''*''
                        else ''arn:aws:s3:::'' @ bucket @ ''/*'');
          bucket_arn = ''arn:aws:s3:::'' @ bucket;
          object_actions = filter (\<lambda>a. a \<noteq> ''s3:ListBucket'') actions
      in JObj [(''Version'', JStr ''2012-10-17''), (''Statement'', JList
           ((if ''s3:ListBucket'' \<in> set actions
             then [JObj ([(''Effect'', JStr ''Allow''), (''Action'', JList [JStr ''s3:ListBucket'']),
                          (''Resource'', JList [JStr bucket_arn])] @
                   (if prefix \<noteq> []
                    then [(''Condition'', JObj [(''StringLike'', JObj [(''s3:prefix'', JList [JStr (prefix @ ''*'')])])])]
                    else []))]
             else []) @
            (if object_actions \<noteq> []
             then [JObj [(''Effect'', JStr ''Allow''), (''Action'', JList (map JStr (sort object_actions))),
                         (''Resource'', JList [JStr object_arn])]]
             else [])))])"

definition minio_name :: "rbac_policy_rule \<Rightarrow> string \<Rightarrow> string" where
  "minio_name policy role_name =
     ''phlo_'' @ role_name @ ''__'' @ slug (pr_resource_id_pattern policy) @ ''__'' @ slug (pr_action policy)"

definition minio_role_artifact :: "string \<Rightarrow> string \<Rightarrow> rbac_policy_rule \<Rightarrow> string \<Rightarrow> backend_artifact res" where
  "minio_role_artifact bucket prefix policy role_name =
     (let actions = ops_of MINIO_ACTIONS (pr_action policy); name = minio_name policy role_name in
      bind_res (validate_sql_identifier role_name ''role_name'') (\<lambda>_. Inr
        \<lparr>ba_backend = MINIO, ba_artifact_type = ''policy_doc'', ba_name = name,
         ba_statement = json_dumps '', '' '': '' (policy_document bucket prefix actions), ba_managed = True,
         ba_metadata = [(''role'', JStr role_name), (''policy_name'', JStr name),
            (''resource'', JStr (pr_resource_id_pattern policy)), (''bucket'', JStr bucket), (''prefix'', JStr prefix),
            (''actions'', JList (map JStr actions)), (''policy_id'', JStr (pr_policy_id policy))]\<rparr>))"

definition minio_policy_artifacts :: "string option \<Rightarrow> rbac_policy_rule \<Rightarrow> backend_artifact list res" where
  "minio_policy_artifacts warehouse policy =
     (let (bucket, prefix) = resource_prefix warehouse policy in
      bind_res (validate_sql_identifier bucket ''bucket'') (\<lambda>_.
        map_res (minio_role_artifact bucket prefix policy) (pr_principal_roles policy)))"

definition minio_compile :: "string option \<Rightarrow> canonical_rbac \<Rightarrow> backend_artifact list res" where
  "minio_compile warehouse = compile_all (compile_policy MINIO MINIO_POLICY_PAIRS (minio_policy_artifacts warehouse))"

definition minio_observed :: "compiler_context \<Rightarrow> (string, json) dict list \<Rightarrow> backend_artifact list" where
  "minio_observed context rows =
     List.map_filter (\<lambda>row. let name = row_text row ''policy_name'' [] in
       if name = [] \<or> \<not> matches_managed name context then None
       else Some \<lparr>ba_backend = MINIO, ba_artifact_type = ''policy_doc'', ba_name = name,
              ba_statement = row_text row ''document'' [], ba_managed = True,
              ba_metadata = [(''policy_name'', JStr name), (''role'', JStr (row_text row ''role'' []))]\<rparr>) rows"

text \<open>Documents are compared up to the order of their lists. A number with a fraction is \<open>UntypedPayload\<close>.\<close>

fun json_of :: "pvalue \<Rightarrow> json res" where
  "json_of PNull = Inr JNull"
| "json_of (PBool b) = Inr (JBool b)"
| "json_of (PInt i) = Inr (JInt i)"
| "json_of (PFloat s) = Inl UntypedPayload"
| "json_of (PStr s) = Inr (JStr s)"
| "json_of (PList vs) = bind_res (map_res json_of vs) (\<lambda>xs. Inr (JList xs))"
| "json_of (PObj d) =
     bind_res (map_res (\<lambda>p. bind_res (json_of (snd p)) (\<lambda>v. Inr (fst p, v))) d) (\<lambda>xs. Inr (JObj xs))"

fun normalize_policy_value :: "json \<Rightarrow> json" where
  "normalize_policy_value (JObj d) = JObj (map (\<lambda>p. (fst p, normalize_policy_value (snd p))) d)"
| "normalize_policy_value (JList xs) = JList (sort_key (json_dumps '', '' '': '') (map normalize_policy_value xs))"
| "normalize_policy_value v = v"

definition documents_equivalent :: "string \<Rightarrow> string \<Rightarrow> bool res" where
  "documents_equivalent desired current =
     (case (json_loads desired, json_loads current) of
        (Inr d, Inr c) \<Rightarrow>
          bind_res (json_of d) (\<lambda>d'. bind_res (json_of c) (\<lambda>c'.
            Inr (json_eq (normalize_policy_value d') (normalize_policy_value c'))))
      | (Inl UntypedPayload, _) \<Rightarrow> Inl UntypedPayload
      | (Inr _, Inl UntypedPayload) \<Rightarrow> Inl UntypedPayload
      | _ \<Rightarrow> Inr (desired = current))"

definition minio_equivalent :: "backend_artifact \<Rightarrow> backend_artifact \<Rightarrow> bool res" where
  "minio_equivalent desired current =
     bind_res (documents_equivalent (ba_statement desired) (ba_statement current)) (\<lambda>same.
       Inr (same \<and> metadata_text desired ''role'' [] = metadata_text current ''role'' []))"

definition minio_change :: "'e governance_backend option \<Rightarrow> policy_change \<Rightarrow> 'e \<Rightarrow> 'e \<times> unit res" where
  "minio_change = artifact_change MINIO
     (\<lambda>a. allow_policy (ba_name a) (metadata_text a ''role'' []) (ba_statement a) ''policy_doc'') ba_name"

text \<open>Planning and verification by content, for the two compilers that do so.\<close>

definition content_plan :: "(nat \<Rightarrow> string) \<Rightarrow> string \<Rightarrow> (backend_artifact \<Rightarrow> backend_artifact \<Rightarrow> bool res)
    \<Rightarrow> backend_artifact list res \<Rightarrow> ((string, json) dict list \<Rightarrow> backend_artifact list) \<Rightarrow> 'e governance_backend option
    \<Rightarrow> canonical_rbac \<Rightarrow> 'e \<Rightarrow> 'e \<times> sync_plan res" where
  "content_plan ids backend_name equivalent compiled found backend m e =
     (case compiled of
        Inl err \<Rightarrow> (e, Inl err)
      | Inr desired \<Rightarrow>
          (case list_rows backend e of
             (e', Inl err) \<Rightarrow> (e', Inl err)
           | (e', Inr rows) \<Rightarrow> (e', plan_content_aware ids backend_name equivalent m desired (found rows))))"

definition content_verify :: "string \<Rightarrow> (backend_artifact \<Rightarrow> backend_artifact \<Rightarrow> bool res)
    \<Rightarrow> backend_artifact list res \<Rightarrow> ((string, json) dict list \<Rightarrow> backend_artifact list) \<Rightarrow> 'e governance_backend option
    \<Rightarrow> 'e \<Rightarrow> 'e \<times> verify_result res" where
  "content_verify backend_name equivalent compiled found backend e =
     (case compiled of
        Inl err \<Rightarrow> (e, Inl err)
      | Inr desired \<Rightarrow>
          (case list_rows backend e of
             (e', Inl err) \<Rightarrow> (e', Inl err)
           | (e', Inr rows) \<Rightarrow> (e', verify_content_aware backend_name equivalent desired (found rows))))"

definition minio_plan :: "(nat \<Rightarrow> string) \<Rightarrow> string option \<Rightarrow> 'e governance_backend option \<Rightarrow> compiler_context
    \<Rightarrow> canonical_rbac \<Rightarrow> 'e \<Rightarrow> 'e \<times> sync_plan res" where
  "minio_plan ids warehouse backend context m =
     content_plan ids MINIO minio_equivalent (minio_compile warehouse m) (minio_observed context) backend m"

definition minio_verify :: "string option \<Rightarrow> 'e governance_backend option \<Rightarrow> compiler_context
    \<Rightarrow> canonical_rbac \<Rightarrow> 'e \<Rightarrow> 'e \<times> verify_result res" where
  "minio_verify warehouse backend context m =
     content_verify MINIO minio_equivalent (minio_compile warehouse m) (minio_observed context) backend"

definition minio_apply :: "'e governance_backend option \<Rightarrow> sync_plan \<Rightarrow> 'e \<Rightarrow> 'e \<times> string list \<times> string list" where
  "minio_apply backend plan e = apply_plan (minio_change backend) (sy_changes plan) e"

section \<open>Nessie\<close>

definition NESSIE :: string where
  "NESSIE = ''nessie''"

definition ACTION_OPS :: "(string, string list) dict" where
  "ACTION_OPS =
     [(''catalog.read'', [''VIEW_REFERENCE'', ''READ_ENTITY_VALUE'', ''READ_LOG'']),
      (''catalog.manage'', [''VIEW_REFERENCE'', ''CREATE_REFERENCE'', ''UPDATE_REFERENCE'', ''DELETE_REFERENCE'',
         ''ASSIGN_REFERENCE'', ''READ_ENTITY_VALUE'', ''READ_LOG'']),
      (''dataset.read'', [''VIEW_REFERENCE'', ''READ_ENTITY_VALUE'']),
      (''dataset.query'', [''VIEW_REFERENCE'', ''READ_ENTITY_VALUE'']),
      (''dataset.write'', [''UPDATE_ENTITY_VALUE'']),
      (''dataset.publish'', [''UPDATE_REFERENCE''])]"

text \<open>
  \<open>re.escape\<close> on a validated pattern: of its characters only the dot, the star and a final newline are
  escaped; \<open>\*\<close> then becomes \<open>.*\<close>.
\<close>

definition path_pattern :: "string \<Rightarrow> string" where
  "path_pattern resource = ''^'' @ concat (map (\<lambda>c.
     if c = CHR ''*'' then ''.*''
     else if c = CHR ''.'' \<or> c = CHR 0x0A then [CHR 0x5C, c] else [c]) resource) @ ''$''"

abbreviation in_quotes :: "string \<Rightarrow> string" where
  "in_quotes s \<equiv> CHR 0x27 # s @ [CHR 0x27]"

definition rule_expression :: "string \<Rightarrow> string list \<Rightarrow> rbac_policy_rule \<Rightarrow> string res" where
  "rule_expression role_name ops policy =
     (let clauses = [''op in ['' @ str_join '','' (map in_quotes ops) @ '']'', ''role=='' @ in_quotes role_name] in
      if pr_resource_type policy = ''dataset''
      then bind_res (validate_sql_resource_pattern (pr_resource_id_pattern policy) ''resource_id'') (\<lambda>resource.
        Inr (str_join '' && '' (clauses @ [''path.matches('' @ in_quotes (path_pattern resource) @ '')''])))
      else Inr (str_join '' && '' clauses))"

definition nessie_name :: "rbac_policy_rule \<Rightarrow> string \<Rightarrow> string" where
  "nessie_name policy role_name =
     ''phlo_'' @ role_name @ ''__'' @ slug (pr_action policy) @ ''__'' @ slug (pr_resource_id_pattern policy)"

definition RULE_KEY_PREFIX :: string where
  "RULE_KEY_PREFIX = ''nessie.server.authorization.rules.''"

definition nessie_role_artifact :: "rbac_policy_rule \<Rightarrow> string \<Rightarrow> backend_artifact res" where
  "nessie_role_artifact policy role_name =
     (let ops = ops_of ACTION_OPS (pr_action policy); name = nessie_name policy role_name in
      bind_res (validate_sql_identifier role_name ''role_name'') (\<lambda>_.
      bind_res (rule_expression role_name ops policy) (\<lambda>expression. Inr
        \<lparr>ba_backend = NESSIE, ba_artifact_type = ''authz_rule'', ba_name = name,
         ba_statement = RULE_KEY_PREFIX @ name @ ''='' @ expression, ba_managed = True,
         ba_metadata = [(''role'', JStr role_name), (''rule_name'', JStr name), (''expression'', JStr expression),
            (''ops'', JList (map JStr ops)), (''resource'', JStr (pr_resource_id_pattern policy)),
            (''policy_id'', JStr (pr_policy_id policy))]\<rparr>)))"

definition nessie_compile :: "canonical_rbac \<Rightarrow> backend_artifact list res" where
  "nessie_compile = compile_all (compile_policy NESSIE NESSIE_POLICY_PAIRS
     (\<lambda>policy. map_res (nessie_role_artifact policy) (pr_principal_roles policy)))"

definition nessie_observed :: "compiler_context \<Rightarrow> (string, json) dict list \<Rightarrow> backend_artifact list" where
  "nessie_observed context rows =
     List.map_filter (\<lambda>row. let name = row_text row ''policy_id'' []; expression = row_text row ''rule'' [] in
       if name = [] \<or> \<not> matches_managed name context then None
       else Some \<lparr>ba_backend = NESSIE, ba_artifact_type = ''authz_rule'', ba_name = name,
              ba_statement = RULE_KEY_PREFIX @ name @ ''='' @ expression, ba_managed = True,
              ba_metadata = [(''rule_name'', JStr name), (''expression'', JStr expression)]\<rparr>) rows"

text \<open>The comparison of the base class.\<close>

definition same_statement :: "backend_artifact \<Rightarrow> backend_artifact \<Rightarrow> bool res" where
  "same_statement desired current = Inr (ba_statement desired = ba_statement current)"

definition nessie_change :: "'e governance_backend option \<Rightarrow> policy_change \<Rightarrow> 'e \<Rightarrow> 'e \<times> unit res" where
  "nessie_change = artifact_change NESSIE
     (\<lambda>a. allow_policy (ba_name a) (metadata_text a ''role'' []) (metadata_text a ''expression'' []) ''authz_rule'')
     ba_name"

definition nessie_plan :: "(nat \<Rightarrow> string) \<Rightarrow> 'e governance_backend option \<Rightarrow> compiler_context
    \<Rightarrow> canonical_rbac \<Rightarrow> 'e \<Rightarrow> 'e \<times> sync_plan res" where
  "nessie_plan ids backend context m =
     content_plan ids NESSIE same_statement (nessie_compile m) (nessie_observed context) backend m"

definition nessie_verify :: "'e governance_backend option \<Rightarrow> compiler_context
    \<Rightarrow> canonical_rbac \<Rightarrow> 'e \<Rightarrow> 'e \<times> verify_result res" where
  "nessie_verify backend context m =
     content_verify NESSIE same_statement (nessie_compile m) (nessie_observed context) backend"

definition nessie_apply :: "'e governance_backend option \<Rightarrow> sync_plan \<Rightarrow> 'e \<Rightarrow> 'e \<times> string list \<times> string list" where
  "nessie_apply backend plan e = apply_plan (nessie_change backend) (sy_changes plan) e"

section \<open>The compilers of the controller\<close>

text \<open>\<open>revert\<close> of the base class raises.\<close>

definition governance_compiler :: "(compiler_context \<Rightarrow> canonical_rbac \<Rightarrow> 'e \<Rightarrow> 'e \<times> sync_plan res)
    \<Rightarrow> (sync_plan \<Rightarrow> 'e \<Rightarrow> 'e \<times> string list \<times> string list)
    \<Rightarrow> (compiler_context \<Rightarrow> canonical_rbac \<Rightarrow> 'e \<Rightarrow> 'e \<times> verify_result res) \<Rightarrow> 'e compiler" where
  "governance_compiler plan apply_it verify =
     \<lparr>co_plan = plan, co_apply = \<lambda>context p e. (case apply_it p e of (e', r) \<Rightarrow> (e', Inr r)),
      co_verify = verify, co_revert = \<lambda>context ids e. (e, Inl NotImplementedError)\<rparr>"

text \<open>\<open>COMPILER_REGISTRY\<close> and \<open>get_compiler\<close>; \<open>engine\<close> is the Trino backend.\<close>

definition get_compiler :: "(nat \<Rightarrow> string) \<Rightarrow> string option \<Rightarrow> 'e engine option \<Rightarrow> 'e governance_backend option
    \<Rightarrow> string \<Rightarrow> 'e compiler option" where
  "get_compiler ids warehouse engine backend backend_name =
     (if backend_name = TRINO then Some (trino_compiler engine)
      else if backend_name = POSTGRES
      then Some (governance_compiler (pg_plan ids backend) (pg_apply backend) (pg_verify backend))
      else if backend_name = MINIO
      then Some (governance_compiler (minio_plan ids warehouse backend) (minio_apply backend) (minio_verify warehouse backend))
      else if backend_name = NESSIE
      then Some (governance_compiler (nessie_plan ids backend) (nessie_apply backend) (nessie_verify backend))
      else None)"

end
