(* ===== verification/Nessie_Governance.thy ===== *)
theory Nessie_Governance
  imports Rbac_Compilers
begin

text \<open>
  \<open>phlo_nessie/governance.py\<close>: the rules file in which the managed authorization rules are rendered, as a
  governance backend. The state is the text of the file, \<open>None\<close> when it does not exist. The lemmas show
  that a rendered file is read back as the rules it was rendered from.
\<close>

section \<open>The rules file\<close>

text \<open>\<open>str.splitlines\<close>; a carriage return before a newline gives one more blank line, which the parser skips.\<close>

definition line_break :: "char \<Rightarrow> bool" where
  "line_break c \<longleftrightarrow> (10 \<le> ord c \<and> ord c \<le> 13) \<or> (28 \<le> ord c \<and> ord c \<le> 30) \<or> ord c = 133"

fun text_lines :: "string \<Rightarrow> string list" where
  "text_lines [] = [[]]"
| "text_lines (c # cs) =
     (if line_break c then [] # text_lines cs
      else (case text_lines cs of [] \<Rightarrow> [[c]] | l # ls \<Rightarrow> (c # l) # ls))"

definition parse_rule_line :: "string \<Rightarrow> (string, string) dict \<Rightarrow> (string, string) dict" where
  "parse_rule_line raw rules =
     (let line = py_strip raw; key = takeWhile (\<lambda>c. c \<noteq> CHR ''='') line; rest = drop (length key) line in
      if line = [] \<or> starts_with line ''#'' then rules
      else if rest = [] \<or> \<not> starts_with key RULE_KEY_PREFIX then rules
      else dict_set rules (drop (length RULE_KEY_PREFIX) key) (py_strip (tl rest)))"

definition parse_rules_file :: "string \<Rightarrow> (string, string) dict" where
  "parse_rules_file content = fold parse_rule_line (text_lines content) []"

definition FILE_HEADER :: "string list" where
  "FILE_HEADER =
     [''# Rendered by phlo governance; edits are overwritten on sync.'',
      ''# Requires NESSIE_AUTHZ_ENABLED=true and a Nessie restart to apply.'']"

definition render_rules :: "(string, string) dict \<Rightarrow> string" where
  "render_rules rules =
     str_join [CHR 0x0A]
       (FILE_HEADER @
        map (\<lambda>name. RULE_KEY_PREFIX @ name @ ''='' @ (case dict_get rules name of None \<Rightarrow> [] | Some x \<Rightarrow> x))
          (sort (map fst rules))) @ [CHR 0x0A]"

type_synonym rules_file = "string option"

definition read_rules :: "rules_file \<Rightarrow> (string, string) dict" where
  "read_rules file = (case file of None \<Rightarrow> [] | Some content \<Rightarrow> parse_rules_file content)"

section \<open>The backend\<close>

definition MANAGED_PREFIX :: string where
  "MANAGED_PREFIX = ''phlo_''"

definition list_rules :: "rules_file \<Rightarrow> (string, json) dict list" where
  "list_rules file =
     map (\<lambda>p. [(''policy_id'', JStr (fst p)), (''rule'', JStr (snd p))])
       (filter (\<lambda>p. starts_with (fst p) MANAGED_PREFIX) (sort_key fst (read_rules file)))"

definition apply_rule :: "access_policy \<Rightarrow> rules_file \<Rightarrow> rules_file \<times> unit res" where
  "apply_rule policy file =
     (case ap_policy_id policy of
        Some name \<Rightarrow>
          if name = [] \<or> \<not> starts_with name MANAGED_PREFIX
          then (file, Inl (ValueError (''Managed rule names must start with '' @ py_repr MANAGED_PREFIX)))
          else (Some (render_rules (dict_set (read_rules file) name (ap_table_pattern policy))), Inr ())
      | None \<Rightarrow> (file, Inl (ValueError (''Managed rule names must start with '' @ py_repr MANAGED_PREFIX))))"

definition revoke_rule :: "string \<Rightarrow> rules_file \<Rightarrow> rules_file \<times> unit res" where
  "revoke_rule policy_id file =
     (if dict_has (read_rules file) policy_id
      then (Some (render_rules (dict_pop (read_rules file) policy_id)), Inr ())
      else (file, Inr ()))"

definition nessie_backend :: "rules_file governance_backend" where
  "nessie_backend =
     \<lparr>gb_list = \<lambda>file. (file, Inr (list_rules file)), gb_apply = apply_rule, gb_revoke = revoke_rule\<rparr>"

text \<open>
  \<open>probe\<close>: the rules are in force when the server answers and was started after the file was written.
  Times are those of the file's last change and of the server's start.
\<close>

definition nessie_probe :: "bool \<Rightarrow> rules_file \<Rightarrow> int \<Rightarrow> int option \<Rightarrow> bool \<times> string" where
  "nessie_probe live file written started =
     (if \<not> live then (False, ''nessie_unreachable'')
      else (case file of
              None \<Rightarrow> (True, [])
            | Some _ \<Rightarrow>
                (case started of
                   None \<Rightarrow> (False, ''nessie_load_state_unobservable'')
                 | Some t \<Rightarrow> if written > t then (False, ''nessie_rules_pending_restart'') else (True, []))))"

section \<open>Reading back what was rendered\<close>

definition rule_ok :: "string \<Rightarrow> string \<Rightarrow> bool" where
  "rule_ok name expression \<longleftrightarrow>
     list_all (\<lambda>c. \<not> line_break c) (name @ expression) \<and> CHR ''='' \<notin> set name \<and> py_strip expression = expression"

definition rules_ok :: "(string, string) dict \<Rightarrow> bool" where
  "rules_ok rules \<longleftrightarrow> dict_ok rules \<and> (\<forall>p \<in> set rules. rule_ok (fst p) (snd p))"

lemma text_lines_neq_Nil [simp]: "text_lines s \<noteq> []"
  by (induction s) (auto split: list.splits)

lemma text_lines_append: "list_all (\<lambda>c. \<not> line_break c) a \<Longrightarrow> line_break c \<Longrightarrow> text_lines (a @ c # b) = a # text_lines b"
  by (induction a) auto

lemma text_lines_clean: "\<forall>l \<in> set (text_lines s). list_all (\<lambda>c. \<not> line_break c) l"
  by (induction s) (auto split: list.splits)

lemma newline_breaks [simp]: "line_break (CHR 0x0A)"
  by (simp add: line_break_def)

lemma text_lines_join:
  assumes "xs \<noteq> []" and "\<forall>x \<in> set xs. list_all (\<lambda>c. \<not> line_break c) x"
  shows "text_lines (str_join [CHR 0x0A] xs @ [CHR 0x0A]) = xs @ [[]]"
  using assms
proof (induction xs rule: list_nonempty_induct)
  case (single x)
  then show ?case using text_lines_append [of x "CHR 0x0A" "[]"] by simp
next
  case (cons x xs)
  then obtain y ys where "xs = y # ys" by (cases xs) auto
  then show ?case
    using cons text_lines_append [of x "CHR 0x0A" "str_join [CHR 0x0A] xs @ [CHR 0x0A]"] by simp
qed

lemma dropWhile_hd: "s \<noteq> [] \<Longrightarrow> \<not> P (hd s) \<Longrightarrow> dropWhile P s = s"
  by (cases s) auto

lemma strip_id: "s \<noteq> [] \<Longrightarrow> \<not> py_isspace (hd s) \<Longrightarrow> \<not> py_isspace (last s) \<Longrightarrow> py_strip s = s"
  using dropWhile_hd [of "rev s" py_isspace] by (simp add: py_strip_def dropWhile_hd hd_rev)

lemma strip_ends:
  assumes "py_strip s = s" and "s \<noteq> []"
  shows "\<not> py_isspace (last s)"
proof -
  let ?x = "dropWhile py_isspace (rev (dropWhile py_isspace s))"
  have "rev s = ?x" using assms(1) unfolding py_strip_def by (metis rev_rev_ident)
  then have "?x \<noteq> []" "hd ?x = last s" using assms(2) hd_rev by (metis rev_is_Nil_conv, metis)
  then show ?thesis using hd_dropWhile by metis
qed

lemma takeWhile_key: "c \<notin> set a \<Longrightarrow> takeWhile (\<lambda>x. x \<noteq> c) (a @ c # b) = a"
  by (induction a) auto

lemma parse_rendered_line:
  assumes "rule_ok name expression"
  shows "parse_rule_line (RULE_KEY_PREFIX @ name @ ''='' @ expression) rules = dict_set rules name expression"
proof -
  let ?l = "RULE_KEY_PREFIX @ name @ ''='' @ expression"
  have "\<not> py_isspace (last ?l)"
  proof (cases "expression = []")
    case False
    then show ?thesis using assms strip_ends [of expression] by (simp add: rule_ok_def)
  qed (simp add: py_isspace_def)
  then have strip: "py_strip ?l = ?l"
    by (intro strip_id) (auto simp: RULE_KEY_PREFIX_def py_isspace_def)
  have "\<not> starts_with ?l ''#''" by (simp add: RULE_KEY_PREFIX_def starts_with_def)
  then show ?thesis
    unfolding parse_rule_line_def strip using assms takeWhile_key [of "CHR ''=''" name expression]
    by (simp add: Let_def rule_ok_def RULE_KEY_PREFIX_def starts_with_def)
qed

lemma parse_skips:
  "parse_rule_line [] rules = rules"
  "parse_rule_line (CHR ''#'' # s) rules = rules"
proof -
  have "starts_with (py_strip (CHR ''#'' # s)) ''#''"
  proof -
    have "CHR ''#'' \<in> set (CHR ''#'' # s) \<and> \<not> py_isspace (CHR ''#'')" by (simp add: py_isspace_def)
    then have "rev (dropWhile py_isspace (rev s @ [CHR ''#''])) = CHR ''#'' # rev (dropWhile py_isspace (rev s))"
      by (induction "rev s" arbitrary: s) (auto simp: dropWhile_append)
    then show ?thesis by (simp add: py_strip_def py_isspace_def starts_with_def)
  qed
  then show "parse_rule_line (CHR ''#'' # s) rules = rules" by (auto simp: parse_rule_line_def Let_def)
qed (simp add: parse_rule_line_def py_strip_def)


lemma header_clean: "\<forall>x \<in> set FILE_HEADER. list_all (\<lambda>c. \<not> line_break c) x"
  "list_all (\<lambda>c. \<not> line_break c) RULE_KEY_PREFIX"
  by (simp_all add: FILE_HEADER_def RULE_KEY_PREFIX_def line_break_def)

lemma header_skipped: "fold parse_rule_line FILE_HEADER rules = rules"
  by (simp add: FILE_HEADER_def parse_skips)

lemma fold_rendered:
  assumes "\<forall>p \<in> set ps. rule_ok (fst p) (snd p)"
  shows "fold parse_rule_line (map (\<lambda>p. RULE_KEY_PREFIX @ fst p @ ''='' @ snd p) ps) rules
      = fold (\<lambda>p d. dict_set d (fst p) (snd p)) ps rules"
  using assms by (induction ps arbitrary: rules) (simp_all add: parse_rendered_line [simplified])

text \<open>The rules in the order of their names.\<close>

definition by_key :: "(string, string) dict \<Rightarrow> (string, string) dict" where
  "by_key rules = map (\<lambda>k. (k, the (dict_get rules k))) (sort (map fst rules))"

lemma by_key_get [simp]: "dict_get (by_key rules) = dict_get rules"
proof
  fix k
  have get: "dict_get (map (\<lambda>k. (k, the (dict_get rules k))) ks) k =
      (if k \<in> set ks then Some (the (dict_get rules k)) else None)" for ks
    by (induction ks) auto
  show "dict_get (by_key rules) k = dict_get rules k"
  proof (cases "k \<in> fst ` set rules")
    case True
    then obtain v where "dict_get rules k = Some v" by (auto simp: dict_has_get)
    then show ?thesis using True get by (simp add: by_key_def)
  next
    case False
    then have "dict_get rules k = None" by (simp add: map_of_eq_None_iff)
    then show ?thesis using False get by (simp add: by_key_def)
  qed
qed

lemma by_key_ok: "rules_ok rules \<Longrightarrow> rules_ok (by_key rules)"
  by (auto simp: rules_ok_def by_key_def dict_ok_def comp_def)

text \<open>A rendered file is read back.\<close>

lemma parse_rendered:
  assumes "rules_ok rules"
  shows "parse_rules_file (render_rules rules) = by_key rules"
proof -
  let ?line = "\<lambda>p. RULE_KEY_PREFIX @ fst p @ ''='' @ snd p"
  have ok: "\<forall>p \<in> set (by_key rules). rule_ok (fst p) (snd p)" and dist: "distinct (map fst (by_key rules))"
    using by_key_ok [OF assms] by (auto simp: rules_ok_def dict_ok_def)
  have lines: "map (\<lambda>name. RULE_KEY_PREFIX @ name @ ''='' @ (case dict_get rules name of None \<Rightarrow> [] | Some x \<Rightarrow> x))
      (sort (map fst rules)) = map ?line (by_key rules)"
    by (auto simp: by_key_def comp_def dest: map_of_eq_None_iff [THEN iffD1] split: option.splits)
  have clean: "\<forall>x \<in> set (FILE_HEADER @ map ?line (by_key rules)). list_all (\<lambda>c. \<not> line_break c) x"
  proof
    fix x assume "x \<in> set (FILE_HEADER @ map ?line (by_key rules))"
    then consider "x \<in> set FILE_HEADER" | p where "p \<in> set (by_key rules)" "x = ?line p" by auto
    then show "list_all (\<lambda>c. \<not> line_break c) x"
    proof cases
      case 1
      then show ?thesis using header_clean(1) by blast
    next
      case (2 p)
      then have "rule_ok (fst p) (snd p)" using ok by blast
      moreover have "\<not> line_break (CHR ''='')" by (simp add: line_break_def)
      ultimately show ?thesis using header_clean(2) 2(2) by (simp add: rule_ok_def)
    qed
  qed
  have ne: "FILE_HEADER @ map ?line (by_key rules) \<noteq> []" by (simp add: FILE_HEADER_def)
  have "text_lines (render_rules rules) = FILE_HEADER @ map ?line (by_key rules) @ [[]]"
    using text_lines_join [OF ne clean] unfolding render_rules_def lines by simp
  then have "parse_rules_file (render_rules rules) = fold (\<lambda>p d. dict_set d (fst p) (snd p)) (by_key rules) []"
    using fold_rendered [OF ok] by (simp add: parse_rules_file_def parse_skips header_skipped)
  then show ?thesis
    using fold_dict_set [of "[]" "by_key rules"] dist by (simp add: case_prod_beta')
qed

text \<open>What is read from any file is in order.\<close>

lemma strip_subset: "set (py_strip s) \<subseteq> set s"
  by (auto simp: py_strip_def dest!: set_dropWhileD)

lemma strip_twice: "py_strip (py_strip s) = py_strip s"
proof (cases "py_strip s = []")
  case False
  let ?u = "dropWhile py_isspace s"
  let ?w = "dropWhile py_isspace (rev ?u)"
  have t: "py_strip s = rev ?w" by (simp add: py_strip_def)
  have "?w \<noteq> []" using False t by simp
  then have "\<not> py_isspace (last (py_strip s))" unfolding t using hd_dropWhile [of py_isspace "rev ?u"] by (simp add: last_rev)
  moreover have "\<not> py_isspace (hd (py_strip s))"
  proof -
    obtain a where "rev ?u = a @ ?w" by (metis takeWhile_dropWhile_id)
    then have u: "?u = rev ?w @ rev a" by (metis rev_append rev_rev_ident)
    have "?u \<noteq> []" using \<open>?w \<noteq> []\<close> by (metis dropWhile.simps(1) rev.simps(1))
    moreover have "hd ?u = hd (rev ?w @ rev a)" by (rule arg_cong [OF u])
    moreover have "hd (rev ?w @ rev a) = hd (rev ?w)"
      by (rule hd_append2) (use \<open>?w \<noteq> []\<close> in simp)
    ultimately show ?thesis unfolding t using hd_dropWhile [of py_isspace s] by metis
  qed
  ultimately show ?thesis by (rule strip_id [OF False, rotated])
next
  case True
  show ?thesis unfolding True by (simp add: py_strip_def)
qed

lemma parse_rule_line_ok:
  assumes "list_all (\<lambda>c. \<not> line_break c) raw" and "rules_ok rules"
  shows "rules_ok (parse_rule_line raw rules)"
proof -
  let ?line = "py_strip raw"
  let ?key = "takeWhile (\<lambda>c. c \<noteq> CHR ''='') ?line"
  let ?name = "drop (length RULE_KEY_PREFIX) ?key"
  let ?val = "py_strip (tl (drop (length ?key) ?line))"
  have "set ?name \<subseteq> set ?line" by (auto dest!: in_set_dropD set_takeWhileD)
  then have name: "set ?name \<subseteq> set raw" using strip_subset by fast
  have "set (tl (drop (length ?key) ?line)) \<subseteq> set ?line"
    by (cases "drop (length ?key) ?line"; simp; metis in_set_dropD list.set_intros(2) subsetI)
  then have val: "set ?val \<subseteq> set raw" using strip_subset by fast
  have "CHR ''='' \<notin> set ?name" by (auto dest!: in_set_dropD set_takeWhileD)
  then have "rule_ok ?name ?val"
    using assms(1) name val by (auto simp: rule_ok_def list_all_iff strip_twice)
  then have "rules_ok (dict_set rules ?name ?val)"
    using assms(2) dict_set_subset [of ?name ?val rules] by (fastforce simp: rules_ok_def)
  then show ?thesis using assms(2) by (simp add: parse_rule_line_def Let_def)
qed

lemma parse_rules_ok: "rules_ok (parse_rules_file content)"
proof -
  have "rules_ok (fold parse_rule_line ls rules)"
    if "\<forall>l \<in> set ls. list_all (\<lambda>c. \<not> line_break c) l" "rules_ok rules" for ls rules
    using that by (induction ls arbitrary: rules) (auto intro: parse_rule_line_ok)
  then show ?thesis
    using text_lines_clean by (simp add: parse_rules_file_def rules_ok_def [of "[]"])
qed

end
