(* ===== verification/Compiler_Convergence.thy ===== *)
theory Compiler_Convergence
  imports Nessie_Governance
begin

text \<open>
  What a sync of the compilers of \<open>Rbac_Compilers\<close> reaches. The contract of a backend that stores named
  rules is a locale, which the rules file of Nessie provides; the PostgreSQL rows show that planning
  there takes back what it granted.
\<close>

section \<open>Plans by content\<close>

definition expression_of :: "backend_artifact \<Rightarrow> string" where
  "expression_of a = metadata_text a ''expression'' []"

definition rule_artifact :: "backend_artifact \<Rightarrow> bool" where
  "rule_artifact a \<longleftrightarrow> ba_statement a = RULE_KEY_PREFIX @ ba_name a @ ''='' @ expression_of a"

text \<open>What a change does to the rules.\<close>

definition change_rule :: "policy_change \<Rightarrow> (string \<Rightarrow> string option) \<Rightarrow> string \<Rightarrow> string option" where
  "change_rule c rules =
     (if ch_change_type c = ''create'' then rules(ba_name (ch_artifact c) \<mapsto> expression_of (ch_artifact c))
      else if ch_change_type c = ''delete'' then rules(ba_name (ch_artifact c) := None) else rules)"

lemma change_rule_simps [simp]:
  "change_rule (plan_create b i a) rules = rules(ba_name a \<mapsto> expression_of a)"
  "change_rule (plan_delete b a) rules = rules(ba_name a := None)"
  by (simp_all add: change_rule_def plan_create_def plan_delete_def)

lemma change_artifact [simp]:
  "ch_artifact (plan_create b i a) = a" "ch_artifact (plan_delete b a) = a"
  by (simp_all add: plan_create_def plan_delete_def)

lemma same_statement_total: "same_statement a b = Inr x \<longleftrightarrow> x = (ba_statement a = ba_statement b)"
  by (auto simp: same_statement_def)

text \<open>The changes of the first loop: what they contain, and what they make of the rules.\<close>

definition rule_kept :: "(string, backend_artifact) dict \<Rightarrow> string \<times> backend_artifact \<Rightarrow> bool" where
  "rule_kept current p \<longleftrightarrow>
     (case dict_get current (fst p) of None \<Rightarrow> False | Some found \<Rightarrow> ba_statement (snd p) = ba_statement found)"

lemma content_changes_Cons:
  assumes "content_changes ids b same_statement current k (p # ds) = Inr cs"
  obtains k' cs' where "content_changes ids b same_statement current k' ds = Inr cs'"
    "cs = (if rule_kept current p then cs'
           else (case dict_get current (fst p) of None \<Rightarrow> [] | Some found \<Rightarrow> [plan_delete b found]) @
                [plan_create b (generate_revert_id b (ids k)) (snd p)] @ cs')"
  using assms by (cases p) (auto simp: Let_def rule_kept_def bind_res_Inr_iff same_statement_total split: option.splits if_splits)

lemma content_changes_total: "\<exists>cs. content_changes ids b same_statement current k ds = Inr cs"
proof (induction ds arbitrary: k)
  case (Cons p ds)
  show ?case
    using Cons.IH [of k] Cons.IH [of "Suc k"]
    by (cases p) (auto simp: Let_def same_statement_def bind_res_def split: option.splits)
qed simp

lemma content_changes_effect:
  assumes "content_changes ids b same_statement current k ds = Inr cs"
    and "distinct (map fst ds)" and "\<And>p. p \<in> set ds \<Longrightarrow> ba_name (snd p) = fst p"
    and "\<And>n a. dict_get current n = Some a \<Longrightarrow> ba_name a = n"
  shows "fold change_rule cs R =
     (\<lambda>n. case dict_get ds n of None \<Rightarrow> R n
          | Some a \<Rightarrow> if rule_kept current (n, a) then R n else Some (expression_of a))"
  using assms(1-3)
proof (induction ds arbitrary: k cs R)
  case (Cons p ds)
  obtain k' cs' where c: "content_changes ids b same_statement current k' ds = Inr cs'"
    "cs = (if rule_kept current p then cs'
           else (case dict_get current (fst p) of None \<Rightarrow> [] | Some found \<Rightarrow> [plan_delete b found]) @
                [plan_create b (generate_revert_id b (ids k)) (snd p)] @ cs')"
    using Cons.prems(1) by (rule content_changes_Cons)
  have IH: "fold change_rule cs' R' = (\<lambda>n. case dict_get ds n of None \<Rightarrow> R' n
          | Some a \<Rightarrow> if rule_kept current (n, a) then R' n else Some (expression_of a))" for R'
    by (rule Cons.IH [OF c(1)]) (use Cons.prems in auto)
  have new: "dict_get ds (fst p) = None" using Cons.prems(2) by (simp add: map_of_eq_None_iff)
  have name: "ba_name (snd p) = fst p" using Cons.prems(3) by simp
  have "fold change_rule cs R = fold change_rule cs' (if rule_kept current p then R else R(fst p \<mapsto> expression_of (snd p)))"
    using c(2) name assms(4) [of "fst p"] by (auto split: option.splits)
  then show ?case
    unfolding IH using new by (cases p) (auto simp: fun_eq_iff split: option.splits)
qed simp

lemma content_changes_in:
  assumes "content_changes ids b same_statement current k ds = Inr cs" and "c \<in> set cs"
    and "ch_change_type c = ''create''"
  shows "ch_artifact c \<in> snd ` set ds"
  using assms
proof (induction ds arbitrary: k cs)
  case (Cons p ds)
  obtain k' cs' where "content_changes ids b same_statement current k' ds = Inr cs'"
    "cs = (if rule_kept current p then cs'
           else (case dict_get current (fst p) of None \<Rightarrow> [] | Some found \<Rightarrow> [plan_delete b found]) @
                [plan_create b (generate_revert_id b (ids k)) (snd p)] @ cs')"
    using Cons.prems(1) by (rule content_changes_Cons)
  then show ?case
    using Cons.IH [of k' cs'] Cons.prems(2,3) by (auto simp: plan_delete_def split: if_splits option.splits)
qed simp

lemma content_changes_deletes:
  assumes "content_changes ids b same_statement current k ds = Inr cs" and "c \<in> set cs"
    and "ch_change_type c = ''delete''"
  shows "ch_artifact c \<in> snd ` set current"
  using assms
proof (induction ds arbitrary: k cs)
  case (Cons p ds)
  obtain k' cs' where "content_changes ids b same_statement current k' ds = Inr cs'"
    "cs = (if rule_kept current p then cs'
           else (case dict_get current (fst p) of None \<Rightarrow> [] | Some found \<Rightarrow> [plan_delete b found]) @
                [plan_create b (generate_revert_id b (ids k)) (snd p)] @ cs')"
    using Cons.prems(1) by (rule content_changes_Cons)
  then show ?case
    using Cons.IH [of k' cs'] Cons.prems(2,3)
    by (auto simp: plan_create_def intro: rev_image_eqI dest: map_of_SomeD split: if_splits option.splits)
qed simp

lemma content_changes_Nil:
  assumes "content_changes ids b same_statement current k ds = Inr cs" and "\<forall>p \<in> set ds. rule_kept current p"
  shows "cs = []"
  using assms
proof (induction ds arbitrary: k cs)
  case (Cons p ds)
  then show ?case by (elim content_changes_Cons) auto
qed simp

section \<open>The contract of a store of rules\<close>

definition rule_row :: "string \<times> string \<Rightarrow> (string, json) dict" where
  "rule_row p = [(''policy_id'', JStr (fst p)), (''rule'', JStr (snd p))]"

locale rule_store =
  fixes backend :: "'e governance_backend"
    and rules :: "'e \<Rightarrow> (string, string) dict"
    and writable :: "string \<Rightarrow> string \<Rightarrow> bool"
  assumes listed: "gb_list backend e = (e, Inr (map rule_row (rules e)))"
    and distinct_names: "dict_ok (rules e)"
    and managed_names: "dict_get (rules e) n = Some x \<Longrightarrow> starts_with n ''phlo_''"
    and stored: "writable n x \<Longrightarrow> gb_apply backend (allow_policy n r x ''authz_rule'') e = (e', result) \<Longrightarrow>
           result = Inr () \<and> dict_get (rules e') = (dict_get (rules e))(n \<mapsto> x)"
    and removed: "gb_revoke backend n e = (e', result) \<Longrightarrow>
           result = Inr () \<and> dict_get (rules e') = (dict_get (rules e))(n := None)"
begin

lemma change_applied:
  assumes "nessie_change (Some backend) c e = (e', result)"
    and "ch_change_type c = ''create'' \<Longrightarrow> writable (ba_name (ch_artifact c)) (expression_of (ch_artifact c))"
  shows "result = Inr () \<and> dict_get (rules e') = change_rule c (dict_get (rules e))"
  using assms stored removed
  by (auto simp: nessie_change_def artifact_change_def change_rule_def expression_of_def split: if_splits)

lemma changes_applied:
  assumes "apply_plan (nessie_change (Some backend)) cs e = (e', ok, errs)"
    and "\<And>c. c \<in> set cs \<Longrightarrow> ch_change_type c = ''create'' \<Longrightarrow> writable (ba_name (ch_artifact c)) (expression_of (ch_artifact c))"
  shows "errs = [] \<and> dict_get (rules e') = fold change_rule cs (dict_get (rules e))"
  using assms
proof (induction cs arbitrary: e e' ok errs)
  case (Cons c cs)
  obtain e1 r1 where c: "nessie_change (Some backend) c e = (e1, r1)" by (cases "nessie_change (Some backend) c e")
  obtain e2 ok2 errs2 where cs: "apply_plan (nessie_change (Some backend)) cs e1 = (e2, ok2, errs2)"
    by (cases "apply_plan (nessie_change (Some backend)) cs e1")
  have "r1 = Inr () \<and> dict_get (rules e1) = change_rule c (dict_get (rules e))"
    using change_applied [OF c] Cons.prems(2) by simp
  moreover have "errs2 = [] \<and> dict_get (rules e2) = fold change_rule cs (dict_get (rules e1))"
    using Cons.IH [OF cs] Cons.prems(2) by simp
  ultimately show ?case using Cons.prems(1) c cs by auto
qed simp

end

text \<open>The artifacts of the listed rules.\<close>

definition seen_rule :: "string \<times> string \<Rightarrow> backend_artifact" where
  "seen_rule p =
     \<lparr>ba_backend = NESSIE, ba_artifact_type = ''authz_rule'', ba_name = fst p,
      ba_statement = RULE_KEY_PREFIX @ fst p @ ''='' @ snd p, ba_managed = True,
      ba_metadata = [(''rule_name'', JStr (fst p)), (''expression'', JStr (snd p))]\<rparr>"

lemma seen_rule_simps [simp]:
  "ba_name (seen_rule p) = fst p" "ba_statement (seen_rule p) = RULE_KEY_PREFIX @ fst p @ ''='' @ snd p"
  "expression_of (seen_rule p) = snd p"
  by (simp_all add: seen_rule_def expression_of_def metadata_text_def row_text_def)

lemma observed_rules:
  assumes "cc_managed_prefix context = ''phlo_''" and "\<forall>p \<in> set rs. starts_with (fst p) ''phlo_''"
  shows "nessie_observed context (map rule_row rs) = map seen_rule rs"
  using assms(2)
proof (induction rs)
  case (Cons p rs)
  have "fst p \<noteq> []" using Cons.prems by (auto simp: starts_with_def)
  then show ?case
    using Cons assms(1)
    by (simp add: nessie_observed_def map_filter_simps rule_row_def row_text_def matches_managed_def seen_rule_def Let_def)
qed (simp add: nessie_observed_def map_filter_simps)

lemma by_name_seen:
  assumes "dict_ok rs"
  shows "by_name (map seen_rule rs) = map (\<lambda>p. (fst p, seen_rule p)) rs"
  using assms
proof (induction rs rule: rev_induct)
  case (snoc p rs)
  have "dict_set e (fst p) v = e @ [(fst p, v)]" if "fst p \<notin> fst ` set e" for e :: "(string, backend_artifact) dict" and v
    using that by (induction e) auto
  then show ?case using snoc by (simp add: by_name_snoc dict_ok_def image_image)
qed (simp add: by_name_def)

lemma seen_get: "dict_get (map (\<lambda>p. (fst p, seen_rule p)) rs) n = map_option (\<lambda>x. seen_rule (n, x)) (dict_get rs n)"
  by (induction rs) auto

lemma mismatched_Nil: "\<forall>p \<in> set ds. rule_kept current p \<Longrightarrow> mismatched same_statement current ds = Inr []"
  by (induction ds) (auto simp: rule_kept_def same_statement_def split: option.splits)

lemma fold_deletes:
  "fold change_rule (map (plan_delete b) as) R n = (if n \<in> ba_name ` set as then None else R n)"
  by (induction as arbitrary: R) auto

lemma names_not_in:
  "ba_name ` set (not_in (by_name as) (by_name bs)) = ba_name ` set as - ba_name ` set bs"
  unfolding set_not_in using by_name_facts [of as] by (auto elim!: by_name_some [of _ as])

text \<open>A compiled rule is kept exactly when the store holds its expression.\<close>

lemma rule_kept_iff:
  assumes "dict_get current = (\<lambda>n. map_option (\<lambda>x. seen_rule (n, x)) (R n))" and "rule_artifact a" and "ba_name a = n"
  shows "rule_kept current (n, a) \<longleftrightarrow> R n = Some (expression_of a)"
  using assms by (auto simp: rule_kept_def rule_artifact_def split: option.splits)

section \<open>A sync reaches the model\<close>

context rule_store begin

lemma listing_state:
  assumes "cc_managed_prefix context = ''phlo_''"
  shows "\<exists>rows. gb_list backend e = (e, Inr rows) \<and> nessie_observed context rows = map seen_rule (rules e) \<and>
     dict_get (by_name (map seen_rule (rules e))) = (\<lambda>n. map_option (\<lambda>x. seen_rule (n, x)) (dict_get (rules e) n))"
proof -
  have "\<forall>p \<in> set (rules e). starts_with (fst p) ''phlo_''"
    using managed_names dict_ok_get [OF distinct_names] by (metis prod.collapse)
  then show ?thesis
    using observed_rules [OF assms] listed by (simp add: by_name_seen [OF distinct_names] seen_get)
qed

lemma sync_reaches_rules:
  assumes compiled: "nessie_compile m = Inr desired"
    and rule: "\<And>a. a \<in> set desired \<Longrightarrow> rule_artifact a \<and> writable (ba_name a) (expression_of a)"
    and prefix: "cc_managed_prefix context = ''phlo_''"
    and planned: "nessie_plan ids (Some backend) context m e = (e1, Inr plan)"
    and applied: "nessie_apply (Some backend) plan e1 = (e2, ok, errs)"
  shows "e1 = e \<and> errs = [] \<and>
    dict_get (rules e2) = (\<lambda>n. map_option expression_of (dict_get (by_name desired) n)) \<and>
    (\<exists>r. nessie_verify (Some backend) context m e2 = (e2, Inr r) \<and> vr_in_sync r) \<and>
    (\<exists>again. nessie_plan ids (Some backend) context m e2 = (e2, Inr again) \<and> sy_changes again = [])"
proof -
  let ?D = "by_name desired" and ?as = "map seen_rule (rules e)"
  have D: "ba_name a = n \<and> rule_artifact a" if "dict_get ?D n = Some a" for n a
    using by_name_facts [of desired] rule that by blast
  have Dset: "(n, a) \<in> set ?D \<longleftrightarrow> dict_get ?D n = Some a" for n a
    using by_name_facts [of desired] by (simp add: dict_ok_def)
  have Ddist: "distinct (map fst ?D)" using by_name_facts [of desired] by (simp add: dict_ok_def)
  obtain rows where rows: "gb_list backend e = (e, Inr rows)" "nessie_observed context rows = ?as"
    and C: "dict_get (by_name ?as) = (\<lambda>n. map_option (\<lambda>x. seen_rule (n, x)) (dict_get (rules e) n))"
    using listing_state [OF prefix] by blast
  obtain cs where cs: "content_changes ids NESSIE same_statement (by_name ?as) 0 ?D = Inr cs"
    and plan: "sy_changes plan = cs @ map (plan_delete NESSIE) (not_in (by_name ?as) ?D)" and e1: "e1 = e"
  proof -
    have "nessie_plan ids (Some backend) context m e = (e, plan_content_aware ids NESSIE same_statement m desired ?as)"
      using compiled rows by (simp add: nessie_plan_def content_plan_def list_rows_def)
    then have "plan_content_aware ids NESSIE same_statement m desired ?as = Inr plan" "e1 = e"
      using planned by simp_all
    then show ?thesis
      using that unfolding plan_content_aware_def plan_of_def bind_res_Inr_iff by fastforce
  qed
  have "writable (ba_name (ch_artifact c)) (expression_of (ch_artifact c))"
    if "c \<in> set (sy_changes plan)" "ch_change_type c = ''create''" for c
  proof -
    have "c \<in> set cs" using that unfolding plan by (auto simp: plan_delete_def)
    then have "ch_artifact c \<in> snd ` set ?D" using content_changes_in [OF cs] that(2) by blast
    then obtain n where "dict_get ?D n = Some (ch_artifact c)" using Dset by auto
    then have "ch_artifact c \<in> set desired" using by_name_facts [of desired] by blast
    then show ?thesis using rule by blast
  qed
  then have made: "errs = [] \<and> dict_get (rules e2) = fold change_rule (sy_changes plan) (dict_get (rules e))"
    using changes_applied [OF applied [unfolded nessie_apply_def]] e1 by blast
  have first: "fold change_rule cs (dict_get (rules e)) = (\<lambda>n. case dict_get ?D n of None \<Rightarrow> dict_get (rules e) n
      | Some a \<Rightarrow> Some (expression_of a))"
  proof -
    have "fold change_rule cs (dict_get (rules e)) = (\<lambda>n. case dict_get ?D n of None \<Rightarrow> dict_get (rules e) n
        | Some a \<Rightarrow> if rule_kept (by_name ?as) (n, a) then dict_get (rules e) n else Some (expression_of a))"
      by (rule content_changes_effect [OF cs Ddist]) (use D Dset C in auto)
    then show ?thesis using rule_kept_iff [OF C] D by (auto simp: fun_eq_iff split: option.splits)
  qed
  have names: "ba_name ` set (map seen_rule (rules e)) = {n. dict_get (rules e) n \<noteq> None}" for e
  proof -
    have "ba_name ` set (map seen_rule (rules e)) = fst ` set (rules e)" by (simp add: image_image)
    also have "\<dots> = dom (dict_get (rules e))" by (simp only: dom_map_of_conv_image_fst)
    finally show ?thesis by (simp only: dom_def)
  qed
  have Dnames: "n \<in> ba_name ` set desired \<longleftrightarrow> dict_get ?D n \<noteq> None" for n
    using by_name_facts [of desired] dict_has_get [of n ?D] by simp
  have final: "dict_get (rules e2) n = map_option expression_of (dict_get ?D n)" for n
    using made first Dnames [of n] names
    by (auto simp: plan fold_deletes names_not_in split: option.splits)
  obtain rows2 where rows2: "gb_list backend e2 = (e2, Inr rows2)" "nessie_observed context rows2 = map seen_rule (rules e2)"
    and C2: "dict_get (by_name (map seen_rule (rules e2))) = (\<lambda>n. map_option (\<lambda>x. seen_rule (n, x)) (dict_get (rules e2) n))"
    using listing_state [OF prefix] by blast
  have rule_kept: "\<forall>p \<in> set ?D. rule_kept (by_name (map seen_rule (rules e2))) p"
  proof
    fix p assume "p \<in> set ?D"
    obtain n a where p: "p = (n, a)" by (cases p)
    moreover have "dict_get ?D n = Some a" using \<open>p \<in> set ?D\<close> Dset unfolding p by blast
    ultimately show "rule_kept (by_name (map seen_rule (rules e2))) p"
      using rule_kept_iff [OF C2] D final by simp
  qed
  have "ba_name ` set (map seen_rule (rules e2)) = ba_name ` set desired"
    unfolding names set_eq_iff mem_Collect_eq Dnames final by simp
  then have none: "not_in ?D (by_name (map seen_rule (rules e2))) = []" "not_in (by_name (map seen_rule (rules e2))) ?D = []"
    by (auto simp: not_in_Nil)
  have "\<exists>r. nessie_verify (Some backend) context m e2 = (e2, Inr r) \<and> vr_in_sync r"
    using compiled rows2 none mismatched_Nil [OF rule_kept]
    by (simp add: nessie_verify_def content_verify_def list_rows_def verify_content_aware_def)
  moreover obtain again where again: "content_changes ids NESSIE same_statement (by_name (map seen_rule (rules e2))) 0 ?D = Inr again"
    using content_changes_total by blast
  then have "again = []" using rule_kept by (rule content_changes_Nil)
  then have "\<exists>p. nessie_plan ids (Some backend) context m e2 = (e2, Inr p) \<and> sy_changes p = []"
    using compiled rows2 none again
    by (simp add: nessie_plan_def content_plan_def list_rows_def plan_content_aware_def plan_of_def)
  ultimately show ?thesis using made final e1 by auto
qed

lemma plan_exists:
  assumes "nessie_compile m = Inr desired"
  shows "\<exists>plan. nessie_plan ids (Some backend) context m e = (e, Inr plan)"
  using assms listed content_changes_total
  by (fastforce simp: nessie_plan_def content_plan_def list_rows_def plan_content_aware_def bind_res_Inr_iff)

text \<open>Only compiled rules are written, and only rules with the managed prefix are ever removed.\<close>

lemma creates_compiled:
  assumes "nessie_compile m = Inr desired"
    and "nessie_plan ids (Some backend) context m e = (e1, Inr plan)"
    and "c \<in> set (sy_changes plan)" and "ch_change_type c = ''create''"
  shows "ch_artifact c \<in> set desired"
proof -
  obtain current cs where cs: "content_changes ids NESSIE same_statement (by_name current) 0 (by_name desired) = Inr cs"
    and plan: "sy_changes plan = cs @ map (plan_delete NESSIE) (not_in (by_name current) (by_name desired))"
    using assms(1,2)
    by (auto simp: nessie_plan_def content_plan_def list_rows_def plan_content_aware_def plan_of_def bind_res_Inr_iff
        split: sum.splits prod.splits)
  have "c \<in> set cs" using assms(3,4) unfolding plan by (auto simp: plan_delete_def)
  then have "ch_artifact c \<in> snd ` set (by_name desired)" using content_changes_in [OF cs] assms(4) by blast
  then obtain n where "dict_get (by_name desired) n = Some (ch_artifact c)"
    using by_name_facts [of desired] by (auto simp: dict_ok_def)
  then show ?thesis using by_name_facts [of desired] by blast
qed

lemma deletes_managed:
  assumes "nessie_plan ids (Some backend) context m e = (e1, Inr plan)"
    and "cc_managed_prefix context = ''phlo_''" and "c \<in> set (sy_changes plan)" and "ch_change_type c = ''delete''"
  shows "starts_with (ba_name (ch_artifact c)) ''phlo_''"
proof -
  let ?as = "map seen_rule (rules e)"
  obtain rows where "gb_list backend e = (e, Inr rows)" "nessie_observed context rows = ?as"
    and C: "dict_get (by_name ?as) = (\<lambda>n. map_option (\<lambda>x. seen_rule (n, x)) (dict_get (rules e) n))"
    using listing_state [OF assms(2)] by blast
  then obtain desired cs where cs: "content_changes ids NESSIE same_statement (by_name ?as) 0 (by_name desired) = Inr cs"
    and plan: "sy_changes plan = cs @ map (plan_delete NESSIE) (not_in (by_name ?as) (by_name desired))"
    using assms(1)
    by (auto simp: nessie_plan_def content_plan_def list_rows_def plan_content_aware_def plan_of_def bind_res_Inr_iff
        split: sum.splits)
  have "ch_artifact c \<in> snd ` set (by_name ?as)"
  proof (cases "c \<in> set cs")
    case True
    then show ?thesis using content_changes_deletes [OF cs] assms(4) by blast
  next
    case False
    then have "ch_artifact c \<in> set (not_in (by_name ?as) (by_name desired))" using assms(3) plan by auto
    then show ?thesis by (auto simp: not_in_def)
  qed
  then obtain n where "dict_get (by_name ?as) n = Some (ch_artifact c)"
    using by_name_facts [of ?as] by (auto simp: dict_ok_def)
  then obtain x where "dict_get (rules e) n = Some x" "ch_artifact c = seen_rule (n, x)"
    unfolding C by auto
  then show ?thesis using managed_names by simp
qed

end

text \<open>A store that also leaves the rules it does not manage as they are.\<close>

locale careful_rule_store = rule_store where backend = backend for backend :: "'e governance_backend" +
  fixes others :: "'e \<Rightarrow> string \<Rightarrow> string option"
  assumes stored_others: "writable n x \<Longrightarrow> gb_apply backend (allow_policy n r x ''authz_rule'') e = (e', result) \<Longrightarrow>
           others e' = others e"
    and removed_others: "starts_with n ''phlo_'' \<Longrightarrow> gb_revoke backend n e = (e', result) \<Longrightarrow> others e' = others e"
begin

lemma others_kept:
  assumes "apply_plan (nessie_change (Some backend)) cs e = (e', ok, errs)"
    and "\<And>c. c \<in> set cs \<Longrightarrow> ch_change_type c = ''delete'' \<Longrightarrow> starts_with (ba_name (ch_artifact c)) ''phlo_''"
    and "\<And>c. c \<in> set cs \<Longrightarrow> ch_change_type c = ''create'' \<Longrightarrow> writable (ba_name (ch_artifact c)) (expression_of (ch_artifact c))"
  shows "others e' = others e"
  using assms
proof (induction cs arbitrary: e e' ok errs)
  case (Cons c cs)
  obtain e1 r1 where c: "nessie_change (Some backend) c e = (e1, r1)" by (cases "nessie_change (Some backend) c e")
  obtain e2 ok2 errs2 where cs: "apply_plan (nessie_change (Some backend)) cs e1 = (e2, ok2, errs2)"
    by (cases "apply_plan (nessie_change (Some backend)) cs e1")
  have "others e1 = others e"
    using c Cons.prems(2,3) [of c] stored_others removed_others
    by (auto simp: nessie_change_def artifact_change_def expression_of_def split: if_splits)
  moreover have "others e2 = others e1" using Cons.IH [OF cs] Cons.prems(2,3) by simp
  moreover have "e' = e2" using Cons.prems(1) c cs by (auto split: sum.splits)
  ultimately show ?case by simp
qed simp

end

section \<open>The rules file is such a store\<close>

definition managed_rules :: "rules_file \<Rightarrow> (string, string) dict" where
  "managed_rules file = filter (\<lambda>p. starts_with (fst p) MANAGED_PREFIX) (sort_key fst (read_rules file))"

definition other_rules :: "rules_file \<Rightarrow> string \<Rightarrow> string option" where
  "other_rules file n = (if starts_with n MANAGED_PREFIX then None else dict_get (read_rules file) n)"

lemma read_rules_ok: "rules_ok (read_rules file)"
  using parse_rules_ok by (cases "file") (simp_all add: read_rules_def rules_ok_def [where rules = "[]"])

lemma dict_ok_sort: "dict_ok d \<Longrightarrow> dict_ok (sort_key fst d)"
proof -
  assume "dict_ok d"
  moreover have "mset (map fst (sort_key fst d)) = mset (map fst d)" by simp
  ultimately show ?thesis unfolding dict_ok_def by (metis mset_eq_imp_distinct_iff)
qed

lemma dict_get_sort: "dict_ok d \<Longrightarrow> dict_get (sort_key fst d) = dict_get d"
  using dict_ok_sort [of d] by (intro map_of_inject_set [THEN iffD2]) (auto simp: dict_ok_def)

lemma dict_get_filter: "dict_get (filter (\<lambda>p. P (fst p)) d) n = (if P n then dict_get d n else None)"
  by (induction d) auto

lemma managed_rules_facts:
  "dict_ok (managed_rules file)"
  "dict_get (managed_rules file) n = (if starts_with n ''phlo_'' then dict_get (read_rules file) n else None)"
proof -
  have "dict_ok (read_rules file)" using read_rules_ok [of "file"] by (simp add: rules_ok_def)
  then show "dict_get (managed_rules file) n = (if starts_with n ''phlo_'' then dict_get (read_rules file) n else None)"
    and "dict_ok (managed_rules file)"
    using dict_ok_sort [of "read_rules file"] dict_get_sort [of "read_rules file"]
    by (simp_all add: managed_rules_def MANAGED_PREFIX_def dict_get_filter [of "\<lambda>n. starts_with n ''phlo_''"] dict_ok_def distinct_map_filter)
qed

lemma read_rendered: "rules_ok rules \<Longrightarrow> dict_get (read_rules (Some (render_rules rules))) = dict_get rules"
  by (simp add: read_rules_def parse_rendered)

lemma rules_ok_set: "rules_ok rules \<Longrightarrow> rule_ok n x \<Longrightarrow> rules_ok (dict_set rules n x)"
  using dict_set_subset [of n x rules] by (fastforce simp: rules_ok_def)

lemma rules_ok_pop: "rules_ok rules \<Longrightarrow> rules_ok (dict_pop rules n)"
  by (auto simp: rules_ok_def dict_ok_def AList.delete_eq distinct_map_filter)


lemma apply_rule_effect:
  assumes "starts_with n ''phlo_''" and "rule_ok n x"
  shows "\<exists>f. apply_rule (allow_policy n r x action) file = (Some f, Inr ()) \<and>
     dict_get (read_rules (Some f)) = (dict_get (read_rules file))(n \<mapsto> x)"
proof -
  have "n \<noteq> []" using assms(1) by (auto simp: starts_with_def)
  moreover have "rules_ok (dict_set (read_rules file) n x)" using read_rules_ok assms(2) by (rule rules_ok_set)
  ultimately show ?thesis
    using assms(1) by (auto simp: apply_rule_def allow_policy_def MANAGED_PREFIX_def read_rendered fun_eq_iff)
qed

lemma revoke_rule_effect:
  "snd (revoke_rule n file) = Inr () \<and>
   dict_get (read_rules (fst (revoke_rule n file))) = (dict_get (read_rules file))(n := None)"
proof (cases "dict_has (read_rules file) n")
  case True
  then show ?thesis
    using rules_ok_pop [OF read_rules_ok [of "file"], of n]
    by (auto simp: revoke_rule_def read_rendered fun_eq_iff)
next
  case False
  then have "dict_get (read_rules file) n = None" by (simp add: map_of_eq_None_iff)
  then show ?thesis using False by (auto simp: revoke_rule_def fun_eq_iff)
qed

definition rule_writable :: "string \<Rightarrow> string \<Rightarrow> bool" where
  "rule_writable n x \<longleftrightarrow> starts_with n ''phlo_'' \<and> rule_ok n x"


text \<open>What the compiler renders can be stored.\<close>

abbreviation one_line :: "string \<Rightarrow> bool" where
  "one_line s \<equiv> list_all (\<lambda>c. \<not> line_break c) s"

lemma slug_chars: "list_all slug_char (slug s)"
proof -
  have "list_all slug_char (slug_sub b s)" for b by (induction s arbitrary: b) (auto simp: slug_char_def)
  then have "\<forall>c \<in> set (slug_sub False s). slug_char c" by (simp add: list_all_iff)
  then show ?thesis
    by (auto simp: slug_def Let_def list_all_iff slug_char_def ascii_alnum_def ascii_lower_def dest!: set_dropWhileD)
qed

lemma slug_char_plain: "slug_char c \<Longrightarrow> \<not> line_break c \<and> c \<noteq> CHR ''=''"
  by (auto simp: slug_char_def line_break_def ascii_alnum_def ascii_upper_def ascii_lower_def ascii_digit_def)

lemma ident_char_plain: "sql_ident_char c \<Longrightarrow> \<not> line_break c \<and> c \<noteq> CHR ''=''"
  by (auto simp: sql_ident_char_def sql_letter_def line_break_def ascii_upper_def ascii_lower_def ascii_digit_def)

lemma pattern_char_plain: "sql_pattern_char c \<Longrightarrow> \<not> line_break c"
  using ident_char_plain by (auto simp: sql_pattern_char_def line_break_def)

lemma ops_one_line: "op_name \<in> set (ops_of ACTION_OPS action) \<Longrightarrow> one_line op_name"
  by (auto simp: ops_of_def ACTION_OPS_def line_break_def split: if_splits)

lemma one_line_join: "one_line sep \<Longrightarrow> \<forall>x \<in> set xs. one_line x \<Longrightarrow> one_line (str_join sep xs)"
  by (induction sep xs rule: str_join.induct) auto

lemma one_line_pattern: "one_line s \<Longrightarrow> one_line (path_pattern s)"
  by (auto simp: path_pattern_def list_all_iff line_break_def)


lemma re_match_all:
  assumes "re_match first rest s" and "\<And>c. first c \<Longrightarrow> rest c" and "CHR 0x0A \<notin> set s"
  shows "list_all rest s"
  using assms(1,2)
proof (rule re_match_chars)
  fix t assume "list_all rest t" and "s = t \<or> s = t @ [CHR 0x0A]"
  then show ?thesis using assms(3) by auto
qed

lemma valid_role_chars:
  assumes "validate_sql_identifier r l = Inr v" and "CHR 0x0A \<notin> set r"
  shows "list_all sql_ident_char r"
  using assms re_match_all [of sql_letter sql_ident_char r]
  by (auto simp: validate_sql_identifier_def sql_ident_char_def split: if_splits)

lemma valid_pattern_chars:
  assumes "validate_sql_resource_pattern r l = Inr v" and "CHR 0x0A \<notin> set r"
  shows "v = r \<and> list_all sql_pattern_char r"
  using assms re_match_all [of sql_letter sql_pattern_char r]
  by (auto simp: validate_sql_resource_pattern_def sql_pattern_char_def sql_ident_char_def split: if_splits)

lemma expression_writable:
  assumes "rule_expression role (ops_of ACTION_OPS action) policy = Inr x" and "list_all sql_ident_char role"
    and "CHR 0x0A \<notin> set (pr_resource_id_pattern policy)"
  shows "one_line x \<and> py_strip x = x"
proof -
  let ?ops = "''op in ['' @ str_join '','' (map (\<lambda>s. in_quotes s) (ops_of ACTION_OPS action)) @ '']''"
  let ?role = "''role=='' @ in_quotes role"
  have quote: "one_line (in_quotes s)" if "one_line s" for s using that by (simp add: line_break_def)
  have "one_line (str_join '','' (map (\<lambda>s. in_quotes s) (ops_of ACTION_OPS action)))"
    by (rule one_line_join) (auto simp: line_break_def dest: ops_one_line)
  then have ops: "one_line ?ops" by (simp add: line_break_def)
  have role: "one_line ?role" using assms(2) ident_char_plain by (auto simp: line_break_def list_all_iff)
  show ?thesis
  proof (cases "pr_resource_type policy = ''dataset''")
    case False
    then have "x = ?ops @ '' && '' @ ?role" using assms(1) by (simp add: rule_expression_def Let_def)
    moreover have "one_line (?ops @ '' && '' @ ?role)" using ops role by (simp add: line_break_def)
    ultimately show ?thesis by (auto intro!: strip_id simp: py_isspace_def)
  next
    case True
    let ?path = "''path.matches('' @ in_quotes (path_pattern (pr_resource_id_pattern policy)) @ '')''"
    obtain v where "validate_sql_resource_pattern (pr_resource_id_pattern policy) ''resource_id'' = Inr v"
      and x: "x = str_join '' && '' ([?ops, ?role] @ [''path.matches('' @ in_quotes (path_pattern v) @ '')''])"
      using assms(1) True by (auto simp: rule_expression_def Let_def bind_res_Inr_iff)
    then have v: "v = pr_resource_id_pattern policy" "list_all sql_pattern_char v"
      using valid_pattern_chars [OF _ assms(3)] by blast+
    then have "one_line v" using pattern_char_plain by (auto simp: list_all_iff)
    then have "one_line ?path" using one_line_pattern v(1) by (auto simp: line_break_def)
    then have "one_line (?ops @ '' && '' @ ?role @ '' && '' @ ?path)" using ops role by (simp add: line_break_def)
    moreover have "x = ?ops @ '' && '' @ ?role @ '' && '' @ ?path" using x v(1) by simp
    ultimately show ?thesis by (auto intro!: strip_id simp: py_isspace_def)
  qed
qed

lemma compiled_writable:
  assumes "nessie_role_artifact policy role = Inr a" and "CHR 0x0A \<notin> set role"
    and "CHR 0x0A \<notin> set (pr_resource_id_pattern policy)"
  shows "rule_artifact a \<and> rule_writable (ba_name a) (expression_of a)"
proof -
  obtain v x where "validate_sql_identifier role ''role_name'' = Inr v"
    and x: "rule_expression role (ops_of ACTION_OPS (pr_action policy)) policy = Inr x"
    and a: "ba_name a = nessie_name policy role" "expression_of a = x"
      "ba_statement a = RULE_KEY_PREFIX @ nessie_name policy role @ ''='' @ x"
    using assms(1) by (auto simp: nessie_role_artifact_def Let_def bind_res_Inr_iff expression_of_def metadata_text_def row_text_def)
  then have role: "list_all sql_ident_char role" using valid_role_chars assms(2) by blast
  have "\<not> line_break c \<and> c \<noteq> CHR ''=''" if "c \<in> set (nessie_name policy role)" for c
    using that role slug_chars [of "pr_action policy"] slug_chars [of "pr_resource_id_pattern policy"]
      slug_char_plain [of c] ident_char_plain [of c]
    by (auto simp: nessie_name_def list_all_iff line_break_def)
  then have "rule_ok (nessie_name policy role) x"
    using expression_writable [OF x role assms(3)] by (auto simp: rule_ok_def list_all_iff)
  then show ?thesis using a by (simp add: rule_artifact_def rule_writable_def nessie_name_def starts_with_def)
qed


lemma list_all2_source: "list_all2 P xs ys \<Longrightarrow> y \<in> set ys \<Longrightarrow> \<exists>x \<in> set xs. P x y"
  by (induction rule: list_all2_induct) auto

lemma map_res_source: "map_res f xs = Inr ys \<Longrightarrow> y \<in> set ys \<Longrightarrow> \<exists>x \<in> set xs. f x = Inr y"
  unfolding map_res_Inr_iff by (rule list_all2_source)

lemma compile_policy_own:
  assumes "compile_policy backend_name pairs own policy = Inr as" and "as \<noteq> []"
  shows "own policy = Inr as"
proof -
  have "pair_applicability backend_name pairs (pr_action policy) (pr_resource_type policy) \<notin> {''surface'', ''unsupported''}"
    using assms unfolding compile_policy_def Let_def by (simp split: if_splits)
  then show ?thesis
    using assms(1) unfolding compile_policy_def Let_def by (simp add: bind_res_Inr_iff)
qed

lemma compiled_from:
  assumes "nessie_compile m = Inr desired" and "a \<in> set desired"
  obtains policy role where "policy \<in> set (pc_policies (rb_policies m))" "role \<in> set (pr_principal_roles policy)"
    "nessie_role_artifact policy role = Inr a"
proof -
  let ?one = "compile_policy NESSIE NESSIE_POLICY_PAIRS
      (\<lambda>policy. map_res (nessie_role_artifact policy) (pr_principal_roles policy))"
  obtain ass where ass: "map_res ?one (pc_policies (rb_policies m)) = Inr ass" "desired = concat ass"
    using assms(1) unfolding nessie_compile_def compile_all_def bind_res_Inr_iff by blast
  then obtain as where as: "as \<in> set ass" "a \<in> set as" using assms(2) by auto
  obtain policy where p: "policy \<in> set (pc_policies (rb_policies m))" "?one policy = Inr as"
    using map_res_source [OF ass(1) as(1)] by blast
  have own: "map_res (nessie_role_artifact policy) (pr_principal_roles policy) = Inr as"
    using compile_policy_own [OF p(2)] as(2) by (cases as) simp_all
  obtain role where "role \<in> set (pr_principal_roles policy)" "nessie_role_artifact policy role = Inr a"
    using map_res_source [OF own as(2)] ..
  then show thesis by (rule that [OF p(1)])
qed

interpretation nessie_file: careful_rule_store managed_rules rule_writable nessie_backend other_rules
proof unfold_locales
  fix e :: rules_file
  show "gb_list nessie_backend e = (e, Inr (map rule_row (managed_rules e)))"
    by (simp add: nessie_backend_def list_rules_def managed_rules_def rule_row_def)
  show "dict_ok (managed_rules e)" by (rule managed_rules_facts)
next
  fix e n x assume "dict_get (managed_rules e) n = Some x"
  then show "starts_with n ''phlo_''" by (simp add: managed_rules_facts(2) split: if_splits)
next
  fix n x r e e' result
  assume w: "rule_writable n x" and "gb_apply nessie_backend (allow_policy n r x ''authz_rule'') e = (e', result)"
  then show "result = Inr () \<and> dict_get (managed_rules e') = (dict_get (managed_rules e))(n \<mapsto> x)"
    using apply_rule_effect [of n x r "''authz_rule''" e]
    by (auto simp: rule_writable_def nessie_backend_def fun_eq_iff managed_rules_facts(2))
next
  fix n e e' result
  assume "gb_revoke nessie_backend n e = (e', result)"
  then show "result = Inr () \<and> dict_get (managed_rules e') = (dict_get (managed_rules e))(n := None)"
    using revoke_rule_effect [of n e] by (auto simp: nessie_backend_def fun_eq_iff managed_rules_facts(2))
next
  fix n e e' result
  assume "starts_with n ''phlo_''" and "gb_revoke nessie_backend n e = (e', result)"
  then show "other_rules e' = other_rules e"
    using revoke_rule_effect [of n e] by (auto simp: nessie_backend_def fun_eq_iff other_rules_def MANAGED_PREFIX_def)
next
  fix n x r e e' result
  assume "rule_writable n x" and "gb_apply nessie_backend (allow_policy n r x ''authz_rule'') e = (e', result)"
  then show "other_rules e' = other_rules e"
    using apply_rule_effect [of n x r "''authz_rule''" e]
    by (auto simp: rule_writable_def nessie_backend_def fun_eq_iff other_rules_def MANAGED_PREFIX_def)
qed


text \<open>C15: a sync of the Nessie rules always reaches the model. For a model that compiles and whose roles and
  patterns contain no newline, planning returns, applying the plan reports no error, and afterwards the
  managed rules of the file are exactly the compiled expressions, every rule without the managed prefix is
  as before, verification reports the file in sync, and a second plan is empty. The file may hold anything
  before.\<close>

theorem nessie_sync_converges:
  assumes "nessie_compile m = Inr desired"
    and "\<forall>policy \<in> set (pc_policies (rb_policies m)). CHR 0x0A \<notin> set (pr_resource_id_pattern policy) \<and>
           (\<forall>role \<in> set (pr_principal_roles policy). CHR 0x0A \<notin> set role)"
    and "cc_managed_prefix context = ''phlo_''"
  shows "\<exists>plan f2 ok. nessie_plan ids (Some nessie_backend) context m f1 = (f1, Inr plan) \<and>
    nessie_apply (Some nessie_backend) plan f1 = (f2, ok, []) \<and>
    dict_get (managed_rules f2) = (\<lambda>n. map_option expression_of (dict_get (by_name desired) n)) \<and>
    other_rules f2 = other_rules f1 \<and>
    (\<exists>r. nessie_verify (Some nessie_backend) context m f2 = (f2, Inr r) \<and> vr_in_sync r) \<and>
    (\<exists>again. nessie_plan ids (Some nessie_backend) context m f2 = (f2, Inr again) \<and> sy_changes again = [])"
proof -
  have rule: "rule_artifact a \<and> rule_writable (ba_name a) (expression_of a)" if "a \<in> set desired" for a
    using assms(1) that
  proof (rule compiled_from)
    fix policy role
    assume "policy \<in> set (pc_policies (rb_policies m))" "role \<in> set (pr_principal_roles policy)"
      "nessie_role_artifact policy role = Inr a"
    then show ?thesis using assms(2) by (intro compiled_writable) auto
  qed
  obtain plan where plan: "nessie_plan ids (Some nessie_backend) context m f1 = (f1, Inr plan)"
    using nessie_file.plan_exists [OF assms(1)] by blast
  obtain f2 ok errs where applied: "nessie_apply (Some nessie_backend) plan f1 = (f2, ok, errs)"
    by (cases "nessie_apply (Some nessie_backend) plan f1")
  have "other_rules f2 = other_rules f1"
    by (rule nessie_file.others_kept [OF applied [unfolded nessie_apply_def]])
      (use nessie_file.deletes_managed [OF plan assms(3)] nessie_file.creates_compiled [OF assms(1) plan] rule in auto)
  then show ?thesis
    using nessie_file.sync_reaches_rules [OF assms(1) rule assms(3) plan applied] plan applied by blast
qed

definition example_rule_policy :: rbac_policy_rule where
  "example_rule_policy =
     \<lparr>pr_policy_id = ''p1'', pr_effect = ALLOW, pr_principal_roles = [''analyst''], pr_principal_attributes = [],
      pr_action = ''catalog.read'', pr_resource_type = ''catalog'', pr_resource_id_pattern = ''*'',
      pr_resource_attributes = []\<rparr>"

definition example_rule_model :: "rbac_policy_rule list \<Rightarrow> canonical_rbac" where
  "example_rule_model policies =
     \<lparr>rb_roles = \<lparr>rc_version = JInt 1, rc_roles = [], rc_subjects = \<lparr>su_services = [], su_users = []\<rparr>\<rparr>,
      rb_policies = \<lparr>pc_version = JInt 1, pc_policies = policies\<rparr>, rb_version_hash = None\<rparr>"

definition example_rules :: rules_file where
  "example_rules = Some (render_rules [(''phlo_old'', ''true''), (''own'', ''false'')])"

definition example_expression :: string where
  "example_expression = ''op in ['' @ str_join '','' (map (\<lambda>s. in_quotes s)
     [''VIEW_REFERENCE'', ''READ_ENTITY_VALUE'', ''READ_LOG'']) @ ''] && role=='' @ in_quotes ''analyst''"

lemma example_rule_compiles:
  "\<exists>a. nessie_compile (example_rule_model [example_rule_policy]) = Inr [a] \<and> ba_name a = ''phlo_analyst__catalog_read__all'' \<and>
     expression_of a = example_expression"
proof -
  have "(case nessie_compile (example_rule_model [example_rule_policy]) of
      Inr [a] \<Rightarrow> ba_name a = ''phlo_analyst__catalog_read__all'' \<and> expression_of a = example_expression | _ \<Rightarrow> False)"
    by code_simp
  then show ?thesis by (auto split: sum.splits list.splits)
qed

lemma nessie_sync_converges_witness:
  "\<exists>plan f2 ok. nessie_apply (Some nessie_backend) plan example_rules = (f2, ok, []) \<and>
     dict_get (managed_rules f2) = [''phlo_analyst__catalog_read__all'' \<mapsto> example_expression] \<and>
     other_rules f2 ''own'' = Some ''false''"
proof -
  let ?m = "example_rule_model [example_rule_policy]" and ?c = "make_context ''dev'' ''nessie'' False"
  obtain a where a: "nessie_compile ?m = Inr [a]" "ba_name a = ''phlo_analyst__catalog_read__all''"
    "expression_of a = example_expression" using example_rule_compiles by blast
  have lines: "\<forall>policy \<in> set (pc_policies (rb_policies ?m)). CHR 0x0A \<notin> set (pr_resource_id_pattern policy) \<and>
      (\<forall>role \<in> set (pr_principal_roles policy). CHR 0x0A \<notin> set role)"
    by (simp add: example_rule_model_def example_rule_policy_def)
  have prefix: "cc_managed_prefix ?c = ''phlo_''" by (simp add: make_context_def)
  have "rules_ok [(''phlo_old'', ''true''), (''own'', ''false'')]" by code_simp
  then have "other_rules example_rules ''own'' = Some ''false''"
    by (simp add: other_rules_def example_rules_def read_rendered MANAGED_PREFIX_def starts_with_def)
  moreover have "(\<lambda>n. map_option expression_of (dict_get (by_name [a]) n)) = [''phlo_analyst__catalog_read__all'' \<mapsto> example_expression]"
    using a by (auto simp: by_name_def fun_eq_iff)
  ultimately show ?thesis
    using nessie_sync_converges [OF a(1) lines prefix, of "\<lambda>k. []" example_rules] by metis
qed

end
