(* ===== verification/Postgres_Governance.thy ===== *)
theory Postgres_Governance
  imports Compiler_Convergence
begin

text \<open>
  \<open>phlo_postgres/governance.py\<close>: the PostgreSQL backend. The connection is a record of the queries the
  backend sends, each with the rows it returns, and of \<open>execute\<close>, which takes the text of a statement. A
  wildcard pattern has no table.
\<close>

section \<open>Names\<close>

record 'e postgres =
  pq_ping :: "'e \<Rightarrow> bool res"
  pq_grants :: "string option \<Rightarrow> 'e \<Rightarrow> (string \<times> string \<times> string \<times> string) list res"
  pq_coverage :: "'e \<Rightarrow> (string \<times> string \<times> string \<times> bool) list res"
  pq_usage :: "'e \<Rightarrow> (string \<times> string \<times> string) list res"
  pq_defaults :: "'e \<Rightarrow> (string \<times> string \<times> string) list res"
  pq_memberships :: "'e \<Rightarrow> (string \<times> string) list res"
  pq_table_privilege :: "string \<Rightarrow> string \<Rightarrow> string \<Rightarrow> 'e \<Rightarrow> bool option res"
  pq_execute :: "string \<Rightarrow> 'e \<Rightarrow> 'e \<times> unit res"

definition ALLOWED_PRIVILEGES :: "string list" where
  "ALLOWED_PRIVILEGES = [''SELECT'', ''INSERT'', ''UPDATE'', ''DELETE'', ''TRUNCATE'', ''USAGE'', ''MAINTAIN'']"

definition PREDEFINED_ROLES :: "string list" where
  "PREDEFINED_ROLES = [''pg_read_all_data'', ''pg_write_all_data'']"

definition name_char :: "char \<Rightarrow> bool" where
  "name_char c \<longleftrightarrow> sql_letter c \<or> ascii_digit c"

definition pg_quote :: "string \<Rightarrow> string res" where
  "pg_quote identifier =
     (if \<not> re_match sql_letter name_char identifier
      then Inl (ValueError (''Invalid identifier: '' @ py_repr identifier))
      else Inr (quote_identifier identifier))"

definition plain_name :: "string \<Rightarrow> bool" where
  "plain_name s \<longleftrightarrow> (case s of [] \<Rightarrow> False | c # cs \<Rightarrow> sql_letter c \<and> list_all name_char cs)"

text \<open>The three alternatives of the pattern; \<open>$\<close> also matches before a final newline.\<close>

definition resource_re :: "string \<Rightarrow> bool" where
  "resource_re pattern =
     (let s = drop_newline pattern in
      s = ''*'' \<or>
      (case split_char CHR ''.'' s of
         [schema, table] \<Rightarrow> plain_name schema \<and> (plain_name table \<or> table = ''*'')
       | _ \<Rightarrow> False))"

definition split_resource :: "string \<Rightarrow> (string \<times> string option) res" where
  "split_resource pattern =
     (if \<not> resource_re pattern then Inl (ValueError (''Invalid resource pattern: '' @ py_repr pattern))
      else if pattern = ''*'' then Inr (''*'', None)
      else if ends_with pattern ''.*'' then Inr (take (length pattern - 2) pattern, None)
      else Inr (takeWhile (\<lambda>c. c \<noteq> CHR ''.'') pattern, Some (tl (dropWhile (\<lambda>c. c \<noteq> CHR ''.'') pattern))))"

section \<open>Listing\<close>

definition pg_row :: "string \<Rightarrow> string \<Rightarrow> string \<Rightarrow> string \<Rightarrow> string \<Rightarrow> (string, json) dict" where
  "pg_row kind grantee schema table privilege =
     [(''kind'', JStr kind), (''grantee'', JStr grantee), (''schema'', JStr schema), (''table'', JStr table),
      (''privilege'', JStr privilege)]"

definition pg_list_policies :: "'e postgres \<Rightarrow> string option \<Rightarrow> 'e \<Rightarrow> (string, json) dict list res" where
  "pg_list_policies pg table_name e =
     bind_res (case table_name of None \<Rightarrow> Inr () | Some t \<Rightarrow> bind_res (split_resource t) (\<lambda>_. Inr ())) (\<lambda>_.
     bind_res (pq_grants pg table_name e) (\<lambda>grants.
     bind_res (pq_coverage pg e) (\<lambda>coverage.
     bind_res (pq_usage pg e) (\<lambda>usage.
     bind_res (pq_defaults pg e) (\<lambda>defaults.
     bind_res (pq_memberships pg e) (\<lambda>memberships. Inr
       (map (\<lambda>(g, s, t, p). pg_row ''table_grant'' g s t p) grants @
        map (\<lambda>(g, s, p, complete). pg_row ''all_tables'' g s [] p @ [(''complete'', JBool complete)]) coverage @
        map (\<lambda>(g, s, p). pg_row ''schema_usage'' g s [] p) usage @
        map (\<lambda>(g, s, p). pg_row ''default_privileges'' g s [] p) defaults @
        map (\<lambda>(g, parent). pg_row ''role_membership'' g [] [] parent) memberships)))))))"

section \<open>Granting and revoking\<close>

abbreviation unsupported_privilege :: "string \<Rightarrow> py_error" where
  "unsupported_privilege privilege \<equiv> ValueError (''Unsupported privilege: '' @ py_repr privilege)"

abbreviation unsupported_role :: "string \<Rightarrow> py_error" where
  "unsupported_role privilege \<equiv> ValueError (''Unsupported predefined role: '' @ py_repr privilege)"

text \<open>The statement a privilege is granted with.\<close>

definition pg_grant_statement :: "string \<Rightarrow> string \<Rightarrow> string \<Rightarrow> string \<Rightarrow> string res" where
  "pg_grant_statement privilege pattern role_name scope_hint =
     bind_res (split_resource pattern) (\<lambda>(schema, table).
     bind_res (pg_quote role_name) (\<lambda>role_ref.
       if pattern = ''*''
       then (if privilege \<notin> set PREDEFINED_ROLES then Inl (unsupported_role privilege)
             else Inr (''GRANT '' @ privilege @ '' TO '' @ role_ref))
       else if privilege \<notin> set ALLOWED_PRIVILEGES then Inl (unsupported_privilege privilege)
       else bind_res (pg_quote schema) (\<lambda>schema_ref.
         case table of
           None \<Rightarrow> Inr
             (if privilege = ''USAGE'' \<or> ends_with scope_hint ''__USAGE''
              then ''GRANT USAGE ON SCHEMA '' @ schema_ref @ '' TO '' @ role_ref
              else if ends_with scope_hint ''__DEFAULT''
              then ''ALTER DEFAULT PRIVILEGES IN SCHEMA '' @ schema_ref @ '' GRANT '' @ privilege @ '' ON TABLES TO '' @ role_ref
              else ''GRANT '' @ privilege @ '' ON ALL TABLES IN SCHEMA '' @ schema_ref @ '' TO '' @ role_ref)
         | Some t \<Rightarrow> bind_res (pg_quote t) (\<lambda>table_name. Inr
             (''GRANT '' @ privilege @ '' ON TABLE '' @ schema_ref @ ''.'' @ table_name @ '' TO '' @ role_ref)))))"

fun apply_privileges :: "'e postgres \<Rightarrow> string list \<Rightarrow> access_policy \<Rightarrow> 'e \<Rightarrow> 'e \<times> unit res" where
  "apply_privileges pg [] policy e = (e, Inr ())"
| "apply_privileges pg (p # ps) policy e =
     (case pg_grant_statement p (ap_table_pattern policy) (ap_principal policy)
             (case ap_policy_id policy of None \<Rightarrow> [] | Some i \<Rightarrow> i) of
        Inl err \<Rightarrow> (e, Inl err)
      | Inr statement \<Rightarrow>
          (case pq_execute pg statement e of
             (e', Inl err) \<Rightarrow> (e', Inl err)
           | (e', Inr _) \<Rightarrow> apply_privileges pg ps policy e'))"

definition pg_apply_policy :: "'e postgres \<Rightarrow> access_policy \<Rightarrow> 'e \<Rightarrow> 'e \<times> unit res" where
  "pg_apply_policy pg policy e =
     (case pg_quote (ap_principal policy) of
        Inl err \<Rightarrow> (e, Inl err)
      | Inr _ \<Rightarrow>
          apply_privileges pg (filter (\<lambda>p. p \<noteq> []) (map py_strip (split_char CHR '','' (ap_action policy)))) policy e)"

definition pg_revoke_statement :: "string \<Rightarrow> string res" where
  "pg_revoke_statement policy_id =
     (case split_char CHR '':'' policy_id of
        [scope, privilege, pattern, role_name] \<Rightarrow>
          bind_res (pg_quote role_name) (\<lambda>role_ref.
          bind_res (split_resource pattern) (\<lambda>(schema, table).
            if pattern = ''*''
            then (if privilege \<notin> set PREDEFINED_ROLES then Inl (unsupported_role privilege)
                  else Inr (''REVOKE '' @ privilege @ '' FROM '' @ role_ref))
            else if privilege \<notin> set ALLOWED_PRIVILEGES then Inl (unsupported_privilege privilege)
            else bind_res (pg_quote schema) (\<lambda>schema_ref.
              if scope = ''schema_usage'' \<or> privilege = ''USAGE''
              then Inr (''REVOKE USAGE ON SCHEMA '' @ schema_ref @ '' FROM '' @ role_ref)
              else if scope = ''default_privileges''
              then Inr (''ALTER DEFAULT PRIVILEGES IN SCHEMA '' @ schema_ref @ '' REVOKE '' @ privilege @
                     '' ON TABLES FROM '' @ role_ref)
              else case table of
                None \<Rightarrow> Inr (''REVOKE '' @ privilege @ '' ON ALL TABLES IN SCHEMA '' @ schema_ref @ '' FROM '' @ role_ref)
              | Some t \<Rightarrow> bind_res (pg_quote t) (\<lambda>table_name. Inr
                  (''REVOKE '' @ privilege @ '' ON TABLE '' @ schema_ref @ ''.'' @ table_name @ '' FROM '' @ role_ref)))))
      | _ \<Rightarrow> Inl (ValueError (''policy_id must be '' @ in_quotes ''SCOPE:PRIVILEGE:RESOURCE:ROLE'' @ '', got: '' @ policy_id)))"

definition pg_revoke_policy :: "'e postgres \<Rightarrow> string \<Rightarrow> 'e \<Rightarrow> 'e \<times> unit res" where
  "pg_revoke_policy pg policy_id e =
     (case pg_revoke_statement policy_id of Inl err \<Rightarrow> (e, Inl err) | Inr statement \<Rightarrow> pq_execute pg statement e)"

definition pg_check_access :: "'e postgres \<Rightarrow> string \<Rightarrow> string \<Rightarrow> string \<Rightarrow> 'e \<Rightarrow> bool res" where
  "pg_check_access pg grantee table_name action e =
     (let privilege = py_upper (py_strip (hd (split_char CHR '','' action))) in
      bind_res (pg_quote grantee) (\<lambda>_.
      bind_res (split_resource table_name) (\<lambda>_.
        if privilege \<notin> set ALLOWED_PRIVILEGES then Inl (unsupported_privilege privilege)
        else bind_res (pq_table_privilege pg grantee table_name privilege e) (\<lambda>held. Inr (held = Some True)))))"

definition pg_probe :: "'e postgres \<Rightarrow> 'e \<Rightarrow> bool" where
  "pg_probe pg e = (case pq_ping pg e of Inl _ \<Rightarrow> False | Inr row \<Rightarrow> row)"

definition postgres_backend :: "'e postgres \<Rightarrow> 'e governance_backend" where
  "postgres_backend pg =
     \<lparr>gb_list = \<lambda>e. (e, pg_list_policies pg None e), gb_apply = pg_apply_policy pg, gb_revoke = pg_revoke_policy pg\<rparr>"

section \<open>What a plan makes of a grant\<close>

lemma plain_name_facts:
  assumes "plain_name s"
  shows "s \<noteq> []" "re_match sql_letter name_char s" "re_match sql_letter sql_ident_char s"
    "CHR ''.'' \<notin> set s" "CHR '':'' \<notin> set s" "CHR ''*'' \<notin> set s" "CHR ''%'' \<notin> set s" "CHR '','' \<notin> set s"
    "list_all name_char s" "drop_newline (u @ s) = u @ s" "drop_newline s = s"
proof -
  obtain c cs where s: "s = c # cs" "sql_letter c" "list_all name_char cs"
    using assms by (auto simp: plain_name_def split: list.splits)
  have all: "list_all name_char s" using s by (simp add: name_char_def)
  have "last s \<noteq> CHR 0x0A"
    using all last_in_set [of s] s(1)
    by (auto simp: list_all_iff name_char_def sql_letter_def ascii_upper_def ascii_lower_def ascii_digit_def)
  then show drop: "drop_newline (u @ s) = u @ s" "drop_newline s = s" using s(1) by (auto simp: drop_newline_def)
  show "s \<noteq> []" "list_all name_char s" using s all by simp_all
  show "re_match sql_letter name_char s" "re_match sql_letter sql_ident_char s"
    unfolding re_match_def drop using s by (auto simp: list_all_iff name_char_def sql_ident_char_def)
  have "\<not> name_char (CHR ''.'')" "\<not> name_char (CHR '':'')" "\<not> name_char (CHR ''*'')" "\<not> name_char (CHR ''%'')"
    "\<not> name_char (CHR '','')" by code_simp+
  then show "CHR ''.'' \<notin> set s" "CHR '':'' \<notin> set s" "CHR ''*'' \<notin> set s" "CHR ''%'' \<notin> set s" "CHR '','' \<notin> set s"
    using all unfolding list_all_iff by blast+
qed

lemma plain_quote: "plain_name s \<Longrightarrow> pg_quote s = Inr (quote_identifier s)"
  using plain_name_facts(2) by (simp add: pg_quote_def)

lemma split_resource_schema:
  assumes "plain_name s"
  shows "split_resource (s @ ''.*'') = Inr (s, None)"
proof -
  have "drop_newline (s @ ''.*'') = s @ ''.*''" by (simp add: drop_newline_def)
  moreover have "split_char CHR ''.'' (s @ ''.*'') = [s, ''*'']"
    using split_char_append [OF plain_name_facts(4) [OF assms], of "''*''"] by simp
  ultimately have "resource_re (s @ ''.*'')" using assms by (simp add: resource_re_def Let_def)
  moreover have "ends_with (s @ ''.*'') ''.*''" by (simp add: ends_with_def starts_with_def)
  ultimately show ?thesis using plain_name_facts(1) [OF assms] by (simp add: split_resource_def)
qed

lemma split_resource_table:
  assumes "plain_name s" and "plain_name t"
  shows "split_resource (s @ ''.'' @ t) = Inr (s, Some t)"
    and "\<not> ends_with (s @ ''.'' @ t) ''.*''" and "s @ ''.'' @ t \<noteq> ''*''"
    and "split_char CHR ''.'' (s @ ''.'' @ t) = [s, t]"
proof -
  note s = plain_name_facts [OF assms(1)] and t = plain_name_facts [OF assms(2)]
  show split: "split_char CHR ''.'' (s @ ''.'' @ t) = [s, t]"
    using split_char_append [OF s(4), of t] split_char_no [OF t(4)] by simp
  show star: "s @ ''.'' @ t \<noteq> ''*''" using s(1,6) by (cases s) auto
  have "last t \<noteq> CHR ''*''" using t(1,6) by (metis last_in_set)
  then show ends: "\<not> ends_with (s @ ''.'' @ t) ''.*''"
    using t(1) by (cases t rule: rev_cases) (auto simp: ends_with_def starts_with_def)
  have "resource_re (s @ ''.'' @ t)"
    using assms split t(10) [of "s @ ''.''"] by (simp add: resource_re_def Let_def)
  moreover have "takeWhile (\<lambda>c. c \<noteq> CHR ''.'') (s @ ''.'' @ t) = s" "dropWhile (\<lambda>c. c \<noteq> CHR ''.'') (s @ ''.'' @ t) = ''.'' @ t"
    using s(4) by (auto simp: takeWhile_append dropWhile_append takeWhile_eq_all_conv)
  ultimately show "split_resource (s @ ''.'' @ t) = Inr (s, Some t)"
    using star ends by (simp add: split_resource_def)
qed

definition table_policy :: "string \<Rightarrow> string \<Rightarrow> string \<Rightarrow> string \<Rightarrow> rbac_policy_rule" where
  "table_policy r i s t =
     \<lparr>pr_policy_id = i, pr_effect = ALLOW, pr_principal_roles = [r], pr_principal_attributes = [],
      pr_action = ''dataset.read'', pr_resource_type = ''dataset'', pr_resource_id_pattern = s @ ''.'' @ t,
      pr_resource_attributes = []\<rparr>"

text \<open>The grant such a policy compiles to.\<close>

definition table_want :: "string \<Rightarrow> string \<Rightarrow> string \<Rightarrow> string \<Rightarrow> backend_artifact" where
  "table_want r i s t = pg_artifact (r @ ''__'' @ s @ ''.'' @ t @ ''__SELECT'')
     (''GRANT SELECT ON TABLE '' @ s @ ''.'' @ t @ '' TO '' @ r) r ''SELECT'' (s @ ''.'' @ t) i ''table''"

lemma table_policy_compiled:
  assumes "plain_name r" and "plain_name s" and "plain_name t"
  shows "compile_policy POSTGRES POSTGRES_POLICY_PAIRS pg_policy_artifacts (table_policy r i s t) = Inr [table_want r i s t]"
proof -
  note split = split_resource_table [OF assms(2,3)]
  have "re_match sql_letter sql_pattern_char (s @ ''.'' @ t)"
  proof -
    obtain c cs where c: "s = c # cs" "sql_letter c" using assms(2) by (auto simp: plain_name_def split: list.splits)
    have "list_all sql_pattern_char (s @ ''.'' @ t)"
      using plain_name_facts(9) [OF assms(2)] plain_name_facts(9) [OF assms(3)]
      by (auto simp: list_all_iff sql_pattern_char_def sql_ident_char_def name_char_def)
    then show ?thesis
      using c plain_name_facts(10) [OF assms(3), of "s @ ''.''"] by (simp add: re_match_def)
  qed
  moreover have "CHR ''%'' \<notin> set s" "CHR ''*'' \<notin> set s" using plain_name_facts [OF assms(2)] by blast+
  ultimately have pat: "validate_sql_resource_pattern (s @ ''.'' @ t) ''resource_id'' = Inr (s @ ''.'' @ t)"
    using split(4) by (simp add: validate_sql_resource_pattern_def)
  have ident: "validate_sql_identifier r ''role_name'' = Inr r"
    using plain_name_facts(3) [OF assms(1)] by (simp add: validate_sql_identifier_def)
  have priv: "validate_sql_privilege ''SELECT'' = Inr ''SELECT''" "ops_of POSTGRES_ACTIONS ''dataset.read'' = [''SELECT'']"
    "pair_applicability POSTGRES POSTGRES_POLICY_PAIRS ''dataset.read'' ''dataset'' = POSTGRES" by code_simp+
  have "pg_role_artifacts (table_policy r i s t) r = Inr [table_want r i s t]"
    using split(2,3) pat ident priv(1,2)
    by (simp add: pg_role_artifacts_def table_policy_def table_artifact_def table_want_def Let_def)
  then have own: "pg_policy_artifacts (table_policy r i s t) = Inr [table_want r i s t]"
    by (simp add: pg_policy_artifacts_def table_policy_def)
  have "compile_policy POSTGRES POSTGRES_POLICY_PAIRS pg_policy_artifacts (table_policy r i s t) =
     pg_policy_artifacts (table_policy r i s t)"
    using priv(3) by (simp add: compile_policy_def table_policy_def ensure_effect_def POSTGRES_def)
  then show ?thesis using own by simp
qed

lemma table_policies_compiled:
  assumes "plain_name r" and "\<forall>(i, s, t) \<in> set its. plain_name s \<and> plain_name t"
    and "pc_policies (rb_policies m) = map (\<lambda>(i, s, t). table_policy r i s t) its"
  shows "pg_compile m = Inr (map (\<lambda>(i, s, t). table_want r i s t) its)"
proof -
  have "map_res (compile_policy POSTGRES POSTGRES_POLICY_PAIRS pg_policy_artifacts)
      (map (\<lambda>(i, s, t). table_policy r i s t) its) = Inr (map (\<lambda>(i, s, t). [table_want r i s t]) its)"
    using assms(2) by (induction its) (auto simp: table_policy_compiled [OF assms(1)])
  moreover have "concat (map (\<lambda>(i, s, t). [table_want r i s t]) its) = map (\<lambda>(i, s, t). table_want r i s t) its"
    by (induction its) auto
  ultimately show ?thesis using assms(3) by (simp add: pg_compile_def compile_all_def)
qed

definition schema_revoke :: "string \<Rightarrow> string \<Rightarrow> string" where
  "schema_revoke r s = ''REVOKE SELECT ON ALL TABLES IN SCHEMA '' @ quote_identifier s @ '' FROM '' @ quote_identifier r"

lemma schema_row_revoked:
  assumes "plain_name r" and "plain_name s"
  shows "pg_revoke_statement (''all_tables:SELECT:'' @ s @ ''.*:'' @ r) = Inr (schema_revoke r s)"
proof -
  note colon = plain_name_facts(5) [OF assms(1)] plain_name_facts(5) [OF assms(2)]
  have "split_char CHR '':'' (''all_tables'' @ CHR '':'' # ''SELECT'' @ CHR '':'' # (s @ ''.*'') @ CHR '':'' # r) =
      [''all_tables'', ''SELECT'', s @ ''.*'', r]"
    using split_char_append [of "CHR '':''" "s @ ''.*''" r] split_char_no [OF colon(1)] colon(2) by simp
  then have "split_char CHR '':'' (''all_tables:SELECT:'' @ s @ ''.*:'' @ r) = [''all_tables'', ''SELECT'', s @ ''.*'', r]"
    by simp
  moreover have "s @ ''.*'' \<noteq> ''*''" using plain_name_facts(1) [OF assms(2)] by (cases s) auto
  ultimately show ?thesis
    using plain_quote [OF assms(1)] plain_quote [OF assms(2)] split_resource_schema [OF assms(2)]
    by (simp add: pg_revoke_statement_def schema_revoke_def ALLOWED_PRIVILEGES_def)
qed

section \<open>A server\<close>

text \<open>
  What the documentation of PostgreSQL says of the statements and catalog views the backend uses, for the roles and
  tables there are: \<open>G\<close> is the set of table privileges granted (grantee, schema, table, privilege). \<open>list_policies\<close>
  reads those of the managed roles from \<open>role_table_grants\<close>, and, for each role, schema and privilege among them
  whose schema has a table, one row saying whether the role holds the privilege on every table; a \<open>GRANT SELECT\<close>
  on a table adds its row, a \<open>REVOKE SELECT\<close> on all tables of a schema removes the rows of the schema, and neither
  touches schema usage, default privileges or memberships.
\<close>

type_synonym table_grant = "string \<times> string \<times> string \<times> string"

definition table_grant_text :: "string \<Rightarrow> string \<Rightarrow> string \<Rightarrow> string" where
  "table_grant_text r s t = ''GRANT SELECT ON TABLE '' @ quote_identifier s @ ''.'' @ quote_identifier t @
     '' TO '' @ quote_identifier r"

definition grants_listed :: "table_grant set \<Rightarrow> table_grant list \<Rightarrow> bool" where
  "grants_listed G rows \<longleftrightarrow> distinct rows \<and> set rows = {g \<in> G. starts_with (fst g) ''phlo_''}"

definition coverage_listed :: "(string \<times> string) set \<Rightarrow> table_grant set
    \<Rightarrow> (string \<times> string \<times> string \<times> bool) list \<Rightarrow> bool" where
  "coverage_listed tables G rows \<longleftrightarrow>
     distinct (map (\<lambda>(r, s, p, complete). (r, s, p)) rows) \<and>
     (\<lambda>(r, s, p, complete). (r, s, p)) ` set rows =
       {(r, s, p). (\<exists>t. (r, s, t, p) \<in> G) \<and> (\<exists>t. (s, t) \<in> tables) \<and> starts_with r ''phlo_''}"

definition other_rows :: "'e postgres \<Rightarrow> 'e \<Rightarrow> (string \<times> string \<times> string) list res \<times>
    (string \<times> string \<times> string) list res \<times> (string \<times> string) list res" where
  "other_rows pg e = (pq_usage pg e, pq_defaults pg e, pq_memberships pg e)"

definition server_law :: "'e postgres \<Rightarrow> string set \<Rightarrow> (string \<times> string) set \<Rightarrow> ('e \<Rightarrow> table_grant set) \<Rightarrow> bool" where
  "server_law pg roles tables G \<longleftrightarrow>
     (\<forall>e. (\<exists>rows. pq_grants pg None e = Inr rows \<and> grants_listed (G e) rows) \<and>
          (\<exists>rows. pq_coverage pg e = Inr rows \<and> coverage_listed tables (G e) rows)) \<and>
     (\<forall>e r s t. r \<in> roles \<longrightarrow> (s, t) \<in> tables \<longrightarrow>
        (\<exists>e'. pq_execute pg (table_grant_text r s t) e = (e', Inr ()) \<and> G e' = insert (r, s, t, ''SELECT'') (G e) \<and>
           other_rows pg e' = other_rows pg e) \<and>
        (\<exists>e'. pq_execute pg (schema_revoke r s) e = (e', Inr ()) \<and>
           G e' = {g \<in> G e. \<not> (fst g = r \<and> fst (snd g) = s \<and> snd (snd (snd g)) = ''SELECT'')} \<and>
           other_rows pg e' = other_rows pg e))"

section \<open>What a second sync does\<close>

text \<open>The table and the schema an artifact is for.\<close>

definition resource_of :: "backend_artifact \<Rightarrow> string \<times> string option" where
  "resource_of a = projr (split_resource (metadata_text a ''resource'' []))"

lemma apply_plan_all:
  assumes "\<forall>c \<in> set cs. \<forall>e. \<exists>e'. change c e = (e', Inr ()) \<and> V e' = f c (V e)"
  shows "\<exists>e' ids. apply_plan change cs e = (e', ids, []) \<and> V e' = fold f cs (V e)"
  using assms
proof (induction cs arbitrary: e)
  case (Cons c cs)
  have "\<exists>e1. change c e = (e1, Inr ()) \<and> V e1 = f c (V e)" using Cons.prems by simp
  then obtain e1 where c: "change c e = (e1, Inr ())" "V e1 = f c (V e)" by blast
  have "\<exists>e2 ids. apply_plan change cs e1 = (e2, ids, []) \<and> V e2 = fold f cs (V e1)"
    by (rule Cons.IH) (use Cons.prems in simp)
  then obtain e2 ids where "apply_plan change cs e1 = (e2, ids, [])" "V e2 = fold f cs (V e1)" by blast
  then show ?case by (simp add: c)
qed simp

lemma fold_grants: "fold (\<lambda>c (G, kept). (insert (g c) G, kept)) cs (G, rest) = (G \<union> g ` set cs, rest)"
  by (induction cs arbitrary: G) auto

lemma fold_revokes: "fold (\<lambda>c (G, kept). ({x \<in> G. \<not> P c x}, kept)) cs (G, rest) = ({x \<in> G. \<forall>c \<in> set cs. \<not> P c x}, rest)"
  by (induction cs arbitrary: G) auto

text \<open>The artifacts of the rows of one role.\<close>

definition table_have :: "string \<Rightarrow> string \<Rightarrow> string \<Rightarrow> backend_artifact" where
  "table_have r s t = row_artifact (pg_row ''table_grant'' r s t ''SELECT'') r"

definition wide_have :: "string \<Rightarrow> string \<Rightarrow> bool \<Rightarrow> backend_artifact" where
  "wide_have r s complete =
     row_artifact (pg_row ''all_tables'' r s [] ''SELECT'' @ [(''complete'', JBool complete)]) r"

lemmas row_defs = table_have_def wide_have_def row_artifact_def pg_row_def row_text_def Let_def

lemma artifact_names:
  "ba_name (table_want r i s t) = r @ ''__'' @ s @ CHR ''.'' # t @ ''__SELECT''"
  "ba_name (table_have r s t) = r @ ''__'' @ s @ CHR ''.'' # t @ ''__SELECT''"
  "ba_name (wide_have r s c) = r @ ''__'' @ s @ CHR ''.'' # ''*'' @ ''__SELECT''"
  by (simp_all add: table_want_def pg_artifact_def row_defs)

lemma same_table_name:
  assumes "plain_name s" and "plain_name s'" and "CHR ''.'' \<notin> set t"
  shows "r @ ''__'' @ s @ CHR ''.'' # t @ ''__SELECT'' = r @ ''__'' @ s' @ CHR ''.'' # t' @ ''__SELECT'' \<longleftrightarrow> s = s' \<and> t = t'"
proof -
  have "CHR ''.'' \<notin> set s" "CHR ''.'' \<notin> set (t @ ''__SELECT'')"
    using plain_name_facts(4) [OF assms(1)] assms(3) by simp_all
  from append_Cons_eq_iff [OF this, of s' "t' @ ''__SELECT''"] show ?thesis by auto
qed

lemma star_not_plain: "plain_name t \<Longrightarrow> t \<noteq> ''*''"
  using plain_name_facts(6) by force

lemma artifact_resources:
  assumes "plain_name s"
  shows "plain_name t \<Longrightarrow> resource_of (table_want r i s t) = (s, Some t)" "resource_of (wide_have r s c) = (s, None)"
  using split_resource_table(1) [OF assms, of t] split_resource_schema [OF assms]
  by (simp_all add: resource_of_def metadata_text_def table_want_def pg_artifact_def row_defs)

lemma covering:
  assumes "s \<noteq> []"
  shows "covers (table_have r s t) (table_want r i s t)" "covers (table_want r i s t) (table_have r s t)"
    and "dict_get (ba_metadata (table_have r s t)) ''complete'' = Some (JBool True)"
    and "dict_get (ba_metadata (table_have r s t)) ''inferred'' = Some (JBool False)"
    and "dict_get (ba_metadata (wide_have r s c)) ''inferred'' = Some (JBool True)"
  using assms by (simp_all add: covers_def table_want_def pg_artifact_def ROW_SCOPES_def row_defs)

lemma observed_rows_of_role:
  assumes "cc_managed_prefix context = ''phlo_''" and "starts_with r ''phlo_''" and "r \<noteq> []"
    and "\<forall>(g, s, t, p) \<in> set grants. g = r \<and> p = ''SELECT''" and "\<forall>(g, s, p, c) \<in> set coverage. g = r \<and> p = ''SELECT''"
  shows "pg_observed context (map (\<lambda>(g, s, t, p). pg_row ''table_grant'' g s t p) grants @
      map (\<lambda>(g, s, p, complete). pg_row ''all_tables'' g s [] p @ [(''complete'', JBool complete)]) coverage) =
    map (\<lambda>(g, s, t, p). table_have r s t) grants @ map (\<lambda>(g, s, p, c). wide_have r s c) coverage"
proof -
  have wide: "pg_observed context (map (\<lambda>(g, s, p, complete). pg_row ''all_tables'' g s [] p @ [(''complete'', JBool complete)]) coverage) =
      map (\<lambda>(g, s, p, c). wide_have r s c) coverage"
    using assms(5)
  proof (induction coverage)
    case (Cons x xs)
    then show ?case
      using assms(1-3) by (cases x) (simp add: pg_observed_def map_filter_simps matches_managed_def wide_have_def pg_row_def
          row_text_def Let_def)
  qed (simp add: pg_observed_def map_filter_simps)
  show ?thesis
    using assms(4)
  proof (induction grants)
    case Nil
    then show ?case using wide by simp
  next
    case (Cons x xs)
    then show ?case
      using assms(1-3) by (cases x) (simp add: pg_observed_def map_filter_simps matches_managed_def table_have_def pg_row_def
          row_text_def Let_def)
  qed
qed

lemma create_executes:
  assumes "plain_name r" and "plain_name s" and "plain_name t"
  shows "pg_change (Some (postgres_backend pg)) (plan_create POSTGRES rid (table_want r i s t)) e =
    (case pq_execute pg (table_grant_text r s t) e of (e', Inl err) \<Rightarrow> (e', Inl err) | (e', Inr _) \<Rightarrow> (e', Inr ()))"
proof -
  have "split_char CHR '','' ''SELECT'' = [''SELECT'']" "py_strip ''SELECT'' = ''SELECT''" by code_simp+
  then have one: "filter (\<lambda>p. p \<noteq> []) (map py_strip (split_char CHR '','' ''SELECT'')) = [''SELECT'']" by simp
  have "pg_grant_statement ''SELECT'' (s @ ''.'' @ t) r hint = Inr (table_grant_text r s t)" for hint
    using plain_quote [OF assms(1)] plain_quote [OF assms(2)] plain_quote [OF assms(3)]
      split_resource_table(1,3) [OF assms(2,3)]
    by (simp add: pg_grant_statement_def table_grant_text_def ALLOWED_PRIVILEGES_def)
  then show ?thesis
    using plain_quote [OF assms(1)] one
    by (simp add: pg_change_def artifact_change_def plan_create_def postgres_backend_def pg_apply_policy_def
        allow_policy_def metadata_text_def table_want_def pg_artifact_def row_text_def split: prod.splits sum.splits)
qed

lemma delete_executes:
  assumes "plain_name r" and "plain_name s"
  shows "pg_change (Some (postgres_backend pg)) (plan_delete POSTGRES (wide_have r s c)) e = pq_execute pg (schema_revoke r s) e"
proof -
  have key: "metadata_text (wide_have r s c) ''scope'' ''table'' @ '':'' @ metadata_text (wide_have r s c) ''privilege'' [] @ '':'' @
      metadata_text (wide_have r s c) ''resource'' [] @ '':'' @ metadata_text (wide_have r s c) ''role'' [] =
      ''all_tables:SELECT:'' @ s @ ''.*:'' @ r"
    by (simp add: metadata_text_def ROW_SCOPES_def row_defs)
  have "pg_revoke_statement (metadata_text (wide_have r s c) ''scope'' ''table'' @ '':'' @
      metadata_text (wide_have r s c) ''privilege'' [] @ '':'' @ metadata_text (wide_have r s c) ''resource'' [] @ '':'' @
      metadata_text (wide_have r s c) ''role'' []) = Inr (schema_revoke r s)"
    unfolding key by (rule schema_row_revoked [OF assms])
  then show ?thesis
    by (simp add: pg_change_def artifact_change_def plan_delete_def postgres_backend_def pg_revoke_policy_def)
qed

text \<open>A server without managed rows is listed as empty.\<close>

lemma nothing_listed:
  assumes "server_law pg roles tables G" and "\<forall>g \<in> G e. \<not> starts_with (fst g) ''phlo_''"
    and "other_rows pg e = (Inr [], Inr [], Inr [])"
  shows "list_rows (Some (postgres_backend pg)) e = (e, Inr [])"
proof -
  obtain rows where rows: "pq_grants pg None e = Inr rows" "grants_listed (G e) rows"
    using assms(1) unfolding server_law_def by blast
  obtain cov where cov: "pq_coverage pg e = Inr cov" "coverage_listed tables (G e) cov"
    using assms(1) unfolding server_law_def by blast
  have "set rows = {}" using rows(2) assms(2) by (auto simp: grants_listed_def)
  moreover have "set cov = {}"
  proof -
    have none: "{(r, s, p). (\<exists>t. (r, s, t, p) \<in> G e) \<and> (\<exists>t. (s, t) \<in> tables) \<and> starts_with r ''phlo_''} = {}"
      using assms(2) by fastforce
    show ?thesis using cov(2) unfolding coverage_listed_def none by blast
  qed
  ultimately show ?thesis
    using rows(1) cov(1) assms(3) by (simp add: list_rows_def postgres_backend_def pg_list_policies_def other_rows_def)
qed

lemma created_artifacts: "map ch_artifact (map (\<lambda>(k, a). plan_create b (f k) a) (enumerate n as)) = as"
  by (induction as arbitrary: n) (simp_all add: plan_create_def)

text \<open>The first sync grants what the model names.\<close>

lemma first_sync:
  assumes law: "server_law pg roles tables G" and r: "r \<in> roles" "plain_name r"
    and its: "\<forall>(i, s, t) \<in> set its. plain_name s \<and> plain_name t \<and> (s, t) \<in> tables"
    and m: "pc_policies (rb_policies m) = map (\<lambda>(i, s, t). table_policy r i s t) its"
    and none: "\<forall>g \<in> G e. \<not> starts_with (fst g) ''phlo_''" "other_rows pg e = (Inr [], Inr [], Inr [])"
  shows "\<exists>plan e1 done_ids. pg_plan ids (Some (postgres_backend pg)) context m e = (e, Inr plan) \<and>
    pg_apply (Some (postgres_backend pg)) plan e = (e1, done_ids, []) \<and>
    G e1 = G e \<union> {(r, s, t, ''SELECT'') | i s t. (i, s, t) \<in> set its} \<and> other_rows pg e1 = other_rows pg e"
proof -
  let ?pg = "postgres_backend pg"
  let ?as = "map (\<lambda>(i, s, t). table_want r i s t) its"
  let ?new = "not_in (by_name ?as) (by_name [])"
  let ?cs = "map (\<lambda>(k, a). plan_create POSTGRES (generate_revert_id POSTGRES (ids k)) a) (enumerate 0 ?new)"
  let ?g = "\<lambda>c. (r, fst (resource_of (ch_artifact c)), the (snd (resource_of (ch_artifact c))), ''SELECT'')"
  have plain: "\<forall>(i, s, t) \<in> set its. plain_name s \<and> plain_name t" using its by auto
  have plan: "pg_plan ids (Some ?pg) context m e = (e, Inr (plan_of POSTGRES m ?cs))"
    using table_policies_compiled [OF r(2) plain m] nothing_listed [OF law none]
    by (simp add: pg_plan_def plan_by_name_def pg_observed_def map_filter_simps Let_def) (simp add: not_in_def by_name_def)
  have new: "a \<in> set ?new \<Longrightarrow> \<exists>i s t. (i, s, t) \<in> set its \<and> a = table_want r i s t" for a
    using by_name_facts [of ?as] unfolding set_not_in by fastforce
  have made: "c \<in> set ?cs \<Longrightarrow> \<exists>rid a. a \<in> set ?new \<and> c = plan_create POSTGRES rid a" for c
    by (auto simp: in_set_enumerate_eq) (use nth_mem in blast)
  have arts: "ch_artifact ` set ?cs = set ?new"
    unfolding set_map [symmetric] created_artifacts by (rule refl)
  have "\<exists>e'. pg_change (Some ?pg) c e = (e', Inr ()) \<and>
      (G e', other_rows pg e') = (\<lambda>c (G, kept). (insert (?g c) G, kept)) c (G e, other_rows pg e)"
    if c: "c \<in> set ?cs" for c e
  proof -
    obtain rid i s t where it: "(i, s, t) \<in> set its" and cc: "c = plan_create POSTGRES rid (table_want r i s t)"
      using made [OF c] new by blast
    have st: "plain_name s" "plain_name t" "(s, t) \<in> tables" using its it by auto
    obtain e' where "pq_execute pg (table_grant_text r s t) e = (e', Inr ())"
      "G e' = insert (r, s, t, ''SELECT'') (G e)" "other_rows pg e' = other_rows pg e"
      using law r(1) st(3) unfolding server_law_def by blast
    moreover have "ch_artifact c = table_want r i s t" by (simp add: cc plan_create_def)
    ultimately show ?thesis
      using create_executes [OF r(2) st(1,2), of pg] artifact_resources(1) [OF st(1,2)] by (simp add: cc)
  qed
  then obtain e1 done_ids where run: "apply_plan (pg_change (Some ?pg)) ?cs e = (e1, done_ids, [])"
    and eff: "(G e1, other_rows pg e1) = fold (\<lambda>c (G, kept). (insert (?g c) G, kept)) ?cs (G e, other_rows pg e)"
    using apply_plan_all [of ?cs "pg_change (Some ?pg)" "\<lambda>e. (G e, other_rows pg e)"
        "\<lambda>c (G, kept). (insert (?g c) G, kept)" e] by blast
  have "?g ` set ?cs = {(r, s, t, ''SELECT'') | i s t. (i, s, t) \<in> set its}" (is "_ = ?W")
  proof -
    let ?h = "\<lambda>a. (r, fst (resource_of a), the (snd (resource_of a)), ''SELECT'')"
    have h: "?h (table_want r i s t) = (r, s, t, ''SELECT'')" if "(i, s, t) \<in> set its" for i s t
      using artifact_resources(1) [of s t r i] its that by auto
    have "?g ` set ?cs = ?h ` set ?new" unfolding arts [symmetric] image_image by (rule refl)
    also have "?h ` set ?new = ?W"
    proof
      show "?h ` set ?new \<subseteq> ?W"
      proof
        fix x assume "x \<in> ?h ` set ?new"
        then obtain a where a: "a \<in> set ?new" "x = ?h a" by (rule imageE)
        obtain i s t where it: "(i, s, t) \<in> set its" "a = table_want r i s t" using new [OF a(1)] by blast
        have "x = (r, s, t, ''SELECT'')" using h [OF it(1)] a(2) it(2) by simp
        then show "x \<in> ?W" using it(1) by blast
      qed
      show "?W \<subseteq> ?h ` set ?new"
      proof
        fix x assume "x \<in> ?W"
        then obtain i s t where it: "(i, s, t) \<in> set its" and x: "x = (r, s, t, ''SELECT'')" by blast
        have "ba_name (table_want r i s t) \<in> ba_name ` set ?as" using it by force
        then obtain a where a: "dict_get (by_name ?as) (ba_name (table_want r i s t)) = Some a" "a \<in> set ?as"
          "ba_name a = ba_name (table_want r i s t)"
          by (rule by_name_some)
        then obtain i' s' t' where it': "(i', s', t') \<in> set its" and a': "a = table_want r i' s' t'" by auto
        have "plain_name s" "plain_name s'" "plain_name t'" using its it it' by auto
        then have "s' = s" "t' = t"
          using a(3) same_table_name [of s' s t' r t] plain_name_facts(4) unfolding a' artifact_names by blast+
        then have "?h a = x" using h [OF it'] by (simp add: a' x)
        moreover have "a \<in> set ?new" using a(1) unfolding set_not_in by auto
        ultimately show "x \<in> ?h ` set ?new" by blast
      qed
    qed
    finally show ?thesis .
  qed
  then have "G e1 = G e \<union> ?W" "other_rows pg e1 = other_rows pg e" using eff unfolding fold_grants by simp_all
  then show ?thesis using plan run by (auto simp: pg_apply_def plan_of_def)
qed

text \<open>What is listed when the managed rows are grants of one role on some tables.\<close>

lemma role_listed:
  assumes law: "server_law pg roles tables G" and r: "starts_with r ''phlo_''" "r \<noteq> []"
    and pre: "cc_managed_prefix context = ''phlo_''"
    and G: "{g \<in> G e. starts_with (fst g) ''phlo_''} = {(r, s, t, ''SELECT'') | s t. (s, t) \<in> W}"
    and W: "W \<subseteq> tables" and rest: "other_rows pg e = (Inr [], Inr [], Inr [])"
  shows "\<exists>rows. list_rows (Some (postgres_backend pg)) e = (e, Inr rows) \<and>
    {a. \<exists>s t. (s, t) \<in> W \<and> a = table_have r s t} \<subseteq> set (pg_observed context rows) \<and>
    (\<forall>s \<in> fst ` W. \<exists>c. wide_have r s c \<in> set (pg_observed context rows)) \<and>
    (\<forall>a \<in> set (pg_observed context rows). (\<exists>s t. (s, t) \<in> W \<and> a = table_have r s t) \<or>
       (\<exists>s \<in> fst ` W. \<exists>c. a = wide_have r s c))"
proof -
  obtain rows where rows: "pq_grants pg None e = Inr rows" "grants_listed (G e) rows"
    using law unfolding server_law_def by blast
  obtain cov where cov: "pq_coverage pg e = Inr cov" "coverage_listed tables (G e) cov"
    using law unfolding server_law_def by blast
  have R: "set rows = {(r, s, t, ''SELECT'') | s t. (s, t) \<in> W}" using rows(2) G by (simp add: grants_listed_def)
  have "{(r', s, p). (\<exists>t. (r', s, t, p) \<in> G e) \<and> (\<exists>t. (s, t) \<in> tables) \<and> starts_with r' ''phlo_''} =
      {(r, s, ''SELECT'') | s. s \<in> fst ` W}" (is "?l = ?r")
  proof
    show "?l \<subseteq> ?r"
    proof (rule subsetI, clarify)
      fix r' s p t assume "(r', s, t, p) \<in> G e" "starts_with r' ''phlo_''"
      then have "(r', s, t, p) \<in> {g \<in> G e. starts_with (fst g) ''phlo_''}" by simp
      then show "\<exists>sa. (r', s, p) = (r, sa, ''SELECT'') \<and> sa \<in> fst ` W" unfolding G by force
    qed
    show "?r \<subseteq> ?l"
    proof (rule subsetI, clarify)
      fix s t assume st: "(s, t) \<in> W"
      then have "(r, s, t, ''SELECT'') \<in> {g \<in> G e. starts_with (fst g) ''phlo_''}" unfolding G by blast
      then show "(\<exists>t'. (r, fst (s, t), t', ''SELECT'') \<in> G e) \<and> (\<exists>t'. (fst (s, t), t') \<in> tables) \<and> starts_with r ''phlo_''"
        using W st r(1) by auto
    qed
  qed
  then have C: "(\<lambda>(r, s, p, complete). (r, s, p)) ` set cov = {(r, s, ''SELECT'') | s. s \<in> fst ` W}"
    using cov(2) by (simp add: coverage_listed_def)
  have one: "\<forall>(g, s, t, p) \<in> set rows. g = r \<and> p = ''SELECT''" using R by auto
  have two: "\<forall>(g, s, p, c) \<in> set cov. g = r \<and> p = ''SELECT'' \<and> s \<in> fst ` W"
  proof (rule ballI, clarify)
    fix g s p c assume "(g, s, p, c) \<in> set cov"
    then have "(g, s, p) \<in> (\<lambda>(r, s, p, complete). (r, s, p)) ` set cov" by force
    then show "g = r \<and> p = ''SELECT'' \<and> s \<in> fst ` W" unfolding C by blast
  qed
  let ?rows = "map (\<lambda>(g, s, t, p). pg_row ''table_grant'' g s t p) rows @
      map (\<lambda>(g, s, p, complete). pg_row ''all_tables'' g s [] p @ [(''complete'', JBool complete)]) cov"
  have obs: "pg_observed context ?rows =
      map (\<lambda>(g, s, t, p). table_have r s t) rows @ map (\<lambda>(g, s, p, c). wide_have r s c) cov"
    by (rule observed_rows_of_role [OF pre r one]) (use two in auto)
  have "list_rows (Some (postgres_backend pg)) e = (e, Inr ?rows)"
    using rows(1) cov(1) rest by (simp add: list_rows_def postgres_backend_def pg_list_policies_def other_rows_def)
  moreover have "table_have r s t \<in> set (pg_observed context ?rows)" if "(s, t) \<in> W" for s t
  proof -
    have "(r, s, t, ''SELECT'') \<in> set rows" using R that by blast
    then show ?thesis unfolding obs by force
  qed
  moreover have "\<exists>c. wide_have r s c \<in> set (pg_observed context ?rows)" if "s \<in> fst ` W" for s
  proof -
    have "(r, s, ''SELECT'') \<in> (\<lambda>(r, s, p, complete). (r, s, p)) ` set cov" using C that by blast
    then obtain c where "(r, s, ''SELECT'', c) \<in> set cov" by auto
    then show ?thesis unfolding obs by force
  qed
  moreover have "(\<exists>s t. (s, t) \<in> W \<and> a = table_have r s t) \<or> (\<exists>s \<in> fst ` W. \<exists>c. a = wide_have r s c)"
    if "a \<in> set (pg_observed context ?rows)" for a
    using that R two unfolding obs by fastforce
  ultimately show ?thesis by (intro exI [of _ ?rows]) blast
qed

text \<open>
  C16: a second PostgreSQL sync takes away all that the first one granted. Take a server as above without any
  managed row, and a model whose policies let one managed role read some tables that exist, each named on its own
  (no wildcard), with plain names. Planning and applying the model grants exactly those tables, and verification
  reports sync. Planning the same model again and applying that plan succeeds too, and leaves none of the
  grants: the listing has, beside the grants, a row for the schema of every granted table, which verification
  passes over as inferred and planning, which goes by names alone, removes by a \<open>REVOKE\<close> on every table of the
  schema. Only the verification after that reports the drift. (Of a model with schema-wide or other grants nothing
  is said here.)
\<close>

theorem postgres_resync_undoes:
  assumes law: "server_law pg roles tables G" and r: "r \<in> roles" "plain_name r" "starts_with r ''phlo_''"
    and pre: "cc_managed_prefix context = ''phlo_''" and its: "its \<noteq> []"
    and named: "\<forall>(i, s, t) \<in> set its. plain_name s \<and> plain_name t \<and> (s, t) \<in> tables"
    and m: "pc_policies (rb_policies m) = map (\<lambda>(i, s, t). table_policy r i s t) its"
    and none: "\<forall>g \<in> G e. \<not> starts_with (fst g) ''phlo_''" "other_rows pg e = (Inr [], Inr [], Inr [])"
  shows "\<exists>plan e1 done v plan2 e2 done2 v2.
    pg_plan ids (Some (postgres_backend pg)) context m e = (e, Inr plan) \<and>
    pg_apply (Some (postgres_backend pg)) plan e = (e1, done, []) \<and>
    G e1 = G e \<union> {(r, s, t, ''SELECT'') | i s t. (i, s, t) \<in> set its} \<and>
    pg_verify (Some (postgres_backend pg)) context m e1 = (e1, Inr v) \<and> vr_in_sync v \<and>
    pg_plan ids (Some (postgres_backend pg)) context m e1 = (e1, Inr plan2) \<and>
    pg_apply (Some (postgres_backend pg)) plan2 e1 = (e2, done2, []) \<and> G e2 = G e \<and>
    pg_verify (Some (postgres_backend pg)) context m e2 = (e2, Inr v2) \<and> \<not> vr_in_sync v2"
proof -
  let ?pg = "postgres_backend pg"
  let ?as = "map (\<lambda>(i, s, t). table_want r i s t) its"
  define W where "W = {(s, t). \<exists>i. (i, s, t) \<in> set its}"
  have plain: "\<forall>(i, s, t) \<in> set its. plain_name s \<and> plain_name t" using named by auto
  have W: "W \<subseteq> tables" "(s, t) \<in> W \<Longrightarrow> plain_name s \<and> plain_name t" for s t using named by (auto simp: W_def)
  note compiled = table_policies_compiled [OF r(2) plain m]
  have "r \<noteq> []" using plain_name_facts(1) [OF r(2)] .
  obtain plan e1 ids1 where one: "pg_plan ids (Some ?pg) context m e = (e, Inr plan)"
    "pg_apply (Some ?pg) plan e = (e1, ids1, [])" "other_rows pg e1 = other_rows pg e"
    "G e1 = G e \<union> {(r, s, t, ''SELECT'') | i s t. (i, s, t) \<in> set its}"
    using first_sync [OF law r(1,2) named m none] by blast
  have G1: "{g \<in> G e1. starts_with (fst g) ''phlo_''} = {(r, s, t, ''SELECT'') | s t. (s, t) \<in> W}"
    using none(1) r(3) by (auto simp: one(4) W_def)
  obtain rows where rows: "list_rows (Some ?pg) e1 = (e1, Inr rows)"
    and tables: "(s, t) \<in> W \<Longrightarrow> table_have r s t \<in> set (pg_observed context rows)"
    and wide: "s \<in> fst ` W \<Longrightarrow> \<exists>c. wide_have r s c \<in> set (pg_observed context rows)"
    and only: "a \<in> set (pg_observed context rows) \<Longrightarrow> (\<exists>s t. (s, t) \<in> W \<and> a = table_have r s t) \<or>
       (\<exists>s \<in> fst ` W. \<exists>c. a = wide_have r s c)" for s t a
    using role_listed [OF law r(3) \<open>r \<noteq> []\<close> pre G1 W(1)] one(3) none(2) by fastforce
  let ?obs = "pg_observed context rows"
  have want: "a \<in> set ?as \<longleftrightarrow> (\<exists>i s t. (i, s, t) \<in> set its \<and> a = table_want r i s t)" for a by force
  have "vr_in_sync (pg_verify_artifacts ?as ?obs)"
  proof -
    have "\<exists>h \<in> set (filter (\<lambda>a. dict_get (ba_metadata a) ''complete'' \<noteq> Some (JBool False)) ?obs). covers h a"
      if a: "a \<in> set ?as" for a
    proof -
      obtain i s t where it: "(i, s, t) \<in> set its" "a = table_want r i s t" using a want by blast
      then have st: "(s, t) \<in> W" by (auto simp: W_def)
      have "s \<noteq> []" using W(2) [OF st] plain_name_facts(1) by blast
      then show ?thesis using tables [OF st] covering [of s] it(2) by (intro bexI [of _ "table_have r s t"]) simp_all
    qed
    moreover have "json_truthy (case dict_get (ba_metadata h) ''inferred'' of None \<Rightarrow> JNull | Some v \<Rightarrow> v) \<or>
        (\<exists>a \<in> set ?as. covers a h)" if h: "h \<in> set ?obs" for h
      using only [OF h]
    proof (elim disjE)
      assume "\<exists>s t. (s, t) \<in> W \<and> h = table_have r s t"
      then obtain i s t where it: "(i, s, t) \<in> set its" and st: "(s, t) \<in> W" "h = table_have r s t"
        by (auto simp: W_def)
      have "s \<noteq> []" using W(2) [OF st(1)] plain_name_facts(1) by blast
      then have "covers (table_want r i s t) h" using covering(2) st(2) by simp
      then show ?thesis using it want by blast
    next
      assume "\<exists>s \<in> fst ` W. \<exists>c. h = wide_have r s c"
      then obtain s c where s: "s \<in> fst ` W" "h = wide_have r s c" by blast
      have "s \<noteq> []" using W(2) s(1) plain_name_facts(1) by fastforce
      then show ?thesis using covering(5) [of s r c] s(2) by simp
    qed
    ultimately show ?thesis by (auto simp: pg_verify_artifacts_def Let_def filter_empty_conv)
  qed
  then have verified: "\<exists>v. pg_verify (Some ?pg) context m e1 = (e1, Inr v) \<and> vr_in_sync v"
    using compiled rows by (simp add: pg_verify_def)
  have kept: "not_in (by_name ?as) (by_name ?obs) = []"
  proof -
    have "ba_name a \<in> ba_name ` set ?obs" if a: "a \<in> set ?as" for a
    proof -
      obtain i s t where it: "(i, s, t) \<in> set its" "a = table_want r i s t" using a want by blast
      then have "table_have r s t \<in> set ?obs" using tables [of s t] by (auto simp: W_def)
      moreover have "ba_name a = ba_name (table_have r s t)" by (simp add: it(2) artifact_names)
      ultimately show ?thesis by simp
    qed
    then show ?thesis unfolding not_in_Nil by blast
  qed
  let ?old = "not_in (by_name ?obs) (by_name ?as)"
  have wide_new: "ba_name (wide_have r s c) \<notin> ba_name ` set ?as" if "s \<in> fst ` W" for s c
  proof
    assume "ba_name (wide_have r s c) \<in> ba_name ` set ?as"
    then obtain i s' t' where it: "(i, s', t') \<in> set its" "ba_name (wide_have r s c) = ba_name (table_want r i s' t')"
      using want by auto
    have "plain_name s" "plain_name s'" "plain_name t'" using W(2) that plain it(1) by fastforce+
    then show False
      using it(2) same_table_name [of s s' "''*''" r t'] star_not_plain [of t'] unfolding artifact_names by simp
  qed
  have old: "a \<in> set ?old \<Longrightarrow> \<exists>s \<in> fst ` W. \<exists>c. a = wide_have r s c" for a
  proof -
    assume "a \<in> set ?old"
    then obtain n where n: "dict_get (by_name ?obs) n = Some a" "n \<notin> ba_name ` set ?as" unfolding set_not_in by blast
    then have a: "a \<in> set ?obs" "ba_name a = n" using by_name_facts [of ?obs] by blast+
    have "\<not> (\<exists>s t. (s, t) \<in> W \<and> a = table_have r s t)"
    proof
      assume "\<exists>s t. (s, t) \<in> W \<and> a = table_have r s t"
      then obtain i s t where "(i, s, t) \<in> set its" "a = table_have r s t" by (auto simp: W_def)
      then have "table_want r i s t \<in> set ?as" "ba_name (table_want r i s t) = n"
        using want a(2) by (blast, simp add: artifact_names)
      then show False using n(2) by blast
    qed
    then show ?thesis using only [OF a(1)] by blast
  qed
  have all_old: "\<exists>c. wide_have r s c \<in> set ?old" if s: "s \<in> fst ` W" for s
  proof -
    obtain c where "wide_have r s c \<in> set ?obs" using wide [OF s] by blast
    then have "ba_name (wide_have r s c) \<in> ba_name ` set ?obs" by blast
    then obtain a where a: "dict_get (by_name ?obs) (ba_name (wide_have r s c)) = Some a" "a \<in> set ?obs"
      "ba_name a = ba_name (wide_have r s c)"
      by (rule by_name_some)
    have "a \<in> set ?old" using a(1) wide_new [OF s, of c] unfolding set_not_in by blast
    moreover from old [OF this] obtain s' c' where s': "s' \<in> fst ` W" "a = wide_have r s' c'" by blast
    moreover have "s' = s"
    proof -
      have "plain_name s" "plain_name s'" using W(2) s s'(1) by fastforce+
      then show ?thesis using a(3) same_table_name [of s' s "''*''" r "''*''"] unfolding s'(2) artifact_names by simp
    qed
    ultimately show ?thesis by blast
  qed
  let ?cs = "map (plan_delete POSTGRES) ?old"
  have plan2: "pg_plan ids (Some ?pg) context m e1 = (e1, Inr (plan_of POSTGRES m ?cs))"
    using compiled rows kept by (simp add: pg_plan_def plan_by_name_def Let_def)
  let ?gone = "\<lambda>c g. fst g = r \<and> fst (snd g) = fst (resource_of (ch_artifact c)) \<and> snd (snd (snd g)) = ''SELECT''"
  have "\<exists>e'. pg_change (Some ?pg) c e = (e', Inr ()) \<and>
      (G e', other_rows pg e') = (\<lambda>c (G, kept). ({x \<in> G. \<not> ?gone c x}, kept)) c (G e, other_rows pg e)"
    if c: "c \<in> set ?cs" for c e
  proof -
    obtain a where "a \<in> set ?old" "c = plan_delete POSTGRES a" using c by auto
    with old obtain s k where s: "s \<in> fst ` W" and cc: "c = plan_delete POSTGRES (wide_have r s k)" by blast
    then obtain t where st: "(s, t) \<in> tables" "plain_name s" using W by fastforce
    obtain e' where "pq_execute pg (schema_revoke r s) e = (e', Inr ())"
      "G e' = {g \<in> G e. \<not> (fst g = r \<and> fst (snd g) = s \<and> snd (snd (snd g)) = ''SELECT'')}"
      "other_rows pg e' = other_rows pg e"
      using law r(1) st(1) unfolding server_law_def by blast
    moreover have "ch_artifact c = wide_have r s k" by (simp add: cc plan_delete_def)
    ultimately show ?thesis
      using delete_executes [OF r(2) st(2), of pg k e] artifact_resources(2) [OF st(2), of r k] by (simp add: cc)
  qed
  then obtain e2 ids2 where run: "apply_plan (pg_change (Some ?pg)) ?cs e1 = (e2, ids2, [])"
    and eff: "(G e2, other_rows pg e2) = fold (\<lambda>c (G, kept). ({x \<in> G. \<not> ?gone c x}, kept)) ?cs (G e1, other_rows pg e1)"
    using apply_plan_all [of ?cs "pg_change (Some ?pg)" "\<lambda>e. (G e, other_rows pg e)"
        "\<lambda>c (G, kept). ({x \<in> G. \<not> ?gone c x}, kept)" e1] by blast
  have G2: "G e2 = {x \<in> G e1. \<forall>c \<in> set ?cs. \<not> ?gone c x}" and rest2: "other_rows pg e2 = (Inr [], Inr [], Inr [])"
    using eff one(3) none(2) unfolding fold_revokes by simp_all
  have "G e2 = G e"
  proof
    show "G e2 \<subseteq> G e"
    proof
      fix x assume x: "x \<in> G e2"
      show "x \<in> G e"
      proof (rule ccontr)
        assume "x \<notin> G e"
        then obtain i s t where it: "(i, s, t) \<in> set its" "x = (r, s, t, ''SELECT'')" using x G2 one(4) by blast
        then have s: "s \<in> fst ` W" by (force simp: W_def)
        then obtain c where "wide_have r s c \<in> set ?old" using all_old by blast
        then have "plan_delete POSTGRES (wide_have r s c) \<in> set ?cs" by simp
        moreover have "?gone (plan_delete POSTGRES (wide_have r s c)) x"
          using plain it artifact_resources(2) [of s r c] by (auto simp: plan_delete_def)
        ultimately show False using x G2 by blast
      qed
    qed
    show "G e \<subseteq> G e2" using none(1) r(3) by (auto simp: G2 one(4))
  qed
  moreover have "\<exists>v. pg_verify (Some ?pg) context m e2 = (e2, Inr v) \<and> \<not> vr_in_sync v"
  proof -
    have "list_rows (Some ?pg) e2 = (e2, Inr [])"
      by (rule nothing_listed [OF law _ rest2]) (use none(1) calculation in simp)
    then have "pg_verify (Some ?pg) context m e2 = (e2, Inr (pg_verify_artifacts ?as []))"
      using compiled by (simp add: pg_verify_def pg_observed_def map_filter_simps)
    moreover have "\<not> vr_in_sync (pg_verify_artifacts ?as [])"
      using its by (simp add: pg_verify_artifacts_def Let_def)
    ultimately show ?thesis by blast
  qed
  moreover have "pg_apply (Some ?pg) (plan_of POSTGRES m ?cs) e1 = (e2, ids2, [])"
    using run by (simp add: pg_apply_def plan_of_def)
  ultimately show ?thesis using one verified plan2 by blast
qed

text \<open>A server with one managed role and two tables, which keeps the list of grants.\<close>

definition example_tables :: "(string \<times> string) list" where
  "example_tables = [(''sales'', ''orders''), (''sales'', ''lines'')]"

definition example_execute :: "string \<Rightarrow> table_grant list \<Rightarrow> table_grant list \<times> unit res" where
  "example_execute statement e =
     (case List.find (\<lambda>(s, t). statement = table_grant_text ''phlo_analyst'' s t) example_tables of
        Some (s, t) \<Rightarrow> (List.insert (''phlo_analyst'', s, t, ''SELECT'') e, Inr ())
      | None \<Rightarrow>
          (case List.find (\<lambda>(s, t). statement = schema_revoke ''phlo_analyst'' s) example_tables of
             Some (s, t) \<Rightarrow>
               (filter (\<lambda>g. \<not> (fst g = ''phlo_analyst'' \<and> fst (snd g) = s \<and> snd (snd (snd g)) = ''SELECT'')) e, Inr ())
           | None \<Rightarrow> (e, Inl (RuntimeError statement))))"

definition example_server :: "table_grant list postgres" where
  "example_server =
     \<lparr>pq_ping = \<lambda>e. Inr True, pq_grants = \<lambda>t e. Inr (filter (\<lambda>g. starts_with (fst g) ''phlo_'') (remdups e)),
      pq_coverage = \<lambda>e. Inr (map (\<lambda>(r, s, p). (r, s, p,
          list_all (\<lambda>(s', t). s' = s \<longrightarrow> (r, s, t, p) \<in> set e) example_tables))
        (remdups (map (\<lambda>(r, s, t, p). (r, s, p))
          (filter (\<lambda>g. starts_with (fst g) ''phlo_'' \<and> fst (snd g) \<in> set (map fst example_tables)) e)))),
      pq_usage = \<lambda>e. Inr [], pq_defaults = \<lambda>e. Inr [], pq_memberships = \<lambda>e. Inr [],
      pq_table_privilege = \<lambda>r t p e. Inr None, pq_execute = example_execute\<rparr>"

lemma example_server_law: "server_law example_server {''phlo_analyst''} (set example_tables) set"
proof -
  have texts: "table_grant_text ''phlo_analyst'' ''sales'' ''orders'' \<noteq> table_grant_text ''phlo_analyst'' ''sales'' ''lines''"
    "schema_revoke ''phlo_analyst'' ''sales'' \<noteq> table_grant_text ''phlo_analyst'' ''sales'' ''orders''"
    "schema_revoke ''phlo_analyst'' ''sales'' \<noteq> table_grant_text ''phlo_analyst'' ''sales'' ''lines''"
    by code_simp+
  have execute: "(s, t) \<in> set example_tables \<Longrightarrow>
      example_execute (table_grant_text ''phlo_analyst'' s t) e = (List.insert (''phlo_analyst'', s, t, ''SELECT'') e, Inr ()) \<and>
      example_execute (schema_revoke ''phlo_analyst'' s) e =
        (filter (\<lambda>g. \<not> (fst g = ''phlo_analyst'' \<and> fst (snd g) = s \<and> snd (snd (snd g)) = ''SELECT'')) e, Inr ())" for s t e
    using texts by (auto simp: example_execute_def example_tables_def)
  have coverage: "coverage_listed (set example_tables) (set e) (map (\<lambda>(r, s, p). (r, s, p,
          list_all (\<lambda>(s', t). s' = s \<longrightarrow> (r, s, t, p) \<in> set e) example_tables))
        (remdups (map (\<lambda>(r, s, t, p). (r, s, p))
          (filter (\<lambda>g. starts_with (fst g) ''phlo_'' \<and> fst (snd g) \<in> set (map fst example_tables)) e))))"
    (is "coverage_listed _ _ (map ?row (remdups ?keys))") for e
  proof -
    have "map (\<lambda>(r, s, p, complete). (r, s, p)) (map ?row (remdups ?keys)) = remdups ?keys"
      by (simp add: map_idI case_prod_beta)
    moreover from this have "(\<lambda>(r, s, p, complete). (r, s, p)) ` set (map ?row (remdups ?keys)) = set ?keys"
      by (metis set_map set_remdups)
    moreover have "set ?keys = {(r, s, p). (\<exists>t. (r, s, t, p) \<in> set e) \<and> (\<exists>t. (s, t) \<in> set example_tables) \<and>
        starts_with r ''phlo_''}"
      by force
    ultimately show ?thesis by (simp add: coverage_listed_def)
  qed
  show ?thesis
    unfolding server_law_def
    using execute coverage by (auto simp: example_server_def grants_listed_def other_rows_def)
qed

lemma postgres_resync_undoes_witness:
  "\<exists>plan e1 done plan2 e2 done2.
     pg_plan (\<lambda>k. ''0'') (Some (postgres_backend example_server)) (make_context ''dev'' ''postgres'' False)
       (example_rule_model [table_policy ''phlo_analyst'' ''p1'' ''sales'' ''orders'']) [] = ([], Inr plan) \<and>
     pg_apply (Some (postgres_backend example_server)) plan [] = (e1, done, []) \<and>
     set e1 = {(''phlo_analyst'', ''sales'', ''orders'', ''SELECT'')} \<and>
     pg_plan (\<lambda>k. ''0'') (Some (postgres_backend example_server)) (make_context ''dev'' ''postgres'' False)
       (example_rule_model [table_policy ''phlo_analyst'' ''p1'' ''sales'' ''orders'']) e1 = (e1, Inr plan2) \<and>
     pg_apply (Some (postgres_backend example_server)) plan2 e1 = (e2, done2, []) \<and> e2 = []"
proof -
  have names: "plain_name ''phlo_analyst''" "starts_with ''phlo_analyst'' ''phlo_''" "plain_name ''sales''" "plain_name ''orders''"
    by code_simp+
  have there: "(''sales'', ''orders'') \<in> set example_tables" by (simp add: example_tables_def)
  have m: "pc_policies (rb_policies (example_rule_model [table_policy ''phlo_analyst'' ''p1'' ''sales'' ''orders''])) =
      map (\<lambda>(i, s, t). table_policy ''phlo_analyst'' i s t) [(''p1'', ''sales'', ''orders'')]"
    by (simp add: example_rule_model_def)
  have "other_rows example_server [] = (Inr [], Inr [], Inr [])" by (simp add: other_rows_def example_server_def)
  from postgres_resync_undoes [OF example_server_law _ names(1,2) _ _ _ m _ this, of "make_context ''dev'' ''postgres'' False"
      "\<lambda>k. ''0''"]
  show ?thesis using names there by (simp add: make_context_def) blast
qed

end
