(* ===== verification/Run_Evidence_Models.thy ===== *)
theory Run_Evidence_Models
  imports Phlo_Text
begin

text \<open>
  \<open>phlo/run_evidence/models.py\<close> and \<open>stored.py\<close>: the status vocabulary, the records producers write and
  the rows reconciliation reads. Times are whole microseconds since the epoch. Of a record the fields
  are kept that the store or reconciliation reads; the rest of it is part of its checksum alone.
\<close>

section \<open>Status and completeness\<close>

datatype run_status =
    RS_UNKNOWN | RS_OBSERVED | RS_UNSUPPORTED | RS_INCOMPLETE | RS_QUEUED | RS_NOT_STARTED | RS_STARTING
  | RS_STARTED | RS_START | RS_RUNNING | RS_CANCELING | RS_SUCCESS | RS_FAILED | RS_ERROR | RS_CANCELLED
  | RS_SKIPPED | RS_NO_DATA | RS_ABANDONED

fun status_text :: "run_status \<Rightarrow> string" where
  "status_text RS_UNKNOWN = ''unknown''"
| "status_text RS_OBSERVED = ''observed''"
| "status_text RS_UNSUPPORTED = ''unsupported''"
| "status_text RS_INCOMPLETE = ''incomplete''"
| "status_text RS_QUEUED = ''queued''"
| "status_text RS_NOT_STARTED = ''not_started''"
| "status_text RS_STARTING = ''starting''"
| "status_text RS_STARTED = ''started''"
| "status_text RS_START = ''start''"
| "status_text RS_RUNNING = ''running''"
| "status_text RS_CANCELING = ''canceling''"
| "status_text RS_SUCCESS = ''success''"
| "status_text RS_FAILED = ''failed''"
| "status_text RS_ERROR = ''error''"
| "status_text RS_CANCELLED = ''cancelled''"
| "status_text RS_SKIPPED = ''skipped''"
| "status_text RS_NO_DATA = ''no_data''"
| "status_text RS_ABANDONED = ''abandoned''"

definition RUN_STATUSES :: "run_status list" where
  "RUN_STATUSES =
     [RS_UNKNOWN, RS_OBSERVED, RS_UNSUPPORTED, RS_INCOMPLETE, RS_QUEUED, RS_NOT_STARTED, RS_STARTING,
      RS_STARTED, RS_START, RS_RUNNING, RS_CANCELING, RS_SUCCESS, RS_FAILED, RS_ERROR, RS_CANCELLED,
      RS_SKIPPED, RS_NO_DATA, RS_ABANDONED]"

definition status_aliases :: "(string, string) dict" where
  "status_aliases =
     [(''canceled'', ''cancelled''), (''failure'', ''failed''), (''succeeded'', ''success'')]"

definition status_parse :: "string \<Rightarrow> run_status res" where
  "status_parse s =
     (let normalized = py_lower (py_strip s);
          name = (case dict_get status_aliases normalized of None \<Rightarrow> normalized | Some t \<Rightarrow> t)
      in case find (\<lambda>st. status_text st = name) RUN_STATUSES of
           Some st \<Rightarrow> Inr st
         | None \<Rightarrow> Inl (ValueError (py_repr name @ '' is not a valid RunStatus'')))"

datatype completeness = EC_COMPLETE | EC_INCOMPLETE | EC_MISSING | EC_EXPIRED | EC_REDACTED

fun completeness_text :: "completeness \<Rightarrow> string" where
  "completeness_text EC_COMPLETE = ''complete''"
| "completeness_text EC_INCOMPLETE = ''incomplete''"
| "completeness_text EC_MISSING = ''missing''"
| "completeness_text EC_EXPIRED = ''expired''"
| "completeness_text EC_REDACTED = ''redacted''"

definition completeness_of :: "string \<Rightarrow> completeness option" where
  "completeness_of s =
     find (\<lambda>c. completeness_text c = s) [EC_COMPLETE, EC_INCOMPLETE, EC_MISSING, EC_EXPIRED, EC_REDACTED]"

lemma completeness_text_inject [simp]: "completeness_text a = completeness_text b \<longleftrightarrow> a = b"
  by (cases a; cases b; simp)

lemma status_parse_text [simp]: "status_parse (status_text st) = Inr st"
proof -
  have "list_all (\<lambda>st. status_parse (status_text st) = Inr st) RUN_STATUSES" by code_simp
  moreover have "st \<in> set RUN_STATUSES" by (cases st) (simp_all add: RUN_STATUSES_def)
  ultimately show ?thesis by (simp add: list_all_iff)
qed

lemma status_text_inject [simp]: "status_text a = status_text b \<longleftrightarrow> a = b"
  by (metis status_parse_text sum.inject(2))

section \<open>Records\<close>

record evidence_ref =
  xr_resource_type :: string
  xr_resource_id :: string
  xr_tenant :: "string option"
  xr_attributes :: "(string, string) dict"

definition positive_attempt :: "int \<Rightarrow> int res" where
  "positive_attempt n = (if n \<le> 0 then Inl (ValueError ''attempt must be a positive integer'') else Inr n)"

definition validate_resource_ref :: "evidence_ref option \<Rightarrow> string \<Rightarrow> unit res" where
  "validate_resource_ref ref project_id =
     (case ref of
        None \<Rightarrow> Inr ()
      | Some r \<Rightarrow>
          (if py_strip (xr_resource_type r) = [] \<or> py_strip (xr_resource_id r) = []
           then Inl (ValueError ''resource_ref requires non-empty resource_type and resource_id'')
           else if xr_tenant r \<noteq> Some project_id
           then Inl (ValueError ''resource_ref tenant must match the evidence project_id'')
           else Inr ()))"

record pipeline_run =
  pl_project_id :: string
  pl_run_id :: string
  pl_pipeline_name :: "string option"
  pl_provider_run_id :: "string option"
  pl_trigger :: "string option"
  pl_initiator :: "string option"
  pl_effective_identity :: "string option"
  pl_partition_key :: "string option"
  pl_code_version :: "string option"
  pl_config_version :: "string option"
  pl_attempt :: int
  pl_trace_id :: "string option"
  pl_status :: run_status
  pl_started_at :: "int option"
  pl_finished_at :: "int option"
  pl_failure_summary :: "string option"
  pl_evidence_completeness :: completeness

record run_event =
  re_project_id :: string
  re_run_id :: string
  re_event_id :: string
  re_event_type :: string
  re_producer :: string
  re_payload :: "(string, json) dict"
  re_stage_id :: "string option"
  re_schema_version :: string
  re_observed_at :: int
  re_sequence :: "int option"
  re_attempt :: int
  re_resource_ref :: "evidence_ref option"

record run_stage =
  st_project_id :: string
  st_run_id :: string
  st_stage_id :: string
  st_stage_type :: string
  st_provider :: "string option"
  st_tool :: "string option"
  st_asset :: "string option"
  st_attempt :: int
  st_status :: run_status
  st_started_at :: "int option"
  st_finished_at :: "int option"
  st_metrics :: "(string, json) dict"
  st_error :: "string option"
  st_resource_ref :: "evidence_ref option"

text \<open>
  The constructors: \<open>status\<close> is the text a caller passes, the other fields those of a record whose status
  is not looked at.
\<close>

definition new_pipeline_run :: "pipeline_run \<Rightarrow> string \<Rightarrow> pipeline_run res" where
  "new_pipeline_run r status =
     bind_res (positive_attempt (pl_attempt r)) (\<lambda>_.
     bind_res (status_parse status) (\<lambda>st. Inr (r\<lparr>pl_status := st\<rparr>)))"

definition new_run_event :: "run_event \<Rightarrow> run_event res" where
  "new_run_event e =
     bind_res (positive_attempt (re_attempt e)) (\<lambda>_.
     bind_res (validate_resource_ref (re_resource_ref e) (re_project_id e)) (\<lambda>_. Inr e))"

definition new_run_stage :: "run_stage \<Rightarrow> string \<Rightarrow> run_stage res" where
  "new_run_stage s status =
     bind_res (positive_attempt (st_attempt s)) (\<lambda>_.
     bind_res (status_parse status) (\<lambda>st.
     bind_res (validate_resource_ref (st_resource_ref s) (st_project_id s)) (\<lambda>_. Inr (s\<lparr>st_status := st\<rparr>))))"

section \<open>Stored rows\<close>

record event_payload =
  pay_status :: "run_status option"
  pay_run_status :: "run_status option"
  pay_no_data :: bool
  pay_stage_id :: "string option"

record stored_event =
  se_event_id :: string
  se_producer :: string
  se_event_type :: string
  se_schema_version :: string
  se_stage_id :: "string option"
  se_observed_at :: int
  se_sequence :: "int option"
  se_attempt :: int
  se_payload :: event_payload
  se_payload_checksum :: string

record stored_stage =
  ss_stage_id :: string
  ss_stage_type :: string
  ss_provider :: "string option"
  ss_tool :: "string option"
  ss_asset :: "string option"
  ss_attempt :: int
  ss_status :: run_status
  ss_started_at :: "int option"
  ss_finished_at :: "int option"
  ss_metrics :: "(string, json) dict"
  ss_error :: "string option"
  ss_record_checksum :: string

text \<open>The families of records, each with the fields reconciliation reads.\<close>

datatype evidence_family =
    FResource
  | FQualityResult bool
  | FCatalogChange "string option"
  | FArtifact completeness "int option" bool

record stored_evidence =
  er_record_id :: string
  er_record_checksum :: string
  er_completeness :: "completeness option"
  er_family :: evidence_family

fun evidence_status :: "evidence_family \<Rightarrow> string option" where
  "evidence_status FResource = None"
| "evidence_status (FQualityResult passed) = Some (if passed then ''passed'' else ''failed'')"
| "evidence_status (FCatalogChange merge_outcome) = merge_outcome"
| "evidence_status (FArtifact status expires_at legal_hold) = Some (completeness_text status)"

text \<open>The payload of an event as it is read back. The list of the fields at fault is left out of the message.\<close>

definition invalid_row :: "string \<Rightarrow> py_error" where
  "invalid_row model = InvalidRunEvidence (''invalid '' @ model @ '' fields'')"

definition payload_status :: "(string, json) dict \<Rightarrow> string \<Rightarrow> run_status option res" where
  "payload_status d k =
     (case dict_get d k of
        None \<Rightarrow> Inr None
      | Some JNull \<Rightarrow> Inr None
      | Some (JStr s) \<Rightarrow> (case status_parse s of Inr st \<Rightarrow> Inr (Some st) | Inl _ \<Rightarrow> Inl (invalid_row ''StoredEvent''))
      | Some _ \<Rightarrow> Inl (invalid_row ''StoredEvent''))"

definition parse_payload :: "(string, json) dict \<Rightarrow> event_payload res" where
  "parse_payload d =
     bind_res (payload_status d ''status'') (\<lambda>status.
     bind_res (payload_status d ''run_status'') (\<lambda>run_status.
     bind_res (case dict_get d ''no_data'' of
                 None \<Rightarrow> Inr False | Some (JBool b) \<Rightarrow> Inr b | Some _ \<Rightarrow> Inl (invalid_row ''StoredEvent'')) (\<lambda>no_data.
     bind_res (case dict_get d ''stage_id'' of
                 None \<Rightarrow> Inr None | Some JNull \<Rightarrow> Inr None | Some (JStr s) \<Rightarrow> Inr (Some s)
               | Some _ \<Rightarrow> Inl (invalid_row ''StoredEvent'')) (\<lambda>stage_id.
       Inr \<lparr>pay_status = status, pay_run_status = run_status, pay_no_data = no_data, pay_stage_id = stage_id\<rparr>))))"

end
