(* ===== verification/Run_Reconciliation.thy ===== *)
theory Run_Reconciliation
  imports Run_Evidence_Models
begin

text \<open>
  \<open>phlo/run_evidence/reconciliation.py\<close>: what a profile requires of a run, and the verdict over one
  observation of the provider and the stored rows. \<open>isof\<close> is \<open>datetime.isoformat\<close> and \<open>checksum\<close> is
  \<open>payload_checksum\<close>, both on the values it is given here.
\<close>

section \<open>Requirements and observations\<close>

definition TERMINAL_STATUSES :: "run_status list" where
  "TERMINAL_STATUSES = [RS_SUCCESS, RS_FAILED, RS_ERROR, RS_CANCELLED, RS_SKIPPED, RS_NO_DATA, RS_ABANDONED]"

definition NONTERMINAL_STATUSES :: "run_status list" where
  "NONTERMINAL_STATUSES = [RS_QUEUED, RS_NOT_STARTED, RS_STARTING, RS_STARTED, RS_RUNNING, RS_CANCELING]"

definition DEFAULT_CLOCK_SKEW :: int where
  "DEFAULT_CLOCK_SKEW = 60000000"

fun evidence_precedence :: "completeness \<Rightarrow> nat" where
  "evidence_precedence EC_COMPLETE = 0"
| "evidence_precedence EC_INCOMPLETE = 0"
| "evidence_precedence EC_MISSING = 1"
| "evidence_precedence EC_EXPIRED = 2"
| "evidence_precedence EC_REDACTED = 3"

datatype lookup_outcome = PRESENT | ABSENT

record required_stage =
  rq_stage_type :: string
  rq_provider :: "string option"
  rq_required_event_types :: "string list"
  rq_required_status :: "string option"
  rq_allowed_statuses :: "string list"
  rq_allow_no_data :: bool

definition check_required_stage :: "required_stage \<Rightarrow> unit res" where
  "check_required_stage r =
     (if py_strip (rq_stage_type r) = [] then Inl (ValueError ''stage_type must be a stable non-empty identifier'')
      else if str_truthy (rq_required_status r) \<and> rq_allowed_statuses r \<noteq> []
      then Inl (ValueError ''required_status and allowed_statuses are mutually exclusive'')
      else Inr ())"

record required_record =
  rc_family :: string
  rc_minimum :: int
  rc_required_status :: "string option"

definition RECORD_FAMILIES :: "string list" where
  "RECORD_FAMILIES = [''resource'', ''catalog_change'', ''quality_result'', ''artifact'']"

definition family_statuses :: "(string, string list) dict" where
  "family_statuses =
     [(''artifact'', [''complete'', ''incomplete'', ''missing'', ''expired'', ''redacted'']),
      (''quality_result'', [''passed'', ''failed'']),
      (''catalog_change'', [''merged'', ''failed'', ''conflict'', ''skipped'', ''cancelled''])]"

definition check_required_record :: "required_record \<Rightarrow> unit res" where
  "check_required_record r =
     (if rc_family r \<notin> set RECORD_FAMILIES then Inl (ValueError ''unsupported required evidence record family'')
      else if rc_minimum r \<le> 0 then Inl (ValueError ''minimum required evidence must be positive'')
      else case rc_required_status r of
             None \<Rightarrow> Inr ()
           | Some s \<Rightarrow>
               (case dict_get family_statuses (rc_family r) of
                  None \<Rightarrow> Inl (ValueError ''resource records do not expose a supported required status'')
                | Some allowed \<Rightarrow>
                    (if py_lower (py_strip s) \<notin> set allowed
                     then Inl (ValueError (''unsupported required status '' @ py_repr s @ '' for '' @ rc_family r))
                     else Inr ())))"

record evidence_profile =
  pf_profile_id :: string
  pf_version :: string
  pf_pipeline_name :: "string option"
  pf_provider :: "string option"
  pf_stages :: "required_stage list"
  pf_run_terminal_event_types :: "string list"
  pf_required_run_fields :: "string list"
  pf_required_records :: "required_record list"

definition check_profile :: "evidence_profile \<Rightarrow> unit res" where
  "check_profile p =
     (if py_strip (pf_profile_id p) = [] \<or> py_strip (pf_version p) = []
      then Inl (ValueError ''profile_id and version must be non-empty'') else Inr ())"

record run_observation =
  ob_project_id :: string
  ob_run_id :: string
  ob_attempt :: int
  ob_pipeline_name :: "string option"
  ob_provider :: "string option"
  ob_provider_run_id :: "string option"
  ob_status :: "run_status option"
  ob_started_at :: "int option"
  ob_finished_at :: "int option"
  ob_heartbeat_at :: "int option"
  ob_source :: string
  ob_events :: "run_event list"
  ob_stages :: "run_stage list"
  ob_evidence_state :: "completeness option"
  ob_lookup_outcome :: lookup_outcome

definition normalize_status :: "string option \<Rightarrow> run_status option" where
  "normalize_status status =
     (case status of
        None \<Rightarrow> None
      | Some s \<Rightarrow> (case status_parse s of Inr st \<Rightarrow> Some st | Inl _ \<Rightarrow> Some RS_UNSUPPORTED))"

definition new_run_observation :: "run_observation \<Rightarrow> string option \<Rightarrow> run_observation res" where
  "new_run_observation ob status =
     (if py_strip (ob_project_id ob) = [] \<or> py_strip (ob_run_id ob) = []
      then Inl (ValueError ''project_id and run_id must be non-empty'')
      else if ob_attempt ob \<le> 0 then Inl (ValueError ''attempt must be positive'')
      else Inr (ob\<lparr>ob_status := normalize_status status\<rparr>))"

record reconciliation_decision =
  rd_decision_id :: string
  rd_project_id :: string
  rd_run_id :: string
  rd_attempt :: int
  rd_profile_id :: string
  rd_profile_version :: string
  rd_status :: run_status
  rd_evidence_completeness :: completeness
  rd_reason :: string
  rd_missing_evidence :: "string list"
  rd_evidence_checksum :: string
  rd_observed_event_count :: nat
  rd_source :: string
  rd_heartbeat_at :: "int option"
  rd_stale_after_seconds :: "int option"
  rd_decided_at :: int
  rd_finished_at :: "int option"

section \<open>Events and states\<close>

text \<open>\<open>max\<close> with a default: the first of the strongest states given.\<close>

definition strongest_evidence_state :: "completeness option list \<Rightarrow> completeness option" where
  "strongest_evidence_state states =
     (case List.map_filter id states of
        [] \<Rightarrow> None
      | s # ss \<Rightarrow> Some (fold (\<lambda>x best. if evidence_precedence x > evidence_precedence best then x else best) ss s))"

definition event_is_no_data :: "stored_event \<Rightarrow> bool" where
  "event_is_no_data e \<longleftrightarrow>
     se_event_type e \<in> {''run.no_data'', ''pipeline.no_data''} \<or> pay_no_data (se_payload e)"

definition event_status :: "stored_event \<Rightarrow> run_status option" where
  "event_status e =
     (case pay_status (se_payload e) of None \<Rightarrow> pay_run_status (se_payload e) | Some st \<Rightarrow> Some st)"

definition event_stage :: "stored_event \<Rightarrow> string option" where
  "event_stage e =
     (if str_truthy (se_stage_id e) then se_stage_id e
      else if str_truthy (pay_stage_id (se_payload e)) then pay_stage_id (se_payload e) else None)"

text \<open>The index \<open>event_statuses\<close>: the statuses of the events of one type and stage.\<close>

definition event_statuses :: "stored_event list \<Rightarrow> string \<Rightarrow> string option \<Rightarrow> run_status option list" where
  "event_statuses events event_type stage_id =
     map event_status (filter (\<lambda>e. se_event_type e = event_type \<and> event_stage e = stage_id) events)"

definition is_terminal :: "run_status option \<Rightarrow> bool" where
  "is_terminal st \<longleftrightarrow> (case st of None \<Rightarrow> False | Some s \<Rightarrow> s \<in> set TERMINAL_STATUSES)"

definition degraded :: "completeness option \<Rightarrow> bool" where
  "degraded st \<longleftrightarrow> st \<in> {Some EC_MISSING, Some EC_EXPIRED, Some EC_REDACTED}"

section \<open>Gaps\<close>

definition event_timing_gaps :: "stored_event list \<Rightarrow> int \<Rightarrow> int \<Rightarrow> stored_stage list \<Rightarrow> string list" where
  "event_timing_gaps events now clock_skew stages =
     concat (map (\<lambda>e. if se_observed_at e > now + clock_skew
                      then [''event:'' @ se_event_id e @ '':timestamp_in_future''] else []) events) @
     concat (map (\<lambda>s. let later = (\<lambda>t. case t of None \<Rightarrow> False | Some t \<Rightarrow> t > now + clock_skew) in
        (if later (ss_started_at s) then [''stage:'' @ ss_stage_id s @ '':started_at_in_future''] else []) @
        (if later (ss_finished_at s) then [''stage:'' @ ss_stage_id s @ '':finished_at_in_future''] else []) @
        (case (ss_started_at s, ss_finished_at s) of
           (Some started, Some finished) \<Rightarrow>
             if finished < started then [''stage:'' @ ss_stage_id s @ '':finished_before_started''] else []
         | _ \<Rightarrow> [])) stages)"

text \<open>Whether the field of the observation is \<open>None\<close> or the empty text; another name is \<open>None\<close>.\<close>

definition run_field_blank :: "run_observation \<Rightarrow> string \<Rightarrow> bool" where
  "run_field_blank ob field_name =
     (let blank = (\<lambda>s. \<not> str_truthy s) in
      if field_name = ''status'' then ob_status ob = None
      else if field_name = ''started_at'' then ob_started_at ob = None
      else if field_name = ''finished_at'' then ob_finished_at ob = None
      else if field_name = ''provider_run_id'' then blank (ob_provider_run_id ob)
      else if field_name = ''pipeline_name'' then blank (ob_pipeline_name ob)
      else if field_name = ''provider'' then blank (ob_provider ob)
      else True)"

definition terminal_events :: "stored_event list \<Rightarrow> evidence_profile \<Rightarrow> stored_event list" where
  "terminal_events events profile =
     filter (\<lambda>e. se_event_type e \<in> set (pf_run_terminal_event_types profile)) events"

definition run_terminal_gaps :: "stored_event list \<Rightarrow> evidence_profile \<Rightarrow> run_status option \<Rightarrow> bool \<Rightarrow> run_observation
    \<Rightarrow> string list" where
  "run_terminal_gaps events profile status no_data ob =
     (if \<not> is_terminal status then []
      else
        (if terminal_events events profile = [] \<and> \<not> (status = Some RS_NO_DATA \<and> no_data)
         then map (\<lambda>t. ''event:'' @ t) (pf_run_terminal_event_types profile) else []) @
        (if \<exists>e \<in> set (terminal_events events profile). event_status e \<noteq> None \<and> event_status e \<noteq> status
         then [''event:contradictory_run_terminal_status''] else []) @
        map (\<lambda>f. ''run:'' @ f) (filter (run_field_blank ob) (pf_required_run_fields profile)))"

definition matching_stages :: "stored_stage list \<Rightarrow> required_stage \<Rightarrow> stored_stage list" where
  "matching_stages stages r =
     filter (\<lambda>s. ss_stage_type s = rq_stage_type r \<and>
       (rq_provider r = None \<or> ss_provider s = rq_provider r)) stages"

definition expected_statuses :: "required_stage \<Rightarrow> string list" where
  "expected_statuses r =
     (if rq_allowed_statuses r \<noteq> [] then rq_allowed_statuses r
      else case rq_required_status r of None \<Rightarrow> [] | Some s \<Rightarrow> if s = [] then [] else [s])"

definition normalized_expected :: "required_stage \<Rightarrow> run_status option list" where
  "normalized_expected r = map (\<lambda>s. normalize_status (Some s)) (expected_statuses r)"

definition event_satisfied :: "stored_event list \<Rightarrow> stored_stage list \<Rightarrow> run_status option list \<Rightarrow> string \<Rightarrow> bool" where
  "event_satisfied events matching expected event_type =
     (let statuses = concat (map (\<lambda>s. event_statuses events event_type (Some (ss_stage_id s))) matching) @
            (if length matching = 1 then event_statuses events event_type None else [])
      in statuses \<noteq> [] \<and>
         (expected = [] \<or> (\<exists>st \<in> set statuses. st \<in> set expected) \<or>
          (None \<in> set statuses \<and> length matching = 1 \<and> Some (ss_status (hd matching)) \<in> set expected)))"

definition stage_gaps_of :: "stored_stage list \<Rightarrow> bool \<Rightarrow> stored_event list \<Rightarrow> required_stage \<Rightarrow> string list" where
  "stage_gaps_of stages no_data events r =
     (let matching = matching_stages stages r; waived = (no_data \<and> rq_allow_no_data r);
          expected = normalized_expected r
      in if matching = [] \<and> \<not> waived then [''stage:'' @ rq_stage_type r]
         else
           (if expected_statuses r \<noteq> [] \<and> matching \<noteq> [] \<and>
               \<not> (\<exists>s \<in> set matching. Some (ss_status s) \<in> set expected)
            then [''stage_status:'' @ rq_stage_type r @ ''='' @ str_join ''|'' (expected_statuses r)] else []) @
           map (\<lambda>t. ''event:'' @ t)
             (filter (\<lambda>t. \<not> event_satisfied events matching expected t \<and> \<not> waived) (rq_required_event_types r)))"

definition stage_gaps :: "evidence_profile \<Rightarrow> stored_stage list \<Rightarrow> bool \<Rightarrow> stored_event list \<Rightarrow> string list" where
  "stage_gaps profile stages no_data events = concat (map (stage_gaps_of stages no_data events) (pf_stages profile))"

type_synonym record_rows = "(string, stored_evidence list) dict"

definition rows_of :: "record_rows \<Rightarrow> string \<Rightarrow> stored_evidence list" where
  "rows_of rows family = (case dict_get rows family of None \<Rightarrow> [] | Some rs \<Rightarrow> rs)"

definition artifact_expired :: "int \<Rightarrow> stored_evidence \<Rightarrow> bool" where
  "artifact_expired now row =
     (case er_family row of
        FArtifact status (Some expires_at) legal_hold \<Rightarrow> expires_at \<le> now \<and> status \<noteq> EC_REDACTED \<and> \<not> legal_hold
      | _ \<Rightarrow> False)"

definition row_statuses :: "stored_evidence list \<Rightarrow> string option list" where
  "row_statuses rows = map (\<lambda>row. evidence_status (er_family row)) rows"

definition record_gaps_of :: "record_rows \<Rightarrow> int \<Rightarrow> required_record \<Rightarrow> completeness option list \<times> string list" where
  "record_gaps_of record_rows now r =
     (let rows = rows_of record_rows (rc_family r); states = row_statuses rows;
          expired = (if rc_family r = ''artifact'' then filter (artifact_expired now) rows else [])
      in ((if Some ''redacted'' \<in> set states then [Some EC_REDACTED]
           else if Some ''expired'' \<in> set states then [Some EC_EXPIRED]
           else if Some ''missing'' \<in> set states then [Some EC_MISSING] else []) @
          map (\<lambda>_. Some EC_EXPIRED) expired,
          (if int (length rows) < rc_minimum r then [rc_family r @ '':minimum:'' @ int_str (rc_minimum r)] else []) @
          (case rc_required_status r of
             None \<Rightarrow> []
           | Some s \<Rightarrow>
               if s \<noteq> [] \<and> Some (py_lower (py_strip s)) \<notin> set states then [rc_family r @ '':status:'' @ s] else []) @
          map (\<lambda>_. rc_family r @ '':incomplete'') (filter (\<lambda>row. er_completeness row = Some EC_INCOMPLETE) rows) @
          map (\<lambda>_. ''artifact:expired'') expired))"

definition record_gaps :: "evidence_profile \<Rightarrow> record_rows \<Rightarrow> int \<Rightarrow> completeness option list \<times> string list" where
  "record_gaps profile rows now =
     (let gaps = map (record_gaps_of rows now) (pf_required_records profile)
      in (concat (map fst gaps), concat (map snd gaps)))"

section \<open>Timing and outcome\<close>

record run_timing =
  tm_missing :: "string list"
  tm_invalid_heartbeat :: bool
  tm_future_endpoint :: bool

definition run_timing_gaps :: "int \<Rightarrow> int \<Rightarrow> run_observation \<Rightarrow> int option \<Rightarrow> run_timing" where
  "run_timing_gaps now clock_skew ob heartbeat =
     (let later = (\<lambda>t. case t of None \<Rightarrow> False | Some t \<Rightarrow> t > now + clock_skew);
          invalid_timing = (case (ob_started_at ob, ob_finished_at ob) of
             (Some s, Some f) \<Rightarrow> f < s | _ \<Rightarrow> False);
          invalid_heartbeat = (case heartbeat of
             None \<Rightarrow> False
           | Some h \<Rightarrow> h > now + clock_skew \<or> (case ob_started_at ob of None \<Rightarrow> False | Some s \<Rightarrow> h < s))
      in \<lparr>tm_missing =
            (if invalid_timing then [''run:finished_before_started''] else []) @
            (if later (ob_started_at ob) then [''run:started_at_in_future''] else []) @
            (if later (ob_finished_at ob) then [''run:finished_at_in_future''] else []) @
            (if invalid_heartbeat then [''run:invalid_heartbeat''] else []),
          tm_invalid_heartbeat = invalid_heartbeat,
          tm_future_endpoint = (later (ob_started_at ob) \<or> later (ob_finished_at ob))\<rparr>)"

record run_outcome =
  oc_status :: run_status
  oc_reason :: string
  oc_completeness :: completeness
  oc_missing :: "string list"

text \<open>\<open>int(stale_after.total_seconds())\<close> truncates.\<close>

definition whole_seconds :: "int \<Rightarrow> int" where
  "whole_seconds t = (if t \<ge> 0 then t div 1000000 else - ((- t) div 1000000))"

definition resolve_run_outcome :: "completeness \<Rightarrow> run_observation \<Rightarrow> int \<Rightarrow> int \<Rightarrow> string list
    \<Rightarrow> completeness option \<Rightarrow> int option \<Rightarrow> run_status option \<Rightarrow> run_outcome" where
  "resolve_run_outcome completeness ob now clock_skew missing0 explicit_state stale_after status =
     (let heartbeat = ob_heartbeat_at ob;
          timing = run_timing_gaps now clock_skew ob heartbeat;
          missing = missing0 @ tm_missing timing;
          completeness = (if tm_missing timing \<noteq> [] \<and> \<not> degraded explicit_state then EC_INCOMPLETE else completeness);
          unless_degraded = (if degraded explicit_state then completeness else EC_INCOMPLETE);
          reason = (if completeness = EC_COMPLETE then ''complete'' else ''missing_required_evidence'')
      in case status of
           None \<Rightarrow> \<lparr>oc_status = RS_UNKNOWN, oc_reason = ''missing_provider_status'',
                    oc_completeness = unless_degraded, oc_missing = missing\<rparr>
         | Some st \<Rightarrow>
             if st \<notin> set TERMINAL_STATUSES \<and> st \<notin> set NONTERMINAL_STATUSES
             then \<lparr>oc_status = RS_UNSUPPORTED, oc_reason = ''unsupported_provider_status'',
                   oc_completeness = EC_INCOMPLETE, oc_missing = missing\<rparr>
             else if st \<notin> set TERMINAL_STATUSES
             then
               (if tm_invalid_heartbeat timing
                then \<lparr>oc_status = st, oc_reason = ''invalid_heartbeat'', oc_completeness = unless_degraded,
                      oc_missing = missing\<rparr>
                else if tm_future_endpoint timing
                then \<lparr>oc_status = st, oc_reason = ''invalid_timing'', oc_completeness = unless_degraded,
                      oc_missing = missing\<rparr>
                else if (case (stale_after, heartbeat) of (Some s, Some h) \<Rightarrow> now - h \<ge> s | _ \<Rightarrow> False)
                then \<lparr>oc_status = RS_ABANDONED, oc_reason = ''heartbeat_expired'', oc_completeness = unless_degraded,
                      oc_missing = missing\<rparr>
                else \<lparr>oc_status = st,
                      oc_reason = (if heartbeat \<noteq> None then ''awaiting_terminal_evidence'' else ''missing_heartbeat''),
                      oc_completeness = unless_degraded, oc_missing = missing\<rparr>)
             else \<lparr>oc_status = st,
                   oc_reason =
                     (if completeness = EC_COMPLETE then reason
                      else if explicit_state \<noteq> None
                      then str_join '','' ((''source_evidence_'' @ completeness_text completeness) # missing)
                      else str_join '','' (''missing_required_evidence'' # missing)),
                   oc_completeness = completeness, oc_missing = missing\<rparr>)"

section \<open>The verdict\<close>

definition opt_json :: "string option \<Rightarrow> json" where
  "opt_json s = (case s of None \<Rightarrow> JNull | Some t \<Rightarrow> JStr t)"

definition time_json :: "(int \<Rightarrow> string) \<Rightarrow> int option \<Rightarrow> json" where
  "time_json isof t = (case t of None \<Rightarrow> JNull | Some t \<Rightarrow> JStr (isof t))"

definition status_json :: "run_status option \<Rightarrow> json" where
  "status_json st = (case st of None \<Rightarrow> JNull | Some s \<Rightarrow> JStr (status_text s))"

definition event_json :: "(int \<Rightarrow> string) \<Rightarrow> stored_event \<Rightarrow> json" where
  "event_json isof e = JObj
     [(''producer'', JStr (se_producer e)), (''event_id'', JStr (se_event_id e)),
      (''event_type'', JStr (se_event_type e)), (''schema_version'', JStr (se_schema_version e)),
      (''stage_id'', opt_json (se_stage_id e)), (''observed_at'', JStr (isof (se_observed_at e))),
      (''sequence'', case se_sequence e of None \<Rightarrow> JNull | Some n \<Rightarrow> JInt n), (''attempt'', JInt (se_attempt e)),
      (''payload_checksum'', JStr (se_payload_checksum e))]"

definition stage_json :: "(int \<Rightarrow> string) \<Rightarrow> stored_stage \<Rightarrow> json" where
  "stage_json isof s = JList
     [JStr (ss_stage_id s), JStr (ss_stage_type s), opt_json (ss_provider s), opt_json (ss_tool s),
      opt_json (ss_asset s), JInt (ss_attempt s), JStr (ss_record_checksum s), JStr (status_text (ss_status s)),
      time_json isof (ss_started_at s), time_json isof (ss_finished_at s), JObj (ss_metrics s), opt_json (ss_error s)]"

definition records_json :: "record_rows \<Rightarrow> json" where
  "records_json rows = JObj (map (\<lambda>(family, rs). (family, JList (map (\<lambda>r. JObj
       [(''id'', JStr (er_record_id r)), (''record_checksum'', JStr (er_record_checksum r))])
       (sort_key (\<lambda>r. (er_record_id r, er_record_checksum r)) rs)))) (sort_key fst rows))"

definition evidence_json :: "(int \<Rightarrow> string) \<Rightarrow> run_observation \<Rightarrow> evidence_profile \<Rightarrow> stored_event list
    \<Rightarrow> stored_stage list \<Rightarrow> record_rows \<Rightarrow> int \<Rightarrow> completeness option \<Rightarrow> run_outcome \<Rightarrow> json" where
  "evidence_json isof ob profile events stages rows clock_skew explicit_state oc = JObj
     [(''project_id'', JStr (ob_project_id ob)), (''run_id'', JStr (ob_run_id ob)), (''attempt'', JInt (ob_attempt ob)),
      (''status'', JStr (status_text (oc_status oc))), (''provider_status'', status_json (ob_status ob)),
      (''started_at'', time_json isof (ob_started_at ob)), (''finished_at'', time_json isof (ob_finished_at ob)),
      (''heartbeat_at'', time_json isof (ob_heartbeat_at ob)),
      (''events'', JList (map (event_json isof) (sort_key (\<lambda>e. (se_producer e, se_event_id e)) events))),
      (''stages'', JList (map (stage_json isof) (sort_key ss_stage_id stages))),
      (''records'', records_json rows), (''source'', JStr (ob_source ob)),
      (''pipeline_name'', opt_json (ob_pipeline_name ob)), (''provider'', opt_json (ob_provider ob)),
      (''provider_run_id'', opt_json (ob_provider_run_id ob)),
      (''evidence_state'', case explicit_state of None \<Rightarrow> JNull | Some c \<Rightarrow> JStr (completeness_text c)),
      (''missing_evidence'', JList (map JStr (sort (remdups (oc_missing oc))))),
      (''timing_policy_seconds'', JInt (whole_seconds clock_skew)),
      (''profile'', JList [JStr (pf_profile_id profile), JStr (pf_version profile)]),
      (''reason'', JStr (oc_reason oc))]"

definition at_attempt :: "run_observation \<Rightarrow> stored_event list \<Rightarrow> stored_event list" where
  "at_attempt ob events = filter (\<lambda>e. se_attempt e = ob_attempt ob) events"

definition stages_at_attempt :: "run_observation \<Rightarrow> stored_stage list \<Rightarrow> stored_stage list" where
  "stages_at_attempt ob stages = filter (\<lambda>s. ss_attempt s = ob_attempt ob) stages"

text \<open>Whether a tagged event makes the run one without data: the termination must be a success.\<close>

definition ends_without_data :: "run_observation \<Rightarrow> evidence_profile \<Rightarrow> stored_event list \<Rightarrow> bool" where
  "ends_without_data ob profile events =
     (let successful_event = (\<exists>e \<in> set (terminal_events events profile). event_status e = Some RS_SUCCESS);
          successful_terminal = (ob_status ob \<in> {Some RS_SUCCESS, Some RS_NO_DATA} \<or>
            (\<not> is_terminal (ob_status ob) \<and> successful_event))
      in (\<exists>e \<in> set events. event_is_no_data e) \<and> successful_terminal)"

definition verdict_status :: "run_observation \<Rightarrow> bool \<Rightarrow> run_status option" where
  "verdict_status ob no_data =
     (if ob_status ob = Some RS_SUCCESS \<and> no_data then Some RS_NO_DATA else ob_status ob)"

definition collected_gaps :: "run_observation \<Rightarrow> evidence_profile \<Rightarrow> stored_event list \<Rightarrow> stored_stage list
    \<Rightarrow> record_rows \<Rightarrow> int \<Rightarrow> int \<Rightarrow> string list" where
  "collected_gaps ob profile events stages rows now clock_skew =
     (let no_data = ends_without_data ob profile events in
      event_timing_gaps events now clock_skew stages @
      run_terminal_gaps events profile (verdict_status ob no_data) no_data ob @
      stage_gaps profile stages no_data events @
      snd (record_gaps profile rows now))"

definition explicit_evidence_state :: "run_observation \<Rightarrow> evidence_profile \<Rightarrow> record_rows \<Rightarrow> int \<Rightarrow> completeness option" where
  "explicit_evidence_state ob profile rows now =
     strongest_evidence_state
       [ob_evidence_state ob, strongest_evidence_state (fst (record_gaps profile rows now))]"

definition outcome_of :: "run_observation \<Rightarrow> evidence_profile \<Rightarrow> stored_event list \<Rightarrow> stored_stage list
    \<Rightarrow> record_rows \<Rightarrow> int \<Rightarrow> int option \<Rightarrow> int \<Rightarrow> run_outcome" where
  "outcome_of ob profile events stages rows now stale_after clock_skew =
     (let missing = collected_gaps ob profile events stages rows now clock_skew;
          explicit_state = explicit_evidence_state ob profile rows now;
          completeness = (case explicit_state of
             Some c \<Rightarrow> if degraded (Some c) then c else if missing = [] then EC_COMPLETE else EC_INCOMPLETE
           | None \<Rightarrow> if missing = [] then EC_COMPLETE else EC_INCOMPLETE)
      in resolve_run_outcome completeness ob now clock_skew missing explicit_state stale_after
           (verdict_status ob (ends_without_data ob profile events)))"

definition decision_of :: "(int \<Rightarrow> string) \<Rightarrow> (json \<Rightarrow> string) \<Rightarrow> run_observation \<Rightarrow> evidence_profile \<Rightarrow> stored_event list
    \<Rightarrow> stored_stage list \<Rightarrow> record_rows \<Rightarrow> int \<Rightarrow> int option \<Rightarrow> int \<Rightarrow> reconciliation_decision" where
  "decision_of isof checksum ob profile events stages rows now stale_after clock_skew =
     (let oc = outcome_of ob profile events stages rows now stale_after clock_skew;
          evidence = checksum (evidence_json isof ob profile events stages rows clock_skew
            (explicit_evidence_state ob profile rows now) oc)
      in \<lparr>rd_decision_id = take 32 (checksum (JObj
            [(''project_id'', JStr (ob_project_id ob)), (''run_id'', JStr (ob_run_id ob)),
             (''attempt'', JInt (ob_attempt ob)), (''profile_id'', JStr (pf_profile_id profile)),
             (''profile_version'', JStr (pf_version profile)), (''evidence_checksum'', JStr evidence)])),
          rd_project_id = ob_project_id ob, rd_run_id = ob_run_id ob, rd_attempt = ob_attempt ob,
          rd_profile_id = pf_profile_id profile, rd_profile_version = pf_version profile,
          rd_status = oc_status oc, rd_evidence_completeness = oc_completeness oc, rd_reason = oc_reason oc,
          rd_missing_evidence = oc_missing oc, rd_evidence_checksum = evidence,
          rd_observed_event_count = length events, rd_source = ob_source ob, rd_heartbeat_at = ob_heartbeat_at ob,
          rd_stale_after_seconds = map_option whole_seconds stale_after, rd_decided_at = now,
          rd_finished_at = ob_finished_at ob\<rparr>)"

definition evaluate_reconciliation :: "(int \<Rightarrow> string) \<Rightarrow> (json \<Rightarrow> string) \<Rightarrow> run_observation \<Rightarrow> evidence_profile
    \<Rightarrow> stored_event list \<Rightarrow> stored_stage list \<Rightarrow> record_rows \<Rightarrow> int \<Rightarrow> int option \<Rightarrow> int
    \<Rightarrow> reconciliation_decision res" where
  "evaluate_reconciliation isof checksum ob profile events stages rows now stale_after clock_skew =
     (if clock_skew < 0 then Inl (ValueError ''clock skew must not be negative'')
      else if str_truthy (pf_pipeline_name profile) \<and> ob_pipeline_name ob \<noteq> pf_pipeline_name profile
      then Inl (ValueError ''evidence profile does not match the observed pipeline'')
      else if str_truthy (pf_provider profile) \<and> ob_provider ob \<noteq> pf_provider profile
      then Inl (ValueError ''evidence profile does not match the observed provider'')
      else Inr (decision_of isof checksum ob profile (at_attempt ob events) (stages_at_attempt ob stages) rows
             now stale_after clock_skew))"

section \<open>The reconciler\<close>

text \<open>\<open>observed\<close> is what the source answers, \<open>store\<close> the transactional store call.\<close>

definition new_run_reconciler :: "int option \<Rightarrow> int \<Rightarrow> unit res" where
  "new_run_reconciler stale_after clock_skew =
     (if (case stale_after of None \<Rightarrow> False | Some s \<Rightarrow> s \<le> 0) then Inl (ValueError ''stale_after must be positive'')
      else if clock_skew < 0 then Inl (ValueError ''clock_skew must not be negative'')
      else Inr ())"

definition reconcile :: "(run_observation \<Rightarrow> 's \<Rightarrow> reconciliation_decision res \<times> 's) \<Rightarrow> run_observation option res
    \<Rightarrow> string \<Rightarrow> string \<Rightarrow> 's \<Rightarrow> reconciliation_decision res \<times> 's" where
  "reconcile store observed project_id run_id s =
     (case observed of
        Inl e \<Rightarrow> (Inl e, s)
      | Inr None \<Rightarrow>
          (Inl (RunEvidenceUnavailable ''provider lookup was unavailable; reconciliation did not change the run''), s)
      | Inr (Some ob) \<Rightarrow>
          (if ob_project_id ob \<noteq> project_id \<or> (ob_run_id ob \<noteq> run_id \<and> ob_provider_run_id ob \<noteq> Some run_id)
           then (Inl (ValueError ''event source crossed project/run boundaries''), s)
           else store ob s))"

end
