(* ===== verification/Run_Evidence_Store.thy ===== *)
theory Run_Evidence_Store
  imports Run_Reconciliation
begin

text \<open>
  \<open>phlo/run_evidence/store.py\<close>: the tables of the SQL store and the operations that change them. A table
  is the dictionary of its rows under its unique key, in the order of insertion; a transaction that raises
  leaves the database as it was. Redaction, checksums and the text of a JSON value or a time are
  arguments (\<open>evidence_env\<close>). The columns \<open>created_at\<close> and \<open>updated_at\<close>, which only order listings, are
  left out.
\<close>

section \<open>Tables\<close>

record evidence_env =
  ee_redact :: "(string, json) dict \<Rightarrow> (string, json) dict"
  ee_text :: "string \<Rightarrow> string"
  ee_checksum :: "json \<Rightarrow> string"
  ee_json :: "json \<Rightarrow> string"
  ee_iso :: "int \<Rightarrow> string"

record run_row =
  rr_pipeline_name :: "string option"
  rr_provider_run_id :: "string option"
  rr_trigger :: "string option"
  rr_initiator :: "string option"
  rr_effective_identity :: "string option"
  rr_partition_key :: "string option"
  rr_code_version :: "string option"
  rr_config_version :: "string option"
  rr_attempt :: int
  rr_trace_id :: "string option"
  rr_status :: string
  rr_started_at :: "int option"
  rr_finished_at :: "int option"
  rr_failure_summary :: "string option"
  rr_completeness :: completeness
  rr_last_heartbeat_at :: "int option"
  rr_reconciled_at :: "int option"
  rr_reason :: "string option"

record event_row =
  ew_run_id :: string
  ew_stage_id :: "string option"
  ew_event_type :: string
  ew_schema_version :: string
  ew_observed_at :: int
  ew_sequence :: "int option"
  ew_attempt :: int
  ew_payload :: "(string, json) dict"
  ew_payload_checksum :: string
  ew_resource_identity :: "string option"

record stage_row =
  sw_stage_type :: string
  sw_provider :: "string option"
  sw_tool :: "string option"
  sw_asset :: "string option"
  sw_attempt :: int
  sw_status :: run_status
  sw_started_at :: "int option"
  sw_finished_at :: "int option"
  sw_metrics :: "(string, json) dict"
  sw_error :: "string option"
  sw_record_checksum :: string
  sw_resource_identity :: "string option"

text \<open>
  A row of one of the other families, and the record it is made of: \<open>ei_content\<close> is what its checksum is
  taken over. Only quality results name a stage or an artifact, and only some families have metadata.
\<close>

record child_row =
  cw_attempt :: int
  cw_stage_id :: "string option"
  cw_failure_artifact_id :: "string option"
  cw_metadata :: "(string, json) dict"
  cw_family :: evidence_family
  cw_record_checksum :: string

record evidence_input =
  ei_project_id :: string
  ei_run_id :: string
  ei_id :: string
  ei_attempt :: int
  ei_stage_id :: "string option"
  ei_failure_artifact_id :: "string option"
  ei_metadata :: "(string, json) dict"
  ei_family :: evidence_family
  ei_content :: json

type_synonym run_key = "string \<times> string"
type_synonym row_key = "string \<times> string \<times> string"

record evidence_db =
  db_runs :: "(run_key, run_row) dict"
  db_events :: "(row_key, event_row) dict"
  db_stages :: "(row_key, stage_row) dict"
  db_resources :: "(row_key, child_row) dict"
  db_lineage :: "(row_key, child_row) dict"
  db_quality :: "(row_key, child_row) dict"
  db_catalog :: "(row_key, child_row) dict"
  db_artifacts :: "(row_key, child_row) dict"
  db_decisions :: "(string \<times> string, string \<times> reconciliation_decision) dict"

abbreviation put_event :: "row_key \<Rightarrow> event_row \<Rightarrow> evidence_db \<Rightarrow> evidence_db" where
  "put_event k row db \<equiv> db\<lparr>db_events := dict_set (db_events db) k row\<rparr>"

abbreviation put_stage :: "row_key \<Rightarrow> stage_row \<Rightarrow> evidence_db \<Rightarrow> evidence_db" where
  "put_stage k row db \<equiv> db\<lparr>db_stages := dict_set (db_stages db) k row\<rparr>"

abbreviation put_run :: "run_key \<Rightarrow> run_row \<Rightarrow> evidence_db \<Rightarrow> evidence_db" where
  "put_run k row db \<equiv> db\<lparr>db_runs := dict_set (db_runs db) k row\<rparr>"

definition run_of :: "evidence_db \<Rightarrow> string \<Rightarrow> string \<Rightarrow> run_row option" where
  "run_of db project_id run_id = dict_get (db_runs db) (project_id, run_id)"

section \<open>Checks\<close>

definition require_id :: "string \<Rightarrow> string \<Rightarrow> unit res" where
  "require_id name s =
     (if py_strip s = [] then Inl (ValueError (name @ '' must be a stable non-empty identifier'')) else Inr ())"

definition resource_ref_json :: "evidence_ref \<Rightarrow> json" where
  "resource_ref_json r = JObj
     [(''resource_type'', JStr (xr_resource_type r)), (''resource_id'', JStr (xr_resource_id r)),
      (''tenant'', opt_json (xr_tenant r)), (''attributes'', JObj (map (\<lambda>(k, v). (k, JStr v)) (xr_attributes r)))]"

definition resource_identity :: "evidence_env \<Rightarrow> evidence_ref option \<Rightarrow> string option" where
  "resource_identity env ref = map_option (\<lambda>r. ee_json env (resource_ref_json r)) ref"

abbreviation no_such_run :: "string \<Rightarrow> string \<Rightarrow> py_error" where
  "no_such_run project_id run_id \<equiv> ValueError (''run '' @ project_id @ ''/'' @ run_id @ '' does not exist'')"

definition lock_run :: "string \<Rightarrow> string \<Rightarrow> evidence_db \<Rightarrow> unit res" where
  "lock_run project_id run_id db =
     (case run_of db project_id run_id of None \<Rightarrow> Inl (no_such_run project_id run_id) | Some _ \<Rightarrow> Inr ())"

definition validate_existing_stage_attempt :: "(string \<Rightarrow> py_error) \<Rightarrow> string \<Rightarrow> string \<Rightarrow> string \<Rightarrow> int \<Rightarrow> evidence_db \<Rightarrow> unit res" where
  "validate_existing_stage_attempt error_type project_id run_id stage_id attempt db =
     (case dict_get (db_stages db) (project_id, run_id, stage_id) of
        None \<Rightarrow> Inr ()
      | Some row \<Rightarrow>
          (if sw_attempt row \<noteq> attempt
           then Inl (error_type (''stage '' @ project_id @ ''/'' @ run_id @ ''/'' @ stage_id @ '' has attempt '' @
                  int_str (sw_attempt row) @ '', expected '' @ int_str attempt))
           else Inr ()))"

definition stage_mismatch :: "run_stage \<Rightarrow> string \<Rightarrow> int list \<Rightarrow> unit res" where
  "stage_mismatch s table attempts =
     (case filter (\<lambda>a. a \<noteq> st_attempt s) attempts of
        [] \<Rightarrow> Inr ()
      | a # _ \<Rightarrow> Inl (ValueError (''stage '' @ st_project_id s @ ''/'' @ st_run_id s @ ''/'' @ st_stage_id s @ '' attempt '' @
            int_str (st_attempt s) @ '' conflicts with '' @ table @ '' attempt '' @ int_str a)))"

definition validate_stage_write_references :: "run_stage \<Rightarrow> evidence_db \<Rightarrow> unit res" where
  "validate_stage_write_references s db =
     bind_res (validate_existing_stage_attempt IdempotencyConflict (st_project_id s) (st_run_id s) (st_stage_id s)
                 (st_attempt s) db) (\<lambda>_.
     bind_res (stage_mismatch s ''run_event''
        (map (\<lambda>(k, row). ew_attempt row) (filter (\<lambda>((project_id, _), row). project_id = st_project_id s \<and>
           ew_run_id row = st_run_id s \<and> ew_stage_id row = Some (st_stage_id s)) (db_events db)))) (\<lambda>_.
     stage_mismatch s ''run_quality_result''
        (map (\<lambda>(k, row). cw_attempt row) (filter (\<lambda>((project_id, run_id, _), row). project_id = st_project_id s \<and>
           run_id = st_run_id s \<and> cw_stage_id row = Some (st_stage_id s)) (db_quality db)))))"

section \<open>Runs\<close>

text \<open>The statuses the statements compare with.\<close>

definition FINAL_TEXTS :: "string list" where
  "FINAL_TEXTS =
     [''success'', ''failed'', ''error'', ''cancelled'', ''canceled'', ''skipped'', ''no_data'', ''abandoned'']"

definition new_run_row :: "evidence_env \<Rightarrow> pipeline_run \<Rightarrow> run_row" where
  "new_run_row env r =
     (let text = map_option (ee_text env) in
      \<lparr>rr_pipeline_name = text (pl_pipeline_name r), rr_provider_run_id = text (pl_provider_run_id r),
       rr_trigger = text (pl_trigger r), rr_initiator = text (pl_initiator r),
       rr_effective_identity = text (pl_effective_identity r), rr_partition_key = text (pl_partition_key r),
       rr_code_version = text (pl_code_version r), rr_config_version = text (pl_config_version r),
       rr_attempt = pl_attempt r, rr_trace_id = text (pl_trace_id r), rr_status = status_text (pl_status r),
       rr_started_at = pl_started_at r, rr_finished_at = pl_finished_at r,
       rr_failure_summary = text (pl_failure_summary r), rr_completeness = pl_evidence_completeness r,
       rr_last_heartbeat_at = None, rr_reconciled_at = None, rr_reason = None\<rparr>)"

definition coalesce :: "'a option \<Rightarrow> 'a option \<Rightarrow> 'a option" where
  "coalesce a b = (case a of None \<Rightarrow> b | Some _ \<Rightarrow> a)"

text \<open>
  The assignments of \<open>ON CONFLICT DO UPDATE\<close>: \<open>old\<close> is the row there is, \<open>new\<close> the excluded one. Most
  columns follow the higher attempt, with a rule for rows of the same attempt.
\<close>

definition by_attempt :: "run_row \<Rightarrow> run_row \<Rightarrow> (run_row \<Rightarrow> 'a) \<Rightarrow> 'a \<Rightarrow> 'a" where
  "by_attempt old new column same =
     (if rr_attempt new > rr_attempt old then column new
      else if rr_attempt new < rr_attempt old then column old else same)"

definition filled :: "run_row \<Rightarrow> run_row \<Rightarrow> (run_row \<Rightarrow> 'a option) \<Rightarrow> 'a option" where
  "filled old new column = coalesce (column old) (column new)"

definition merge_run :: "run_row \<Rightarrow> run_row \<Rightarrow> run_row" where
  "merge_run old new =
     (let final = (rr_status old \<in> set FINAL_TEXTS) in
      old\<lparr>rr_pipeline_name := filled old new rr_pipeline_name,
          rr_provider_run_id := filled old new rr_provider_run_id,
          rr_trigger := filled old new rr_trigger, rr_initiator := filled old new rr_initiator,
          rr_partition_key := filled old new rr_partition_key,
          rr_effective_identity := by_attempt old new rr_effective_identity (filled old new rr_effective_identity),
          rr_code_version := by_attempt old new rr_code_version (filled old new rr_code_version),
          rr_config_version := by_attempt old new rr_config_version (filled old new rr_config_version),
          rr_started_at := by_attempt old new rr_started_at (filled old new rr_started_at),
          rr_attempt := (if rr_attempt old > rr_attempt new then rr_attempt old else rr_attempt new),
          rr_status := by_attempt old new rr_status (if final then rr_status old else rr_status new),
          rr_trace_id := by_attempt old new rr_trace_id (filled old new rr_trace_id),
          rr_finished_at := by_attempt old new rr_finished_at
            (if final then filled old new rr_finished_at else filled new old rr_finished_at),
          rr_failure_summary := by_attempt old new rr_failure_summary
            (if final then filled old new rr_failure_summary else filled new old rr_failure_summary),
          rr_completeness := by_attempt old new rr_completeness
            (if final then rr_completeness old
             else if rr_completeness old \<in> {EC_COMPLETE, EC_EXPIRED, EC_REDACTED} \<and> rr_completeness new = EC_INCOMPLETE
             then rr_completeness old else rr_completeness new)\<rparr>)"

definition upsert_run :: "evidence_env \<Rightarrow> pipeline_run \<Rightarrow> evidence_db \<Rightarrow> evidence_db" where
  "upsert_run env r db =
     put_run (pl_project_id r, pl_run_id r)
       (case run_of db (pl_project_id r) (pl_run_id r) of
          None \<Rightarrow> new_run_row env r
        | Some old \<Rightarrow> merge_run old (new_run_row env r)) db"

definition append_pipeline_run :: "evidence_env \<Rightarrow> pipeline_run \<Rightarrow> evidence_db \<Rightarrow> evidence_db" where
  "append_pipeline_run = upsert_run"

definition update_run :: "evidence_env \<Rightarrow> string \<Rightarrow> string \<Rightarrow> string option \<Rightarrow> int option \<Rightarrow> string option
    \<Rightarrow> completeness option \<Rightarrow> evidence_db \<Rightarrow> evidence_db" where
  "update_run env project_id run_id status finished_at failure_summary evidence_completeness db =
     (case run_of db project_id run_id of
        None \<Rightarrow> db
      | Some row \<Rightarrow>
          put_run (project_id, run_id)
            (row\<lparr>rr_status := (case status of None \<Rightarrow> rr_status row | Some s \<Rightarrow> s),
                 rr_finished_at := (case finished_at of None \<Rightarrow> rr_finished_at row | Some t \<Rightarrow> Some t),
                 rr_failure_summary :=
                   (case failure_summary of None \<Rightarrow> rr_failure_summary row | Some s \<Rightarrow> Some (ee_text env s)),
                 rr_completeness :=
                   (case evidence_completeness of None \<Rightarrow> rr_completeness row | Some c \<Rightarrow> c)\<rparr>) db)"


section \<open>Events and stages\<close>

definition new_event_row :: "evidence_env \<Rightarrow> run_event \<Rightarrow> event_row" where
  "new_event_row env e =
     (let redacted = ee_redact env (re_payload e) in
      \<lparr>ew_run_id = re_run_id e, ew_stage_id = re_stage_id e, ew_event_type = re_event_type e,
       ew_schema_version = re_schema_version e, ew_observed_at = re_observed_at e, ew_sequence = re_sequence e,
       ew_attempt = re_attempt e, ew_payload = ee_redact env redacted,
       ew_payload_checksum = ee_checksum env (JObj redacted),
       ew_resource_identity = resource_identity env (re_resource_ref e)\<rparr>)"

definition event_key :: "run_event \<Rightarrow> row_key" where
  "event_key e = (re_project_id e, re_producer e, re_event_id e)"

definition same_event :: "event_row \<Rightarrow> event_row \<Rightarrow> bool" where
  "same_event a b \<longleftrightarrow>
     (ew_event_type a, ew_schema_version a, ew_stage_id a, ew_attempt a, ew_payload_checksum a, ew_resource_identity a)
   = (ew_event_type b, ew_schema_version b, ew_stage_id b, ew_attempt b, ew_payload_checksum b, ew_resource_identity b)"

definition event_name :: "run_event \<Rightarrow> string" where
  "event_name e = ''event '' @ re_producer e @ ''/'' @ re_event_id e"

definition insert_event :: "evidence_env \<Rightarrow> run_event \<Rightarrow> evidence_db \<Rightarrow> (bool \<times> evidence_db) res" where
  "insert_event env e db =
     bind_res (require_id ''event_id'' (re_event_id e)) (\<lambda>_.
     bind_res (require_id ''producer'' (re_producer e)) (\<lambda>_.
     (let row = new_event_row env e;
          (inserted, db', existing) = (case dict_get (db_events db) (event_key e) of
             None \<Rightarrow> (True, put_event (event_key e) row db, row)
           | Some old \<Rightarrow> (False, db, old))
      in if ew_run_id existing \<noteq> re_run_id e
         then Inl (IdempotencyConflict (event_name e @ '' is correlated to another run''))
         else if \<not> same_event existing row
         then Inl (IdempotencyConflict (event_name e @ '' was replayed with different attempt or payload''))
         else bind_res (case re_stage_id e of
                          None \<Rightarrow> Inr ()
                        | Some stage_id \<Rightarrow> validate_existing_stage_attempt ValueError (re_project_id e) (re_run_id e)
                            stage_id (re_attempt e) db') (\<lambda>_. Inr (inserted, db')))))"

definition stage_key :: "run_stage \<Rightarrow> row_key" where
  "stage_key s = (st_project_id s, st_run_id s, st_stage_id s)"

definition stage_content :: "run_stage \<Rightarrow> json" where
  "stage_content s = JObj
     ([(''stage_id'', JStr (st_stage_id s)), (''project_id'', JStr (st_project_id s)), (''run_id'', JStr (st_run_id s)),
       (''stage_type'', JStr (st_stage_type s)), (''provider'', opt_json (st_provider s)),
       (''tool'', opt_json (st_tool s)), (''asset'', opt_json (st_asset s)), (''attempt'', JInt (st_attempt s))] @
      (case st_resource_ref s of None \<Rightarrow> [] | Some r \<Rightarrow> [(''resource_ref'', resource_ref_json r)]))"

definition new_stage_row :: "evidence_env \<Rightarrow> run_stage \<Rightarrow> stage_row" where
  "new_stage_row env s =
     (let text = map_option (ee_text env) in
      \<lparr>sw_stage_type = st_stage_type s, sw_provider = text (st_provider s), sw_tool = text (st_tool s),
       sw_asset = text (st_asset s), sw_attempt = st_attempt s, sw_status = st_status s,
       sw_started_at = st_started_at s, sw_finished_at = st_finished_at s,
       sw_metrics = ee_redact env (st_metrics s), sw_error = text (st_error s),
       sw_record_checksum = ee_checksum env (stage_content s),
       sw_resource_identity = resource_identity env (st_resource_ref s)\<rparr>)"

definition merge_stage :: "stage_row \<Rightarrow> stage_row \<Rightarrow> stage_row" where
  "merge_stage old new =
     (let final = (sw_status old \<in> set TERMINAL_STATUSES) in
      old\<lparr>sw_started_at :=
             (if sw_started_at old \<noteq> None then sw_started_at old
              else if sw_status new \<in> {RS_RUNNING, RS_STARTED, RS_START} then sw_started_at new else None),
          sw_status := (if final then sw_status old else sw_status new),
          sw_finished_at := (if final then coalesce (sw_finished_at old) (sw_finished_at new)
             else coalesce (sw_finished_at new) (sw_finished_at old)),
          sw_metrics := (if final then sw_metrics old else sw_metrics new),
          sw_error := (if final then coalesce (sw_error old) (sw_error new)
             else coalesce (sw_error new) (sw_error old))\<rparr>)"

definition insert_stage :: "evidence_env \<Rightarrow> run_stage \<Rightarrow> evidence_db \<Rightarrow> evidence_db res" where
  "insert_stage env s db =
     bind_res (require_id ''stage_id'' (st_stage_id s)) (\<lambda>_.
     bind_res (validate_stage_write_references s db) (\<lambda>_.
     (let row = new_stage_row env s in
      case dict_get (db_stages db) (stage_key s) of
        None \<Rightarrow> Inr (put_stage (stage_key s) row db)
      | Some old \<Rightarrow>
          (if sw_record_checksum old \<noteq> sw_record_checksum row
           then Inl (IdempotencyConflict (''stage '' @ st_project_id s @ ''/'' @ st_stage_id s @ '' was replayed differently''))
           else Inr (put_stage (stage_key s) (merge_stage old row) db)))))"

section \<open>The other families\<close>

definition new_child_row :: "evidence_env \<Rightarrow> evidence_input \<Rightarrow> child_row" where
  "new_child_row env r =
     \<lparr>cw_attempt = ei_attempt r, cw_stage_id = ei_stage_id r,
      cw_failure_artifact_id = map_option (ee_text env) (ei_failure_artifact_id r),
      cw_metadata = ee_redact env (ei_metadata r),
      cw_family = (case ei_family r of FCatalogChange outcome \<Rightarrow> FCatalogChange (map_option (ee_text env) outcome) | f \<Rightarrow> f),
      cw_record_checksum = ee_checksum env (ei_content r)\<rparr>"

text \<open>\<open>INSERT ... ON CONFLICT DO NOTHING\<close> followed by \<open>_confirm_immutable\<close>.\<close>

definition insert_child :: "evidence_env \<Rightarrow> string \<Rightarrow> evidence_input \<Rightarrow> (row_key, child_row) dict
    \<Rightarrow> (row_key, child_row) dict res" where
  "insert_child env table r rows =
     (let key = (ei_project_id r, ei_run_id r, ei_id r); row = new_child_row env r in
      case dict_get rows key of
        None \<Rightarrow> Inr (dict_set rows key row)
      | Some old \<Rightarrow>
          (if cw_record_checksum old \<noteq> cw_record_checksum row
           then Inl (IdempotencyConflict (table @ '' '' @ ei_project_id r @ ''/'' @ ei_id r @
                  '' was replayed with different evidence''))
           else Inr rows))"

definition insert_resource :: "evidence_env \<Rightarrow> evidence_input \<Rightarrow> evidence_db \<Rightarrow> evidence_db res" where
  "insert_resource env r db =
     bind_res (require_id ''resource_id'' (ei_id r)) (\<lambda>_.
     bind_res (insert_child env ''run_resource'' r (db_resources db)) (\<lambda>rows. Inr (db\<lparr>db_resources := rows\<rparr>)))"

definition insert_lineage :: "evidence_env \<Rightarrow> evidence_input \<Rightarrow> evidence_db \<Rightarrow> evidence_db res" where
  "insert_lineage env r db =
     bind_res (require_id ''lineage_edge_id'' (ei_id r)) (\<lambda>_.
     bind_res (insert_child env ''run_lineage_edge'' r (db_lineage db)) (\<lambda>rows. Inr (db\<lparr>db_lineage := rows\<rparr>)))"

definition insert_quality :: "evidence_env \<Rightarrow> evidence_input \<Rightarrow> evidence_db \<Rightarrow> evidence_db res" where
  "insert_quality env r db =
     bind_res (require_id ''quality_result_id'' (ei_id r)) (\<lambda>_.
     bind_res (case ei_stage_id r of
                 None \<Rightarrow> Inr ()
               | Some stage_id \<Rightarrow> validate_existing_stage_attempt ValueError (ei_project_id r) (ei_run_id r) stage_id
                   (ei_attempt r) db) (\<lambda>_.
     bind_res (insert_child env ''run_quality_result'' r (db_quality db)) (\<lambda>rows. Inr (db\<lparr>db_quality := rows\<rparr>))))"

definition insert_catalog_change :: "evidence_env \<Rightarrow> evidence_input \<Rightarrow> evidence_db \<Rightarrow> evidence_db res" where
  "insert_catalog_change env r db =
     bind_res (require_id ''catalog_change_id'' (ei_id r)) (\<lambda>_.
     bind_res (insert_child env ''run_catalog_change'' r (db_catalog db)) (\<lambda>rows. Inr (db\<lparr>db_catalog := rows\<rparr>)))"

definition insert_artifact :: "evidence_env \<Rightarrow> evidence_input \<Rightarrow> evidence_db \<Rightarrow> evidence_db res" where
  "insert_artifact env r db =
     bind_res (require_id ''artifact_id'' (ei_id r)) (\<lambda>_.
     bind_res (insert_child env ''run_artifact'' r (db_artifacts db)) (\<lambda>rows. Inr (db\<lparr>db_artifacts := rows\<rparr>)))"

text \<open>At commit every quality result must name a stage and an artifact there is.\<close>

definition commit_evidence :: "evidence_db \<Rightarrow> evidence_db res" where
  "commit_evidence db =
     (if list_all (\<lambda>((project_id, run_id, _), row).
           (case cw_stage_id row of None \<Rightarrow> True | Some s \<Rightarrow> dict_has (db_stages db) (project_id, run_id, s)) \<and>
           (case cw_failure_artifact_id row of None \<Rightarrow> True
            | Some a \<Rightarrow> dict_has (db_artifacts db) (project_id, run_id, a))) (db_quality db)
      then Inr db else Inl (DatabaseError ''FOREIGN KEY constraint failed''))"

definition append_child :: "(evidence_env \<Rightarrow> evidence_input \<Rightarrow> evidence_db \<Rightarrow> evidence_db res) \<Rightarrow> evidence_env
    \<Rightarrow> evidence_input \<Rightarrow> evidence_db \<Rightarrow> evidence_db res" where
  "append_child insert_one env r db =
     bind_res (lock_run (ei_project_id r) (ei_run_id r) db) (\<lambda>_.
     bind_res (insert_one env r db) commit_evidence)"

definition append_stage :: "evidence_env \<Rightarrow> run_stage \<Rightarrow> evidence_db \<Rightarrow> evidence_db res" where
  "append_stage env s db =
     bind_res (lock_run (st_project_id s) (st_run_id s) db) (\<lambda>_.
     bind_res (insert_stage env s db) commit_evidence)"


section \<open>An event with what comes with it\<close>

record event_bundle =
  eb_run :: "pipeline_run option"
  eb_stage :: "run_stage option"
  eb_quality_result :: "evidence_input option"
  eb_lineage_edges :: "evidence_input list"
  eb_resources :: "evidence_input list"
  eb_catalog_change :: "evidence_input option"
  eb_artifacts :: "evidence_input list"

definition validate_object :: "run_event \<Rightarrow> string \<Rightarrow> string \<Rightarrow> string \<Rightarrow> int \<Rightarrow> string option \<Rightarrow> unit res" where
  "validate_object e label project_id run_id attempt object_id =
     (if project_id \<noteq> re_project_id e \<or> run_id \<noteq> re_run_id e
      then Inl (ValueError (label @ '' crossed project/run boundaries''))
      else if attempt \<noteq> re_attempt e then Inl (ValueError (label @ '' crossed attempt boundaries''))
      else case object_id of None \<Rightarrow> Inr () | Some i \<Rightarrow> require_id (label @ ''_id'') i)"

definition validate_input :: "run_event \<Rightarrow> string \<Rightarrow> evidence_input \<Rightarrow> unit res" where
  "validate_input e label r = validate_object e label (ei_project_id r) (ei_run_id r) (ei_attempt r) (Some (ei_id r))"

definition each_res :: "('a \<Rightarrow> unit res) \<Rightarrow> 'a list \<Rightarrow> unit res" where
  "each_res f xs = fold_res (\<lambda>x _. f x) xs ()"

definition some_list :: "'a option \<Rightarrow> 'a list" where
  "some_list x = (case x of None \<Rightarrow> [] | Some y \<Rightarrow> [y])"

definition bundle_stage_ids :: "run_event \<Rightarrow> event_bundle \<Rightarrow> string list" where
  "bundle_stage_ids e b =
     remdups (some_list (re_stage_id e) @ map st_stage_id (some_list (eb_stage b)) @
       concat (map (\<lambda>q. some_list (ei_stage_id q)) (some_list (eb_quality_result b))))"

definition validate_append_event_inputs :: "run_event \<Rightarrow> event_bundle \<Rightarrow> unit res" where
  "validate_append_event_inputs e b =
     bind_res (require_id ''project_id'' (re_project_id e)) (\<lambda>_.
     bind_res (require_id ''run_id'' (re_run_id e)) (\<lambda>_.
     bind_res (require_id ''event_id'' (re_event_id e)) (\<lambda>_.
     bind_res (require_id ''producer'' (re_producer e)) (\<lambda>_.
     bind_res (if re_attempt e \<le> 0 then Inl (ValueError ''event attempt must be positive'') else Inr ()) (\<lambda>_.
     bind_res (each_res (\<lambda>r. validate_object e ''run'' (pl_project_id r) (pl_run_id r) (pl_attempt r) None)
                 (some_list (eb_run b))) (\<lambda>_.
     bind_res (each_res (\<lambda>s. validate_object e ''stage'' (st_project_id s) (st_run_id s) (st_attempt s)
                 (Some (st_stage_id s))) (some_list (eb_stage b))) (\<lambda>_.
     bind_res (each_res (validate_input e ''quality_result'') (some_list (eb_quality_result b))) (\<lambda>_.
     bind_res (if length (bundle_stage_ids e b) > 1
               then Inl (ValueError ''optional evidence has conflicting stage identities'') else Inr ()) (\<lambda>_.
     bind_res (each_res (validate_input e ''lineage_edge'') (eb_lineage_edges b)) (\<lambda>_.
     bind_res (each_res (validate_input e ''resource'') (eb_resources b)) (\<lambda>_.
     bind_res (each_res (validate_input e ''catalog_change'') (some_list (eb_catalog_change b))) (\<lambda>_.
     each_res (validate_input e ''artifact'') (eb_artifacts b)))))))))))))"

text \<open>A bundle that passed the checks names one stage at most.\<close>

definition validate_event_stage_references :: "run_event \<Rightarrow> event_bundle \<Rightarrow> evidence_db \<Rightarrow> unit res" where
  "validate_event_stage_references e b db =
     bind_res (each_res (\<lambda>stage_id. validate_existing_stage_attempt ValueError (re_project_id e) (re_run_id e) stage_id
                 (re_attempt e) db)
        (remdups (some_list (re_stage_id e) @
           concat (map (\<lambda>q. some_list (ei_stage_id q)) (some_list (eb_quality_result b)))))) (\<lambda>_.
     each_res (\<lambda>s. validate_stage_write_references s db) (some_list (eb_stage b)))"

definition placeholder_run :: "int \<Rightarrow> run_row" where
  "placeholder_run attempt =
     \<lparr>rr_pipeline_name = None, rr_provider_run_id = None, rr_trigger = None, rr_initiator = None,
      rr_effective_identity = None, rr_partition_key = None, rr_code_version = None, rr_config_version = None,
      rr_attempt = attempt, rr_trace_id = None, rr_status = ''running'', rr_started_at = None, rr_finished_at = None,
      rr_failure_summary = None, rr_completeness = EC_INCOMPLETE, rr_last_heartbeat_at = None,
      rr_reconciled_at = None, rr_reason = None\<rparr>"

definition ensure_event_parent :: "run_event \<Rightarrow> pipeline_run option \<Rightarrow> evidence_db \<Rightarrow> evidence_db res" where
  "ensure_event_parent e r db =
     (case run_of db (re_project_id e) (re_run_id e) of
        Some _ \<Rightarrow> Inr db
      | None \<Rightarrow>
          (case r of
             None \<Rightarrow> Inl (no_such_run (re_project_id e) (re_run_id e))
           | Some run \<Rightarrow> Inr (put_run (re_project_id e, re_run_id e) (placeholder_run (pl_attempt run)) db)))"

text \<open>What comes with an event that is new.\<close>

definition insert_bundle :: "evidence_env \<Rightarrow> event_bundle \<Rightarrow> evidence_db \<Rightarrow> evidence_db res" where
  "insert_bundle env b db =
     bind_res (fold_res (insert_stage env) (some_list (eb_stage b))
        (fold (upsert_run env) (some_list (eb_run b)) db)) (\<lambda>db.
     bind_res (fold_res (insert_quality env) (some_list (eb_quality_result b)) db) (\<lambda>db.
     bind_res (fold_res (insert_lineage env) (eb_lineage_edges b) db) (\<lambda>db.
     bind_res (fold_res (insert_resource env) (eb_resources b) db) (\<lambda>db.
     bind_res (fold_res (insert_catalog_change env) (some_list (eb_catalog_change b)) db) (\<lambda>db.
     fold_res (insert_artifact env) (eb_artifacts b) db)))))"

definition append_event :: "evidence_env \<Rightarrow> run_event \<Rightarrow> event_bundle \<Rightarrow> evidence_db \<Rightarrow> (bool \<times> evidence_db) res" where
  "append_event env e b db =
     bind_res (validate_append_event_inputs e b) (\<lambda>_.
     (let foreign = (case dict_get (db_events db) (event_key e) of
            None \<Rightarrow> False | Some row \<Rightarrow> ew_run_id row \<noteq> re_run_id e) in
      if foreign then insert_event env e db
      else
        bind_res (validate_event_stage_references e b db) (\<lambda>_.
        bind_res (ensure_event_parent e (eb_run b) db) (\<lambda>db.
        bind_res (lock_run (re_project_id e) (re_run_id e) db) (\<lambda>_.
        bind_res (validate_event_stage_references e b db) (\<lambda>_.
        bind_res (insert_event env e db) (\<lambda>(inserted, db).
        bind_res (if inserted then insert_bundle env b db else Inr db) (\<lambda>db.
        bind_res (commit_evidence db) (\<lambda>db. Inr (inserted, db))))))))))"

section \<open>Reconciliation\<close>

text \<open>Reading the rows back.\<close>

definition stored_event_of :: "row_key \<times> event_row \<Rightarrow> stored_event res" where
  "stored_event_of p =
     (case p of ((project_id, producer, event_id), row) \<Rightarrow>
        if ew_event_type row = [] then Inl (invalid_row ''StoredEvent'')
        else bind_res (parse_payload (ew_payload row)) (\<lambda>payload. Inr
          \<lparr>se_event_id = event_id, se_producer = producer, se_event_type = ew_event_type row,
           se_schema_version = ew_schema_version row, se_stage_id = ew_stage_id row,
           se_observed_at = ew_observed_at row, se_sequence = ew_sequence row, se_attempt = ew_attempt row,
           se_payload = payload, se_payload_checksum = ew_payload_checksum row\<rparr>))"

definition stored_stage_of :: "row_key \<times> stage_row \<Rightarrow> stored_stage" where
  "stored_stage_of p =
     (case p of ((project_id, run_id, stage_id), row) \<Rightarrow>
        \<lparr>ss_stage_id = stage_id, ss_stage_type = sw_stage_type row, ss_provider = sw_provider row,
         ss_tool = sw_tool row, ss_asset = sw_asset row, ss_attempt = sw_attempt row, ss_status = sw_status row,
         ss_started_at = sw_started_at row, ss_finished_at = sw_finished_at row, ss_metrics = sw_metrics row,
         ss_error = sw_error row, ss_record_checksum = sw_record_checksum row\<rparr>)"

definition stored_record_of :: "string \<Rightarrow> row_key \<times> child_row \<Rightarrow> stored_evidence res" where
  "stored_record_of model p =
     (case p of ((project_id, run_id, record_id), row) \<Rightarrow>
        bind_res (case dict_get (cw_metadata row) ''evidence_completeness'' of
                    None \<Rightarrow> Inr None
                  | Some JNull \<Rightarrow> Inr None
                  | Some (JStr s) \<Rightarrow> (case completeness_of s of None \<Rightarrow> Inl (invalid_row model) | Some c \<Rightarrow> Inr (Some c))
                  | Some _ \<Rightarrow> Inl (invalid_row model)) (\<lambda>completeness.
        bind_res (case cw_family row of
                    FCatalogChange (Some outcome) \<Rightarrow>
                      (if outcome \<in> {''merged'', ''failed'', ''conflict'', ''skipped'', ''cancelled''} then Inr ()
                       else Inl (invalid_row model))
                  | _ \<Rightarrow> Inr ()) (\<lambda>_. Inr
          \<lparr>er_record_id = record_id, er_record_checksum = cw_record_checksum row, er_completeness = completeness,
           er_family = cw_family row\<rparr>)))"

definition run_events :: "string \<Rightarrow> string \<Rightarrow> evidence_db \<Rightarrow> stored_event list res" where
  "run_events project_id run_id db =
     map_res stored_event_of (filter (\<lambda>((p, _, _), row). p = project_id \<and> ew_run_id row = run_id) (db_events db))"

definition run_stages :: "string \<Rightarrow> string \<Rightarrow> evidence_db \<Rightarrow> stored_stage list" where
  "run_stages project_id run_id db =
     map stored_stage_of (filter (\<lambda>((p, r, _), row). p = project_id \<and> r = run_id) (db_stages db))"

definition run_records :: "string \<Rightarrow> string \<Rightarrow> string \<Rightarrow> int \<Rightarrow> (row_key, child_row) dict \<Rightarrow> stored_evidence list res" where
  "run_records model project_id run_id attempt rows =
     map_res (stored_record_of model)
       (filter (\<lambda>((p, r, _), row). p = project_id \<and> r = run_id \<and> cw_attempt row = attempt) rows)"

definition all_records :: "string \<Rightarrow> string \<Rightarrow> int \<Rightarrow> evidence_db \<Rightarrow> record_rows res" where
  "all_records project_id run_id attempt db =
     bind_res (run_records ''StoredResource'' project_id run_id attempt (db_resources db)) (\<lambda>resources.
     bind_res (run_records ''StoredCatalogChange'' project_id run_id attempt (db_catalog db)) (\<lambda>catalog.
     bind_res (run_records ''StoredQualityResult'' project_id run_id attempt (db_quality db)) (\<lambda>quality.
     bind_res (run_records ''StoredArtifact'' project_id run_id attempt (db_artifacts db)) (\<lambda>artifacts.
     Inr [(''resource'', resources), (''catalog_change'', catalog), (''quality_result'', quality),
          (''artifact'', artifacts)]))))"

definition insert_observation_records :: "evidence_env \<Rightarrow> run_observation \<Rightarrow> evidence_db \<Rightarrow> evidence_db res" where
  "insert_observation_records env ob db =
     bind_res (fold_res (\<lambda>e db.
        if re_project_id e \<noteq> ob_project_id ob \<or> re_run_id e \<noteq> ob_run_id ob
        then Inl (ValueError ''event source crossed project/run boundaries'')
        else if re_attempt e \<noteq> ob_attempt ob then Inl (ValueError ''event source crossed attempt boundaries'')
        else bind_res (insert_event env e db) (\<lambda>(_, db). Inr db)) (ob_events ob) db) (\<lambda>db.
     fold_res (\<lambda>s db.
        if st_project_id s \<noteq> ob_project_id ob \<or> st_run_id s \<noteq> ob_run_id ob
        then Inl (ValueError ''stage source crossed project/run boundaries'')
        else if st_attempt s \<noteq> ob_attempt ob then Inl (ValueError ''stage source crossed attempt boundaries'')
        else insert_stage env s db) (ob_stages ob) db)"

definition decision_content :: "evidence_env \<Rightarrow> reconciliation_decision \<Rightarrow> json" where
  "decision_content env d = JObj
     [(''decision_id'', JStr (rd_decision_id d)), (''project_id'', JStr (rd_project_id d)),
      (''run_id'', JStr (rd_run_id d)), (''attempt'', JInt (rd_attempt d)), (''profile_id'', JStr (rd_profile_id d)),
      (''profile_version'', JStr (rd_profile_version d)), (''status'', JStr (status_text (rd_status d))),
      (''evidence_completeness'', JStr (completeness_text (rd_evidence_completeness d))),
      (''reason'', JStr (rd_reason d)), (''missing_evidence'', JList (map JStr (rd_missing_evidence d))),
      (''evidence_checksum'', JStr (rd_evidence_checksum d)), (''source'', JStr (rd_source d)),
      (''heartbeat_at'', time_json (ee_iso env) (rd_heartbeat_at d)),
      (''stale_after_seconds'', case rd_stale_after_seconds d of None \<Rightarrow> JNull | Some n \<Rightarrow> JInt n),
      (''observed_event_count'', JInt (int (rd_observed_event_count d))),
      (''finished_at'', time_json (ee_iso env) (rd_finished_at d))]"

text \<open>The row keeps redacted texts; the decision answered on a repetition is made of the row.\<close>

definition decision_row :: "evidence_env \<Rightarrow> reconciliation_decision \<Rightarrow> reconciliation_decision" where
  "decision_row env d =
     d\<lparr>rd_reason := ee_text env (rd_reason d), rd_source := ee_text env (rd_source d),
       rd_missing_evidence := map (ee_text env) (rd_missing_evidence d)\<rparr>"

definition insert_reconciliation_decision :: "evidence_env \<Rightarrow> reconciliation_decision \<Rightarrow> evidence_db
    \<Rightarrow> (reconciliation_decision \<times> bool \<times> evidence_db) res" where
  "insert_reconciliation_decision env d db =
     (let key = (rd_project_id d, rd_decision_id d); record_checksum = ee_checksum env (decision_content env d) in
      case dict_get (db_decisions db) key of
        None \<Rightarrow> Inr (d, True, db\<lparr>db_decisions := dict_set (db_decisions db) key (record_checksum, decision_row env d)\<rparr>)
      | Some (stored_checksum, stored) \<Rightarrow>
          (if stored_checksum \<noteq> record_checksum
           then Inl (IdempotencyConflict (''reconciliation decision '' @ rd_project_id d @ ''/'' @ rd_decision_id d @ '' conflicted''))
           else Inr (stored, False, db)))"

text \<open>An authoritative absence is judged on what the run row says.\<close>

definition absent_observation :: "run_observation \<Rightarrow> run_row \<Rightarrow> run_observation" where
  "absent_observation ob row =
     ob\<lparr>ob_attempt := max (ob_attempt ob) (rr_attempt row),
        ob_pipeline_name := str_or (ob_pipeline_name ob) (rr_pipeline_name row),
        ob_provider_run_id := str_or (ob_provider_run_id ob) (rr_provider_run_id row),
        ob_status := normalize_status (Some (rr_status row)), ob_started_at := rr_started_at row,
        ob_finished_at := rr_finished_at row, ob_heartbeat_at := rr_last_heartbeat_at row\<rparr>"

definition observed_run :: "run_observation \<Rightarrow> pipeline_run" where
  "observed_run ob =
     \<lparr>pl_project_id = ob_project_id ob, pl_run_id = ob_run_id ob, pl_pipeline_name = ob_pipeline_name ob,
      pl_provider_run_id = ob_provider_run_id ob, pl_trigger = None, pl_initiator = None,
      pl_effective_identity = None, pl_partition_key = None, pl_code_version = None, pl_config_version = None,
      pl_attempt = ob_attempt ob, pl_trace_id = None,
      pl_status = (case ob_status ob of None \<Rightarrow> RS_RUNNING | Some st \<Rightarrow> st),
      pl_started_at = ob_started_at ob, pl_finished_at = ob_finished_at ob, pl_failure_summary = None,
      pl_evidence_completeness = (case ob_evidence_state ob of None \<Rightarrow> EC_INCOMPLETE | Some c \<Rightarrow> c)\<rparr>"

text \<open>The update of the run after a new decision on a run the provider has.\<close>

definition decided_run :: "evidence_env \<Rightarrow> run_observation \<Rightarrow> reconciliation_decision \<Rightarrow> run_row \<Rightarrow> run_row" where
  "decided_run env ob d row =
     (let current_status = (case normalize_status (Some (rr_status row)) of None \<Rightarrow> RS_RUNNING | Some st \<Rightarrow> st);
          same = (rr_attempt row = ob_attempt ob \<and> current_status \<in> set TERMINAL_STATUSES);
          contradicted = (same \<and> rd_status d \<in> set TERMINAL_STATUSES \<and> rd_status d \<noteq> current_status)
      in if ob_attempt ob \<ge> rr_attempt row \<and> \<not> (same \<and> rd_status d \<in> {RS_RUNNING, RS_INCOMPLETE, RS_ABANDONED}) \<and>
            rr_attempt row = ob_attempt ob
         then row\<lparr>rr_status := status_text (if contradicted then current_status else rd_status d),
                  rr_finished_at := (if contradicted then rr_finished_at row else rd_finished_at d),
                  rr_completeness := rd_evidence_completeness d, rr_last_heartbeat_at := rd_heartbeat_at d,
                  rr_reconciled_at := Some (rd_decided_at d), rr_reason := Some (ee_text env (rd_reason d))\<rparr>
         else row)"

definition absent_run :: "evidence_env \<Rightarrow> reconciliation_decision \<Rightarrow> run_row \<Rightarrow> run_row" where
  "absent_run env d row =
     row\<lparr>rr_completeness := rd_evidence_completeness d, rr_reconciled_at := Some (rd_decided_at d),
         rr_reason := Some (ee_text env (rd_reason d))\<rparr>"

text \<open>The part the two cases share: the verdict on the rows there are, and its insertion.\<close>

definition judge :: "evidence_env \<Rightarrow> run_observation \<Rightarrow> evidence_profile \<Rightarrow> int \<Rightarrow> int option \<Rightarrow> int \<Rightarrow> evidence_db
    \<Rightarrow> reconciliation_decision res" where
  "judge env ob profile now stale_after clock_skew db =
     bind_res (all_records (ob_project_id ob) (ob_run_id ob) (ob_attempt ob) db) (\<lambda>records.
     bind_res (case run_of db (ob_project_id ob) (ob_run_id ob) of
                 None \<Rightarrow> Inl (no_such_run (ob_project_id ob) (ob_run_id ob))
               | Some row \<Rightarrow> (case status_parse (rr_status row) of Inl _ \<Rightarrow> Inl (invalid_row ''StoredRun'') | Inr _ \<Rightarrow> Inr ())) (\<lambda>_.
     bind_res (run_events (ob_project_id ob) (ob_run_id ob) db) (\<lambda>events.
     evaluate_reconciliation (ee_iso env) (ee_checksum env) ob profile events
       (run_stages (ob_project_id ob) (ob_run_id ob) db) records now stale_after clock_skew)))"

definition map_run :: "(run_row \<Rightarrow> run_row) \<Rightarrow> string \<Rightarrow> string \<Rightarrow> evidence_db \<Rightarrow> evidence_db" where
  "map_run f project_id run_id db =
     (case run_of db project_id run_id of None \<Rightarrow> db | Some row \<Rightarrow> put_run (project_id, run_id) (f row) db)"

definition settle :: "evidence_env \<Rightarrow> run_observation \<Rightarrow> evidence_profile \<Rightarrow> int \<Rightarrow> int option \<Rightarrow> int
    \<Rightarrow> (reconciliation_decision \<Rightarrow> run_row \<Rightarrow> run_row) \<Rightarrow> evidence_db \<Rightarrow> (reconciliation_decision \<times> evidence_db) res" where
  "settle env ob profile now stale_after clock_skew change db =
     bind_res (judge env ob profile now stale_after clock_skew db) (\<lambda>d.
     bind_res (insert_reconciliation_decision env d db) (\<lambda>(answer, inserted, db).
     bind_res (commit_evidence (if inserted then map_run (change d) (ob_project_id ob) (ob_run_id ob) db else db)) (\<lambda>db.
     Inr (answer, db))))"

definition reconcile_observation :: "evidence_env \<Rightarrow> run_observation \<Rightarrow> evidence_profile \<Rightarrow> int \<Rightarrow> int option \<Rightarrow> int
    \<Rightarrow> evidence_db \<Rightarrow> (reconciliation_decision \<times> evidence_db) res" where
  "reconcile_observation env ob profile now stale_after clock_skew db =
     (if py_strip (ob_project_id ob) = [] \<or> py_strip (ob_run_id ob) = []
      then Inl (ValueError ''project_id and run_id must be stable non-empty identifiers'')
      else if ob_lookup_outcome ob = ABSENT
      then (case run_of db (ob_project_id ob) (ob_run_id ob) of
              None \<Rightarrow> Inl (RunEvidenceNotFound (''provider has no durable run '' @ ob_project_id ob @ ''/'' @ ob_run_id ob))
            | Some row \<Rightarrow>
                settle env (absent_observation ob row) profile now stale_after clock_skew (absent_run env) db)
      else bind_res (insert_observation_records env ob (upsert_run env (observed_run ob) db)) (\<lambda>db.
             settle env ob profile now stale_after clock_skew (decided_run env ob) db))"

end
