(* ===== verification/Run_Reconciliation_Spec.thy ===== *)
theory Run_Reconciliation_Spec
  imports Run_Reconciliation
begin

text \<open>
  What the verdict of \<open>Run_Reconciliation\<close> means: a declarative reading of complete evidence, and how far a
  verdict depends on the order in which the rows are read.
\<close>

section \<open>Complete evidence\<close>

definition in_time :: "int \<Rightarrow> int \<Rightarrow> int option \<Rightarrow> bool" where
  "in_time now clock_skew t \<longleftrightarrow> (case t of None \<Rightarrow> True | Some t \<Rightarrow> t \<le> now + clock_skew)"

definition in_order :: "int option \<Rightarrow> int option \<Rightarrow> bool" where
  "in_order s f \<longleftrightarrow> (case (s, f) of (Some s, Some f) \<Rightarrow> s \<le> f | _ \<Rightarrow> True)"

text \<open>Nothing observed lies in the future, and nothing ends before it starts.\<close>

definition times_ok :: "run_observation \<Rightarrow> stored_event list \<Rightarrow> stored_stage list \<Rightarrow> int \<Rightarrow> int \<Rightarrow> bool" where
  "times_ok ob events stages now clock_skew \<longleftrightarrow>
     (\<forall>e \<in> set events. in_time now clock_skew (Some (se_observed_at e))) \<and>
     (\<forall>s \<in> set stages. in_time now clock_skew (ss_started_at s) \<and> in_time now clock_skew (ss_finished_at s) \<and>
        in_order (ss_started_at s) (ss_finished_at s)) \<and>
     in_time now clock_skew (ob_started_at ob) \<and> in_time now clock_skew (ob_finished_at ob) \<and>
     in_order (ob_started_at ob) (ob_finished_at ob) \<and>
     in_time now clock_skew (ob_heartbeat_at ob) \<and> in_order (ob_started_at ob) (ob_heartbeat_at ob)"

text \<open>The run ended, an event of the profile says so, none says otherwise, and the fields are there.\<close>

definition termination_ok :: "run_observation \<Rightarrow> evidence_profile \<Rightarrow> stored_event list \<Rightarrow> run_status option \<Rightarrow> bool \<Rightarrow> bool" where
  "termination_ok ob profile events status no_data \<longleftrightarrow>
     is_terminal status \<and>
     (pf_run_terminal_event_types profile = [] \<or>
      (\<exists>e \<in> set events. se_event_type e \<in> set (pf_run_terminal_event_types profile)) \<or>
      (status = Some RS_NO_DATA \<and> no_data)) \<and>
     (\<forall>e \<in> set events. se_event_type e \<in> set (pf_run_terminal_event_types profile) \<longrightarrow>
        event_status e \<in> {None, status}) \<and>
     (\<forall>f \<in> set (pf_required_run_fields profile). \<not> run_field_blank ob f)"

text \<open>
  A required event: one of the type, attributed to a matching stage or, when there is only one, to none,
  with an expected status or, when there is only one stage, without a status but from a stage that has one.
\<close>

definition event_met :: "stored_event list \<Rightarrow> stored_stage list \<Rightarrow> run_status option list \<Rightarrow> string \<Rightarrow> bool" where
  "event_met events matching expected event_type \<longleftrightarrow>
     (\<exists>e \<in> set events. se_event_type e = event_type \<and>
        ((\<exists>s \<in> set matching. event_stage e = Some (ss_stage_id s)) \<or> (length matching = 1 \<and> event_stage e = None)))
     \<and> (expected = [] \<or>
        (\<exists>e \<in> set events. (se_event_type e = event_type \<and>
           ((\<exists>s \<in> set matching. event_stage e = Some (ss_stage_id s)) \<or> (length matching = 1 \<and> event_stage e = None))) \<and>
           (event_status e \<in> set expected \<or>
            (event_status e = None \<and> length matching = 1 \<and> Some (ss_status (hd matching)) \<in> set expected))))"

definition stage_met :: "stored_stage list \<Rightarrow> bool \<Rightarrow> stored_event list \<Rightarrow> required_stage \<Rightarrow> bool" where
  "stage_met stages no_data events r \<longleftrightarrow>
     (let matching = matching_stages stages r; expected = normalized_expected r; waived = (no_data \<and> rq_allow_no_data r) in
      (matching \<noteq> [] \<or> waived) \<and>
      (expected = [] \<or> matching = [] \<or> (\<exists>s \<in> set matching. Some (ss_status s) \<in> set expected)) \<and>
      (waived \<or> (\<forall>t \<in> set (rq_required_event_types r). event_met events matching expected t)))"

definition record_met :: "record_rows \<Rightarrow> int \<Rightarrow> required_record \<Rightarrow> bool" where
  "record_met rows now r \<longleftrightarrow>
     rc_minimum r \<le> int (length (rows_of rows (rc_family r))) \<and>
     (case rc_required_status r of
        None \<Rightarrow> True
      | Some s \<Rightarrow> s = [] \<or> (\<exists>row \<in> set (rows_of rows (rc_family r)). evidence_status (er_family row) = Some (py_lower (py_strip s)))) \<and>
     (\<forall>row \<in> set (rows_of rows (rc_family r)).
        er_completeness row \<noteq> Some EC_INCOMPLETE \<and>
        evidence_status (er_family row) \<notin> {Some ''redacted'', Some ''expired'', Some ''missing''} \<and>
        (rc_family r = ''artifact'' \<longrightarrow> \<not> artifact_expired now row))"

definition complete_evidence :: "run_observation \<Rightarrow> evidence_profile \<Rightarrow> stored_event list \<Rightarrow> stored_stage list \<Rightarrow> record_rows
    \<Rightarrow> int \<Rightarrow> int \<Rightarrow> bool" where
  "complete_evidence ob profile events stages rows now clock_skew \<longleftrightarrow>
     (let no_data = ends_without_data ob profile events in
      \<not> degraded (ob_evidence_state ob) \<and> times_ok ob events stages now clock_skew \<and>
      termination_ok ob profile events (verdict_status ob no_data) no_data \<and>
      (\<forall>r \<in> set (pf_stages profile). stage_met stages no_data events r) \<and>
      (\<forall>r \<in> set (pf_required_records profile). record_met rows now r))"

lemma concat_map_Nil: "concat (map f xs) = [] \<longleftrightarrow> (\<forall>x \<in> set xs. f x = [])"
  by simp

lemma event_timing_Nil:
  "event_timing_gaps events now clock_skew stages = [] \<longleftrightarrow>
     (\<forall>e \<in> set events. in_time now clock_skew (Some (se_observed_at e))) \<and>
     (\<forall>s \<in> set stages. in_time now clock_skew (ss_started_at s) \<and> in_time now clock_skew (ss_finished_at s) \<and>
        in_order (ss_started_at s) (ss_finished_at s))"
  unfolding event_timing_gaps_def append_is_Nil_conv concat_map_Nil Let_def in_time_def in_order_def
  by (intro conj_cong ball_cong refl) (auto split: option.splits)

lemma run_timing_Nil:
  "tm_missing (run_timing_gaps now clock_skew ob (ob_heartbeat_at ob)) = [] \<longleftrightarrow>
     in_time now clock_skew (ob_started_at ob) \<and> in_time now clock_skew (ob_finished_at ob) \<and>
     in_order (ob_started_at ob) (ob_finished_at ob) \<and>
     in_time now clock_skew (ob_heartbeat_at ob) \<and> in_order (ob_started_at ob) (ob_heartbeat_at ob)"
  by (auto simp: run_timing_gaps_def Let_def in_time_def in_order_def split: option.splits)

lemma run_terminal_Nil:
  "is_terminal status \<Longrightarrow> run_terminal_gaps events profile status no_data ob = [] \<longleftrightarrow>
     termination_ok ob profile events status no_data"
  by (auto simp: run_terminal_gaps_def termination_ok_def terminal_events_def filter_empty_conv)

lemma image_collect: "y \<in> f ` {e \<in> E. A e} \<longleftrightarrow> (\<exists>e \<in> E. A e \<and> f e = y)"
  by blast

lemma image_bex: "(\<exists>y \<in> f ` {e \<in> E. A e}. y \<in> X) \<longleftrightarrow> (\<exists>e \<in> E. A e \<and> f e \<in> X)"
  by blast

lemma split_choice:
  "(\<exists>e \<in> E. A e) \<and> (x \<or> (\<exists>e \<in> E. A e \<and> P e) \<or> ((\<exists>e \<in> E. A e \<and> N e) \<and> c)) \<longleftrightarrow>
   (\<exists>e \<in> E. A e) \<and> (x \<or> (\<exists>e \<in> E. A e \<and> (P e \<or> (N e \<and> c))))"
  by blast

lemma event_satisfied_iff: "event_satisfied events matching expected t \<longleftrightarrow> event_met events matching expected t"
proof -
  let ?A = "\<lambda>e. se_event_type e = t \<and>
     ((\<exists>s \<in> set matching. event_stage e = Some (ss_stage_id s)) \<or> (length matching = 1 \<and> event_stage e = None))"
  let ?own = "length matching = 1 \<and> Some (ss_status (hd matching)) \<in> set expected"
  define sts where "sts = concat (map (\<lambda>s. event_statuses events t (Some (ss_stage_id s))) matching) @
            (if length matching = 1 then event_statuses events t None else [])"
  have mem: "set sts = event_status ` {e \<in> set events. ?A e}"
    by (auto simp: event_statuses_def sts_def)
  have in_sts: "st \<in> set sts \<longleftrightarrow> (\<exists>e \<in> set events. ?A e \<and> event_status e = st)" for st
    unfolding mem by (rule image_collect)
  have some: "sts \<noteq> [] \<longleftrightarrow> (\<exists>e \<in> set events. ?A e)"
    by (simp only: set_empty [symmetric] mem image_is_empty Collect_empty_eq) (simp only: not_all not_not Bex_def)
  have one: "(\<exists>st \<in> set sts. st \<in> set expected) \<longleftrightarrow> (\<exists>e \<in> set events. ?A e \<and> event_status e \<in> set expected)"
    unfolding mem by (rule image_bex)
  have blank: "None \<in> set sts \<longleftrightarrow> (\<exists>e \<in> set events. ?A e \<and> event_status e = None)"
    by (rule in_sts)
  have "event_satisfied events matching expected t \<longleftrightarrow>
      sts \<noteq> [] \<and> (expected = [] \<or> (\<exists>st \<in> set sts. st \<in> set expected) \<or> (None \<in> set sts \<and> ?own))"
    by (simp only: event_satisfied_def Let_def sts_def)
  also have "\<dots> \<longleftrightarrow> event_met events matching expected t"
    unfolding some one blank event_met_def by (rule split_choice)
  finally show ?thesis .
qed

lemma normalized_Nil [simp]: "normalized_expected r = [] \<longleftrightarrow> expected_statuses r = []"
  by (simp add: normalized_expected_def)

lemma stage_gaps_Nil: "stage_gaps_of stages no_data events r = [] \<longleftrightarrow> stage_met stages no_data events r"
  by (auto simp: stage_gaps_of_def stage_met_def Let_def event_satisfied_iff filter_empty_conv)

lemma record_gaps_Nil: "record_gaps_of rows now r = ([], []) \<longleftrightarrow> record_met rows now r"
proof -
  let ?rows = "rows_of rows (rc_family r)"
  have state: "(if Some ''redacted'' \<in> set sts then [Some EC_REDACTED]
           else if Some ''expired'' \<in> set sts then [Some EC_EXPIRED]
           else if Some ''missing'' \<in> set sts then [Some EC_MISSING] else []) = [] \<longleftrightarrow>
      (\<forall>st \<in> set sts. st \<notin> {Some ''redacted'', Some ''expired'', Some ''missing''})" for sts
    by auto
  have held: "Some x \<in> set (row_statuses rs) \<longleftrightarrow> (\<exists>row \<in> set rs. evidence_status (er_family row) = Some x)" for x rs
    unfolding row_statuses_def set_map image_iff by metis
  have sts: "(\<forall>st \<in> set (row_statuses rs). P st) \<longleftrightarrow> (\<forall>row \<in> set rs. P (evidence_status (er_family row)))" for P rs
    by (simp add: row_statuses_def)
  have status: "(case rc_required_status r of None \<Rightarrow> []
           | Some s \<Rightarrow> if s \<noteq> [] \<and> Some (py_lower (py_strip s)) \<notin> set (row_statuses ?rows)
               then [rc_family r @ '':status:'' @ s] else []) = [] \<longleftrightarrow>
      (case rc_required_status r of None \<Rightarrow> True
       | Some s \<Rightarrow> s = [] \<or> (\<exists>row \<in> set ?rows. evidence_status (er_family row) = Some (py_lower (py_strip s))))"
    unfolding held by (simp split: option.split)
  have expired: "(if rc_family r = ''artifact'' then filter (artifact_expired now) ?rows else []) = [] \<longleftrightarrow>
      (\<forall>row \<in> set ?rows. rc_family r = ''artifact'' \<longrightarrow> \<not> artifact_expired now row)"
    by (auto simp: filter_empty_conv)
  have minimum: "(if int (length ?rows) < rc_minimum r then [x] else []) = [] \<longleftrightarrow> rc_minimum r \<le> int (length ?rows)" for x :: string
    by simp
  show ?thesis
    unfolding record_gaps_of_def record_met_def Let_def prod.inject append_is_Nil_conv map_is_Nil_conv
      state sts status expired minimum filter_empty_conv
    by blast
qed

lemma degraded_precedence: "degraded (Some c) \<longleftrightarrow> evidence_precedence c > 0"
  by (cases c) (simp_all add: degraded_def)

lemma degraded_None [simp]: "\<not> degraded None"
  by (simp add: degraded_def)

lemma fold_strongest:
  "evidence_precedence (fold (\<lambda>x best. if evidence_precedence x > evidence_precedence best then x else best) xs b) > 0
     \<longleftrightarrow> evidence_precedence b > 0 \<or> (\<exists>x \<in> set xs. evidence_precedence x > 0)"
  by (induction xs arbitrary: b) auto

lemma degraded_strongest: "degraded (strongest_evidence_state states) \<longleftrightarrow> (\<exists>st \<in> set states. degraded st)"
proof -
  have given: "(\<exists>st \<in> set states. degraded st) \<longleftrightarrow> (\<exists>c \<in> set (List.map_filter id states). evidence_precedence c > 0)"
    by (induction states) (simp_all add: degraded_precedence List.map_filter_simps split: option.split)
  show ?thesis
    unfolding given strongest_evidence_state_def
    by (cases "List.map_filter id states") (simp_all add: degraded_precedence fold_strongest)
qed

lemma record_states_degraded: "st \<in> set (fst (record_gaps_of rows now r)) \<Longrightarrow> degraded st"
  by (auto simp: record_gaps_of_def Let_def degraded_def split: if_splits)

lemma record_gaps_all:
  "fst (record_gaps profile rows now) = [] \<and> snd (record_gaps profile rows now) = [] \<longleftrightarrow>
     (\<forall>r \<in> set (pf_required_records profile). record_met rows now r)"
  unfolding record_gaps_Nil [symmetric] by (auto simp: record_gaps_def Let_def prod_eq_iff)

lemma degraded_explicit:
  "degraded (explicit_evidence_state ob profile rows now) \<longleftrightarrow>
     degraded (ob_evidence_state ob) \<or> fst (record_gaps profile rows now) \<noteq> []"
proof -
  have "st \<in> set (fst (record_gaps profile rows now)) \<Longrightarrow> degraded st" for st
    by (auto simp: record_gaps_def Let_def dest: record_states_degraded)
  then have "(\<exists>st \<in> set (fst (record_gaps profile rows now)). degraded st) \<longleftrightarrow> fst (record_gaps profile rows now) \<noteq> []"
    by (cases "fst (record_gaps profile rows now)") auto
  then show ?thesis
    by (simp add: explicit_evidence_state_def degraded_strongest)
qed

lemma stage_gaps_all: "stage_gaps profile stages no_data events = [] \<longleftrightarrow> (\<forall>r \<in> set (pf_stages profile). stage_met stages no_data events r)"
  by (simp add: stage_gaps_def stage_gaps_Nil)

lemma terminal_outcome:
  "is_terminal status \<Longrightarrow>
     oc_completeness (resolve_run_outcome c ob now clock_skew missing st stale status) =
       (if tm_missing (run_timing_gaps now clock_skew ob (ob_heartbeat_at ob)) \<noteq> [] \<and> \<not> degraded st then EC_INCOMPLETE else c)"
  by (auto simp: resolve_run_outcome_def Let_def is_terminal_def split: option.splits)

lemma open_outcome:
  "\<not> is_terminal status \<Longrightarrow> (degraded st \<Longrightarrow> c \<noteq> EC_COMPLETE) \<Longrightarrow>
     oc_completeness (resolve_run_outcome c ob now clock_skew missing st stale status) \<noteq> EC_COMPLETE"
  by (cases "degraded st"; cases status)
    (simp_all add: resolve_run_outcome_def Let_def is_terminal_def del: split_paired_All split_paired_Ex)

lemma outcome_complete:
  "oc_completeness (outcome_of ob profile events stages rows now stale clock_skew) = EC_COMPLETE \<longleftrightarrow>
     complete_evidence ob profile events stages rows now clock_skew"
proof -
  let ?nd = "ends_without_data ob profile events"
  let ?st = "verdict_status ob ?nd"
  let ?missing = "collected_gaps ob profile events stages rows now clock_skew"
  let ?explicit = "explicit_evidence_state ob profile rows now"
  define c where "c = (case ?explicit of
             Some c \<Rightarrow> if degraded (Some c) then c else if ?missing = [] then EC_COMPLETE else EC_INCOMPLETE
           | None \<Rightarrow> if ?missing = [] then EC_COMPLETE else EC_INCOMPLETE)"
  have low: "degraded ?explicit \<Longrightarrow> c \<noteq> EC_COMPLETE"
    by (auto simp: c_def degraded_def split: option.split)
  have full: "\<not> degraded ?explicit \<Longrightarrow> c = EC_COMPLETE \<longleftrightarrow> ?missing = []"
    by (auto simp: c_def split: option.split)
  have out: "outcome_of ob profile events stages rows now stale clock_skew =
      resolve_run_outcome c ob now clock_skew ?missing ?explicit stale ?st"
    by (simp add: outcome_of_def Let_def c_def)
  show ?thesis
  proof (cases "is_terminal ?st")
    case False
    then show ?thesis
      using open_outcome [OF False low] by (simp add: out complete_evidence_def termination_ok_def Let_def)
  next
    case True
    have gaps: "?missing = [] \<longleftrightarrow> event_timing_gaps events now clock_skew stages = [] \<and>
        termination_ok ob profile events ?st ?nd \<and>
        (\<forall>r \<in> set (pf_stages profile). stage_met stages ?nd events r) \<and> snd (record_gaps profile rows now) = []"
      by (simp add: collected_gaps_def Let_def run_terminal_Nil [OF True] stage_gaps_all)
    have times: "times_ok ob events stages now clock_skew \<longleftrightarrow> event_timing_gaps events now clock_skew stages = [] \<and>
        tm_missing (run_timing_gaps now clock_skew ob (ob_heartbeat_at ob)) = []"
      by (simp add: times_ok_def event_timing_Nil run_timing_Nil)
    have "oc_completeness (outcome_of ob profile events stages rows now stale clock_skew) = EC_COMPLETE \<longleftrightarrow>
        \<not> degraded ?explicit \<and> ?missing = [] \<and>
        tm_missing (run_timing_gaps now clock_skew ob (ob_heartbeat_at ob)) = []"
      using low full by (cases "degraded ?explicit") (simp_all add: out terminal_outcome [OF True])
    then show ?thesis
      unfolding complete_evidence_def Let_def times gaps degraded_explicit record_gaps_all [symmetric] by blast
  qed
qed

end
