(* ===== verification/Run_Verdict_Spec.thy ===== *)
theory Run_Verdict_Spec
  imports Run_Reconciliation_Spec
begin

text \<open>
  The verdict as a whole: it is complete exactly on complete evidence, and the order in which the rows were
  read does not matter to it.
\<close>

section \<open>The order of the rows\<close>

lemma map_const_filter: "mset xs = mset ys \<Longrightarrow> map (\<lambda>_. c) (filter P xs) = map (\<lambda>_. c) (filter P ys)"
  by (simp add: map_replicate_const) (metis mset_filter size_mset)

lemma hd_single: "mset xs = mset ys \<Longrightarrow> length xs = 1 \<Longrightarrow> hd ys = hd xs"
  by (cases xs; cases ys) (auto dest: mset_eq_length)

lemma filter_order: "mset xs = mset ys \<Longrightarrow> mset (filter P xs) = mset (filter P ys)"
  by simp

lemma matching_order:
  assumes "mset stages' = mset stages"
  shows "mset (matching_stages stages' r) = mset (matching_stages stages r)"
  unfolding matching_stages_def using assms by (rule filter_order)

lemma event_met_order:
  assumes "set events' = set events" and "mset matching' = mset matching"
  shows "event_met events' matching' expected t = event_met events matching expected t"
proof -
  have "length matching' = length matching" "set matching' = set matching"
    using assms(2) by (rule mset_eq_length, rule mset_eq_setD)
  moreover have "length matching = 1 \<Longrightarrow> hd matching' = hd matching"
    using hd_single [OF assms(2) [symmetric]] by simp
  ultimately show ?thesis
    using assms(1) by (simp add: event_met_def cong: conj_cong)
qed

lemma stage_gaps_order:
  assumes "mset events' = mset events" and "mset stages' = mset stages"
  shows "stage_gaps profile stages' no_data events' = stage_gaps profile stages no_data events"
proof -
  have "stage_gaps_of stages' no_data events' r = stage_gaps_of stages no_data events r" for r
  proof -
    note m = matching_order [OF assms(2), of r]
    have "set (matching_stages stages' r) = set (matching_stages stages r)"
      using m by (rule mset_eq_setD)
    moreover from this have "matching_stages stages' r = [] \<longleftrightarrow> matching_stages stages r = []"
      by (metis set_empty)
    ultimately show ?thesis
      by (simp add: stage_gaps_of_def Let_def event_satisfied_iff event_met_order [OF mset_eq_setD [OF assms(1)] m])
  qed
  then have "stage_gaps_of stages' no_data events' = stage_gaps_of stages no_data events"
    by (rule ext)
  then show ?thesis by (simp only: stage_gaps_def)
qed

lemma terminal_gaps_order:
  assumes "set events' = set events"
  shows "run_terminal_gaps events' profile status no_data ob = run_terminal_gaps events profile status no_data ob"
proof -
  have s: "set (terminal_events events' profile) = set (terminal_events events profile)"
    using assms by (simp add: terminal_events_def)
  moreover from s have "terminal_events events' profile = [] \<longleftrightarrow> terminal_events events profile = []"
    by (metis set_empty)
  ultimately show ?thesis
    by (simp add: run_terminal_gaps_def)
qed

lemma no_data_order:
  "set events' = set events \<Longrightarrow> ends_without_data ob profile events' = ends_without_data ob profile events"
  by (simp add: ends_without_data_def terminal_events_def)

lemma record_gaps_order:
  assumes "\<And>family. mset (rows_of rows' family) = mset (rows_of rows family)"
  shows "record_gaps profile rows' now = record_gaps profile rows now"
proof -
  have "record_gaps_of rows' now r = record_gaps_of rows now r" for r
  proof -
    note m = assms [of "rc_family r"]
    have "set (row_statuses (rows_of rows' (rc_family r))) = set (row_statuses (rows_of rows (rc_family r)))"
      using mset_eq_setD [OF m] by (simp add: row_statuses_def)
    then show ?thesis
      unfolding record_gaps_of_def Let_def mset_eq_length [OF m] if_distrib [of "map _"] list.map map_const_filter [OF m]
      by (simp split: option.split)
  qed
  then have "record_gaps_of rows' now = record_gaps_of rows now"
    by (rule ext)
  then show ?thesis by (simp only: record_gaps_def)
qed

lemma timing_order:
  assumes "mset events' = mset events" and "mset stages' = mset stages"
  shows "mset (event_timing_gaps events' now skew stages') = mset (event_timing_gaps events now skew stages)"
  unfolding event_timing_gaps_def mset_append
  by (simp only: mset_concat_map [OF assms(1)] mset_concat_map [OF assms(2)])

lemma collected_order:
  assumes "mset events' = mset events" and "mset stages' = mset stages"
    and "\<And>family. mset (rows_of rows' family) = mset (rows_of rows family)"
  shows "\<exists>late late' rest. collected_gaps ob profile events stages rows now skew = late @ rest \<and>
     collected_gaps ob profile events' stages' rows' now skew = late' @ rest \<and> mset late' = mset late \<and>
     late = event_timing_gaps events now skew stages"
proof -
  let ?nd = "ends_without_data ob profile events"
  define rest where "rest = run_terminal_gaps events profile (verdict_status ob ?nd) ?nd ob @
      stage_gaps profile stages ?nd events @ snd (record_gaps profile rows now)"
  have a: "collected_gaps ob profile events stages rows now skew = event_timing_gaps events now skew stages @ rest"
    unfolding collected_gaps_def Let_def rest_def ..
  have b: "collected_gaps ob profile events' stages' rows' now skew = event_timing_gaps events' now skew stages' @ rest"
    unfolding collected_gaps_def Let_def rest_def no_data_order [OF mset_eq_setD [OF assms(1)]]
      terminal_gaps_order [OF mset_eq_setD [OF assms(1)]] stage_gaps_order [OF assms(1, 2)]
      record_gaps_order [OF assms(3)] ..
  show ?thesis
    by (intro exI conjI, rule a, rule b, rule timing_order [OF assms(1, 2)], rule refl)
qed

lemma explicit_order:
  assumes "\<And>family. mset (rows_of rows' family) = mset (rows_of rows family)"
  shows "explicit_evidence_state ob profile rows' now = explicit_evidence_state ob profile rows now"
  unfolding explicit_evidence_state_def record_gaps_order [OF assms] ..

lemma resolve_order:
  assumes "mset missing' = mset missing"
  shows "oc_status (resolve_run_outcome c ob now skew missing' st stale status) =
           oc_status (resolve_run_outcome c ob now skew missing st stale status)"
    and "oc_completeness (resolve_run_outcome c ob now skew missing' st stale status) =
           oc_completeness (resolve_run_outcome c ob now skew missing st stale status)"
    and "mset (oc_missing (resolve_run_outcome c ob now skew missing' st stale status)) =
           mset (oc_missing (resolve_run_outcome c ob now skew missing st stale status))"
  using assms by (cases status; simp add: resolve_run_outcome_def Let_def)+

lemma outcome_order:
  assumes "mset events' = mset events" and "mset stages' = mset stages"
    and "\<And>family. mset (rows_of rows' family) = mset (rows_of rows family)"
  fixes ob profile now stale skew
  defines "oc \<equiv> outcome_of ob profile events stages rows now stale skew"
    and "oc' \<equiv> outcome_of ob profile events' stages' rows' now stale skew"
  shows "oc_status oc' = oc_status oc" and "oc_completeness oc' = oc_completeness oc"
    and "mset (oc_missing oc') = mset (oc_missing oc)"
    and "event_timing_gaps events now skew stages = [] \<Longrightarrow> oc' = oc"
proof -
  obtain late late' rest where gaps: "collected_gaps ob profile events stages rows now skew = late @ rest"
      "collected_gaps ob profile events' stages' rows' now skew = late' @ rest" "mset late' = mset late"
      "late = event_timing_gaps events now skew stages"
    using collected_order [OF assms(1-3)] by blast
  have nil: "late' @ rest = [] \<longleftrightarrow> late @ rest = []"
    using gaps(3) by auto
  have m: "mset (late' @ rest) = mset (late @ rest)"
    using gaps(3) by simp
  note unfolded = oc_def oc'_def outcome_of_def Let_def gaps(1, 2) nil explicit_order [OF assms(3)]
    no_data_order [OF mset_eq_setD [OF assms(1)]]
  show "oc_status oc' = oc_status oc" "oc_completeness oc' = oc_completeness oc"
      "mset (oc_missing oc') = mset (oc_missing oc)"
    unfolding unfolded by (rule resolve_order [OF m])+
  assume "event_timing_gaps events now skew stages = []"
  then have "late' = late"
    using gaps(3, 4) by simp
  then show "oc' = oc"
    unfolding unfolded by simp
qed

section \<open>The decision\<close>

lemma sort_key_map: "(\<And>x. k (h x) = k x) \<Longrightarrow> sort_key k (map h xs) = map h (sort_key k xs)"
proof (induction xs)
  case (Cons x xs)
  have "insort_key k (h x) (map h ys) = map h (insort_key k x ys)" for ys
    by (induction ys) (simp_all add: Cons.prems)
  then show ?case using Cons by simp
qed simp

lemma sort_key_order: "mset xs = mset ys \<Longrightarrow> distinct (map k ys) \<Longrightarrow> sort_key k xs = sort_key k ys"
  by (rule sort_key_inj_key_eq) (auto simp: distinct_map dest: mset_eq_setD)

lemma mset_rows_of:
  assumes "\<And>rs. rs \<in> snd ` set rows \<Longrightarrow> mset (p rs) = mset rs"
  shows "mset (rows_of (map (\<lambda>(f, rs). (f, p rs)) rows) family) = mset (rows_of rows family)"
  using assms by (induction rows) (auto simp: rows_of_def)

lemma records_json_order:
  assumes "\<And>rs. rs \<in> snd ` set rows \<Longrightarrow> mset (p rs) = mset rs"
    and "\<And>rs. rs \<in> snd ` set rows \<Longrightarrow> distinct (map er_record_id rs)"
  shows "records_json (map (\<lambda>(f, rs). (f, p rs)) rows) = records_json rows"
proof -
  have s: "sort_key (\<lambda>r. (er_record_id r, er_record_checksum r)) (p rs) =
      sort_key (\<lambda>r. (er_record_id r, er_record_checksum r)) rs" if "rs \<in> snd ` set rows" for rs
  proof (rule sort_key_order [OF assms(1) [OF that]])
    have "inj_on er_record_id (set rs)" "distinct rs"
      using assms(2) [OF that] by (simp_all add: distinct_map)
    then show "distinct (map (\<lambda>r. (er_record_id r, er_record_checksum r)) rs)"
      by (auto simp: distinct_map inj_on_def)
  qed
  have k: "sort_key fst (map (\<lambda>(f, rs). (f, p rs)) rows) = map (\<lambda>(f, rs). (f, p rs)) (sort_key fst rows)"
    by (rule sort_key_map) (simp add: split_beta)
  show ?thesis
    unfolding records_json_def k by (auto simp: split_beta s)
qed

lemma evidence_json_order:
  assumes "mset events' = mset events" and "mset stages' = mset stages"
    and "distinct (map (\<lambda>e. (se_producer e, se_event_id e)) events)" and "distinct (map ss_stage_id stages)"
    and "records_json rows' = records_json rows"
  shows "evidence_json isof ob profile events' stages' rows' skew st oc = evidence_json isof ob profile events stages rows skew st oc"
  unfolding evidence_json_def assms(5) sort_key_order [OF assms(1, 3)] sort_key_order [OF assms(2, 4)] ..

lemma evaluate_Inr:
  "evaluate_reconciliation isof checksum ob profile events stages rows now stale_after clock_skew = Inr d \<Longrightarrow>
     d = decision_of isof checksum ob profile (at_attempt ob events) (stages_at_attempt ob stages) rows now stale_after clock_skew"
  by (simp add: evaluate_reconciliation_def split: if_splits)

section \<open>What the verdict says\<close>

text \<open>
  C31: Reconciliation judges a run complete exactly when its evidence is: the source reports nothing missing,
  expired or redacted, no time lies in the future or before its start, the run ended and says how, every
  required stage and event of its attempt is there, and every required record is there, whole and kept.
\<close>
theorem evidence_complete_iff:
  assumes "evaluate_reconciliation isof checksum ob profile events stages rows now stale_after clock_skew = Inr d"
  shows "rd_evidence_completeness d = EC_COMPLETE \<longleftrightarrow>
     complete_evidence ob profile (at_attempt ob events) (stages_at_attempt ob stages) rows now clock_skew"
  unfolding evaluate_Inr [OF assms] by (simp add: decision_of_def Let_def outcome_complete)

text \<open>
  C14: reading order. The rows of the events, the stages and each family of records are selected without an order;
  whatever order they come in, evaluation of the same observation at the same time does not raise because of it, and
  the status and the completeness of the decision are the same, and the missing evidence up to order. If moreover
  events, stages and the records of a family have distinct keys and no event or stage of the attempt is out of
  time, it is the same decision, its reason, evidence checksum and id included.
\<close>
theorem verdict_order_free:
  assumes "mset events' = mset events" and "mset stages' = mset stages"
    and "\<And>rs. rs \<in> snd ` set rows \<Longrightarrow> mset (p rs) = mset rs"
    and "evaluate_reconciliation isof checksum ob profile events stages rows now stale_after clock_skew = Inr d"
  shows "\<exists>d'. evaluate_reconciliation isof checksum ob profile events' stages' (map (\<lambda>(f, rs). (f, p rs)) rows)
       now stale_after clock_skew = Inr d' \<and>
     rd_status d' = rd_status d \<and> rd_evidence_completeness d' = rd_evidence_completeness d \<and>
     mset (rd_missing_evidence d') = mset (rd_missing_evidence d) \<and>
     (distinct (map (\<lambda>e. (se_producer e, se_event_id e)) events) \<and> distinct (map ss_stage_id stages) \<and>
      (\<forall>rs \<in> snd ` set rows. distinct (map er_record_id rs)) \<and>
      event_timing_gaps (at_attempt ob events) now clock_skew (stages_at_attempt ob stages) = [] \<longrightarrow> d' = d)"
proof -
  let ?rows = "map (\<lambda>(f, rs). (f, p rs)) rows"
  let ?d' = "decision_of isof checksum ob profile (at_attempt ob events') (stages_at_attempt ob stages') ?rows now
     stale_after clock_skew"
  have e: "mset (at_attempt ob events') = mset (at_attempt ob events)"
    and s: "mset (stages_at_attempt ob stages') = mset (stages_at_attempt ob stages)"
    using assms(1, 2) by (simp_all add: at_attempt_def stages_at_attempt_def)
  have r: "mset (rows_of ?rows family) = mset (rows_of rows family)" for family
    by (rule mset_rows_of) (rule assms(3))
  note order = outcome_order [OF e s r]
  note d = evaluate_Inr [OF assms(4)]
  have "evaluate_reconciliation isof checksum ob profile events' stages' ?rows now stale_after clock_skew = Inr ?d'"
    using assms(4) by (auto simp: evaluate_reconciliation_def split: if_splits)
  moreover have "rd_status ?d' = rd_status d" "rd_evidence_completeness ?d' = rd_evidence_completeness d"
      "mset (rd_missing_evidence ?d') = mset (rd_missing_evidence d)"
    by (simp_all add: d decision_of_def Let_def order(1-3))
  moreover have "?d' = d" if keys: "distinct (map (\<lambda>e. (se_producer e, se_event_id e)) events)"
      "distinct (map ss_stage_id stages)" "\<forall>rs \<in> snd ` set rows. distinct (map er_record_id rs)"
      and late: "event_timing_gaps (at_attempt ob events) now clock_skew (stages_at_attempt ob stages) = []"
  proof -
    have "records_json ?rows = records_json rows"
      using keys(3) by (intro records_json_order assms(3)) auto
    note j = evidence_json_order [OF e s _ _ this]
    have "distinct (map (\<lambda>e. (se_producer e, se_event_id e)) (at_attempt ob events))"
        "distinct (map ss_stage_id (stages_at_attempt ob stages))"
      using keys(1, 2) by (simp_all add: at_attempt_def stages_at_attempt_def distinct_map_filter)
    note j = j [OF this]
    show ?thesis
      unfolding d decision_of_def Let_def order(4) [OF late] j explicit_order [OF r] mset_eq_length [OF e] ..
  qed
  ultimately show ?thesis by blast
qed

section \<open>An example\<close>

text \<open>One load of two stages, its events and an artifact.\<close>

definition sample_event :: "string \<Rightarrow> string \<Rightarrow> string option \<Rightarrow> stored_event" where
  "sample_event event_id event_type stage_id =
     \<lparr>se_event_id = event_id, se_producer = ''dagster'', se_event_type = event_type, se_schema_version = ''1'',
      se_stage_id = stage_id, se_observed_at = 7, se_sequence = None, se_attempt = 1,
      se_payload = \<lparr>pay_status = Some RS_SUCCESS, pay_run_status = None, pay_no_data = False, pay_stage_id = None\<rparr>,
      se_payload_checksum = event_id\<rparr>"

definition sample_stage :: "string \<Rightarrow> string \<Rightarrow> stored_stage" where
  "sample_stage stage_id stage_type =
     \<lparr>ss_stage_id = stage_id, ss_stage_type = stage_type, ss_provider = None, ss_tool = None, ss_asset = None,
      ss_attempt = 1, ss_status = RS_SUCCESS, ss_started_at = Some 1, ss_finished_at = Some 5, ss_metrics = [],
      ss_error = None, ss_record_checksum = stage_id\<rparr>"

definition sample_profile :: evidence_profile where
  "sample_profile =
     \<lparr>pf_profile_id = ''load'', pf_version = ''1'', pf_pipeline_name = Some ''orders'', pf_provider = None,
      pf_stages = [\<lparr>rq_stage_type = ''extract'', rq_provider = None, rq_required_event_types = [''stage.end''],
        rq_required_status = Some ''success'', rq_allowed_statuses = [], rq_allow_no_data = False\<rparr>],
      pf_run_terminal_event_types = [''run.end''], pf_required_run_fields = [''finished_at''],
      pf_required_records = [\<lparr>rc_family = ''artifact'', rc_minimum = 1, rc_required_status = Some ''complete''\<rparr>]\<rparr>"

definition sample_observation :: "run_status option \<Rightarrow> run_observation" where
  "sample_observation status =
     \<lparr>ob_project_id = ''lake'', ob_run_id = ''r1'', ob_attempt = 1, ob_pipeline_name = Some ''orders'',
      ob_provider = None, ob_provider_run_id = None, ob_status = status, ob_started_at = Some 1,
      ob_finished_at = Some 6, ob_heartbeat_at = None, ob_source = ''dagster'', ob_events = [], ob_stages = [],
      ob_evidence_state = None, ob_lookup_outcome = PRESENT\<rparr>"

definition sample_events :: "stored_event list" where
  "sample_events = [sample_event ''e1'' ''stage.end'' (Some ''s1''), sample_event ''e2'' ''run.end'' None]"

definition sample_stages :: "stored_stage list" where
  "sample_stages = [sample_stage ''s1'' ''extract'', sample_stage ''s2'' ''publish'']"

definition sample_artifact :: "string \<Rightarrow> stored_evidence" where
  "sample_artifact record_id =
     \<lparr>er_record_id = record_id, er_record_checksum = record_id, er_completeness = None,
      er_family = FArtifact EC_COMPLETE (Some 100) False\<rparr>"

definition sample_rows :: record_rows where
  "sample_rows = [(''resource'', []), (''artifact'', [sample_artifact ''a1'', sample_artifact ''a2''])]"

lemma sample_complete:
  "complete_evidence (sample_observation (Some RS_SUCCESS)) sample_profile
     (at_attempt (sample_observation (Some RS_SUCCESS)) sample_events)
     (stages_at_attempt (sample_observation (Some RS_SUCCESS)) sample_stages) sample_rows 10 0"
  by code_simp

lemma sample_incomplete:
  "\<not> complete_evidence (sample_observation (Some RS_SUCCESS)) sample_profile
     (at_attempt (sample_observation (Some RS_SUCCESS)) sample_events)
     (stages_at_attempt (sample_observation (Some RS_SUCCESS)) []) sample_rows 10 0"
  by code_simp

lemma sample_evaluates:
  "evaluate_reconciliation isof checksum (sample_observation st) sample_profile events stages rows 10 stale 0 =
     Inr (decision_of isof checksum (sample_observation st) sample_profile (at_attempt (sample_observation st) events)
       (stages_at_attempt (sample_observation st) stages) rows 10 stale 0)"
  by (simp add: evaluate_reconciliation_def sample_observation_def sample_profile_def)

theorem evidence_complete_iff_witness:
  "(case evaluate_reconciliation (\<lambda>_. ''t'') (\<lambda>_. ''c'') (sample_observation (Some RS_SUCCESS)) sample_profile
      sample_events sample_stages sample_rows 10 None 0 of
      Inl e \<Rightarrow> False | Inr d \<Rightarrow> rd_evidence_completeness d = EC_COMPLETE) \<and>
   (case evaluate_reconciliation (\<lambda>_. ''t'') (\<lambda>_. ''c'') (sample_observation (Some RS_SUCCESS)) sample_profile
      sample_events [] sample_rows 10 None 0 of
      Inl e \<Rightarrow> False | Inr d \<Rightarrow> rd_evidence_completeness d \<noteq> EC_COMPLETE)"
  unfolding sample_evaluates sum.case evidence_complete_iff [OF sample_evaluates]
  using sample_complete sample_incomplete by blast

theorem verdict_order_free_witness:
  "\<exists>d'. evaluate_reconciliation (\<lambda>_. ''t'') (\<lambda>_. ''c'') (sample_observation (Some RS_SUCCESS)) sample_profile
      (rev sample_events) (rev sample_stages) (map (\<lambda>(f, rs). (f, rev rs)) sample_rows) 10 None 0 = Inr d' \<and>
    rd_status d' = RS_SUCCESS"
proof -
  let ?d = "decision_of (\<lambda>_. ''t'') (\<lambda>_. ''c'') (sample_observation (Some RS_SUCCESS)) sample_profile
     (at_attempt (sample_observation (Some RS_SUCCESS)) sample_events)
     (stages_at_attempt (sample_observation (Some RS_SUCCESS)) sample_stages) sample_rows 10 None 0"
  have "rd_status ?d = RS_SUCCESS"
    by code_simp
  moreover obtain d' where "evaluate_reconciliation (\<lambda>_. ''t'') (\<lambda>_. ''c'') (sample_observation (Some RS_SUCCESS)) sample_profile
      (rev sample_events) (rev sample_stages) (map (\<lambda>(f, rs). (f, rev rs)) sample_rows) 10 None 0 = Inr d'"
      and "rd_status d' = rd_status ?d"
    using verdict_order_free [of "rev sample_events" sample_events "rev sample_stages" sample_stages sample_rows rev,
        OF mset_rev mset_rev mset_rev sample_evaluates] by blast
  ultimately show ?thesis by - (intro exI conjI, assumption, simp only:)
qed

end
