(* ===== verification/Run_Evidence_Spec.thy ===== *)
theory Run_Evidence_Spec
  imports Run_Evidence_Store Run_Verdict_Spec
begin

text \<open>
  What the evidence store keeps: no write changes or drops a row of evidence, a replayed event changes
  nothing, and what a reconciliation leaves on the row of its run.
\<close>

section \<open>Writes\<close>

inductive evidence_step :: "evidence_env \<Rightarrow> evidence_db \<Rightarrow> evidence_db \<Rightarrow> bool" for env where
  step_run: "evidence_step env db (append_pipeline_run env r db)"
| step_update: "evidence_step env db (update_run env project_id run_id status finished_at summary c db)"
| step_event: "append_event env e b db = Inr (inserted, db') \<Longrightarrow> evidence_step env db db'"
| step_stage: "append_stage env s db = Inr db' \<Longrightarrow> evidence_step env db db'"
| step_resource: "append_child insert_resource env x db = Inr db' \<Longrightarrow> evidence_step env db db'"
| step_lineage: "append_child insert_lineage env x db = Inr db' \<Longrightarrow> evidence_step env db db'"
| step_quality: "append_child insert_quality env x db = Inr db' \<Longrightarrow> evidence_step env db db'"
| step_catalog: "append_child insert_catalog_change env x db = Inr db' \<Longrightarrow> evidence_step env db db'"
| step_artifact: "append_child insert_artifact env x db = Inr db' \<Longrightarrow> evidence_step env db db'"
| step_reconcile: "reconcile_observation env ob profile now stale_after clock_skew db = Inr (d, db') \<Longrightarrow> evidence_step env db db'"

abbreviation evidence_steps :: "evidence_env \<Rightarrow> evidence_db \<Rightarrow> evidence_db \<Rightarrow> bool" where
  "evidence_steps env \<equiv> (evidence_step env)\<^sup>*\<^sup>*"

text \<open>Every row of a table is in another, as a row \<open>follows\<close> relates to it.\<close>

definition rows_follow :: "('v \<Rightarrow> 'v \<Rightarrow> bool) \<Rightarrow> ('k, 'v) dict \<Rightarrow> ('k, 'v) dict \<Rightarrow> bool" where
  "rows_follow follows d d' \<longleftrightarrow> (\<forall>k v. dict_get d k = Some v \<longrightarrow> (\<exists>v'. dict_get d' k = Some v' \<and> follows v v'))"

abbreviation rows_kept :: "('k, 'v) dict \<Rightarrow> ('k, 'v) dict \<Rightarrow> bool" where
  "rows_kept \<equiv> rows_follow (=)"

definition stage_identity :: "stage_row \<Rightarrow> string \<times> string option \<times> string option \<times> string option \<times> int \<times> string \<times> string option" where
  "stage_identity s = (sw_stage_type s, sw_provider s, sw_tool s, sw_asset s, sw_attempt s, sw_record_checksum s,
     sw_resource_identity s)"

text \<open>A stage that has ended keeps its status and its metrics, and gets no other end.\<close>

definition stage_follows :: "stage_row \<Rightarrow> stage_row \<Rightarrow> bool" where
  "stage_follows s s' \<longleftrightarrow> stage_identity s' = stage_identity s \<and>
     (sw_status s \<in> set TERMINAL_STATUSES \<longrightarrow> sw_status s' = sw_status s \<and> sw_metrics s' = sw_metrics s \<and>
        (sw_finished_at s \<noteq> None \<longrightarrow> sw_finished_at s' = sw_finished_at s))"

definition evidence_kept :: "evidence_db \<Rightarrow> evidence_db \<Rightarrow> bool" where
  "evidence_kept db db' \<longleftrightarrow>
     rows_kept (db_events db) (db_events db') \<and> rows_kept (db_resources db) (db_resources db') \<and>
     rows_kept (db_lineage db) (db_lineage db') \<and> rows_kept (db_quality db) (db_quality db') \<and>
     rows_kept (db_catalog db) (db_catalog db') \<and> rows_kept (db_artifacts db) (db_artifacts db') \<and>
     rows_kept (db_decisions db) (db_decisions db') \<and>
     rows_follow (\<lambda>row row'. rr_attempt row \<le> rr_attempt row') (db_runs db) (db_runs db') \<and>
     rows_follow stage_follows (db_stages db) (db_stages db')"

lemma rows_follow_refl: "(\<And>v. follows v v) \<Longrightarrow> rows_follow follows d d"
  by (simp add: rows_follow_def)

lemma rows_follow_trans:
  assumes "rows_follow follows a b" and "rows_follow follows b c" and "\<And>u v w. follows u v \<Longrightarrow> follows v w \<Longrightarrow> follows u w"
  shows "rows_follow follows a c"
  unfolding rows_follow_def
proof (intro allI impI)
  fix k u assume "dict_get a k = Some u"
  then obtain v where "dict_get b k = Some v" "follows u v"
    using assms(1) unfolding rows_follow_def by blast
  moreover from this(1) obtain w where "dict_get c k = Some w" "follows v w"
    using assms(2) unfolding rows_follow_def by blast
  ultimately show "\<exists>w. dict_get c k = Some w \<and> follows u w"
    using assms(3) by blast
qed

lemma rows_follow_set:
  "(\<And>v. follows v v) \<Longrightarrow> (\<And>v. dict_get d k = Some v \<Longrightarrow> follows v v') \<Longrightarrow> rows_follow follows d (dict_set d k v')"
  by (auto simp: rows_follow_def)

lemma rows_kept_refl [simp]: "rows_kept d d"
  by (rule rows_follow_refl) (rule refl)

lemma rows_kept_new [intro]: "dict_get d k = None \<Longrightarrow> rows_kept d (dict_set d k v)"
  by (rule rows_follow_set) simp_all

lemma stage_follows_refl [simp]: "stage_follows s s"
  by (simp add: stage_follows_def)

lemma stage_follows_trans: "stage_follows a b \<Longrightarrow> stage_follows b c \<Longrightarrow> stage_follows a c"
  unfolding stage_follows_def by auto

lemma merge_stage_follows: "stage_follows old (merge_stage old new)"
  by (auto simp: stage_follows_def stage_identity_def merge_stage_def Let_def coalesce_def split: option.split)

lemma kept_refl [simp]: "evidence_kept db db"
  unfolding evidence_kept_def by (intro conjI rows_follow_refl) simp_all

lemma kept_trans: "evidence_kept a b \<Longrightarrow> evidence_kept b c \<Longrightarrow> evidence_kept a c"
  unfolding evidence_kept_def
  by (elim conjE, intro conjI; (erule (1) rows_follow_trans)) (auto intro: stage_follows_trans)

lemma kept_event: "evidence_kept db db' \<Longrightarrow> dict_get (db_events db) k = Some row \<Longrightarrow> dict_get (db_events db') k = Some row"
  unfolding evidence_kept_def rows_follow_def by blast

lemma kept_run:
  assumes "evidence_kept db db'" and "run_of db p r = Some row"
  obtains row' where "run_of db' p r = Some row'"
proof -
  have "rows_follow (\<lambda>row row'. rr_attempt row \<le> rr_attempt row') (db_runs db) (db_runs db')"
    using assms(1) unfolding evidence_kept_def by (elim conjE)
  then show thesis
    using assms(2) that unfolding rows_follow_def run_of_def by blast
qed

lemma put_run_kept:
  "(\<And>row. dict_get (db_runs db) k = Some row \<Longrightarrow> rr_attempt row \<le> rr_attempt row') \<Longrightarrow> evidence_kept db (put_run k row' db)"
  unfolding evidence_kept_def by (simp add: rows_follow_set rows_follow_refl)

lemma put_stage_kept:
  "(\<And>s. dict_get (db_stages db) k = Some s \<Longrightarrow> stage_follows s s') \<Longrightarrow> evidence_kept db (put_stage k s' db)"
  unfolding evidence_kept_def by (simp add: rows_follow_set rows_follow_refl)

lemma put_event_kept: "dict_get (db_events db) k = None \<Longrightarrow> evidence_kept db (put_event k row db)"
  unfolding evidence_kept_def by (auto simp: rows_follow_refl)

lemma table_kept:
  "rows_kept (db_resources db) rows \<Longrightarrow> evidence_kept db (db\<lparr>db_resources := rows\<rparr>)"
  "rows_kept (db_lineage db) rows \<Longrightarrow> evidence_kept db (db\<lparr>db_lineage := rows\<rparr>)"
  "rows_kept (db_quality db) rows \<Longrightarrow> evidence_kept db (db\<lparr>db_quality := rows\<rparr>)"
  "rows_kept (db_catalog db) rows \<Longrightarrow> evidence_kept db (db\<lparr>db_catalog := rows\<rparr>)"
  "rows_kept (db_artifacts db) rows \<Longrightarrow> evidence_kept db (db\<lparr>db_artifacts := rows\<rparr>)"
  "rows_kept (db_decisions db) ds \<Longrightarrow> evidence_kept db (db\<lparr>db_decisions := ds\<rparr>)"
  unfolding evidence_kept_def by (auto simp: rows_follow_refl)

section \<open>Every write keeps the evidence\<close>

lemma upsert_run_kept: "evidence_kept db (upsert_run env r db)"
  unfolding upsert_run_def
  by (rule put_run_kept) (auto simp: run_of_def merge_run_def Let_def)

lemma update_run_kept: "evidence_kept db (update_run env p r st f s c db)"
  by (auto simp: update_run_def run_of_def split: option.split intro!: put_run_kept)

lemma insert_event_kept: "insert_event env e db = Inr (i, db') \<Longrightarrow> evidence_kept db db'"
  by (auto simp: insert_event_def err_simps Let_def split: option.splits if_splits intro: put_event_kept)

lemma insert_stage_kept: "insert_stage env s db = Inr db' \<Longrightarrow> evidence_kept db db'"
  by (auto simp: insert_stage_def err_simps Let_def split: option.splits if_splits intro!: put_stage_kept merge_stage_follows)

lemma insert_child_kept: "insert_child env t x rows = Inr rows' \<Longrightarrow> rows_kept rows rows'"
  by (auto simp: insert_child_def Let_def split: option.splits if_splits)

lemma insert_family_kept:
  "insert_resource env x db = Inr db' \<Longrightarrow> evidence_kept db db'"
  "insert_lineage env x db = Inr db' \<Longrightarrow> evidence_kept db db'"
  "insert_quality env x db = Inr db' \<Longrightarrow> evidence_kept db db'"
  "insert_catalog_change env x db = Inr db' \<Longrightarrow> evidence_kept db db'"
  "insert_artifact env x db = Inr db' \<Longrightarrow> evidence_kept db db'"
  by (auto simp: insert_resource_def insert_lineage_def insert_quality_def insert_catalog_change_def insert_artifact_def
      err_simps intro!: table_kept dest: insert_child_kept)

lemma commit_evidence_Inr: "commit_evidence db = Inr db' \<Longrightarrow> db' = db"
  by (auto simp: commit_evidence_def split: if_splits)

lemma fold_res_kept:
  assumes "fold_res f xs db = Inr db'" and "\<And>x a b. f x a = Inr b \<Longrightarrow> evidence_kept a b"
  shows "evidence_kept db db'"
  by (rule fold_res_inv [OF assms(1), where P = "evidence_kept db"]) (auto intro: kept_trans assms(2))

lemma fold_upsert_kept: "evidence_kept db (fold (upsert_run env) rs db)"
  by (induction rs arbitrary: db) (auto intro: kept_trans upsert_run_kept)

lemma insert_bundle_kept:
  assumes "insert_bundle env b db = Inr db'"
  shows "evidence_kept db db'"
proof -
  from assms obtain d1 d2 d3 d4 d5 where
    "fold_res (insert_stage env) (some_list (eb_stage b)) (fold (upsert_run env) (some_list (eb_run b)) db) = Inr d1"
    "fold_res (insert_quality env) (some_list (eb_quality_result b)) d1 = Inr d2"
    "fold_res (insert_lineage env) (eb_lineage_edges b) d2 = Inr d3"
    "fold_res (insert_resource env) (eb_resources b) d3 = Inr d4"
    "fold_res (insert_catalog_change env) (some_list (eb_catalog_change b)) d4 = Inr d5"
    "fold_res (insert_artifact env) (eb_artifacts b) d5 = Inr db'"
    by (auto simp: insert_bundle_def err_simps)
  note this [THEN fold_res_kept]
  note steps = this(1) [OF insert_stage_kept] this(2) [OF insert_family_kept(3)] this(3) [OF insert_family_kept(2)]
    this(4) [OF insert_family_kept(1)] this(5) [OF insert_family_kept(4)] this(6) [OF insert_family_kept(5)]
  note kept_trans [OF fold_upsert_kept steps(1)]
  note kept_trans [OF this steps(2)]
  note kept_trans [OF this steps(3)]
  note kept_trans [OF this steps(4)]
  note kept_trans [OF this steps(5)]
  from kept_trans [OF this steps(6)] show ?thesis .
qed

lemma parent_kept: "ensure_event_parent e r db = Inr db' \<Longrightarrow> evidence_kept db db'"
  by (auto simp: ensure_event_parent_def run_of_def split: option.splits intro!: put_run_kept)

lemma foreign_refused:
  "dict_get (db_events db) (event_key e) = Some row \<Longrightarrow> ew_run_id row \<noteq> re_run_id e \<Longrightarrow> insert_event env e db \<noteq> Inr r"
  by (auto simp: insert_event_def err_simps Let_def)

lemma append_event_parts:
  assumes "append_event env e b db = Inr (inserted, db')"
  obtains d1 d2 where "validate_append_event_inputs e b = Inr ()"
    and "validate_event_stage_references e b db = Inr ()" and "ensure_event_parent e (eb_run b) db = Inr d1"
    and "lock_run (re_project_id e) (re_run_id e) d1 = Inr ()" and "validate_event_stage_references e b d1 = Inr ()"
    and "insert_event env e d1 = Inr (inserted, d2)" and "(if inserted then insert_bundle env b d2 else Inr d2) = Inr db'"
    and "commit_evidence db' = Inr db'"
proof -
  have own: "ew_run_id row = re_run_id e" if "dict_get (db_events db) (event_key e) = Some row" for row
  proof (rule ccontr)
    assume "ew_run_id row \<noteq> re_run_id e"
    then show False
      using assms that foreign_refused [OF that] by (auto simp: append_event_def err_simps)
  qed
  obtain d1 d2 d3 where "validate_append_event_inputs e b = Inr ()"
    "validate_event_stage_references e b db = Inr ()" "ensure_event_parent e (eb_run b) db = Inr d1"
    "lock_run (re_project_id e) (re_run_id e) d1 = Inr ()" "validate_event_stage_references e b d1 = Inr ()"
    "insert_event env e d1 = Inr (inserted, d2)" "(if inserted then insert_bundle env b d2 else Inr d2) = Inr d3"
    "commit_evidence d3 = Inr db'"
    using assms by (cases "dict_get (db_events db) (event_key e)") (auto simp: append_event_def err_simps own)
  moreover from this(8) have "d3 = db'" by (rule commit_evidence_Inr [symmetric])
  ultimately show thesis
    by (intro that) simp_all
qed

lemma append_event_kept:
  assumes "append_event env e b db = Inr (inserted, db')"
  shows "evidence_kept db db'"
proof -
  obtain d1 d2 where "ensure_event_parent e (eb_run b) db = Inr d1" "insert_event env e d1 = Inr (inserted, d2)"
      "(if inserted then insert_bundle env b d2 else Inr d2) = Inr db'"
    using assms by (rule append_event_parts)
  then have "evidence_kept db d1" "evidence_kept d1 d2" "evidence_kept d2 db'"
    by (auto intro: parent_kept insert_event_kept insert_bundle_kept split: if_splits)
  then show ?thesis by (blast intro: kept_trans)
qed

lemma append_one_kept:
  "append_stage env s db = Inr db' \<Longrightarrow> evidence_kept db db'"
  "append_child insert_resource env x db = Inr db' \<Longrightarrow> evidence_kept db db'"
  "append_child insert_lineage env x db = Inr db' \<Longrightarrow> evidence_kept db db'"
  "append_child insert_quality env x db = Inr db' \<Longrightarrow> evidence_kept db db'"
  "append_child insert_catalog_change env x db = Inr db' \<Longrightarrow> evidence_kept db db'"
  "append_child insert_artifact env x db = Inr db' \<Longrightarrow> evidence_kept db db'"
  by (auto simp: append_stage_def append_child_def err_simps dest!: commit_evidence_Inr insert_stage_kept insert_family_kept)

lemma observation_records_kept:
  assumes "insert_observation_records env ob db = Inr db'"
  shows "evidence_kept db db'"
proof -
  obtain d1 where e: "fold_res (\<lambda>e db.
        if re_project_id e \<noteq> ob_project_id ob \<or> re_run_id e \<noteq> ob_run_id ob
        then Inl (ValueError ''event source crossed project/run boundaries'')
        else if re_attempt e \<noteq> ob_attempt ob then Inl (ValueError ''event source crossed attempt boundaries'')
        else bind_res (insert_event env e db) (\<lambda>(_, db). Inr db)) (ob_events ob) db = Inr d1"
    and s: "fold_res (\<lambda>s db.
        if st_project_id s \<noteq> ob_project_id ob \<or> st_run_id s \<noteq> ob_run_id ob
        then Inl (ValueError ''stage source crossed project/run boundaries'')
        else if st_attempt s \<noteq> ob_attempt ob then Inl (ValueError ''stage source crossed attempt boundaries'')
        else insert_stage env s db) (ob_stages ob) d1 = Inr db'"
    using assms unfolding insert_observation_records_def bind_res_Inr_iff by blast
  have "evidence_kept db d1"
    by (rule fold_res_kept [OF e]) (auto simp: err_simps split: if_splits intro: insert_event_kept)
  moreover have "evidence_kept d1 db'"
    by (rule fold_res_kept [OF s]) (auto split: if_splits intro: insert_stage_kept)
  ultimately show ?thesis by (rule kept_trans)
qed

lemma map_run_kept: "(\<And>row. rr_attempt (f row) = rr_attempt row) \<Longrightarrow> evidence_kept db (map_run f p r db)"
  by (auto simp: map_run_def run_of_def split: option.split intro!: put_run_kept)

lemma insert_decision_kept: "insert_reconciliation_decision env d db = Inr (a, i, db') \<Longrightarrow> evidence_kept db db'"
  by (auto simp: insert_reconciliation_decision_def Let_def split: option.splits if_splits intro!: table_kept)

lemma settle_kept:
  assumes "settle env ob profile now stale_after clock_skew change db = Inr (d, db')"
    and "\<And>d row. rr_attempt (change d row) = rr_attempt row"
  shows "evidence_kept db db'"
proof -
  obtain v i d1 where "insert_reconciliation_decision env v db = Inr (d, i, d1)"
      "db' = (if i then map_run (change v) (ob_project_id ob) (ob_run_id ob) d1 else d1)"
    using assms(1) by (auto simp: settle_def err_simps dest: commit_evidence_Inr)
  moreover from this(1) have "evidence_kept db d1"
    by (rule insert_decision_kept)
  moreover have "evidence_kept d1 (map_run (change v) (ob_project_id ob) (ob_run_id ob) d1)"
    using assms(2) by (rule map_run_kept)
  ultimately show ?thesis by (auto intro: kept_trans)
qed

lemma run_changes_attempt [simp]:
  "rr_attempt (decided_run env ob d row) = rr_attempt row" "rr_attempt (absent_run env d row) = rr_attempt row"
  by (simp_all add: decided_run_def absent_run_def Let_def)

lemma reconcile_kept:
  assumes "reconcile_observation env ob profile now stale_after clock_skew db = Inr (d, db')"
  shows "evidence_kept db db'"
proof (cases "ob_lookup_outcome ob")
  case ABSENT
  then show ?thesis
    using assms by (auto simp: reconcile_observation_def split: option.splits if_splits intro: settle_kept)
next
  case PRESENT
  then obtain d1 where "insert_observation_records env ob (upsert_run env (observed_run ob) db) = Inr d1"
      "settle env ob profile now stale_after clock_skew (decided_run env ob) d1 = Inr (d, db')"
    using assms by (auto simp: reconcile_observation_def err_simps split: if_splits)
  then have "evidence_kept (upsert_run env (observed_run ob) db) d1" "evidence_kept d1 db'"
    by (auto intro: observation_records_kept settle_kept)
  then show ?thesis
    by (blast intro: kept_trans upsert_run_kept)
qed

lemma evidence_step_kept: "evidence_step env db db' \<Longrightarrow> evidence_kept db db'"
  by (induction rule: evidence_step.induct)
    (auto simp: append_pipeline_run_def intro: upsert_run_kept update_run_kept append_event_kept append_one_kept reconcile_kept)

lemma evidence_steps_kept: "evidence_steps env db db' \<Longrightarrow> evidence_kept db db'"
  by (induction rule: rtranclp_induct) (auto intro: kept_trans evidence_step_kept)

text \<open>
  C32: Whatever is written to the store, by producers and by reconciliation, in any order: every event,
  resource, lineage edge, quality result, catalog change, artifact and decision stays as it was written, every
  run stays with an attempt that does not fall, and every stage stays what it is, with its status once it
  has ended.
\<close>
theorem evidence_append_only:
  assumes "evidence_steps env db db'"
  shows "evidence_kept db db'"
  by (rule evidence_steps_kept [OF assms])

section \<open>Replayed events\<close>

text \<open>All that an operation adds to the stages, events and quality results of a run has the attempt \<open>n\<close>.\<close>

definition adds_attempt :: "int \<Rightarrow> evidence_db \<Rightarrow> evidence_db \<Rightarrow> bool" where
  "adds_attempt n db db' \<longleftrightarrow>
     (\<forall>k row'. dict_get (db_stages db') k = Some row' \<longrightarrow>
        sw_attempt row' = n \<or> (\<exists>row. dict_get (db_stages db) k = Some row \<and> sw_attempt row = sw_attempt row')) \<and>
     (\<forall>p \<in> set (db_events db'). ew_attempt (snd p) = n \<or> p \<in> set (db_events db)) \<and>
     (\<forall>p \<in> set (db_quality db'). cw_attempt (snd p) = n \<or> p \<in> set (db_quality db))"

definition stage_agrees :: "string \<Rightarrow> string \<Rightarrow> string \<Rightarrow> int \<Rightarrow> evidence_db \<Rightarrow> bool" where
  "stage_agrees p r stage_id n db \<longleftrightarrow>
     (\<forall>row. dict_get (db_stages db) (p, r, stage_id) = Some row \<longrightarrow> sw_attempt row = n)"

lemma existing_stage_iff: "validate_existing_stage_attempt err p r stage_id n db = Inr () \<longleftrightarrow> stage_agrees p r stage_id n db"
  by (auto simp: validate_existing_stage_attempt_def stage_agrees_def split: option.split)

lemma stage_mismatch_iff: "stage_mismatch s table attempts = Inr () \<longleftrightarrow> (\<forall>a \<in> set attempts. a = st_attempt s)"
proof (cases "filter (\<lambda>a. a \<noteq> st_attempt s) attempts")
  case Nil
  then show ?thesis by (simp add: stage_mismatch_def filter_empty_conv)
next
  case (Cons a xs)
  then have "a \<in> set attempts \<and> a \<noteq> st_attempt s"
    by (metis (mono_tags, lifting) list.set_intros(1) mem_Collect_eq set_filter)
  with Cons show ?thesis by (auto simp: stage_mismatch_def)
qed

lemma bind_unit [simp]: "bind_res a (\<lambda>_. b) = Inr () \<longleftrightarrow> a = Inr () \<and> b = Inr ()"
  for a b :: "unit res"
  by (cases a) simp_all

lemma each_res_iff: "each_res f xs = Inr () \<longleftrightarrow> (\<forall>x \<in> set xs. f x = Inr ())"
  unfolding each_res_def by (induction xs) (auto simp: bind_res_Inr_iff)

lemma stage_write_iff:
  "validate_stage_write_references s db = Inr () \<longleftrightarrow>
     stage_agrees (st_project_id s) (st_run_id s) (st_stage_id s) (st_attempt s) db \<and>
     (\<forall>((project_id, b), row) \<in> set (db_events db). project_id = st_project_id s \<longrightarrow> ew_run_id row = st_run_id s \<longrightarrow>
        ew_stage_id row = Some (st_stage_id s) \<longrightarrow> ew_attempt row = st_attempt s) \<and>
     (\<forall>((project_id, run_id, b), row) \<in> set (db_quality db). project_id = st_project_id s \<longrightarrow> run_id = st_run_id s \<longrightarrow>
        cw_stage_id row = Some (st_stage_id s) \<longrightarrow> cw_attempt row = st_attempt s)"
  unfolding validate_stage_write_references_def bind_unit existing_stage_iff stage_mismatch_iff
  by (fastforce simp: split_beta)

lemma adds_refl [simp]: "adds_attempt n db db"
  by (auto simp: adds_attempt_def)

lemma adds_trans: "adds_attempt n a b \<Longrightarrow> adds_attempt n b c \<Longrightarrow> adds_attempt n a c"
  unfolding adds_attempt_def by (intro conjI allI impI ballI; elim conjE; metis)

lemma stage_agrees_adds: "stage_agrees p r i n db \<Longrightarrow> adds_attempt n db db' \<Longrightarrow> stage_agrees p r i n db'"
  unfolding stage_agrees_def adds_attempt_def by metis

lemma stage_write_adds:
  assumes "validate_stage_write_references s db = Inr ()" and "adds_attempt (st_attempt s) db db'"
  shows "validate_stage_write_references s db' = Inr ()"
  using assms stage_agrees_adds unfolding stage_write_iff by (fastforce simp: adds_attempt_def)

lemma same_tables_adds:
  "db_stages db' = db_stages db \<Longrightarrow> db_events db' = db_events db \<Longrightarrow> db_quality db' = db_quality db \<Longrightarrow> adds_attempt n db db'"
  by (auto simp: adds_attempt_def)

lemma insert_event_adds: "insert_event env e db = Inr (i, db') \<Longrightarrow> adds_attempt (re_attempt e) db db'"
  by (auto simp: insert_event_def err_simps Let_def adds_attempt_def new_event_row_def
      split: option.splits if_splits dest!: set_mp [OF dict_set_subset])

lemma insert_stage_adds: "insert_stage env s db = Inr db' \<Longrightarrow> adds_attempt (st_attempt s) db db'"
  by (auto simp: insert_stage_def err_simps Let_def adds_attempt_def new_stage_row_def merge_stage_def split: option.splits if_splits)

lemma insert_quality_adds: "insert_quality env x db = Inr db' \<Longrightarrow> adds_attempt (ei_attempt x) db db'"
  by (auto simp: insert_quality_def insert_child_def err_simps Let_def adds_attempt_def new_child_row_def
      split: option.splits if_splits dest!: set_mp [OF dict_set_subset])

lemma insert_other_adds:
  "insert_resource env x db = Inr db' \<Longrightarrow> adds_attempt n db db'"
  "insert_lineage env x db = Inr db' \<Longrightarrow> adds_attempt n db db'"
  "insert_catalog_change env x db = Inr db' \<Longrightarrow> adds_attempt n db db'"
  "insert_artifact env x db = Inr db' \<Longrightarrow> adds_attempt n db db'"
  by (auto simp: insert_resource_def insert_lineage_def insert_catalog_change_def insert_artifact_def err_simps
      intro!: same_tables_adds)

lemma fold_res_adds:
  assumes "fold_res f xs db = Inr db'" and "\<And>x a b. x \<in> set xs \<Longrightarrow> f x a = Inr b \<Longrightarrow> adds_attempt n a b"
  shows "adds_attempt n db db'"
  by (rule fold_res_inv [OF assms(1), where P = "adds_attempt n db"]) (auto intro: adds_trans assms(2))

lemma fold_upsert_tables:
  "db_stages (fold (upsert_run env) rs db) = db_stages db" "db_events (fold (upsert_run env) rs db) = db_events db"
  "db_quality (fold (upsert_run env) rs db) = db_quality db"
  by (induction rs arbitrary: db) (simp_all add: upsert_run_def)

text \<open>What the checks of an event let through: one run, one attempt.\<close>

lemma event_inputs_attempt:
  assumes "validate_append_event_inputs e b = Inr ()"
  shows "s \<in> set (some_list (eb_stage b)) \<Longrightarrow> st_attempt s = re_attempt e"
    and "q \<in> set (some_list (eb_quality_result b)) \<Longrightarrow> ei_attempt q = re_attempt e"
  using assms
  by (auto simp: validate_append_event_inputs_def each_res_iff validate_object_def validate_input_def split: if_splits)

lemma insert_bundle_adds:
  assumes "insert_bundle env b db = Inr db'" and "validate_append_event_inputs e b = Inr ()"
  shows "adds_attempt (re_attempt e) db db'"
proof -
  let ?A = "adds_attempt (re_attempt e)"
  note n = event_inputs_attempt [OF assms(2)]
  from assms(1) obtain d1 d2 d3 d4 d5 where
    s: "fold_res (insert_stage env) (some_list (eb_stage b)) (fold (upsert_run env) (some_list (eb_run b)) db) = Inr d1"
    and q: "fold_res (insert_quality env) (some_list (eb_quality_result b)) d1 = Inr d2"
    and l: "fold_res (insert_lineage env) (eb_lineage_edges b) d2 = Inr d3"
    and r: "fold_res (insert_resource env) (eb_resources b) d3 = Inr d4"
    and c: "fold_res (insert_catalog_change env) (some_list (eb_catalog_change b)) d4 = Inr d5"
    and a: "fold_res (insert_artifact env) (eb_artifacts b) d5 = Inr db'"
    by (auto simp: insert_bundle_def err_simps)
  have "?A db (fold (upsert_run env) (some_list (eb_run b)) db)"
    by (rule same_tables_adds) (rule fold_upsert_tables)+
  also have "?A \<dots> d1"
    by (rule fold_res_adds [OF s]) (metis n(1) insert_stage_adds)
  also (adds_trans) have "?A d1 d2"
    by (rule fold_res_adds [OF q]) (metis n(2) insert_quality_adds)
  also (adds_trans) have "?A d2 d3"
    by (rule fold_res_adds [OF l]) (rule insert_other_adds(2))
  also (adds_trans) have "?A d3 d4"
    by (rule fold_res_adds [OF r]) (rule insert_other_adds(1))
  also (adds_trans) have "?A d4 d5"
    by (rule fold_res_adds [OF c]) (rule insert_other_adds(3))
  also (adds_trans) have "?A d5 db'"
    by (rule fold_res_adds [OF a]) (rule insert_other_adds(4))
  finally (adds_trans) show ?thesis .
qed

lemma event_references_adds:
  assumes "validate_event_stage_references e b db = Inr ()" and "adds_attempt (re_attempt e) db db'"
    and "validate_append_event_inputs e b = Inr ()"
  shows "validate_event_stage_references e b db' = Inr ()"
proof -
  have "validate_stage_write_references s db' = Inr ()" if "s \<in> set (some_list (eb_stage b))" for s
  proof (rule stage_write_adds)
    show "validate_stage_write_references s db = Inr ()"
      using assms(1) that unfolding validate_event_stage_references_def each_res_iff bind_unit by blast
    show "adds_attempt (st_attempt s) db db'"
      using assms(2) by (simp add: event_inputs_attempt(1) [OF assms(3) that])
  qed
  moreover have "stage_agrees p r i (re_attempt e) db'" if "stage_agrees p r i (re_attempt e) db" for p r i
    using that assms(2) by (rule stage_agrees_adds)
  ultimately show ?thesis
    using assms(1) unfolding validate_event_stage_references_def each_res_iff existing_stage_iff bind_unit by blast
qed

lemma insert_event_result:
  assumes "insert_event env e db = Inr (i, db')"
  shows "\<exists>row. dict_get (db_events db') (event_key e) = Some row \<and> ew_run_id row = re_run_id e \<and> same_event row (new_event_row env e)"
    and "require_id ''event_id'' (re_event_id e) = Inr ()" and "require_id ''producer'' (re_producer e) = Inr ()"
    and "re_stage_id e = Some stage_id \<Longrightarrow> stage_agrees (re_project_id e) (re_run_id e) stage_id (re_attempt e) db'"
  using assms by (auto simp: insert_event_def err_simps Let_def existing_stage_iff split: option.splits if_splits)

lemma insert_event_again:
  assumes "dict_get (db_events db) (event_key e) = Some row" and "ew_run_id row = re_run_id e"
    and "same_event row (new_event_row env e)"
    and "require_id ''event_id'' (re_event_id e) = Inr ()" and "require_id ''producer'' (re_producer e) = Inr ()"
    and "\<And>stage_id. re_stage_id e = Some stage_id \<Longrightarrow> stage_agrees (re_project_id e) (re_run_id e) stage_id (re_attempt e) db"
  shows "insert_event env e db = Inr (False, db)"
  using assms by (auto simp: insert_event_def bind_res_Inr_iff existing_stage_iff split: option.split)

lemma event_refused:
  assumes "dict_get (db_events db) (event_key e) = Some row"
    and "ew_run_id row \<noteq> re_run_id e \<or> \<not> same_event row (new_event_row env e)"
  shows "insert_event env e db \<noteq> Inr r"
  using assms by (auto simp: insert_event_def err_simps Let_def)

lemma append_event_again:
  assumes "append_event env e b db = Inr (inserted, db1)"
  shows "append_event env e b db1 = Inr (False, db1)"
proof -
  obtain d1 d2 where inputs: "validate_append_event_inputs e b = Inr ()"
    and lock: "lock_run (re_project_id e) (re_run_id e) d1 = Inr ()"
    and refs: "validate_event_stage_references e b d1 = Inr ()"
    and ins: "insert_event env e d1 = Inr (inserted, d2)"
    and rest: "(if inserted then insert_bundle env b d2 else Inr d2) = Inr db1"
    and commit: "commit_evidence db1 = Inr db1"
    using assms by (rule append_event_parts)
  have adds2: "adds_attempt (re_attempt e) d2 db1" and kept2: "evidence_kept d2 db1"
    using rest by (auto split: if_splits intro: insert_bundle_adds inputs insert_bundle_kept)
  note adds = adds_trans [OF insert_event_adds [OF ins] adds2]
    and kept = kept_trans [OF insert_event_kept [OF ins] kept2]
  obtain row where row: "dict_get (db_events db1) (event_key e) = Some row" "ew_run_id row = re_run_id e"
      "same_event row (new_event_row env e)"
    using insert_event_result(1) [OF ins] kept_event [OF kept2] by blast
  obtain run where "run_of d1 (re_project_id e) (re_run_id e) = Some run"
    using lock by (auto simp: lock_run_def split: option.splits)
  then obtain run' where "run_of db1 (re_project_id e) (re_run_id e) = Some run'"
    by (rule kept_run [OF kept])
  then have run: "lock_run (re_project_id e) (re_run_id e) db1 = Inr ()" "ensure_event_parent e (eb_run b) db1 = Inr db1"
    by (simp_all add: lock_run_def ensure_event_parent_def)
  have "insert_event env e db1 = Inr (False, db1)"
    by (rule insert_event_again [OF row insert_event_result(2, 3) [OF ins]])
      (rule stage_agrees_adds [OF insert_event_result(4) [OF ins] adds2])
  then show ?thesis
    using row(2) by (simp add: append_event_def inputs row(1) run event_references_adds [OF refs adds inputs] commit)
qed

text \<open>
  C33: An event that was appended can be appended again, with all that came with it, and nothing changes: the
  answer is that it was there. Whatever is written later, the same event key with another run, type, stage,
  attempt, payload or resource is refused.
\<close>
theorem event_replay:
  assumes "append_event env e b db = Inr (inserted, db1)" and "evidence_steps env db1 db2"
  shows "append_event env e b db1 = Inr (False, db1) \<and>
     (event_key e' = event_key e \<and>
        (re_run_id e' \<noteq> re_run_id e \<or> \<not> same_event (new_event_row env e) (new_event_row env e')) \<longrightarrow>
      (\<exists>err. append_event env e' b' db2 = Inl err))"
proof (intro conjI impI)
  show "append_event env e b db1 = Inr (False, db1)"
    by (rule append_event_again [OF assms(1)])
  assume other: "event_key e' = event_key e \<and>
      (re_run_id e' \<noteq> re_run_id e \<or> \<not> same_event (new_event_row env e) (new_event_row env e'))"
  obtain d1 d2 where "insert_event env e d1 = Inr (inserted, d2)"
      "(if inserted then insert_bundle env b d2 else Inr d2) = Inr db1"
    using assms(1) by (rule append_event_parts)
  then have ins: "insert_event env e d1 = Inr (inserted, d2)" and kept: "evidence_kept d2 db1"
    by (auto split: if_splits intro: insert_bundle_kept)
  obtain row where row: "dict_get (db_events db1) (event_key e) = Some row" "ew_run_id row = re_run_id e"
      "same_event row (new_event_row env e)"
    using insert_event_result(1) [OF ins] kept_event [OF kept] by blast
  have late: "dict_get (db_events db2) (event_key e') = Some row"
    using kept_event [OF evidence_steps_kept [OF assms(2)] row(1)] other by simp
  have differs: "ew_run_id row \<noteq> re_run_id e' \<or> \<not> same_event row (new_event_row env e')"
    using other row(2, 3) by (auto simp: same_event_def)
  show "\<exists>err. append_event env e' b' db2 = Inl err"
  proof (cases "append_event env e' b' db2")
    case (Inr r)
    then obtain i db3 where "append_event env e' b' db2 = Inr (i, db3)" by (cases r) simp
    then obtain d3 d4 where "ensure_event_parent e' (eb_run b') db2 = Inr d3" "insert_event env e' d3 = Inr (i, d4)"
      by (rule append_event_parts)
    moreover have "dict_get (db_events d3) (event_key e') = Some row"
      by (rule kept_event [OF parent_kept [OF calculation(1)] late])
    ultimately show ?thesis
      using event_refused [OF _ differs] by blast
  qed simp
qed

end
