(* ===== verification/Run_Stage_Replay.thy ===== *)
theory Run_Stage_Replay
  imports Run_Evidence_Spec
begin

text \<open>
  Writing the evidence of one observation a second time. An event that is there is only confirmed; the stages
  are merged, and although the merges of a second pass go through other states, the last of them is where the
  first pass ended.
\<close>

section \<open>Merging the same rows again\<close>

text \<open>\<open>absorb\<close> is what one write does to the row of its stage.\<close>

definition absorb :: "stage_row \<Rightarrow> stage_row option \<Rightarrow> stage_row option" where
  "absorb new old = Some (case old of None \<Rightarrow> new | Some r \<Rightarrow> merge_stage r new)"

abbreviation stage_final :: "stage_row \<Rightarrow> bool" where
  "stage_final r \<equiv> sw_status r \<in> set TERMINAL_STATUSES"

definition opens :: "stage_row \<Rightarrow> bool" where
  "opens r \<longleftrightarrow> sw_status r \<in> {RS_RUNNING, RS_STARTED, RS_START} \<and> sw_started_at r \<noteq> None"

text \<open>A row has taken in all that a merge with a row would fill into it.\<close>

definition filled_by :: "stage_row \<Rightarrow> stage_row \<Rightarrow> bool" where
  "filled_by r new \<longleftrightarrow>
     (sw_finished_at new \<noteq> None \<longrightarrow> sw_finished_at r \<noteq> None) \<and> (sw_error new \<noteq> None \<longrightarrow> sw_error r \<noteq> None) \<and>
     (opens new \<longrightarrow> sw_started_at r \<noteq> None)"

lemma coalesce_None: "coalesce a b = None \<longleftrightarrow> a = None \<and> b = None"
  by (simp add: coalesce_def split: option.split)

lemma filled_merge: "filled_by (merge_stage old new) new"
  by (auto simp add: filled_by_def merge_stage_def Let_def coalesce_None opens_def simp del: not_None_eq)

lemma filled_self: "filled_by new new"
  by (simp add: filled_by_def opens_def)

lemma filled_kept: "filled_by old row \<Longrightarrow> filled_by (merge_stage old new) row"
  unfolding filled_by_def
  by (auto simp add: merge_stage_def Let_def coalesce_None simp del: not_None_eq)

lemma final_kept: "stage_final old \<Longrightarrow> stage_final (merge_stage old new)"
  by (simp add: merge_stage_def Let_def)

lemma final_absorbed:
  assumes "stage_final old" and "filled_by old new"
  shows "merge_stage old new = old"
proof -
  have "coalesce (sw_finished_at old) (sw_finished_at new) = sw_finished_at old"
    "coalesce (sw_error old) (sw_error new) = sw_error old"
    using assms(2) by (auto simp: filled_by_def coalesce_def split: option.split)
  moreover have "(if sw_started_at old \<noteq> None then sw_started_at old
      else if sw_status new \<in> {RS_RUNNING, RS_STARTED, RS_START} then sw_started_at new else None) = sw_started_at old"
    using assms(2) by (auto simp: filled_by_def opens_def)
  ultimately show ?thesis using assms(1) unfolding merge_stage_def Let_def by simp
qed

lemma absorb_filled:
  "\<exists>r. fold absorb rows (Some s) = Some r \<and> (\<forall>new. filled_by s new \<longrightarrow> filled_by r new) \<and>
     (\<forall>new \<in> set rows. filled_by r new) \<and> (stage_final s \<longrightarrow> stage_final r)"
proof (induction rows arbitrary: s)
  case (Cons new rows)
  from Cons.IH [of "merge_stage s new"] show ?case
    using filled_merge [of s new] filled_kept [of s] final_kept [of s] by (auto simp: absorb_def)
qed simp

text \<open>Once a row has ended and taken in a list of rows, none of them changes it.\<close>

lemma final_again: "stage_final r \<Longrightarrow> \<forall>new \<in> set rows. filled_by r new \<Longrightarrow> fold absorb rows (Some r) = Some r"
  by (induction rows) (simp_all add: absorb_def final_absorbed)

text \<open>While no row has ended, each column is folded on its own.\<close>

definition open_start :: "stage_row \<Rightarrow> int option \<Rightarrow> int option" where
  "open_start new started =
     (if started \<noteq> None then started
      else if sw_status new \<in> {RS_RUNNING, RS_STARTED, RS_START} then sw_started_at new else None)"

lemma open_fold:
  assumes "\<not> stage_final s" and "\<forall>new \<in> set rows. \<not> stage_final new"
  shows "fold absorb rows (Some s) = Some (s\<lparr>sw_started_at := fold open_start rows (sw_started_at s),
     sw_status := (if rows = [] then sw_status s else sw_status (last rows)),
     sw_finished_at := fold (\<lambda>new. coalesce (sw_finished_at new)) rows (sw_finished_at s),
     sw_metrics := (if rows = [] then sw_metrics s else sw_metrics (last rows)),
     sw_error := fold (\<lambda>new. coalesce (sw_error new)) rows (sw_error s)\<rparr>)"
  using assms
proof (induction rows arbitrary: s)
  case (Cons new rows)
  have "\<not> stage_final (merge_stage s new)" using Cons.prems by (simp add: merge_stage_def Let_def)
  from Cons.IH [OF this] Cons.prems show ?case
    by (simp add: absorb_def merge_stage_def Let_def open_start_def)
qed simp

lemma coalesce_again: "fold (\<lambda>x. coalesce (f x)) xs (fold (\<lambda>x. coalesce (f x)) xs a) = fold (\<lambda>x. coalesce (f x)) xs a"
proof (induction xs arbitrary: a rule: rev_induct)
  case (snoc x xs)
  then show ?case by (cases "f x") (simp_all add: coalesce_def)
qed simp

lemma started_again: "fold open_start rows (fold open_start rows a) = fold open_start rows a"
proof -
  have kept: "fold open_start rows (Some t) = Some t" for t
    by (induction rows) (simp_all add: open_start_def)
  show ?thesis using kept by (cases a; cases "fold open_start rows a") auto
qed

lemma open_again:
  assumes "fold absorb rows (Some s) = Some r" and "\<not> stage_final r"
  shows "fold absorb rows (Some r) = Some r"
proof -
  have "stage_final s \<or> (\<exists>new \<in> set rows. stage_final new) \<Longrightarrow> stage_final r" if "fold absorb rows (Some s) = Some r" for s
    using that
  proof (induction rows arbitrary: s)
    case (Cons new rows)
    have "stage_final (merge_stage s new) \<or> (\<exists>new \<in> set rows. stage_final new)"
      using Cons.prems(1) by (auto simp: merge_stage_def Let_def)
    then show ?case using Cons.IH [of "merge_stage s new"] Cons.prems(2) by (simp add: absorb_def)
  qed simp
  with assms have open_rows: "\<not> stage_final s" "\<forall>new \<in> set rows. \<not> stage_final new" by blast+
  note first = open_fold [OF this]
  have r: "r = s\<lparr>sw_started_at := fold open_start rows (sw_started_at s),
     sw_status := (if rows = [] then sw_status s else sw_status (last rows)),
     sw_finished_at := fold (\<lambda>new. coalesce (sw_finished_at new)) rows (sw_finished_at s),
     sw_metrics := (if rows = [] then sw_metrics s else sw_metrics (last rows)),
     sw_error := fold (\<lambda>new. coalesce (sw_error new)) rows (sw_error s)\<rparr>"
    using assms(1) unfolding first by simp
  show ?thesis
    unfolding open_fold [OF assms(2) open_rows(2)] unfolding r
    by (simp add: coalesce_again started_again)
qed

text \<open>So a second pass over the rows of a stage ends where the first one did.\<close>

lemma absorb_again:
  assumes "fold absorb rows old = Some r"
  shows "fold absorb rows (Some r) = Some r"
proof -
  have *: "fold absorb rows (Some r) = Some r" if "fold absorb rows (Some s) = Some r" for rows s
  proof (cases "stage_final r")
    case True
    then show ?thesis using absorb_filled [of rows s] that by (intro final_again) auto
  next
    case False
    with that show ?thesis by (rule open_again)
  qed
  show ?thesis
  proof (cases old)
    case (Some s)
    with assms * show ?thesis by simp
  next
    case None
    show ?thesis
    proof (cases rows)
      case Nil
      then show ?thesis by simp
    next
      case (Cons new rest)
      have first: "fold absorb rest (Some new) = Some r" using assms by (simp add: None Cons absorb_def)
      have "merge_stage new new = new"
        by (cases "sw_finished_at new"; cases "sw_error new"; cases "sw_started_at new")
          (simp_all add: merge_stage_def Let_def coalesce_def)
      then have "fold absorb rows (Some new) = Some r" using first by (simp add: Cons absorb_def)
      then show ?thesis by (rule *)
    qed
  qed
qed

section \<open>The table of stages\<close>

definition stage_put :: "evidence_env \<Rightarrow> run_stage \<Rightarrow> (row_key, stage_row) dict \<Rightarrow> (row_key, stage_row) dict" where
  "stage_put env s d = dict_set d (stage_key s) (the (absorb (new_stage_row env s) (dict_get d (stage_key s))))"

lemma insert_stage_put:
  "insert_stage env s db = Inr db' \<Longrightarrow> db' = db\<lparr>db_stages := stage_put env s (db_stages db)\<rparr>"
  by (auto simp: insert_stage_def err_simps Let_def stage_put_def absorb_def split: option.splits if_splits)

lemma fold_put_get:
  "dict_get (fold (stage_put env) ss d) k =
     fold absorb (map (new_stage_row env) (filter (\<lambda>s. stage_key s = k) ss)) (dict_get d k)"
proof (induction ss arbitrary: d)
  case (Cons s ss)
  have "absorb new old = Some (the (absorb new old))" for new old by (simp add: absorb_def)
  then show ?case using Cons.IH [of "stage_put env s d"] by (auto simp: stage_put_def)
qed simp

lemma fold_put_ok: "dict_ok d \<Longrightarrow> dict_ok (fold (stage_put env) ss d)"
  by (induction ss arbitrary: d) (auto simp: stage_put_def)

lemma fold_put_keys:
  "\<forall>s \<in> set ss. dict_has d (stage_key s) \<Longrightarrow> map fst (fold (stage_put env) ss d) = map fst d"
proof (induction ss arbitrary: d)
  case (Cons s ss)
  have keys: "map fst (stage_put env s d) = map fst d"
    using Cons.prems by (simp add: stage_put_def update_keys)
  moreover have "\<forall>t \<in> set ss. dict_has (stage_put env s d) (stage_key t)"
    using Cons.prems by (auto simp: stage_put_def dict_keys_set)
  ultimately show ?case using Cons.IH by simp
qed simp

lemma fold_put_has: "s \<in> set ss \<or> dict_has d (stage_key s) \<Longrightarrow> dict_has (fold (stage_put env) ss d) (stage_key s)"
proof (induction ss arbitrary: d)
  case (Cons t ss)
  from Cons.IH [of "stage_put env t d"] Cons.prems show ?case by (auto simp: stage_put_def dict_keys_set)
qed simp

lemma dict_equal:
  assumes "dict_ok d" and "map fst d' = map fst d" and "\<And>k. dict_get d' k = dict_get d k"
  shows "d' = d"
proof -
  have ok': "dict_ok d'" using assms(1,2) by (simp add: dict_ok_def)
  show ?thesis
  proof (rule nth_equalityI)
    show len: "length d' = length d" using assms(2) by (metis length_map)
    fix i assume i: "i < length d'"
    have "fst (d' ! i) = fst (d ! i)" using assms(2) i len by (metis nth_map)
    moreover have "dict_get d' (fst (d' ! i)) = Some (snd (d' ! i))" "dict_get d (fst (d ! i)) = Some (snd (d ! i))"
      using dict_ok_get [OF ok', of "fst (d' ! i)" "snd (d' ! i)"] dict_ok_get [OF assms(1), of "fst (d ! i)" "snd (d ! i)"]
        i len by (simp_all add: nth_mem)
    ultimately show "d' ! i = d ! i" using assms(3) by (metis option.inject prod.collapse)
  qed
qed

lemma fold_put_again:
  assumes "dict_ok d"
  shows "fold (stage_put env) ss (fold (stage_put env) ss d) = fold (stage_put env) ss d"
proof (rule dict_equal)
  let ?d = "fold (stage_put env) ss d"
  show "dict_ok ?d" using assms by (rule fold_put_ok)
  show "map fst (fold (stage_put env) ss ?d) = map fst ?d"
    by (rule fold_put_keys) (simp add: fold_put_has)
  fix k
  let ?rows = "map (new_stage_row env) (filter (\<lambda>s. stage_key s = k) ss)"
  show "dict_get (fold (stage_put env) ss ?d) k = dict_get ?d k"
  proof (cases "dict_get ?d k")
    case None
    then have "?rows = []"
      using fold_put_has [of _ ss d env] by (fastforce simp: filter_empty_conv dict_has_get)
    then show ?thesis by (simp add: fold_put_get)
  next
    case (Some r)
    then have "fold absorb ?rows (dict_get d k) = Some r" by (simp only: fold_put_get)
    from absorb_again [OF this] Some show ?thesis by (simp only: fold_put_get)
  qed
qed

section \<open>The evidence of an observation\<close>

lemma fold_res_append: "fold_res f (xs @ ys) s = bind_res (fold_res f xs s) (fold_res f ys)"
  by (induction xs arbitrary: s) (auto simp: bind_res_def split: sum.split)

lemma fold_res_at:
  assumes "fold_res f xs s = Inr s'" and "x \<in> set xs"
  obtains ys zs a b where "xs = ys @ x # zs" "fold_res f ys s = Inr a" "f x a = Inr b" "fold_res f zs b = Inr s'"
proof -
  obtain ys zs where xs: "xs = ys @ x # zs" using split_list [OF assms(2)] by blast
  then show thesis using assms(1) that by (auto simp: fold_res_append bind_res_Inr_iff)
qed

lemma fold_res_fixed: "\<forall>x \<in> set xs. f x s = Inr s \<Longrightarrow> fold_res f xs s = Inr s"
  by (induction xs) simp_all

text \<open>The two passes of \<open>_insert_observation_records\<close>.\<close>

definition observe_event :: "evidence_env \<Rightarrow> run_observation \<Rightarrow> run_event \<Rightarrow> evidence_db \<Rightarrow> evidence_db res" where
  "observe_event env ob e db =
     (if re_project_id e \<noteq> ob_project_id ob \<or> re_run_id e \<noteq> ob_run_id ob
      then Inl (ValueError ''event source crossed project/run boundaries'')
      else if re_attempt e \<noteq> ob_attempt ob then Inl (ValueError ''event source crossed attempt boundaries'')
      else bind_res (insert_event env e db) (\<lambda>(_, db). Inr db))"

definition observe_stage :: "evidence_env \<Rightarrow> run_observation \<Rightarrow> run_stage \<Rightarrow> evidence_db \<Rightarrow> evidence_db res" where
  "observe_stage env ob s db =
     (if st_project_id s \<noteq> ob_project_id ob \<or> st_run_id s \<noteq> ob_run_id ob
      then Inl (ValueError ''stage source crossed project/run boundaries'')
      else if st_attempt s \<noteq> ob_attempt ob then Inl (ValueError ''stage source crossed attempt boundaries'')
      else insert_stage env s db)"

lemma observe_unfold:
  "insert_observation_records env ob db =
     bind_res (fold_res (observe_event env ob) (ob_events ob) db) (fold_res (observe_stage env ob) (ob_stages ob))"
  unfolding insert_observation_records_def observe_event_def [abs_def] observe_stage_def [abs_def] by (rule refl)

lemma observe_event_Inr:
  "observe_event env ob e db = Inr db' \<longleftrightarrow>
     re_project_id e = ob_project_id ob \<and> re_run_id e = ob_run_id ob \<and> re_attempt e = ob_attempt ob \<and>
     (\<exists>i. insert_event env e db = Inr (i, db'))"
  by (auto simp: observe_event_def err_simps)

lemma observe_stage_Inr:
  "observe_stage env ob s db = Inr db' \<longleftrightarrow>
     st_project_id s = ob_project_id ob \<and> st_run_id s = ob_run_id ob \<and> st_attempt s = ob_attempt ob \<and>
     insert_stage env s db = Inr db'"
  by (auto simp: observe_stage_def)

lemma observe_kept:
  "fold_res (observe_event env ob) es db = Inr db' \<Longrightarrow> evidence_kept db db' \<and> adds_attempt (ob_attempt ob) db db'"
  "fold_res (observe_stage env ob) ss db = Inr db' \<Longrightarrow> evidence_kept db db' \<and> adds_attempt (ob_attempt ob) db db'"
proof -
  assume e: "fold_res (observe_event env ob) es db = Inr db'"
  show "evidence_kept db db' \<and> adds_attempt (ob_attempt ob) db db'"
    using fold_res_kept [OF e] fold_res_adds [OF e] insert_event_kept insert_event_adds
    unfolding observe_event_Inr by metis
next
  assume s: "fold_res (observe_stage env ob) ss db = Inr db'"
  show "evidence_kept db db' \<and> adds_attempt (ob_attempt ob) db db'"
    using fold_res_kept [OF s] fold_res_adds [OF s] insert_stage_kept insert_stage_adds
    unfolding observe_stage_Inr by metis
qed

lemma insert_event_stages: "insert_event env e db = Inr (i, db') \<Longrightarrow> db_stages db' = db_stages db"
  by (auto simp: insert_event_def err_simps Let_def split: option.splits if_splits)

lemma observe_events_stages:
  assumes "fold_res (observe_event env ob) es db = Inr db'"
  shows "db_stages db' = db_stages db"
  by (rule fold_res_inv [OF assms, where P = "\<lambda>d. db_stages d = db_stages db"])
    (use insert_event_stages in \<open>auto simp: observe_event_Inr\<close>)

lemma observe_stages_put:
  "fold_res (observe_stage env ob) ss db = Inr db' \<Longrightarrow>
     db' = db\<lparr>db_stages := fold (stage_put env) ss (db_stages db)\<rparr>"
proof (induction ss arbitrary: db)
  case (Cons s ss)
  then obtain d where d: "observe_stage env ob s db = Inr d" "fold_res (observe_stage env ob) ss d = Inr db'"
    by (auto simp: bind_res_Inr_iff)
  have "d = db\<lparr>db_stages := stage_put env s (db_stages db)\<rparr>"
    using d(1) insert_stage_put by (auto simp: observe_stage_Inr)
  with Cons.IH [OF d(2)] show ?case by simp
qed simp

text \<open>What lets a stage through that is in the table already.\<close>

definition stage_there :: "evidence_env \<Rightarrow> run_observation \<Rightarrow> run_stage \<Rightarrow> evidence_db \<Rightarrow> bool" where
  "stage_there env ob s db \<longleftrightarrow>
     st_project_id s = ob_project_id ob \<and> st_run_id s = ob_run_id ob \<and> st_attempt s = ob_attempt ob \<and>
     require_id ''stage_id'' (st_stage_id s) = Inr () \<and> validate_stage_write_references s db = Inr () \<and>
     (\<exists>old. dict_get (db_stages db) (stage_key s) = Some old \<and>
        sw_record_checksum old = sw_record_checksum (new_stage_row env s))"

lemma stage_there_passes:
  assumes "stage_there env ob s db"
  shows "\<exists>db'. observe_stage env ob s db = Inr db'"
  using assms by (auto simp: stage_there_def observe_stage_def insert_stage_def bind_res_def)

lemma stage_there_later:
  assumes "stage_there env ob s db" and "evidence_kept db db'" and "adds_attempt (ob_attempt ob) db db'"
  shows "stage_there env ob s db'"
proof -
  obtain old where old: "dict_get (db_stages db) (stage_key s) = Some old"
    "sw_record_checksum old = sw_record_checksum (new_stage_row env s)"
    using assms(1) by (auto simp: stage_there_def)
  have "rows_follow stage_follows (db_stages db) (db_stages db')"
    using assms(2) by (simp add: evidence_kept_def)
  then obtain old' where "dict_get (db_stages db') (stage_key s) = Some old'" "stage_follows old old'"
    using old(1) unfolding rows_follow_def by blast
  moreover from this(2) have "sw_record_checksum old' = sw_record_checksum old"
    by (simp add: stage_follows_def stage_identity_def)
  ultimately show ?thesis
    using assms(1,3) old(2) stage_write_adds [of s db db'] by (auto simp: stage_there_def)
qed

lemma stage_entered:
  assumes "observe_stage env ob s db = Inr db'"
  shows "stage_there env ob s db'"
proof -
  have s: "st_project_id s = ob_project_id ob" "st_run_id s = ob_run_id ob" "st_attempt s = ob_attempt ob"
    and i: "insert_stage env s db = Inr db'"
    using assms by (simp_all add: observe_stage_Inr)
  have "require_id ''stage_id'' (st_stage_id s) = Inr ()" "validate_stage_write_references s db = Inr ()"
    using i by (auto simp: insert_stage_def err_simps)
  moreover have "validate_stage_write_references s db' = Inr ()"
    by (rule stage_write_adds [OF calculation(2) insert_stage_adds [OF i]])
  moreover have "\<exists>old. dict_get (db_stages db') (stage_key s) = Some old \<and>
      sw_record_checksum old = sw_record_checksum (new_stage_row env s)"
    using i by (auto simp: insert_stage_def err_simps Let_def merge_stage_def split: option.splits if_splits)
  ultimately show ?thesis using s by (simp add: stage_there_def)
qed

lemma stages_pass:
  "\<forall>s \<in> set ss. stage_there env ob s db \<Longrightarrow> \<exists>db'. fold_res (observe_stage env ob) ss db = Inr db'"
proof (induction ss arbitrary: db)
  case (Cons s ss)
  obtain d where d: "observe_stage env ob s db = Inr d" using Cons.prems stage_there_passes by fastforce
  then have "fold_res (observe_stage env ob) [s] db = Inr d" by simp
  note step = observe_kept(2) [OF this]
  have "\<forall>t \<in> set ss. stage_there env ob t d"
    using Cons.prems stage_there_later [of env ob _ db d] step by auto
  from Cons.IH [OF this] d show ?case by auto
qed simp

text \<open>
  The evidence of an observation, written once, can be written again as long as its tables are what they were
  (the stages under a unique key), and nothing changes.
\<close>

lemma observation_again:
  assumes "insert_observation_records env ob db = Inr d1" and "dict_ok (db_stages db)"
    and "db_events u = db_events d1" and "db_stages u = db_stages d1" and "db_quality u = db_quality d1"
  shows "insert_observation_records env ob u = Inr u"
proof -
  obtain de where e: "fold_res (observe_event env ob) (ob_events ob) db = Inr de"
    and s: "fold_res (observe_stage env ob) (ob_stages ob) de = Inr d1"
    using assms(1) by (auto simp: observe_unfold bind_res_Inr_iff)
  have "observe_event env ob x u = Inr u" if x: "x \<in> set (ob_events ob)" for x
  proof -
    obtain ys zs a b where at: "observe_event env ob x a = Inr b" "fold_res (observe_event env ob) zs b = Inr de"
      using fold_res_at [OF e x] by metis
    then obtain i where own: "re_project_id x = ob_project_id ob" "re_run_id x = ob_run_id ob"
      "re_attempt x = ob_attempt ob" and i: "insert_event env x a = Inr (i, b)"
      unfolding observe_event_Inr by blast
    have kept: "evidence_kept b d1" and adds: "adds_attempt (re_attempt x) b d1"
      using observe_kept(1) [OF at(2)] observe_kept(2) [OF s] own(3) by (auto intro: kept_trans adds_trans)
    obtain row where "dict_get (db_events b) (event_key x) = Some row" "ew_run_id row = re_run_id x"
      "same_event row (new_event_row env x)"
      using insert_event_result(1) [OF i] by blast
    then have row: "dict_get (db_events u) (event_key x) = Some row" "ew_run_id row = re_run_id x"
      "same_event row (new_event_row env x)"
      using kept_event [OF kept] assms(3) by simp_all
    have agrees: "stage_agrees (re_project_id x) (re_run_id x) stage_id (re_attempt x) u"
      if "re_stage_id x = Some stage_id" for stage_id
      using stage_agrees_adds [OF insert_event_result(4) [OF i that] adds] assms(4) by (simp add: stage_agrees_def)
    show ?thesis
      using insert_event_again [OF row insert_event_result(2,3) [OF i] agrees] own by (auto simp: observe_event_Inr)
  qed
  then have events: "fold_res (observe_event env ob) (ob_events ob) u = Inr u" by (simp add: fold_res_fixed)
  have "stage_there env ob x u" if x: "x \<in> set (ob_stages ob)" for x
  proof -
    obtain ys zs a b where at: "observe_stage env ob x a = Inr b" "fold_res (observe_stage env ob) zs b = Inr d1"
      using fold_res_at [OF s x] by metis
    have "stage_there env ob x d1"
      using stage_there_later [OF stage_entered [OF at(1)]] observe_kept(2) [OF at(2)] by blast
    then show ?thesis
      unfolding stage_there_def stage_write_iff stage_agrees_def assms(3-5) .
  qed
  then obtain u' where u': "fold_res (observe_stage env ob) (ob_stages ob) u = Inr u'"
    using stages_pass by blast
  have "db_stages d1 = fold (stage_put env) (ob_stages ob) (db_stages de)"
    using observe_stages_put [OF s] by (cases de) simp
  moreover have "dict_ok (db_stages de)" using observe_events_stages [OF e] assms(2) by simp
  ultimately have "fold (stage_put env) (ob_stages ob) (db_stages u) = db_stages u"
    using fold_put_again assms(4) by simp
  then have "u' = u" using observe_stages_put [OF u'] by simp
  then show ?thesis using events u' by (simp add: observe_unfold)
qed

end
