(* ===== verification/Run_Settlement_Spec.thy ===== *)
theory Run_Settlement_Spec
  imports Run_Stage_Replay
begin

text \<open>
  What a reconciliation leaves on the row of the run it judged, the first time and when it is repeated.
\<close>

section \<open>Statuses\<close>

lemma normalize_text [simp]: "normalize_status (Some (status_text st)) = Some st"
  by (simp add: normalize_status_def)

lemma final_text: "st \<in> set TERMINAL_STATUSES \<Longrightarrow> status_text st \<in> set FINAL_TEXTS"
  by (auto simp: TERMINAL_STATUSES_def FINAL_TEXTS_def)

section \<open>Tables a write leaves alone\<close>

definition same_evidence :: "evidence_db \<Rightarrow> evidence_db \<Rightarrow> bool" where
  "same_evidence db db' \<longleftrightarrow>
     db_events db' = db_events db \<and> db_stages db' = db_stages db \<and> db_resources db' = db_resources db \<and>
     db_quality db' = db_quality db \<and> db_catalog db' = db_catalog db \<and> db_artifacts db' = db_artifacts db"

lemma insert_event_runs:
  "insert_event env e db = Inr (i, db') \<Longrightarrow> db_runs db' = db_runs db \<and> db_decisions db' = db_decisions db"
  by (auto simp: insert_event_def err_simps Let_def split: option.splits if_splits)

lemma insert_stage_runs:
  "insert_stage env s db = Inr db' \<Longrightarrow> db_runs db' = db_runs db \<and> db_decisions db' = db_decisions db"
  by (auto simp: insert_stage_def err_simps Let_def split: option.splits if_splits)

lemma observation_records_runs:
  assumes "insert_observation_records env ob db = Inr db'"
  shows "db_runs db' = db_runs db \<and> db_decisions db' = db_decisions db"
proof -
  let ?P = "\<lambda>d. db_runs d = db_runs db \<and> db_decisions d = db_decisions db"
  obtain d1 where e: "fold_res (\<lambda>e db.
        if re_project_id e \<noteq> ob_project_id ob \<or> re_run_id e \<noteq> ob_run_id ob
        then Inl (ValueError ''event source crossed project/run boundaries'')
        else if re_attempt e \<noteq> ob_attempt ob then Inl (ValueError ''event source crossed attempt boundaries'')
        else bind_res (insert_event env e db) (\<lambda>(_, db). Inr db)) (ob_events ob) db = Inr d1"
    and s: "fold_res (\<lambda>s db.
        if st_project_id s \<noteq> ob_project_id ob \<or> st_run_id s \<noteq> ob_run_id ob
        then Inl (ValueError ''stage source crossed project/run boundaries'')
        else if st_attempt s \<noteq> ob_attempt ob then Inl (ValueError ''stage source crossed attempt boundaries'')
        else insert_stage env s db) (ob_stages ob) d1 = Inr db'"
    using assms unfolding insert_observation_records_def bind_res_Inr_iff by blast
  have d1: "?P d1"
    by (rule fold_res_inv [OF e]) (auto simp: err_simps split: if_splits dest: insert_event_runs)
  show "?P db'"
    by (rule fold_res_inv [where P = ?P, OF s d1]) (auto split: if_splits dest: insert_stage_runs)
qed

section \<open>A fresh decision\<close>

lemma judge_Inr:
  assumes "judge env ob profile now stale_after clock_skew db = Inr v"
  shows "rd_project_id v = ob_project_id ob" "rd_finished_at v = ob_finished_at ob"
    and "\<exists>row st. run_of db (ob_project_id ob) (ob_run_id ob) = Some row \<and> status_parse (rr_status row) = Inr st"
  using assms
  by (auto simp: judge_def err_simps dest!: evaluate_Inr split: option.splits sum.splits) (auto simp: decision_of_def Let_def)

lemma fresh_decision:
  assumes "reconcile_observation env ob profile now stale_after clock_skew db = Inr (d, db')"
    and "ob_lookup_outcome ob = PRESENT" and "db_decisions db' \<noteq> db_decisions db"
  obtains d1 where "insert_observation_records env ob (upsert_run env (observed_run ob) db) = Inr d1"
    and "judge env ob profile now stale_after clock_skew d1 = Inr d"
    and "db' = map_run (decided_run env ob d) (ob_project_id ob) (ob_run_id ob)
      (d1\<lparr>db_decisions := dict_set (db_decisions d1) (ob_project_id ob, rd_decision_id d)
         (ee_checksum env (decision_content env d), decision_row env d)\<rparr>)"
    and "commit_evidence db' = Inr db'"
proof -
  obtain d1 where ins: "insert_observation_records env ob (upsert_run env (observed_run ob) db) = Inr d1"
    and settled: "settle env ob profile now stale_after clock_skew (decided_run env ob) d1 = Inr (d, db')"
    using assms(1, 2) by (auto simp: reconcile_observation_def err_simps split: if_splits)
  obtain v i d2 where v: "judge env ob profile now stale_after clock_skew d1 = Inr v"
    and i: "insert_reconciliation_decision env v d1 = Inr (d, i, d2)"
    and c: "commit_evidence (if i then map_run (decided_run env ob v) (ob_project_id ob) (ob_run_id ob) d2 else d2) = Inr db'"
    using settled by (auto simp: settle_def err_simps)
  have decisions: "db_decisions d1 = db_decisions db"
    using observation_records_runs [OF ins] by (simp add: upsert_run_def)
  have i_True: "i"
  proof (rule ccontr)
    assume "\<not> i"
    then have "d2 = d1" "db' = d2"
      using i commit_evidence_Inr [OF c] by (auto simp: insert_reconciliation_decision_def Let_def split: option.splits if_splits)
    then show False using assms(3) decisions by simp
  qed
  then have "d = v" "d2 = d1\<lparr>db_decisions := dict_set (db_decisions d1) (ob_project_id ob, rd_decision_id v)
         (ee_checksum env (decision_content env v), decision_row env v)\<rparr>"
    using i by (auto simp: insert_reconciliation_decision_def Let_def judge_Inr(1) [OF v] split: option.splits if_splits)
  then show thesis
    using that [OF ins] v c commit_evidence_Inr [OF c] i_True by simp
qed

lemma run_of_put [simp]: "run_of (put_run k row db) p r = (if (p, r) = k then Some row else run_of db p r)"
  by (simp add: run_of_def)

lemma run_of_decisions [simp]: "run_of (db\<lparr>db_decisions := ds\<rparr>) p r = run_of db p r"
  by (simp add: run_of_def)

lemma run_of_map [simp]: "run_of (map_run f p r db) p r = map_option f (run_of db p r)"
  by (simp add: map_run_def split: option.split)

lemma observed_key [simp]: "pl_project_id (observed_run ob) = ob_project_id ob" "pl_run_id (observed_run ob) = ob_run_id ob"
  by (simp_all add: observed_run_def)

lemma fresh_run:
  assumes "reconcile_observation env ob profile now stale_after clock_skew db = Inr (d, db')"
    and "ob_lookup_outcome ob = PRESENT" and "db_decisions db' \<noteq> db_decisions db"
  shows "run_of db' (ob_project_id ob) (ob_run_id ob) =
     Some (decided_run env ob d (case run_of db (ob_project_id ob) (ob_run_id ob) of
       None \<Rightarrow> new_run_row env (observed_run ob) | Some old \<Rightarrow> merge_run old (new_run_row env (observed_run ob))))"
  using assms
proof (rule fresh_decision)
  fix d1
  assume ins: "insert_observation_records env ob (upsert_run env (observed_run ob) db) = Inr d1"
    and db': "db' = map_run (decided_run env ob d) (ob_project_id ob) (ob_run_id ob)
      (d1\<lparr>db_decisions := dict_set (db_decisions d1) (ob_project_id ob, rd_decision_id d)
         (ee_checksum env (decision_content env d), decision_row env d)\<rparr>)"
  have "run_of d1 p r = run_of (upsert_run env (observed_run ob) db) p r" for p r
    using observation_records_runs [OF ins] by (simp add: run_of_def)
  then show ?thesis
    unfolding db' by (simp add: upsert_run_def split: option.split)
qed

lemma merge_final:
  assumes "rr_status row \<in> set FINAL_TEXTS" and "rr_attempt new = rr_attempt row"
  shows "rr_status (merge_run row new) = rr_status row" "rr_attempt (merge_run row new) = rr_attempt row"
  using assms by (simp_all add: merge_run_def Let_def by_attempt_def)

text \<open>
  C34: When a run has ended and the provider is asked again about the same attempt, a new decision leaves the
  status of the run as it was if the decision says that it ended or that it runs; but with any other status, queued,
  starting or unknown among them, the run gets that status and the end the provider now reports, none
  if there is none.
\<close>
theorem ended_run_reconciled:
  assumes "reconcile_observation env ob profile now stale_after clock_skew db = Inr (d, db')"
    and "ob_lookup_outcome ob = PRESENT" and "db_decisions db' \<noteq> db_decisions db"
    and "run_of db (ob_project_id ob) (ob_run_id ob) = Some row" and "rr_attempt row = ob_attempt ob"
    and "st \<in> set TERMINAL_STATUSES" and "rr_status row = status_text st"
  shows "\<exists>row'. run_of db' (ob_project_id ob) (ob_run_id ob) = Some row' \<and>
     (if rd_status d \<in> set TERMINAL_STATUSES \<union> {RS_RUNNING, RS_INCOMPLETE} then rr_status row' = status_text st
      else rr_status row' = status_text (rd_status d) \<and> rr_finished_at row' = ob_finished_at ob)"
proof -
  let ?row = "merge_run row (new_run_row env (observed_run ob))"
  have run: "run_of db' (ob_project_id ob) (ob_run_id ob) = Some (decided_run env ob d ?row)"
    using fresh_run [OF assms(1-3)] assms(4) by simp
  have ended: "rd_finished_at d = ob_finished_at ob"
    using assms(1-3) by (rule fresh_decision) (rule judge_Inr(2))
  have row: "rr_status ?row = status_text st" "rr_attempt ?row = ob_attempt ob"
    using merge_final [of row "new_run_row env (observed_run ob)"] assms(5, 6, 7) final_text
    by (simp_all add: new_run_row_def observed_run_def Let_def)
  have "if rd_status d \<in> set TERMINAL_STATUSES \<union> {RS_RUNNING, RS_INCOMPLETE}
        then rr_status (decided_run env ob d ?row) = status_text st
        else rr_status (decided_run env ob d ?row) = status_text (rd_status d) \<and>
          rr_finished_at (decided_run env ob d ?row) = ob_finished_at ob"
    using assms(6) by (auto simp: decided_run_def Let_def row ended TERMINAL_STATUSES_def)
  then show ?thesis using run by blast
qed

section \<open>The same observation again\<close>

lemma judge_same:
  assumes "judge env ob profile now stale_after clock_skew db = Inr v" and "same_evidence db db'"
    and "run_of db' (ob_project_id ob) (ob_run_id ob) = Some row" and "status_parse (rr_status row) = Inr st"
  shows "judge env ob profile now stale_after clock_skew db' = Inr v"
proof -
  have "all_records p r n db' = all_records p r n db" "run_events p r db' = run_events p r db"
      "run_stages p r db' = run_stages p r db" for p r n
    using assms(2) by (simp_all add: same_evidence_def all_records_def run_events_def run_stages_def)
  then show ?thesis
    using assms(1, 3, 4) by (auto simp: judge_def err_simps split: option.splits)
qed

lemma commit_same:
  assumes "commit_evidence db = Inr db" and "same_evidence db db'"
  shows "commit_evidence db' = Inr db'"
proof -
  have "db_stages db' = db_stages db" "db_artifacts db' = db_artifacts db" "db_quality db' = db_quality db"
    using assms(2) by (simp_all add: same_evidence_def)
  show ?thesis
    using assms(1) unfolding commit_evidence_def \<open>db_stages db' = db_stages db\<close> \<open>db_artifacts db' = db_artifacts db\<close>
      \<open>db_quality db' = db_quality db\<close> by (auto split: if_splits)
qed

lemma evaluate_stale:
  assumes "evaluate_reconciliation isof checksum ob profile events stages rows now None clock_skew = Inr v"
    and "is_terminal (ob_status ob)"
  shows "evaluate_reconciliation isof checksum ob profile events stages rows now (Some s) clock_skew =
     Inr (v\<lparr>rd_stale_after_seconds := Some (whole_seconds s)\<rparr>)"
proof -
  have t: "is_terminal (verdict_status ob b)" for b
    using assms(2) by (simp add: verdict_status_def is_terminal_def TERMINAL_STATUSES_def)
  have resolve: "is_terminal status \<Longrightarrow> resolve_run_outcome c ob now clock_skew m x (Some s) status =
      resolve_run_outcome c ob now clock_skew m x None status" for c m x status
    by (cases status) (simp_all add: resolve_run_outcome_def Let_def is_terminal_def)
  have "outcome_of ob profile events stages rows now (Some s) clock_skew = outcome_of ob profile events stages rows now None clock_skew"
    for events stages
    unfolding outcome_of_def Let_def by (rule resolve [OF t])
  then have "decision_of isof checksum ob profile es ss rows now (Some s) clock_skew =
      (decision_of isof checksum ob profile es ss rows now None clock_skew)\<lparr>rd_stale_after_seconds := Some (whole_seconds s)\<rparr>" for es ss
    by (simp add: decision_of_def Let_def)
  then show ?thesis
    using assms(1) by (auto simp: evaluate_reconciliation_def split: if_splits)
qed

lemma judge_stale:
  assumes "judge env ob profile now None clock_skew db = Inr v" and "is_terminal (ob_status ob)"
  shows "judge env ob profile now (Some s) clock_skew db = Inr (v\<lparr>rd_stale_after_seconds := Some (whole_seconds s)\<rparr>)"
  using assms(1) by (auto simp: judge_def err_simps evaluate_stale [OF _ assms(2)])

lemma merge_status: "rr_status (merge_run old new) \<in> {rr_status old, rr_status new}"
  by (simp add: merge_run_def Let_def by_attempt_def)

lemma decided_status: "\<exists>st. rr_status (decided_run env ob d row) \<in> {rr_status row, status_text st}"
  by (auto simp: decided_run_def Let_def)

lemma merged_parse:
  assumes "status_parse (rr_status row) = Inr st"
  shows "\<exists>st. status_parse (rr_status (merge_run (decided_run env ob d row) (new_run_row env r))) = Inr st"
proof -
  obtain t where "rr_status (decided_run env ob d row) \<in> {rr_status row, status_text t}"
    using decided_status by blast
  then have "\<exists>st. status_parse (rr_status (decided_run env ob d row)) = Inr st"
    using assms by auto
  moreover have "status_parse (rr_status (new_run_row env r)) = Inr (pl_status r)"
    by (simp add: new_run_row_def Let_def)
  ultimately show ?thesis
    using merge_status [of "decided_run env ob d row" "new_run_row env r"] by auto
qed

text \<open>The state after a decision, and what the same observation finds in it.\<close>

lemma observed_again:
  assumes "reconcile_observation env ob profile now stale_after clock_skew db = Inr (d, db1)"
    and "ob_lookup_outcome ob = PRESENT" and "db_decisions db1 \<noteq> db_decisions db"
    and "dict_ok (db_stages db)"
  defines "u \<equiv> upsert_run env (observed_run ob) db1"
  shows "judge env ob profile now stale_after clock_skew u = Inr d" and "insert_observation_records env ob u = Inr u"
    and "dict_get (db_decisions u) (ob_project_id ob, rd_decision_id d) = Some (ee_checksum env (decision_content env d), decision_row env d)"
    and "commit_evidence u = Inr u" and "py_strip (ob_project_id ob) \<noteq> []" and "py_strip (ob_run_id ob) \<noteq> []"
    and "rd_project_id d = ob_project_id ob"
proof -
  have "(judge env ob profile now stale_after clock_skew u = Inr d \<and>
     dict_get (db_decisions u) (ob_project_id ob, rd_decision_id d) = Some (ee_checksum env (decision_content env d), decision_row env d) \<and>
     commit_evidence u = Inr u) \<and> rd_project_id d = ob_project_id ob \<and> insert_observation_records env ob u = Inr u"
    using assms(1-3)
  proof (rule fresh_decision)
    fix d1
    assume ins: "insert_observation_records env ob (upsert_run env (observed_run ob) db) = Inr d1"
      and judged: "judge env ob profile now stale_after clock_skew d1 = Inr d"
      and db1: "db1 = map_run (decided_run env ob d) (ob_project_id ob) (ob_run_id ob)
        (d1\<lparr>db_decisions := dict_set (db_decisions d1) (ob_project_id ob, rd_decision_id d)
           (ee_checksum env (decision_content env d), decision_row env d)\<rparr>)"
      and commit: "commit_evidence db1 = Inr db1"
    obtain row st where row: "run_of d1 (ob_project_id ob) (ob_run_id ob) = Some row" "status_parse (rr_status row) = Inr st"
      using judge_Inr(3) [OF judged] by blast
    have same: "same_evidence d1 u"
      unfolding same_evidence_def u_def db1 by (simp add: upsert_run_def map_run_def split: option.split)
    have again: "insert_observation_records env ob u = Inr u"
      by (rule observation_again [OF ins]) (use same assms(4) in \<open>simp_all add: same_evidence_def upsert_run_def\<close>)
    have "run_of u (ob_project_id ob) (ob_run_id ob) =
        Some (merge_run (decided_run env ob d row) (new_run_row env (observed_run ob)))"
      unfolding u_def db1 by (simp add: upsert_run_def row(1))
    then have "judge env ob profile now stale_after clock_skew u = Inr d"
      using merged_parse [OF row(2)] judge_same [OF judged same] by blast
    moreover have "commit_evidence u = Inr u"
      by (rule commit_same [OF commit]) (simp add: u_def upsert_run_def same_evidence_def)
    moreover have "dict_get (db_decisions u) (ob_project_id ob, rd_decision_id d) =
        Some (ee_checksum env (decision_content env d), decision_row env d)"
      unfolding u_def db1 by (simp add: upsert_run_def map_run_def split: option.split)
    ultimately show ?thesis
      using judge_Inr(1) [OF judged] again by blast
  qed
  moreover have "py_strip (ob_project_id ob) \<noteq> [] \<and> py_strip (ob_run_id ob) \<noteq> []"
    using assms(1) by (auto simp: reconcile_observation_def split: if_splits)
  ultimately show "judge env ob profile now stale_after clock_skew u = Inr d" "insert_observation_records env ob u = Inr u"
    "dict_get (db_decisions u) (ob_project_id ob, rd_decision_id d) = Some (ee_checksum env (decision_content env d), decision_row env d)"
    "commit_evidence u = Inr u" "py_strip (ob_project_id ob) \<noteq> []" "py_strip (ob_run_id ob) \<noteq> []"
    "rd_project_id d = ob_project_id ob"
    by blast+
qed

lemma reconcile_repeated:
  assumes "reconcile_observation env ob profile now stale_after clock_skew db = Inr (d, db1)"
    and "ob_lookup_outcome ob = PRESENT" and "db_decisions db1 \<noteq> db_decisions db"
    and "dict_ok (db_stages db)"
  shows "reconcile_observation env ob profile now stale_after clock_skew db1 =
     Inr (decision_row env d, upsert_run env (observed_run ob) db1)"
  using observed_again [OF assms] assms(2)
  by (simp add: reconcile_observation_def settle_def insert_reconciliation_decision_def)

lemma unknown_decided:
  assumes "judge env ob profile now stale_after clock_skew db = Inr d" and "ob_status ob = None"
  shows "rd_status d = RS_UNKNOWN"
proof -
  have "rd_status (decision_of isof checksum ob profile es ss rows now stale_after clock_skew) = RS_UNKNOWN" for isof checksum es ss rows
    using assms(2) by (simp add: decision_of_def Let_def outcome_of_def verdict_status_def resolve_run_outcome_def)
  then show ?thesis
    using assms(1) by (auto simp: judge_def err_simps dest!: evaluate_Inr split: option.splits sum.splits)
qed

text \<open>
  C35: An observation of a run the provider has (\<open>PRESENT\<close>), with whatever events and stages it lists, is
  reconciled and a new decision is stored. The same observation again, judged at the same time and with the same
  settings, answers the decision that was stored, and takes no new one; its events and stages leave their tables
  as they are; but the observation is written over the row of the run as if it were new, and that is all that
  changes. So when the provider knows a new run without a status, the first call leaves it unknown, as decided,
  and the second one running. (The stages are a table under its unique key.)
\<close>
theorem reconcile_again:
  assumes "reconcile_observation env ob profile now stale_after clock_skew db = Inr (d, db1)"
    and "ob_lookup_outcome ob = PRESENT" and "db_decisions db1 \<noteq> db_decisions db"
    and "dict_ok (db_stages db)"
  shows "reconcile_observation env ob profile now stale_after clock_skew db1 =
       Inr (decision_row env d, upsert_run env (observed_run ob) db1) \<and>
     (ob_status ob = None \<and> run_of db (ob_project_id ob) (ob_run_id ob) = None \<longrightarrow>
        rd_status d = RS_UNKNOWN \<and>
        map_option rr_status (run_of db1 (ob_project_id ob) (ob_run_id ob)) = Some ''unknown'' \<and>
        map_option rr_status (run_of (upsert_run env (observed_run ob) db1) (ob_project_id ob) (ob_run_id ob)) = Some ''running'')"
proof (intro conjI impI; (elim conjE)?)
  show "reconcile_observation env ob profile now stale_after clock_skew db1 =
      Inr (decision_row env d, upsert_run env (observed_run ob) db1)"
    by (rule reconcile_repeated [OF assms])
  assume none: "ob_status ob = None" and new: "run_of db (ob_project_id ob) (ob_run_id ob) = None"
  show unknown: "rd_status d = RS_UNKNOWN"
    by (rule unknown_decided [OF observed_again(1) [OF assms] none])
  let ?new = "new_run_row env (observed_run ob)"
  have row: "rr_status ?new = ''running''" "rr_attempt ?new = ob_attempt ob"
    using none by (simp_all add: new_run_row_def observed_run_def Let_def)
  have first: "run_of db1 (ob_project_id ob) (ob_run_id ob) = Some (decided_run env ob d ?new)"
    using fresh_run [OF assms(1-3)] new by simp
  have open_run: "normalize_status (Some ''running'') = Some RS_RUNNING" "RS_RUNNING \<notin> set TERMINAL_STATUSES"
    by code_simp+
  have decided: "rr_status (decided_run env ob d ?new) = ''unknown''" "rr_attempt (decided_run env ob d ?new) = ob_attempt ob"
    by (simp_all add: decided_run_def Let_def row unknown open_run TERMINAL_STATUSES_def)
  show "map_option rr_status (run_of db1 (ob_project_id ob) (ob_run_id ob)) = Some ''unknown''"
    by (simp add: first decided)
  have "''unknown'' \<notin> set FINAL_TEXTS"
    by code_simp
  then have "rr_status (merge_run (decided_run env ob d ?new) ?new) = ''running''"
    by (simp add: merge_run_def Let_def by_attempt_def decided row)
  then show "map_option rr_status (run_of (upsert_run env (observed_run ob) db1) (ob_project_id ob) (ob_run_id ob)) = Some ''running''"
    by (simp add: upsert_run_def first)
qed

text \<open>
  The time after which a silent run counts as abandoned does not bear on a run that has ended, nor on the id of
  its decision; but it is part of what the decision is compared on. After a decision taken without it, the
  same observation of an ended run is refused as a conflict once the setting is made.
\<close>
theorem stale_setting_conflicts:
  assumes "reconcile_observation env ob profile now None clock_skew db = Inr (d, db1)"
    and "ob_lookup_outcome ob = PRESENT" and "db_decisions db1 \<noteq> db_decisions db"
    and "dict_ok (db_stages db)" and "is_terminal (ob_status ob)"
    and "ee_checksum env (decision_content env (d\<lparr>rd_stale_after_seconds := Some (whole_seconds stale_after)\<rparr>)) \<noteq>
      ee_checksum env (decision_content env d)"
  shows "\<exists>message. reconcile_observation env ob profile now (Some stale_after) clock_skew db1 = Inl (IdempotencyConflict message)"
proof -
  note again = observed_again [OF assms(1-4)]
  show ?thesis
    using assms(2, 6) again(2-7) judge_stale [OF again(1) assms(5)]
    by (simp add: reconcile_observation_def settle_def insert_reconciliation_decision_def)
qed

end
