(* ===== verification/Run_Evidence_Examples.thy ===== *)
theory Run_Evidence_Examples
  imports Run_Settlement_Spec
begin

text \<open>The theorems on the evidence store at work: one run, one event with a stage, and its reconciliations.\<close>

definition sample_checksum :: "json \<Rightarrow> string" where
  "sample_checksum j =
     (case j of
        JObj d \<Rightarrow> (case dict_get d ''stale_after_seconds'' of Some (JInt n) \<Rightarrow> ''stale '' @ int_str n | _ \<Rightarrow> ''content'')
      | _ \<Rightarrow> ''content'')"

definition sample_env :: evidence_env where
  "sample_env = \<lparr>ee_redact = (\<lambda>d. d), ee_text = (\<lambda>t. t), ee_checksum = sample_checksum, ee_json = (\<lambda>_. ''json''),
     ee_iso = (\<lambda>_. ''time'')\<rparr>"

definition empty_db :: evidence_db where
  "empty_db = \<lparr>db_runs = [], db_events = [], db_stages = [], db_resources = [], db_lineage = [], db_quality = [],
     db_catalog = [], db_artifacts = [], db_decisions = []\<rparr>"

definition sample_run_stage :: run_stage where
  "sample_run_stage = \<lparr>st_project_id = ''lake'', st_run_id = ''r1'', st_stage_id = ''s1'', st_stage_type = ''extract'',
     st_provider = None, st_tool = None, st_asset = None, st_attempt = 1, st_status = RS_RUNNING,
     st_started_at = Some 1, st_finished_at = None, st_metrics = [], st_error = None, st_resource_ref = None\<rparr>"

definition sample_run_event :: "string \<Rightarrow> run_event" where
  "sample_run_event event_type = \<lparr>re_project_id = ''lake'', re_run_id = ''r1'', re_event_id = ''e1'', re_event_type = event_type,
     re_producer = ''dagster'', re_payload = [], re_stage_id = Some ''s1'', re_schema_version = ''1'',
     re_observed_at = 7, re_sequence = None, re_attempt = 1, re_resource_ref = None\<rparr>"

definition sample_bundle :: event_bundle where
  "sample_bundle = \<lparr>eb_run = Some (observed_run (sample_observation None)), eb_stage = Some sample_run_stage,
     eb_quality_result = None, eb_lineage_edges = [], eb_resources = [], eb_catalog_change = None, eb_artifacts = []\<rparr>"

definition sample_db :: evidence_db where
  "sample_db = (case append_event sample_env (sample_run_event ''stage.start'') sample_bundle empty_db of
     Inl e \<Rightarrow> empty_db | Inr (i, db) \<Rightarrow> db)"

lemma sample_appended:
  "append_event sample_env (sample_run_event ''stage.start'') sample_bundle empty_db = Inr (True, sample_db)"
  by code_simp

theorem evidence_append_only_witness:
  "evidence_kept sample_db (append_pipeline_run sample_env (observed_run (sample_observation (Some RS_SUCCESS))) sample_db)"
  by (rule evidence_append_only [of sample_env]) (rule r_into_rtranclp, rule step_run)

theorem event_replay_witness:
  "append_event sample_env (sample_run_event ''stage.start'') sample_bundle sample_db = Inr (False, sample_db) \<and>
   (\<exists>err. append_event sample_env (sample_run_event ''stage.end'') sample_bundle sample_db = Inl err)"
proof -
  have other: "event_key (sample_run_event ''stage.end'') = event_key (sample_run_event ''stage.start'')"
      "\<not> same_event (new_event_row sample_env (sample_run_event ''stage.start''))
        (new_event_row sample_env (sample_run_event ''stage.end''))"
    by code_simp+
  show ?thesis
    using event_replay [OF sample_appended rtranclp.rtrancl_refl, of "sample_run_event ''stage.end''" sample_bundle] other
    by blast
qed

definition ended_db :: evidence_db where
  "ended_db = append_pipeline_run sample_env (observed_run (sample_observation (Some RS_SUCCESS))) empty_db"

text \<open>What a reconciliation made: its decision and the database after it, when it took a new decision.\<close>

definition new_decision :: "(reconciliation_decision \<times> evidence_db) res \<Rightarrow> evidence_db \<Rightarrow> (reconciliation_decision \<Rightarrow> bool) \<Rightarrow> bool" where
  "new_decision answer db P = (case answer of Inl e \<Rightarrow> False | Inr (d, db') \<Rightarrow> db_decisions db' \<noteq> db_decisions db \<and> P d)"

lemma new_decisionE:
  assumes "new_decision answer db P"
  obtains d db' where "answer = Inr (d, db')" and "db_decisions db' \<noteq> db_decisions db" and "P d"
  using assms by (auto simp: new_decision_def split: sum.splits)

lemma sample_present [simp]: "ob_lookup_outcome (sample_observation st) = PRESENT" "ob_events (sample_observation st) = []"
    "ob_stages (sample_observation st) = []" "ob_project_id (sample_observation st) = ''lake''"
    "ob_run_id (sample_observation st) = ''r1''" "ob_attempt (sample_observation st) = 1" "ob_status (sample_observation st) = st"
  by (simp_all add: sample_observation_def)

theorem ended_run_reconciled_witness:
  "map_option rr_status (run_of ended_db ''lake'' ''r1'') = Some ''success'' \<and>
   (\<exists>d db'. reconcile_observation sample_env (sample_observation (Some RS_QUEUED)) sample_profile 10 None 0 ended_db = Inr (d, db') \<and>
      map_option rr_status (run_of db' ''lake'' ''r1'') = Some ''queued'')"
proof -
  have "new_decision (reconcile_observation sample_env (sample_observation (Some RS_QUEUED)) sample_profile 10 None 0 ended_db)
      ended_db (\<lambda>d. rd_status d = RS_QUEUED)"
    by code_simp
  then obtain d db' where r: "reconcile_observation sample_env (sample_observation (Some RS_QUEUED)) sample_profile 10 None 0 ended_db = Inr (d, db')"
      and new: "db_decisions db' \<noteq> db_decisions ended_db" and st: "rd_status d = RS_QUEUED"
    by (rule new_decisionE)
  obtain row where row: "run_of ended_db ''lake'' ''r1'' = Some row" "rr_attempt row = 1" "rr_status row = status_text RS_SUCCESS"
  proof -
    have "(case run_of ended_db ''lake'' ''r1'' of None \<Rightarrow> False | Some row \<Rightarrow> rr_attempt row = 1 \<and> rr_status row = status_text RS_SUCCESS)"
      by code_simp
    then show thesis using that by (auto split: option.splits)
  qed
  have "\<exists>row'. run_of db' ''lake'' ''r1'' = Some row' \<and> rr_status row' = ''queued''"
    using ended_run_reconciled [OF r _ new, of row RS_SUCCESS] row st by (auto simp: TERMINAL_STATUSES_def)
  then show ?thesis
    using row r by auto
qed

text \<open>An observation that lists an event and one stage twice, first running and then ended.\<close>

definition listed_observation :: run_observation where
  "listed_observation = (sample_observation None)\<lparr>ob_events := [sample_run_event ''stage.start''],
     ob_stages := [sample_run_stage, sample_run_stage\<lparr>st_status := RS_SUCCESS, st_finished_at := Some 9\<rparr>]\<rparr>"

theorem reconcile_again_witness:
  "\<exists>d db1. reconcile_observation sample_env listed_observation sample_profile 10 None 0 empty_db = Inr (d, db1) \<and>
     db_events db1 \<noteq> [] \<and> map_option rr_status (run_of db1 ''lake'' ''r1'') = Some ''unknown'' \<and>
     (\<exists>db2. reconcile_observation sample_env listed_observation sample_profile 10 None 0 db1 = Inr (decision_row sample_env d, db2) \<and>
        map_option rr_status (run_of db2 ''lake'' ''r1'') = Some ''running'' \<and> db_stages db2 = db_stages db1)"
proof -
  have "(case reconcile_observation sample_env listed_observation sample_profile 10 None 0 empty_db of
      Inl e \<Rightarrow> False | Inr (d, db1) \<Rightarrow> db_decisions db1 \<noteq> db_decisions empty_db \<and> db_events db1 \<noteq> [])"
    by code_simp
  then obtain d db1 where r: "reconcile_observation sample_env listed_observation sample_profile 10 None 0 empty_db = Inr (d, db1)"
      and new: "db_decisions db1 \<noteq> db_decisions empty_db" "db_events db1 \<noteq> []"
    by (auto split: sum.splits)
  have "run_of empty_db ''lake'' ''r1'' = None"
    by code_simp
  then show ?thesis
    using reconcile_again [OF r _ new(1)] r new(2)
    by (simp add: listed_observation_def empty_db_def upsert_run_def)
qed

theorem stale_setting_conflicts_witness:
  "\<exists>d db1 message. reconcile_observation sample_env (sample_observation (Some RS_SUCCESS)) sample_profile 10 None 0 empty_db = Inr (d, db1) \<and>
     reconcile_observation sample_env (sample_observation (Some RS_SUCCESS)) sample_profile 10 (Some 60000000) 0 db1 =
       Inl (IdempotencyConflict message)"
proof -
  have "new_decision (reconcile_observation sample_env (sample_observation (Some RS_SUCCESS)) sample_profile 10 None 0 empty_db)
      empty_db (\<lambda>d. ee_checksum sample_env (decision_content sample_env (d\<lparr>rd_stale_after_seconds := Some (whole_seconds 60000000)\<rparr>)) \<noteq>
        ee_checksum sample_env (decision_content sample_env d))"
    by code_simp
  then obtain d db1 where r: "reconcile_observation sample_env (sample_observation (Some RS_SUCCESS)) sample_profile 10 None 0 empty_db = Inr (d, db1)"
      and new: "db_decisions db1 \<noteq> db_decisions empty_db"
      and differs: "ee_checksum sample_env (decision_content sample_env (d\<lparr>rd_stale_after_seconds := Some (whole_seconds 60000000)\<rparr>)) \<noteq>
        ee_checksum sample_env (decision_content sample_env d)"
    by (rule new_decisionE)
  have "is_terminal (Some RS_SUCCESS)"
    by code_simp
  then show ?thesis
    using stale_setting_conflicts [OF r _ new _ _ differs] r by (simp add: empty_db_def)
qed

end
