(* ===== verification/Evidence_Profiles.thy ===== *)
theory Evidence_Profiles
  imports Run_Reconciliation
begin

text \<open>
  \<open>phlo/run_evidence/contracts.py\<close> and \<open>profiles.py\<close>: what a provider requires as evidence, and the
  composition of these contributions to one profile. The hash of the canonical text of a JSON value is the
  argument \<open>digest\<close>.
\<close>

section \<open>Contributions\<close>

definition PROFILE_SCHEMA_VERSION :: string where
  "PROFILE_SCHEMA_VERSION = ''1''"

definition CANONICAL_STAGES :: "string list" where
  "CANONICAL_STAGES = [''ingest'', ''transform'', ''check'', ''publish'', ''lineage'']"

record profile_contribution =
  pc_contribution_id :: string
  pc_provider :: string
  pc_profile_id :: string
  pc_profile_version :: string
  pc_stages :: "required_stage list"
  pc_required_run_fields :: "string list"
  pc_required_records :: "required_record list"
  pc_requires_terminal_event :: bool
  pc_requires_contributions :: "string list"

definition check_contribution :: "profile_contribution \<Rightarrow> unit res" where
  "check_contribution c =
     (if py_strip (pc_contribution_id c) = [] \<or> py_strip (pc_provider c) = []
      then Inl (ValueError ''contribution_id and provider must be non-empty'')
      else if py_strip (pc_profile_id c) = [] \<or> py_strip (pc_profile_version c) = []
      then Inl (ValueError ''profile_id and profile_version must be non-empty'')
      else case filter (\<lambda>s. rq_stage_type s \<notin> set CANONICAL_STAGES) (pc_stages c) of
             s # _ \<Rightarrow> Inl (ValueError (''unsupported stage '' @ py_repr (rq_stage_type s)))
           | [] \<Rightarrow>
               (if \<not> distinct (map rq_stage_type (pc_stages c))
                then Inl (ValueError ''a contribution must not repeat a stage'')
                else if \<exists>d \<in> set (pc_requires_contributions c). py_strip d = []
                then Inl (ValueError ''requires_contributions must contain non-empty ids'')
                else Inr ()))"

record composed_profile =
  cp_profile :: evidence_profile
  cp_required_contribution_ids :: "string list"
  cp_discovered_contribution_ids :: "string list"
  cp_missing_contribution_ids :: "string list"
  cp_digest :: string
  cp_conflicts :: "string list"
  cp_available :: bool

definition composed_read_model :: "composed_profile \<Rightarrow> (string, json) dict" where
  "composed_read_model c =
     (let names = (\<lambda>ids. JList (map JStr ids)) in
      [(''profile_id'', JStr (pf_profile_id (cp_profile c))), (''profile_version'', JStr (pf_version (cp_profile c))),
       (''available'', JBool (cp_available c)),
       (''required_contribution_ids'', names (cp_required_contribution_ids c)),
       (''discovered_contribution_ids'', names (cp_discovered_contribution_ids c)),
       (''missing_contribution_ids'', names (cp_missing_contribution_ids c)),
       (''conflicts'', names (cp_conflicts c)), (''digest'', JStr (cp_digest c))])"

definition canonical_profile :: "evidence_profile \<Rightarrow> json" where
  "canonical_profile p =
     (let names = (\<lambda>ids. JList (map JStr ids)) in JObj
      [(''profile_id'', JStr (pf_profile_id p)), (''version'', JStr (pf_version p)),
       (''pipeline_name'', opt_json (pf_pipeline_name p)), (''provider'', opt_json (pf_provider p)),
       (''stages'', JList (map (\<lambda>s. JObj
          [(''stage_type'', JStr (rq_stage_type s)), (''provider'', opt_json (rq_provider s)),
           (''required_event_types'', names (rq_required_event_types s)),
           (''required_status'', opt_json (rq_required_status s)),
           (''allowed_statuses'', names (rq_allowed_statuses s)), (''allow_no_data'', JBool (rq_allow_no_data s))]) (pf_stages p))),
       (''run_terminal_event_types'', names (pf_run_terminal_event_types p)),
       (''required_run_fields'', names (pf_required_run_fields p)),
       (''required_records'', JList (map (\<lambda>r. JObj
          [(''family'', JStr (rc_family r)), (''minimum'', JInt (rc_minimum r)),
           (''required_status'', opt_json (rc_required_status r))]) (pf_required_records p)))])"

definition profile_digest :: "(json \<Rightarrow> string) \<Rightarrow> evidence_profile \<Rightarrow> string list \<Rightarrow> string list \<Rightarrow> string" where
  "profile_digest digest profile required discovered = digest (JObj
     [(''schema_version'', JStr PROFILE_SCHEMA_VERSION), (''profile'', canonical_profile profile),
      (''required_contribution_ids'', JList (map JStr required)),
      (''discovered_contribution_ids'', JList (map JStr discovered))])"

section \<open>Matching and dependencies\<close>

type_synonym contributions = "(string, profile_contribution) dict"

definition matching_contributions :: "string \<Rightarrow> string \<Rightarrow> profile_contribution list \<Rightarrow> contributions res" where
  "matching_contributions profile_id profile_version contributions =
     fold_res (\<lambda>c by_id.
        if dict_has by_id (pc_contribution_id c)
        then Inl (EvidenceProfileCompositionError ''duplicate_contribution'' [pc_contribution_id c])
        else if pc_profile_id c = profile_id \<and> pc_profile_version c = profile_version
        then Inr (dict_set by_id (pc_contribution_id c) c)
        else Inr by_id) contributions []"

definition check_dependencies_present :: "contributions \<Rightarrow> unit res" where
  "check_dependencies_present contributions =
     fold_res (\<lambda>(_, c) _. fold_res (\<lambda>dependency _.
        if \<not> dict_has contributions dependency
        then Inl (EvidenceProfileCompositionError ''missing_dependency'' [pc_contribution_id c, dependency])
        else Inr ()) (pc_requires_contributions c) ()) contributions ()"

text \<open>The depth-first search: \<open>path\<close> is the set \<open>visiting\<close>.\<close>

function (sequential) visit :: "contributions \<Rightarrow> string list \<Rightarrow> string list \<Rightarrow> string \<Rightarrow> string list res"
and visit_all :: "contributions \<Rightarrow> string list \<Rightarrow> string list \<Rightarrow> string list \<Rightarrow> string list res" where
  "visit cs path visited i =
     (if i \<in> set visited then Inr visited
      else if i \<in> set path then Inl (EvidenceProfileCompositionError ''dependency_cycle'' [i])
      else case dict_get cs i of
             None \<Rightarrow> Inl (KeyError i)
           | Some c \<Rightarrow> bind_res (visit_all cs (i # path) visited (pc_requires_contributions c)) (\<lambda>visited. Inr (i # visited)))"
| "visit_all cs path visited [] = Inr visited"
| "visit_all cs path visited (d # ds) = bind_res (visit cs path visited d) (\<lambda>visited. visit_all cs path visited ds)"
  by pat_completeness auto

termination
proof (relation "measures [\<lambda>x. case x of Inl (cs, path, _, i) \<Rightarrow> card (fst ` set cs - set path)
       | Inr (cs, path, _, ds) \<Rightarrow> card (fst ` set cs - set path),
     \<lambda>x. case x of Inl _ \<Rightarrow> 0 | Inr (_, _, _, ds) \<Rightarrow> Suc (length ds)]", goal_cases)
  case (2 cs path visited i c)
  then have "i \<in> fst ` set cs - set path" by (force dest: map_of_SomeD)
  then have "card (fst ` set cs - set (i # path)) < card (fst ` set cs - set path)"
    by (intro psubset_card_mono) auto
  then show ?case by simp
qed auto

definition validate_contribution_dependencies :: "contributions \<Rightarrow> unit res" where
  "validate_contribution_dependencies contributions =
     bind_res (check_dependencies_present contributions) (\<lambda>_.
     bind_res (visit_all contributions [] [] (map fst contributions)) (\<lambda>_. Inr ()))"

section \<open>Composition\<close>

record requirements =
  rs_stages :: "(string \<times> string option, required_stage) dict"
  rs_records :: "(string, required_record) dict"
  rs_run_fields :: "string list"
  rs_terminal :: bool
  rs_conflicts :: "string list"

text \<open>An entry of a dictionary is replaced, and reported when it was another.\<close>

definition add_stage :: "string \<Rightarrow> required_stage \<Rightarrow> requirements \<Rightarrow> requirements" where
  "add_stage contribution_id s r =
     (let key = (rq_stage_type s, rq_provider s);
          conflict = (case dict_get (rs_stages r) key of None \<Rightarrow> False | Some existing \<Rightarrow> existing \<noteq> s)
      in r\<lparr>rs_stages := dict_set (rs_stages r) key s,
           rs_conflicts := rs_conflicts r @
             (if conflict then [contribution_id @ '':'' @ rq_stage_type s @ '' conflicts with existing''] else [])\<rparr>)"

definition add_record :: "string \<Rightarrow> required_record \<Rightarrow> requirements \<Rightarrow> requirements" where
  "add_record contribution_id x r =
     (let conflict = (case dict_get (rs_records r) (rc_family x) of None \<Rightarrow> False | Some existing \<Rightarrow> existing \<noteq> x)
      in r\<lparr>rs_records := dict_set (rs_records r) (rc_family x) x,
           rs_conflicts := rs_conflicts r @
             (if conflict then [contribution_id @ '':'' @ rc_family x @ '' conflicts''] else [])\<rparr>)"

definition add_contribution :: "profile_contribution \<Rightarrow> requirements \<Rightarrow> requirements" where
  "add_contribution c r =
     (let r = r\<lparr>rs_terminal := (rs_terminal r \<or> pc_requires_terminal_event c)\<rparr>;
          r = fold (add_stage (pc_contribution_id c)) (pc_stages c) r;
          r = fold (add_record (pc_contribution_id c)) (pc_required_records c) r
      in r\<lparr>rs_run_fields := rs_run_fields r @ pc_required_run_fields c\<rparr>)"

definition collect_profile_requirements :: "contributions \<Rightarrow> requirements res" where
  "collect_profile_requirements contributions =
     (let r = fold add_contribution (map snd contributions)
        \<lparr>rs_stages = [], rs_records = [], rs_run_fields = [], rs_terminal = False, rs_conflicts = []\<rparr>
      in if rs_conflicts r \<noteq> [] then Inl (EvidenceProfileCompositionError ''conflicting_requirements'' (rs_conflicts r))
         else Inr r)"

text \<open>The profile of its id, version and requirements; a set of fields is the list of its members, sorted.\<close>

definition profile_of :: "string \<Rightarrow> string \<Rightarrow> requirements \<Rightarrow> evidence_profile" where
  "profile_of profile_id profile_version r =
     \<lparr>pf_profile_id = profile_id, pf_version = profile_version, pf_pipeline_name = None, pf_provider = None,
      pf_stages = sort_key (\<lambda>s. (rq_stage_type s, case rq_provider s of None \<Rightarrow> [] | Some p \<Rightarrow> p)) (map snd (rs_stages r)),
      pf_run_terminal_event_types = (if rs_terminal r then [''run.terminal''] else []),
      pf_required_run_fields = sort (remdups (rs_run_fields r)),
      pf_required_records = sort_key rc_family (map snd (rs_records r))\<rparr>"

text \<open>A profile with the default requirements, for a composition that is not available.\<close>

definition bare_profile :: "string \<Rightarrow> string \<Rightarrow> evidence_profile" where
  "bare_profile profile_id profile_version =
     \<lparr>pf_profile_id = profile_id, pf_version = profile_version, pf_pipeline_name = None, pf_provider = None,
      pf_stages = [], pf_run_terminal_event_types = [''run.terminal''],
      pf_required_run_fields = [''status'', ''started_at'', ''finished_at'', ''provider_run_id''],
      pf_required_records = []\<rparr>"

definition compose_evidence_profile :: "(json \<Rightarrow> string) \<Rightarrow> string \<Rightarrow> string \<Rightarrow> string list
    \<Rightarrow> profile_contribution list \<Rightarrow> composed_profile res" where
  "compose_evidence_profile digest profile_id profile_version required_ids contributions =
     (let required = sort (remdups required_ids) in
      if [] \<in> set required then Inl (EvidenceProfileCompositionError ''blank_contribution_id'' required)
      else
        bind_res (matching_contributions profile_id profile_version contributions) (\<lambda>by_id.
        (let discovered = sort (map fst by_id);
             missing = filter (\<lambda>i. \<not> dict_has by_id i) required;
             composed = (\<lambda>profile missing available.
               \<lparr>cp_profile = profile, cp_required_contribution_ids = required,
                cp_discovered_contribution_ids = discovered, cp_missing_contribution_ids = missing,
                cp_digest = profile_digest digest profile required discovered, cp_conflicts = [],
                cp_available = available\<rparr>)
         in if missing \<noteq> []
            then bind_res (check_profile (bare_profile profile_id profile_version)) (\<lambda>_.
                   Inr (composed (bare_profile profile_id profile_version) missing False))
            else
              bind_res (validate_contribution_dependencies by_id) (\<lambda>_.
              bind_res (collect_profile_requirements by_id) (\<lambda>r.
              bind_res (check_profile (profile_of profile_id profile_version r)) (\<lambda>_.
              Inr (composed (profile_of profile_id profile_version r) [] True)))))))"

end
