(* ===== verification/Evidence_Profiles_Spec.thy ===== *)
theory Evidence_Profiles_Spec
  imports Evidence_Profiles
begin

text \<open>
  When contributions compose to a profile, and what it requires: a declarative reading of \<open>Evidence_Profiles\<close>.
\<close>

section \<open>The dependency search\<close>

definition depends_on :: "contributions \<Rightarrow> (string \<times> string) set" where
  "depends_on cs = {(a, b). \<exists>c. dict_get cs a = Some c \<and> b \<in> set (pc_requires_contributions c)}"

definition deps_closed :: "contributions \<Rightarrow> bool" where
  "deps_closed cs \<longleftrightarrow> (\<forall>(i, c) \<in> set cs. set (pc_requires_contributions c) \<subseteq> fst ` set cs)"

text \<open>What has been visited is closed under dependencies and on no cycle.\<close>

definition visited_ok :: "contributions \<Rightarrow> string set \<Rightarrow> bool" where
  "visited_ok cs v \<longleftrightarrow> (\<forall>i \<in> v. depends_on cs `` {i} \<subseteq> v \<and> (i, i) \<notin> (depends_on cs)\<^sup>+)"

lemma visited_ok_reach:
  assumes "visited_ok cs v" and "i \<in> v" and "(i, j) \<in> (depends_on cs)\<^sup>*"
  shows "j \<in> v"
  using assms(3, 2) by (induction rule: rtrancl_induct) (use assms(1) in \<open>auto simp: visited_ok_def\<close>)

lemma visited_ok_insert:
  assumes "visited_ok cs v" and "depends_on cs `` {i} \<subseteq> v" and "i \<notin> v"
  shows "visited_ok cs (insert i v)"
proof -
  have "(i, i) \<notin> (depends_on cs)\<^sup>+"
  proof
    assume "(i, i) \<in> (depends_on cs)\<^sup>+"
    then obtain j where "(i, j) \<in> depends_on cs" "(j, i) \<in> (depends_on cs)\<^sup>*" by (meson tranclD)
    moreover from this(1) have "j \<in> v" using assms(2) by auto
    ultimately have "i \<in> v" using visited_ok_reach [OF assms(1)] by blast
    then show False using assms(3) by simp
  qed
  moreover have "depends_on cs `` {j} \<subseteq> insert i v \<and> (j, j) \<notin> (depends_on cs)\<^sup>+" if "j \<in> v" for j
    using assms(1) that unfolding visited_ok_def by (simp add: subset_insertI2)
  ultimately show ?thesis
    unfolding visited_ok_def using assms(2) by (simp add: subset_insertI2)
qed

definition visits :: "contributions \<Rightarrow> string list \<Rightarrow> string list \<Rightarrow> string set \<Rightarrow> string list \<Rightarrow> bool" where
  "visits cs path v new v' \<longleftrightarrow>
     set v \<subseteq> set v' \<and> new \<subseteq> set v' \<and> (set v' - set v) \<inter> set path = {} \<and>
     (visited_ok cs (set v) \<longrightarrow> visited_ok cs (set v'))"

lemma visit_visits:
  "visit cs path v i = Inr v' \<Longrightarrow> visits cs path v {i} v'"
  "visit_all cs path v ds = Inr v' \<Longrightarrow> visits cs path v (set ds) v'"
proof (induction cs path v i and cs path v ds arbitrary: v' and v' rule: visit_visit_all.induct)
  case (1 cs path v i)
  show ?case
  proof (cases "i \<in> set v")
    case True
    then show ?thesis using 1(2) by (simp add: visit.simps visits_def)
  next
    case new: False
    then have "i \<notin> set path" using 1(2) by (auto simp: visit.simps)
    moreover obtain c where c: "dict_get cs i = Some c"
      using 1(2) new by (auto simp: visit.simps split: if_splits option.splits)
    ultimately obtain w where w: "visit_all cs (i # path) v (pc_requires_contributions c) = Inr w" and v': "v' = i # w"
      using 1(2) new by (auto simp: visit.simps bind_res_Inr_iff)
    have ih: "visits cs (i # path) v (set (pc_requires_contributions c)) w"
      by (rule 1(1) [OF new \<open>i \<notin> set path\<close> c w])
    then have "i \<notin> set w" using new by (auto simp: visits_def)
    moreover have "depends_on cs `` {i} \<subseteq> set w"
      using ih c by (auto simp: visits_def depends_on_def)
    ultimately have "visited_ok cs (set w) \<Longrightarrow> visited_ok cs (set v')"
      using visited_ok_insert [of cs "set w" i] by (simp add: v')
    then show ?thesis
      using ih \<open>i \<notin> set path\<close> by (auto simp: visits_def v')
  qed
next
  case (3 cs path v d ds)
  then obtain w where "visit cs path v d = Inr w" "visit_all cs path w ds = Inr v'"
    by (auto simp: bind_res_Inr_iff)
  with 3(1) [OF this(1)] 3(2) [OF this(2)] show ?case
    by (auto simp: visits_def)
qed (simp add: visits_def)

lemma visit_raises:
  "visit cs path v i = Inl e \<Longrightarrow> deps_closed cs \<Longrightarrow> dict_has cs i \<Longrightarrow> \<forall>p \<in> set path. (p, i) \<in> (depends_on cs)\<^sup>+ \<Longrightarrow>
     \<exists>x. (x, x) \<in> (depends_on cs)\<^sup>+"
  "visit_all cs path v ds = Inl e \<Longrightarrow> deps_closed cs \<Longrightarrow> set ds \<subseteq> fst ` set cs \<Longrightarrow>
     \<forall>p \<in> set path. \<forall>d \<in> set ds. (p, d) \<in> (depends_on cs)\<^sup>+ \<Longrightarrow> \<exists>x. (x, x) \<in> (depends_on cs)\<^sup>+"
proof (induction cs path v i and cs path v ds arbitrary: e and e rule: visit_visit_all.induct)
  case (1 cs path v i)
  show ?case
  proof (cases "i \<in> set path")
    case True
    then show ?thesis using 1(5) by blast
  next
    case False
    have new: "i \<notin> set v" using 1(2) by (auto simp: visit.simps)
    obtain c where c: "dict_get cs i = Some c"
      using 1(4) by (auto simp: dict_has_get)
    then have w: "visit_all cs (i # path) v (pc_requires_contributions c) = Inl e"
      using 1(2) new False by (auto simp: visit.simps bind_res_Inl_iff)
    have edge: "(i, d) \<in> depends_on cs" if "d \<in> set (pc_requires_contributions c)" for d
      using that c by (auto simp: depends_on_def)
    have "set (pc_requires_contributions c) \<subseteq> fst ` set cs"
      using 1(3) map_of_SomeD [OF c] by (auto simp: deps_closed_def)
    moreover have "\<forall>p \<in> set (i # path). \<forall>d \<in> set (pc_requires_contributions c). (p, d) \<in> (depends_on cs)\<^sup>+"
      using 1(5) edge by (auto intro: trancl_into_trancl)
    ultimately show ?thesis
      by (rule 1(1) [OF new False c w 1(3)])
  qed
next
  case (3 cs path v d ds)
  show ?case
  proof (cases "visit cs path v d")
    case (Inl e')
    then show ?thesis using 3(1) [OF Inl] 3(4-6) by simp
  next
    case (Inr w)
    then have "visit_all cs path w ds = Inl e" using 3(3) by simp
    then show ?thesis using 3(2) 3(4-6) by simp
  qed
qed simp

definition acyclic_deps :: "contributions \<Rightarrow> bool" where
  "acyclic_deps cs \<longleftrightarrow> (\<forall>x. (x, x) \<notin> (depends_on cs)\<^sup>+)"

lemma visit_all_iff:
  assumes "deps_closed cs"
  shows "(\<exists>v. visit_all cs [] [] (map fst cs) = Inr v) \<longleftrightarrow> acyclic_deps cs"
proof (cases "visit_all cs [] [] (map fst cs)")
  case (Inl e)
  then show ?thesis
    using visit_raises(2) [OF Inl assms] by (auto simp: acyclic_deps_def)
next
  case (Inr v)
  then have "visits cs [] [] (fst ` set cs) v"
    using visit_visits(2) [OF Inr] by simp
  then have ok: "visited_ok cs (set v)" and all: "fst ` set cs \<subseteq> set v"
    by (auto simp: visits_def visited_ok_def)
  have "(x, x) \<notin> (depends_on cs)\<^sup>+" for x
  proof
    assume x: "(x, x) \<in> (depends_on cs)\<^sup>+"
    then obtain y where "(x, y) \<in> depends_on cs" by (meson tranclD)
    then have "x \<in> set v" using all by (force simp: depends_on_def dest: map_of_SomeD)
    then show False using ok x by (auto simp: visited_ok_def)
  qed
  then show ?thesis using Inr by (simp add: acyclic_deps_def)
qed

lemma fold_unit_iff: "fold_res (\<lambda>x _. f x) xs () = Inr () \<longleftrightarrow> (\<forall>x \<in> set xs. f x = Inr ())"
  by (induction xs) (auto simp: bind_res_Inr_iff)

lemma dependencies_present_iff: "check_dependencies_present cs = Inr () \<longleftrightarrow> deps_closed cs"
proof -
  define inner where "inner = (\<lambda>(p :: string \<times> profile_contribution). fold_res (\<lambda>dependency _.
        if \<not> dict_has cs dependency
        then Inl (EvidenceProfileCompositionError ''missing_dependency'' [pc_contribution_id (snd p), dependency])
        else Inr ()) (pc_requires_contributions (snd p)) ())"
  have "(\<lambda>(_, c) _. fold_res (\<lambda>dependency _.
        if \<not> dict_has cs dependency
        then Inl (EvidenceProfileCompositionError ''missing_dependency'' [pc_contribution_id c, dependency])
        else Inr ()) (pc_requires_contributions c) ()) = (\<lambda>(p :: string \<times> profile_contribution) _. inner p)"
    by (rule ext) (simp add: split_beta inner_def)
  then have "check_dependencies_present cs = fold_res (\<lambda>p _. inner p) cs ()"
    unfolding check_dependencies_present_def by (rule arg_cong)
  moreover have "inner p = Inr () \<longleftrightarrow> set (pc_requires_contributions (snd p)) \<subseteq> fst ` set cs" for p
    unfolding inner_def fold_unit_iff by auto
  ultimately show ?thesis
    unfolding deps_closed_def case_prod_beta by (simp only: fold_unit_iff)
qed

lemma dependencies_iff:
  "validate_contribution_dependencies cs = Inr () \<longleftrightarrow> deps_closed cs \<and> acyclic_deps cs"
  unfolding validate_contribution_dependencies_def bind_res_Inr_iff
  using dependencies_present_iff [of cs] visit_all_iff [of cs] by auto

section \<open>The union of the requirements\<close>

abbreviation stage_id_of :: "required_stage \<Rightarrow> string \<times> string option" where
  "stage_id_of s \<equiv> (rq_stage_type s, rq_provider s)"

definition agree :: "required_stage set \<Rightarrow> required_record set \<Rightarrow> bool" where
  "agree S R \<longleftrightarrow> inj_on stage_id_of S \<and> inj_on rc_family R"

text \<open>What the dictionaries hold after the stages \<open>S\<close> and the records \<open>R\<close>.\<close>

definition collected :: "required_stage set \<Rightarrow> required_record set \<Rightarrow> requirements \<Rightarrow> bool" where
  "collected S R r \<longleftrightarrow>
     (\<forall>(k, s) \<in> set (rs_stages r). k = stage_id_of s \<and> s \<in> S) \<and>
     (\<forall>(k, x) \<in> set (rs_records r). k = rc_family x \<and> x \<in> R) \<and>
     (rs_conflicts r = [] \<longrightarrow> (\<forall>s \<in> S. dict_get (rs_stages r) (stage_id_of s) = Some s) \<and>
        (\<forall>x \<in> R. dict_get (rs_records r) (rc_family x) = Some x)) \<and>
     (rs_conflicts r \<noteq> [] \<longrightarrow> \<not> agree S R)"

lemma collectedD:
  assumes "collected S R r" and "rs_conflicts r = []"
  shows "\<forall>(k, s) \<in> set (rs_stages r). k = stage_id_of s \<and> s \<in> S" "\<forall>s \<in> S. dict_get (rs_stages r) (stage_id_of s) = Some s"
    and "\<forall>(k, x) \<in> set (rs_records r). k = rc_family x \<and> x \<in> R" "\<forall>x \<in> R. dict_get (rs_records r) (rc_family x) = Some x"
  using assms unfolding collected_def by blast+

lemma agree_mono: "agree S R \<Longrightarrow> S' \<subseteq> S \<Longrightarrow> R' \<subseteq> R \<Longrightarrow> agree S' R'"
  unfolding agree_def by (blast intro: inj_on_subset)

lemma collected_stage:
  assumes "collected S R r"
  shows "collected (insert s S) R (add_stage i s r)"
proof -
  let ?d = "dict_set (rs_stages r) (stage_id_of s) s"
  have entries: "\<forall>(k, s') \<in> set ?d. k = stage_id_of s' \<and> s' \<in> insert s S"
    using assms dict_set_subset [where d = "rs_stages r" and k = "stage_id_of s" and v = s] by (fastforce simp: collected_def)
  have other: "\<not> agree (insert s S) R" if "dict_get (rs_stages r) (stage_id_of s) = Some e" "e \<noteq> s" for e
  proof -
    have "e \<in> S \<and> stage_id_of e = stage_id_of s"
      using assms map_of_SomeD [OF that(1)] by (auto simp: collected_def)
    then show ?thesis using that(2) by (auto simp: agree_def inj_on_def)
  qed
  have conflicts: "rs_conflicts (add_stage i s r) = [] \<longleftrightarrow>
      rs_conflicts r = [] \<and> (\<forall>e. dict_get (rs_stages r) (stage_id_of s) = Some e \<longrightarrow> e = s)"
    by (auto simp: add_stage_def Let_def split: option.split)
  have kept: "rs_stages (add_stage i s r) = ?d" "rs_records (add_stage i s r) = rs_records r"
    by (simp_all add: add_stage_def Let_def)
  have found: "dict_get ?d (stage_id_of s') = Some s'"
    if "s' \<in> insert s S" "rs_conflicts (add_stage i s r) = []" for s'
  proof (cases "s' = s")
    case False
    then have "dict_get (rs_stages r) (stage_id_of s') = Some s'"
      using that assms conflicts by (auto simp: collected_def)
    then show ?thesis using False that(2) conflicts by auto
  qed simp
  have bad: "\<not> agree (insert s S) R" if "rs_conflicts (add_stage i s r) \<noteq> []"
  proof (cases "rs_conflicts r = []")
    case True
    then show ?thesis using that conflicts other by blast
  next
    case False
    then have "\<not> agree S R" using assms by (simp add: collected_def)
    then show ?thesis using agree_mono [of "insert s S" R S R] by blast
  qed
  have "rs_conflicts (add_stage i s r) = [] \<Longrightarrow> x \<in> R \<Longrightarrow> dict_get (rs_records r) (rc_family x) = Some x" for x
    using assms conflicts by (simp add: collected_def)
  then show ?thesis
    using entries found bad assms unfolding collected_def kept by blast
qed

lemma collected_record:
  assumes "collected S R r"
  shows "collected S (insert x R) (add_record i x r)"
proof -
  let ?d = "dict_set (rs_records r) (rc_family x) x"
  have entries: "\<forall>(k, y) \<in> set ?d. k = rc_family y \<and> y \<in> insert x R"
    using assms dict_set_subset [where d = "rs_records r" and k = "rc_family x" and v = x] by (fastforce simp: collected_def)
  have other: "\<not> agree S (insert x R)" if "dict_get (rs_records r) (rc_family x) = Some e" "e \<noteq> x" for e
  proof -
    have "e \<in> R \<and> rc_family e = rc_family x"
      using assms map_of_SomeD [OF that(1)] by (auto simp: collected_def)
    then show ?thesis using that(2) by (auto simp: agree_def inj_on_def)
  qed
  have conflicts: "rs_conflicts (add_record i x r) = [] \<longleftrightarrow>
      rs_conflicts r = [] \<and> (\<forall>e. dict_get (rs_records r) (rc_family x) = Some e \<longrightarrow> e = x)"
    by (auto simp: add_record_def Let_def split: option.split)
  have kept: "rs_records (add_record i x r) = ?d" "rs_stages (add_record i x r) = rs_stages r"
    by (simp_all add: add_record_def Let_def)
  have found: "dict_get ?d (rc_family y) = Some y" if "y \<in> insert x R" "rs_conflicts (add_record i x r) = []" for y
  proof (cases "y = x")
    case False
    then have "dict_get (rs_records r) (rc_family y) = Some y"
      using that assms conflicts by (auto simp: collected_def)
    then show ?thesis using False that(2) conflicts by auto
  qed simp
  have bad: "\<not> agree S (insert x R)" if "rs_conflicts (add_record i x r) \<noteq> []"
  proof (cases "rs_conflicts r = []")
    case True
    then show ?thesis using that conflicts other by blast
  next
    case False
    then have "\<not> agree S R" using assms by (simp add: collected_def)
    then show ?thesis using agree_mono [of S "insert x R" S R] by blast
  qed
  have "rs_conflicts (add_record i x r) = [] \<Longrightarrow> s \<in> S \<Longrightarrow> dict_get (rs_stages r) (stage_id_of s) = Some s" for s
    using assms conflicts by (simp add: collected_def)
  then show ?thesis
    using entries found bad assms unfolding collected_def kept by blast
qed

lemma collected_stages: "collected S R r \<Longrightarrow> collected (S \<union> set ss) R (fold (add_stage i) ss r)"
proof (induction ss arbitrary: S r)
  case (Cons s ss)
  from Cons.IH [OF collected_stage [OF Cons.prems, of s i]] show ?case by (simp add: Un_insert_right)
qed simp

lemma collected_records: "collected S R r \<Longrightarrow> collected S (R \<union> set xs) (fold (add_record i) xs r)"
proof (induction xs arbitrary: R r)
  case (Cons x xs)
  from Cons.IH [OF collected_record [OF Cons.prems, of x i]] show ?case by (simp add: Un_insert_right)
qed simp

definition all_stages :: "profile_contribution list \<Rightarrow> required_stage set" where
  "all_stages cs = (\<Union>c \<in> set cs. set (pc_stages c))"

definition all_records_of :: "profile_contribution list \<Rightarrow> required_record set" where
  "all_records_of cs = (\<Union>c \<in> set cs. set (pc_required_records c))"

lemma collected_contributions:
  assumes "collected S R r"
  shows "collected (S \<union> all_stages cs) (R \<union> all_records_of cs) (fold add_contribution cs r)"
  using assms
proof (induction cs arbitrary: S R r)
  case (Cons c cs)
  have "collected S R (r\<lparr>rs_terminal := t\<rparr>)" for t
    using Cons.prems by (simp add: collected_def)
  from collected_records [OF collected_stages [OF this]]
  have "collected (S \<union> set (pc_stages c)) (R \<union> set (pc_required_records c)) (add_contribution c r)"
    by (simp add: add_contribution_def Let_def collected_def)
  from Cons.IH [OF this] show ?case
    by (simp add: all_stages_def all_records_of_def Un_assoc)
qed (simp add: all_stages_def all_records_of_def)

lemma stage_fields:
  "rs_run_fields (fold (add_stage i) ss r) = rs_run_fields r" "rs_terminal (fold (add_stage i) ss r) = rs_terminal r"
  by (induction ss arbitrary: r) (simp_all add: add_stage_def Let_def)

lemma record_fields:
  "rs_run_fields (fold (add_record i) xs r) = rs_run_fields r" "rs_terminal (fold (add_record i) xs r) = rs_terminal r"
  by (induction xs arbitrary: r) (simp_all add: add_record_def Let_def)

lemma contribution_fields:
  "set (rs_run_fields (fold add_contribution cs r)) = set (rs_run_fields r) \<union> (\<Union>c \<in> set cs. set (pc_required_run_fields c))"
  "rs_terminal (fold add_contribution cs r) \<longleftrightarrow> rs_terminal r \<or> (\<exists>c \<in> set cs. pc_requires_terminal_event c)"
  by (induction cs arbitrary: r) (auto simp: add_contribution_def Let_def stage_fields record_fields)

text \<open>What a profile requires when it is the union of the contributions.\<close>

definition requires_union :: "profile_contribution list \<Rightarrow> evidence_profile \<Rightarrow> bool" where
  "requires_union cs p \<longleftrightarrow>
     set (pf_stages p) = all_stages cs \<and> set (pf_required_records p) = all_records_of cs \<and>
     set (pf_required_run_fields p) = (\<Union>c \<in> set cs. set (pc_required_run_fields c)) \<and>
     pf_run_terminal_event_types p = (if \<exists>c \<in> set cs. pc_requires_terminal_event c then [''run.terminal''] else [])"

lemma entries_all: "(\<forall>(k, x) \<in> set d. k = f x \<and> x \<in> S) \<Longrightarrow> (\<forall>x \<in> S. dict_get d (f x) = Some x) \<Longrightarrow> snd ` set d = S"
  by (force dest: map_of_SomeD)

lemma collect_cases:
  "case collect_profile_requirements by_id of
     Inr r \<Rightarrow> agree (all_stages (map snd by_id)) (all_records_of (map snd by_id)) \<and>
       requires_union (map snd by_id) (profile_of profile_id version r)
   | Inl e \<Rightarrow> \<not> agree (all_stages (map snd by_id)) (all_records_of (map snd by_id))"
proof -
  let ?cs = "map snd by_id"
  let ?r0 = "\<lparr>rs_stages = [], rs_records = [], rs_run_fields = [], rs_terminal = False, rs_conflicts = []\<rparr>"
  define r where "r = fold add_contribution ?cs ?r0"
  have "collected {} {} ?r0"
    by (simp add: collected_def)
  from collected_contributions [OF this, of ?cs]
  have c: "collected (all_stages ?cs) (all_records_of ?cs) r"
    by (simp add: r_def)
  have fields: "set (rs_run_fields r) = (\<Union>c \<in> set ?cs. set (pc_required_run_fields c))"
    "rs_terminal r \<longleftrightarrow> (\<exists>c \<in> set ?cs. pc_requires_terminal_event c)"
    by (simp_all add: r_def contribution_fields del: set_map)
  show ?thesis
  proof (cases "rs_conflicts r = []")
    case False
    then show ?thesis
      using c by (simp add: collect_profile_requirements_def Let_def r_def [symmetric] collected_def del: set_map)
  next
    case True
    have s: "snd ` set (rs_stages r) = all_stages ?cs"
      by (rule entries_all [of _ stage_id_of]) (rule collectedD [OF c True])+
    have x: "snd ` set (rs_records r) = all_records_of ?cs"
      by (rule entries_all [of _ rc_family]) (rule collectedD [OF c True])+
    have "dict_get (rs_stages r) (stage_id_of y) = Some y" if "y \<in> all_stages ?cs" for y
      using collectedD(2) [OF c True] that by blast
    then have "inj_on stage_id_of (all_stages ?cs)"
      by (intro inj_onI) (metis option.inject)
    moreover have "dict_get (rs_records r) (rc_family y) = Some y" if "y \<in> all_records_of ?cs" for y
      using collectedD(4) [OF c True] that by blast
    then have "inj_on rc_family (all_records_of ?cs)"
      by (intro inj_onI) (metis option.inject)
    moreover have "requires_union ?cs (profile_of profile_id version r)"
      using s x fields by (simp add: requires_union_def profile_of_def)
    ultimately show ?thesis
      using True by (simp add: collect_profile_requirements_def Let_def r_def [symmetric] agree_def)
  qed
qed

section \<open>When contributions compose\<close>

definition matches_profile :: "string \<Rightarrow> string \<Rightarrow> profile_contribution \<Rightarrow> bool" where
  "matches_profile profile_id version c \<longleftrightarrow> pc_profile_id c = profile_id \<and> pc_profile_version c = version"

definition by_contribution :: "profile_contribution list \<Rightarrow> contributions" where
  "by_contribution cs = map (\<lambda>c. (pc_contribution_id c, c)) cs"

lemma matching_distinct:
  assumes "distinct (map pc_contribution_id cs)"
  shows "matching_contributions profile_id version cs = Inr (by_contribution (filter (matches_profile profile_id version) cs))"
proof -
  let ?f = "\<lambda>c by_id.
        if dict_has by_id (pc_contribution_id c)
        then Inl (EvidenceProfileCompositionError ''duplicate_contribution'' [pc_contribution_id c])
        else if pc_profile_id c = profile_id \<and> pc_profile_version c = version
        then Inr (dict_set by_id (pc_contribution_id c) c)
        else Inr by_id"
  have "fold_res ?f cs acc = Inr (acc @ by_contribution (filter (matches_profile profile_id version) cs))"
    if "fst ` set acc \<inter> pc_contribution_id ` set cs = {}" for acc
    using that assms
  proof (induction cs arbitrary: acc)
    case (Cons c cs)
    have new: "pc_contribution_id c \<notin> fst ` set acc"
      using Cons.prems(1) by auto
    show ?case
    proof (cases "matches_profile profile_id version c")
      case True
      have "fst ` set (acc @ [(pc_contribution_id c, c)]) \<inter> pc_contribution_id ` set cs = {}"
        using Cons.prems by auto
      from Cons.IH [OF this] show ?thesis
        using True new Cons.prems(2) by (simp add: matches_profile_def dict_set_new by_contribution_def)
    next
      case False
      have "fst ` set acc \<inter> pc_contribution_id ` set cs = {}"
        using Cons.prems(1) by auto
      from Cons.IH [OF this] show ?thesis
        using False new Cons.prems(2) by (auto simp: matches_profile_def)
    qed
  qed (simp add: by_contribution_def)
  from this [of "[]"] show ?thesis
    by (simp add: matching_contributions_def)
qed

lemma by_contribution_simps [simp]:
  "map fst (by_contribution cs) = map pc_contribution_id cs" "map snd (by_contribution cs) = cs"
  "fst ` set (by_contribution cs) = pc_contribution_id ` set cs"
  by (simp_all add: by_contribution_def o_def image_image)

definition composable :: "string \<Rightarrow> string \<Rightarrow> string list \<Rightarrow> profile_contribution list \<Rightarrow> bool" where
  "composable profile_id version required cs \<longleftrightarrow>
     (let ms = filter (matches_profile profile_id version) cs; by_id = by_contribution ms in
      [] \<notin> set required \<and> set required \<subseteq> pc_contribution_id ` set ms \<and> deps_closed by_id \<and> acyclic_deps by_id \<and>
      agree (all_stages ms) (all_records_of ms))"

text \<open>
  C36: With distinct contribution ids, composition is available exactly when every required id is there and not
  blank, the contributions to this profile and version depend only on each other and on no cycle, and no two of them
  require different things of one stage or record family. Then the profile requires exactly the union of
  what they require; and when ids are missing, the answer is unavailable and names exactly those.
\<close>
theorem profile_composes_iff:
  assumes "distinct (map pc_contribution_id cs)" and "py_strip profile_id \<noteq> []" and "py_strip version \<noteq> []"
  shows "case compose_evidence_profile digest profile_id version required cs of
     Inl e \<Rightarrow> \<not> composable profile_id version required cs
   | Inr c \<Rightarrow>
       (cp_available c \<longleftrightarrow> composable profile_id version required cs) \<and>
       (if cp_available c then requires_union (filter (matches_profile profile_id version) cs) (cp_profile c)
        else cp_missing_contribution_ids c \<noteq> [] \<and> set (cp_missing_contribution_ids c) =
          set required - pc_contribution_id ` set (filter (matches_profile profile_id version) cs))"
proof -
  let ?ms = "filter (matches_profile profile_id version) cs"
  let ?by = "by_contribution ?ms"
  note m = matching_distinct [OF assms(1), of profile_id version]
  have checks: "check_profile (bare_profile profile_id version) = Inr ()" "check_profile (profile_of profile_id version r) = Inr ()" for r
    using assms(2, 3) by (simp_all add: check_profile_def bare_profile_def profile_of_def)
  define lacking where "lacking = filter (\<lambda>i. \<not> dict_has ?by i) (sort (remdups required))"
  have lacking: "set lacking = set required - pc_contribution_id ` set ?ms"
    by (auto simp: lacking_def)
  consider (blank) "[] \<in> set required" | (missing) "[] \<notin> set required" "lacking \<noteq> []"
    | (there) "[] \<notin> set required" "lacking = []"
    by blast
  then show ?thesis
  proof cases
    case blank
    then show ?thesis by (simp add: compose_evidence_profile_def composable_def Let_def)
  next
    case missing
    then have "set lacking \<noteq> {}"
      by simp
    then have "\<not> set required \<subseteq> pc_contribution_id ` set ?ms"
      unfolding lacking by blast
    then have "\<not> composable profile_id version required cs"
      by (simp add: composable_def Let_def)
    moreover have "\<exists>c. compose_evidence_profile digest profile_id version required cs = Inr c \<and> \<not> cp_available c \<and>
        cp_missing_contribution_ids c = lacking"
      using missing by (simp add: compose_evidence_profile_def Let_def m checks lacking_def [symmetric] del: by_contribution_simps(3))
    ultimately show ?thesis
      using missing(2) lacking by auto
  next
    case there
    then have sub: "set required \<subseteq> pc_contribution_id ` set ?ms"
      using lacking by auto
    have eq: "compose_evidence_profile digest profile_id version required cs =
        bind_res (validate_contribution_dependencies ?by) (\<lambda>_. bind_res (collect_profile_requirements ?by) (\<lambda>r.
          Inr \<lparr>cp_profile = profile_of profile_id version r, cp_required_contribution_ids = sort (remdups required),
               cp_discovered_contribution_ids = sort (map fst ?by), cp_missing_contribution_ids = [],
               cp_digest = profile_digest digest (profile_of profile_id version r) (sort (remdups required)) (sort (map fst ?by)),
               cp_conflicts = [], cp_available = True\<rparr>))"
      using there by (simp add: compose_evidence_profile_def Let_def m checks lacking_def [symmetric] del: by_contribution_simps)
    have c: "composable profile_id version required cs \<longleftrightarrow>
        (deps_closed ?by \<and> acyclic_deps ?by) \<and> agree (all_stages ?ms) (all_records_of ?ms)"
      using there sub by (simp add: composable_def Let_def)
    show ?thesis
    proof (cases "validate_contribution_dependencies ?by")
      case (Inl e)
      then have "\<not> (deps_closed ?by \<and> acyclic_deps ?by)"
        using dependencies_iff [of ?by] by auto
      then show ?thesis by (auto simp: eq Inl c)
    next
      case (Inr u)
      then have deps: "deps_closed ?by \<and> acyclic_deps ?by"
        using dependencies_iff [of ?by] by simp
      show ?thesis
        using collect_cases [of ?by profile_id version]
        by (cases "collect_profile_requirements ?by") (simp_all add: eq Inr c deps)
    qed
  qed
qed

definition sample_contribution :: "string \<Rightarrow> string \<Rightarrow> string list \<Rightarrow> profile_contribution" where
  "sample_contribution i version requires =
     \<lparr>pc_contribution_id = i, pc_provider = ''dagster'', pc_profile_id = ''load'', pc_profile_version = version,
      pc_stages = [\<lparr>rq_stage_type = i, rq_provider = None, rq_required_event_types = [''stage.end''],
        rq_required_status = None, rq_allowed_statuses = [], rq_allow_no_data = False\<rparr>],
      pc_required_run_fields = [''status''], pc_required_records = [], pc_requires_terminal_event = True,
      pc_requires_contributions = requires\<rparr>"

theorem profile_composes_iff_witness:
  "(case compose_evidence_profile (\<lambda>_. ''d'') ''load'' ''1'' [''check'']
      [sample_contribution ''ingest'' ''1'' [], sample_contribution ''check'' ''1'' [''ingest'']] of
      Inl e \<Rightarrow> False
    | Inr c \<Rightarrow> cp_available c \<and> all_stages [sample_contribution ''ingest'' ''1'' [], sample_contribution ''check'' ''1'' [''ingest'']]
        = set (pf_stages (cp_profile c))) \<and>
   (case compose_evidence_profile (\<lambda>_. ''d'') ''load'' ''1'' []
      [sample_contribution ''ingest'' ''1'' [''check''], sample_contribution ''check'' ''1'' [''ingest'']] of
      Inl e \<Rightarrow> \<not> composable ''load'' ''1'' [] [sample_contribution ''ingest'' ''1'' [''check''], sample_contribution ''check'' ''1'' [''ingest'']]
    | Inr c \<Rightarrow> False)"
proof -
  let ?good = "[sample_contribution ''ingest'' ''1'' [], sample_contribution ''check'' ''1'' [''ingest'']]"
  let ?bad = "[sample_contribution ''ingest'' ''1'' [''check''], sample_contribution ''check'' ''1'' [''ingest'']]"
  have pre: "distinct (map pc_contribution_id ?good)" "distinct (map pc_contribution_id ?bad)"
      "py_strip ''load'' \<noteq> []" "py_strip ''1'' \<noteq> []" "filter (matches_profile ''load'' ''1'') ?good = ?good"
    by code_simp+
  have run: "(case compose_evidence_profile (\<lambda>_. ''d'') ''load'' ''1'' [''check''] ?good of Inl e \<Rightarrow> False | Inr c \<Rightarrow> cp_available c)"
      "(case compose_evidence_profile (\<lambda>_. ''d'') ''load'' ''1'' [] ?bad of Inl e \<Rightarrow> True | Inr c \<Rightarrow> False)"
    by code_simp+
  show ?thesis
    using run profile_composes_iff [OF pre(1, 3, 4), where digest = "\<lambda>_. ''d''" and required = "[''check'']"]
      profile_composes_iff [OF pre(2-4), where digest = "\<lambda>_. ''d''" and required = "[]"]
    unfolding pre(5) by (auto simp: requires_union_def split: sum.splits)
qed

text \<open>
  A contribution to another version with the id of one that matches is refused when it comes later, and
  passed over when it comes first.
\<close>

lemma duplicate_depends_on_order:
  "matching_contributions ''load'' ''1'' [sample_contribution ''ingest'' ''2'' [], sample_contribution ''ingest'' ''1'' []] =
     Inr [(''ingest'', sample_contribution ''ingest'' ''1'' [])]"
  "matching_contributions ''load'' ''1'' [sample_contribution ''ingest'' ''1'' [], sample_contribution ''ingest'' ''2'' []] =
     Inl (EvidenceProfileCompositionError ''duplicate_contribution'' [''ingest''])"
  by code_simp+

end
