(* ===== verification/Spec2Isabelle.thy ===== *)
theory Spec2Isabelle
  imports
    Dataset_Workflow
    Dataset_Import
    Lineage_Graph
    Schema_Evolution
    Rbac_Hierarchy
    Rbac_Controller
    Audit_Chain_Spec
    Operation_Journal_Spec
    Access_Governance_Spec
    Identity_Promises
    Enforcement_Spec
    Service_Tokens_Spec
    Postgres_Governance
    Run_Evidence_Examples
    Evidence_Profiles_Spec
begin

text \<open>
  Verification of the control core of phlo, a lakehouse platform in Python. The parts that decide what
  may happen to data are modelled: which dataset may be published and when, who may do what, and what
  the records of it prove. Each theory opens with what it holds; a definition keeps the name of the
  function it translates, with a prefix where two classes share a name.

  \<^bold>\<open>Prelude.\<close> \<open>Phlo_Prelude\<close> has the Python values the parts share: exceptions (\<open>py_error\<close>) and results
  that may raise (\<open>'a res\<close>), dictionaries as association lists in insertion order, JSON values without
  floating-point numbers, text of numbers and \<open>repr\<close>. Characters are the code points up to 255.
  \<open>Phlo_Json\<close> is \<open>json.dumps\<close>, \<open>Phlo_Text\<close> the string functions, anchored patterns, UTF-8 and base64.

  \<^bold>\<open>Datasets\<close> (\<open>phlo/dataset\<close>, \<open>phlo/dataset_state.py\<close>, \<open>phlo_postgres/dataset_state_store.py\<close>).
  \<open>Dataset_Models\<close>: identities, states, records. \<open>Dataset_Policy\<close>: the policy evaluator and its
  declarative reading. \<open>Dataset_Store\<close>: the in-memory and the settings-backed store, with the contract
  of both in the locale of \<open>Dataset_Store_Spec\<close>. \<open>Dataset_Service\<close>: the transition service, whose
  compare-and-set loop tries three times; other workers are a function applied between its reads and
  writes. \<open>Dataset_Service_Spec\<close>, \<open>Dataset_Lifecycle\<close>, \<open>Dataset_Workflow\<close>: every call under lawful
  interference is safe, atomic and returns; the two stores behave alike. \<open>Dataset_Migration\<close>,
  \<open>Dataset_Import\<close>: the planner of the legacy overlay and its idempotent import.

  \<^bold>\<open>Lineage and schemas.\<close> \<open>Lineage_Graph\<close>: the graph and its traversals are exactly reachability.
  \<open>Schema_Planning\<close>, \<open>Schema_Evolution\<close>: a migration plan applied in order reaches the desired schema.

  \<^bold>\<open>Access model\<close> (\<open>phlo/rbac\<close> and the governance backends of the engines). \<open>Rbac_Models\<close>,
  \<open>Rbac_Hierarchy\<close>: the canonical model, its validation and role expansion. \<open>Trino_Compiler\<close>,
  \<open>Trino_Governance\<close>, \<open>Trino_Sync\<close>, \<open>Trino_Convergence\<close>: compilation to grants, planning, applying and
  verifying them on an engine that is an argument; that a sync reaches the model is shown only for an engine as
  the backend takes it to be (\<open>grants_law\<close>), which is more than Trino documents of \<open>SHOW GRANTS\<close>. \<open>Rbac_Compilers\<close>: the PostgreSQL, MinIO and Nessie compilers and what they inherit.
  \<open>Nessie_Governance\<close>: the rules file, read back as it was rendered. \<open>Compiler_Convergence\<close>: the contract
  of a store of rules, in which a sync always reaches the model, and the rules file as such a store.
  \<open>Postgres_Governance\<close>: the statements of the PostgreSQL backend; on a server whose catalog views and
  statements are as documented (\<open>server_law\<close>), a second sync takes back the table grants of the first. \<open>Rbac_Sync\<close>, \<open>Rbac_Controller\<close>: the controller over any compilers, the Trino one among them.

  \<^bold>\<open>Enforcement\<close> (\<open>phlo/capabilities/authorization.py\<close>, \<open>phlo/identity/bridge.py\<close>, \<open>phlo/security\<close>).
  \<open>Phlo_Glob\<close>: \<open>fnmatch\<close>. \<open>Authorization\<close>: the default decision point. \<open>Identity_Bridge\<close>: from a caller to
  a principal with roles. \<open>Enforcement\<close>, \<open>Enforcement_Spec\<close>: the enforcement path with durable audit; in
  regulated mode an action needs a matching grant. \<open>Security_Mode\<close>: whether regulated mode is on, and
  which services may run.

  \<^bold>\<open>Service identity\<close> (\<open>phlo/security/service_identity.py\<close>). \<open>Phlo_Json_Read\<close>: \<open>json.loads\<close>, with
  the round trip over what \<open>json.dumps\<close> writes; its recursion is on the length of the input, which every
  step shortens. \<open>Service_Tokens\<close>: key rings, scoped and legacy tokens, the nonce table.
  \<open>Service_Tokens_Spec\<close>: the contract of a nonce store, which tokens are accepted, and how often: again only
  after a purge in the closing second.

  \<^bold>\<open>Records of what happened.\<close> \<open>Audit_Events\<close>: events and the emitter. \<open>Audit_Chain\<close>,
  \<open>Audit_Chain_Spec\<close>: the keyed hash chain in both stores; PostgreSQL verification reads at most 100000
  records. \<open>Operation_Journal\<close>, \<open>Operation_Journal_Spec\<close>: the journal protocol in both stores;
  exclusion is shown for processes that mark and complete only what they claimed and still work on, as the callers
  do, since the store itself checks no order of states.
  \<open>Access_Governance\<close>, \<open>Access_Governance_Spec\<close>: emergency access, separation of duties, dormancy,
  campaigns.

  \<^bold>\<open>Identity and signatures.\<close> \<open>Signatures\<close>: signature records, step-up challenges and the signature
  service. \<open>Identity_Authority\<close>: members, invitations, service accounts and single-use signatures in one
  settings record. \<open>Single_Use\<close>: the contract of an operation that spends something, in which it is spent
  for good. \<open>Identity_Spec\<close>, \<open>Identity_Promises\<close>: signatures, invitations, versions and revocations are
  such operations; a reviewed consumption needs four eyes.

  \<^bold>\<open>Run evidence\<close> (\<open>phlo/run_evidence\<close>). \<open>Run_Evidence_Models\<close>: statuses, the records producers
  write and the rows that are read back. \<open>Run_Reconciliation\<close>: the verdict over an observation of the
  provider and the stored rows; \<open>Run_Reconciliation_Spec\<close>, \<open>Run_Verdict_Spec\<close>: it is complete exactly on
  complete evidence, and the order of the rows hardly matters. \<open>Run_Evidence_Store\<close>: the tables and
  every operation that changes them, a transaction being one step. \<open>Run_Evidence_Spec\<close>: evidence is only
  ever added, and a replayed event adds nothing. \<open>Run_Stage_Replay\<close>: writing the events and stages of an
  observation a second time changes nothing. \<open>Run_Settlement_Spec\<close>: what a reconciliation leaves on
  the run, the first time and again. \<open>Run_Evidence_Examples\<close>: one run. \<open>Evidence_Profiles\<close>,
  \<open>Evidence_Profiles_Spec\<close>: when contributions compose to a profile, and what it then requires; the
  search for cycles ends because each step down puts another known contribution on the path.

  \<^bold>\<open>Not modelled.\<close> The web API, the orchestration, ingestion and transformation packages, the command
  line, compose files and plugin discovery: input and output, or glue to other programs. Of run evidence
  the listings, the report, the migrations of the schema and the redaction of texts. The MinIO
  governance backend, and the access check of the Nessie one, which runs regular expressions read from
  the file. Logging, locks (an operation under a lock is one step) and connection handling.
\<close>

end
